(* ===== verification/Prelude.thy ===== *)
theory Prelude
  imports Complex_Main "HOL-Library.AList" "HOL-Library.Char_ord" "HOL-Library.List_Lexorder"
    "HOL-Library.Product_Lexorder"
begin

text \<open>
  Shared vocabulary of the development: how Python strings, instants and dictionaries are
  represented, the field validators of \<open>contracts/base.py\<close> and \<open>contracts/ids.py\<close> that every
  contract uses, and the generic lemmas on dictionaries, sorted views and error values.

  Conventions. A Python \<open>str\<close> is the list of its UTF-8 bytes (\<open>string\<close>): equality,
  concatenation and JSON escaping agree with the code point view, and the byte-wise
  lexicographic order of UTF-8 is the code point order Python sorts by. An aware
  \<open>datetime\<close> is its UTC instant in microseconds. A \<open>dict\<close> is an association list in
  insertion order: \<open>AList.update\<close> overwrites in place and appends a new key at the end,
  \<open>AList.delete\<close> removes, \<open>map_of\<close> reads.
\<close>

subsection \<open>Collections of facts\<close>

named_theorems contract_defs \<open>definitions of the contract validators\<close>
named_theorems contract_simps \<open>rewrite rules that discharge contract re-validation\<close>

subsection \<open>Strings, instants and dictionaries\<close>

type_synonym instant = int
type_synonym ('k, 'v) dict = "('k \<times> 'v) list"

definition seconds :: "int \<Rightarrow> int" where
  "seconds n = n * 1000000"

lemma seconds_pos: "0 < n \<Longrightarrow> 0 < seconds n"
  by (simp add: seconds_def)

abbreviation dget :: "('k, 'v) dict \<Rightarrow> 'k \<Rightarrow> 'v option" where
  "dget d k \<equiv> map_of d k"

abbreviation dset :: "'k \<Rightarrow> 'v \<Rightarrow> ('k, 'v) dict \<Rightarrow> ('k, 'v) dict" where
  "dset k v d \<equiv> AList.update k v d"

abbreviation ddel :: "'k \<Rightarrow> ('k, 'v) dict \<Rightarrow> ('k, 'v) dict" where
  "ddel k d \<equiv> AList.delete k d"

definition dvals :: "('k, 'v) dict \<Rightarrow> 'v list" where
  "dvals d = map snd d"

definition dict_ok :: "('k, 'v) dict \<Rightarrow> bool" where
  "dict_ok d \<longleftrightarrow> distinct (map fst d)"

lemma dict_ok_Nil [simp]: "dict_ok []"
  by (simp add: dict_ok_def)

lemma dict_ok_dset [simp]: "dict_ok d \<Longrightarrow> dict_ok (dset k v d)"
  by (simp add: dict_ok_def distinct_update)

lemma dict_ok_ddel [simp]: "dict_ok d \<Longrightarrow> dict_ok (ddel k d)"
  by (simp add: dict_ok_def distinct_delete)

lemma dget_dset [simp]: "dget (dset k v d) j = (if j = k then Some v else dget d j)"
  by (simp add: update_conv')

lemma dget_ddel [simp]: "dget (ddel k d) j = (if j = k then None else dget d j)"
  by (simp add: delete_conv')

lemma dget_mem: "dget d k = Some v \<Longrightarrow> (k, v) \<in> set d"
  by (rule map_of_SomeD)

lemma mem_dget: "dict_ok d \<Longrightarrow> (k, v) \<in> set d \<longleftrightarrow> dget d k = Some v"
  by (auto simp: dict_ok_def)

lemma set_dvals: "dict_ok d \<Longrightarrow> v \<in> set (dvals d) \<longleftrightarrow> (\<exists>k. dget d k = Some v)"
  by (force simp: dvals_def mem_dget [symmetric])

lemma dget_in_dvals: "dget d k = Some v \<Longrightarrow> v \<in> set (dvals d)"
  by (force simp: dvals_def dest: map_of_SomeD)

lemma map_fst_dset_same: "dget d k = Some w \<Longrightarrow> map fst (dset k v d) = map fst d"
  by (induction d) (auto split: if_splits)

lemma dset_fresh: "dget d k = None \<Longrightarrow> dset k v d = d @ [(k, v)]"
  by (induction d) (auto split: if_splits)

subsection \<open>Error values\<close>

fun is_ok :: "'e + 'a \<Rightarrow> bool" where
  "is_ok (Inl e) = False"
| "is_ok (Inr a) = True"

lemma is_ok_conv: "is_ok x \<longleftrightarrow> (\<exists>a. x = Inr a)"
  by (cases x) auto

fun opt_all :: "('a \<Rightarrow> bool) \<Rightarrow> 'a option \<Rightarrow> bool" where
  "opt_all p None = True"
| "opt_all p (Some x) = p x"

text \<open>A pydantic \<open>ValidationError\<close>; its message never carries the rejected value.\<close>

datatype validation_error = ValidationError

definition revalidate :: "('a \<Rightarrow> bool) \<Rightarrow> 'a \<Rightarrow> validation_error + 'a" where
  "revalidate ok r = (if ok r then Inr r else Inl ValidationError)"

lemma revalidate_ok [simp]: "ok r \<Longrightarrow> revalidate ok r = Inr r"
  by (simp add: revalidate_def)

lemma revalidate_Inr: "revalidate ok r = Inr s \<longleftrightarrow> ok r \<and> s = r"
  by (auto simp: revalidate_def)

subsection \<open>Sorted views\<close>

text \<open>
  \<open>sorted(xs, key=f)\<close> is stable; with \<open>reverse=True\<close> equal keys keep their input order.
\<close>

definition sorted_desc :: "('a \<Rightarrow> 'b::linorder) \<Rightarrow> 'a list \<Rightarrow> 'a list" where
  "sorted_desc f xs = rev (sort_key f (rev xs))"

lemma set_sorted_desc [simp]: "set (sorted_desc f xs) = set xs"
  by (simp add: sorted_desc_def)

lemma length_sorted_desc [simp]: "length (sorted_desc f xs) = length xs"
  by (simp add: sorted_desc_def)

lemma distinct_sorted_desc [simp]: "distinct (sorted_desc f xs) = distinct xs"
  by (simp add: sorted_desc_def)

lemma sorted_desc_sorted: "sorted_wrt (\<lambda>a b. f b \<le> f a) (sorted_desc f xs)"
proof -
  have "sorted (map f (sort_key f (rev xs)))"
    by simp
  then have "sorted_wrt (\<lambda>a b. f a \<le> f b) (sort_key f (rev xs))"
    by (simp add: sorted_map)
  then show ?thesis
    by (simp add: sorted_desc_def sorted_wrt_rev)
qed

lemma sorted_wrt_take: "sorted_wrt p xs \<Longrightarrow> sorted_wrt p (take n xs)"
  by (metis append_take_drop_id sorted_wrt_append)

lemma sorted_wrt_take_drop:
  "sorted_wrt p xs \<Longrightarrow> x \<in> set (take n xs) \<Longrightarrow> y \<in> set (drop n xs) \<Longrightarrow> p x y"
  by (metis append_take_drop_id sorted_wrt_append)

subsection \<open>Field validators of the contract base\<close>

text \<open>
  The characters \<open>str.strip\<close> removes, as the UTF-8 encodings of the code points for which
  \<open>str.isspace\<close> holds.
\<close>

definition byte :: "nat \<Rightarrow> char" where
  "byte n = char_of n"

definition py_whitespace :: "string list" where
  "py_whitespace = map (map byte)
     [[9], [10], [11], [12], [13], [28], [29], [30], [31], [32],
      [194, 133], [194, 160], [225, 154, 128],
      [226, 128, 128], [226, 128, 129], [226, 128, 130], [226, 128, 131], [226, 128, 132],
      [226, 128, 133], [226, 128, 134], [226, 128, 135], [226, 128, 136], [226, 128, 137],
      [226, 128, 138], [226, 128, 168], [226, 128, 169], [226, 128, 175], [226, 129, 159],
      [227, 128, 128]]"

definition starts_with :: "string \<Rightarrow> string \<Rightarrow> bool" where
  "starts_with w s \<longleftrightarrow> take (length w) s = w"

definition ends_with :: "string \<Rightarrow> string \<Rightarrow> bool" where
  "ends_with w s \<longleftrightarrow> length w \<le> length s \<and> drop (length s - length w) s = w"

definition is_padded :: "string \<Rightarrow> bool" where
  "is_padded s \<longleftrightarrow> list_ex (\<lambda>w. starts_with w s \<or> ends_with w s) py_whitespace"

definition strict_str :: "string \<Rightarrow> bool" where
  "strict_str s \<longleftrightarrow> s \<noteq> [] \<and> \<not> is_padded s"

definition lower_hex :: "char \<Rightarrow> bool" where
  "lower_hex c \<longleftrightarrow> c \<in> set ''0123456789abcdef''"

definition sha256_hex :: "string \<Rightarrow> bool" where
  "sha256_hex s \<longleftrightarrow> length s = 64 \<and> list_all lower_hex s"

definition trace_id_ok :: "string \<Rightarrow> bool" where
  "trace_id_ok s \<longleftrightarrow> length s = 32 \<and> list_all lower_hex s"

definition ascii_alnum :: "char \<Rightarrow> bool" where
  "ascii_alnum c \<longleftrightarrow> (CHR ''0'' \<le> c \<and> c \<le> CHR ''9'') \<or> (CHR ''A'' \<le> c \<and> c \<le> CHR ''Z'')
     \<or> (CHR ''a'' \<le> c \<and> c \<le> CHR ''z'')"

definition task_id_ok :: "string \<Rightarrow> bool" where
  "task_id_ok s \<longleftrightarrow> strict_str s \<and> s \<noteq> [] \<and> ascii_alnum (hd s) \<and> length s \<le> 200
     \<and> list_all (\<lambda>c. ascii_alnum c \<or> c \<in> set ''._:-'') (tl s)"

text \<open>Text that begins and ends with an ASCII letter or digit is not padded.\<close>

lemma whitespace_not_alnum:
  "w \<in> set py_whitespace \<Longrightarrow> w \<noteq> [] \<and> \<not> ascii_alnum (hd w) \<and> \<not> ascii_alnum (last w)"
proof -
  have "list_all (\<lambda>w. w \<noteq> [] \<and> \<not> ascii_alnum (hd w) \<and> \<not> ascii_alnum (last w)) py_whitespace"
    by code_simp
  then show "w \<in> set py_whitespace \<Longrightarrow> ?thesis" by (simp add: list_all_iff)
qed

lemma strict_strI:
  assumes "s \<noteq> []" "ascii_alnum (hd s)" "ascii_alnum (last s)"
  shows "strict_str s"
proof -
  have "\<not> starts_with w s" "\<not> ends_with w s" if "w \<in> set py_whitespace" for w
  proof -
    have w: "w \<noteq> []" "\<not> ascii_alnum (hd w)" "\<not> ascii_alnum (last w)"
      using whitespace_not_alnum [OF that] by simp_all
    show "\<not> starts_with w s"
      using w assms by (cases w; cases s) (auto simp: starts_with_def)
    show "\<not> ends_with w s"
    proof
      assume "ends_with w s"
      then have "last w = last s"
        using w(1) unfolding ends_with_def by (metis drop_eq_Nil last_drop not_le)
      with w assms show False by simp
    qed
  qed
  then show ?thesis
    using assms(1) by (auto simp: strict_str_def is_padded_def list_ex_iff)
qed

end
