(* ===== verification/Canonical_Json.thy ===== *)
theory Canonical_Json
  imports Prelude "HOL-Library.Multiset"
begin

text \<open>
  The canonical serialiser of \<open>planning/canonical.py\<close>: \<open>_normalise\<close> on Python values and
  \<open>canonical_json\<close>, the byte string every fingerprint and every idempotency digest of the
  program is computed from. What the standard library supplies is a parameter, the record
  \<open>py_env\<close>: Unicode NFC, the shortest float rendering, SHA-256 and \<open>isoformat\<close>;
  \<open>py_env_ok\<close> states the documented behaviour the code relies on.
\<close>

subsection \<open>What the standard library supplies\<close>

datatype py_float = FNan | FInf | FNegInf | FNegZero | FFin rat

record py_env =
  env_nfc :: "string \<Rightarrow> string"
  env_float_repr :: "rat \<Rightarrow> string"
  env_sha256 :: "string \<Rightarrow> string"
  env_isoformat :: "instant \<Rightarrow> string"
  env_json_datetime :: "instant \<Rightarrow> string"

definition digit :: "char \<Rightarrow> bool" where
  "digit c \<longleftrightarrow> c \<in> set ''0123456789''"

definition number_char :: "char \<Rightarrow> bool" where
  "number_char c \<longleftrightarrow> digit c \<or> c \<in> set ''+-.e''"

text \<open>
  \<open>repr\<close> of a finite float is a decimal numeral with a point or an exponent, and different
  floats have different representations. A digest is 64 lowercase hex digits. Normalisation
  is idempotent and leaves ASCII text alone.
\<close>

definition float_repr_ok :: "(rat \<Rightarrow> string) \<Rightarrow> bool" where
  "float_repr_ok fr \<longleftrightarrow> inj fr \<and> (\<forall>q. fr q \<noteq> [] \<and> list_all number_char (fr q)
     \<and> (digit (hd (fr q)) \<or> hd (fr q) = CHR ''-'')
     \<and> \<not> list_all (\<lambda>c. digit c \<or> c = CHR ''-'') (fr q))"

definition ascii :: "string \<Rightarrow> bool" where
  "ascii s \<longleftrightarrow> list_all (\<lambda>c. of_char c < (128 :: nat)) s"

definition py_env_ok :: "py_env \<Rightarrow> bool" where
  "py_env_ok E \<longleftrightarrow> (\<forall>s. ascii s \<longrightarrow> env_nfc E s = s) \<and> (\<forall>s. env_nfc E (env_nfc E s) = env_nfc E s)
     \<and> (\<forall>s. sha256_hex (env_sha256 E s)) \<and> float_repr_ok (env_float_repr E)"

subsection \<open>Normalisation\<close>

datatype py_value =
    PNone
  | PBool bool
  | PInt int
  | PFloat py_float
  | PStr string
  | PBytes string
  | PMap "(py_value \<times> py_value) list"
  | PSeq "py_value list"
  | POther

datatype json =
    JNull
  | JBool bool
  | JInt int
  | JFloat rat
  | JStr string
  | JObj "(string \<times> json) list"
  | JArr "json list"

datatype canon_error = NonFiniteFloat | BytesValue | NonStrKey | KeyCollision | UnknownType

text \<open>
  \<open>_normalise\<close>: the first offending item decides the error. The accumulator of
  \<open>normalise_items\<close> is the set of keys already in \<open>out\<close>.
\<close>

fun normalise :: "(string \<Rightarrow> string) \<Rightarrow> py_value \<Rightarrow> canon_error + json"
  and normalise_items ::
    "(string \<Rightarrow> string) \<Rightarrow> string list \<Rightarrow> (py_value \<times> py_value) list
       \<Rightarrow> canon_error + (string \<times> json) list"
  and normalise_seq :: "(string \<Rightarrow> string) \<Rightarrow> py_value list \<Rightarrow> canon_error + json list"
where
  "normalise nfc PNone = Inr JNull"
| "normalise nfc (PBool b) = Inr (JBool b)"
| "normalise nfc (PInt i) = Inr (JInt i)"
| "normalise nfc (PFloat f) =
     (case f of FNegZero \<Rightarrow> Inr (JFloat 0) | FFin q \<Rightarrow> Inr (JFloat q)
        | _ \<Rightarrow> Inl NonFiniteFloat)"
| "normalise nfc (PStr s) = Inr (JStr (nfc s))"
| "normalise nfc (PBytes s) = Inl BytesValue"
| "normalise nfc (PMap items) =
     (case normalise_items nfc [] items of Inl e \<Rightarrow> Inl e | Inr out \<Rightarrow> Inr (JObj out))"
| "normalise nfc (PSeq xs) =
     (case normalise_seq nfc xs of Inl e \<Rightarrow> Inl e | Inr out \<Rightarrow> Inr (JArr out))"
| "normalise nfc POther = Inl UnknownType"
| "normalise_items nfc seen [] = Inr []"
| "normalise_items nfc seen ((PStr key, item) # rest) =
     (if nfc key \<in> set seen then Inl KeyCollision
      else case normalise nfc item of
          Inl e \<Rightarrow> Inl e
        | Inr j \<Rightarrow>
            (case normalise_items nfc (nfc key # seen) rest of
               Inl e \<Rightarrow> Inl e
             | Inr out \<Rightarrow> Inr ((nfc key, j) # out)))"
| "normalise_items nfc seen ((key, item) # rest) = Inl NonStrKey"
| "normalise_seq nfc [] = Inr []"
| "normalise_seq nfc (x # xs) =
     (case normalise nfc x of
        Inl e \<Rightarrow> Inl e
      | Inr j \<Rightarrow>
          (case normalise_seq nfc xs of Inl e \<Rightarrow> Inl e | Inr out \<Rightarrow> Inr (j # out)))"

subsection \<open>Serialisation: \<open>json.dumps\<close> with sorted keys and no white space\<close>

fun dec_nat :: "nat \<Rightarrow> string" where
  "dec_nat n = (if n < 10 then [byte (48 + n)] else dec_nat (n div 10) @ [byte (48 + n mod 10)])"

declare dec_nat.simps [simp del]

definition dec_int :: "int \<Rightarrow> string" where
  "dec_int i = (if i < 0 then CHR ''-'' # dec_nat (nat (- i)) else dec_nat (nat i))"

definition hex_digit :: "nat \<Rightarrow> char" where
  "hex_digit n = ''0123456789abcdef'' ! n"

text \<open>
  With \<open>ensure_ascii=False\<close> only the quote, the backslash and the control characters below
  32 are escaped; the short escapes come first.
\<close>

definition escape_char :: "char \<Rightarrow> string" where
  "escape_char c =
     (let n = of_char c :: nat in
      if n = 34 then [byte 92, byte 34]
      else if n = 92 then [byte 92, byte 92]
      else if n = 8 then [byte 92, CHR ''b'']
      else if n = 12 then [byte 92, CHR ''f'']
      else if n = 10 then [byte 92, CHR ''n'']
      else if n = 13 then [byte 92, CHR ''r'']
      else if n = 9 then [byte 92, CHR ''t'']
      else if n < 32 then
        [byte 92, CHR ''u'', CHR ''0'', CHR ''0'', hex_digit (n div 16), hex_digit (n mod 16)]
      else [c])"

definition quote_string :: "string \<Rightarrow> string" where
  "quote_string s = byte 34 # concat (map escape_char s) @ [byte 34]"

fun sort_keys :: "json \<Rightarrow> json" where
  "sort_keys (JObj items) = JObj (sort_key fst (map (\<lambda>(k, v). (k, sort_keys v)) items))"
| "sort_keys (JArr xs) = JArr (map sort_keys xs)"
| "sort_keys j = j"

fun dumps :: "(rat \<Rightarrow> string) \<Rightarrow> json \<Rightarrow> string"
  and dumps_items :: "(rat \<Rightarrow> string) \<Rightarrow> (string \<times> json) list \<Rightarrow> string"
  and dumps_seq :: "(rat \<Rightarrow> string) \<Rightarrow> json list \<Rightarrow> string"
where
  "dumps fr JNull = ''null''"
| "dumps fr (JBool b) = (if b then ''true'' else ''false'')"
| "dumps fr (JInt i) = dec_int i"
| "dumps fr (JFloat q) = fr q"
| "dumps fr (JStr s) = quote_string s"
| "dumps fr (JObj items) = ''{'' @ dumps_items fr items @ ''}''"
| "dumps fr (JArr xs) = ''['' @ dumps_seq fr xs @ '']''"
| "dumps_items fr [] = []"
| "dumps_items fr ((k, v) # rest) =
     quote_string k @ '':'' @ dumps fr v
       @ (if rest = [] then [] else '','' @ dumps_items fr rest)"
| "dumps_seq fr [] = []"
| "dumps_seq fr (x # xs) = dumps fr x @ (if xs = [] then [] else '','' @ dumps_seq fr xs)"

definition canonical_json :: "py_env \<Rightarrow> py_value \<Rightarrow> canon_error + string" where
  "canonical_json E v =
     (case normalise (env_nfc E) v of
        Inl e \<Rightarrow> Inl e
      | Inr j \<Rightarrow> Inr (dumps (env_float_repr E) (sort_keys j)))"

subsection \<open>Unique decodability of the serialisation\<close>

fun val10 :: "nat \<Rightarrow> string \<Rightarrow> nat" where
  "val10 a [] = a"
| "val10 a (c # cs) = val10 (10 * a + (of_char c - 48)) cs"

lemma val10_append: "val10 a (xs @ ys) = val10 (val10 a xs) ys"
  by (induction a xs rule: val10.induct) auto

lemma of_char_byte: "n < 256 \<Longrightarrow> of_char (byte n) = n"
  by (simp add: byte_def)

lemma val10_dec_nat: "val10 0 (dec_nat n) = n"
proof (induction n rule: dec_nat.induct)
  case (1 n)
  show ?case
    by (subst dec_nat.simps) (use 1 in \<open>auto simp: val10_append of_char_byte\<close>)
qed

lemma inj_dec_nat: "dec_nat m = dec_nat n \<longleftrightarrow> m = n"
  by (metis val10_dec_nat)

lemma digit_byte: "n < 10 \<Longrightarrow> digit (byte (48 + n))"
proof -
  assume "n < 10"
  then have "n \<in> set [0..<10]" by simp
  moreover have "\<forall>n \<in> set [0..<10]. digit (byte (48 + n))"
    by code_simp
  ultimately show ?thesis by blast
qed

lemma dec_nat_digits: "list_all digit (dec_nat n) \<and> dec_nat n \<noteq> []"
proof (induction n rule: dec_nat.induct)
  case (1 n)
  have "n < 10 \<or> list_all digit (dec_nat (n div 10))"
    using 1 by blast
  then show ?case
    by (subst (1 2) dec_nat.simps) (auto simp: digit_byte)
qed

lemma minus_not_digit [simp]: "\<not> digit (CHR ''-'')"
  by (simp add: digit_def)

lemma dec_int_chars:
  "list_all (\<lambda>c. digit c \<or> c = CHR ''-'') (dec_int i)" "dec_int i \<noteq> []"
  using dec_nat_digits [of "nat i"] dec_nat_digits [of "nat (- i)"]
  by (auto simp: dec_int_def list_all_iff)

lemma dec_nat_no_minus: "dec_nat n \<noteq> CHR ''-'' # cs"
  using dec_nat_digits [of n] by auto

lemma inj_dec_int: "dec_int i = dec_int j \<longleftrightarrow> i = j"
  by (auto simp: dec_int_def inj_dec_nat dec_nat_no_minus dec_nat_no_minus [symmetric])

lemma hex_digit_inj: "m < 16 \<Longrightarrow> n < 16 \<Longrightarrow> hex_digit m = hex_digit n \<Longrightarrow> m = n"
proof -
  assume "m < 16" "n < 16" "hex_digit m = hex_digit n"
  moreover have "distinct ''0123456789abcdef''" by simp
  ultimately show ?thesis
    by (simp add: hex_digit_def nth_eq_iff_index_eq del: nth_Cons_numeral)
qed

text \<open>The first two bytes fix the length of an escape, and the escape fixes the character.\<close>

fun escape_len :: "string \<Rightarrow> nat" where
  "escape_len (a # b # cs) =
     (if a \<noteq> byte 92 then 1 else if b = CHR ''u'' then 6 else 2)"
| "escape_len cs = 1"

fun unescape :: "string \<Rightarrow> nat" where
  "unescape [a] = of_char a"
| "unescape [a, b] =
     (let n = of_char b :: nat in
      if n = 98 then 8 else if n = 102 then 12 else if n = 110 then 10
      else if n = 114 then 13 else if n = 116 then 9 else n)"
| "unescape [a, b, c, d, e, f] =
     16 * length (takeWhile (\<lambda>x. x \<noteq> e) ''0123456789abcdef'')
     + length (takeWhile (\<lambda>x. x \<noteq> f) ''0123456789abcdef'')"
| "unescape cs = 0"

lemma byte_char_neq: "byte 92 \<noteq> CHR ''u''" "byte 34 \<noteq> CHR ''u''" "byte 92 \<noteq> byte 34"
  by code_simp+

lemma of_char_escapes:
  "of_char (CHR ''b'') = (98 :: nat)" "of_char (CHR ''f'') = (102 :: nat)"
  "of_char (CHR ''n'') = (110 :: nat)" "of_char (CHR ''r'') = (114 :: nat)"
  "of_char (CHR ''t'') = (116 :: nat)" "of_char (CHR ''u'') = (117 :: nat)"
  by simp_all

lemma char_of_char_neq: "of_char c \<noteq> (n :: nat) \<Longrightarrow> n < 256 \<Longrightarrow> c \<noteq> byte n"
  by (auto simp: byte_def)

lemma escape_len: "escape_len (escape_char c @ x) = length (escape_char c)"
  by (cases x) (auto simp: escape_char_def Let_def byte_char_neq char_of_char_neq)

lemma hex_digit_index:
  assumes "n < 16"
  shows "length (takeWhile (\<lambda>x. x \<noteq> hex_digit n) ''0123456789abcdef'') = n"
proof -
  have "\<forall>n \<in> set [0..<16].
      length (takeWhile (\<lambda>x. x \<noteq> hex_digit n) ''0123456789abcdef'') = n"
    by code_simp
  then show ?thesis using assms by auto
qed

lemma unescape_escape: "unescape (escape_char c) = of_char c"
  unfolding escape_char_def Let_def
  by (auto simp: of_char_byte of_char_escapes hex_digit_index simp del: takeWhile.simps)

lemma escape_char_inj:
  assumes "escape_char c @ x = escape_char d @ y"
  shows "c = d \<and> x = y"
proof -
  have "length (escape_char c) = length (escape_char d)"
    using assms escape_len by metis
  with assms have "escape_char c = escape_char d" "x = y" by auto
  then have "(of_char c :: nat) = of_char d" by (metis unescape_escape)
  with \<open>x = y\<close> show ?thesis by simp
qed

lemma escape_char_hd: "hd (escape_char c) \<noteq> byte 34 \<and> escape_char c \<noteq> []"
  by (auto simp: escape_char_def Let_def byte_def)

lemma quote_body_inj:
  "concat (map escape_char a) @ byte 34 # s = concat (map escape_char b) @ byte 34 # t
     \<Longrightarrow> a = b \<and> s = t"
proof (induction a arbitrary: b)
  case Nil
  then show ?case
    using escape_char_hd by (cases b) (auto simp: hd_append2, metis append_Cons hd_append2 list.sel(1))
next
  case (Cons c a)
  show ?case
  proof (cases b)
    case Nil
    with Cons.prems show ?thesis
      using escape_char_hd [of c] by (auto, metis hd_append2 list.sel(1))
  next
    case (Cons d b')
    with Cons.prems have "escape_char c @ concat (map escape_char a) @ byte 34 # s
        = escape_char d @ concat (map escape_char b') @ byte 34 # t" by simp
    then have "c = d" "concat (map escape_char a) @ byte 34 # s
        = concat (map escape_char b') @ byte 34 # t"
      using escape_char_inj by blast+
    with Cons.IH Cons show ?thesis by auto
  qed
qed

lemma quote_string_inj: "quote_string a @ s = quote_string b @ t \<longleftrightarrow> a = b \<and> s = t"
  using quote_body_inj [of a s b t] by (auto simp: quote_string_def)

text \<open>A number is read up to the first character that cannot belong to it.\<close>

definition delimited :: "string \<Rightarrow> bool" where
  "delimited s \<longleftrightarrow> s = [] \<or> hd s \<in> {CHR '','', CHR '']'', CHR ''}''}"

lemma delimited_simps [simp]:
  "delimited []" "delimited (CHR '','' # s)" "delimited (CHR '']'' # s)"
  "delimited (CHR ''}'' # s)"
  by (simp_all add: delimited_def)

lemma delim_not_number:
  "\<not> number_char (CHR '','')" "\<not> number_char (CHR '']'')" "\<not> number_char (CHR ''}'')"
  by (simp_all add: number_char_def digit_def)

lemma delimited_not_number: "delimited s \<Longrightarrow> takeWhile number_char s = []"
  by (cases s) (auto simp: delimited_def delim_not_number)

lemma number_token_inj:
  assumes "list_all number_char a" "list_all number_char b" "delimited s" "delimited t"
    and "a @ s = b @ t"
  shows "a = b \<and> s = t"
proof -
  have "takeWhile number_char (a @ s) = a" "takeWhile number_char (b @ t) = b"
    using assms(1-4) by (simp_all add: takeWhile_append2 delimited_not_number list_all_iff)
  with assms(5) show ?thesis by simp
qed

lemma digit_number: "digit c \<Longrightarrow> number_char c"
  by (simp add: number_char_def)

lemma minus_number: "number_char (CHR ''-'')"
  by (simp add: number_char_def)

lemma dec_int_number: "list_all number_char (dec_int i)"
  using dec_int_chars(1) [of i] digit_number minus_number
  unfolding list_all_iff by blast

lemma dec_int_hd: "digit (hd (dec_int i)) \<or> hd (dec_int i) = CHR ''-''"
  using dec_int_chars [of i] by (cases "dec_int i") auto


lemma float_repr_number:
  assumes "float_repr_ok fr"
  shows "list_all number_char (fr q)" "fr q \<noteq> []" "digit (hd (fr q)) \<or> hd (fr q) = CHR ''-''"
    "fr q \<noteq> dec_int i" "fr q = fr r \<longleftrightarrow> q = r"
proof -
  from assms show "list_all number_char (fr q)" "fr q \<noteq> []"
      "digit (hd (fr q)) \<or> hd (fr q) = CHR ''-''" "fr q = fr r \<longleftrightarrow> q = r"
    by (auto simp: float_repr_ok_def inj_eq)
  from assms have "\<not> list_all (\<lambda>c. digit c \<or> c = CHR ''-'') (fr q)"
    by (simp add: float_repr_ok_def)
  then show "fr q \<noteq> dec_int i"
    using dec_int_chars(1) [of i] by metis
qed

text \<open>The first byte of a serialisation tells its constructor, numbers apart.\<close>

definition number_start :: "string \<Rightarrow> bool" where
  "number_start s \<longleftrightarrow> s \<noteq> [] \<and> (digit (hd s) \<or> hd s = CHR ''-'')"

lemma digit_heads:
  "\<not> digit (CHR ''n'')" "\<not> digit (CHR ''t'')" "\<not> digit (CHR ''f'')" "\<not> digit (CHR ''{'')"
  "\<not> digit (CHR ''['')" "\<not> digit (CHR '']'')" "\<not> digit (byte 34)" "byte 34 \<noteq> CHR ''-''"
  by code_simp+

lemma number_start_simps [simp]:
  "number_start (dec_int i @ s)" "\<not> number_start (CHR ''n'' # s)" "\<not> number_start (CHR ''t'' # s)"
  "\<not> number_start (CHR ''f'' # s)" "\<not> number_start (CHR ''{'' # s)"
  "\<not> number_start (CHR ''['' # s)" "\<not> number_start (quote_string a @ s)"
  "\<not> number_start (CHR '']'' # s)"
  using dec_int_hd [of i] dec_int_chars(2) [of i]
  by (simp_all add: number_start_def digit_heads quote_string_def)

lemma number_start_float: "float_repr_ok fr \<Longrightarrow> number_start (fr q @ s)"
  using float_repr_number(2,3) [of fr q] by (auto simp: number_start_def hd_append)

lemma quote_head: "quote_string a @ s \<noteq> c # t" if "c \<noteq> byte 34"
  using that by (auto simp: quote_string_def)

lemma neq_number: "number_start s \<Longrightarrow> \<not> number_start t \<Longrightarrow> s \<noteq> t"
  by auto


lemma byte34_neq:
  "byte 34 \<noteq> CHR ''n''" "byte 34 \<noteq> CHR ''t''" "byte 34 \<noteq> CHR ''f''" "byte 34 \<noteq> CHR ''{''"
  "byte 34 \<noteq> CHR ''[''" "byte 34 \<noteq> CHR '']''" "byte 34 \<noteq> CHR ''}''"
  by code_simp+

lemma dumps_heads:
  "number_start (dumps fr (JInt i) @ s)"
  "\<not> number_start (dumps fr JNull @ s)" "\<not> number_start (dumps fr (JBool b) @ s)"
  "\<not> number_start (dumps fr (JStr a) @ s)" "\<not> number_start (dumps fr (JObj its) @ s)"
  "\<not> number_start (dumps fr (JArr xs) @ s)"
  by simp_all

lemma dumps_not_bracket:
  assumes "float_repr_ok fr"
  shows "dumps fr j @ s \<noteq> CHR '']'' # t" "dumps fr j @ s \<noteq> CHR ''}'' # t"
proof -
  have n: "\<not> number_start (CHR '']'' # t)" "\<not> number_start (CHR ''}'' # t)"
    by (simp_all add: number_start_def digit_def)
  show "dumps fr j @ s \<noteq> CHR '']'' # t"
    using neq_number [OF _ n(1)] number_start_float [OF assms] number_start_simps(1)
    by (cases j) (auto simp: quote_string_def byte34_neq)
  show "dumps fr j @ s \<noteq> CHR ''}'' # t"
    using neq_number [OF _ n(2)] number_start_float [OF assms] number_start_simps(1)
    by (cases j) (auto simp: quote_string_def byte34_neq)
qed

definition decodable :: "(rat \<Rightarrow> string) \<Rightarrow> json \<Rightarrow> bool" where
  "decodable fr j \<longleftrightarrow> (\<forall>j' s t. delimited s \<longrightarrow> delimited t \<longrightarrow> dumps fr j @ s = dumps fr j' @ t
      \<longrightarrow> j = j' \<and> s = t)"

lemma decodableD:
  "decodable fr j \<Longrightarrow> delimited s \<Longrightarrow> delimited t \<Longrightarrow> dumps fr j @ s = dumps fr j' @ t
     \<Longrightarrow> j = j' \<and> s = t"
  by (simp add: decodable_def)

lemma seq_tail_delimited:
  "delimited ((if xs = [] then [] else '','' @ dumps_seq fr xs) @ '']'' @ s)"
  by simp

lemma decodable_seq:
  assumes fr: "float_repr_ok fr" and "\<forall>x \<in> set xs. decodable fr x"
    and "dumps_seq fr xs @ '']'' @ s = dumps_seq fr xs' @ '']'' @ t"
  shows "xs = xs' \<and> s = t"
  using assms(2,3)
proof (induction xs arbitrary: xs')
  case Nil
  then show ?case
    by (cases xs') (auto simp: dumps_not_bracket [OF fr] dest: sym)
next
  case (Cons x xs)
  show ?case
  proof (cases xs')
    case Nil
    with Cons.prems show ?thesis by (simp add: dumps_not_bracket [OF fr])
  next
    case (Cons y ys)
    have "x = y \<and> (if xs = [] then [] else '','' @ dumps_seq fr xs) @ '']'' @ s
        = (if ys = [] then [] else '','' @ dumps_seq fr ys) @ '']'' @ t"
      using Cons.prems Cons by (intro decodableD [of fr]) simp_all
    then show ?thesis
      using Cons.IH [of ys] Cons.prems(1) Cons by (auto split: if_splits)
  qed
qed

lemma decodable_items:
  assumes fr: "float_repr_ok fr" and "\<forall>p \<in> set its. decodable fr (snd p)"
    and "dumps_items fr its @ ''}'' @ s = dumps_items fr its' @ ''}'' @ t"
  shows "its = its' \<and> s = t"
  using assms(2,3)
proof (induction its arbitrary: its')
  case Nil
  then show ?case
    by (cases its') (auto simp: quote_string_def byte34_neq dest: sym)
next
  case (Cons p its)
  obtain k v where p: "p = (k, v)" by fastforce
  show ?case
  proof (cases its')
    case Nil
    with Cons.prems p show ?thesis by (simp add: quote_string_def byte34_neq)
  next
    case (Cons q qs)
    obtain k' v' where q: "q = (k', v')" by fastforce
    have key: "k = k' \<and> '':'' @ dumps fr v @ (if its = [] then [] else '','' @ dumps_items fr its) @ ''}'' @ s
        = '':'' @ dumps fr v' @ (if qs = [] then [] else '','' @ dumps_items fr qs) @ ''}'' @ t"
      using Cons.prems(2) Cons p q
      by (subst quote_string_inj [symmetric]) simp
    then have "v = v' \<and> (if its = [] then [] else '','' @ dumps_items fr its) @ ''}'' @ s
        = (if qs = [] then [] else '','' @ dumps_items fr qs) @ ''}'' @ t"
      using Cons.prems(1) p by (intro decodableD [of fr]) simp_all
    with key show ?thesis
      using Cons.IH [of qs] Cons.prems(1) Cons p q by (auto split: if_splits)
  qed
qed

fun shape :: "json \<Rightarrow> nat" where
  "shape JNull = 0"
| "shape (JBool b) = 1"
| "shape (JInt i) = 2"
| "shape (JFloat q) = 2"
| "shape (JStr a) = 3"
| "shape (JObj its) = 4"
| "shape (JArr xs) = 5"

lemma number_shape: "float_repr_ok fr \<Longrightarrow> number_start (dumps fr j @ s) \<longleftrightarrow> shape j = 2"
  using number_start_float by (cases j) auto

lemma same_shape:
  assumes fr: "float_repr_ok fr" and eq: "dumps fr j @ s = dumps fr j' @ t"
  shows "shape j = shape j'"
proof (cases "shape j = 2")
  case True
  then show ?thesis using number_shape [OF fr] eq by metis
next
  case False
  then have "shape j' \<noteq> 2" using number_shape [OF fr] eq by metis
  with False eq show ?thesis
    by (cases j; cases j')
      (auto simp: quote_string_def byte34_neq byte34_neq [symmetric] split: if_splits)
qed

lemma decodableI:
  assumes "float_repr_ok fr"
    and "\<And>j' s t. delimited s \<Longrightarrow> delimited t \<Longrightarrow> dumps fr j @ s = dumps fr j' @ t
      \<Longrightarrow> shape j' = shape j \<Longrightarrow> j = j' \<and> s = t"
  shows "decodable fr j"
  unfolding decodable_def using assms(2) same_shape [OF assms(1)] by metis

lemma number_decodable:
  assumes fr: "float_repr_ok fr" and "shape j = 2"
  shows "decodable fr j"
proof (rule decodableI [OF fr])
  fix j' s t
  assume st: "delimited s" "delimited t" and eq: "dumps fr j @ s = dumps fr j' @ t"
    and sh: "shape j' = shape j"
  have num: "shape k = 2 \<Longrightarrow> list_all number_char (dumps fr k)" for k
    using dec_int_number float_repr_number(1) [OF fr] by (cases k) auto
  have "dumps fr j = dumps fr j' \<and> s = t"
    using number_token_inj [OF num num st eq] assms(2) sh by simp
  then show "j = j' \<and> s = t"
    using assms(2) sh float_repr_number(4,5) [OF fr]
    by (cases j; cases j') (auto simp: inj_dec_int dest: sym)
qed

lemma dumps_decodable:
  assumes fr: "float_repr_ok fr"
  shows "decodable fr j"
proof (induction j)
  case JNull
  show ?case by (rule decodableI [OF fr], case_tac j') auto
next
  case (JBool b)
  show ?case by (rule decodableI [OF fr], case_tac j') (auto split: if_splits)
next
  case (JStr a)
  show ?case by (rule decodableI [OF fr], case_tac j') (auto simp: quote_string_inj)
next
  case (JObj its)
  then have its: "\<forall>p \<in> set its. decodable fr (snd p)"
    by (metis snds.intros)
  show ?case
  proof (rule decodableI [OF fr])
    fix j' s t
    assume "dumps fr (JObj its) @ s = dumps fr j' @ t" "shape j' = shape (JObj its)"
    then show "JObj its = j' \<and> s = t"
      using decodable_items [OF fr its, of s] by (cases j') auto
  qed
next
  case (JArr xs)
  then have xs: "\<forall>x \<in> set xs. decodable fr x" by blast
  show ?case
  proof (rule decodableI [OF fr])
    fix j' s t
    assume "dumps fr (JArr xs) @ s = dumps fr j' @ t" "shape j' = shape (JArr xs)"
    then show "JArr xs = j' \<and> s = t"
      using decodable_seq [OF fr xs, of s] by (cases j') auto
  qed
qed (simp_all add: number_decodable [OF fr])

lemma dumps_inj: "float_repr_ok fr \<Longrightarrow> dumps fr j = dumps fr j' \<longleftrightarrow> j = j'"
  using decodableD [OF dumps_decodable, of fr "[]" "[]" j j'] by auto



subsection \<open>Dictionary order does not matter, everything else does\<close>

text \<open>Reference semantics: objects are equal as finite maps, arrays element by element.\<close>

fun json_wf :: "json \<Rightarrow> bool" where
  "json_wf (JObj items) \<longleftrightarrow> distinct (map fst items) \<and> (\<forall>p \<in> set items. json_wf (snd p))"
| "json_wf (JArr xs) \<longleftrightarrow> (\<forall>x \<in> set xs. json_wf x)"
| "json_wf j \<longleftrightarrow> True"

lemma size_snd_less: "p \<in> set items \<Longrightarrow> size (snd p) < Suc (size_list (size_prod (\<lambda>x. 0) size) items)"
  by (induction items) (auto simp: less_Suc_eq_le prod.size_neq intro: le_SucI trans_le_add1 trans_le_add2 split: prod.splits)

lemma size_fst_less: "p \<in> set (zip xs ys) \<Longrightarrow> size (fst p) < Suc (size_list size xs)"
  by (cases p) (auto dest!: set_zip_leftD simp: less_Suc_eq_le intro: size_list_estimation')

function json_equiv :: "json \<Rightarrow> json \<Rightarrow> bool" where
  "json_equiv (JObj a) k \<longleftrightarrow>
     (case k of
        JObj b \<Rightarrow> length a = length b
          \<and> (\<forall>p \<in> set a. case map_of b (fst p) of None \<Rightarrow> False | Some v \<Rightarrow> json_equiv (snd p) v)
      | _ \<Rightarrow> False)"
| "json_equiv (JArr xs) k \<longleftrightarrow>
     (case k of
        JArr ys \<Rightarrow> length xs = length ys \<and> (\<forall>p \<in> set (zip xs ys). json_equiv (fst p) (snd p))
      | _ \<Rightarrow> False)"
| "json_equiv JNull k \<longleftrightarrow> k = JNull"
| "json_equiv (JBool c) k \<longleftrightarrow> k = JBool c"
| "json_equiv (JInt i) k \<longleftrightarrow> k = JInt i"
| "json_equiv (JFloat q) k \<longleftrightarrow> k = JFloat q"
| "json_equiv (JStr s) k \<longleftrightarrow> k = JStr s"
  by pat_completeness auto
termination
  by (relation "measure (\<lambda>(j, k). size j)") (auto dest: size_snd_less size_fst_less)

definition sort_value :: "string \<times> json \<Rightarrow> string \<times> json" where
  "sort_value p = (fst p, sort_keys (snd p))"

lemma sort_keys_obj: "sort_keys (JObj a) = JObj (sort_key fst (map sort_value a))"
proof -
  have "(\<lambda>(k, v). (k, sort_keys v)) = sort_value"
    by (auto simp: sort_value_def)
  then show ?thesis by simp
qed

lemma fst_sort_value [simp]: "fst (sort_value p) = fst p"
  by (simp add: sort_value_def)

lemma map_fst_sort_value: "map fst (map sort_value a) = map fst a"
  by simp

lemma sort_key_eq_iff:
  fixes a b :: "('k::linorder \<times> 'v) list"
  assumes "distinct (map fst a)" "distinct (map fst b)"
  shows "sort_key fst a = sort_key fst b \<longleftrightarrow> set a = set b"
proof
  assume "sort_key fst a = sort_key fst b"
  then show "set a = set b" by (metis set_sort)
next
  assume eq: "set a = set b"
  have "mset a = mset b"
    using assms eq by (auto simp: distinct_map set_eq_iff_mset_eq_distinct)
  moreover have "inj_on fst (set a)"
    using assms(1) by (simp add: distinct_map)
  ultimately have "sort_key fst a = sort_key fst b"
    by (intro sort_key_inj_key_eq) auto
  then show "sort_key fst a = sort_key fst b" .
qed

lemma set_sort_value_eq:
  assumes wf: "distinct (map fst a)" "distinct (map fst b)"
  shows "set (map sort_value a) = set (map sort_value b) \<longleftrightarrow> length a = length b
     \<and> (\<forall>p \<in> set a. \<exists>v. map_of b (fst p) = Some v \<and> sort_keys (snd p) = sort_keys v)"
    (is "?l \<longleftrightarrow> ?r")
proof
  assume l: ?l
  have "length a = card (set (map sort_value a))" "length b = card (set (map sort_value b))"
    using wf by (metis distinct_card distinct_map length_map map_fst_sort_value)+
  then have "length a = length b" using l by simp
  moreover have "\<exists>v. map_of b (fst p) = Some v \<and> sort_keys (snd p) = sort_keys v"
    if "p \<in> set a" for p
  proof -
    from that l obtain q where "q \<in> set b" "sort_value p = sort_value q"
      by (metis (no_types, lifting) image_iff list.set_map)
    with wf(2) show ?thesis
      by (auto simp: sort_value_def intro!: exI [of _ "snd q"] map_of_is_SomeI)
  qed
  ultimately show ?r by blast
next
  assume r: ?r
  have "set (map sort_value a) \<subseteq> set (map sort_value b)"
  proof
    fix x assume "x \<in> set (map sort_value a)"
    then obtain p where p: "p \<in> set a" "x = sort_value p" by auto
    with r obtain v where "map_of b (fst p) = Some v" "sort_keys (snd p) = sort_keys v" by blast
    then show "x \<in> set (map sort_value b)"
      using p by (auto simp: sort_value_def image_iff dest!: map_of_SomeD intro!: bexI [of _ "(fst p, v)"])
  qed
  moreover have "card (set (map sort_value a)) = card (set (map sort_value b))"
    using r wf by (metis distinct_card distinct_map length_map map_fst_sort_value)
  ultimately show ?l
    by (intro card_subset_eq) auto
qed

lemma sort_keys_equiv:
  "json_wf j \<Longrightarrow> json_wf k \<Longrightarrow> sort_keys j = sort_keys k \<longleftrightarrow> json_equiv j k"
proof (induction j k rule: json_equiv.induct)
  case (1 a k)
  show ?case
  proof (cases k)
    case (JObj b)
    have "(\<exists>v. map_of b (fst p) = Some v \<and> sort_keys (snd p) = sort_keys v)
        \<longleftrightarrow> (case map_of b (fst p) of None \<Rightarrow> False | Some v \<Rightarrow> json_equiv (snd p) v)"
      if "p \<in> set a" for p
    proof (cases "map_of b (fst p)")
      case (Some v)
      then have "json_wf v" "json_wf (snd p)"
        using 1(2,3) JObj that map_of_SomeD [OF Some] by auto
      then show ?thesis using 1(1) [OF JObj that Some] Some by simp
    qed simp
    moreover have "distinct (map fst a)" "distinct (map fst b)"
      using 1(2,3) JObj by auto
    ultimately show ?thesis
      unfolding JObj sort_keys_obj json.inject json_equiv.simps json.case
      by (subst sort_key_eq_iff) (auto simp only: map_fst_sort_value set_sort_value_eq)
  qed auto
next
  case (2 xs k)
  show ?case
  proof (cases k)
    case (JArr ys)
    have "map sort_keys xs = map sort_keys ys \<longleftrightarrow> length xs = length ys
        \<and> (\<forall>p \<in> set (zip xs ys). sort_keys (fst p) = sort_keys (snd p))"
      unfolding list.rel_eq [symmetric]
      by (auto simp: list_all2_iff zip_map_map)
    moreover have "sort_keys (fst p) = sort_keys (snd p) \<longleftrightarrow> json_equiv (fst p) (snd p)"
      if "p \<in> set (zip xs ys)" for p
      using that 2 JArr by (metis JArr json_wf.simps(2) prod.collapse set_zip_leftD set_zip_rightD)
    ultimately show ?thesis using JArr by auto
  qed auto
qed (auto, (case_tac k; auto)+)

lemma normalise_wf:
  "normalise nfc v = Inr j \<Longrightarrow> json_wf j"
  "normalise_items nfc seen items = Inr out \<Longrightarrow>
     distinct (map fst out) \<and> set (map fst out) \<inter> set seen = {} \<and> (\<forall>p \<in> set out. json_wf (snd p))"
  "normalise_seq nfc xs = Inr js \<Longrightarrow> \<forall>x \<in> set js. json_wf x"
proof (induction nfc v and nfc seen items and nfc xs arbitrary: j and out and js
    rule: normalise_normalise_items_normalise_seq.induct)
  case (11 nfc seen key item rest)
  from "11.prems" obtain j out' where step: "nfc key \<notin> set seen" "normalise nfc item = Inr j"
      "normalise_items nfc (nfc key # seen) rest = Inr out'" "out = (nfc key, j) # out'"
    by (auto split: if_splits sum.splits)
  with "11.IH" show ?case by fastforce
qed (auto split: sum.splits py_float.splits)


subsection \<open>The canonical byte string\<close>

lemma canonical_json_eq_iff:
  assumes "py_env_ok E" "normalise (env_nfc E) v = Inr j" "normalise (env_nfc E) w = Inr k"
  shows "canonical_json E v = canonical_json E w \<longleftrightarrow> json_equiv j k"
  using assms normalise_wf(1) sort_keys_equiv
  by (auto simp: canonical_json_def py_env_ok_def dumps_inj)

lemma canonical_json_Inr:
  "canonical_json E v = Inr b \<longleftrightarrow>
     (\<exists>j. normalise (env_nfc E) v = Inr j \<and> b = dumps (env_float_repr E) (sort_keys j))"
  by (auto simp: canonical_json_def split: sum.splits)

lemma json_equiv_refl: "json_wf j \<Longrightarrow> json_equiv j j"
  using sort_keys_equiv by blast

text \<open>A value whose normal form is computed twice is unchanged the second time.\<close>

fun embed :: "json \<Rightarrow> py_value" where
  "embed JNull = PNone"
| "embed (JBool b) = PBool b"
| "embed (JInt i) = PInt i"
| "embed (JFloat q) = PFloat (FFin q)"
| "embed (JStr s) = PStr s"
| "embed (JObj items) = PMap (map (\<lambda>p. (PStr (fst p), embed (snd p))) items)"
| "embed (JArr xs) = PSeq (map embed xs)"

lemma normalise_idem:
  shows "\<forall>s. nfc (nfc s) = nfc s \<Longrightarrow> normalise nfc v = Inr j \<Longrightarrow> normalise nfc (embed j) = Inr j"
    and "\<forall>s. nfc (nfc s) = nfc s \<Longrightarrow> normalise_items nfc seen items = Inr out \<Longrightarrow>
      normalise_items nfc seen (map (\<lambda>p. (PStr (fst p), embed (snd p))) out) = Inr out"
    and "\<forall>s. nfc (nfc s) = nfc s \<Longrightarrow> normalise_seq nfc xs = Inr js \<Longrightarrow> normalise_seq nfc (map embed js) = Inr js"
proof (induction nfc v and nfc seen items and nfc xs arbitrary: j and out and js
    rule: normalise_normalise_items_normalise_seq.induct)
qed (auto split: sum.splits py_float.splits if_splits)

end
