(* ===== verification/Plan_Contracts.thy ===== *)
theory Plan_Contracts
  imports Canonical_Json
begin

text \<open>
  Plans, targets and tool calls (\<open>contracts/plan.py\<close>, \<open>contracts/target.py\<close>,
  \<open>contracts/tool.py\<close>) with their construction-time validators, and the three fingerprints of
  \<open>planning/canonical.py\<close> over them. A \<open>FrozenMap\<close> is a dictionary from strict strings to JSON
  scalars. The last section proves what a fingerprint determines.
\<close>

subsection \<open>Enumerations and JSON scalars\<close>

datatype effect_class = READ | MUTATE_TARGET
datatype read_class = BOUNDED | RESTRICTED
datatype step_condition_kind =
  ALWAYS | EVIDENCE_FIELD_ABSENT | EVIDENCE_ROW_COUNT_BELOW | PRIOR_STEP_RESULT_IS
datatype step_result_status = STEP_OK | STEP_FAILED | STEP_TIMEOUT | STEP_SKIPPED

fun effect_class_value :: "effect_class \<Rightarrow> string" where
  "effect_class_value READ = ''read''"
| "effect_class_value MUTATE_TARGET = ''mutate_target''"

fun read_class_value :: "read_class \<Rightarrow> string" where
  "read_class_value BOUNDED = ''bounded''"
| "read_class_value RESTRICTED = ''restricted''"

fun condition_kind_value :: "step_condition_kind \<Rightarrow> string" where
  "condition_kind_value ALWAYS = ''always''"
| "condition_kind_value EVIDENCE_FIELD_ABSENT = ''evidence_field_absent''"
| "condition_kind_value EVIDENCE_ROW_COUNT_BELOW = ''evidence_row_count_below''"
| "condition_kind_value PRIOR_STEP_RESULT_IS = ''prior_step_result_is''"

fun step_result_value :: "step_result_status \<Rightarrow> string" where
  "step_result_value STEP_OK = ''step_ok''"
| "step_result_value STEP_FAILED = ''step_failed''"
| "step_result_value STEP_TIMEOUT = ''step_timeout''"
| "step_result_value STEP_SKIPPED = ''step_skipped''"

datatype json_scalar = SBool bool | SInt int | SFloat py_float | SStr string | SNull

type_synonym frozen_map = "(string, json_scalar) dict"

fun finite_float :: "py_float \<Rightarrow> bool" where
  "finite_float FNegZero = True"
| "finite_float (FFin q) = True"
| "finite_float f = False"

fun scalar_ok :: "json_scalar \<Rightarrow> bool" where
  "scalar_ok (SFloat f) = finite_float f"
| "scalar_ok s = True"

definition frozen_map_ok :: "frozen_map \<Rightarrow> bool" where
  "frozen_map_ok m \<longleftrightarrow> dict_ok m \<and> list_all (\<lambda>p. strict_str (fst p) \<and> scalar_ok (snd p)) m"

fun scalar_value :: "json_scalar \<Rightarrow> py_value" where
  "scalar_value (SBool b) = PBool b"
| "scalar_value (SInt i) = PInt i"
| "scalar_value (SFloat f) = PFloat f"
| "scalar_value (SStr s) = PStr s"
| "scalar_value SNull = PNone"

text \<open>
  Python's \<open>==\<close> on these values: booleans, integers and floats compare by their number, a mapping
  compares by content whatever its order.
\<close>

fun scalar_number :: "json_scalar \<Rightarrow> rat option" where
  "scalar_number (SBool b) = Some (if b then 1 else 0)"
| "scalar_number (SInt i) = Some (of_int i)"
| "scalar_number (SFloat (FFin q)) = Some q"
| "scalar_number (SFloat FNegZero) = Some 0"
| "scalar_number s = None"

definition scalar_eq :: "json_scalar \<Rightarrow> json_scalar \<Rightarrow> bool" where
  "scalar_eq a b = (case (scalar_number a, scalar_number b) of
      (Some x, Some y) \<Rightarrow> x = y
    | (None, None) \<Rightarrow> a = b
    | _ \<Rightarrow> False)"

definition frozen_map_eq :: "frozen_map \<Rightarrow> frozen_map \<Rightarrow> bool" where
  "frozen_map_eq m n \<longleftrightarrow> length m = length n
     \<and> list_all (\<lambda>p. case dget n (fst p) of None \<Rightarrow> False | Some v \<Rightarrow> scalar_eq (snd p) v) m"

lemma scalar_eq_refl [simp]: "scalar_eq a a"
  by (cases "scalar_number a") (simp_all add: scalar_eq_def)

lemma frozen_map_eq_refl: "dict_ok m \<Longrightarrow> frozen_map_eq m m"
  by (auto simp: frozen_map_eq_def list_all_iff mem_dget)

subsection \<open>Plans\<close>

record step_condition =
  cond_kind :: step_condition_kind
  cond_ref_step_id :: "string option"
  cond_field :: "string option"
  cond_threshold :: "int option"
  cond_expected_result :: "step_result_status option"

datatype operand = OP_REF_STEP_ID | OP_FIELD | OP_THRESHOLD | OP_EXPECTED_RESULT

fun operands :: "step_condition_kind \<Rightarrow> operand set" where
  "operands ALWAYS = {}"
| "operands EVIDENCE_FIELD_ABSENT = {OP_REF_STEP_ID, OP_FIELD}"
| "operands EVIDENCE_ROW_COUNT_BELOW = {OP_REF_STEP_ID, OP_THRESHOLD}"
| "operands PRIOR_STEP_RESULT_IS = {OP_REF_STEP_ID, OP_EXPECTED_RESULT}"

fun operand_present :: "step_condition \<Rightarrow> operand \<Rightarrow> bool" where
  "operand_present c OP_REF_STEP_ID = (cond_ref_step_id c \<noteq> None)"
| "operand_present c OP_FIELD = (cond_field c \<noteq> None)"
| "operand_present c OP_THRESHOLD = (cond_threshold c \<noteq> None)"
| "operand_present c OP_EXPECTED_RESULT = (cond_expected_result c \<noteq> None)"

definition present_operands :: "step_condition \<Rightarrow> operand set" where
  "present_operands c = set (filter (operand_present c)
     [OP_REF_STEP_ID, OP_FIELD, OP_THRESHOLD, OP_EXPECTED_RESULT])"

definition step_condition_ok :: "step_condition \<Rightarrow> bool" where
  "step_condition_ok c \<longleftrightarrow> opt_all strict_str (cond_ref_step_id c)
     \<and> opt_all strict_str (cond_field c) \<and> opt_all (\<lambda>n. 0 \<le> n) (cond_threshold c)
     \<and> present_operands c = operands (cond_kind c)"

record plan_step =
  ps_step_id :: string
  ps_operation :: string
  ps_typed_arguments :: frozen_map
  ps_depends_on :: "string list"
  ps_side_effect :: bool
  ps_effect_class :: effect_class
  ps_read_class :: "read_class option"
  ps_condition :: step_condition

definition plan_step_ok :: "plan_step \<Rightarrow> bool" where
  "plan_step_ok s \<longleftrightarrow> strict_str (ps_step_id s) \<and> strict_str (ps_operation s)
     \<and> frozen_map_ok (ps_typed_arguments s) \<and> list_all strict_str (ps_depends_on s)
     \<and> step_condition_ok (ps_condition s)
     \<and> (if ps_effect_class s = READ then ps_read_class s \<noteq> None else ps_read_class s = None)"

record plan_budget =
  pb_max_steps :: int
  pb_max_tool_calls :: int
  pb_max_model_tokens :: int

definition plan_budget_ok :: "plan_budget \<Rightarrow> bool" where
  "plan_budget_ok b \<longleftrightarrow> 0 < pb_max_steps b \<and> 0 < pb_max_tool_calls b \<and> 0 \<le> pb_max_model_tokens b"

record execution_plan =
  ep_plan_schema_version :: int
  ep_capability_id :: string
  ep_capability_version :: string
  ep_steps :: "plan_step list"
  ep_policy_profile :: string
  ep_policy_revision :: string
  ep_budget :: plan_budget

definition PLAN_SCHEMA_VERSION :: int where
  "PLAN_SCHEMA_VERSION = 2"

text \<open>The loop of \<open>_steps_are_well_formed\<close>: \<open>seen\<close> holds the steps before the current one.\<close>

fun steps_well_formed :: "string set \<Rightarrow> plan_step list \<Rightarrow> bool" where
  "steps_well_formed seen [] = True"
| "steps_well_formed seen (s # ss) =
     (if ps_step_id s \<in> seen then False
      else if \<not> list_all (\<lambda>dep. dep \<in> seen) (ps_depends_on s) then False
      else if \<not> opt_all (\<lambda>ref. ref \<in> seen) (cond_ref_step_id (ps_condition s)) then False
      else steps_well_formed (insert (ps_step_id s) seen) ss)"

definition execution_plan_ok :: "execution_plan \<Rightarrow> bool" where
  "execution_plan_ok p \<longleftrightarrow> strict_str (ep_capability_id p) \<and> strict_str (ep_capability_version p)
     \<and> strict_str (ep_policy_profile p) \<and> strict_str (ep_policy_revision p)
     \<and> list_all plan_step_ok (ep_steps p) \<and> plan_budget_ok (ep_budget p)
     \<and> ep_plan_schema_version p = PLAN_SCHEMA_VERSION
     \<and> steps_well_formed {} (ep_steps p)
     \<and> int (length (ep_steps p)) \<le> pb_max_steps (ep_budget p)"

definition plan_step_eq :: "plan_step \<Rightarrow> plan_step \<Rightarrow> bool" where
  "plan_step_eq s t \<longleftrightarrow> s\<lparr>ps_typed_arguments := []\<rparr> = t\<lparr>ps_typed_arguments := []\<rparr>
     \<and> frozen_map_eq (ps_typed_arguments s) (ps_typed_arguments t)"

definition execution_plan_eq :: "execution_plan \<Rightarrow> execution_plan \<Rightarrow> bool" where
  "execution_plan_eq p q \<longleftrightarrow> p\<lparr>ep_steps := []\<rparr> = q\<lparr>ep_steps := []\<rparr>
     \<and> list_all2 plan_step_eq (ep_steps p) (ep_steps q)"

lemma execution_plan_eq_refl: "execution_plan_ok p \<Longrightarrow> execution_plan_eq p p"
  by (auto simp: execution_plan_eq_def plan_step_eq_def execution_plan_ok_def list_all_iff
      plan_step_ok_def frozen_map_ok_def intro!: list.rel_refl_strong frozen_map_eq_refl)

subsection \<open>Targets and tool calls\<close>

record resolved_target =
  rt_tenant_id :: string
  rt_environment_id :: string
  rt_provider :: string
  rt_resource_kind :: string
  rt_resource_ids :: "string list"
  rt_selector_version :: string

definition normalise_resource_ids ::
  "(string \<Rightarrow> string) \<Rightarrow> string list \<Rightarrow> validation_error + string list" where
  "normalise_resource_ids nfc value =
     (let normalised = map nfc value
      in if distinct normalised then Inr normalised else Inl ValidationError)"

definition new_resolved_target ::
  "py_env \<Rightarrow> resolved_target \<Rightarrow> validation_error + resolved_target" where
  "new_resolved_target E t =
     (if strict_str (rt_tenant_id t) \<and> strict_str (rt_environment_id t) \<and> strict_str (rt_provider t)
        \<and> strict_str (rt_resource_kind t) \<and> strict_str (rt_selector_version t)
        \<and> rt_resource_ids t \<noteq> [] \<and> list_all strict_str (rt_resource_ids t)
      then case normalise_resource_ids (env_nfc E) (rt_resource_ids t) of
          Inl e \<Rightarrow> Inl e
        | Inr ids \<Rightarrow> Inr (t\<lparr>rt_resource_ids := ids\<rparr>)
      else Inl ValidationError)"

record tool_call =
  tc_gateway :: string
  tc_operation :: string
  tc_step_id :: string
  tc_typed_args :: frozen_map
  tc_timeout_seconds :: py_float
  tc_idempotency_key :: string

fun timeout_in_range :: "py_float \<Rightarrow> bool" where
  "timeout_in_range (FFin q) = (0 < q \<and> q \<le> 300)"
| "timeout_in_range f = False"

definition tool_call_ok :: "tool_call \<Rightarrow> bool" where
  "tool_call_ok c \<longleftrightarrow> strict_str (tc_gateway c) \<and> strict_str (tc_operation c)
     \<and> strict_str (tc_step_id c) \<and> frozen_map_ok (tc_typed_args c)
     \<and> timeout_in_range (tc_timeout_seconds c) \<and> strict_str (tc_idempotency_key c)"

end
