(* ===== verification/Fingerprints.thy ===== *)
theory Fingerprints
  imports Plan_Contracts
begin

text \<open>
  The fingerprints of \<open>planning/canonical.py\<close>: \<open>plan_hash\<close>, \<open>target_fingerprint\<close> and
  \<open>tool_call_hash\<close>, each the SHA-256 of the canonical JSON of a payload that lists every field.
  The hash keys are those of the source's field tables. The theorems say that, where SHA-256
  does not collide on the two byte strings at hand, equal fingerprints mean equal contents up to
  NFC, the sign of a zero float and dictionary order, and conversely.
\<close>

subsection \<open>Payloads\<close>

definition opt_value :: "('a \<Rightarrow> py_value) \<Rightarrow> 'a option \<Rightarrow> py_value" where
  "opt_value f x = (case x of None \<Rightarrow> PNone | Some a \<Rightarrow> f a)"

definition obj :: "(string \<times> py_value) list \<Rightarrow> py_value" where
  "obj kvs = PMap (map (\<lambda>(k, v). (PStr k, v)) kvs)"

definition args_payload :: "frozen_map \<Rightarrow> py_value" where
  "args_payload m = obj (map (\<lambda>(k, v). (k, scalar_value v)) m)"

definition condition_payload :: "step_condition \<Rightarrow> py_value" where
  "condition_payload c = obj
     [(''kind'', PStr (condition_kind_value (cond_kind c))),
      (''ref_step_id'', opt_value PStr (cond_ref_step_id c)),
      (''field'', opt_value PStr (cond_field c)),
      (''threshold'', opt_value PInt (cond_threshold c)),
      (''expected_result'', opt_value (\<lambda>r. PStr (step_result_value r)) (cond_expected_result c))]"

definition budget_payload :: "plan_budget \<Rightarrow> py_value" where
  "budget_payload b = obj
     [(''max_steps'', PInt (pb_max_steps b)),
      (''max_tool_calls'', PInt (pb_max_tool_calls b)),
      (''max_model_tokens'', PInt (pb_max_model_tokens b))]"

definition step_payload :: "plan_step \<Rightarrow> py_value" where
  "step_payload s = obj
     [(''step_id'', PStr (ps_step_id s)),
      (''operation'', PStr (ps_operation s)),
      (''typed_arguments'', args_payload (ps_typed_arguments s)),
      (''depends_on'', PSeq (map PStr (ps_depends_on s))),
      (''side_effect'', PBool (ps_side_effect s)),
      (''effect_class'', PStr (effect_class_value (ps_effect_class s))),
      (''read_class'', opt_value (\<lambda>r. PStr (read_class_value r)) (ps_read_class s)),
      (''condition'', condition_payload (ps_condition s))]"

definition plan_payload :: "execution_plan \<Rightarrow> py_value" where
  "plan_payload p = obj
     [(''plan_schema_version'', PInt (ep_plan_schema_version p)),
      (''capability_id'', PStr (ep_capability_id p)),
      (''capability_version'', PStr (ep_capability_version p)),
      (''ordered_steps'', PSeq (map step_payload (ep_steps p))),
      (''policy_profile'', PStr (ep_policy_profile p)),
      (''policy_revision'', PStr (ep_policy_revision p)),
      (''budget'', budget_payload (ep_budget p))]"

definition target_payload :: "resolved_target \<Rightarrow> py_value" where
  "target_payload t = obj
     [(''tenant_id'', PStr (rt_tenant_id t)),
      (''environment_id'', PStr (rt_environment_id t)),
      (''provider'', PStr (rt_provider t)),
      (''resource_kind'', PStr (rt_resource_kind t)),
      (''resource_ids'', PSeq (map PStr (sort (rt_resource_ids t)))),
      (''selector_version'', PStr (rt_selector_version t))]"

definition tool_call_payload :: "tool_call \<Rightarrow> py_value" where
  "tool_call_payload c = obj
     [(''gateway'', PStr (tc_gateway c)),
      (''operation'', PStr (tc_operation c)),
      (''step_id'', PStr (tc_step_id c)),
      (''typed_args'', args_payload (tc_typed_args c)),
      (''timeout_seconds'', PFloat (tc_timeout_seconds c)),
      (''idempotency_key'', PStr (tc_idempotency_key c))]"

definition sha256_of :: "py_env \<Rightarrow> py_value \<Rightarrow> canon_error + string" where
  "sha256_of E v = (case canonical_json E v of Inl e \<Rightarrow> Inl e | Inr b \<Rightarrow> Inr (env_sha256 E b))"

definition compute_plan_hash :: "py_env \<Rightarrow> execution_plan \<Rightarrow> canon_error + string" where
  "compute_plan_hash E p = sha256_of E (plan_payload p)"

definition compute_target_fingerprint :: "py_env \<Rightarrow> resolved_target \<Rightarrow> canon_error + string" where
  "compute_target_fingerprint E t = sha256_of E (target_payload t)"

definition compute_tool_call_hash :: "py_env \<Rightarrow> tool_call \<Rightarrow> canon_error + string" where
  "compute_tool_call_hash E c = sha256_of E (tool_call_payload c)"

subsection \<open>Canonical contents\<close>

text \<open>What the fingerprint keeps of a value: strings in NFC, one zero, sorted dictionaries.\<close>

fun canon_float :: "py_float \<Rightarrow> py_float" where
  "canon_float FNegZero = FFin 0"
| "canon_float f = f"

fun canon_scalar :: "(string \<Rightarrow> string) \<Rightarrow> json_scalar \<Rightarrow> json_scalar" where
  "canon_scalar nfc (SStr s) = SStr (nfc s)"
| "canon_scalar nfc (SFloat f) = SFloat (canon_float f)"
| "canon_scalar nfc s = s"

definition canon_args :: "(string \<Rightarrow> string) \<Rightarrow> frozen_map \<Rightarrow> frozen_map" where
  "canon_args nfc m = sort_key fst (map (\<lambda>(k, v). (nfc k, canon_scalar nfc v)) m)"

definition canon_condition :: "(string \<Rightarrow> string) \<Rightarrow> step_condition \<Rightarrow> step_condition" where
  "canon_condition nfc c = c\<lparr>cond_ref_step_id := map_option nfc (cond_ref_step_id c),
     cond_field := map_option nfc (cond_field c)\<rparr>"

definition canon_step :: "(string \<Rightarrow> string) \<Rightarrow> plan_step \<Rightarrow> plan_step" where
  "canon_step nfc s = s\<lparr>ps_step_id := nfc (ps_step_id s), ps_operation := nfc (ps_operation s),
     ps_typed_arguments := canon_args nfc (ps_typed_arguments s),
     ps_depends_on := map nfc (ps_depends_on s), ps_condition := canon_condition nfc (ps_condition s)\<rparr>"

definition canon_plan :: "(string \<Rightarrow> string) \<Rightarrow> execution_plan \<Rightarrow> execution_plan" where
  "canon_plan nfc p = p\<lparr>ep_capability_id := nfc (ep_capability_id p),
     ep_capability_version := nfc (ep_capability_version p),
     ep_steps := map (canon_step nfc) (ep_steps p),
     ep_policy_profile := nfc (ep_policy_profile p), ep_policy_revision := nfc (ep_policy_revision p)\<rparr>"

definition canon_target :: "(string \<Rightarrow> string) \<Rightarrow> resolved_target \<Rightarrow> resolved_target" where
  "canon_target nfc t = t\<lparr>rt_tenant_id := nfc (rt_tenant_id t),
     rt_environment_id := nfc (rt_environment_id t), rt_provider := nfc (rt_provider t),
     rt_resource_kind := nfc (rt_resource_kind t),
     rt_resource_ids := map nfc (sort (rt_resource_ids t)),
     rt_selector_version := nfc (rt_selector_version t)\<rparr>"

definition canon_call :: "(string \<Rightarrow> string) \<Rightarrow> tool_call \<Rightarrow> tool_call" where
  "canon_call nfc c = c\<lparr>tc_gateway := nfc (tc_gateway c), tc_operation := nfc (tc_operation c),
     tc_step_id := nfc (tc_step_id c), tc_typed_args := canon_args nfc (tc_typed_args c),
     tc_timeout_seconds := canon_float (tc_timeout_seconds c),
     tc_idempotency_key := nfc (tc_idempotency_key c)\<rparr>"

subsection \<open>Equality of payloads is equality of canonical contents\<close>

definition jv :: "(string \<Rightarrow> string) \<Rightarrow> py_value \<Rightarrow> json" where
  "jv nfc v = projr (normalise nfc v)"

definition veq :: "(string \<Rightarrow> string) \<Rightarrow> py_value \<Rightarrow> py_value \<Rightarrow> bool" where
  "veq nfc v w \<longleftrightarrow> is_ok (normalise nfc v) \<and> is_ok (normalise nfc w) \<and> json_equiv (jv nfc v) (jv nfc w)"

lemma normalise_is_ok: "is_ok (normalise nfc v) \<Longrightarrow> normalise nfc v = Inr (jv nfc v)"
  by (auto simp: is_ok_conv jv_def)

lemma normalise_fields:
  assumes "\<forall>k \<in> set (map fst kvs). nfc k = k"
  shows "normalise_items nfc seen (map (\<lambda>(k, v). (PStr k, v)) kvs) = Inr out \<Longrightarrow>
      out = map (\<lambda>(k, v). (k, jv nfc v)) kvs \<and> list_all (\<lambda>p. is_ok (normalise nfc (snd p))) kvs"
  using assms
proof (induction kvs arbitrary: seen out)
  case (Cons p kvs)
  obtain k v where p: "p = (k, v)" by fastforce
  from Cons.prems p obtain j out' where "normalise nfc v = Inr j"
      "normalise_items nfc (k # seen) (map (\<lambda>(k, v). (PStr k, v)) kvs) = Inr out'"
      "out = (k, j) # out'"
    by (auto split: if_splits sum.splits)
  with Cons p show ?case by (auto simp: jv_def)
qed simp

lemma normalise_obj:
  assumes "\<forall>k \<in> set (map fst kvs). nfc k = k" "normalise nfc (obj kvs) = Inr j"
  shows "j = JObj (map (\<lambda>(k, v). (k, jv nfc v)) kvs) \<and> list_all (\<lambda>p. is_ok (normalise nfc (snd p))) kvs"
  using assms normalise_fields [of kvs nfc "[]"] by (auto simp: obj_def split: sum.splits)

lemma json_equiv_obj_aligned:
  "map fst a = map fst b \<Longrightarrow> distinct (map fst b) \<Longrightarrow>
     json_equiv (JObj a) (JObj b) \<longleftrightarrow> list_all2 (\<lambda>p q. json_equiv (snd p) (snd q)) a b"
proof -
  assume keys: "map fst a = map fst b" "distinct (map fst b)"
  have len: "length a = length b" using keys(1) by (metis length_map)
  have look: "i < length a \<Longrightarrow> map_of b (fst (a ! i)) = Some (snd (b ! i))" for i
    using keys len by (metis map_of_is_SomeI nth_map nth_mem prod.collapse)
  show ?thesis
    using len look by (auto simp: list_all2_conv_all_nth in_set_conv_nth all_set_conv_all_nth)
qed

lemma veq_obj:
  assumes "veq nfc (obj kvs) (obj kvs')" "map fst kvs = map fst kvs'" "distinct (map fst kvs')"
    "\<forall>k \<in> set (map fst kvs'). nfc k = k"
  shows "list_all2 (\<lambda>p q. veq nfc (snd p) (snd q)) kvs kvs'"
proof -
  have "normalise nfc (obj kvs) = Inr (jv nfc (obj kvs))"
    "normalise nfc (obj kvs') = Inr (jv nfc (obj kvs'))"
    using assms(1) by (simp_all add: veq_def normalise_is_ok)
  then have j: "jv nfc (obj kvs) = JObj (map (\<lambda>(k, v). (k, jv nfc v)) kvs)"
    "jv nfc (obj kvs') = JObj (map (\<lambda>(k, v). (k, jv nfc v)) kvs')"
    "list_all (\<lambda>p. is_ok (normalise nfc (snd p))) kvs"
    "list_all (\<lambda>p. is_ok (normalise nfc (snd p))) kvs'"
    using normalise_obj assms(2,4) by metis+
  have f: "map fst (map (\<lambda>(k, v). (k, jv nfc v)) xs) = map fst xs" for xs :: "(string \<times> py_value) list"
    by auto
  have "list_all2 (\<lambda>p q. json_equiv (jv nfc (snd p)) (jv nfc (snd q))) kvs kvs'"
    using assms(1-3) unfolding veq_def j(1,2)
    by (subst (asm) json_equiv_obj_aligned)
      (simp_all only: f list_all2_map1 list_all2_map2 case_prod_beta snd_conv)
  then show ?thesis
    using j(3,4) by (auto simp: veq_def list_all2_conv_all_nth list_all_length)
qed

lemma veq_simps:
  "veq nfc (PStr s) (PStr t) \<longleftrightarrow> nfc s = nfc t"
  "veq nfc (PInt i) (PInt k) \<longleftrightarrow> i = k"
  "veq nfc (PBool b) (PBool c) \<longleftrightarrow> b = c"
  "veq nfc PNone PNone \<longleftrightarrow> True"
  "veq nfc PNone (PStr t) \<longleftrightarrow> False" "veq nfc (PStr t) PNone \<longleftrightarrow> False"
  "veq nfc PNone (PInt i) \<longleftrightarrow> False" "veq nfc (PInt i) PNone \<longleftrightarrow> False"
  by (auto simp: veq_def jv_def)

lemma veq_float: "veq nfc (PFloat f) (PFloat g) \<Longrightarrow> canon_float f = canon_float g"
  by (cases f; cases g) (auto simp: veq_def jv_def)

lemma veq_opt_str:
  "veq nfc (opt_value PStr x) (opt_value PStr y) \<longleftrightarrow> map_option nfc x = map_option nfc y"
  by (cases x; cases y) (auto simp: opt_value_def veq_simps)

lemma veq_opt_int: "veq nfc (opt_value PInt x) (opt_value PInt y) \<longleftrightarrow> x = y"
  by (cases x; cases y) (auto simp: opt_value_def veq_simps)

lemma veq_opt_enum:
  assumes "\<And>a. nfc (val a) = val a" "inj val"
  shows "veq nfc (opt_value (\<lambda>r. PStr (val r)) x) (opt_value (\<lambda>r. PStr (val r)) y) \<longleftrightarrow> x = y"
  using assms by (cases x; cases y) (auto simp: opt_value_def veq_simps inj_eq)

lemma normalise_seq_ok:
  "normalise_seq nfc xs = Inr js \<Longrightarrow> js = map (jv nfc) xs \<and> list_all (\<lambda>x. is_ok (normalise nfc x)) xs"
  by (induction xs arbitrary: js) (auto simp: jv_def split: sum.splits)

lemma veq_seq: "veq nfc (PSeq xs) (PSeq ys) \<Longrightarrow> list_all2 (veq nfc) xs ys"
proof -
  assume v: "veq nfc (PSeq xs) (PSeq ys)"
  then obtain js ks where "normalise_seq nfc xs = Inr js" "normalise_seq nfc ys = Inr ks"
      "json_equiv (JArr js) (JArr ks)"
    by (auto simp: veq_def jv_def split: sum.splits)
  then have js: "js = map (jv nfc) xs" "list_all (\<lambda>x. is_ok (normalise nfc x)) xs"
      and ks: "ks = map (jv nfc) ys" "list_all (\<lambda>x. is_ok (normalise nfc x)) ys"
    using normalise_seq_ok by blast+
  have "length xs = length ys"
    using \<open>json_equiv (JArr js) (JArr ks)\<close> by (simp add: js(1) ks(1))
  moreover have "json_equiv (jv nfc (xs ! i)) (jv nfc (ys ! i))" if "i < length xs" for i
  proof -
    have "(map (jv nfc) xs ! i, map (jv nfc) ys ! i) \<in> set (zip (map (jv nfc) xs) (map (jv nfc) ys))"
      unfolding set_zip using that calculation by (auto intro!: exI [of _ i])
    with \<open>json_equiv (JArr js) (JArr ks)\<close> that calculation show ?thesis
      by (fastforce simp: js(1) ks(1))
  qed
  ultimately show ?thesis
    using js(2) ks(2) by (auto simp: veq_def list_all2_conv_all_nth list_all_length)
qed

lemma inj_enum_values:
  "inj effect_class_value" "inj read_class_value" "inj condition_kind_value" "inj step_result_value"
proof -
  show "inj effect_class_value"
    by (rule injI, case_tac x; case_tac y) auto
  show "inj read_class_value"
    by (rule injI, case_tac x; case_tac y) auto
  show "inj condition_kind_value"
    by (rule injI, case_tac x; case_tac y) auto
  show "inj step_result_value"
    by (rule injI, case_tac x; case_tac y) auto
qed

lemma ascii_enum_values:
  "ascii (effect_class_value e) \<and> ascii (read_class_value r) \<and> ascii (condition_kind_value k)
     \<and> ascii (step_result_value q)"
  by (cases e; cases r; cases k; cases q) (simp_all add: ascii_def)

text \<open>The part of \<open>py_env_ok\<close> the fingerprints use: hash keys and enum values are ASCII.\<close>

lemma nfc_ascii: "py_env_ok E \<Longrightarrow> ascii s \<Longrightarrow> env_nfc E s = s"
  by (simp add: py_env_ok_def)

lemma nfc_enum_values:
  assumes "py_env_ok E"
  shows "env_nfc E (effect_class_value e) = effect_class_value e"
    "env_nfc E (read_class_value r) = read_class_value r"
    "env_nfc E (condition_kind_value k) = condition_kind_value k"
    "env_nfc E (step_result_value q) = step_result_value q"
  using nfc_ascii [OF assms] ascii_enum_values by blast+

lemma veq_fields:
  assumes "py_env_ok E" "veq (env_nfc E) (obj kvs) (obj kvs')" "map fst kvs = map fst kvs'"
    "distinct (map fst kvs')" "list_all ascii (map fst kvs')"
  shows "list_all2 (\<lambda>p q. veq (env_nfc E) (snd p) (snd q)) kvs kvs'"
  using veq_obj [OF assms(2-4)] nfc_ascii [OF assms(1)] assms(5) by (simp add: list_all_iff)

subsection \<open>Arguments\<close>

fun scalar_json :: "json_scalar \<Rightarrow> json" where
  "scalar_json (SBool b) = JBool b"
| "scalar_json (SInt i) = JInt i"
| "scalar_json (SFloat (FFin q)) = JFloat q"
| "scalar_json (SFloat f) = JNull"
| "scalar_json (SStr s) = JStr s"
| "scalar_json SNull = JNull"

lemma normalise_scalar:
  "normalise nfc (scalar_value v) = Inr j \<Longrightarrow>
     j = scalar_json (canon_scalar nfc v) \<and> scalar_ok v \<and> sort_keys j = j"
  by (cases v) (auto split: py_float.splits)

lemma normalise_args:
  "normalise_items nfc seen (map (\<lambda>(k, v). (PStr k, v)) (map (\<lambda>(k, v). (k, scalar_value v)) m)) = Inr out
     \<Longrightarrow> out = map (\<lambda>(k, v). (nfc k, scalar_json (canon_scalar nfc v))) m
       \<and> list_all (\<lambda>p. scalar_ok (snd p)) m \<and> list_all (\<lambda>p. sort_keys (snd p) = snd p) out"
proof (induction m arbitrary: seen out)
  case (Cons p m)
  obtain k v where p: "p = (k, v)" by fastforce
  from Cons.prems p obtain j out' where "normalise nfc (scalar_value v) = Inr j"
      "normalise_items nfc (nfc k # seen)
         (map (\<lambda>(k, v). (PStr k, v)) (map (\<lambda>(k, v). (k, scalar_value v)) m)) = Inr out'"
      "out = (nfc k, j) # out'"
    by (auto split: if_splits sum.splits)
  with Cons.IH [of "nfc k # seen" out'] p show ?case
    by (auto dest: normalise_scalar)
qed simp

definition json_of_args :: "frozen_map \<Rightarrow> (string \<times> json) list" where
  "json_of_args m = map (\<lambda>(k, v). (k, scalar_json v)) m"

lemma insort_json_of_args:
  "insort_key fst (k, scalar_json v) (json_of_args m) = json_of_args (insort_key fst (k, v) m)"
  by (induction m) (auto simp: json_of_args_def)

lemma sort_json_of_args: "sort_key fst (json_of_args m) = json_of_args (sort_key fst m)"
proof (induction m)
  case (Cons p m)
  then show ?case
    by (cases p) (simp add: insort_json_of_args [symmetric], simp add: json_of_args_def)
qed (simp add: json_of_args_def)

lemma scalar_json_inj:
  "scalar_ok v \<Longrightarrow> scalar_ok w \<Longrightarrow> scalar_json (canon_scalar nfc v) = scalar_json (canon_scalar nfc w)
     \<Longrightarrow> canon_scalar nfc v = canon_scalar nfc w"
  by (cases v rule: scalar_ok.cases; cases w rule: scalar_ok.cases)
    (auto elim!: finite_float.elims)

lemma json_of_args_inj:
  "json_of_args a = json_of_args b \<Longrightarrow> \<forall>p \<in> set a. \<exists>v. scalar_ok v \<and> snd p = canon_scalar nfc v
     \<Longrightarrow> \<forall>p \<in> set b. \<exists>v. scalar_ok v \<and> snd p = canon_scalar nfc v \<Longrightarrow> a = b"
proof (induction a arbitrary: b)
  case (Cons p a)
  then obtain q b' where b: "b = q # b'" by (cases b) (auto simp: json_of_args_def)
  with Cons.prems have "fst p = fst q" "scalar_json (snd p) = scalar_json (snd q)"
      "json_of_args a = json_of_args b'"
    by (auto simp: json_of_args_def case_prod_beta)
  moreover have "snd p = snd q"
    using Cons.prems(2,3) b calculation(2) scalar_json_inj by fastforce
  ultimately show ?case
    using Cons.IH [of b'] Cons.prems(2,3) b by (auto simp: prod_eq_iff)
qed (auto simp: json_of_args_def)

lemma normalise_args_payload:
  assumes "is_ok (normalise nfc (args_payload m))"
  shows "sort_keys (jv nfc (args_payload m)) = JObj (json_of_args (canon_args nfc m))
     \<and> list_all (\<lambda>p. scalar_ok (snd p)) m"
proof -
  have "normalise nfc (args_payload m) = Inr (jv nfc (args_payload m))"
    using assms by (rule normalise_is_ok)
  then obtain out where out: "jv nfc (args_payload m) = JObj out" and
      "normalise_items nfc [] (map (\<lambda>(k, v). (PStr k, v)) (map (\<lambda>(k, v). (k, scalar_value v)) m)) = Inr out"
    unfolding args_payload_def obj_def
    by (cases "normalise_items nfc [] (map (\<lambda>(k, v). (PStr k, v)) (map (\<lambda>(k, v). (k, scalar_value v)) m))")
      (simp_all del: map_map, metis)
  then have m: "out = map (\<lambda>(k, v). (nfc k, scalar_json (canon_scalar nfc v))) m"
      "list_all (\<lambda>p. scalar_ok (snd p)) m" "list_all (\<lambda>p. sort_keys (snd p) = snd p) out"
    using normalise_args by blast+
  have "map sort_value out = out"
    using m(3) by (induction out) (auto simp: sort_value_def prod_eq_iff)
  moreover have "out = json_of_args (map (\<lambda>(k, v). (nfc k, canon_scalar nfc v)) m)"
    using m(1) by (auto simp: json_of_args_def)
  ultimately show ?thesis
    using m(2) by (simp add: out sort_keys_obj sort_json_of_args canon_args_def del: sort_keys.simps(1))
qed

lemma veq_args:
  assumes "veq nfc (args_payload m) (args_payload n)"
  shows "canon_args nfc m = canon_args nfc n"
proof -
  have ok: "is_ok (normalise nfc (args_payload m))" "is_ok (normalise nfc (args_payload n))"
    using assms by (simp_all add: veq_def)
  have "sort_keys (jv nfc (args_payload m)) = sort_keys (jv nfc (args_payload n))"
    using assms sort_keys_equiv normalise_wf(1) normalise_is_ok
    unfolding veq_def by blast
  then have eq: "json_of_args (canon_args nfc m) = json_of_args (canon_args nfc n)"
    using normalise_args_payload [OF ok(1)] normalise_args_payload [OF ok(2)] by simp
  have "\<forall>p \<in> set (canon_args nfc x). \<exists>v. scalar_ok v \<and> snd p = canon_scalar nfc v"
    if "list_all (\<lambda>p. scalar_ok (snd p)) x" for x
    using that by (auto simp: canon_args_def list_all_iff)
  then show ?thesis
    using json_of_args_inj [OF eq] normalise_args_payload [OF ok(1)] normalise_args_payload [OF ok(2)]
    by blast
qed

subsection \<open>Steps, plans, targets, calls\<close>

lemma veq_condition:
  assumes E: "py_env_ok E" and "veq (env_nfc E) (condition_payload c) (condition_payload d)"
  shows "canon_condition (env_nfc E) c = canon_condition (env_nfc E) d"
  using veq_fields [OF E assms(2) [unfolded condition_payload_def]] inj_enum_values
    nfc_enum_values [OF E]
  by (simp add: ascii_def veq_opt_str veq_opt_int veq_opt_enum veq_simps inj_eq canon_condition_def)

lemma veq_budget:
  assumes E: "py_env_ok E" and "veq (env_nfc E) (budget_payload c) (budget_payload d)"
  shows "c = d"
  using veq_fields [OF E assms(2) [unfolded budget_payload_def]]
  by (simp add: ascii_def veq_simps)

lemma veq_strs:
  "veq nfc (PSeq (map PStr xs)) (PSeq (map PStr ys)) \<Longrightarrow> map nfc xs = map nfc ys"
  by (drule veq_seq) (auto simp: list_all2_map1 list_all2_map2 veq_simps list_all2_conv_all_nth
      intro!: nth_equalityI)

lemma veq_step:
  assumes E: "py_env_ok E" and "veq (env_nfc E) (step_payload s) (step_payload t)"
  shows "canon_step (env_nfc E) s = canon_step (env_nfc E) t"
  using veq_fields [OF E assms(2) [unfolded step_payload_def]] inj_enum_values
    nfc_enum_values [OF E]
  by (simp add: ascii_def veq_opt_enum veq_simps inj_eq canon_step_def veq_args veq_strs veq_condition [OF E])

lemma veq_plan:
  assumes E: "py_env_ok E" and "veq (env_nfc E) (plan_payload p) (plan_payload q)"
  shows "canon_plan (env_nfc E) p = canon_plan (env_nfc E) q"
proof -
  have f: "veq (env_nfc E) (PInt (ep_plan_schema_version p)) (PInt (ep_plan_schema_version q))"
    "veq (env_nfc E) (PStr (ep_capability_id p)) (PStr (ep_capability_id q))"
    "veq (env_nfc E) (PStr (ep_capability_version p)) (PStr (ep_capability_version q))"
    "veq (env_nfc E) (PSeq (map step_payload (ep_steps p))) (PSeq (map step_payload (ep_steps q)))"
    "veq (env_nfc E) (PStr (ep_policy_profile p)) (PStr (ep_policy_profile q))"
    "veq (env_nfc E) (PStr (ep_policy_revision p)) (PStr (ep_policy_revision q))"
    "veq (env_nfc E) (budget_payload (ep_budget p)) (budget_payload (ep_budget q))"
    using veq_fields [OF E assms(2) [unfolded plan_payload_def]] by (simp_all add: ascii_def)
  have "map (canon_step (env_nfc E)) (ep_steps p) = map (canon_step (env_nfc E)) (ep_steps q)"
    using veq_seq [OF f(4)] veq_step [OF E]
    by (auto simp: list_all2_conv_all_nth intro!: nth_equalityI)
  with f(1-3,5-6) veq_budget [OF E f(7)] show ?thesis
    by (simp add: canon_plan_def veq_simps)
qed

lemma veq_target:
  assumes E: "py_env_ok E" and "veq (env_nfc E) (target_payload t) (target_payload u)"
  shows "canon_target (env_nfc E) t = canon_target (env_nfc E) u"
  using veq_fields [OF E assms(2) [unfolded target_payload_def]]
  by (simp add: ascii_def veq_simps canon_target_def veq_strs)

lemma veq_call:
  assumes E: "py_env_ok E" and "veq (env_nfc E) (tool_call_payload c) (tool_call_payload d)"
  shows "canon_call (env_nfc E) c = canon_call (env_nfc E) d"
proof -
  have f: "veq (env_nfc E) (PStr (tc_gateway c)) (PStr (tc_gateway d))"
    "veq (env_nfc E) (PStr (tc_operation c)) (PStr (tc_operation d))"
    "veq (env_nfc E) (PStr (tc_step_id c)) (PStr (tc_step_id d))"
    "veq (env_nfc E) (args_payload (tc_typed_args c)) (args_payload (tc_typed_args d))"
    "veq (env_nfc E) (PFloat (tc_timeout_seconds c)) (PFloat (tc_timeout_seconds d))"
    "veq (env_nfc E) (PStr (tc_idempotency_key c)) (PStr (tc_idempotency_key d))"
    using veq_fields [OF E assms(2) [unfolded tool_call_payload_def]] by (simp_all add: ascii_def)
  show ?thesis
    using f(1-3,6) veq_args [OF f(4)] veq_float [OF f(5)] by (simp add: canon_call_def veq_simps)
qed

text \<open>
  SHA-256 does not collide on the two canonical byte strings: the hypothesis under which equal
  fingerprints are compared. It speaks of the two strings at hand only.
\<close>

definition no_collision :: "py_env \<Rightarrow> py_value \<Rightarrow> py_value \<Rightarrow> bool" where
  "no_collision E v w \<longleftrightarrow> (case (canonical_json E v, canonical_json E w) of
       (Inr b, Inr c) \<Rightarrow> env_sha256 E b = env_sha256 E c \<longrightarrow> b = c
     | _ \<Rightarrow> True)"

lemma sha256_of_veq:
  assumes "py_env_ok E" "no_collision E v w" "sha256_of E v = Inr h" "sha256_of E w = Inr h"
  shows "veq (env_nfc E) v w"
proof -
  obtain b c where "canonical_json E v = Inr b" "canonical_json E w = Inr c"
      "env_sha256 E b = env_sha256 E c"
    using assms(3,4) by (auto simp: sha256_of_def split: sum.splits)
  then have eq: "canonical_json E v = canonical_json E w" "canonical_json E v = Inr b"
    using assms(2) by (auto simp: no_collision_def)
  then obtain j k where n: "normalise (env_nfc E) v = Inr j" "normalise (env_nfc E) w = Inr k"
    using canonical_json_Inr by metis
  then show ?thesis
    using canonical_json_eq_iff [OF assms(1) n] eq(1) by (simp add: veq_def jv_def)
qed

subsection \<open>A concrete environment\<close>

text \<open>
  An instance of the parameters, so that the hypotheses on them are seen to hold together: the
  identity for NFC, a polynomial digest of 64 hex digits, fractions in lowest terms for floats.
\<close>

definition demo_float_repr :: "rat \<Rightarrow> string" where
  "demo_float_repr q = dec_int (fst (quotient_of q)) @ ''e'' @ dec_int (snd (quotient_of q))"

fun hex_digits :: "nat \<Rightarrow> int \<Rightarrow> string" where
  "hex_digits 0 n = []"
| "hex_digits (Suc k) n = hex_digit (nat (n mod 16)) # hex_digits k (n div 16)"

definition demo_sha256 :: "string \<Rightarrow> string" where
  "demo_sha256 s = concat (replicate 8 (hex_digits 8
     (foldl (\<lambda>a c. (a * 257 + of_char c) mod 4294967296) 0 s)))"

definition demo_env :: py_env where
  "demo_env = \<lparr>env_nfc = (\<lambda>s. s), env_float_repr = demo_float_repr, env_sha256 = demo_sha256,
     env_isoformat = dec_int, env_json_datetime = dec_int\<rparr>"

lemma hex_digit_lower: "n < 16 \<Longrightarrow> lower_hex (hex_digit n)"
proof -
  assume "n < 16"
  moreover have "list_all (\<lambda>n. lower_hex (hex_digit n)) [0..<16]" by code_simp
  ultimately show ?thesis by (simp only: list_all_iff set_upt) auto
qed

lemma hex_digits_ok: "length (hex_digits k n) = k \<and> list_all lower_hex (hex_digits k n)"
  by (induction k arbitrary: n) (auto simp: hex_digit_lower nat_less_iff)

lemma demo_sha256_ok: "sha256_hex (demo_sha256 s)"
proof -
  have "length (concat (replicate m (hex_digits 8 n))) = m * 8
      \<and> list_all lower_hex (concat (replicate m (hex_digits 8 n)))" for m n
    using hex_digits_ok [of 8 n] by (induction m) (simp_all del: hex_digits.simps)
  from this [of 8] show ?thesis
    by (simp add: sha256_hex_def demo_sha256_def del: hex_digits.simps)
qed

lemma split_at_char: "c \<notin> set a \<Longrightarrow> c \<notin> set b \<Longrightarrow> a @ c # x = b @ c # y \<longleftrightarrow> a = b \<and> x = y"
proof (induction a arbitrary: b)
  case Nil
  then show ?case by (cases b) auto
next
  case (Cons d a)
  then show ?case by (cases b) auto
qed

lemma dec_int_no_e: "CHR ''e'' \<notin> set (dec_int i)"
proof -
  have "\<not> digit (CHR ''e'')" by code_simp
  then have "CHR ''e'' \<notin> set (dec_nat n)" for n
    using dec_nat_digits by (auto simp: list_all_iff)
  then show ?thesis by (simp add: dec_int_def)
qed

lemma demo_float_repr_ok: "float_repr_ok demo_float_repr"
proof -
  have "inj demo_float_repr"
    using quotient_of_inject
    by (auto simp: demo_float_repr_def inj_on_def split_at_char dec_int_no_e inj_dec_int prod_eq_iff)
  moreover have "\<not> digit (CHR ''e'')" "number_char (CHR ''e'')" by code_simp+
  moreover have "dec_int i \<noteq> []" for i by (simp add: dec_int_def dec_nat_digits)
  ultimately show ?thesis
    using dec_int_number dec_int_hd by (auto simp: float_repr_ok_def demo_float_repr_def)
qed

lemma demo_env_ok: "py_env_ok demo_env"
  using demo_float_repr_ok demo_sha256_ok by (simp add: py_env_ok_def demo_env_def)

end
