(* ===== verification/Task_Contracts.thy ===== *)
theory Task_Contracts
  imports Plan_Contracts
begin

text \<open>
  The task life cycle contracts: \<open>contracts/task.py\<close>, \<open>contracts/request.py\<close>,
  \<open>contracts/trace_events.py\<close>, \<open>contracts/clarification.py\<close>, \<open>contracts/evidence.py\<close>,
  \<open>contracts/approval.py\<close>, and the command and result DTOs of \<open>persistence/store.py\<close>. Every
  contract is a record (or a datatype, for a discriminated union) with a predicate
  \<open>..._ok\<close> that holds exactly when construction, and every \<open>model_copy\<close> with an update,
  passes the field and model validators.
\<close>

subsection \<open>Enumerations\<close>

datatype external_source =
    SRC_TOOL | SRC_KNOWLEDGE | SRC_WEB | SRC_USER | SRC_LOG

fun external_source_value :: "external_source \<Rightarrow> string" where
  "external_source_value SRC_TOOL = ''tool''"
| "external_source_value SRC_KNOWLEDGE = ''knowledge''"
| "external_source_value SRC_WEB = ''web''"
| "external_source_value SRC_USER = ''user''"
| "external_source_value SRC_LOG = ''log''"

datatype error_category =
    EC_VALIDATION | EC_POLICY | EC_APPROVAL | EC_TARGET | EC_UPSTREAM | EC_TIMEOUT | EC_BUDGET
    | EC_INTERNAL

fun error_category_value :: "error_category \<Rightarrow> string" where
  "error_category_value EC_VALIDATION = ''validation''"
| "error_category_value EC_POLICY = ''policy''"
| "error_category_value EC_APPROVAL = ''approval''"
| "error_category_value EC_TARGET = ''target''"
| "error_category_value EC_UPSTREAM = ''upstream''"
| "error_category_value EC_TIMEOUT = ''timeout''"
| "error_category_value EC_BUDGET = ''budget''"
| "error_category_value EC_INTERNAL = ''internal''"

datatype channel =
    CH_API | CH_CLI | CH_WEB | CH_FEISHU

fun channel_value :: "channel \<Rightarrow> string" where
  "channel_value CH_API = ''api''"
| "channel_value CH_CLI = ''cli''"
| "channel_value CH_WEB = ''web''"
| "channel_value CH_FEISHU = ''feishu''"

datatype model_call_kind =
    MC_INTENT | MC_INTERACTION | MC_ADVISORY

fun model_call_kind_value :: "model_call_kind \<Rightarrow> string" where
  "model_call_kind_value MC_INTENT = ''intent''"
| "model_call_kind_value MC_INTERACTION = ''interaction''"
| "model_call_kind_value MC_ADVISORY = ''advisory''"

datatype model_fallback_code =
    MF_DISABLED | MF_INPUT_REJECTED | MF_APPLICATION_TIMEOUT | MF_CREDENTIAL_UNAVAILABLE
    | MF_AMBIENT_PROXY | MF_UNAUTHORIZED | MF_FORBIDDEN | MF_RATE_LIMITED | MF_SERVER_ERROR
    | MF_TRANSPORT_ERROR | MF_PROVIDER_TIMEOUT | MF_INVALID_RESPONSE | MF_UNAVAILABLE

fun model_fallback_code_value :: "model_fallback_code \<Rightarrow> string" where
  "model_fallback_code_value MF_DISABLED = ''model_disabled''"
| "model_fallback_code_value MF_INPUT_REJECTED = ''model_input_rejected''"
| "model_fallback_code_value MF_APPLICATION_TIMEOUT = ''model_application_timeout''"
| "model_fallback_code_value MF_CREDENTIAL_UNAVAILABLE = ''model_credential_unavailable''"
| "model_fallback_code_value MF_AMBIENT_PROXY = ''model_ambient_proxy''"
| "model_fallback_code_value MF_UNAUTHORIZED = ''model_unauthorized''"
| "model_fallback_code_value MF_FORBIDDEN = ''model_forbidden''"
| "model_fallback_code_value MF_RATE_LIMITED = ''model_rate_limited''"
| "model_fallback_code_value MF_SERVER_ERROR = ''model_server_error''"
| "model_fallback_code_value MF_TRANSPORT_ERROR = ''model_transport_error''"
| "model_fallback_code_value MF_PROVIDER_TIMEOUT = ''model_timeout''"
| "model_fallback_code_value MF_INVALID_RESPONSE = ''model_invalid_response''"
| "model_fallback_code_value MF_UNAVAILABLE = ''model_unavailable''"

datatype pipeline_stage =
    STG_INTENT | STG_MODEL | STG_RESOLVER | STG_PLANNER | STG_DISCLOSURE | STG_ADMISSION
    | STG_GATEWAY | STG_EVIDENCE | STG_REFLECTION | STG_RENDERING | STG_LIFECYCLE

fun pipeline_stage_value :: "pipeline_stage \<Rightarrow> string" where
  "pipeline_stage_value STG_INTENT = ''intent''"
| "pipeline_stage_value STG_MODEL = ''model''"
| "pipeline_stage_value STG_RESOLVER = ''resolver''"
| "pipeline_stage_value STG_PLANNER = ''planner''"
| "pipeline_stage_value STG_DISCLOSURE = ''disclosure''"
| "pipeline_stage_value STG_ADMISSION = ''admission''"
| "pipeline_stage_value STG_GATEWAY = ''gateway''"
| "pipeline_stage_value STG_EVIDENCE = ''evidence''"
| "pipeline_stage_value STG_REFLECTION = ''reflection''"
| "pipeline_stage_value STG_RENDERING = ''rendering''"
| "pipeline_stage_value STG_LIFECYCLE = ''lifecycle''"

datatype stage_outcome =
    OUT_OK | OUT_REJECTED | OUT_FAILED | OUT_SKIPPED

fun stage_outcome_value :: "stage_outcome \<Rightarrow> string" where
  "stage_outcome_value OUT_OK = ''ok''"
| "stage_outcome_value OUT_REJECTED = ''rejected''"
| "stage_outcome_value OUT_FAILED = ''failed''"
| "stage_outcome_value OUT_SKIPPED = ''skipped''"

datatype task_status =
    CREATED | PLANNING | RUNNING | AWAITING_APPROVAL | CLARIFICATION_REQUIRED | SUCCEEDED | FAILED
    | REJECTED | CANCELED | INDETERMINATE

fun task_status_value :: "task_status \<Rightarrow> string" where
  "task_status_value CREATED = ''created''"
| "task_status_value PLANNING = ''planning''"
| "task_status_value RUNNING = ''running''"
| "task_status_value AWAITING_APPROVAL = ''awaiting_approval''"
| "task_status_value CLARIFICATION_REQUIRED = ''clarification_required''"
| "task_status_value SUCCEEDED = ''succeeded''"
| "task_status_value FAILED = ''failed''"
| "task_status_value REJECTED = ''rejected''"
| "task_status_value CANCELED = ''canceled''"
| "task_status_value INDETERMINATE = ''indeterminate''"

datatype attempt_intent =
    INTENT_DISPATCH | INTENT_APPROVAL_RESUME

datatype task_attempt_rejection =
    TAR_LIVE_LEASE | TAR_NOT_DISPATCHABLE | TAR_RETRY_NOT_DUE | TAR_TERMINAL_PROTECTED
    | TAR_RETRY_EXHAUSTED | TAR_SUBMISSION_INVARIANT_VIOLATION

fun task_attempt_rejection_value :: "task_attempt_rejection \<Rightarrow> string" where
  "task_attempt_rejection_value TAR_LIVE_LEASE = ''live_lease''"
| "task_attempt_rejection_value TAR_NOT_DISPATCHABLE = ''not_dispatchable''"
| "task_attempt_rejection_value TAR_RETRY_NOT_DUE = ''retry_not_due''"
| "task_attempt_rejection_value TAR_TERMINAL_PROTECTED = ''terminal_protected''"
| "task_attempt_rejection_value TAR_RETRY_EXHAUSTED = ''retry_exhausted''"
| "task_attempt_rejection_value TAR_SUBMISSION_INVARIANT_VIOLATION = ''submission_invariant_violation''"

datatype grant_rejection =
    GR_TERMINAL_PROTECTED | GR_STATUS_NOT_ALLOWED | GR_LEASE_NOT_HELD | GR_STALE_FENCING

datatype step_attempt_decision =
    SA_PROCEED | SA_ALREADY_COMMITTED | SA_STALE_FENCING | SA_NOT_RUNNABLE | SA_UNKNOWN_STEP
    | SA_BUDGET_EXHAUSTED

datatype step_outcome_kind =
    KIND_TOOL_RESULT | KIND_MALFORMED_ADAPTER

fun step_outcome_kind_value :: "step_outcome_kind \<Rightarrow> string" where
  "step_outcome_kind_value KIND_TOOL_RESULT = ''tool_result''"
| "step_outcome_kind_value KIND_MALFORMED_ADAPTER = ''malformed_adapter''"

datatype step_commit_rejection =
    SC_STALE_FENCING | SC_NOT_RUNNABLE | SC_ALREADY_COMMITTED_DIFFERENT | SC_NO_ATTEMPT_IN_FLIGHT

datatype retry_reason =
    RR_UNCLASSIFIED_ERROR

fun retry_reason_value :: "retry_reason \<Rightarrow> string" where
  "retry_reason_value RR_UNCLASSIFIED_ERROR = ''unclassified_error''"

datatype retry_decision =
    RD_SCHEDULED | RD_ALREADY_SCHEDULED | RD_COMMAND_MISMATCH | RD_STALE_FENCING
    | RD_TERMINAL_PROTECTED

datatype transition_rejection =
    TR_VERSION_MISMATCH | TR_ILLEGAL_TRANSITION | TR_TERMINAL_PROTECTED | TR_STALE_FENCING_TOKEN
    | TR_LEASE_NOT_HELD

datatype approval_state =
    AP_PENDING | AP_GRANTED | AP_REJECTED | AP_EXPIRED

subsection \<open>Requests and errors\<close>

text \<open>\<open>len\<close> of a Python string counts code points: the bytes that are not continuations.\<close>

definition char_len :: "string \<Rightarrow> int" where
  "char_len s = int (length (filter (\<lambda>c. of_char c div 64 \<noteq> (2 :: nat)) s))"

record request_envelope =
  re_request_id :: string
  re_tenant_id :: string
  re_actor :: string
  re_channel :: channel
  re_text :: string
  re_idempotency_key :: string
  re_environment_id :: "string option"

definition request_envelope_ok :: "request_envelope \<Rightarrow> bool" where
  "request_envelope_ok e \<longleftrightarrow> strict_str (re_request_id e) \<and> strict_str (re_tenant_id e)
     \<and> strict_str (re_actor e) \<and> re_text e \<noteq> [] \<and> char_len (re_text e) \<le> 8192
     \<and> strict_str (re_idempotency_key e) \<and> char_len (re_idempotency_key e) \<le> 200
     \<and> opt_all strict_str (re_environment_id e)"

record request_context =
  rc_tenant_id :: string
  rc_actor :: string
  rc_environment_id :: string
  rc_trace_id :: string
  rc_policy_revision :: string

definition request_context_ok :: "request_context \<Rightarrow> bool" where
  "request_context_ok c \<longleftrightarrow> strict_str (rc_tenant_id c) \<and> strict_str (rc_actor c)
     \<and> strict_str (rc_environment_id c) \<and> trace_id_ok (rc_trace_id c)
     \<and> strict_str (rc_policy_revision c)"

record agent_error =
  ae_code :: string
  ae_category :: error_category
  ae_retryable :: bool
  ae_message_key :: string
  ae_cause_ref :: "string option"

definition agent_error_ok :: "agent_error \<Rightarrow> bool" where
  "agent_error_ok e \<longleftrightarrow> strict_str (ae_code e) \<and> strict_str (ae_message_key e)
     \<and> opt_all strict_str (ae_cause_ref e)"

subsection \<open>Trace events\<close>

definition signed_bigint :: "int \<Rightarrow> bool" where
  "signed_bigint n \<longleftrightarrow> 0 \<le> n \<and> n \<le> 2 ^ 63 - 1"

record model_call_observation =
  mo_call_kind :: model_call_kind
  mo_elapsed_ms :: int
  mo_request_count :: int
  mo_input_tokens :: "int option"
  mo_output_tokens :: "int option"
  mo_fallback_code :: "model_fallback_code option"

definition model_call_observation_ok :: "model_call_observation \<Rightarrow> bool" where
  "model_call_observation_ok m \<longleftrightarrow> signed_bigint (mo_elapsed_ms m)
     \<and> 0 \<le> mo_request_count m \<and> mo_request_count m \<le> 2
     \<and> opt_all signed_bigint (mo_input_tokens m) \<and> opt_all signed_bigint (mo_output_tokens m)
     \<and> \<not> (mo_call_kind m \<in> {MC_ADVISORY, MC_INTERACTION} \<and> 1 < mo_request_count m)"

record trace_event =
  te_event_id :: string
  te_trace_id :: string
  te_task_id :: "string option"
  te_stage :: pipeline_stage
  te_outcome :: stage_outcome
  te_occurred_at :: instant
  te_capability_id :: "string option"
  te_step_id :: "string option"
  te_policy_revision :: "string option"
  te_attempt_number :: "int option"
  te_error :: "agent_error option"
  te_detail :: "(string, string) dict"
  te_model :: "model_call_observation option"

text \<open>
  A detail as \<open>_scrub_details\<close> leaves it: distinct unpadded keys and values of at most 256
  characters. The redaction that runs before is not part of a stored event.
\<close>

definition trace_detail_ok :: "(string, string) dict \<Rightarrow> bool" where
  "trace_detail_ok d \<longleftrightarrow> dict_ok d
     \<and> list_all (\<lambda>p. strict_str (fst p) \<and> char_len (snd p) \<le> 256) d"

definition trace_event_ok :: "trace_event \<Rightarrow> bool" where
  "trace_event_ok e \<longleftrightarrow> strict_str (te_event_id e) \<and> trace_id_ok (te_trace_id e)
     \<and> opt_all task_id_ok (te_task_id e) \<and> opt_all strict_str (te_capability_id e)
     \<and> opt_all strict_str (te_step_id e) \<and> opt_all strict_str (te_policy_revision e)
     \<and> opt_all (\<lambda>n. 0 \<le> n) (te_attempt_number e) \<and> opt_all agent_error_ok (te_error e)
     \<and> trace_detail_ok (te_detail e) \<and> opt_all model_call_observation_ok (te_model e)
     \<and> (te_stage e = STG_MODEL) = (te_model e \<noteq> None)
     \<and> \<not> (te_stage e = STG_MODEL \<and> te_detail e \<noteq> [])"

subsection \<open>Evidence and approvals\<close>

definition evidence_ref :: "string \<Rightarrow> string \<Rightarrow> string" where
  "evidence_ref task_id step_id = task_id @ '':'' @ step_id"

record evidence_envelope =
  ee_evidence_id :: string
  ee_capability_id :: string
  ee_capability_version :: string
  ee_facts :: "frozen_map list"
  ee_source :: string
  ee_source_kind :: external_source
  ee_captured_at :: instant
  ee_readonly :: bool
  ee_sampled :: bool
  ee_limitations :: "string list"
  ee_redaction_ref :: "string option"

definition evidence_envelope_ok :: "evidence_envelope \<Rightarrow> bool" where
  "evidence_envelope_ok e \<longleftrightarrow> strict_str (ee_evidence_id e) \<and> strict_str (ee_capability_id e)
     \<and> strict_str (ee_capability_version e) \<and> list_all frozen_map_ok (ee_facts e)
     \<and> strict_str (ee_source e) \<and> ee_readonly e \<and> list_all (\<lambda>l. l \<noteq> []) (ee_limitations e)
     \<and> opt_all strict_str (ee_redaction_ref e)"

definition evidence_eq :: "evidence_envelope \<Rightarrow> evidence_envelope \<Rightarrow> bool" where
  "evidence_eq e f \<longleftrightarrow> e\<lparr>ee_facts := []\<rparr> = f\<lparr>ee_facts := []\<rparr>
     \<and> list_all2 frozen_map_eq (ee_facts e) (ee_facts f)"

lemma evidence_eq_refl: "evidence_envelope_ok e \<Longrightarrow> evidence_eq e e"
  by (auto simp: evidence_eq_def evidence_envelope_ok_def frozen_map_ok_def list_all_iff
      intro!: list.rel_refl_strong frozen_map_eq_refl)

record approval_request =
  ar_task_id :: string
  ar_step_id :: string
  ar_plan_hash :: string
  ar_target_fingerprint :: string
  ar_policy_revision :: string
  ar_subject :: string
  ar_expires_at :: instant
  ar_state :: approval_state

definition approval_request_ok :: "approval_request \<Rightarrow> bool" where
  "approval_request_ok a \<longleftrightarrow> task_id_ok (ar_task_id a) \<and> strict_str (ar_step_id a)
     \<and> sha256_hex (ar_plan_hash a) \<and> sha256_hex (ar_target_fingerprint a)
     \<and> strict_str (ar_policy_revision a) \<and> strict_str (ar_subject a)"

end
