(* ===== verification/Task_Records.thy ===== *)
theory Task_Records
  imports Task_Contracts
begin

text \<open>
  The stored task facts of \<open>contracts/task.py\<close> and \<open>contracts/clarification.py\<close>: submissions,
  the task record with its lease and retry fields, pages and transition results, and the closed
  state machine \<open>ALLOWED_TRANSITIONS\<close> with its terminal states.
\<close>

subsection \<open>Clarification records\<close>

datatype interaction_kind =
    IK_CONVERSATION | IK_KNOWLEDGE_LOOKUP | IK_LOG_ANALYSIS | IK_CAPABILITY_REQUEST | IK_UNKNOWN

datatype clarification_field =
    CF_TIME_RANGE | CF_DATABASE | CF_USER_NAME | CF_QUERY_ID | CF_ALERT_NAME | CF_INSTANCE
    | CF_FINGERPRINT | CF_ASSET_ID | CF_HOSTNAME | CF_IP

fun clarification_field_value :: "clarification_field \<Rightarrow> string" where
  "clarification_field_value CF_TIME_RANGE = ''time_range''"
| "clarification_field_value CF_DATABASE = ''database''"
| "clarification_field_value CF_USER_NAME = ''user_name''"
| "clarification_field_value CF_QUERY_ID = ''query_id''"
| "clarification_field_value CF_ALERT_NAME = ''alert_name''"
| "clarification_field_value CF_INSTANCE = ''instance''"
| "clarification_field_value CF_FINGERPRINT = ''fingerprint''"
| "clarification_field_value CF_ASSET_ID = ''asset_id''"
| "clarification_field_value CF_HOSTNAME = ''hostname''"
| "clarification_field_value CF_IP = ''ip''"

datatype clarification_reason_code =
    CRC_INTERACTION_KIND_AMBIGUOUS | CRC_INTERACTION_ENVIRONMENT_ASSERTION_UNCLEAR
    | CRC_CAPABILITY_FIELDS_MISSING | CRC_CAPABILITY_FIELDS_AMBIGUOUS
    | CRC_CAPABILITY_ASSET_SELECTOR_REQUIRED | CRC_CAPABILITY_TARGET_SELECTION_REQUIRED

datatype timezone_id = TZ_UTC | TZ_ASIA_SHANGHAI

datatype confirmed_value =
    ConfirmedText string
  | ConfirmedTimeRange instant instant timezone_id

fun confirmed_value_ok :: "confirmed_value \<Rightarrow> bool" where
  "confirmed_value_ok (ConfirmedText t) =
     (strict_str t \<and> char_len t \<le> 512 \<and> length t \<le> 2048)"
| "confirmed_value_ok (ConfirmedTimeRange start_utc end_utc tz) = (start_utc < end_utc)"

record confirmed_slot =
  slot_field :: clarification_field
  slot_value :: confirmed_value

record target_option =
  to_resource_id :: string
  to_display_name :: string

record target_selection =
  tsel_sql_ref :: string
  tsel_sql_hash :: string
  tsel_options :: "target_option list"

definition target_selection_ok :: "target_selection \<Rightarrow> bool" where
  "target_selection_ok t \<longleftrightarrow> strict_str (tsel_sql_ref t) \<and> sha256_hex (tsel_sql_hash t)
     \<and> 2 \<le> length (tsel_options t)
     \<and> list_all (\<lambda>p. trace_id_ok (to_resource_id p) \<and> strict_str (to_display_name p)
          \<and> char_len (to_display_name p) \<le> 128) (tsel_options t)
     \<and> distinct (map to_resource_id (tsel_options t))
     \<and> distinct (map to_display_name (tsel_options t))"

record capability_subject =
  sub_capability_id :: string
  sub_capability_version :: string
  sub_operation :: string
  sub_input_schema_ref :: string
  sub_confirmed_slots :: "confirmed_slot list"
  sub_target_selection :: "target_selection option"

datatype clarification_subject =
    RouteSubject interaction_kind "confirmed_slot list"
  | CapabilitySubject capability_subject

fun subject_slots :: "clarification_subject \<Rightarrow> confirmed_slot list" where
  "subject_slots (RouteSubject k slots) = slots"
| "subject_slots (CapabilitySubject c) = sub_confirmed_slots c"

fun clarification_subject_ok :: "clarification_subject \<Rightarrow> bool" where
  "clarification_subject_ok (RouteSubject k slots) = (slots = [])"
| "clarification_subject_ok (CapabilitySubject c) =
     (strict_str (sub_capability_id c) \<and> strict_str (sub_capability_version c)
      \<and> strict_str (sub_operation c) \<and> strict_str (sub_input_schema_ref c)
      \<and> list_all (\<lambda>s. confirmed_value_ok (slot_value s)) (sub_confirmed_slots c)
      \<and> opt_all target_selection_ok (sub_target_selection c))"

definition slot_snapshot_ok :: "confirmed_slot list \<Rightarrow> bool" where
  "slot_snapshot_ok slots \<longleftrightarrow>
     (let keys = map (\<lambda>s. clarification_field_value (slot_field s)) slots
      in keys = sort keys \<and> distinct keys)"

fun subject_selection :: "clarification_subject \<Rightarrow> target_selection option" where
  "subject_selection (RouteSubject k slots) = None"
| "subject_selection (CapabilitySubject c) = sub_target_selection c"

definition target_selection_matches_reason ::
  "clarification_subject \<Rightarrow> clarification_reason_code \<Rightarrow> bool" where
  "target_selection_matches_reason subject reason \<longleftrightarrow>
     (reason = CRC_CAPABILITY_TARGET_SELECTION_REQUIRED) = (subject_selection subject \<noteq> None)"

record clarification_record =
  cr_task_id :: string
  cr_subject :: clarification_subject
  cr_reason_code :: clarification_reason_code
  cr_missing_fields :: "clarification_field list"
  cr_confirmed_slots :: "confirmed_slot list"
  cr_created_at :: instant
  cr_fencing_token :: int

definition clarification_record_ok :: "clarification_record \<Rightarrow> bool" where
  "clarification_record_ok r \<longleftrightarrow> task_id_ok (cr_task_id r) \<and> clarification_subject_ok (cr_subject r)
     \<and> list_all (\<lambda>s. confirmed_value_ok (slot_value s)) (cr_confirmed_slots r)
     \<and> 0 < cr_fencing_token r \<and> slot_snapshot_ok (cr_confirmed_slots r)
     \<and> subject_slots (cr_subject r) = cr_confirmed_slots r
     \<and> target_selection_matches_reason (cr_subject r) (cr_reason_code r)"

subsection \<open>Submissions\<close>

record conversation_submission =
  cs_envelope :: request_envelope
  cs_context :: request_context
  cs_as_of :: instant
  cs_clarification_parent_task_id :: "string option"

record artifact_submission =
  as_context :: request_context
  as_as_of :: instant
  as_sql_ref :: string
  as_sql_hash :: string

datatype task_submission =
    ConversationSubmission conversation_submission
  | ArtifactSubmission artifact_submission

fun submission_context :: "task_submission \<Rightarrow> request_context" where
  "submission_context (ConversationSubmission c) = cs_context c"
| "submission_context (ArtifactSubmission a) = as_context a"

definition conversation_submission_ok :: "conversation_submission \<Rightarrow> bool" where
  "conversation_submission_ok c \<longleftrightarrow> request_envelope_ok (cs_envelope c)
     \<and> request_context_ok (cs_context c) \<and> opt_all task_id_ok (cs_clarification_parent_task_id c)"

definition artifact_submission_ok :: "artifact_submission \<Rightarrow> bool" where
  "artifact_submission_ok a \<longleftrightarrow> request_context_ok (as_context a) \<and> strict_str (as_sql_ref a)
     \<and> sha256_hex (as_sql_hash a)"

fun task_submission_ok :: "task_submission \<Rightarrow> bool" where
  "task_submission_ok (ConversationSubmission c) = conversation_submission_ok c"
| "task_submission_ok (ArtifactSubmission a) = artifact_submission_ok a"

subsection \<open>The state machine\<close>

definition TERMINAL_STATUSES :: "task_status set" where
  "TERMINAL_STATUSES = {SUCCEEDED, FAILED, REJECTED, CANCELED, INDETERMINATE, CLARIFICATION_REQUIRED}"

fun ALLOWED_TRANSITIONS :: "task_status \<Rightarrow> task_status set" where
  "ALLOWED_TRANSITIONS CREATED = {PLANNING, CANCELED, FAILED, REJECTED, CLARIFICATION_REQUIRED}"
| "ALLOWED_TRANSITIONS PLANNING = {RUNNING, FAILED, CANCELED, REJECTED, CLARIFICATION_REQUIRED}"
| "ALLOWED_TRANSITIONS RUNNING =
     {AWAITING_APPROVAL, SUCCEEDED, FAILED, CANCELED, INDETERMINATE, REJECTED}"
| "ALLOWED_TRANSITIONS AWAITING_APPROVAL = {RUNNING, REJECTED, CANCELED, FAILED}"
| "ALLOWED_TRANSITIONS s = {}"

lemma terminal_no_successor: "s \<in> TERMINAL_STATUSES \<Longrightarrow> ALLOWED_TRANSITIONS s = {}"
  by (cases s) (auto simp: TERMINAL_STATUSES_def)

lemma no_successor_iff_terminal: "ALLOWED_TRANSITIONS s = {} \<longleftrightarrow> s \<in> TERMINAL_STATUSES"
  by (cases s) (auto simp: TERMINAL_STATUSES_def)

subsection \<open>Task records, leases, pages\<close>

record task_record =
  tr_task_id :: string
  tr_tenant_id :: string
  tr_environment_id :: string
  tr_actor :: string
  tr_idempotency_key :: string
  tr_request_digest :: string
  tr_status :: task_status
  tr_version :: int
  tr_created_seq :: int
  tr_attempt_number :: int
  tr_task_failure_count :: int
  tr_next_attempt_at :: "instant option"
  tr_retry_scheduled_by_attempt :: "int option"
  tr_retry_command_digest :: "string option"
  tr_lease_owner :: "string option"
  tr_lease_expires_at :: "instant option"
  tr_fencing_token :: "int option"
  tr_terminal_reason :: "string option"

definition lease_fields_ok :: "task_record \<Rightarrow> bool" where
  "lease_fields_ok r \<longleftrightarrow> (tr_lease_owner r \<noteq> None) = (tr_lease_expires_at r \<noteq> None)
     \<and> (tr_lease_owner r \<noteq> None) = (tr_fencing_token r \<noteq> None)"

definition retry_fields_ok :: "task_record \<Rightarrow> bool" where
  "retry_fields_ok r \<longleftrightarrow>
     (tr_retry_scheduled_by_attempt r \<noteq> None) = (tr_retry_command_digest r \<noteq> None)
     \<and> opt_all (\<lambda>a. a \<le> tr_attempt_number r) (tr_retry_scheduled_by_attempt r)"

definition task_record_ok :: "task_record \<Rightarrow> bool" where
  "task_record_ok r \<longleftrightarrow> task_id_ok (tr_task_id r) \<and> strict_str (tr_tenant_id r)
     \<and> strict_str (tr_environment_id r) \<and> strict_str (tr_actor r)
     \<and> strict_str (tr_idempotency_key r) \<and> sha256_hex (tr_request_digest r)
     \<and> 0 \<le> tr_version r \<and> 0 < tr_created_seq r \<and> 0 \<le> tr_attempt_number r
     \<and> 0 \<le> tr_task_failure_count r
     \<and> opt_all (\<lambda>n. 0 < n) (tr_retry_scheduled_by_attempt r)
     \<and> opt_all sha256_hex (tr_retry_command_digest r) \<and> opt_all strict_str (tr_lease_owner r)
     \<and> opt_all (\<lambda>n. 0 < n) (tr_fencing_token r) \<and> opt_all strict_str (tr_terminal_reason r)
     \<and> lease_fields_ok r \<and> retry_fields_ok r"

record lease_grant =
  lg_task_id :: string
  lg_owner :: string
  lg_expires_at :: instant
  lg_fencing_token :: int

definition lease_grant_ok :: "lease_grant \<Rightarrow> bool" where
  "lease_grant_ok g \<longleftrightarrow> task_id_ok (lg_task_id g) \<and> strict_str (lg_owner g) \<and> 0 < lg_fencing_token g"

record task_attempt_grant =
  tg_lease :: lease_grant
  tg_attempt_number :: int

definition task_attempt_grant_ok :: "task_attempt_grant \<Rightarrow> bool" where
  "task_attempt_grant_ok g \<longleftrightarrow> lease_grant_ok (tg_lease g) \<and> 0 < tg_attempt_number g"

abbreviation tg_task_id :: "task_attempt_grant \<Rightarrow> string" where
  "tg_task_id g \<equiv> lg_task_id (tg_lease g)"

abbreviation tg_fencing_token :: "task_attempt_grant \<Rightarrow> int" where
  "tg_fencing_token g \<equiv> lg_fencing_token (tg_lease g)"

record stored_task_read =
  sr_record :: task_record
  sr_submission :: task_submission

record stored_task_page =
  pg_items :: "stored_task_read list"
  pg_next_created_seq :: "int option"

fun strictly_descending :: "int list \<Rightarrow> bool" where
  "strictly_descending (current # following # rest) =
     (following < current \<and> strictly_descending (following # rest))"
| "strictly_descending xs = True"

definition stored_task_page_ok :: "stored_task_page \<Rightarrow> bool" where
  "stored_task_page_ok p \<longleftrightarrow>
     opt_all (\<lambda>n. 0 < n) (pg_next_created_seq p)
     \<and> strictly_descending (map (\<lambda>i. tr_created_seq (sr_record i)) (pg_items p))
     \<and> (if pg_items p = [] then pg_next_created_seq p = None
        else opt_all (\<lambda>n. n = tr_created_seq (sr_record (last (pg_items p)))) (pg_next_created_seq p))"

record transition_result =
  trr_applied :: bool
  trr_winner :: task_record
  trr_rejection :: "transition_rejection option"

definition transition_result_ok :: "transition_result \<Rightarrow> bool" where
  "transition_result_ok t \<longleftrightarrow> task_record_ok (trr_winner t)
     \<and> trr_applied t \<noteq> (trr_rejection t \<noteq> None)"

record task_outcome =
  to_task_id :: string
  to_status :: task_status
  to_terminal_reason :: "string option"
  to_evidence_refs :: "string list"
  to_render_ref :: "string option"

definition task_outcome_ok :: "task_outcome \<Rightarrow> bool" where
  "task_outcome_ok o' \<longleftrightarrow> task_id_ok (to_task_id o') \<and> opt_all strict_str (to_terminal_reason o')
     \<and> list_all strict_str (to_evidence_refs o') \<and> opt_all strict_str (to_render_ref o')
     \<and> to_status o' \<in> TERMINAL_STATUSES"

end
