(* ===== verification/Task_Decisions.thy ===== *)
theory Task_Decisions
  imports Task_Records
begin

text \<open>
  \<open>persistence/decisions.py\<close>: the pure decision rules both store implementations share. The
  order of the rejections is that of the source: terminal protection, lease and fencing, version,
  legality of the transition. The lemmas characterise each decision by the facts it guarantees,
  so that the store proofs never unfold it.
\<close>

subsection \<open>Queries, commands\<close>

record dispatch_query =
  dq_tenant_id :: string
  dq_environment_id :: string
  dq_limit :: int

record transition_command =
  tc_task_id :: string
  tc_expected_version :: int
  tc_to_status :: task_status
  tc_fencing_token :: "int option"
  tc_terminal_reason :: "string option"
  tc_audit_events :: "trace_event list"

definition transition_command_ok :: "transition_command \<Rightarrow> bool" where
  "transition_command_ok c \<longleftrightarrow> task_id_ok (tc_task_id c) \<and> 0 \<le> tc_expected_version c
     \<and> opt_all (\<lambda>t. 0 < t) (tc_fencing_token c) \<and> opt_all strict_str (tc_terminal_reason c)
     \<and> list_all trace_event_ok (tc_audit_events c)
     \<and> list_all (\<lambda>e. te_task_id e = Some (tc_task_id c)) (tc_audit_events c)"

record sql_artifact_record =
  sa_sql_ref :: string
  sa_sql_hash :: string
  sa_sql_bytes :: "string option"
  sa_requester :: string
  sa_tenant_id :: string
  sa_environment_id :: string
  sa_created_at :: instant
  sa_expires_at :: instant
  sa_purged_at :: "instant option"

definition SQL_ARTIFACT_TTL :: instant where
  "SQL_ARTIFACT_TTL = seconds (24 * 60 * 60)"

subsection \<open>Attempts and grants\<close>

definition dispatch_statuses :: "task_status set" where
  "dispatch_statuses = {CREATED, PLANNING, RUNNING}"

fun attempt_statuses :: "attempt_intent \<Rightarrow> task_status set" where
  "attempt_statuses INTENT_DISPATCH = dispatch_statuses"
| "attempt_statuses INTENT_APPROVAL_RESUME = {AWAITING_APPROVAL}"

definition lease_is_live :: "task_record \<Rightarrow> instant \<Rightarrow> bool" where
  "lease_is_live r now \<longleftrightarrow> tr_lease_owner r \<noteq> None
     \<and> (case tr_lease_expires_at r of None \<Rightarrow> False | Some t \<Rightarrow> now < t)"

definition is_dispatchable :: "task_record \<Rightarrow> dispatch_query \<Rightarrow> instant \<Rightarrow> bool" where
  "is_dispatchable r q now \<longleftrightarrow> tr_tenant_id r = dq_tenant_id q
     \<and> tr_environment_id r = dq_environment_id q \<and> tr_status r \<in> dispatch_statuses
     \<and> opt_all (\<lambda>t. t \<le> now) (tr_next_attempt_at r) \<and> \<not> lease_is_live r now"

definition dispatch_sort_key :: "task_record \<Rightarrow> int \<times> string" where
  "dispatch_sort_key r = (tr_created_seq r, tr_task_id r)"

definition classify_task_attempt ::
  "task_record \<Rightarrow> attempt_intent \<Rightarrow> instant \<Rightarrow> int \<Rightarrow> task_attempt_rejection option" where
  "classify_task_attempt r intent now task_failure_limit =
     (if tr_status r \<in> TERMINAL_STATUSES then Some TAR_TERMINAL_PROTECTED
      else if tr_status r \<notin> attempt_statuses intent then Some TAR_NOT_DISPATCHABLE
      else if \<not> opt_all (\<lambda>t. t \<le> now) (tr_next_attempt_at r) then Some TAR_RETRY_NOT_DUE
      else if lease_is_live r now then Some TAR_LIVE_LEASE
      else if task_failure_limit \<le> tr_task_failure_count r then Some TAR_RETRY_EXHAUSTED
      else None)"

definition grant_is_current ::
  "task_record \<Rightarrow> task_attempt_grant \<Rightarrow> instant \<Rightarrow> task_status set \<Rightarrow> grant_rejection option" where
  "grant_is_current r grant now allowed_statuses =
     (if tr_status r \<in> TERMINAL_STATUSES then Some GR_TERMINAL_PROTECTED
      else if tr_status r \<notin> allowed_statuses then Some GR_STATUS_NOT_ALLOWED
      else if \<not> lease_is_live r now then Some GR_LEASE_NOT_HELD
      else if tr_lease_owner r \<noteq> Some (lg_owner (tg_lease grant))
        \<or> tr_fencing_token r \<noteq> Some (tg_fencing_token grant)
        \<or> tr_attempt_number r \<noteq> tg_attempt_number grant then Some GR_STALE_FENCING
      else None)"

subsection \<open>Transitions\<close>

definition check_fencing ::
  "task_record \<Rightarrow> int option \<Rightarrow> instant \<Rightarrow> transition_rejection option" where
  "check_fencing r fencing_token now =
     (if tr_fencing_token r = None
      then if fencing_token = None then None else Some TR_LEASE_NOT_HELD
      else if \<not> lease_is_live r now then Some TR_LEASE_NOT_HELD
      else if fencing_token = None then Some TR_LEASE_NOT_HELD
      else if fencing_token \<noteq> tr_fencing_token r then Some TR_STALE_FENCING_TOKEN
      else None)"

definition classify_transition ::
  "task_record \<Rightarrow> transition_command \<Rightarrow> instant \<Rightarrow> transition_rejection option" where
  "classify_transition r command now =
     (if tr_status r \<in> TERMINAL_STATUSES then Some TR_TERMINAL_PROTECTED
      else case check_fencing r (tc_fencing_token command) now of
          Some rejection \<Rightarrow> Some rejection
        | None \<Rightarrow>
            if tr_version r \<noteq> tc_expected_version command then Some TR_VERSION_MISMATCH
            else if tc_to_status command \<notin> ALLOWED_TRANSITIONS (tr_status r)
              then Some TR_ILLEGAL_TRANSITION
            else None)"

definition apply_transition ::
  "task_record \<Rightarrow> transition_command \<Rightarrow> validation_error + task_record" where
  "apply_transition r command = revalidate task_record_ok
     (r\<lparr>tr_status := tc_to_status command, tr_version := tr_version r + 1,
        tr_terminal_reason := tc_terminal_reason command\<rparr>)"

subsection \<open>Leases\<close>

definition may_acquire_lease :: "task_record \<Rightarrow> string \<Rightarrow> instant \<Rightarrow> bool" where
  "may_acquire_lease r owner now =
     (if tr_status r \<in> TERMINAL_STATUSES then False
      else \<not> (lease_is_live r now \<and> tr_lease_owner r \<noteq> Some owner))"

definition may_renew_lease :: "task_record \<Rightarrow> string \<Rightarrow> int \<Rightarrow> instant \<Rightarrow> bool" where
  "may_renew_lease r owner fencing_token now =
     (if \<not> lease_is_live r now then False
      else tr_lease_owner r = Some owner \<and> tr_fencing_token r = Some fencing_token)"

definition is_stale_lease :: "task_record \<Rightarrow> instant \<Rightarrow> bool" where
  "is_stale_lease r now \<longleftrightarrow> tr_fencing_token r \<noteq> None \<and> \<not> lease_is_live r now
     \<and> tr_status r \<notin> TERMINAL_STATUSES"

text \<open>The key of a record never leased raises; \<open>None\<close> stands for that \<open>ValueError\<close>.\<close>

definition stale_lease_sort_key :: "task_record \<Rightarrow> (instant \<times> string) option" where
  "stale_lease_sort_key r = (case tr_lease_expires_at r of
      None \<Rightarrow> None
    | Some expires_at \<Rightarrow> Some (expires_at, tr_task_id r))"

definition context_matches_envelope :: "request_envelope \<Rightarrow> request_context \<Rightarrow> bool" where
  "context_matches_envelope e c \<longleftrightarrow> re_tenant_id e = rc_tenant_id c \<and> re_actor e = rc_actor c
     \<and> (re_environment_id e = None \<or> re_environment_id e = Some (rc_environment_id c))"

subsection \<open>SQL artifacts\<close>

datatype sql_artifact_read_decision =
  SR_AVAILABLE | SR_NOT_FOUND | SR_SCOPE_MISMATCH | SR_HASH_MISMATCH | SR_EXPIRED

definition classify_sql_artifact_read ::
  "sql_artifact_record option \<Rightarrow> instant \<Rightarrow> string \<Rightarrow> string \<Rightarrow> string \<Rightarrow> string
     \<Rightarrow> sql_artifact_read_decision" where
  "classify_sql_artifact_read row now requester tenant_id environment_id sql_hash =
     (case row of
        None \<Rightarrow> SR_NOT_FOUND
      | Some r \<Rightarrow>
          if sa_requester r \<noteq> requester \<or> sa_tenant_id r \<noteq> tenant_id
            \<or> sa_environment_id r \<noteq> environment_id then SR_SCOPE_MISMATCH
          else if sa_sql_hash r \<noteq> sql_hash then SR_HASH_MISMATCH
          else if sa_purged_at r \<noteq> None \<or> sa_sql_bytes r = None \<or> sa_expires_at r \<le> now
            then SR_EXPIRED
          else SR_AVAILABLE)"

definition extended_sql_expiry :: "instant \<Rightarrow> instant \<Rightarrow> instant" where
  "extended_sql_expiry current now = max current (now + SQL_ARTIFACT_TTL)"

datatype sql_submit_outcome = SQL_CREATED | SQL_REPLAYED | SQL_IDEMPOTENCY_CONFLICT

definition classify_sql_submit ::
  "task_record option \<Rightarrow> string \<Rightarrow> string \<Rightarrow> string \<Rightarrow> string \<Rightarrow> sql_submit_outcome" where
  "classify_sql_submit existing tenant_id environment_id idempotency_key request_digest =
     (case existing of
        None \<Rightarrow> SQL_CREATED
      | Some r \<Rightarrow>
          if tr_tenant_id r \<noteq> tenant_id \<or> tr_environment_id r \<noteq> environment_id
            \<or> tr_idempotency_key r \<noteq> idempotency_key \<or> tr_request_digest r \<noteq> request_digest
          then SQL_IDEMPOTENCY_CONFLICT else SQL_REPLAYED)"

subsection \<open>What a decision guarantees\<close>

named_theorems decision_facts \<open>what an accepting decision guarantees\<close>

lemma grant_is_current_None [decision_facts]:
  "grant_is_current r g now sts = None \<longleftrightarrow>
     tr_status r \<notin> TERMINAL_STATUSES \<and> tr_status r \<in> sts \<and> lease_is_live r now
     \<and> tr_lease_owner r = Some (lg_owner (tg_lease g))
     \<and> tr_fencing_token r = Some (tg_fencing_token g) \<and> tr_attempt_number r = tg_attempt_number g"
  by (auto simp: grant_is_current_def)

lemma classify_task_attempt_None [decision_facts]:
  "classify_task_attempt r intent now limit = None \<longleftrightarrow>
     tr_status r \<notin> TERMINAL_STATUSES \<and> tr_status r \<in> attempt_statuses intent
     \<and> opt_all (\<lambda>t. t \<le> now) (tr_next_attempt_at r) \<and> \<not> lease_is_live r now
     \<and> tr_task_failure_count r < limit"
  by (auto simp: classify_task_attempt_def)

lemma classify_transition_None [decision_facts]:
  "classify_transition r c now = None \<longleftrightarrow>
     tr_status r \<notin> TERMINAL_STATUSES \<and> check_fencing r (tc_fencing_token c) now = None
     \<and> tr_version r = tc_expected_version c
     \<and> tc_to_status c \<in> ALLOWED_TRANSITIONS (tr_status r)"
  by (auto simp: classify_transition_def split: option.splits)

lemma check_fencing_None [decision_facts]:
  "check_fencing r tok now = None \<longleftrightarrow>
     tok = tr_fencing_token r \<and> (tr_fencing_token r = None \<or> lease_is_live r now)"
  by (auto simp: check_fencing_def)

lemma may_acquire_lease_iff [decision_facts]:
  "may_acquire_lease r owner now \<longleftrightarrow> tr_status r \<notin> TERMINAL_STATUSES
     \<and> (lease_is_live r now \<longrightarrow> tr_lease_owner r = Some owner)"
  by (auto simp: may_acquire_lease_def)

lemma classify_sql_artifact_read_AVAILABLE [decision_facts]:
  "classify_sql_artifact_read row now rq tn en h = SR_AVAILABLE \<longleftrightarrow>
     (\<exists>r b. row = Some r \<and> sa_requester r = rq \<and> sa_tenant_id r = tn \<and> sa_environment_id r = en
        \<and> sa_sql_hash r = h \<and> sa_purged_at r = None \<and> sa_sql_bytes r = Some b \<and> now < sa_expires_at r)"
  by (auto simp: classify_sql_artifact_read_def split: option.splits if_splits)

lemma extended_sql_expiry_mono:
  "current \<le> extended_sql_expiry current now" "now + SQL_ARTIFACT_TTL \<le> extended_sql_expiry current now"
  by (simp_all add: extended_sql_expiry_def)

lemma dispatchable_is_claimable:
  "is_dispatchable r q now \<Longrightarrow>
     classify_task_attempt r INTENT_DISPATCH now limit \<in> {None, Some TAR_RETRY_EXHAUSTED}"
  by (auto simp: is_dispatchable_def classify_task_attempt_def dispatch_statuses_def
      TERMINAL_STATUSES_def)

text \<open>The closed fencing table of the module header.\<close>

lemma check_fencing_table:
  "tr_fencing_token r = None \<Longrightarrow> check_fencing r None now = None"
  "tr_fencing_token r = None \<Longrightarrow> check_fencing r (Some t) now = Some TR_LEASE_NOT_HELD"
  "tr_fencing_token r = Some u \<Longrightarrow> lease_is_live r now \<Longrightarrow> check_fencing r (Some u) now = None"
  "tr_fencing_token r = Some u \<Longrightarrow> lease_is_live r now \<Longrightarrow> t \<noteq> u \<Longrightarrow>
     check_fencing r (Some t) now = Some TR_STALE_FENCING_TOKEN"
  "tr_fencing_token r = Some u \<Longrightarrow> lease_is_live r now \<Longrightarrow>
     check_fencing r None now = Some TR_LEASE_NOT_HELD"
  "tr_fencing_token r = Some u \<Longrightarrow> \<not> lease_is_live r now \<Longrightarrow>
     check_fencing r tok now = Some TR_LEASE_NOT_HELD"
  by (auto simp: check_fencing_def)

lemma apply_transition_ok:
  assumes "task_record_ok r" "transition_command_ok c"
  shows "apply_transition r c = Inr (r\<lparr>tr_status := tc_to_status c, tr_version := tr_version r + 1,
        tr_terminal_reason := tc_terminal_reason c\<rparr>)"
  using assms by (auto simp: apply_transition_def task_record_ok_def transition_command_ok_def
      lease_fields_ok_def retry_fields_ok_def)

end
