(* ===== verification/Task_Digests.thy ===== *)
theory Task_Digests
  imports Fingerprints Task_Decisions
begin

text \<open>
  The checksums of \<open>persistence/store.py\<close>: the idempotency digests of a conversation and of a
  SQL submission, the digest of a complete submission, of a retry command and of a step commit,
  and the consistency check of a stored submission. \<open>dump_contract\<close> of \<open>persistence/rows.py\<close>
  becomes the payload functions below, one entry per contract field. Except for the step commit,
  whose evidence facts have free keys, every payload has ASCII keys, so these digests always
  exist (the lemmas \<open>..._total\<close>).
\<close>

subsection \<open>Contracts as JSON values\<close>

definition opt_str :: "string option \<Rightarrow> py_value" where
  "opt_str = opt_value PStr"

definition dump_context :: "request_context \<Rightarrow> py_value" where
  "dump_context c = obj
     [(''tenant_id'', PStr (rc_tenant_id c)), (''actor'', PStr (rc_actor c)),
      (''environment_id'', PStr (rc_environment_id c)), (''trace_id'', PStr (rc_trace_id c)),
      (''policy_revision'', PStr (rc_policy_revision c))]"

definition dump_envelope :: "request_envelope \<Rightarrow> py_value" where
  "dump_envelope e = obj
     [(''request_id'', PStr (re_request_id e)), (''tenant_id'', PStr (re_tenant_id e)),
      (''actor'', PStr (re_actor e)), (''channel'', PStr (channel_value (re_channel e))),
      (''text'', PStr (re_text e)), (''idempotency_key'', PStr (re_idempotency_key e)),
      (''environment_id'', opt_str (re_environment_id e))]"

definition dump_evidence :: "py_env \<Rightarrow> evidence_envelope \<Rightarrow> py_value" where
  "dump_evidence E e = obj
     [(''evidence_id'', PStr (ee_evidence_id e)), (''capability_id'', PStr (ee_capability_id e)),
      (''capability_version'', PStr (ee_capability_version e)),
      (''facts'', PSeq (map args_payload (ee_facts e))), (''source'', PStr (ee_source e)),
      (''source_kind'', PStr (external_source_value (ee_source_kind e))),
      (''captured_at'', PStr (env_json_datetime E (ee_captured_at e))),
      (''readonly'', PBool (ee_readonly e)), (''sampled'', PBool (ee_sampled e)),
      (''limitations'', PSeq (map PStr (ee_limitations e))),
      (''redaction_ref'', opt_str (ee_redaction_ref e))]"

definition dump_error :: "agent_error \<Rightarrow> py_value" where
  "dump_error e = obj
     [(''code'', PStr (ae_code e)), (''category'', PStr (error_category_value (ae_category e))),
      (''retryable'', PBool (ae_retryable e)), (''message_key'', PStr (ae_message_key e)),
      (''cause_ref'', opt_str (ae_cause_ref e))]"

definition dump_observation :: "model_call_observation \<Rightarrow> py_value" where
  "dump_observation m = obj
     [(''call_kind'', PStr (model_call_kind_value (mo_call_kind m))),
      (''elapsed_ms'', PInt (mo_elapsed_ms m)), (''request_count'', PInt (mo_request_count m)),
      (''input_tokens'', opt_value PInt (mo_input_tokens m)),
      (''output_tokens'', opt_value PInt (mo_output_tokens m)),
      (''fallback_code'', opt_value (\<lambda>c. PStr (model_fallback_code_value c)) (mo_fallback_code m))]"

definition dump_event :: "py_env \<Rightarrow> trace_event \<Rightarrow> py_value" where
  "dump_event E e = obj
     [(''event_id'', PStr (te_event_id e)), (''trace_id'', PStr (te_trace_id e)),
      (''task_id'', opt_str (te_task_id e)),
      (''stage'', PStr (pipeline_stage_value (te_stage e))),
      (''outcome'', PStr (stage_outcome_value (te_outcome e))),
      (''occurred_at'', PStr (env_json_datetime E (te_occurred_at e))),
      (''capability_id'', opt_str (te_capability_id e)), (''step_id'', opt_str (te_step_id e)),
      (''policy_revision'', opt_str (te_policy_revision e)),
      (''attempt_number'', opt_value PInt (te_attempt_number e)),
      (''error'', opt_value dump_error (te_error e)),
      (''detail'', obj (map (\<lambda>(k, v). (k, PStr v)) (te_detail e))),
      (''model'', opt_value dump_observation (te_model e))]"

subsection \<open>Digests\<close>

definition request_dedup_payload ::
  "request_envelope \<Rightarrow> request_context \<Rightarrow> string option \<Rightarrow> (string \<times> py_value) list" where
  "request_dedup_payload e c parent =
     [(''tenant_id'', PStr (rc_tenant_id c)), (''environment_id'', PStr (rc_environment_id c)),
      (''actor'', PStr (rc_actor c)), (''channel'', PStr (channel_value (re_channel e))),
      (''text'', PStr (re_text e)), (''idempotency_key'', PStr (re_idempotency_key e))]
     @ (case parent of None \<Rightarrow> [] | Some p \<Rightarrow> [(''clarification_parent_task_id'', PStr p)])"

definition request_dedup_digest ::
  "py_env \<Rightarrow> request_envelope \<Rightarrow> request_context \<Rightarrow> string option \<Rightarrow> canon_error + string" where
  "request_dedup_digest E e c parent = sha256_of E (obj (request_dedup_payload e c parent))"

definition idempotency_scope_digest ::
  "py_env \<Rightarrow> string \<Rightarrow> string \<Rightarrow> string \<Rightarrow> string option \<Rightarrow> canon_error + string" where
  "idempotency_scope_digest E tenant_id environment_id idempotency_key input_kind =
     sha256_of E (obj
       ([(''tenant_id'', PStr tenant_id), (''environment_id'', PStr environment_id),
         (''idempotency_key'', PStr idempotency_key)]
        @ (case input_kind of None \<Rightarrow> [] | Some k \<Rightarrow> [(''input_kind'', PStr k)])))"

definition sql_request_dedup_payload ::
  "request_context \<Rightarrow> string \<Rightarrow> string \<Rightarrow> (string \<times> py_value) list" where
  "sql_request_dedup_payload c sql_hash idempotency_key =
     [(''tenant_id'', PStr (rc_tenant_id c)), (''environment_id'', PStr (rc_environment_id c)),
      (''actor'', PStr (rc_actor c)), (''input_kind'', PStr ''sql_artifact''),
      (''sql_hash'', PStr sql_hash), (''idempotency_key'', PStr idempotency_key)]"

definition sql_request_dedup_digest ::
  "py_env \<Rightarrow> request_context \<Rightarrow> string \<Rightarrow> string \<Rightarrow> canon_error + string" where
  "sql_request_dedup_digest E c sql_hash idempotency_key =
     sha256_of E (obj (sql_request_dedup_payload c sql_hash idempotency_key))"

fun submission_payload :: "py_env \<Rightarrow> task_submission \<Rightarrow> (string \<times> py_value) list" where
  "submission_payload E (ArtifactSubmission a) =
     [(''input_kind'', PStr ''sql_artifact''), (''context'', dump_context (as_context a)),
      (''as_of'', PStr (env_isoformat E (as_as_of a))),
      (''sql_ref'', PStr (as_sql_ref a)), (''sql_hash'', PStr (as_sql_hash a))]"
| "submission_payload E (ConversationSubmission c) =
     [(''envelope'', dump_envelope (cs_envelope c)), (''context'', dump_context (cs_context c)),
      (''as_of'', PStr (env_isoformat E (cs_as_of c)))]
     @ (case cs_clarification_parent_task_id c of None \<Rightarrow> []
        | Some p \<Rightarrow> [(''clarification_parent_task_id'', PStr p)])"

definition submission_digest :: "py_env \<Rightarrow> task_submission \<Rightarrow> canon_error + string" where
  "submission_digest E s = sha256_of E (obj (submission_payload E s))"

fun submission_matches_record ::
  "py_env \<Rightarrow> task_record \<Rightarrow> task_submission \<Rightarrow> string \<Rightarrow> bool" where
  "submission_matches_record E r (ArtifactSubmission a) stored_digest \<longleftrightarrow>
     submission_digest E (ArtifactSubmission a) = Inr stored_digest
     \<and> sql_request_dedup_digest E (as_context a) (as_sql_hash a) (tr_idempotency_key r)
         = Inr (tr_request_digest r)
     \<and> tr_tenant_id r = rc_tenant_id (as_context a)
     \<and> tr_environment_id r = rc_environment_id (as_context a)
     \<and> tr_actor r = rc_actor (as_context a)"
| "submission_matches_record E r (ConversationSubmission c) stored_digest \<longleftrightarrow>
     submission_digest E (ConversationSubmission c) = Inr stored_digest
     \<and> request_dedup_digest E (cs_envelope c) (cs_context c) (cs_clarification_parent_task_id c)
         = Inr (tr_request_digest r)
     \<and> context_matches_envelope (cs_envelope c) (cs_context c)
     \<and> tr_tenant_id r = rc_tenant_id (cs_context c)
     \<and> tr_environment_id r = rc_environment_id (cs_context c)
     \<and> tr_actor r = rc_actor (cs_context c)"

definition clarification_parent_is_usable ::
  "task_record \<Rightarrow> conversation_submission \<Rightarrow> string \<Rightarrow> bool" where
  "clarification_parent_is_usable parent submission authenticated_channel_owner \<longleftrightarrow>
     tr_status parent = CLARIFICATION_REQUIRED
     \<and> tr_tenant_id parent = rc_tenant_id (cs_context submission)
     \<and> tr_environment_id parent = rc_environment_id (cs_context submission)
     \<and> tr_actor parent = rc_actor (cs_context submission)
     \<and> authenticated_channel_owner = rc_actor (cs_context submission)"

subsection \<open>Retry and step commands\<close>

record retry_command =
  rt_grant :: task_attempt_grant
  rt_next_attempt_at :: instant
  rt_reason :: retry_reason
  rt_audit_events :: "trace_event list"

definition retry_command_ok :: "retry_command \<Rightarrow> bool" where
  "retry_command_ok c \<longleftrightarrow> task_attempt_grant_ok (rt_grant c) \<and> rt_audit_events c \<noteq> []
     \<and> list_all (\<lambda>e. trace_event_ok e \<and> te_task_id e = Some (tg_task_id (rt_grant c))
          \<and> te_attempt_number e = Some (tg_attempt_number (rt_grant c))) (rt_audit_events c)"

definition retry_command_digest :: "py_env \<Rightarrow> retry_command \<Rightarrow> canon_error + string" where
  "retry_command_digest E c = sha256_of E (obj
     [(''next_attempt_at'', PStr (env_isoformat E (rt_next_attempt_at c))),
      (''reason'', PStr (retry_reason_value (rt_reason c))),
      (''attempt_number'', PInt (tg_attempt_number (rt_grant c)))])"

record step_commit_command =
  sc_grant :: task_attempt_grant
  sc_step_id :: string
  sc_kind :: step_outcome_kind
  sc_status :: step_result_status
  sc_evidence :: "evidence_envelope option"
  sc_audit_events :: "trace_event list"

definition step_commit_command_ok :: "step_commit_command \<Rightarrow> bool" where
  "step_commit_command_ok c \<longleftrightarrow> task_attempt_grant_ok (sc_grant c) \<and> strict_str (sc_step_id c)
     \<and> opt_all evidence_envelope_ok (sc_evidence c) \<and> sc_audit_events c \<noteq> []
     \<and> list_all trace_event_ok (sc_audit_events c)
     \<and> (sc_evidence c \<noteq> None) = (sc_kind c = KIND_TOOL_RESULT)
     \<and> sc_status c \<noteq> STEP_SKIPPED
     \<and> (sc_kind c = KIND_TOOL_RESULT \<longrightarrow> sc_status c \<in> {STEP_OK, STEP_FAILED, STEP_TIMEOUT})
     \<and> (sc_kind c = KIND_MALFORMED_ADAPTER \<longrightarrow> sc_status c = STEP_FAILED)
     \<and> opt_all (\<lambda>e. ee_evidence_id e = evidence_ref (tg_task_id (sc_grant c)) (sc_step_id c))
         (sc_evidence c)
     \<and> list_all (\<lambda>e. te_task_id e = Some (tg_task_id (sc_grant c))
          \<and> te_step_id e = Some (sc_step_id c)
          \<and> te_attempt_number e = Some (tg_attempt_number (sc_grant c))) (sc_audit_events c)
     \<and> distinct (map te_event_id (sc_audit_events c))"

fun collect_digests :: "py_env \<Rightarrow> trace_event list \<Rightarrow> canon_error + string list" where
  "collect_digests E [] = Inr []"
| "collect_digests E (e # es) = (case sha256_of E (dump_event E e) of
      Inl err \<Rightarrow> Inl err
    | Inr d \<Rightarrow> (case collect_digests E es of Inl err \<Rightarrow> Inl err | Inr ds \<Rightarrow> Inr (d # ds)))"

definition step_commit_digest :: "py_env \<Rightarrow> step_commit_command \<Rightarrow> canon_error + string" where
  "step_commit_digest E c = (case collect_digests E (sc_audit_events c) of
      Inl err \<Rightarrow> Inl err
    | Inr audit \<Rightarrow> sha256_of E (obj
        [(''status'', PStr (step_result_value (sc_status c))),
         (''kind'', PStr (step_outcome_kind_value (sc_kind c))),
         (''evidence'', opt_value (dump_evidence E) (sc_evidence c)),
         (''audit'', PSeq (map PStr (sort audit)))]))"

subsection \<open>The digests exist\<close>

lemma normalise_items_ok:
  assumes "py_env_ok E" "list_all ascii (map fst kvs)" "distinct (map fst kvs)"
    "set seen \<inter> fst ` set kvs = {}" "list_all (\<lambda>p. is_ok (normalise (env_nfc E) (snd p))) kvs"
  shows "is_ok (normalise_items (env_nfc E) seen (map (\<lambda>(k, v). (PStr k, v)) kvs))"
  using assms(2-)
proof (induction kvs arbitrary: seen)
  case (Cons p kvs)
  obtain k v where p: "p = (k, v)" by fastforce
  with Cons.prems nfc_ascii [OF assms(1)] have k: "env_nfc E k = k" "k \<notin> set seen"
    and v: "is_ok (normalise (env_nfc E) v)" by auto
  have "is_ok (normalise_items (env_nfc E) (k # seen) (map (\<lambda>(k, v). (PStr k, v)) kvs))"
    using Cons.prems p by (intro Cons.IH) force+
  with k v p show ?case by (auto simp: is_ok_conv)
qed simp

lemma normalise_obj_ok:
  assumes "py_env_ok E" "list_all ascii (map fst kvs)" "distinct (map fst kvs)"
    "list_all (\<lambda>p. is_ok (normalise (env_nfc E) (snd p))) kvs"
  shows "is_ok (normalise (env_nfc E) (obj kvs))"
  using normalise_items_ok [OF assms(1-3), of "[]"] assms(4) by (auto simp: obj_def is_ok_conv)

lemma sha256_of_total:
  assumes "py_env_ok E" "is_ok (normalise (env_nfc E) v)"
  shows "\<exists>d. sha256_of E v = Inr d \<and> sha256_hex d"
  using assms by (auto simp: sha256_of_def canonical_json_def is_ok_conv py_env_ok_def)

lemma normalise_leaf_ok [simp]:
  "is_ok (normalise nfc (PStr s))" "is_ok (normalise nfc (PInt i))" "is_ok (normalise nfc (PBool b))"
  "is_ok (normalise nfc PNone)" "is_ok (normalise nfc (opt_str so))"
  by (auto simp: opt_str_def opt_value_def split: option.splits)

lemma ascii_literals [simp]: "ascii [] = True" "ascii (c # s) = (of_char c < (128 :: nat) \<and> ascii s)"
  by (simp_all add: ascii_def)

lemma dump_context_ok: "py_env_ok E \<Longrightarrow> is_ok (normalise (env_nfc E) (dump_context c))"
  unfolding dump_context_def by (rule normalise_obj_ok) simp_all

lemma dump_envelope_ok: "py_env_ok E \<Longrightarrow> is_ok (normalise (env_nfc E) (dump_envelope e))"
  unfolding dump_envelope_def by (rule normalise_obj_ok) simp_all

lemma request_dedup_digest_total:
  "py_env_ok E \<Longrightarrow> \<exists>d. request_dedup_digest E e c parent = Inr d \<and> sha256_hex d"
  unfolding request_dedup_digest_def request_dedup_payload_def
  by (intro sha256_of_total normalise_obj_ok) (auto split: option.splits)

lemma idempotency_scope_digest_total:
  "py_env_ok E \<Longrightarrow> \<exists>d. idempotency_scope_digest E t n k i = Inr d \<and> sha256_hex d"
  unfolding idempotency_scope_digest_def
  by (intro sha256_of_total normalise_obj_ok) (auto split: option.splits)

lemma sql_request_dedup_digest_total:
  "py_env_ok E \<Longrightarrow> \<exists>d. sql_request_dedup_digest E c h k = Inr d \<and> sha256_hex d"
  unfolding sql_request_dedup_digest_def sql_request_dedup_payload_def
  by (intro sha256_of_total normalise_obj_ok) simp_all

lemma submission_digest_total:
  "py_env_ok E \<Longrightarrow> \<exists>d. submission_digest E s = Inr d \<and> sha256_hex d"
  unfolding submission_digest_def
  by (cases s) (auto intro!: sha256_of_total normalise_obj_ok
      simp: dump_context_ok dump_envelope_ok split: option.splits)

lemma retry_command_digest_total:
  "py_env_ok E \<Longrightarrow> \<exists>d. retry_command_digest E c = Inr d \<and> sha256_hex d"
  unfolding retry_command_digest_def by (intro sha256_of_total normalise_obj_ok) simp_all

lemma sha256_of_hex: "py_env_ok E \<Longrightarrow> sha256_of E v = Inr d \<Longrightarrow> sha256_hex d"
  by (auto simp: sha256_of_def py_env_ok_def split: sum.splits)

lemma step_commit_digest_hex: "py_env_ok E \<Longrightarrow> step_commit_digest E c = Inr d \<Longrightarrow> sha256_hex d"
  by (auto simp: step_commit_digest_def sha256_of_hex split: sum.splits)

subsection \<open>What the request digest covers\<close>

lemma veq_obj_length:
  assumes "py_env_ok E" "veq (env_nfc E) (obj a) (obj b)" "list_all ascii (map fst a)"
    "list_all ascii (map fst b)"
  shows "length a = length b"
proof -
  have "\<forall>k \<in> set (map fst a). env_nfc E k = k" "\<forall>k \<in> set (map fst b). env_nfc E k = k"
    using assms(3,4) nfc_ascii [OF assms(1)] by (auto simp: list_all_iff)
  moreover have "is_ok (normalise (env_nfc E) (obj a))" "is_ok (normalise (env_nfc E) (obj b))"
    using assms(2) by (simp_all add: veq_def)
  ultimately have "jv (env_nfc E) (obj a) = JObj (map (\<lambda>(k, v). (k, jv (env_nfc E) v)) a)"
    "jv (env_nfc E) (obj b) = JObj (map (\<lambda>(k, v). (k, jv (env_nfc E) v)) b)"
    using normalise_obj normalise_is_ok by blast+
  then show ?thesis
    using assms(2) by (simp add: veq_def)
qed

lemma channel_value_inj: "channel_value a = channel_value b \<longleftrightarrow> a = b"
  by (cases a; cases b) auto

lemma ascii_channel: "ascii (channel_value c)"
  by (cases c) auto

lemma request_dedup_digest_determines:
  assumes E: "py_env_ok E"
    and nc: "no_collision E (obj (request_dedup_payload e c p)) (obj (request_dedup_payload e' c' p'))"
    and d: "request_dedup_digest E e c p = Inr d" "request_dedup_digest E e' c' p' = Inr d"
  shows "env_nfc E (rc_tenant_id c) = env_nfc E (rc_tenant_id c')
     \<and> env_nfc E (rc_environment_id c) = env_nfc E (rc_environment_id c')
     \<and> env_nfc E (rc_actor c) = env_nfc E (rc_actor c') \<and> re_channel e = re_channel e'
     \<and> env_nfc E (re_text e) = env_nfc E (re_text e')
     \<and> env_nfc E (re_idempotency_key e) = env_nfc E (re_idempotency_key e')
     \<and> map_option (env_nfc E) p = map_option (env_nfc E) p'"
proof -
  have v: "veq (env_nfc E) (obj (request_dedup_payload e c p)) (obj (request_dedup_payload e' c' p'))"
    using sha256_of_veq [OF E nc] d by (simp add: request_dedup_digest_def)
  have "length (request_dedup_payload e c p) = length (request_dedup_payload e' c' p')"
    by (rule veq_obj_length [OF E v])
      (simp_all add: request_dedup_payload_def split: option.splits)
  then have pp: "(p = None) = (p' = None)"
    by (auto simp: request_dedup_payload_def split: option.splits)
  have "list_all2 (\<lambda>a b. veq (env_nfc E) (snd a) (snd b))
      (request_dedup_payload e c p) (request_dedup_payload e' c' p')"
    by (rule veq_fields [OF E v]) (use pp in \<open>auto simp: request_dedup_payload_def split: option.splits\<close>)
  then show ?thesis
    using pp nfc_ascii [OF E ascii_channel] 
    by (auto simp: request_dedup_payload_def veq_simps channel_value_inj split: option.splits)
qed

end
