(* ===== verification/Task_Commands.thy ===== *)
theory Task_Commands
  imports Task_Digests
begin

text \<open>
  The remaining command and result DTOs of \<open>persistence/store.py\<close> with their validators, the
  journal row of a step, and the state the in-memory ports share
  (\<open>InMemoryPersistenceState\<close> of \<open>persistence/memory.py\<close>, the part the task side uses).
\<close>

subsection \<open>Errors\<close>

datatype sql_unavailable_reason = SU_NOT_FOUND | SU_SCOPE_MISMATCH | SU_HASH_MISMATCH

datatype store_error =
    TaskNotFoundError string
  | IdempotencyConflictError
  | ContextMismatchError
  | ClarificationParentRequiredError
  | UnscopedAuditEventError
  | GrantNotCurrentError grant_rejection
  | SqlArtifactUnavailableError sql_unavailable_reason
  | SqlArtifactExpiredError
  | StoreValueError
  | StoreKeyError
  | StoreValidationError
  | StoreCanonicalError canon_error

fun checked :: "validation_error + 'a \<Rightarrow> store_error + 'a" where
  "checked (Inl e) = Inl StoreValidationError"
| "checked (Inr a) = Inr a"

subsection \<open>SQL submissions\<close>

definition SQL_MAX_BYTES :: nat where
  "SQL_MAX_BYTES = 65536"

definition cont_byte :: "nat \<Rightarrow> bool" where
  "cont_byte b \<longleftrightarrow> 128 \<le> b \<and> b \<le> 191"

text \<open>The byte sequences the strict UTF-8 decoder accepts.\<close>

fun utf8_ok :: "nat list \<Rightarrow> bool" where
  "utf8_ok [] = True"
| "utf8_ok (a # bs) =
     (if a < 128 then utf8_ok bs
      else case bs of
        [] \<Rightarrow> False
      | b # cs \<Rightarrow>
          if 194 \<le> a \<and> a \<le> 223 then cont_byte b \<and> utf8_ok cs
          else case cs of
            [] \<Rightarrow> False
          | c # ds \<Rightarrow>
              if 224 \<le> a \<and> a \<le> 239
              then cont_byte b \<and> (a = 224 \<longrightarrow> 160 \<le> b) \<and> (a = 237 \<longrightarrow> b \<le> 159)
                \<and> cont_byte c \<and> utf8_ok ds
              else case ds of
                [] \<Rightarrow> False
              | d # es \<Rightarrow> 240 \<le> a \<and> a \<le> 244 \<and> cont_byte b \<and> (a = 240 \<longrightarrow> 144 \<le> b)
                  \<and> (a = 244 \<longrightarrow> b \<le> 143) \<and> cont_byte c \<and> cont_byte d \<and> utf8_ok es)"

record sql_query_submit_command =
  sq_context :: request_context
  sq_sql_bytes :: string
  sq_idempotency_key :: string
  sq_as_of :: instant

definition sql_query_submit_command_ok :: "sql_query_submit_command \<Rightarrow> bool" where
  "sql_query_submit_command_ok c \<longleftrightarrow> request_context_ok (sq_context c) \<and> sq_sql_bytes c \<noteq> []
     \<and> length (sq_sql_bytes c) \<le> SQL_MAX_BYTES \<and> strict_str (sq_idempotency_key c)
     \<and> utf8_ok (map of_char (sq_sql_bytes c))"

definition sq_sql_hash :: "py_env \<Rightarrow> sql_query_submit_command \<Rightarrow> string" where
  "sq_sql_hash E c = env_sha256 E (sq_sql_bytes c)"

record sql_query_submit_result =
  sqr_outcome :: sql_submit_outcome
  sqr_task :: "task_record option"

definition sql_query_submit_result_ok :: "sql_query_submit_result \<Rightarrow> bool" where
  "sql_query_submit_result_ok r \<longleftrightarrow>
     (sqr_outcome r = SQL_IDEMPOTENCY_CONFLICT) = (sqr_task r = None)"

definition raise_for_sql_artifact_read ::
  "sql_artifact_record option \<Rightarrow> sql_artifact_read_decision \<Rightarrow> store_error + sql_artifact_record" where
  "raise_for_sql_artifact_read row decision =
     (if decision = SR_EXPIRED then Inl SqlArtifactExpiredError
      else case row of
          None \<Rightarrow> Inl (SqlArtifactUnavailableError
            (case decision of SR_SCOPE_MISMATCH \<Rightarrow> SU_SCOPE_MISMATCH
               | SR_HASH_MISMATCH \<Rightarrow> SU_HASH_MISMATCH | _ \<Rightarrow> SU_NOT_FOUND))
        | Some r \<Rightarrow>
            if decision \<noteq> SR_AVAILABLE
            then Inl (SqlArtifactUnavailableError
              (case decision of SR_SCOPE_MISMATCH \<Rightarrow> SU_SCOPE_MISMATCH
                 | SR_HASH_MISMATCH \<Rightarrow> SU_HASH_MISMATCH | _ \<Rightarrow> SU_NOT_FOUND))
            else Inr r)"

subsection \<open>Task attempts and retries\<close>

record task_attempt_command =
  ta_task_id :: string
  ta_intent :: attempt_intent
  ta_owner :: string
  ta_ttl_seconds :: int
  ta_trace_id :: string

definition task_attempt_command_ok :: "task_attempt_command \<Rightarrow> bool" where
  "task_attempt_command_ok c \<longleftrightarrow> task_id_ok (ta_task_id c) \<and> strict_str (ta_owner c)
     \<and> 0 < ta_ttl_seconds c \<and> trace_id_ok (ta_trace_id c)"

record task_attempt_result =
  tar_applied :: bool
  tar_winner :: task_record
  tar_grant :: "task_attempt_grant option"
  tar_submission :: "task_submission option"
  tar_rejection :: "task_attempt_rejection option"
  tar_committed_audit_events :: "trace_event list"

definition attempt_terminal_rejections :: "task_attempt_rejection set" where
  "attempt_terminal_rejections = {TAR_RETRY_EXHAUSTED, TAR_SUBMISSION_INVARIANT_VIOLATION}"

fun submission_context_consistent :: "task_submission \<Rightarrow> bool" where
  "submission_context_consistent (ConversationSubmission c) =
     context_matches_envelope (cs_envelope c) (cs_context c)"
| "submission_context_consistent (ArtifactSubmission a) = True"

definition task_attempt_result_ok :: "task_attempt_result \<Rightarrow> bool" where
  "task_attempt_result_ok t \<longleftrightarrow>
     (let w = tar_winner t;
          should_have_audit = (case tar_rejection t of None \<Rightarrow> False
            | Some r \<Rightarrow> r \<in> attempt_terminal_rejections)
      in tar_applied t = (tar_grant t \<noteq> None) \<and> tar_applied t = (tar_submission t \<noteq> None)
       \<and> tar_applied t = (tar_rejection t = None)
       \<and> should_have_audit = (tar_committed_audit_events t \<noteq> [])
       \<and> (should_have_audit \<longrightarrow> tr_status w = FAILED
            \<and> tr_terminal_reason w = map_option task_attempt_rejection_value (tar_rejection t))
       \<and> list_all (\<lambda>e. te_task_id e = Some (tr_task_id w)
            \<and> te_attempt_number e = Some (tr_attempt_number w)) (tar_committed_audit_events t)
       \<and> opt_all (\<lambda>g. lg_task_id (tg_lease g) = tr_task_id w
            \<and> Some (lg_owner (tg_lease g)) = tr_lease_owner w
            \<and> Some (tg_fencing_token g) = tr_fencing_token w
            \<and> Some (lg_expires_at (tg_lease g)) = tr_lease_expires_at w
            \<and> tg_attempt_number g = tr_attempt_number w) (tar_grant t)
       \<and> opt_all (\<lambda>s. submission_context_consistent s
            \<and> tr_tenant_id w = rc_tenant_id (submission_context s)
            \<and> tr_environment_id w = rc_environment_id (submission_context s)
            \<and> tr_actor w = rc_actor (submission_context s)) (tar_submission t))"

definition attempt_terminal_event ::
  "task_attempt_command \<Rightarrow> task_record \<Rightarrow> instant \<Rightarrow> string \<Rightarrow> validation_error + trace_event" where
  "attempt_terminal_event command winner now fresh_id = revalidate trace_event_ok
     \<lparr>te_event_id = fresh_id, te_trace_id = ta_trace_id command,
      te_task_id = Some (tr_task_id winner), te_stage = STG_LIFECYCLE, te_outcome = OUT_FAILED,
      te_occurred_at = now, te_capability_id = None, te_step_id = None, te_policy_revision = None,
      te_attempt_number = Some (tr_attempt_number winner), te_error = None, te_detail = [],
      te_model = None\<rparr>"

record retry_result =
  rr_decision :: retry_decision
  rr_winner :: task_record

subsection \<open>Steps\<close>

record step_execution_record =
  se_task_id :: string
  se_step_id :: string
  se_attempt_count :: int
  se_last_fencing_token :: int
  se_result_status :: "step_result_status option"
  se_kind :: "step_outcome_kind option"
  se_evidence_id :: "string option"
  se_commit_digest :: "string option"
  se_started_at :: instant
  se_committed_at :: "instant option"

definition step_execution_record_ok :: "step_execution_record \<Rightarrow> bool" where
  "step_execution_record_ok s \<longleftrightarrow> task_id_ok (se_task_id s) \<and> strict_str (se_step_id s)
     \<and> 0 < se_attempt_count s \<and> 0 < se_last_fencing_token s \<and> opt_all strict_str (se_evidence_id s)
     \<and> opt_all sha256_hex (se_commit_digest s)
     \<and> (se_result_status s = None) = (se_kind s = None)
     \<and> (se_result_status s = None) = (se_commit_digest s = None)
     \<and> (se_result_status s = None) = (se_committed_at s = None)
     \<and> (se_evidence_id s \<noteq> None) = (se_kind s = Some KIND_TOOL_RESULT)
     \<and> se_result_status s \<noteq> Some STEP_SKIPPED
     \<and> (se_kind s = Some KIND_TOOL_RESULT \<longrightarrow>
          se_result_status s \<in> {Some STEP_OK, Some STEP_FAILED, Some STEP_TIMEOUT})
     \<and> (se_kind s = Some KIND_MALFORMED_ADAPTER \<longrightarrow> se_result_status s = Some STEP_FAILED)"

record step_attempt_command =
  sac_grant :: task_attempt_grant
  sac_step_id :: string

definition step_attempt_command_ok :: "step_attempt_command \<Rightarrow> bool" where
  "step_attempt_command_ok c \<longleftrightarrow> task_attempt_grant_ok (sac_grant c) \<and> strict_str (sac_step_id c)"

record step_attempt_result =
  sar_decision :: step_attempt_decision
  sar_winner :: task_record
  sar_record :: "step_execution_record option"
  sar_attempts_used :: int

definition step_attempt_result_ok :: "step_attempt_result \<Rightarrow> bool" where
  "step_attempt_result_ok r \<longleftrightarrow> 0 \<le> sar_attempts_used r
     \<and> (sar_decision r \<in> {SA_PROCEED, SA_ALREADY_COMMITTED} \<longrightarrow> sar_record r \<noteq> None)
     \<and> (sar_decision r = SA_UNKNOWN_STEP \<longrightarrow> sar_record r = None)"

record step_commit_result =
  scr_committed :: bool
  scr_winner :: task_record
  scr_record :: "step_execution_record option"
  scr_rejection :: "step_commit_rejection option"

definition step_commit_result_ok :: "step_commit_result \<Rightarrow> bool" where
  "step_commit_result_ok r \<longleftrightarrow> scr_committed r = (scr_rejection r = None)
     \<and> (scr_committed r \<longrightarrow> scr_record r \<noteq> None)
     \<and> \<not> (scr_rejection r = Some SC_NO_ATTEMPT_IN_FLIGHT \<and> scr_record r \<noteq> None)"

record lease_command =
  lc_task_id :: string
  lc_owner :: string
  lc_ttl_seconds :: int
  lc_fencing_token :: "int option"

definition lease_command_ok :: "lease_command \<Rightarrow> bool" where
  "lease_command_ok c \<longleftrightarrow> task_id_ok (lc_task_id c) \<and> strict_str (lc_owner c)
     \<and> 0 < lc_ttl_seconds c \<and> opt_all (\<lambda>t. 0 < t) (lc_fencing_token c)"

subsection \<open>The shared state\<close>

record stored_plan =
  sp_plan :: execution_plan
  sp_target :: resolved_target

record store_state =
  st_tasks :: "(string, task_record) dict"
  st_task_ids_by_key :: "(string list, string) dict"
  st_sql_artifacts :: "(string, sql_artifact_record) dict"
  st_submissions :: "(string, task_submission) dict"
  st_submission_digests :: "(string, string) dict"
  st_plans :: "(string, stored_plan) dict"
  st_evidence :: "(string, (string, evidence_envelope) dict) dict"
  st_clarification_records :: "(string, clarification_record) dict"
  st_approvals :: "(string, approval_request list) dict"
  st_audit_events :: "(string, trace_event list) dict"
  st_step_executions :: "(string \<times> string, step_execution_record) dict"
  st_next_fencing_token :: int
  st_next_created_seq :: int

definition empty_store :: store_state where
  "empty_store = \<lparr>st_tasks = [], st_task_ids_by_key = [], st_sql_artifacts = [],
     st_submissions = [], st_submission_digests = [], st_plans = [], st_evidence = [],
     st_clarification_records = [], st_approvals = [], st_audit_events = [],
     st_step_executions = [], st_next_fencing_token = 1, st_next_created_seq = 1\<rparr>"

end
