(* ===== verification/Task_Store.thy ===== *)
theory Task_Store
  imports Task_Commands
begin

text \<open>
  The operations of \<open>InMemoryTaskStore\<close> (\<open>persistence/fake.py\<close>). Each runs under the store lock,
  so it is one atomic function from the state to the state and a result. Readings of the clock,
  fresh UUIDs and fresh SQL references are arguments, in the order the code takes them; an
  exception is an \<open>Inl\<close> result, and the state beside it is what the code had written by then.
\<close>

type_synonym 'a store_result = "store_state \<times> (store_error + 'a)"

subsection \<open>Creation\<close>

definition require_task :: "store_state \<Rightarrow> string \<Rightarrow> store_error + task_record" where
  "require_task s task_id = (case dget (st_tasks s) task_id of
      None \<Rightarrow> Inl (TaskNotFoundError task_id)
    | Some r \<Rightarrow> Inr r)"

definition insert_task_locked ::
  "py_env \<Rightarrow> store_state \<Rightarrow> task_submission \<Rightarrow> string \<Rightarrow> string \<Rightarrow> string list \<Rightarrow> string
     \<Rightarrow> task_record store_result" where
  "insert_task_locked E s submission digest idempotency_key scope fresh_id =
     (let context = submission_context submission in
      case checked (revalidate task_record_ok
        \<lparr>tr_task_id = fresh_id, tr_tenant_id = rc_tenant_id context,
         tr_environment_id = rc_environment_id context, tr_actor = rc_actor context,
         tr_idempotency_key = idempotency_key, tr_request_digest = digest, tr_status = CREATED,
         tr_version = 0, tr_created_seq = st_next_created_seq s, tr_attempt_number = 0,
         tr_task_failure_count = 0, tr_next_attempt_at = None,
         tr_retry_scheduled_by_attempt = None, tr_retry_command_digest = None,
         tr_lease_owner = None, tr_lease_expires_at = None, tr_fencing_token = None,
         tr_terminal_reason = None\<rparr>) of
        Inl e \<Rightarrow> (s, Inl e)
      | Inr r \<Rightarrow>
          let s1 = s\<lparr>st_next_created_seq := st_next_created_seq s + 1,
                     st_tasks := dset (tr_task_id r) r (st_tasks s),
                     st_submissions := dset (tr_task_id r) submission (st_submissions s)\<rparr>
          in case submission_digest E submission of
              Inl e \<Rightarrow> (s1, Inl (StoreCanonicalError e))
            | Inr d \<Rightarrow>
                (s1\<lparr>st_submission_digests := dset (tr_task_id r) d (st_submission_digests s1),
                    st_task_ids_by_key := dset scope (tr_task_id r) (st_task_ids_by_key s1)\<rparr>,
                 Inr r))"

definition conversation_scope :: "conversation_submission \<Rightarrow> string list" where
  "conversation_scope c = [rc_tenant_id (cs_context c), rc_environment_id (cs_context c),
     re_idempotency_key (cs_envelope c)]"

definition create_task_locked ::
  "py_env \<Rightarrow> store_state \<Rightarrow> conversation_submission \<Rightarrow> string \<Rightarrow> string \<Rightarrow> task_record store_result" where
  "create_task_locked E s submission digest fresh_id =
     insert_task_locked E s (ConversationSubmission submission) digest
       (re_idempotency_key (cs_envelope submission)) (conversation_scope submission) fresh_id"

definition existing_task_for_submission ::
  "store_state \<Rightarrow> conversation_submission \<Rightarrow> string \<Rightarrow> store_error + task_record option" where
  "existing_task_for_submission s submission digest =
     (case dget (st_task_ids_by_key s) (conversation_scope submission) of
        None \<Rightarrow> Inr None
      | Some existing_id \<Rightarrow>
          (case dget (st_tasks s) existing_id of
             None \<Rightarrow> Inl StoreKeyError
           | Some existing \<Rightarrow>
               if tr_request_digest existing \<noteq> digest then Inl IdempotencyConflictError
               else Inr (Some existing)))"

fun is_child_of :: "string \<Rightarrow> task_submission \<Rightarrow> bool" where
  "is_child_of parent (ConversationSubmission c) = (cs_clarification_parent_task_id c = Some parent)"
| "is_child_of parent (ArtifactSubmission a) = False"

definition clarification_parent_is_consumed :: "store_state \<Rightarrow> string \<Rightarrow> bool" where
  "clarification_parent_is_consumed s parent = list_ex (is_child_of parent) (dvals (st_submissions s))"

definition create_task ::
  "py_env \<Rightarrow> store_state \<Rightarrow> conversation_submission \<Rightarrow> string \<Rightarrow> task_record store_result" where
  "create_task E s submission fresh_id =
     (if \<not> context_matches_envelope (cs_envelope submission) (cs_context submission)
      then (s, Inl ContextMismatchError)
      else if cs_clarification_parent_task_id submission \<noteq> None
      then (s, Inl ClarificationParentRequiredError)
      else case request_dedup_digest E (cs_envelope submission) (cs_context submission)
          (cs_clarification_parent_task_id submission) of
          Inl e \<Rightarrow> (s, Inl (StoreCanonicalError e))
        | Inr digest \<Rightarrow>
            (case existing_task_for_submission s submission digest of
               Inl e \<Rightarrow> (s, Inl e)
             | Inr (Some existing) \<Rightarrow> (s, Inr existing)
             | Inr None \<Rightarrow> create_task_locked E s submission digest fresh_id))"

definition target_selection_sql :: "clarification_record option \<Rightarrow> (string \<times> string) option" where
  "target_selection_sql record = (case record of
      None \<Rightarrow> None
    | Some r \<Rightarrow> map_option (\<lambda>sel. (tsel_sql_ref sel, tsel_sql_hash sel)) (subject_selection (cr_subject r)))"

definition extend_selected_sql ::
  "store_state \<Rightarrow> task_record \<Rightarrow> instant \<Rightarrow> unit store_result" where
  "extend_selected_sql s parent now =
     (case target_selection_sql (dget (st_clarification_records s) (tr_task_id parent)) of
        None \<Rightarrow> (s, Inr ())
      | Some (sql_ref, sql_hash) \<Rightarrow>
          let row = dget (st_sql_artifacts s) sql_ref;
              decision = classify_sql_artifact_read row now (tr_actor parent) (tr_tenant_id parent)
                (tr_environment_id parent) sql_hash
          in case raise_for_sql_artifact_read row decision of
              Inl e \<Rightarrow> (s, Inl e)
            | Inr available \<Rightarrow>
                (s\<lparr>st_sql_artifacts := dset sql_ref
                     (available\<lparr>sa_expires_at := extended_sql_expiry (sa_expires_at available) now\<rparr>)
                     (st_sql_artifacts s)\<rparr>, Inr ()))"

definition create_clarification_child ::
  "py_env \<Rightarrow> store_state \<Rightarrow> conversation_submission \<Rightarrow> string \<Rightarrow> instant \<Rightarrow> string
     \<Rightarrow> task_record store_result" where
  "create_clarification_child E s submission owner now fresh_id =
     (case cs_clarification_parent_task_id submission of
        None \<Rightarrow> (s, Inl ClarificationParentRequiredError)
      | Some parent_id \<Rightarrow>
          if \<not> context_matches_envelope (cs_envelope submission) (cs_context submission)
          then (s, Inl ContextMismatchError)
          else case request_dedup_digest E (cs_envelope submission) (cs_context submission)
              (Some parent_id) of
            Inl e \<Rightarrow> (s, Inl (StoreCanonicalError e))
          | Inr digest \<Rightarrow>
              (case existing_task_for_submission s submission digest of
                 Inl e \<Rightarrow> (s, Inl e)
               | Inr (Some existing) \<Rightarrow> (s, Inr existing)
               | Inr None \<Rightarrow>
                   (case dget (st_tasks s) parent_id of
                      None \<Rightarrow> (s, Inl (TaskNotFoundError parent_id))
                    | Some parent \<Rightarrow>
                        if \<not> clarification_parent_is_usable parent submission owner
                        then (s, Inl (TaskNotFoundError parent_id))
                        else if clarification_parent_is_consumed s parent_id
                        then (s, Inl (TaskNotFoundError parent_id))
                        else case extend_selected_sql s parent now of
                            (s1, Inl e) \<Rightarrow> (s1, Inl e)
                          | (s1, Inr _) \<Rightarrow> create_task_locked E s1 submission digest fresh_id)))"

subsection \<open>SQL submissions and hydration\<close>

definition sql_scope :: "sql_query_submit_command \<Rightarrow> string list" where
  "sql_scope c = [rc_tenant_id (sq_context c), rc_environment_id (sq_context c),
     sq_idempotency_key c, ''sql_artifact'']"

definition submit_sql_query ::
  "py_env \<Rightarrow> store_state \<Rightarrow> sql_query_submit_command \<Rightarrow> instant \<Rightarrow> string \<Rightarrow> string
     \<Rightarrow> sql_query_submit_result store_result" where
  "submit_sql_query E s command now sql_ref fresh_id =
     (let context = sq_context command; sql_hash = sq_sql_hash E command in
      case sql_request_dedup_digest E context sql_hash (sq_idempotency_key command) of
        Inl e \<Rightarrow> (s, Inl (StoreCanonicalError e))
      | Inr digest \<Rightarrow>
          (case (case dget (st_task_ids_by_key s) (sql_scope command) of
                   None \<Rightarrow> Inr None
                 | Some existing_id \<Rightarrow> (case dget (st_tasks s) existing_id of
                       None \<Rightarrow> Inl StoreKeyError | Some r \<Rightarrow> Inr (Some r))) of
             Inl e \<Rightarrow> (s, Inl e)
           | Inr existing \<Rightarrow>
               (case classify_sql_submit existing (rc_tenant_id context) (rc_environment_id context)
                   (sq_idempotency_key command) digest of
                  SQL_IDEMPOTENCY_CONFLICT \<Rightarrow>
                    (s, checked (revalidate sql_query_submit_result_ok
                       \<lparr>sqr_outcome = SQL_IDEMPOTENCY_CONFLICT, sqr_task = None\<rparr>))
                | SQL_REPLAYED \<Rightarrow>
                    (s, checked (revalidate sql_query_submit_result_ok
                       \<lparr>sqr_outcome = SQL_REPLAYED, sqr_task = existing\<rparr>))
                | SQL_CREATED \<Rightarrow>
                    let s1 = s\<lparr>st_sql_artifacts := dset sql_ref
                          \<lparr>sa_sql_ref = sql_ref, sa_sql_hash = sql_hash,
                           sa_sql_bytes = Some (sq_sql_bytes command),
                           sa_requester = rc_actor context, sa_tenant_id = rc_tenant_id context,
                           sa_environment_id = rc_environment_id context, sa_created_at = now,
                           sa_expires_at = now + SQL_ARTIFACT_TTL, sa_purged_at = None\<rparr>
                          (st_sql_artifacts s)\<rparr>
                    in case checked (revalidate artifact_submission_ok
                         \<lparr>as_context = context, as_as_of = sq_as_of command, as_sql_ref = sql_ref,
                          as_sql_hash = sql_hash\<rparr>) of
                        Inl e \<Rightarrow> (s1, Inl e)
                      | Inr submission \<Rightarrow>
                          (case insert_task_locked E s1 (ArtifactSubmission submission) digest
                              (sq_idempotency_key command) (sql_scope command) fresh_id of
                             (s2, Inl e) \<Rightarrow> (s2, Inl e)
                           | (s2, Inr r) \<Rightarrow> (s2, checked (revalidate sql_query_submit_result_ok
                               \<lparr>sqr_outcome = SQL_CREATED, sqr_task = Some r\<rparr>))))))"

definition require_current_sql_grant ::
  "task_record \<Rightarrow> task_attempt_grant \<Rightarrow> instant \<Rightarrow> store_error + unit" where
  "require_current_sql_grant r grant now =
     (case grant_is_current r grant now {RUNNING} of
        Some rejection \<Rightarrow> Inl (GrantNotCurrentError rejection)
      | None \<Rightarrow> Inr ())"

definition load_sql_for_execution ::
  "store_state \<Rightarrow> task_attempt_grant \<Rightarrow> string \<Rightarrow> string \<Rightarrow> instant \<Rightarrow> sql_artifact_record store_result" where
  "load_sql_for_execution s grant sql_ref sql_hash now =
     (case require_task s (tg_task_id grant) of
        Inl e \<Rightarrow> (s, Inl e)
      | Inr r \<Rightarrow>
          (case require_current_sql_grant r grant now of
             Inl e \<Rightarrow> (s, Inl e)
           | Inr _ \<Rightarrow>
               let row = dget (st_sql_artifacts s) sql_ref;
                   decision = classify_sql_artifact_read row now (tr_actor r) (tr_tenant_id r)
                     (tr_environment_id r) sql_hash
               in case raise_for_sql_artifact_read row decision of
                   Inl e \<Rightarrow> (s, Inl e)
                 | Inr available \<Rightarrow>
                     let extended = available\<lparr>sa_expires_at :=
                           extended_sql_expiry (sa_expires_at available) now\<rparr>
                     in (s\<lparr>st_sql_artifacts := dset sql_ref extended (st_sql_artifacts s)\<rparr>,
                         Inr extended)))"

subsection \<open>Reads and pages\<close>

record task_lookup =
  tl_task_id :: string
  tl_tenant_id :: string
  tl_environment_id :: string

definition get_task :: "store_state \<Rightarrow> task_lookup \<Rightarrow> store_error + task_record" where
  "get_task s lookup = (case require_task s (tl_task_id lookup) of
      Inl e \<Rightarrow> Inl e
    | Inr current \<Rightarrow>
        if tr_tenant_id current \<noteq> tl_tenant_id lookup
          \<or> tr_environment_id current \<noteq> tl_environment_id lookup
        then Inl (TaskNotFoundError (tl_task_id lookup)) else Inr current)"

definition stored_read :: "py_env \<Rightarrow> store_state \<Rightarrow> task_record \<Rightarrow> store_error + stored_task_read" where
  "stored_read E s r =
     (case (dget (st_submissions s) (tr_task_id r), dget (st_submission_digests s) (tr_task_id r)) of
        (Some submission, Some stored_digest) \<Rightarrow>
          if submission_matches_record E r submission stored_digest
          then Inr \<lparr>sr_record = r, sr_submission = submission\<rparr>
          else Inl (TaskNotFoundError (tr_task_id r))
      | _ \<Rightarrow> Inl (TaskNotFoundError (tr_task_id r)))"

definition get_submission :: "py_env \<Rightarrow> store_state \<Rightarrow> task_lookup \<Rightarrow> store_error + task_submission" where
  "get_submission E s lookup = (case get_task s lookup of
      Inl e \<Rightarrow> Inl e
    | Inr current \<Rightarrow> (case stored_read E s current of Inl e \<Rightarrow> Inl e | Inr rd \<Rightarrow> Inr (sr_submission rd)))"

fun read_all :: "py_env \<Rightarrow> store_state \<Rightarrow> task_record list \<Rightarrow> store_error + stored_task_read list" where
  "read_all E s [] = Inr []"
| "read_all E s (r # rs) = (case stored_read E s r of
      Inl e \<Rightarrow> Inl e
    | Inr x \<Rightarrow> (case read_all E s rs of Inl e \<Rightarrow> Inl e | Inr xs \<Rightarrow> Inr (x # xs)))"

definition page_candidates ::
  "store_state \<Rightarrow> string \<Rightarrow> string \<Rightarrow> string option \<Rightarrow> int option \<Rightarrow> task_record list" where
  "page_candidates s tenant_id environment_id actor before_created_seq =
     sorted_desc (\<lambda>r. (tr_created_seq r, tr_task_id r))
       (filter (\<lambda>r. tr_tenant_id r = tenant_id \<and> tr_environment_id r = environment_id
            \<and> opt_all (\<lambda>a. tr_actor r = a) actor
            \<and> opt_all (\<lambda>b. tr_created_seq r < b) before_created_seq) (dvals (st_tasks s)))"

definition page ::
  "py_env \<Rightarrow> store_state \<Rightarrow> string \<Rightarrow> string \<Rightarrow> string option \<Rightarrow> int option \<Rightarrow> int
     \<Rightarrow> store_error + stored_task_page" where
  "page E s tenant_id environment_id actor before_created_seq limit =
     (let selected = take (nat limit + 1)
            (page_candidates s tenant_id environment_id actor before_created_seq)
      in case read_all E s (take (nat limit) selected) of
          Inl e \<Rightarrow> Inl e
        | Inr items \<Rightarrow> checked (revalidate stored_task_page_ok
            \<lparr>pg_items = items, pg_next_created_seq =
               (if nat limit < length selected
                then Some (tr_created_seq (sr_record (last items))) else None)\<rparr>))"

record actor_task_page_query =
  apq_tenant_id :: string
  apq_environment_id :: string
  apq_actor :: string
  apq_before_created_seq :: "int option"
  apq_limit :: int

definition list_tasks_for_actor ::
  "py_env \<Rightarrow> store_state \<Rightarrow> actor_task_page_query \<Rightarrow> store_error + stored_task_page" where
  "list_tasks_for_actor E s q = page E s (apq_tenant_id q) (apq_environment_id q)
     (Some (apq_actor q)) (apq_before_created_seq q) (apq_limit q)"

record scope_task_page_query =
  spq_tenant_id :: string
  spq_environment_id :: string
  spq_before_created_seq :: "int option"
  spq_limit :: int

definition list_tasks_for_scope ::
  "py_env \<Rightarrow> store_state \<Rightarrow> scope_task_page_query \<Rightarrow> store_error + stored_task_page" where
  "list_tasks_for_scope E s q = page E s (spq_tenant_id q) (spq_environment_id q)
     None (spq_before_created_seq q) (spq_limit q)"

subsection \<open>Ledgers\<close>

text \<open>
  \<open>_append\<close>: each task has its own bucket, and the sequence number is the position in it.
\<close>

definition append_entry ::
  "(string, 'e list) dict \<Rightarrow> string \<Rightarrow> 'e \<Rightarrow> (string, 'e list) dict \<times> int" where
  "append_entry ledger task_id entry =
     (let bucket = (case dget ledger task_id of None \<Rightarrow> [] | Some b \<Rightarrow> b)
      in (dset task_id (bucket @ [entry]) ledger, int (length bucket) + 1))"

definition append_events ::
  "(string, 'e list) dict \<Rightarrow> string \<Rightarrow> 'e list \<Rightarrow> (string, 'e list) dict" where
  "append_events ledger task_id entries =
     foldl (\<lambda>l e. fst (append_entry l task_id e)) ledger entries"

definition record_approval :: "store_state \<Rightarrow> approval_request \<Rightarrow> int store_result" where
  "record_approval s request =
     (case append_entry (st_approvals s) (ar_task_id request) request of
        (ledger, n) \<Rightarrow> (s\<lparr>st_approvals := ledger\<rparr>, Inr n))"

definition record_audit_event :: "store_state \<Rightarrow> trace_event \<Rightarrow> int store_result" where
  "record_audit_event s event = (case te_task_id event of
      None \<Rightarrow> (s, Inl UnscopedAuditEventError)
    | Some task_id \<Rightarrow>
        (case append_entry (st_audit_events s) task_id event of
           (ledger, n) \<Rightarrow> (s\<lparr>st_audit_events := ledger\<rparr>, Inr n)))"

subsection \<open>Transitions and leases\<close>

definition put_task :: "store_state \<Rightarrow> task_record \<Rightarrow> store_state" where
  "put_task s r = s\<lparr>st_tasks := dset (tr_task_id r) r (st_tasks s)\<rparr>"

definition transition ::
  "store_state \<Rightarrow> transition_command \<Rightarrow> instant \<Rightarrow> transition_result store_result" where
  "transition s command now =
     (case require_task s (tc_task_id command) of
        Inl e \<Rightarrow> (s, Inl e)
      | Inr current \<Rightarrow>
          (case classify_transition current command now of
             Some rejection \<Rightarrow> (s, checked (revalidate transition_result_ok
               \<lparr>trr_applied = False, trr_winner = current, trr_rejection = Some rejection\<rparr>))
           | None \<Rightarrow>
               (case checked (apply_transition current command) of
                  Inl e \<Rightarrow> (s, Inl e)
                | Inr updated \<Rightarrow>
                    (s\<lparr>st_tasks := dset (tc_task_id command) updated (st_tasks s),
                       st_audit_events := append_events (st_audit_events s) (tc_task_id command) (tc_audit_events command)\<rparr>,
                     checked (revalidate transition_result_ok
                       \<lparr>trr_applied = True, trr_winner = updated, trr_rejection = None\<rparr>)))))"

definition acquire_lease ::
  "store_state \<Rightarrow> string \<Rightarrow> string \<Rightarrow> int \<Rightarrow> instant \<Rightarrow> instant \<Rightarrow> lease_grant option store_result" where
  "acquire_lease s task_id owner ttl_seconds now now' =
     (if \<not> lease_command_ok \<lparr>lc_task_id = task_id, lc_owner = owner, lc_ttl_seconds = ttl_seconds,
          lc_fencing_token = None\<rparr>
      then (s, Inl StoreValidationError)
      else case require_task s task_id of
        Inl e \<Rightarrow> (s, Inl e)
      | Inr current \<Rightarrow>
          if \<not> may_acquire_lease current owner now then (s, Inr None)
          else
            let token = st_next_fencing_token s;
                expires = now' + seconds ttl_seconds
            in case checked (revalidate lease_grant_ok \<lparr>lg_task_id = task_id, lg_owner = owner,
                lg_expires_at = expires, lg_fencing_token = token\<rparr>) of
              Inl e \<Rightarrow> (s, Inl e)
            | Inr grant \<Rightarrow>
                (case checked (revalidate task_record_ok (current\<lparr>tr_lease_owner := Some owner,
                    tr_lease_expires_at := Some expires, tr_fencing_token := Some token\<rparr>)) of
                   Inl e \<Rightarrow> (s, Inl e)
                 | Inr updated \<Rightarrow>
                     (s\<lparr>st_next_fencing_token := token + 1,
                        st_tasks := dset task_id updated (st_tasks s)\<rparr>, Inr (Some grant))))"

definition renew_lease ::
  "store_state \<Rightarrow> string \<Rightarrow> string \<Rightarrow> int \<Rightarrow> int \<Rightarrow> instant \<Rightarrow> instant
     \<Rightarrow> lease_grant option store_result" where
  "renew_lease s task_id owner fencing_token ttl_seconds now now' =
     (if \<not> lease_command_ok \<lparr>lc_task_id = task_id, lc_owner = owner, lc_ttl_seconds = ttl_seconds,
          lc_fencing_token = Some fencing_token\<rparr>
      then (s, Inl StoreValidationError)
      else case require_task s task_id of
        Inl e \<Rightarrow> (s, Inl e)
      | Inr current \<Rightarrow>
          if \<not> may_renew_lease current owner fencing_token now then (s, Inr None)
          else
            let expires = now' + seconds ttl_seconds
            in case checked (revalidate lease_grant_ok \<lparr>lg_task_id = task_id, lg_owner = owner,
                lg_expires_at = expires, lg_fencing_token = fencing_token\<rparr>) of
              Inl e \<Rightarrow> (s, Inl e)
            | Inr grant \<Rightarrow>
                (case checked (revalidate task_record_ok
                    (current\<lparr>tr_lease_expires_at := Some expires\<rparr>)) of
                   Inl e \<Rightarrow> (s, Inl e)
                 | Inr updated \<Rightarrow>
                     (s\<lparr>st_tasks := dset task_id updated (st_tasks s)\<rparr>, Inr (Some grant))))"

definition list_stale_leases :: "store_state \<Rightarrow> int \<Rightarrow> instant \<Rightarrow> store_error + task_record list" where
  "list_stale_leases s limit now =
     (let stale = filter (\<lambda>r. is_stale_lease r now) (dvals (st_tasks s))
      in if list_ex (\<lambda>r. stale_lease_sort_key r = None) stale then Inl StoreValueError
         else Inr (take (nat limit) (sort_key (\<lambda>r. the (stale_lease_sort_key r)) stale)))"

definition list_dispatchable_tasks ::
  "store_state \<Rightarrow> dispatch_query \<Rightarrow> instant \<Rightarrow> task_record list" where
  "list_dispatchable_tasks s query now =
     take (nat (dq_limit query))
       (sort_key dispatch_sort_key (filter (\<lambda>r. is_dispatchable r query now) (dvals (st_tasks s))))"

subsection \<open>Task attempts\<close>

definition terminalize_attempt_rejection ::
  "store_state \<Rightarrow> task_record \<Rightarrow> task_attempt_command \<Rightarrow> task_attempt_rejection \<Rightarrow> instant \<Rightarrow> string
     \<Rightarrow> task_attempt_result store_result" where
  "terminalize_attempt_rejection s current command rejection now fresh_id =
     (case checked (revalidate task_record_ok (current\<lparr>tr_status := FAILED,
         tr_version := tr_version current + 1,
         tr_terminal_reason := Some (task_attempt_rejection_value rejection)\<rparr>)) of
        Inl e \<Rightarrow> (s, Inl e)
      | Inr winner \<Rightarrow>
          (case checked (attempt_terminal_event command winner now fresh_id) of
             Inl e \<Rightarrow> (s, Inl e)
           | Inr event \<Rightarrow>
               ((put_task s winner)\<lparr>st_audit_events :=
                   fst (append_entry (st_audit_events s) (tr_task_id current) event)\<rparr>,
                checked (revalidate task_attempt_result_ok
                  \<lparr>tar_applied = False, tar_winner = winner, tar_grant = None, tar_submission = None,
                   tar_rejection = Some rejection, tar_committed_audit_events = [event]\<rparr>))))"

definition stored_submission_consistent :: "py_env \<Rightarrow> store_state \<Rightarrow> task_record \<Rightarrow> task_submission option" where
  "stored_submission_consistent E s r =
     (case (dget (st_submissions s) (tr_task_id r), dget (st_submission_digests s) (tr_task_id r)) of
        (Some submission, Some stored_digest) \<Rightarrow>
          if submission_matches_record E r submission stored_digest then Some submission else None
      | _ \<Rightarrow> None)"

definition begin_task_attempt ::
  "py_env \<Rightarrow> int \<Rightarrow> store_state \<Rightarrow> task_attempt_command \<Rightarrow> instant \<Rightarrow> string
     \<Rightarrow> task_attempt_result store_result" where
  "begin_task_attempt E task_failure_limit s command now fresh_id =
     (case require_task s (ta_task_id command) of
        Inl e \<Rightarrow> (s, Inl e)
      | Inr current \<Rightarrow>
          (case classify_task_attempt current (ta_intent command) now task_failure_limit of
             Some rejection \<Rightarrow>
               if rejection = TAR_RETRY_EXHAUSTED
               then terminalize_attempt_rejection s current command rejection now fresh_id
               else (s, checked (revalidate task_attempt_result_ok
                 \<lparr>tar_applied = False, tar_winner = current, tar_grant = None, tar_submission = None,
                  tar_rejection = Some rejection, tar_committed_audit_events = []\<rparr>))
           | None \<Rightarrow>
               (case stored_submission_consistent E s current of
                  None \<Rightarrow> terminalize_attempt_rejection s current command
                    TAR_SUBMISSION_INVARIANT_VIOLATION now fresh_id
                | Some submission \<Rightarrow>
                    let token = st_next_fencing_token s;
                        expires_at = now + seconds (ta_ttl_seconds command)
                    in case checked (revalidate task_record_ok
                        (current\<lparr>tr_attempt_number := tr_attempt_number current + 1,
                           tr_next_attempt_at := None, tr_lease_owner := Some (ta_owner command),
                           tr_lease_expires_at := Some expires_at, tr_fencing_token := Some token\<rparr>)) of
                      Inl e \<Rightarrow> (s, Inl e)
                    | Inr winner \<Rightarrow>
                        (case checked (revalidate task_attempt_grant_ok
                            \<lparr>tg_lease = \<lparr>lg_task_id = tr_task_id current, lg_owner = ta_owner command,
                               lg_expires_at = expires_at, lg_fencing_token = token\<rparr>,
                             tg_attempt_number = tr_attempt_number winner\<rparr>) of
                           Inl e \<Rightarrow> (s, Inl e)
                         | Inr grant \<Rightarrow>
                             ((put_task s winner)\<lparr>st_next_fencing_token := token + 1\<rparr>,
                              checked (revalidate task_attempt_result_ok
                                \<lparr>tar_applied = True, tar_winner = winner, tar_grant = Some grant,
                                 tar_submission = Some submission, tar_rejection = None,
                                 tar_committed_audit_events = []\<rparr>))))))"

definition schedule_retry ::
  "py_env \<Rightarrow> store_state \<Rightarrow> retry_command \<Rightarrow> instant \<Rightarrow> retry_result store_result" where
  "schedule_retry E s command now =
     (case retry_command_digest E command of
        Inl e \<Rightarrow> (s, Inl (StoreCanonicalError e))
      | Inr digest \<Rightarrow>
          (case require_task s (tg_task_id (rt_grant command)) of
             Inl e \<Rightarrow> (s, Inl e)
           | Inr current \<Rightarrow>
               if tr_status current \<in> TERMINAL_STATUSES
               then (s, Inr \<lparr>rr_decision = RD_TERMINAL_PROTECTED, rr_winner = current\<rparr>)
               else if tr_retry_scheduled_by_attempt current = Some (tg_attempt_number (rt_grant command))
                 \<and> tr_attempt_number current = tg_attempt_number (rt_grant command)
               then (s, Inr \<lparr>rr_decision =
                   (if tr_retry_command_digest current = Some digest then RD_ALREADY_SCHEDULED
                    else RD_COMMAND_MISMATCH), rr_winner = current\<rparr>)
               else if grant_is_current current (rt_grant command) now {CREATED, PLANNING, RUNNING} \<noteq> None
               then (s, Inr \<lparr>rr_decision = RD_STALE_FENCING, rr_winner = current\<rparr>)
               else
                 let token = st_next_fencing_token s in
                 (case checked (revalidate task_record_ok
                    (current\<lparr>tr_version := tr_version current + 1,
                       tr_task_failure_count := tr_task_failure_count current + 1,
                       tr_next_attempt_at := Some (rt_next_attempt_at command),
                       tr_retry_scheduled_by_attempt := Some (tg_attempt_number (rt_grant command)),
                       tr_retry_command_digest := Some digest,
                       tr_lease_expires_at := Some (rt_next_attempt_at command),
                       tr_fencing_token := Some token\<rparr>)) of
                    Inl e \<Rightarrow> (s, Inl e)
                  | Inr winner \<Rightarrow>
                      ((put_task s winner)\<lparr>st_next_fencing_token := token + 1,
                         st_audit_events := append_events (st_audit_events s) (tr_task_id current)
                           (rt_audit_events command)\<rparr>,
                       Inr \<lparr>rr_decision = RD_SCHEDULED, rr_winner = winner\<rparr>))))"

subsection \<open>The step journal\<close>

definition attempts_used :: "store_state \<Rightarrow> string \<Rightarrow> int" where
  "attempts_used s task_id = sum_list (map (\<lambda>p. se_attempt_count (snd p))
     (filter (\<lambda>p. fst (fst p) = task_id) (st_step_executions s)))"

definition step_attempt_answer ::
  "store_state \<Rightarrow> step_attempt_decision \<Rightarrow> task_record \<Rightarrow> step_execution_record option \<Rightarrow> int
     \<Rightarrow> step_attempt_result store_result" where
  "step_attempt_answer s decision current record used =
     (s, checked (revalidate step_attempt_result_ok \<lparr>sar_decision = decision, sar_winner = current,
        sar_record = record, sar_attempts_used = used\<rparr>))"

definition begin_step_attempt ::
  "store_state \<Rightarrow> step_attempt_command \<Rightarrow> instant \<Rightarrow> instant \<Rightarrow> step_attempt_result store_result" where
  "begin_step_attempt s command now now' =
     (case require_task s (tg_task_id (sac_grant command)) of
        Inl e \<Rightarrow> (s, Inl e)
      | Inr current \<Rightarrow>
          let key = (tr_task_id current, sac_step_id command);
              existing = dget (st_step_executions s) key;
              used = attempts_used s (tr_task_id current);
              token = tg_fencing_token (sac_grant command)
          in case grant_is_current current (sac_grant command) now {RUNNING} of
            Some rejection \<Rightarrow> step_attempt_answer s
              (if rejection \<in> {GR_TERMINAL_PROTECTED, GR_STATUS_NOT_ALLOWED} then SA_NOT_RUNNABLE
               else SA_STALE_FENCING) current existing used
          | None \<Rightarrow>
              if (case existing of None \<Rightarrow> False | Some x \<Rightarrow> se_result_status x \<noteq> None)
              then step_attempt_answer s SA_ALREADY_COMMITTED current existing used
              else case dget (st_plans s) (tr_task_id current) of
                None \<Rightarrow> step_attempt_answer s SA_NOT_RUNNABLE current existing used
              | Some stored \<Rightarrow>
                  if sac_step_id command \<notin> set (map ps_step_id (ep_steps (sp_plan stored)))
                  then step_attempt_answer s SA_UNKNOWN_STEP current None used
                  else
                    let increments_budget = (case existing of None \<Rightarrow> True
                          | Some x \<Rightarrow> se_last_fencing_token x \<noteq> token)
                    in if increments_budget \<and> pb_max_tool_calls (ep_budget (sp_plan stored)) \<le> used
                       then step_attempt_answer s SA_BUDGET_EXHAUSTED current existing used
                       else case checked (case existing of
                           None \<Rightarrow> revalidate step_execution_record_ok
                             \<lparr>se_task_id = tr_task_id current, se_step_id = sac_step_id command,
                              se_attempt_count = 1, se_last_fencing_token = token,
                              se_result_status = None, se_kind = None, se_evidence_id = None,
                              se_commit_digest = None, se_started_at = now', se_committed_at = None\<rparr>
                         | Some x \<Rightarrow>
                             if increments_budget
                             then revalidate step_execution_record_ok
                               (x\<lparr>se_attempt_count := se_attempt_count x + 1,
                                  se_last_fencing_token := token, se_started_at := now'\<rparr>)
                             else Inr x) of
                         Inl e \<Rightarrow> (s, Inl e)
                       | Inr record \<Rightarrow>
                           let s' = s\<lparr>st_step_executions := dset key record (st_step_executions s)\<rparr>
                           in step_attempt_answer s' SA_PROCEED current (Some record)
                                (attempts_used s' (tr_task_id current)))"

definition step_commit_answer ::
  "store_state \<Rightarrow> bool \<Rightarrow> task_record \<Rightarrow> step_execution_record option \<Rightarrow> step_commit_rejection option
     \<Rightarrow> step_commit_result store_result" where
  "step_commit_answer s committed current record rejection =
     (s, checked (revalidate step_commit_result_ok \<lparr>scr_committed = committed, scr_winner = current,
        scr_record = record, scr_rejection = rejection\<rparr>))"

text \<open>
  The evidence bucket is created (\<open>setdefault\<close>) before the conflict check; the entry itself is
  written last, so a commit that fails in between leaves at most an empty bucket.
\<close>

definition evidence_bucket :: "store_state \<Rightarrow> string \<Rightarrow> (string, evidence_envelope) dict" where
  "evidence_bucket s task_id = (case dget (st_evidence s) task_id of None \<Rightarrow> [] | Some b \<Rightarrow> b)"

definition put_evidence :: "store_state \<Rightarrow> string \<Rightarrow> evidence_envelope option \<Rightarrow> store_state" where
  "put_evidence s task_id evidence = (case evidence of
      None \<Rightarrow> s
    | Some e \<Rightarrow> s\<lparr>st_evidence := dset task_id
        (dset (ee_evidence_id e) e (evidence_bucket s task_id)) (st_evidence s)\<rparr>)"

definition commit_step_result ::
  "py_env \<Rightarrow> store_state \<Rightarrow> step_commit_command \<Rightarrow> instant \<Rightarrow> instant
     \<Rightarrow> step_commit_result store_result" where
  "commit_step_result E s command now now' =
     (case step_commit_digest E command of
        Inl e \<Rightarrow> (s, Inl (StoreCanonicalError e))
      | Inr digest \<Rightarrow>
          (case require_task s (tg_task_id (sc_grant command)) of
             Inl e \<Rightarrow> (s, Inl e)
           | Inr current \<Rightarrow>
               let key = (tr_task_id current, sc_step_id command);
                   existing = dget (st_step_executions s) key
               in case grant_is_current current (sc_grant command) now {RUNNING} of
                 Some rejection \<Rightarrow> step_commit_answer s False current existing (Some
                   (if rejection \<in> {GR_TERMINAL_PROTECTED, GR_STATUS_NOT_ALLOWED} then SC_NOT_RUNNABLE
                    else SC_STALE_FENCING))
               | None \<Rightarrow>
                   (case existing of
                      None \<Rightarrow> step_commit_answer s False current None (Some SC_NO_ATTEMPT_IN_FLIGHT)
                    | Some x \<Rightarrow>
                        if se_last_fencing_token x \<noteq> tg_fencing_token (sc_grant command)
                        then step_commit_answer s False current None (Some SC_NO_ATTEMPT_IN_FLIGHT)
                        else if se_result_status x \<noteq> None
                        then if se_commit_digest x = Some digest
                          then step_commit_answer s True current (Some x) None
                          else step_commit_answer s False current (Some x)
                            (Some SC_ALREADY_COMMITTED_DIFFERENT)
                        else case dget (st_plans s) (tr_task_id current) of
                          None \<Rightarrow> (s, Inl StoreValueError)
                        | Some stored \<Rightarrow>
                            if \<not> opt_all (\<lambda>e. ee_capability_id e = ep_capability_id (sp_plan stored)
                                \<and> ee_capability_version e = ep_capability_version (sp_plan stored))
                                (sc_evidence command)
                            then (s, Inl StoreValueError)
                            else
                              let s1 = (if sc_evidence command = None then s
                                    else s\<lparr>st_evidence := dset (tr_task_id current)
                                      (evidence_bucket s (tr_task_id current)) (st_evidence s)\<rparr>)
                              in if \<not> opt_all (\<lambda>e. opt_all (\<lambda>previous. evidence_eq previous e)
                                    (dget (evidence_bucket s1 (tr_task_id current)) (ee_evidence_id e)))
                                    (sc_evidence command)
                                 then (s1, Inl StoreValueError)
                                 else case checked (revalidate step_execution_record_ok
                                   \<lparr>se_task_id = se_task_id x, se_step_id = se_step_id x,
                                    se_attempt_count = se_attempt_count x,
                                    se_last_fencing_token = se_last_fencing_token x,
                                    se_result_status = Some (sc_status command),
                                    se_kind = Some (sc_kind command),
                                    se_evidence_id = map_option ee_evidence_id (sc_evidence command),
                                    se_commit_digest = Some digest, se_started_at = se_started_at x,
                                    se_committed_at = Some now'\<rparr>) of
                                   Inl e \<Rightarrow> (s1, Inl e)
                                 | Inr committed \<Rightarrow>
                                     step_commit_answer
                                       ((put_evidence s1 (tr_task_id current) (sc_evidence command))
                                        \<lparr>st_audit_events := append_events (st_audit_events s1)
                                           (tr_task_id current) (sc_audit_events command),
                                         st_step_executions := dset key committed (st_step_executions s1)\<rparr>)
                                       True current (Some committed) None)))"

definition load_step_executions :: "store_state \<Rightarrow> string \<Rightarrow> step_execution_record list" where
  "load_step_executions s task_id = sort_key se_step_id
     (map snd (filter (\<lambda>p. fst (fst p) = task_id) (st_step_executions s)))"

end
