(* ===== verification/Insert_Once.thy ===== *)
theory Insert_Once
  imports Task_Store
begin

text \<open>
  The stores that accept one fact per key: \<open>InMemoryPlanStore\<close> (\<open>persistence/plans.py\<close>),
  \<open>InMemoryEvidenceLedger\<close> (\<open>persistence/evidence.py\<close>), \<open>InMemoryClarificationRecordStore\<close>
  (\<open>persistence/clarification_records.py\<close>) and \<open>InMemoryModelArtifactStore\<close>
  (\<open>persistence/model_artifacts.py\<close>). The locale \<open>insert_once\<close> states their common contract and
  proves that an accepted fact is never replaced; it is interpreted on all five save operations.
\<close>

subsection \<open>The contract\<close>

locale insert_once =
  fixes lookup :: "'s \<Rightarrow> 'k \<Rightarrow> 'v option"
    and save :: "'s \<Rightarrow> 'c \<Rightarrow> 's \<times> ('e + 'r)"
    and key :: "'c \<Rightarrow> 'k"
    and agrees :: "'v \<Rightarrow> 'c \<Rightarrow> bool"
    and wf :: "'s \<Rightarrow> bool"
    and valid :: "'c \<Rightarrow> bool"
  assumes wf_save: "wf s \<Longrightarrow> valid c \<Longrightarrow> wf (fst (save s c))"
    and accepted: "wf s \<Longrightarrow> valid c \<Longrightarrow> save s c = (s', Inr r) \<Longrightarrow>
      \<exists>v. lookup s' (key c) = Some v \<and> agrees v c"
    and kept: "wf s \<Longrightarrow> valid c \<Longrightarrow> valid d \<Longrightarrow> lookup s k = Some v \<Longrightarrow> agrees v d \<Longrightarrow>
      \<exists>v'. lookup (fst (save s c)) k = Some v' \<and> agrees v' d"
    and refused: "wf s \<Longrightarrow> valid c \<Longrightarrow> lookup s (key c) = Some v \<Longrightarrow> \<not> agrees v c \<Longrightarrow>
      \<not> is_ok (snd (save s c))"
begin

definition run_saves :: "'s \<Rightarrow> 'c list \<Rightarrow> 's" where
  "run_saves s cs = foldl (\<lambda>s c. fst (save s c)) s cs"

lemma wf_run: "wf s \<Longrightarrow> list_all valid cs \<Longrightarrow> wf (run_saves s cs)"
  by (induction cs arbitrary: s) (auto simp: run_saves_def wf_save)

lemma kept_run:
  "wf s \<Longrightarrow> list_all valid cs \<Longrightarrow> valid d \<Longrightarrow> lookup s k = Some v \<Longrightarrow> agrees v d \<Longrightarrow>
     \<exists>v'. lookup (run_saves s cs) k = Some v' \<and> agrees v' d"
proof (induction cs arbitrary: s v)
  case (Cons c cs)
  then obtain v' where "lookup (fst (save s c)) k = Some v'" "agrees v' d"
    using kept [of s c d k v] by auto
  with Cons.IH [of "fst (save s c)" v'] Cons.prems wf_save show ?case
    by (auto simp: run_saves_def)
qed (auto simp: run_saves_def)

lemma accepted_forever:
  assumes "wf s" "valid c" "save s c = (s1, Inr r)" "list_all valid cs"
  shows "\<exists>v. lookup (run_saves s1 cs) (key c) = Some v \<and> agrees v c"
proof -
  obtain v where "lookup s1 (key c) = Some v" "agrees v c"
    using accepted [OF assms(1-3)] by blast
  moreover have "wf s1" using wf_save [OF assms(1,2)] assms(3) by simp
  ultimately show ?thesis using kept_run assms(2,4) by blast
qed

lemma accepted_agree:
  assumes "wf s" "valid c" "valid d" "save s c = (s1, Inr r)" "list_all valid cs"
    "save (run_saves s1 cs) d = (s2, Inr r')" "key d = key c"
  shows "\<exists>v. agrees v c \<and> agrees v d"
proof -
  have w: "wf s1" using wf_save [OF assms(1,2)] assms(4) by simp
  obtain v where v: "lookup (run_saves s1 cs) (key c) = Some v" "agrees v c"
    using accepted_forever [OF assms(1,2,4,5)] by blast
  show ?thesis
  proof (cases "agrees v d")
    case False
    then have "\<not> is_ok (snd (save (run_saves s1 cs) d))"
      using refused [OF wf_run [OF w assms(5)] assms(3)] v(1) assms(7) by simp
    with assms(6) show ?thesis by simp
  qed (use v in blast)
qed

end

subsection \<open>Equality of mappings is an equivalence\<close>

fun scalar_key :: "json_scalar \<Rightarrow> rat + json_scalar" where
  "scalar_key a = (case scalar_number a of Some x \<Rightarrow> Inl x | None \<Rightarrow> Inr a)"

lemma scalar_eq_key: "scalar_eq a b \<longleftrightarrow> scalar_key a = scalar_key b"
  by (auto simp: scalar_eq_def split: option.splits)

lemma frozen_map_eq_iff:
  assumes "dict_ok m" "dict_ok n"
  shows "frozen_map_eq m n \<longleftrightarrow> map_option scalar_key \<circ> dget m = map_option scalar_key \<circ> dget n"
proof
  assume eq: "frozen_map_eq m n"
  have sub: "dget m k = Some v \<Longrightarrow> \<exists>w. dget n k = Some w \<and> scalar_key v = scalar_key w" for k v
  proof -
    assume "dget m k = Some v"
    then have "(k, v) \<in> set m" by (rule dget_mem)
    with eq have "case dget n k of None \<Rightarrow> False | Some w \<Rightarrow> scalar_eq v w"
      unfolding frozen_map_eq_def list_all_iff by (metis fst_conv snd_conv)
    then show ?thesis by (auto simp: scalar_eq_key simp del: scalar_key.simps split: option.splits)
  qed
  have "fst ` set m \<subseteq> fst ` set n"
  proof
    fix k assume "k \<in> fst ` set m"
    then obtain v where "dget m k = Some v"
      using mem_dget [OF assms(1)] by force
    then obtain w where "dget n k = Some w" using sub by blast
    then show "k \<in> fst ` set n" by (force dest: map_of_SomeD)
  qed
  moreover have "card (fst ` set m) = length m" "card (fst ` set n) = length n"
    using assms by (metis dict_ok_def distinct_card length_map set_map)+
  ultimately have "fst ` set m = fst ` set n"
    using eq by (intro card_subset_eq) (auto simp: frozen_map_eq_def)
  then have "dget m k = None \<longleftrightarrow> dget n k = None" for k
    by (metis map_of_eq_None_iff)
  then have "map_option scalar_key (dget m k) = map_option scalar_key (dget n k)" for k
    using sub [of k] by (cases "dget m k") (force simp del: scalar_key.simps)+
  then show "map_option scalar_key \<circ> dget m = map_option scalar_key \<circ> dget n"
    by (auto simp: fun_eq_iff)
next
  assume eq: "map_option scalar_key \<circ> dget m = map_option scalar_key \<circ> dget n"
  then have pt: "map_option scalar_key (dget m k) = map_option scalar_key (dget n k)" for k
    by (metis comp_apply)
  then have "dget m k = None \<longleftrightarrow> dget n k = None" for k
    by (metis option.map_disc_iff)
  then have "dom (dget m) = dom (dget n)"
    by (simp add: dom_def)
  then have "card (fst ` set m) = card (fst ` set n)"
    by (simp add: dom_map_of_conv_image_fst)
  then have "length m = length n"
    using assms by (metis dict_ok_def distinct_card length_map set_map)
  moreover have "case dget n (fst p) of None \<Rightarrow> False | Some v \<Rightarrow> scalar_eq (snd p) v" if "p \<in> set m" for p
  proof -
    have "dget m (fst p) = Some (snd p)" using that mem_dget [OF assms(1)] by (metis prod.collapse)
    then show ?thesis
      using pt [of "fst p"] by (cases "dget n (fst p)") (auto simp: scalar_eq_key simp del: scalar_key.simps)
  qed
  ultimately show "frozen_map_eq m n"
    by (simp add: frozen_map_eq_def list_all_iff)
qed

lemma frozen_map_eq_trans:
  assumes "dict_ok a" "dict_ok b" "dict_ok c"
  shows "frozen_map_eq a b \<Longrightarrow> frozen_map_eq b c \<Longrightarrow> frozen_map_eq a c"
    and "frozen_map_eq a b \<Longrightarrow> frozen_map_eq b a"
  using assms by (simp_all add: frozen_map_eq_iff)

lemma list_all2_eq_trans:
  assumes "\<And>a b c. ok a \<Longrightarrow> ok b \<Longrightarrow> ok c \<Longrightarrow> P a b \<Longrightarrow> P b c \<Longrightarrow> P a c"
    "list_all ok xs" "list_all ok ys" "list_all ok zs" "list_all2 P xs ys" "list_all2 P ys zs"
  shows "list_all2 P xs zs"
proof (rule list_all2_all_nthI)
  show "length xs = length zs" using assms(5,6) by (simp add: list_all2_lengthD)
next
  fix i assume "i < length xs"
  then show "P (xs ! i) (zs ! i)"
    using assms(1) [of "xs ! i" "ys ! i" "zs ! i"] assms(2-6)
    by (simp add: list_all2_conv_all_nth list_all_length)
qed

lemma list_all2_eq_sym:
  assumes "\<And>a b. ok a \<Longrightarrow> ok b \<Longrightarrow> P a b \<Longrightarrow> P b a" "list_all ok xs" "list_all ok ys" "list_all2 P xs ys"
  shows "list_all2 P ys xs"
proof (rule list_all2_all_nthI)
  show "length ys = length xs" using assms(4) by (simp add: list_all2_lengthD)
next
  fix i assume "i < length ys"
  then show "P (ys ! i) (xs ! i)"
    using assms(1) [of "xs ! i" "ys ! i"] assms(2-4)
    by (simp add: list_all2_conv_all_nth list_all_length)
qed

lemma frozen_map_ok_dict: "frozen_map_ok m \<Longrightarrow> dict_ok m"
  by (simp add: frozen_map_ok_def)

lemma facts_eq_trans:
  "list_all frozen_map_ok a \<Longrightarrow> list_all frozen_map_ok b \<Longrightarrow> list_all frozen_map_ok c \<Longrightarrow>
     list_all2 frozen_map_eq a b \<Longrightarrow> list_all2 frozen_map_eq b c \<Longrightarrow> list_all2 frozen_map_eq a c"
  by (rule list_all2_eq_trans [where ok = frozen_map_ok])
    (rule frozen_map_eq_trans(1), auto dest: frozen_map_ok_dict)

lemma facts_eq_sym:
  "list_all frozen_map_ok a \<Longrightarrow> list_all frozen_map_ok b \<Longrightarrow>
     list_all2 frozen_map_eq a b \<Longrightarrow> list_all2 frozen_map_eq b a"
  by (rule list_all2_eq_sym [where ok = frozen_map_ok])
    (rule frozen_map_eq_trans(2), auto dest: frozen_map_ok_dict)

lemma evidence_eq_trans:
  assumes "evidence_envelope_ok a" "evidence_envelope_ok b" "evidence_envelope_ok c"
    "evidence_eq a b" "evidence_eq b c"
  shows "evidence_eq a c"
  using assms facts_eq_trans [of "ee_facts a" "ee_facts b" "ee_facts c"]
  unfolding evidence_eq_def evidence_envelope_ok_def by metis

lemma evidence_eq_sym:
  assumes "evidence_envelope_ok a" "evidence_envelope_ok b" "evidence_eq a b"
  shows "evidence_eq b a"
  using assms facts_eq_sym [of "ee_facts a" "ee_facts b"]
  unfolding evidence_eq_def evidence_envelope_ok_def by metis

lemma plan_step_eq_trans:
  assumes "plan_step_ok a" "plan_step_ok b" "plan_step_ok c" "plan_step_eq a b" "plan_step_eq b c"
  shows "plan_step_eq a c"
proof -
  have "frozen_map_eq (ps_typed_arguments a) (ps_typed_arguments c)"
    by (rule frozen_map_eq_trans(1) [of _ "ps_typed_arguments b"])
      (use assms in \<open>auto simp: plan_step_eq_def plan_step_ok_def frozen_map_ok_def\<close>)
  then show ?thesis
    using assms(4,5) unfolding plan_step_eq_def by metis
qed

lemma plan_step_eq_sym:
  assumes "plan_step_ok a" "plan_step_ok b" "plan_step_eq a b"
  shows "plan_step_eq b a"
proof -
  have "frozen_map_eq (ps_typed_arguments b) (ps_typed_arguments a)"
    by (rule frozen_map_eq_trans(2))
      (use assms in \<open>auto simp: plan_step_eq_def plan_step_ok_def frozen_map_ok_def\<close>)
  then show ?thesis
    using assms(3) unfolding plan_step_eq_def by metis
qed

lemma execution_plan_eq_trans:
  assumes "execution_plan_ok a" "execution_plan_ok b" "execution_plan_ok c"
    "execution_plan_eq a b" "execution_plan_eq b c"
  shows "execution_plan_eq a c"
proof -
  have "list_all2 plan_step_eq (ep_steps a) (ep_steps c)"
    by (rule list_all2_eq_trans [where ok = plan_step_ok and ys = "ep_steps b"])
      (rule plan_step_eq_trans, use assms in \<open>auto simp: execution_plan_eq_def execution_plan_ok_def\<close>)
  then show ?thesis
    using assms(4,5) unfolding execution_plan_eq_def by metis
qed

lemma execution_plan_eq_sym:
  assumes "execution_plan_ok a" "execution_plan_ok b" "execution_plan_eq a b"
  shows "execution_plan_eq b a"
proof -
  have "list_all2 plan_step_eq (ep_steps b) (ep_steps a)"
    by (rule list_all2_eq_sym [where ok = plan_step_ok])
      (rule plan_step_eq_sym, use assms in \<open>auto simp: execution_plan_eq_def execution_plan_ok_def\<close>)
  then show ?thesis
    using assms(3) unfolding execution_plan_eq_def by metis
qed

subsection \<open>The plan store\<close>

datatype plan_error = PlanNotFoundError | PlanConflictError | PlanSchemaVersionUnsupportedError

definition stored_plan_eq :: "stored_plan \<Rightarrow> stored_plan \<Rightarrow> bool" where
  "stored_plan_eq p q \<longleftrightarrow> execution_plan_eq (sp_plan p) (sp_plan q) \<and> sp_target p = sp_target q"

definition reject_unsupported_plan_schema :: "int option \<Rightarrow> plan_error + unit" where
  "reject_unsupported_plan_schema version =
     (if version \<noteq> Some PLAN_SCHEMA_VERSION then Inl PlanSchemaVersionUnsupportedError else Inr ())"

definition save_plan ::
  "store_state \<Rightarrow> string \<Rightarrow> stored_plan \<Rightarrow> store_state \<times> (plan_error + unit)" where
  "save_plan s task_id record =
     (case dget (st_plans s) task_id of
        Some existing \<Rightarrow>
          if \<not> stored_plan_eq existing record then (s, Inl PlanConflictError)
          else (s\<lparr>st_plans := dset task_id record (st_plans s)\<rparr>, Inr ())
      | None \<Rightarrow> (s\<lparr>st_plans := dset task_id record (st_plans s)\<rparr>, Inr ()))"

definition load_plan :: "store_state \<Rightarrow> string \<Rightarrow> plan_error + stored_plan" where
  "load_plan s task_id = (case dget (st_plans s) task_id of
      None \<Rightarrow> Inl PlanNotFoundError
    | Some stored \<Rightarrow> Inr stored)"

definition plans_wf :: "store_state \<Rightarrow> bool" where
  "plans_wf s \<longleftrightarrow> (\<forall>k p. dget (st_plans s) k = Some p \<longrightarrow> execution_plan_ok (sp_plan p))"

lemma save_plan_cases:
  assumes "save_plan s k p = (s', r)"
  shows "(\<exists>q. dget (st_plans s) k = Some q \<and> \<not> stored_plan_eq q p \<and> s' = s \<and> r = Inl PlanConflictError)
    \<or> (opt_all (\<lambda>q. stored_plan_eq q p) (dget (st_plans s) k)
        \<and> s' = s\<lparr>st_plans := dset k p (st_plans s)\<rparr> \<and> r = Inr ())"
  using assms by (auto simp: save_plan_def split: option.splits if_splits)

interpretation plan_store: insert_once
  "\<lambda>s. dget (st_plans s)" "\<lambda>s c. save_plan s (fst c) (snd c)" fst "\<lambda>v c. stored_plan_eq v (snd c)"
  plans_wf "\<lambda>c. execution_plan_ok (sp_plan (snd c))"
proof
  fix s :: store_state and c :: "string \<times> stored_plan"
  assume w: "plans_wf s" "execution_plan_ok (sp_plan (snd c))"
  show "plans_wf (fst (save_plan s (fst c) (snd c)))"
    using w by (auto simp: save_plan_def plans_wf_def split: option.splits)
next
  fix s s' :: store_state and r and c :: "string \<times> stored_plan"
  assume "plans_wf s" "execution_plan_ok (sp_plan (snd c))" "save_plan s (fst c) (snd c) = (s', Inr r)"
  then show "\<exists>v. dget (st_plans s') (fst c) = Some v \<and> stored_plan_eq v (snd c)"
    by (auto dest!: save_plan_cases simp: stored_plan_eq_def execution_plan_eq_refl)
next
  fix s :: store_state and k v and c d :: "string \<times> stored_plan"
  assume a: "plans_wf s" "execution_plan_ok (sp_plan (snd c))" "execution_plan_ok (sp_plan (snd d))"
    "dget (st_plans s) k = Some v" "stored_plan_eq v (snd d)"
  then have v: "execution_plan_ok (sp_plan v)" by (simp add: plans_wf_def)
  have "stored_plan_eq v (snd c) \<Longrightarrow> stored_plan_eq (snd c) (snd d)"
    using a v execution_plan_eq_sym execution_plan_eq_trans unfolding stored_plan_eq_def by metis
  then show "\<exists>v'. dget (st_plans (fst (save_plan s (fst c) (snd c)))) k = Some v'
      \<and> stored_plan_eq v' (snd d)"
    using a by (auto simp: save_plan_def split: option.splits)
next
  fix s :: store_state and v and c :: "string \<times> stored_plan"
  assume "dget (st_plans s) (fst c) = Some v" "\<not> stored_plan_eq v (snd c)"
  then show "\<not> is_ok (snd (save_plan s (fst c) (snd c)))" by (simp add: save_plan_def)
qed

subsection \<open>The evidence ledger\<close>

datatype evidence_error = EvidenceNotFoundError | EvidenceConflictError

text \<open>\<open>setdefault\<close> creates the task's bucket before the entry is compared.\<close>

definition append_evidence ::
  "store_state \<Rightarrow> string \<Rightarrow> evidence_envelope \<Rightarrow> store_state \<times> (evidence_error + string)" where
  "append_evidence s task_id envelope =
     (let s1 = s\<lparr>st_evidence := dset task_id (evidence_bucket s task_id) (st_evidence s)\<rparr>
      in case dget (evidence_bucket s task_id) (ee_evidence_id envelope) of
          Some existing \<Rightarrow>
            if \<not> evidence_eq existing envelope then (s1, Inl EvidenceConflictError)
            else (put_evidence s1 task_id (Some envelope), Inr (ee_evidence_id envelope))
        | None \<Rightarrow> (put_evidence s1 task_id (Some envelope), Inr (ee_evidence_id envelope)))"

definition load_evidence :: "store_state \<Rightarrow> string \<Rightarrow> evidence_envelope list" where
  "load_evidence s task_id = dvals (evidence_bucket s task_id)"

definition get_evidence :: "store_state \<Rightarrow> string \<Rightarrow> string \<Rightarrow> evidence_error + evidence_envelope" where
  "get_evidence s task_id evidence_id = (case dget (evidence_bucket s task_id) evidence_id of
      None \<Rightarrow> Inl EvidenceNotFoundError
    | Some e \<Rightarrow> Inr e)"

definition evidence_at :: "store_state \<Rightarrow> string \<times> string \<Rightarrow> evidence_envelope option" where
  "evidence_at s k = dget (evidence_bucket s (fst k)) (snd k)"

definition evidence_wf :: "store_state \<Rightarrow> bool" where
  "evidence_wf s \<longleftrightarrow> (\<forall>k e. evidence_at s k = Some e \<longrightarrow> evidence_envelope_ok e)"

lemma evidence_bucket_put:
  "evidence_bucket (put_evidence s t (Some e)) u =
     (if u = t then dset (ee_evidence_id e) e (evidence_bucket s t) else evidence_bucket s u)"
  by (simp add: evidence_bucket_def put_evidence_def)

lemma evidence_bucket_touch:
  "evidence_bucket (s\<lparr>st_evidence := dset t (evidence_bucket s t) (st_evidence s)\<rparr>) u = evidence_bucket s u"
  by (simp add: evidence_bucket_def)

lemma append_evidence_at:
  "evidence_at (fst (append_evidence s t e)) k =
     (if k = (t, ee_evidence_id e)
        \<and> opt_all (\<lambda>x. evidence_eq x e) (evidence_at s k) then Some e else evidence_at s k)"
  by (cases k) (auto simp: append_evidence_def Let_def evidence_at_def evidence_bucket_put
      evidence_bucket_touch split: option.splits)

lemma append_evidence_ok:
  "is_ok (snd (append_evidence s t e)) \<longleftrightarrow>
     opt_all (\<lambda>x. evidence_eq x e) (evidence_at s (t, ee_evidence_id e))"
  by (auto simp: append_evidence_def Let_def evidence_at_def split: option.splits)

interpretation evidence_ledger: insert_once
  evidence_at "\<lambda>s c. append_evidence s (fst c) (snd c)" "\<lambda>c. (fst c, ee_evidence_id (snd c))"
  "\<lambda>v c. evidence_eq v (snd c)" evidence_wf "\<lambda>c. evidence_envelope_ok (snd c)"
proof
  fix s and c :: "string \<times> evidence_envelope"
  assume "evidence_wf s" "evidence_envelope_ok (snd c)"
  then show "evidence_wf (fst (append_evidence s (fst c) (snd c)))"
    by (auto simp: evidence_wf_def append_evidence_at split: if_splits)
next
  fix s s' r and c :: "string \<times> evidence_envelope"
  assume a: "evidence_wf s" "evidence_envelope_ok (snd c)"
    "append_evidence s (fst c) (snd c) = (s', Inr r)"
  have "is_ok (snd (append_evidence s (fst c) (snd c)))" using a(3) by simp
  then have "opt_all (\<lambda>x. evidence_eq x (snd c)) (evidence_at s (fst c, ee_evidence_id (snd c)))"
    by (simp add: append_evidence_ok)
  with a(2,3) append_evidence_at [of s "fst c" "snd c" "(fst c, ee_evidence_id (snd c))"]
  show "\<exists>v. evidence_at s' (fst c, ee_evidence_id (snd c)) = Some v \<and> evidence_eq v (snd c)"
    by (auto simp: evidence_eq_refl)
next
  fix s k v and c d :: "string \<times> evidence_envelope"
  assume a: "evidence_wf s" "evidence_envelope_ok (snd c)" "evidence_envelope_ok (snd d)"
    "evidence_at s k = Some v" "evidence_eq v (snd d)"
  then have "evidence_envelope_ok v" by (cases k) (auto simp: evidence_wf_def)
  with a have "evidence_eq v (snd c) \<Longrightarrow> evidence_eq (snd c) (snd d)"
    using evidence_eq_sym evidence_eq_trans by blast
  with a show "\<exists>v'. evidence_at (fst (append_evidence s (fst c) (snd c))) k = Some v'
      \<and> evidence_eq v' (snd d)"
    by (auto simp: append_evidence_at)
next
  fix s v and c :: "string \<times> evidence_envelope"
  assume "evidence_at s (fst c, ee_evidence_id (snd c)) = Some v" "\<not> evidence_eq v (snd c)"
  then show "\<not> is_ok (snd (append_evidence s (fst c) (snd c)))" by (simp add: append_evidence_ok)
qed

subsection \<open>Grant-fenced facts\<close>

text \<open>
  Clarification records and model artifacts share one shape: the grant must be current, an equal
  fact is returned as it is, a different one is a conflict, and a new fact is stamped with the
  time and the fencing token.
\<close>

datatype fact_error = FactConflictError | FactGrantError | FactStateError | FactValidationError

definition require_fact_grant ::
  "task_record option \<Rightarrow> task_attempt_grant \<Rightarrow> instant \<Rightarrow> task_status set \<Rightarrow> fact_error + unit" where
  "require_fact_grant current grant now allowed_statuses =
     (case current of
        None \<Rightarrow> Inl FactStateError
      | Some r \<Rightarrow>
          (case grant_is_current r grant now allowed_statuses of
             None \<Rightarrow> Inr ()
           | Some rejection \<Rightarrow>
               if rejection \<in> {GR_LEASE_NOT_HELD, GR_STALE_FENCING} then Inl FactGrantError
               else Inl FactStateError))"

record clarification_record_candidate =
  crc_subject :: clarification_subject
  crc_reason_code :: clarification_reason_code
  crc_missing_fields :: "clarification_field list"
  crc_confirmed_slots :: "confirmed_slot list"

definition clarification_record_candidate_ok :: "clarification_record_candidate \<Rightarrow> bool" where
  "clarification_record_candidate_ok c \<longleftrightarrow> clarification_subject_ok (crc_subject c)
     \<and> list_all (\<lambda>s. confirmed_value_ok (slot_value s)) (crc_confirmed_slots c)
     \<and> slot_snapshot_ok (crc_confirmed_slots c)
     \<and> subject_slots (crc_subject c) = crc_confirmed_slots c
     \<and> target_selection_matches_reason (crc_subject c) (crc_reason_code c)"

definition record_matches_candidate :: "clarification_record \<Rightarrow> clarification_record_candidate \<Rightarrow> bool" where
  "record_matches_candidate stored c \<longleftrightarrow> cr_subject stored = crc_subject c
     \<and> cr_reason_code stored = crc_reason_code c \<and> cr_missing_fields stored = crc_missing_fields c
     \<and> cr_confirmed_slots stored = crc_confirmed_slots c"

definition save_clarification ::
  "store_state \<Rightarrow> task_attempt_grant \<Rightarrow> clarification_record_candidate \<Rightarrow> instant \<Rightarrow> instant
     \<Rightarrow> store_state \<times> (fact_error + clarification_record)" where
  "save_clarification s grant c now now' =
     (case require_fact_grant (dget (st_tasks s) (tg_task_id grant)) grant now
         {CREATED, PLANNING, RUNNING} of
        Inl e \<Rightarrow> (s, Inl e)
      | Inr _ \<Rightarrow>
          (case dget (st_clarification_records s) (tg_task_id grant) of
             Some stored \<Rightarrow>
               if \<not> record_matches_candidate stored c then (s, Inl FactConflictError)
               else (s, Inr stored)
           | None \<Rightarrow>
               (case revalidate clarification_record_ok
                   \<lparr>cr_task_id = tg_task_id grant, cr_subject = crc_subject c,
                    cr_reason_code = crc_reason_code c, cr_missing_fields = crc_missing_fields c,
                    cr_confirmed_slots = crc_confirmed_slots c, cr_created_at = now',
                    cr_fencing_token = tg_fencing_token grant\<rparr> of
                  Inl e \<Rightarrow> (s, Inl FactValidationError)
                | Inr stored \<Rightarrow>
                    (s\<lparr>st_clarification_records :=
                       dset (tg_task_id grant) stored (st_clarification_records s)\<rparr>, Inr stored))))"

type_synonym clarification_save =
  "task_attempt_grant \<times> clarification_record_candidate \<times> instant \<times> instant"

interpretation clarification_store: insert_once
  "\<lambda>s. dget (st_clarification_records s)"
  "\<lambda>s c. save_clarification s (fst c) (fst (snd c)) (fst (snd (snd c))) (snd (snd (snd c)))"
  "\<lambda>c :: clarification_save. tg_task_id (fst c)"
  "\<lambda>v c. record_matches_candidate v (fst (snd c))" "\<lambda>s. True" "\<lambda>c. True"
  by standard (auto simp: save_clarification_def record_matches_candidate_def revalidate_def
      split: option.splits sum.splits if_splits)

datatype interaction_source =
    IS_MODEL | IS_RULE | IS_FAKE

datatype intent_source =
    INS_MODEL | INS_USER | INS_FAKE

datatype artifact_origin = ORIGIN_MODEL | ORIGIN_RULE

record intent_draft =
  id_intent :: string
  id_slots :: "(string, string) dict"
  id_missing :: "string list"
  id_confidence :: rat
  id_source :: intent_source

record interaction_draft =
  idr_proposed_kind :: interaction_kind
  idr_capability_draft :: "intent_draft option"
  idr_confidence :: rat
  idr_source :: interaction_source

definition unit_interval :: "rat \<Rightarrow> bool" where
  "unit_interval q \<longleftrightarrow> 0 \<le> q \<and> q \<le> 1"

definition intent_draft_ok :: "intent_draft \<Rightarrow> bool" where
  "intent_draft_ok d \<longleftrightarrow> strict_str (id_intent d) \<and> dict_ok (id_slots d)
     \<and> list_all (\<lambda>p. strict_str (fst p) \<and> strict_str (snd p)) (id_slots d)
     \<and> list_all strict_str (id_missing d) \<and> unit_interval (id_confidence d)"

definition interaction_draft_ok :: "interaction_draft \<Rightarrow> bool" where
  "interaction_draft_ok d \<longleftrightarrow> opt_all intent_draft_ok (idr_capability_draft d)
     \<and> unit_interval (idr_confidence d)"

definition slots_eq :: "(string, string) dict \<Rightarrow> (string, string) dict \<Rightarrow> bool" where
  "slots_eq a b \<longleftrightarrow> length a = length b \<and> list_all (\<lambda>p. dget b (fst p) = Some (snd p)) a"

definition intent_draft_eq :: "intent_draft \<Rightarrow> intent_draft \<Rightarrow> bool" where
  "intent_draft_eq a b \<longleftrightarrow> a\<lparr>id_slots := []\<rparr> = b\<lparr>id_slots := []\<rparr> \<and> slots_eq (id_slots a) (id_slots b)"

definition interaction_draft_eq :: "interaction_draft \<Rightarrow> interaction_draft \<Rightarrow> bool" where
  "interaction_draft_eq a b \<longleftrightarrow> a\<lparr>idr_capability_draft := None\<rparr> = b\<lparr>idr_capability_draft := None\<rparr>
     \<and> rel_option intent_draft_eq (idr_capability_draft a) (idr_capability_draft b)"

record model_usage =
  mu_input_tokens :: "int option"
  mu_output_tokens :: "int option"

definition model_usage_ok :: "model_usage \<Rightarrow> bool" where
  "model_usage_ok u \<longleftrightarrow> opt_all signed_bigint (mu_input_tokens u)
     \<and> opt_all signed_bigint (mu_output_tokens u)"

record interaction_artifact_candidate =
  iac_draft :: interaction_draft
  iac_origin :: artifact_origin
  iac_provider :: "string option"
  iac_model :: "string option"
  iac_provider_origin :: "string option"
  iac_prompt_revision :: string
  iac_schema_revision :: string
  iac_input_digest :: string
  iac_result_digest :: string
  iac_usage :: model_usage

definition interaction_artifact_candidate_ok :: "interaction_artifact_candidate \<Rightarrow> bool" where
  "interaction_artifact_candidate_ok c \<longleftrightarrow>
     (let identity = [iac_provider c, iac_model c, iac_provider_origin c] in
      interaction_draft_ok (iac_draft c) \<and> list_all (opt_all strict_str) identity
      \<and> strict_str (iac_prompt_revision c) \<and> strict_str (iac_schema_revision c)
      \<and> sha256_hex (iac_input_digest c) \<and> sha256_hex (iac_result_digest c)
      \<and> model_usage_ok (iac_usage c)
      \<and> (case iac_origin c of
            ORIGIN_MODEL \<Rightarrow> idr_source (iac_draft c) = IS_MODEL \<and> list_all (\<lambda>v. v \<noteq> None) identity
          | ORIGIN_RULE \<Rightarrow> idr_source (iac_draft c) \<noteq> IS_MODEL \<and> list_all (\<lambda>v. v = None) identity))"

record accepted_interaction_artifact =
  aia_candidate :: interaction_artifact_candidate
  aia_task_id :: string
  aia_created_at :: instant
  aia_fencing_token :: int

definition accepted_interaction_artifact_ok :: "accepted_interaction_artifact \<Rightarrow> bool" where
  "accepted_interaction_artifact_ok a \<longleftrightarrow> interaction_artifact_candidate_ok (aia_candidate a)
     \<and> task_id_ok (aia_task_id a) \<and> 0 < aia_fencing_token a"

definition interaction_candidate_eq ::
  "interaction_artifact_candidate \<Rightarrow> interaction_artifact_candidate \<Rightarrow> bool" where
  "interaction_candidate_eq a b \<longleftrightarrow> interaction_draft_eq (iac_draft a) (iac_draft b)
     \<and> iac_origin a = iac_origin b \<and> iac_provider a = iac_provider b \<and> iac_model a = iac_model b
     \<and> iac_provider_origin a = iac_provider_origin b \<and> iac_prompt_revision a = iac_prompt_revision b
     \<and> iac_schema_revision a = iac_schema_revision b \<and> iac_input_digest a = iac_input_digest b
     \<and> iac_result_digest a = iac_result_digest b \<and> iac_usage a = iac_usage b"

text \<open>The artifacts live beside the tasks; the operation reads the tasks and writes one of them.\<close>

record artifact_state = store_state +
  st_interaction_artifacts :: "(string, accepted_interaction_artifact) dict"

definition save_interaction ::
  "artifact_state \<Rightarrow> task_attempt_grant \<Rightarrow> interaction_artifact_candidate \<Rightarrow> instant \<Rightarrow> instant
     \<Rightarrow> artifact_state \<times> (fact_error + accepted_interaction_artifact)" where
  "save_interaction s grant c now now' =
     (case require_fact_grant (dget (st_tasks s) (tg_task_id grant)) grant now
         {CREATED, PLANNING, RUNNING} of
        Inl e \<Rightarrow> (s, Inl e)
      | Inr _ \<Rightarrow>
          (case dget (st_interaction_artifacts s) (tg_task_id grant) of
             Some stored \<Rightarrow>
               if \<not> interaction_candidate_eq (aia_candidate stored) c then (s, Inl FactConflictError)
               else (s, Inr stored)
           | None \<Rightarrow>
               (case revalidate accepted_interaction_artifact_ok
                   \<lparr>aia_candidate = c, aia_task_id = tg_task_id grant, aia_created_at = now',
                    aia_fencing_token = tg_fencing_token grant\<rparr> of
                  Inl e \<Rightarrow> (s, Inl FactValidationError)
                | Inr stored \<Rightarrow>
                    (s\<lparr>st_interaction_artifacts :=
                       dset (tg_task_id grant) stored (st_interaction_artifacts s)\<rparr>, Inr stored))))"

lemma slots_eq_refl: "dict_ok a \<Longrightarrow> slots_eq a a"
  by (auto simp: slots_eq_def list_all_iff mem_dget)

lemma interaction_candidate_eq_refl: "interaction_artifact_candidate_ok c \<Longrightarrow> interaction_candidate_eq c c"
  by (cases "idr_capability_draft (iac_draft c)")
    (auto simp: interaction_candidate_eq_def interaction_draft_eq_def intent_draft_eq_def slots_eq_refl
      interaction_artifact_candidate_ok_def Let_def interaction_draft_ok_def intent_draft_ok_def)

interpretation interaction_store: insert_once
  "\<lambda>s. dget (st_interaction_artifacts s)"
  "\<lambda>s c. save_interaction s (fst c) (fst (snd c)) (fst (snd (snd c))) (snd (snd (snd c)))"
  "\<lambda>c :: task_attempt_grant \<times> interaction_artifact_candidate \<times> instant \<times> instant. tg_task_id (fst c)"
  "\<lambda>v c. interaction_candidate_eq (aia_candidate v) (fst (snd c))" "\<lambda>s. True" "\<lambda>c. True"
  by standard (auto simp: save_interaction_def revalidate_def accepted_interaction_artifact_ok_def
      interaction_candidate_eq_refl split: option.splits sum.splits if_splits)

text \<open>A fact is accepted only from the holder of the current grant.\<close>

lemma fact_grant_current:
  "require_fact_grant current g now sts = Inr u \<Longrightarrow>
     \<exists>r. current = Some r \<and> grant_is_current r g now sts = None"
  by (auto simp: require_fact_grant_def split: option.splits if_splits)

end
