(* ===== verification/Task_Invariants.thy ===== *)
theory Task_Invariants
  imports Insert_Once
begin

text \<open>
  The invariant of the task store. Every record is valid and filed under its own id, sequence
  numbers and fencing tokens are below the counters, the idempotency index and the tasks point
  at each other, each task has its matching submission, journal rows are well formed and no task
  has used more tool calls than its plan allows. The sections show each part preserved by each
  operation; \<open>Task_Runs\<close> puts them together over arbitrary runs.
\<close>

named_theorems store_defs \<open>definitions of the store operations\<close>

subsection \<open>Records, counters and submissions\<close>

definition task_filed :: "py_env \<Rightarrow> store_state \<Rightarrow> string \<Rightarrow> task_record \<Rightarrow> bool" where
  "task_filed E s k r \<longleftrightarrow> task_record_ok r \<and> tr_task_id r = k
     \<and> tr_created_seq r < st_next_created_seq s
     \<and> opt_all (\<lambda>t. t < st_next_fencing_token s) (tr_fencing_token r)
     \<and> (\<exists>sub d. dget (st_submissions s) k = Some sub \<and> dget (st_submission_digests s) k = Some d
          \<and> submission_matches_record E r sub d)"

definition tasks_inv :: "py_env \<Rightarrow> store_state \<Rightarrow> bool" where
  "tasks_inv E s \<longleftrightarrow> dict_ok (st_tasks s) \<and> 0 < st_next_fencing_token s \<and> 0 < st_next_created_seq s
     \<and> (\<forall>k r. dget (st_tasks s) k = Some r \<longrightarrow> task_filed E s k r)"

definition seqs_inv :: "store_state \<Rightarrow> bool" where
  "seqs_inv s \<longleftrightarrow> (\<forall>k r k' r'. dget (st_tasks s) k = Some r \<longrightarrow> dget (st_tasks s) k' = Some r' \<longrightarrow>
     tr_created_seq r = tr_created_seq r' \<longrightarrow> k = k')"

text \<open>A record replaced by one with the same identity: what every update of a task does.\<close>

definition same_identity :: "task_record \<Rightarrow> task_record \<Rightarrow> bool" where
  "same_identity r r' \<longleftrightarrow> tr_task_id r' = tr_task_id r \<and> tr_tenant_id r' = tr_tenant_id r
     \<and> tr_environment_id r' = tr_environment_id r \<and> tr_actor r' = tr_actor r
     \<and> tr_idempotency_key r' = tr_idempotency_key r \<and> tr_request_digest r' = tr_request_digest r
     \<and> tr_created_seq r' = tr_created_seq r"

lemma same_identity_refl [simp]: "same_identity r r"
  by (simp add: same_identity_def)

lemma same_identity_trans: "same_identity a b \<Longrightarrow> same_identity b c \<Longrightarrow> same_identity a c"
  by (simp add: same_identity_def)

lemma submission_matches_cong:
  "same_identity r r' \<Longrightarrow> submission_matches_record E r' sub d = submission_matches_record E r sub d"
  by (cases sub) (simp_all add: same_identity_def)

text \<open>
  \<open>task_update s s' k r r'\<close>: the step from \<open>s\<close> to \<open>s'\<close> touches the task facts only by replacing
  \<open>r\<close> under \<open>k\<close> by \<open>r'\<close>, and allocates at most fencing tokens.
\<close>

definition task_update :: "store_state \<Rightarrow> store_state \<Rightarrow> string \<Rightarrow> task_record \<Rightarrow> task_record \<Rightarrow> bool" where
  "task_update s s' k r r' \<longleftrightarrow> dget (st_tasks s) k = Some r \<and> st_tasks s' = dset k r' (st_tasks s)
     \<and> same_identity r r' \<and> task_record_ok r'
     \<and> st_submissions s' = st_submissions s \<and> st_submission_digests s' = st_submission_digests s
     \<and> st_task_ids_by_key s' = st_task_ids_by_key s
     \<and> st_next_created_seq s' = st_next_created_seq s
     \<and> st_next_fencing_token s \<le> st_next_fencing_token s'
     \<and> opt_all (\<lambda>t. t < st_next_fencing_token s') (tr_fencing_token r')
     \<and> st_step_executions s' = st_step_executions s \<and> st_plans s' = st_plans s
     \<and> st_sql_artifacts s' = st_sql_artifacts s"

lemma opt_all_less_mono: "opt_all (\<lambda>t. t < n) x \<Longrightarrow> n \<le> (m :: int) \<Longrightarrow> opt_all (\<lambda>t. t < m) x"
  by (cases x) auto

lemma task_update_tasks_inv:
  assumes "task_update s s' k r r'" "tasks_inv E s"
  shows "tasks_inv E s'"
proof -
  have r: "task_filed E s k r" using assms by (simp add: task_update_def tasks_inv_def)
  have "task_filed E s' j x" if x: "dget (st_tasks s') j = Some x" for j x
  proof (cases "j = k")
    case True
    then have "x = r'" using assms(1) x by (simp add: task_update_def)
    then show ?thesis
      using assms(1) r True submission_matches_cong [of r r' E]
      by (auto simp: task_update_def task_filed_def same_identity_def)
  next
    case False
    then have "dget (st_tasks s) j = Some x" using assms(1) x by (simp add: task_update_def)
    then have "task_filed E s j x" using assms(2) by (simp add: tasks_inv_def)
    then show ?thesis
      using assms(1) opt_all_less_mono by (fastforce simp: task_update_def task_filed_def)
  qed
  then show ?thesis
    using assms by (auto simp: task_update_def tasks_inv_def)
qed

lemma task_update_seqs_inv: "task_update s s' k r r' \<Longrightarrow> seqs_inv s \<Longrightarrow> seqs_inv s'"
  unfolding seqs_inv_def task_update_def same_identity_def
  by (auto split: if_splits)

subsection \<open>The operations that update one task\<close>

text \<open>An update, or no change of the task facts at all.\<close>

definition quiet :: "store_state \<Rightarrow> store_state \<Rightarrow> bool" where
  "quiet s s' \<longleftrightarrow> st_tasks s' = st_tasks s \<and> st_submissions s' = st_submissions s
     \<and> st_submission_digests s' = st_submission_digests s
     \<and> st_task_ids_by_key s' = st_task_ids_by_key s
     \<and> st_next_created_seq s' = st_next_created_seq s
     \<and> st_next_fencing_token s' = st_next_fencing_token s"

definition frame_rest :: "store_state \<Rightarrow> store_state \<Rightarrow> bool" where
  "frame_rest s s' \<longleftrightarrow> st_step_executions s' = st_step_executions s \<and> st_plans s' = st_plans s"

lemma quiet_refl [simp]: "quiet s s"
  by (simp add: quiet_def)

lemma frame_rest_refl [simp]: "frame_rest s s"
  by (simp add: frame_rest_def)

lemma task_update_frame_rest: "task_update s s' k r r' \<Longrightarrow> frame_rest s s'"
  by (simp add: task_update_def frame_rest_def)

lemma quiet_tasks_inv: "quiet s s' \<Longrightarrow> tasks_inv E s' = tasks_inv E s"
  by (simp add: quiet_def tasks_inv_def task_filed_def)

lemma quiet_seqs_inv: "quiet s s' \<Longrightarrow> seqs_inv s' = seqs_inv s"
  by (simp add: quiet_def seqs_inv_def)

lemma require_task_Inr: "require_task s k = Inr r \<longleftrightarrow> dget (st_tasks s) k = Some r"
  by (auto simp: require_task_def split: option.splits)

lemma tasks_inv_filed: "tasks_inv E s \<Longrightarrow> dget (st_tasks s) k = Some r \<Longrightarrow> task_filed E s k r"
  by (simp add: tasks_inv_def)

lemma checked_Inr: "checked (revalidate ok x) = Inr y \<longleftrightarrow> ok x \<and> y = x"
  by (auto simp: revalidate_def)

lemma checked_cases: "(checked (revalidate ok x) = Inl StoreValidationError \<and> \<not> ok x)
    \<or> (checked (revalidate ok x) = Inr x \<and> ok x)"
  by (simp add: revalidate_def)

lemma transition_effect:
  assumes "transition s c now = (s', out)" "tasks_inv E s"
  shows "(s' = s \<and> (\<forall>res. out = Inr res \<longrightarrow> \<not> trr_applied res))
     \<or> (\<exists>r r'. task_update s s' (tc_task_id c) r r'
     \<and> classify_transition r c now = None \<and> apply_transition r c = Inr r'
     \<and> out = Inr \<lparr>trr_applied = True, trr_winner = r', trr_rejection = None\<rparr>)"
proof (cases "dget (st_tasks s) (tc_task_id c)")
  case (Some r)
  then have f: "task_filed E s (tc_task_id c) r" using assms(2) by (rule tasks_inv_filed [rotated])
  show ?thesis
  proof (cases "classify_transition r c now = None \<and> is_ok (apply_transition r c)")
    case True
    then obtain r' where r': "apply_transition r c = Inr r'" by (auto simp: is_ok_conv)
    then have ok: "task_record_ok r'" and r'_def: "r' = r\<lparr>tr_status := tc_to_status c,
        tr_version := tr_version r + 1, tr_terminal_reason := tc_terminal_reason c\<rparr>"
      by (auto simp: apply_transition_def revalidate_Inr)
    have "task_update s s' (tc_task_id c) r r'"
      using assms(1) Some True r' ok f
      by (auto simp: transition_def require_task_def task_update_def same_identity_def r'_def
          task_filed_def)
    moreover have "out = Inr \<lparr>trr_applied = True, trr_winner = r', trr_rejection = None\<rparr>"
      using assms(1) Some True r' ok
      by (auto simp: transition_def require_task_def transition_result_ok_def)
    ultimately show ?thesis using True r' by blast
  next
    case False
    then show ?thesis
      using assms(1) Some
      by (cases "apply_transition r c")
        (auto simp: transition_def require_task_def checked_Inr split: option.splits sum.splits)
  qed
qed (use assms in \<open>auto simp: transition_def require_task_def\<close>)

lemma acquire_lease_effect:
  assumes "acquire_lease s k owner ttl now now' = (s', out)" "tasks_inv E s"
  shows "(s' = s \<and> out \<notin> Inr ` range Some) \<or> (\<exists>r r' g. task_update s s' k r r' \<and> out = Inr (Some g)
     \<and> may_acquire_lease r owner now
     \<and> r' = r\<lparr>tr_lease_owner := Some owner, tr_lease_expires_at := Some (now' + seconds ttl),
          tr_fencing_token := Some (st_next_fencing_token s)\<rparr>
     \<and> st_next_fencing_token s' = st_next_fencing_token s + 1
     \<and> g = \<lparr>lg_task_id = k, lg_owner = owner, lg_expires_at = now' + seconds ttl,
          lg_fencing_token = st_next_fencing_token s\<rparr>)"
proof (cases "dget (st_tasks s) k")
  case (Some r)
  then have f: "task_filed E s k r" using assms(2) by (rule tasks_inv_filed [rotated])
  have "task_update s s' k r (r\<lparr>tr_lease_owner := Some owner,
      tr_lease_expires_at := Some (now' + seconds ttl),
      tr_fencing_token := Some (st_next_fencing_token s)\<rparr>)
      \<and> st_next_fencing_token s' = st_next_fencing_token s + 1
      \<and> out = Inr (Some \<lparr>lg_task_id = k, lg_owner = owner, lg_expires_at = now' + seconds ttl,
          lg_fencing_token = st_next_fencing_token s\<rparr>) \<and> may_acquire_lease r owner now"
    if "s' \<noteq> s \<or> out \<in> Inr ` range Some"
    using that assms(1) Some f
    by (auto simp: acquire_lease_def require_task_def task_update_def same_identity_def Let_def
        checked_Inr split: sum.splits if_splits)
  then show ?thesis by blast
qed (use assms in \<open>auto simp: acquire_lease_def require_task_def split: if_splits\<close>)

lemma renew_lease_effect:
  assumes "renew_lease s k owner tok ttl now now' = (s', out)" "tasks_inv E s"
  shows "s' = s \<or> (\<exists>r r'. task_update s s' k r r' \<and> may_renew_lease r owner tok now
     \<and> r' = r\<lparr>tr_lease_expires_at := Some (now' + seconds ttl)\<rparr>
     \<and> st_next_fencing_token s' = st_next_fencing_token s)"
proof (cases "dget (st_tasks s) k")
  case (Some r)
  then have f: "task_filed E s k r" using assms(2) by (rule tasks_inv_filed [rotated])
  have "task_update s s' k r (r\<lparr>tr_lease_expires_at := Some (now' + seconds ttl)\<rparr>)
      \<and> may_renew_lease r owner tok now \<and> st_next_fencing_token s' = st_next_fencing_token s"
    if "s' \<noteq> s"
    using that assms(1) Some f
    by (auto simp: renew_lease_def require_task_def task_update_def same_identity_def Let_def
        checked_Inr task_filed_def split: sum.splits if_splits)
  then show ?thesis by blast
qed (use assms in \<open>auto simp: renew_lease_def require_task_def split: if_splits\<close>)

lemma terminalize_effect:
  assumes "terminalize_attempt_rejection s r c rej now u = (s', out)" "tasks_inv E s"
    "dget (st_tasks s) k = Some r"
  shows "s' = s \<or> (\<exists>r'. task_update s s' k r r'
     \<and> r' = r\<lparr>tr_status := FAILED, tr_version := tr_version r + 1,
         tr_terminal_reason := Some (task_attempt_rejection_value rej)\<rparr>)"
proof -
  have f: "task_filed E s k r" using assms(2,3) by (rule tasks_inv_filed)
  have "task_update s s' k r (r\<lparr>tr_status := FAILED, tr_version := tr_version r + 1,
         tr_terminal_reason := Some (task_attempt_rejection_value rej)\<rparr>)" if "s' \<noteq> s"
    using that assms(1,3) f
    by (auto simp: terminalize_attempt_rejection_def put_task_def task_update_def same_identity_def
        checked_Inr task_filed_def split: sum.splits)
  then show ?thesis by blast
qed

text \<open>What a granted attempt is.\<close>

definition attempt_granted ::
  "store_state \<Rightarrow> store_state \<Rightarrow> task_attempt_command \<Rightarrow> task_record \<Rightarrow> task_record \<Rightarrow> instant \<Rightarrow> bool" where
  "attempt_granted s s' c r r' now \<longleftrightarrow>
     r' = r\<lparr>tr_attempt_number := tr_attempt_number r + 1, tr_next_attempt_at := None,
         tr_lease_owner := Some (ta_owner c),
         tr_lease_expires_at := Some (now + seconds (ta_ttl_seconds c)),
         tr_fencing_token := Some (st_next_fencing_token s)\<rparr>
     \<and> st_next_fencing_token s' = st_next_fencing_token s + 1"

definition attempt_failed :: "task_record \<Rightarrow> task_record \<Rightarrow> bool" where
  "attempt_failed r r' \<longleftrightarrow> (\<exists>rej \<in> attempt_terminal_rejections.
     r' = r\<lparr>tr_status := FAILED, tr_version := tr_version r + 1,
         tr_terminal_reason := Some (task_attempt_rejection_value rej)\<rparr>)"

lemma begin_task_attempt_effect:
  assumes "begin_task_attempt E limit s c now u = (s', out)" "tasks_inv E s"
  shows "s' = s \<or> (\<exists>r r'. task_update s s' (ta_task_id c) r r' \<and> tr_status r \<notin> TERMINAL_STATUSES
     \<and> \<not> lease_is_live r now
     \<and> (attempt_granted s s' c r r' now \<and> classify_task_attempt r (ta_intent c) now limit = None
        \<or> attempt_failed r r'))"
proof (cases "dget (st_tasks s) (ta_task_id c)")
  case (Some r)
  then have f: "task_filed E s (ta_task_id c) r" using assms(2) by (rule tasks_inv_filed [rotated])
  note T = terminalize_effect [OF _ assms(2) Some]
  consider (exhausted) "classify_task_attempt r (ta_intent c) now limit = Some TAR_RETRY_EXHAUSTED"
    | (rejected) rej where "classify_task_attempt r (ta_intent c) now limit = Some rej"
        "rej \<noteq> TAR_RETRY_EXHAUSTED"
    | (bad) "classify_task_attempt r (ta_intent c) now limit = None"
        "stored_submission_consistent E s r = None"
    | (good) sub where "classify_task_attempt r (ta_intent c) now limit = None"
        "stored_submission_consistent E s r = Some sub"
    by (cases "classify_task_attempt r (ta_intent c) now limit";
        cases "stored_submission_consistent E s r") auto
  then show ?thesis
  proof cases
    case exhausted
    then have "terminalize_attempt_rejection s r c TAR_RETRY_EXHAUSTED now u = (s', out)"
      using assms(1) Some by (simp add: begin_task_attempt_def require_task_def)
    from T [OF this] exhausted show ?thesis
      by (auto simp: attempt_failed_def attempt_terminal_rejections_def classify_task_attempt_def
          split: if_splits)
  next
    case rejected
    then show ?thesis using assms(1) Some by (simp add: begin_task_attempt_def require_task_def)
  next
    case bad
    then have "terminalize_attempt_rejection s r c TAR_SUBMISSION_INVARIANT_VIOLATION now u = (s', out)"
      using assms(1) Some by (simp add: begin_task_attempt_def require_task_def)
    from T [OF this] bad show ?thesis
      by (auto simp: attempt_failed_def attempt_terminal_rejections_def decision_facts)
  next
    case good
    have "task_update s s' (ta_task_id c) r (r\<lparr>tr_attempt_number := tr_attempt_number r + 1,
         tr_next_attempt_at := None, tr_lease_owner := Some (ta_owner c),
         tr_lease_expires_at := Some (now + seconds (ta_ttl_seconds c)),
         tr_fencing_token := Some (st_next_fencing_token s)\<rparr>)
        \<and> st_next_fencing_token s' = st_next_fencing_token s + 1" if "s' \<noteq> s"
      using that assms(1) Some f good
      by (auto simp: begin_task_attempt_def require_task_def Let_def put_task_def task_update_def
          same_identity_def checked_Inr task_filed_def split: sum.splits)
    then show ?thesis using good by (auto simp: attempt_granted_def decision_facts)
  qed
qed (use assms in \<open>auto simp: begin_task_attempt_def require_task_def\<close>)

definition retry_scheduled ::
  "py_env \<Rightarrow> store_state \<Rightarrow> store_state \<Rightarrow> retry_command \<Rightarrow> task_record \<Rightarrow> task_record \<Rightarrow> bool" where
  "retry_scheduled E s s' c r r' \<longleftrightarrow> (\<exists>d. retry_command_digest E c = Inr d
     \<and> r' = r\<lparr>tr_version := tr_version r + 1,
         tr_task_failure_count := tr_task_failure_count r + 1,
         tr_next_attempt_at := Some (rt_next_attempt_at c),
         tr_retry_scheduled_by_attempt := Some (tg_attempt_number (rt_grant c)),
         tr_retry_command_digest := Some d, tr_lease_expires_at := Some (rt_next_attempt_at c),
         tr_fencing_token := Some (st_next_fencing_token s)\<rparr>)
     \<and> st_next_fencing_token s' = st_next_fencing_token s + 1"

lemma schedule_retry_effect:
  assumes "schedule_retry E s c now = (s', out)" "tasks_inv E s"
  shows "s' = s \<or> (\<exists>r r'. task_update s s' (tg_task_id (rt_grant c)) r r'
     \<and> grant_is_current r (rt_grant c) now {CREATED, PLANNING, RUNNING} = None
     \<and> retry_scheduled E s s' c r r')"
proof (cases "dget (st_tasks s) (tg_task_id (rt_grant c))")
  case (Some r)
  then have f: "task_filed E s (tg_task_id (rt_grant c)) r"
    using assms(2) by (rule tasks_inv_filed [rotated])
  have "\<exists>d. retry_command_digest E c = Inr d \<and>
      task_update s s' (tg_task_id (rt_grant c)) r
        (r\<lparr>tr_version := tr_version r + 1, tr_task_failure_count := tr_task_failure_count r + 1,
         tr_next_attempt_at := Some (rt_next_attempt_at c),
         tr_retry_scheduled_by_attempt := Some (tg_attempt_number (rt_grant c)),
         tr_retry_command_digest := Some d, tr_lease_expires_at := Some (rt_next_attempt_at c),
         tr_fencing_token := Some (st_next_fencing_token s)\<rparr>)
      \<and> grant_is_current r (rt_grant c) now {CREATED, PLANNING, RUNNING} = None
      \<and> st_next_fencing_token s' = st_next_fencing_token s + 1" if "s' \<noteq> s"
    using that assms(1) Some f
    by (auto simp: schedule_retry_def require_task_def Let_def put_task_def task_update_def
        same_identity_def checked_Inr task_filed_def split: sum.splits if_splits)
  then show ?thesis unfolding retry_scheduled_def by blast
qed (use assms in \<open>auto simp: schedule_retry_def require_task_def split: sum.splits\<close>)

end
