(* ===== verification/Task_Invariants2.thy ===== *)
theory Task_Invariants2
  imports Task_Invariants
begin

text \<open>
  The invariant, continued: the idempotency index, the SQL artifacts and the step journal, and
  the effect of the creating and journaling operations.
\<close>

subsection \<open>Creation and the idempotency index\<close>

fun scope_kind :: "task_submission \<Rightarrow> string list" where
  "scope_kind (ConversationSubmission c) = []"
| "scope_kind (ArtifactSubmission a) = [''sql_artifact'']"

definition task_scope :: "task_record \<Rightarrow> task_submission \<Rightarrow> string list" where
  "task_scope r sub = [tr_tenant_id r, tr_environment_id r, tr_idempotency_key r] @ scope_kind sub"

definition keys_inv :: "store_state \<Rightarrow> bool" where
  "keys_inv s \<longleftrightarrow>
     (\<forall>k r sub. dget (st_tasks s) k = Some r \<longrightarrow> dget (st_submissions s) k = Some sub \<longrightarrow>
        dget (st_task_ids_by_key s) (task_scope r sub) = Some k)
     \<and> (\<forall>sc k. dget (st_task_ids_by_key s) sc = Some k \<longrightarrow>
        (\<exists>r sub. dget (st_tasks s) k = Some r \<and> dget (st_submissions s) k = Some sub
           \<and> sc = task_scope r sub))"

definition task_inserted ::
  "py_env \<Rightarrow> store_state \<Rightarrow> store_state \<Rightarrow> task_record \<Rightarrow> task_submission \<Rightarrow> bool" where
  "task_inserted E s s' r sub \<longleftrightarrow>
     task_record_ok r \<and> tr_created_seq r = st_next_created_seq s \<and> tr_status r = CREATED
     \<and> tr_version r = 0 \<and> tr_attempt_number r = 0 \<and> tr_fencing_token r = None
     \<and> dget (st_tasks s) (tr_task_id r) = None
     \<and> dget (st_task_ids_by_key s) (task_scope r sub) = None
     \<and> (\<exists>d. submission_matches_record E r sub d
          \<and> st_submission_digests s' = dset (tr_task_id r) d (st_submission_digests s))
     \<and> st_tasks s' = dset (tr_task_id r) r (st_tasks s)
     \<and> st_submissions s' = dset (tr_task_id r) sub (st_submissions s)
     \<and> st_task_ids_by_key s' = dset (task_scope r sub) (tr_task_id r) (st_task_ids_by_key s)
     \<and> st_next_created_seq s' = st_next_created_seq s + 1
     \<and> st_next_fencing_token s' = st_next_fencing_token s"

lemma task_inserted_tasks_inv:
  assumes "task_inserted E s s' r sub" "tasks_inv E s"
  shows "tasks_inv E s'"
proof -
  have "task_filed E s' j x" if x: "dget (st_tasks s') j = Some x" for j x
  proof (cases "j = tr_task_id r")
    case True
    with assms x show ?thesis by (auto simp: task_inserted_def task_filed_def tasks_inv_def)
  next
    case False
    with assms x have "task_filed E s j x" by (simp add: task_inserted_def tasks_inv_def)
    with False assms(1) show ?thesis by (fastforce simp: task_inserted_def task_filed_def)
  qed
  with assms show ?thesis by (auto simp: task_inserted_def tasks_inv_def)
qed

lemma task_inserted_seqs_inv:
  assumes "task_inserted E s s' r sub" "tasks_inv E s" "seqs_inv s"
  shows "seqs_inv s'"
proof -
  have less: "tr_created_seq x < tr_created_seq r" if "dget (st_tasks s) j = Some x" for j x
    using assms(1,2) that by (auto simp: task_inserted_def tasks_inv_def task_filed_def)
  have look: "dget (st_tasks s') j = (if j = tr_task_id r then Some r else dget (st_tasks s) j)" for j
    using assms(1) by (simp add: task_inserted_def)
  show ?thesis
    unfolding seqs_inv_def look
  proof (intro allI impI)
    fix k x k' x' assume a: "(if k = tr_task_id r then Some r else dget (st_tasks s) k) = Some x"
      "(if k' = tr_task_id r then Some r else dget (st_tasks s) k') = Some x'"
      "tr_created_seq x = tr_created_seq x'"
    show "k = k'"
      using a less [of k x] less [of k' x'] assms(3)
      by (auto simp: seqs_inv_def split: if_splits)
  qed
qed

lemma task_inserted_keys_inv:
  assumes "task_inserted E s s' r sub" "keys_inv s"
  shows "keys_inv s'"
  unfolding keys_inv_def
proof (intro conjI allI impI)
  fix k x y assume a: "dget (st_tasks s') k = Some x" "dget (st_submissions s') k = Some y"
  show "dget (st_task_ids_by_key s') (task_scope x y) = Some k"
  proof (cases "k = tr_task_id r")
    case False
    then have "dget (st_task_ids_by_key s) (task_scope x y) = Some k"
      using a assms by (simp add: task_inserted_def keys_inv_def)
    then show ?thesis using assms(1) by (auto simp: task_inserted_def)
  qed (use a assms(1) in \<open>auto simp: task_inserted_def\<close>)
next
  fix sc k assume "dget (st_task_ids_by_key s') sc = Some k"
  moreover have "dget (st_task_ids_by_key s') sc =
      (if sc = task_scope r sub then Some (tr_task_id r) else dget (st_task_ids_by_key s) sc)"
    using assms(1) by (simp add: task_inserted_def)
  ultimately consider "sc = task_scope r sub" "k = tr_task_id r" | "dget (st_task_ids_by_key s) sc = Some k"
    by (metis option.inject)
  then show "\<exists>x y. dget (st_tasks s') k = Some x \<and> dget (st_submissions s') k = Some y
      \<and> sc = task_scope x y"
  proof cases
    case 2
    then obtain x y where "dget (st_tasks s) k = Some x" "dget (st_submissions s) k = Some y"
        "sc = task_scope x y"
      using assms(2) unfolding keys_inv_def by blast
    then show ?thesis using assms(1) by (auto simp: task_inserted_def)
  qed (use assms(1) in \<open>auto simp: task_inserted_def\<close>)
qed

lemma task_update_keys_inv:
  assumes "task_update s s' k r r'" "keys_inv s"
  shows "keys_inv s'"
proof -
  have sc: "task_scope r' sub = task_scope r sub" for sub
    using assms(1) by (simp add: task_update_def same_identity_def task_scope_def)
  show ?thesis
    unfolding keys_inv_def
  proof (intro conjI allI impI)
    fix j x y assume "dget (st_tasks s') j = Some x" "dget (st_submissions s') j = Some y"
    then show "dget (st_task_ids_by_key s') (task_scope x y) = Some j"
      using assms sc by (auto simp: task_update_def keys_inv_def split: if_splits)
  next
    fix c j assume "dget (st_task_ids_by_key s') c = Some j"
    then have "dget (st_task_ids_by_key s) c = Some j"
      using assms(1) by (simp add: task_update_def)
    then obtain x y where "dget (st_tasks s) j = Some x" "dget (st_submissions s) j = Some y"
        "c = task_scope x y"
      using assms(2) unfolding keys_inv_def by blast
    then show "\<exists>x y. dget (st_tasks s') j = Some x \<and> dget (st_submissions s') j = Some y
        \<and> c = task_scope x y"
      using assms(1) sc by (cases "j = k") (auto simp: task_update_def)
  qed
qed

lemma quiet_keys_inv: "quiet s s' \<Longrightarrow> keys_inv s' = keys_inv s"
  by (simp add: quiet_def keys_inv_def)

lemma insert_task_effect:
  assumes E: "py_env_ok E" and ins: "insert_task_locked E s sub digest idem scope u = (s', out)"
    and fresh: "dget (st_tasks s) u = None" "dget (st_task_ids_by_key s) scope = None"
    and scope: "scope = [rc_tenant_id (submission_context sub),
       rc_environment_id (submission_context sub), idem] @ scope_kind sub"
    and digest: "case sub of
         ConversationSubmission c \<Rightarrow> context_matches_envelope (cs_envelope c) (cs_context c)
           \<and> request_dedup_digest E (cs_envelope c) (cs_context c) (cs_clarification_parent_task_id c)
               = Inr digest
       | ArtifactSubmission a \<Rightarrow>
           sql_request_dedup_digest E (as_context a) (as_sql_hash a) idem = Inr digest"
  shows "(s' = s \<and> out = Inl StoreValidationError) \<or>
     (\<exists>r. out = Inr r \<and> task_inserted E s s' r sub \<and> tr_task_id r = u \<and> frame_rest s s'
        \<and> st_sql_artifacts s' = st_sql_artifacts s
        \<and> tr_idempotency_key r = idem \<and> tr_request_digest r = digest
        \<and> tr_tenant_id r = rc_tenant_id (submission_context sub)
        \<and> tr_environment_id r = rc_environment_id (submission_context sub)
        \<and> tr_actor r = rc_actor (submission_context sub))"
proof -
  obtain d where d: "submission_digest E sub = Inr d"
    using submission_digest_total [OF E] by blast
  show ?thesis
    using ins fresh scope digest d
    by (cases sub) (auto simp: insert_task_locked_def Let_def revalidate_def task_inserted_def
        task_scope_def frame_rest_def split: if_splits)
qed

lemma existing_None:
  "existing_task_for_submission s sub digest = Inr None \<Longrightarrow>
     dget (st_task_ids_by_key s) (conversation_scope sub) = None"
  by (auto simp: existing_task_for_submission_def split: option.splits if_splits)

lemma existing_quiet:
  "quiet s s1 \<Longrightarrow> existing_task_for_submission s1 sub d = existing_task_for_submission s sub d"
  unfolding quiet_def existing_task_for_submission_def by (elim conjE) (simp only:)

lemma create_locked_effect:
  assumes E: "py_env_ok E" and "create_task_locked E s sub digest u = (s', out)"
    "dget (st_tasks s) u = None" "existing_task_for_submission s sub digest = Inr None"
    "context_matches_envelope (cs_envelope sub) (cs_context sub)"
    "request_dedup_digest E (cs_envelope sub) (cs_context sub) (cs_clarification_parent_task_id sub)
       = Inr digest"
  shows "(s' = s \<and> out = Inl StoreValidationError) \<or>
     (\<exists>r. out = Inr r \<and> task_inserted E s s' r (ConversationSubmission sub) \<and> tr_task_id r = u
        \<and> frame_rest s s' \<and> st_sql_artifacts s' = st_sql_artifacts s
        \<and> tr_idempotency_key r = re_idempotency_key (cs_envelope sub)
        \<and> tr_request_digest r = digest \<and> tr_tenant_id r = rc_tenant_id (cs_context sub)
        \<and> tr_environment_id r = rc_environment_id (cs_context sub)
        \<and> tr_actor r = rc_actor (cs_context sub))"
  using insert_task_effect [OF E assms(2) [unfolded create_task_locked_def] assms(3)
      existing_None [OF assms(4)]] assms(5,6)
  by (simp add: conversation_scope_def)

text \<open>A creating operation inserts one task, or leaves the task facts alone.\<close>

lemma create_task_effect:
  assumes E: "py_env_ok E" and c: "create_task E s sub u = (s', out)" "dget (st_tasks s) u = None"
  shows "s' = s \<or> (\<exists>r. out = Inr r \<and> task_inserted E s s' r (ConversationSubmission sub)
     \<and> tr_task_id r = u \<and> frame_rest s s' \<and> st_sql_artifacts s' = st_sql_artifacts s
     \<and> cs_clarification_parent_task_id sub = None)"
proof -
  obtain d where d: "request_dedup_digest E (cs_envelope sub) (cs_context sub)
      (cs_clarification_parent_task_id sub) = Inr d"
    using request_dedup_digest_total [OF E] by blast
  show ?thesis
  proof (cases "context_matches_envelope (cs_envelope sub) (cs_context sub)
      \<and> cs_clarification_parent_task_id sub = None \<and> existing_task_for_submission s sub d = Inr None")
    case True
    then have "create_task_locked E s sub d u = (s', out)"
      using c(1) d by (auto simp: create_task_def)
    from create_locked_effect [OF E this c(2)] True d show ?thesis by auto
  next
    case False
    then show ?thesis using c(1) d by (auto simp: create_task_def split: if_splits sum.splits option.splits)
  qed
qed

lemma extend_selected_sql_effect:
  assumes "extend_selected_sql s r now = (s', out)"
  shows "quiet s s' \<and> frame_rest s s' \<and> st_clarification_records s' = st_clarification_records s
     \<and> (\<forall>e. out = Inl e \<longrightarrow> s' = s)
     \<and> (\<forall>k row'. dget (st_sql_artifacts s') k = Some row' \<longrightarrow> (\<exists>row. dget (st_sql_artifacts s) k = Some row
          \<and> row' = row\<lparr>sa_expires_at := sa_expires_at row'\<rparr> \<and> sa_expires_at row \<le> sa_expires_at row'))"
  using assms
  by (auto simp: extend_selected_sql_def raise_for_sql_artifact_read_def Let_def quiet_def
      frame_rest_def extended_sql_expiry_def split: option.splits prod.splits sum.splits if_splits)

lemma create_clarification_child_effect:
  assumes E: "py_env_ok E"
    and c: "create_clarification_child E s sub owner now u = (s', out)" "dget (st_tasks s) u = None"
  shows "s' = s \<or> (\<exists>s1 p o1. cs_clarification_parent_task_id sub = Some p
     \<and> (\<exists>parent. dget (st_tasks s) p = Some parent \<and> clarification_parent_is_usable parent sub owner
          \<and> \<not> clarification_parent_is_consumed s p \<and> extend_selected_sql s parent now = (s1, Inr o1))
     \<and> (s' = s1 \<or> (\<exists>r. out = Inr r \<and> task_inserted E s1 s' r (ConversationSubmission sub)
          \<and> tr_task_id r = u \<and> frame_rest s1 s' \<and> st_sql_artifacts s' = st_sql_artifacts s1)))"
proof (cases "cs_clarification_parent_task_id sub")
  case (Some p)
  obtain d where d: "request_dedup_digest E (cs_envelope sub) (cs_context sub) (Some p) = Inr d"
    using request_dedup_digest_total [OF E] by blast
  show ?thesis
  proof (cases "\<exists>parent s1 o1. context_matches_envelope (cs_envelope sub) (cs_context sub)
      \<and> existing_task_for_submission s sub d = Inr None \<and> dget (st_tasks s) p = Some parent
      \<and> clarification_parent_is_usable parent sub owner \<and> \<not> clarification_parent_is_consumed s p
      \<and> extend_selected_sql s parent now = (s1, Inr o1)")
    case True
    then obtain parent s1 o1 where P: "context_matches_envelope (cs_envelope sub) (cs_context sub)"
        "existing_task_for_submission s sub d = Inr None" "dget (st_tasks s) p = Some parent"
        "clarification_parent_is_usable parent sub owner" "\<not> clarification_parent_is_consumed s p"
        "extend_selected_sql s parent now = (s1, Inr o1)" by blast
    then have loc: "create_task_locked E s1 sub d u = (s', out)"
      using c(1) Some d by (simp add: create_clarification_child_def)
    have q: "quiet s s1" using extend_selected_sql_effect [OF P(6)] by blast
    then have "existing_task_for_submission s1 sub d = Inr None" "dget (st_tasks s1) u = None"
      using P(2) c(2) by (simp_all add: existing_quiet) (simp add: quiet_def)
    from create_locked_effect [OF E loc this(2,1) P(1)] Some d P show ?thesis by fastforce
  next
    case False
    then show ?thesis
      using c(1) Some d extend_selected_sql_effect
      by (fastforce simp: create_clarification_child_def split: if_splits sum.splits option.splits prod.splits)
  qed
qed (use c in \<open>auto simp: create_clarification_child_def\<close>)

subsection \<open>SQL artifacts\<close>

definition sql_inv :: "py_env \<Rightarrow> store_state \<Rightarrow> bool" where
  "sql_inv E s \<longleftrightarrow> (\<forall>k row b. dget (st_sql_artifacts s) k = Some row \<longrightarrow>
     sa_sql_bytes row = Some b \<longrightarrow> sa_sql_hash row = env_sha256 E b)"

text \<open>Rows change only in their expiry, which never shrinks, and no row disappears.\<close>

definition sql_extended :: "store_state \<Rightarrow> store_state \<Rightarrow> bool" where
  "sql_extended s s' \<longleftrightarrow> (\<forall>k row. dget (st_sql_artifacts s) k = Some row \<longrightarrow>
     (\<exists>row'. dget (st_sql_artifacts s') k = Some row' \<and> row' = row\<lparr>sa_expires_at := sa_expires_at row'\<rparr>
        \<and> sa_expires_at row \<le> sa_expires_at row'))"

lemma sql_extended_refl: "st_sql_artifacts s' = st_sql_artifacts s \<Longrightarrow> sql_extended s s'"
  by (simp add: sql_extended_def)

lemma sql_rows_eq: "row' = row\<lparr>sa_expires_at := e\<rparr> \<Longrightarrow> sa_sql_bytes row' = sa_sql_bytes row \<and>
   sa_sql_hash row' = sa_sql_hash row"
  by simp

lemma extend_selected_sql_inv:
  assumes "extend_selected_sql s r now = (s', out)" "sql_inv E s"
  shows "sql_inv E s'"
  unfolding sql_inv_def
proof (intro allI impI)
  fix k row' b assume a: "dget (st_sql_artifacts s') k = Some row'" "sa_sql_bytes row' = Some b"
  then obtain row where "dget (st_sql_artifacts s) k = Some row"
      "row' = row\<lparr>sa_expires_at := sa_expires_at row'\<rparr>"
    using extend_selected_sql_effect [OF assms(1)] by blast
  moreover from sql_rows_eq [OF this(2)] a(2) have "sa_sql_bytes row = Some b"
      "sa_sql_hash row' = sa_sql_hash row" by simp_all
  ultimately show "sa_sql_hash row' = env_sha256 E b"
    using assms(2) by (simp add: sql_inv_def)
qed

lemma load_sql_effect:
  assumes "load_sql_for_execution s g ref h now = (s', out)"
  shows "s' = s \<and> \<not> is_ok out
    \<or> (\<exists>r row b. dget (st_tasks s) (tg_task_id g) = Some r \<and> grant_is_current r g now {RUNNING} = None
        \<and> dget (st_sql_artifacts s) ref = Some row \<and> sa_sql_hash row = h \<and> sa_sql_bytes row = Some b
        \<and> sa_requester row = tr_actor r \<and> sa_tenant_id row = tr_tenant_id r
        \<and> sa_environment_id row = tr_environment_id r \<and> now < sa_expires_at row
        \<and> out = Inr (row\<lparr>sa_expires_at := extended_sql_expiry (sa_expires_at row) now\<rparr>)
        \<and> s' = s\<lparr>st_sql_artifacts := dset ref
            (row\<lparr>sa_expires_at := extended_sql_expiry (sa_expires_at row) now\<rparr>) (st_sql_artifacts s)\<rparr>)"
proof (cases "dget (st_tasks s) (tg_task_id g)")
  case (Some r)
  note r = this
  show ?thesis
  proof (cases "grant_is_current r g now {RUNNING}")
    case None
    let ?row = "dget (st_sql_artifacts s) ref"
    let ?d = "classify_sql_artifact_read ?row now (tr_actor r) (tr_tenant_id r) (tr_environment_id r) h"
    show ?thesis
    proof (cases "?d = SR_AVAILABLE")
      case True
      then obtain row b where row: "?row = Some row" "sa_requester row = tr_actor r"
          "sa_tenant_id row = tr_tenant_id r" "sa_environment_id row = tr_environment_id r"
          "sa_sql_hash row = h" "sa_sql_bytes row = Some b" "now < sa_expires_at row"
        by (auto simp: classify_sql_artifact_read_AVAILABLE)
      then show ?thesis
        using assms r None True
        by (simp add: load_sql_for_execution_def require_task_def require_current_sql_grant_def
            raise_for_sql_artifact_read_def Let_def)
    next
      case False
      then show ?thesis
        using assms r None
        by (cases ?row) (auto simp: load_sql_for_execution_def require_task_def Let_def
            require_current_sql_grant_def raise_for_sql_artifact_read_def split: if_splits)
    qed
  qed (use assms r in \<open>auto simp: load_sql_for_execution_def require_task_def
        require_current_sql_grant_def\<close>)
qed (use assms in \<open>auto simp: load_sql_for_execution_def require_task_def\<close>)

lemma submit_sql_query_effect:
  assumes E: "py_env_ok E"
    and c: "submit_sql_query E s c now ref u = (s', out)" "dget (st_tasks s) u = None"
  shows "s' = s \<or> (\<exists>s1 row. s1 = s\<lparr>st_sql_artifacts := dset ref row (st_sql_artifacts s)\<rparr>
     \<and> sa_sql_bytes row = Some (sq_sql_bytes c) \<and> sa_sql_hash row = env_sha256 E (sq_sql_bytes c)
     \<and> (s' = s1 \<or> (\<exists>r a. out = Inr \<lparr>sqr_outcome = SQL_CREATED, sqr_task = Some r\<rparr>
          \<and> task_inserted E s1 s' r (ArtifactSubmission a) \<and> tr_task_id r = u \<and> frame_rest s1 s'
          \<and> st_sql_artifacts s' = st_sql_artifacts s1)))"
proof -
  obtain d where d: "sql_request_dedup_digest E (sq_context c) (sq_sql_hash E c) (sq_idempotency_key c)
      = Inr d"
    using sql_request_dedup_digest_total [OF E] by blast
  show ?thesis
  proof (cases "dget (st_task_ids_by_key s) (sql_scope c)")
    case None
    let ?row = "\<lparr>sa_sql_ref = ref, sa_sql_hash = sq_sql_hash E c, sa_sql_bytes = Some (sq_sql_bytes c),
        sa_requester = rc_actor (sq_context c), sa_tenant_id = rc_tenant_id (sq_context c),
        sa_environment_id = rc_environment_id (sq_context c), sa_created_at = now,
        sa_expires_at = now + SQL_ARTIFACT_TTL, sa_purged_at = None\<rparr>"
    let ?s1 = "s\<lparr>st_sql_artifacts := dset ref ?row (st_sql_artifacts s)\<rparr>"
    let ?a = "\<lparr>as_context = sq_context c, as_as_of = sq_as_of c, as_sql_ref = ref,
        as_sql_hash = sq_sql_hash E c\<rparr>"
    obtain s2 o2 where ins: "insert_task_locked E ?s1 (ArtifactSubmission ?a) d (sq_idempotency_key c)
        (sql_scope c) u = (s2, o2)" by fastforce
    have eff: "(s2 = ?s1 \<and> o2 = Inl StoreValidationError) \<or> (\<exists>r. o2 = Inr r
        \<and> task_inserted E ?s1 s2 r (ArtifactSubmission ?a) \<and> tr_task_id r = u \<and> frame_rest ?s1 s2
        \<and> st_sql_artifacts s2 = st_sql_artifacts ?s1)"
      using insert_task_effect [OF E ins] c(2) None d by (auto simp: sql_scope_def)
    have "s' = ?s1 \<or> (s' = s2 \<and> (\<forall>r. o2 = Inr r \<longrightarrow>
        out = Inr \<lparr>sqr_outcome = SQL_CREATED, sqr_task = Some r\<rparr>))"
      using c(1) None d ins
      by (auto simp: submit_sql_query_def Let_def classify_sql_submit_def revalidate_def
          sql_query_submit_result_ok_def split: if_splits sum.splits)
    moreover have "sa_sql_bytes ?row = Some (sq_sql_bytes c)"
        "sa_sql_hash ?row = env_sha256 E (sq_sql_bytes c)" by (simp_all add: sq_sql_hash_def)
    ultimately show ?thesis using eff by blast
  next
    case (Some k)
    then have "s' = s"
      using c(1) d
      by (auto simp: submit_sql_query_def Let_def classify_sql_submit_def split: option.splits if_splits)
    then show ?thesis by simp
  qed
qed

subsection \<open>The step journal\<close>

definition steps_inv :: "store_state \<Rightarrow> bool" where
  "steps_inv s \<longleftrightarrow> dict_ok (st_step_executions s)
     \<and> (\<forall>k x. dget (st_step_executions s) k = Some x \<longrightarrow> k = (se_task_id x, se_step_id x)
          \<and> step_execution_record_ok x \<and> se_last_fencing_token x < st_next_fencing_token s)"

definition budget_inv :: "store_state \<Rightarrow> bool" where
  "budget_inv s \<longleftrightarrow> (\<forall>t. attempts_used s t = 0
     \<or> (\<exists>p. dget (st_plans s) t = Some p \<and> attempts_used s t \<le> pb_max_tool_calls (ep_budget (sp_plan p))))"

lemma sum_dset:
  "dict_ok d \<Longrightarrow> sum_list (map (\<lambda>p. f (snd p)) (filter (\<lambda>p. P (fst p)) (dset k v d))) =
     sum_list (map (\<lambda>p. f (snd p)) (filter (\<lambda>p. P (fst p)) d))
       + (if P k then f v - (case dget d k of None \<Rightarrow> 0 | Some w \<Rightarrow> f w) else (0 :: int))"
proof (induction d)
  case (Cons p d)
  obtain j w where p: "p = (j, w)" by fastforce
  show ?case
  proof (cases "j = k")
    case False
    with Cons p show ?thesis by (auto simp: dict_ok_def split: option.splits)
  qed (use p in auto)
qed simp

lemma attempts_used_dset:
  assumes "dict_ok (st_step_executions s)" "st_step_executions s' = dset (t, i) x (st_step_executions s)"
  shows "attempts_used s' u = attempts_used s u + (if u = t then se_attempt_count x
     - (case dget (st_step_executions s) (t, i) of None \<Rightarrow> 0 | Some y \<Rightarrow> se_attempt_count y) else 0)"
  using sum_dset [OF assms(1), of se_attempt_count "\<lambda>k. fst k = u" "(t, i)" x] assms(2)
  by (simp add: attempts_used_def)

lemma step_attempt_answer_state [simp]: "fst (step_attempt_answer s d r x n) = s"
  by (simp add: step_attempt_answer_def)

lemma step_commit_answer_state [simp]: "fst (step_commit_answer s b r x j) = s"
  by (simp add: step_commit_answer_def)

lemma fst_eq: "(a, b) = p \<Longrightarrow> a = fst p"
  by (cases p) simp

text \<open>What a journaled attempt is: one more reserved call, or the same row again.\<close>

definition step_reserved ::
  "store_state \<Rightarrow> store_state \<Rightarrow> step_attempt_command \<Rightarrow> task_record \<Rightarrow> step_execution_record \<Rightarrow> bool" where
  "step_reserved s s' c r x \<longleftrightarrow>
     (\<exists>p. dget (st_plans s) (tr_task_id r) = Some p
        \<and> sac_step_id c \<in> set (map ps_step_id (ep_steps (sp_plan p)))
        \<and> (case dget (st_step_executions s) (tr_task_id r, sac_step_id c) of
             None \<Rightarrow> se_attempt_count x = 1 \<and> attempts_used s (tr_task_id r) < pb_max_tool_calls (ep_budget (sp_plan p))
           | Some y \<Rightarrow> se_result_status y = None \<and>
               (if se_last_fencing_token y = tg_fencing_token (sac_grant c) then x = y
                else se_attempt_count x = se_attempt_count y + 1
                  \<and> attempts_used s (tr_task_id r) < pb_max_tool_calls (ep_budget (sp_plan p)))))
     \<and> se_task_id x = tr_task_id r \<and> se_step_id x = sac_step_id c \<and> se_result_status x = None
     \<and> se_last_fencing_token x = tg_fencing_token (sac_grant c) \<and> step_execution_record_ok x
     \<and> s' = s\<lparr>st_step_executions := dset (tr_task_id r, sac_step_id c) x (st_step_executions s)\<rparr>"

lemma begin_step_attempt_effect:
  assumes "begin_step_attempt s c now now' = (s', out)" "steps_inv s"
  shows "s' = s \<or> (\<exists>r x. dget (st_tasks s) (tg_task_id (sac_grant c)) = Some r
     \<and> grant_is_current r (sac_grant c) now {RUNNING} = None \<and> step_reserved s s' c r x)"
proof (cases "dget (st_tasks s) (tg_task_id (sac_grant c))")
  case (Some r)
  let ?ex = "dget (st_step_executions s) (tr_task_id r, sac_step_id c)"
  let ?used = "attempts_used s (tr_task_id r)"
  have s': "s' = fst (begin_step_attempt s c now now')" using assms(1) by simp
  let ?quiet = "grant_is_current r (sac_grant c) now {RUNNING} \<noteq> None
      \<or> (\<exists>y. ?ex = Some y \<and> se_result_status y \<noteq> None) \<or> dget (st_plans s) (tr_task_id r) = None"
  show ?thesis
  proof (cases ?quiet)
    case True
    have "fst (begin_step_attempt s c now now') = s"
    proof (cases "grant_is_current r (sac_grant c) now {RUNNING}")
      case None
      then show ?thesis
        using True Some by (cases ?ex; cases "dget (st_plans s) (tr_task_id r)")
          (auto simp: begin_step_attempt_def require_task_def Let_def)
    qed (use Some in \<open>simp add: begin_step_attempt_def require_task_def Let_def\<close>)
    then show ?thesis using s' by simp
  next
    case False
    then obtain p where live: "grant_is_current r (sac_grant c) now {RUNNING} = None"
        "\<forall>y. ?ex = Some y \<longrightarrow> se_result_status y = None" "dget (st_plans s) (tr_task_id r) = Some p"
      by blast
    show ?thesis
    proof (cases "sac_step_id c \<in> set (map ps_step_id (ep_steps (sp_plan p)))")
      case False
      then show ?thesis
        using s' Some live by (auto simp: begin_step_attempt_def require_task_def Let_def split: option.splits)
    next
      case True
      show ?thesis
      proof (cases ?ex)
        case None
        let ?x = "\<lparr>se_task_id = tr_task_id r, se_step_id = sac_step_id c, se_attempt_count = 1,
            se_last_fencing_token = tg_fencing_token (sac_grant c), se_result_status = None,
            se_kind = None, se_evidence_id = None, se_commit_digest = None, se_started_at = now',
            se_committed_at = None\<rparr>"
        have "s' = s \<or> step_reserved s s' c r ?x"
          using s' Some live True None checked_cases [of step_execution_record_ok ?x]
          by (auto simp: begin_step_attempt_def require_task_def Let_def step_reserved_def)
        then show ?thesis using Some live(1) by blast
      next
        case (Some y)
        note y = this
        have yk: "se_task_id y = tr_task_id r" "se_step_id y = sac_step_id c"
            "step_execution_record_ok y" "se_result_status y = None"
          using assms(2) y live(2) by (auto simp: steps_inv_def)
        show ?thesis
        proof (cases "se_last_fencing_token y = tg_fencing_token (sac_grant c)")
          case True
          have "step_reserved s s' c r y"
            using s' \<open>dget (st_tasks s) (tg_task_id (sac_grant c)) = Some r\<close> live y yk True
              \<open>sac_step_id c \<in> set (map ps_step_id (ep_steps (sp_plan p)))\<close>
            by (simp add: begin_step_attempt_def require_task_def Let_def step_reserved_def)
          then show ?thesis
            using \<open>dget (st_tasks s) (tg_task_id (sac_grant c)) = Some r\<close> live(1) by blast
        next
          case False
          let ?x = "y\<lparr>se_attempt_count := se_attempt_count y + 1,
              se_last_fencing_token := tg_fencing_token (sac_grant c), se_started_at := now'\<rparr>"
          have "s' = s \<or> step_reserved s s' c r ?x"
            using s' \<open>dget (st_tasks s) (tg_task_id (sac_grant c)) = Some r\<close> live y yk False
              \<open>sac_step_id c \<in> set (map ps_step_id (ep_steps (sp_plan p)))\<close>
              checked_cases [of step_execution_record_ok ?x]
            by (auto simp: begin_step_attempt_def require_task_def Let_def step_reserved_def)
          then show ?thesis
            using \<open>dget (st_tasks s) (tg_task_id (sac_grant c)) = Some r\<close> live(1) by blast
        qed
      qed
    qed
  qed
qed (use assms in \<open>auto simp: begin_step_attempt_def require_task_def\<close>)

text \<open>What a committed step is: the row in flight under the current token becomes terminal.\<close>

definition step_committed ::
  "py_env \<Rightarrow> store_state \<Rightarrow> store_state \<Rightarrow> step_commit_command \<Rightarrow> task_record
     \<Rightarrow> step_execution_record \<Rightarrow> step_execution_record \<Rightarrow> bool" where
  "step_committed E s s' c r y x \<longleftrightarrow>
     dget (st_step_executions s) (tr_task_id r, sc_step_id c) = Some y
     \<and> se_result_status y = None \<and> se_last_fencing_token y = tg_fencing_token (sc_grant c)
     \<and> se_task_id x = se_task_id y \<and> se_step_id x = se_step_id y
     \<and> se_attempt_count x = se_attempt_count y \<and> se_last_fencing_token x = se_last_fencing_token y
     \<and> se_result_status x = Some (sc_status c) \<and> se_kind x = Some (sc_kind c)
     \<and> (\<exists>d. step_commit_digest E c = Inr d \<and> se_commit_digest x = Some d)
     \<and> step_execution_record_ok x
     \<and> st_step_executions s' = dset (tr_task_id r, sc_step_id c) x (st_step_executions s)
     \<and> st_audit_events s' = append_events (st_audit_events s) (tr_task_id r) (sc_audit_events c)
     \<and> opt_all (\<lambda>e. evidence_at s' (tr_task_id r, ee_evidence_id e) = Some e) (sc_evidence c)"

definition frame_commit :: "store_state \<Rightarrow> store_state \<Rightarrow> bool" where
  "frame_commit s s' \<longleftrightarrow> quiet s s' \<and> st_plans s' = st_plans s
     \<and> st_sql_artifacts s' = st_sql_artifacts s
     \<and> (\<forall>k e. evidence_at s k = Some e \<longrightarrow> (\<exists>e'. evidence_at s' k = Some e' \<and> (e' = e \<or> evidence_eq e e')))"

text \<open>All the guards before the first write.\<close>

definition commit_ready ::
  "py_env \<Rightarrow> store_state \<Rightarrow> step_commit_command \<Rightarrow> instant \<Rightarrow> string \<Rightarrow> task_record
     \<Rightarrow> step_execution_record \<Rightarrow> stored_plan \<Rightarrow> bool" where
  "commit_ready E s c now d r y p \<longleftrightarrow> step_commit_digest E c = Inr d
      \<and> dget (st_tasks s) (tg_task_id (sc_grant c)) = Some r
      \<and> grant_is_current r (sc_grant c) now {RUNNING} = None
      \<and> dget (st_step_executions s) (tr_task_id r, sc_step_id c) = Some y
      \<and> se_last_fencing_token y = tg_fencing_token (sc_grant c) \<and> se_result_status y = None
      \<and> dget (st_plans s) (tr_task_id r) = Some p
      \<and> opt_all (\<lambda>e. ee_capability_id e = ep_capability_id (sp_plan p)
           \<and> ee_capability_version e = ep_capability_version (sp_plan p)) (sc_evidence c)"

lemma commit_not_ready:
  assumes "\<nexists>d r y p. commit_ready E s c now d r y p"
  shows "fst (commit_step_result E s c now now') = s"
proof (cases "step_commit_digest E c")
  case d: (Inr d)
  show ?thesis
  proof (cases "dget (st_tasks s) (tg_task_id (sc_grant c))")
    case r: (Some r)
    show ?thesis
    proof (cases "grant_is_current r (sc_grant c) now {RUNNING}")
      case None
      note base = d r None
      show ?thesis
      proof (cases "dget (st_step_executions s) (tr_task_id r, sc_step_id c)")
        case y: (Some y)
        show ?thesis
        proof (cases "se_last_fencing_token y = tg_fencing_token (sc_grant c) \<and> se_result_status y = None")
          case True
          with assms base y show ?thesis
            by (cases "dget (st_plans s) (tr_task_id r)")
              (auto simp: commit_ready_def commit_step_result_def require_task_def Let_def)
        next
          case False
          with base y show ?thesis
            by (auto simp: commit_step_result_def require_task_def Let_def)
        qed
      qed (use base in \<open>simp add: commit_step_result_def require_task_def Let_def\<close>)
    qed (use d r in \<open>simp add: commit_step_result_def require_task_def Let_def\<close>)
  qed (use d in \<open>simp add: commit_step_result_def require_task_def\<close>)
qed (simp add: commit_step_result_def)

lemma commit_step_result_effect:
  assumes "commit_step_result E s c now now' = (s', out)"
  shows "frame_commit s s' \<and> (st_step_executions s' = st_step_executions s
      \<and> (\<forall>k. evidence_at s' k = evidence_at s k) \<and> st_audit_events s' = st_audit_events s
    \<or> (\<exists>r y x. dget (st_tasks s) (tg_task_id (sc_grant c)) = Some r
         \<and> grant_is_current r (sc_grant c) now {RUNNING} = None \<and> step_committed E s s' c r y x
         \<and> out = Inr \<lparr>scr_committed = True, scr_winner = r, scr_record = Some x, scr_rejection = None\<rparr>))"
proof -
  have same: "frame_commit s s \<and> (st_step_executions s = st_step_executions s
      \<and> (\<forall>k. evidence_at s k = evidence_at s k) \<and> st_audit_events s = st_audit_events s)"
    by (simp add: frame_commit_def)
  have s': "s' = fst (commit_step_result E s c now now')" using assms by simp
  show ?thesis
  proof (cases "\<exists>d r y p. commit_ready E s c now d r y p")
    case False
    then show ?thesis using same s' commit_not_ready by metis
  next
    case True
    then obtain d r y p where P: "step_commit_digest E c = Inr d"
      "dget (st_tasks s) (tg_task_id (sc_grant c)) = Some r"
      "grant_is_current r (sc_grant c) now {RUNNING} = None"
      "dget (st_step_executions s) (tr_task_id r, sc_step_id c) = Some y"
      "se_last_fencing_token y = tg_fencing_token (sc_grant c)" "se_result_status y = None"
      "dget (st_plans s) (tr_task_id r) = Some p"
      "opt_all (\<lambda>e. ee_capability_id e = ep_capability_id (sp_plan p)
           \<and> ee_capability_version e = ep_capability_version (sp_plan p)) (sc_evidence c)"
      by (auto simp: commit_ready_def)
    define t where "t = tr_task_id r"
    define s1 where "s1 = (if sc_evidence c = None then s
        else s\<lparr>st_evidence := dset t (evidence_bucket s t) (st_evidence s)\<rparr>)"
    define x where "x = \<lparr>se_task_id = se_task_id y, se_step_id = se_step_id y,
        se_attempt_count = se_attempt_count y, se_last_fencing_token = se_last_fencing_token y,
        se_result_status = Some (sc_status c), se_kind = Some (sc_kind c),
        se_evidence_id = map_option ee_evidence_id (sc_evidence c),
        se_commit_digest = Some d, se_started_at = se_started_at y, se_committed_at = Some now'\<rparr>"
    define s2 where "s2 = (put_evidence s1 t (sc_evidence c))
        \<lparr>st_audit_events := append_events (st_audit_events s1) t (sc_audit_events c),
         st_step_executions := dset (t, sc_step_id c) x (st_step_executions s1)\<rparr>"
    have b1: "evidence_bucket s1 u = evidence_bucket s u" for u
      by (simp add: s1_def evidence_bucket_touch)
    have s1_frame: "quiet s s1" "st_plans s1 = st_plans s" "st_sql_artifacts s1 = st_sql_artifacts s"
        "st_step_executions s1 = st_step_executions s" "st_audit_events s1 = st_audit_events s"
      by (simp_all add: s1_def quiet_def)
    have out: "commit_step_result E s c now now' =
        (if \<not> opt_all (\<lambda>e. opt_all (\<lambda>previous. evidence_eq previous e)
              (dget (evidence_bucket s1 t) (ee_evidence_id e))) (sc_evidence c)
         then (s1, Inl StoreValueError)
         else case checked (revalidate step_execution_record_ok x) of
             Inl e \<Rightarrow> (s1, Inl e)
           | Inr committed \<Rightarrow> step_commit_answer s2 True r (Some committed) None)"
      using P(2-8) unfolding commit_step_result_def P(1) s1_def s2_def t_def x_def
      by (simp add: require_task_def Let_def checked_Inr revalidate_def)
    have e1: "frame_commit s s1 \<and> st_step_executions s1 = st_step_executions s
        \<and> (\<forall>k. evidence_at s1 k = evidence_at s k) \<and> st_audit_events s1 = st_audit_events s"
      using s1_frame b1 by (simp add: frame_commit_def evidence_at_def)
    show ?thesis
    proof (cases "opt_all (\<lambda>e. opt_all (\<lambda>previous. evidence_eq previous e)
              (dget (evidence_bucket s1 t) (ee_evidence_id e))) (sc_evidence c)
        \<and> step_execution_record_ok x")
      case False
      then have "s' = s1" using s' out by (auto simp: revalidate_def)
      then show ?thesis using e1 by blast
    next
      case True
      then have res: "s' = s2" "out = snd (step_commit_answer s2 True r (Some x) None)"
        using assms out by (simp_all add: revalidate_def step_commit_answer_def)
      have ev: "evidence_at s2 k = (case sc_evidence c of None \<Rightarrow> evidence_at s k
          | Some e \<Rightarrow> if k = (t, ee_evidence_id e) then Some e else evidence_at s k)" for k
        using b1 by (cases k; cases "sc_evidence c")
          (auto simp: s2_def evidence_at_def evidence_bucket_def put_evidence_def)
      have fr: "frame_commit s s2"
        using s1_frame True b1 ev
        by (cases "sc_evidence c")
          (auto simp: frame_commit_def quiet_def s2_def put_evidence_def evidence_at_def)
      have "step_committed E s s2 c r y x"
        using P True ev s1_frame
        by (cases "sc_evidence c")
          (auto simp: step_committed_def x_def s2_def t_def put_evidence_def)
      then show ?thesis
        using P(2,3) res fr by (auto simp: step_commit_answer_def step_commit_result_ok_def)
    qed
  qed
qed

end
