(* ===== verification/Fencing.thy ===== *)
theory Fencing
  imports Main
begin

text \<open>
  The two concurrency contracts the stores promise their workers, stated once. \<open>fenced_store\<close>:
  every claim carries a token from one growing counter, so a token that was superseded or given up
  is never current again; \<open>leased_store\<close> adds that a claim is only ever replaced, so that tokens
  grow. \<open>versioned_store\<close>: a compare-and-set on a version that every applied command advances, so
  of two commands that expect the same version at most one is applied. The task store is a
  \<open>leased_store\<close> and a \<open>versioned_store\<close>, the channel store a \<open>fenced_store\<close>.
\<close>

locale fenced_store =
  fixes step :: "'s \<Rightarrow> 's \<Rightarrow> bool"
    and inv :: "'s \<Rightarrow> bool"
    and token :: "'s \<Rightarrow> 'k \<Rightarrow> int option"
    and counter :: "'s \<Rightarrow> int"
  assumes inv_step: "inv s \<Longrightarrow> step s s' \<Longrightarrow> inv s'"
    and token_below: "inv s \<Longrightarrow> token s k = Some t \<Longrightarrow> t < counter s"
    and counter_mono: "inv s \<Longrightarrow> step s s' \<Longrightarrow> counter s \<le> counter s'"
    and token_fresh: "inv s \<Longrightarrow> step s s' \<Longrightarrow> token s' k = Some t \<Longrightarrow>
      token s k = Some t \<or> counter s \<le> t"
begin

lemma inv_steps: "step\<^sup>*\<^sup>* s s' \<Longrightarrow> inv s \<Longrightarrow> inv s'"
  by (induction rule: rtranclp_induct) (auto intro: inv_step)

lemma counter_steps: "step\<^sup>*\<^sup>* s s' \<Longrightarrow> inv s \<Longrightarrow> counter s \<le> counter s'"
proof (induction rule: rtranclp_induct)
  case (step s1 s2)
  then show ?case using counter_mono inv_steps by fastforce
qed simp

lemma old_token_gone:
  assumes "step\<^sup>*\<^sup>* s s'" "inv s" "t < counter s" "token s k \<noteq> Some t"
  shows "token s' k \<noteq> Some t"
  using assms
proof (induction rule: rtranclp_induct)
  case (step s1 s2)
  have "inv s1" "t < counter s1"
    using step counter_steps [of s s1] inv_steps [of s s1] by auto
  with step token_fresh [of s1 s2 k t] show ?case by auto
qed simp

lemma superseded_forever:
  assumes "step\<^sup>*\<^sup>* s s'" "step\<^sup>*\<^sup>* s' s''" "inv s" "token s k = Some t" "token s' k \<noteq> Some t"
  shows "token s'' k \<noteq> Some t"
proof (rule old_token_gone [OF assms(2)])
  show "inv s'" using inv_steps assms(1,3) by blast
  show "t < counter s'" using counter_steps [OF assms(1,3)] token_below [OF assms(3,4)] by simp
  show "token s' k \<noteq> Some t" by (rule assms(5))
qed

end

locale leased_store = fenced_store step inv token counter
  for step :: "'s \<Rightarrow> 's \<Rightarrow> bool" and inv :: "'s \<Rightarrow> bool"
    and token :: "'s \<Rightarrow> 'k \<Rightarrow> int option" and counter :: "'s \<Rightarrow> int" +
  assumes token_kept: "inv s \<Longrightarrow> step s s' \<Longrightarrow> token s k \<noteq> None \<Longrightarrow> token s' k \<noteq> None"
begin

lemma token_mono:
  assumes "step\<^sup>*\<^sup>* s s'" "inv s" "token s k = Some t"
  shows "\<exists>t'. token s' k = Some t' \<and> t \<le> t'"
  using assms
proof (induction rule: rtranclp_induct)
  case (step s1 s2)
  then obtain t1 where t1: "token s1 k = Some t1" "t \<le> t1" by blast
  have i: "inv s1" using step inv_steps by blast
  obtain t2 where t2: "token s2 k = Some t2"
    using token_kept [OF i \<open>step s1 s2\<close>] t1(1) by fastforce
  from token_fresh [OF i \<open>step s1 s2\<close> t2] token_below [OF i t1(1)] t1 t2 show ?case by auto
qed simp

end

locale versioned_store =
  fixes step :: "'s \<Rightarrow> 's \<Rightarrow> bool"
    and inv :: "'s \<Rightarrow> bool"
    and version :: "'s \<Rightarrow> 'k \<Rightarrow> int option"
    and cas :: "'s \<Rightarrow> 'c \<Rightarrow> 's \<times> bool"
    and key :: "'c \<Rightarrow> 'k"
    and expected :: "'c \<Rightarrow> int"
  assumes inv_step: "inv s \<Longrightarrow> step s s' \<Longrightarrow> inv s'"
    and version_mono: "inv s \<Longrightarrow> step s s' \<Longrightarrow> version s k = Some v \<Longrightarrow>
      \<exists>v'. version s' k = Some v' \<and> v \<le> v'"
    and cas_applied: "inv s \<Longrightarrow> cas s c = (s', True) \<Longrightarrow>
      version s (key c) = Some (expected c) \<and> version s' (key c) = Some (expected c + 1) \<and> inv s'"
begin

lemma inv_steps: "step\<^sup>*\<^sup>* s s' \<Longrightarrow> inv s \<Longrightarrow> inv s'"
  by (induction rule: rtranclp_induct) (auto intro: inv_step)

lemma versions_mono:
  assumes "step\<^sup>*\<^sup>* s s'" "inv s" "version s k = Some v"
  shows "\<exists>v'. version s' k = Some v' \<and> v \<le> v'"
  using assms
proof (induction rule: rtranclp_induct)
  case (step s1 s2)
  then obtain v1 where "version s1 k = Some v1" "v \<le> v1" by blast
  with step version_mono [of s1 s2 k v1] inv_steps [of s s1] show ?case by force
qed simp

lemma at_most_one:
  assumes "inv s" "cas s c = (s1, True)" "step\<^sup>*\<^sup>* s1 s2" "key d = key c" "expected d = expected c"
  shows "\<not> snd (cas s2 d)"
proof
  assume a: "snd (cas s2 d)"
  have c: "version s1 (key c) = Some (expected c + 1)" "inv s1"
    using cas_applied [OF assms(1,2)] by auto
  obtain v where v: "version s2 (key c) = Some v" "expected c + 1 \<le> v"
    using versions_mono [OF assms(3) c(2,1)] by blast
  have "version s2 (key d) = Some (expected d)"
    using a cas_applied [of s2 d] inv_steps [OF assms(3) c(2)] by (cases "cas s2 d") auto
  with v assms(4,5) show False by simp
qed

end

end
