(* ===== verification/Task_Runs.thy ===== *)
theory Task_Runs
  imports Task_Invariants2 Fencing
begin

text \<open>
  Runs of the task store: any interleaving of the store's operations, by any number of workers
  and with any clock readings. \<open>store_op\<close> lists the operations, \<open>run_op\<close> runs one, \<open>store_step\<close>
  is the step relation. The store invariant holds along every run, each task follows the
  life cycle \<open>life_step\<close>, and the locales of \<open>Fencing\<close> are interpreted on it.
\<close>

subsection \<open>The journal's invariants\<close>

lemma step_reserved_steps_inv:
  assumes "step_reserved s s' c r x" "steps_inv s" "tg_fencing_token (sac_grant c) < st_next_fencing_token s"
  shows "steps_inv s'"
  using assms by (auto simp: step_reserved_def steps_inv_def)

lemma step_reserved_used:
  assumes "step_reserved s s' c r x" "steps_inv s"
  shows "\<exists>p. dget (st_plans s) (tr_task_id r) = Some p \<and> attempts_used s' u =
     attempts_used s u + (if u = tr_task_id r \<and> attempts_used s' u \<noteq> attempts_used s u then 1 else 0)
     \<and> (attempts_used s' u \<noteq> attempts_used s u \<longrightarrow> u = tr_task_id r
          \<and> attempts_used s u < pb_max_tool_calls (ep_budget (sp_plan p)))"
proof -
  have st: "st_step_executions s' = dset (tr_task_id r, sac_step_id c) x (st_step_executions s)"
    and d: "dict_ok (st_step_executions s)"
    using assms by (simp_all add: step_reserved_def steps_inv_def)
  show ?thesis
    using assms(1) attempts_used_dset [OF d st, of u]
    by (auto simp: step_reserved_def split: option.splits if_splits)
qed

lemma step_reserved_budget_inv:
  assumes "step_reserved s s' c r x" "steps_inv s" "budget_inv s"
  shows "budget_inv s'"
  unfolding budget_inv_def
proof
  fix u
  obtain p where p: "dget (st_plans s) (tr_task_id r) = Some p"
    "attempts_used s' u = attempts_used s u +
       (if u = tr_task_id r \<and> attempts_used s' u \<noteq> attempts_used s u then 1 else 0)"
    "attempts_used s' u \<noteq> attempts_used s u \<longrightarrow> u = tr_task_id r
       \<and> attempts_used s u < pb_max_tool_calls (ep_budget (sp_plan p))"
    using step_reserved_used [OF assms(1,2)] by blast
  moreover have "st_plans s' = st_plans s" using assms(1) by (simp add: step_reserved_def)
  ultimately show "attempts_used s' u = 0 \<or> (\<exists>p. dget (st_plans s') u = Some p
      \<and> attempts_used s' u \<le> pb_max_tool_calls (ep_budget (sp_plan p)))"
    using assms(3) [unfolded budget_inv_def, rule_format, of u]
    by (cases "attempts_used s' u = attempts_used s u") auto
qed

lemma step_committed_steps_inv:
  assumes "step_committed E s s' c r y x" "steps_inv s"
    "st_next_fencing_token s' = st_next_fencing_token s"
  shows "steps_inv s'"
proof -
  have "dget (st_step_executions s) (tr_task_id r, sc_step_id c) = Some y"
    using assms(1) by (simp add: step_committed_def)
  then have "(tr_task_id r, sc_step_id c) = (se_task_id y, se_step_id y)
      \<and> se_last_fencing_token y < st_next_fencing_token s"
    using assms(2) unfolding steps_inv_def by blast
  with assms show ?thesis by (auto simp: step_committed_def steps_inv_def)
qed

lemma step_committed_used:
  assumes "step_committed E s s' c r y x" "steps_inv s"
  shows "attempts_used s' u = attempts_used s u"
proof -
  have st: "st_step_executions s' = dset (tr_task_id r, sc_step_id c) x (st_step_executions s)"
    and d: "dict_ok (st_step_executions s)"
    using assms by (simp_all add: step_committed_def steps_inv_def)
  show ?thesis
    using assms(1) attempts_used_dset [OF d st, of u] by (simp add: step_committed_def)
qed

lemma frame_steps_inv:
  "st_step_executions s' = st_step_executions s \<Longrightarrow> st_next_fencing_token s \<le> st_next_fencing_token s' \<Longrightarrow>
     steps_inv s \<Longrightarrow> steps_inv s'"
  unfolding steps_inv_def by fastforce

lemma frame_budget_inv:
  "st_step_executions s' = st_step_executions s \<Longrightarrow> st_plans s' = st_plans s \<Longrightarrow>
     budget_inv s \<Longrightarrow> budget_inv s'"
  by (simp add: budget_inv_def attempts_used_def)

subsection \<open>The store invariant\<close>

definition store_inv :: "py_env \<Rightarrow> store_state \<Rightarrow> bool" where
  "store_inv E s \<longleftrightarrow> tasks_inv E s \<and> seqs_inv s \<and> keys_inv s \<and> sql_inv E s \<and> steps_inv s
     \<and> budget_inv s \<and> plans_wf s"

lemma store_inv_update:
  assumes "store_inv E s" "task_update s s' k r r'"
  shows "store_inv E s'"
proof -
  have "st_next_fencing_token s \<le> st_next_fencing_token s'" "st_step_executions s' = st_step_executions s"
    "st_plans s' = st_plans s" "st_sql_artifacts s' = st_sql_artifacts s"
    using assms(2) by (simp_all add: task_update_def)
  then show ?thesis
    using assms task_update_tasks_inv task_update_seqs_inv task_update_keys_inv
      frame_steps_inv frame_budget_inv
    unfolding store_inv_def sql_inv_def plans_wf_def by metis
qed

lemma store_inv_insert:
  assumes "store_inv E s" "task_inserted E s s' r sub" "frame_rest s s'"
    "st_sql_artifacts s' = st_sql_artifacts s"
  shows "store_inv E s'"
proof -
  have "st_next_fencing_token s \<le> st_next_fencing_token s'"
    using assms(2) by (simp add: task_inserted_def)
  then show ?thesis
    using assms task_inserted_tasks_inv task_inserted_seqs_inv task_inserted_keys_inv
      frame_steps_inv frame_budget_inv
    unfolding store_inv_def sql_inv_def plans_wf_def frame_rest_def by metis
qed

lemma store_inv_quiet:
  assumes "store_inv E s" "quiet s s'" "frame_rest s s'" "sql_inv E s'"
  shows "store_inv E s'"
proof -
  have "st_next_fencing_token s \<le> st_next_fencing_token s'"
    using assms(2) by (simp add: quiet_def)
  then show ?thesis
    using assms quiet_tasks_inv quiet_seqs_inv quiet_keys_inv frame_steps_inv frame_budget_inv
    unfolding store_inv_def plans_wf_def frame_rest_def by metis
qed

lemma empty_store_inv: "store_inv E empty_store"
  by (simp add: store_inv_def empty_store_def tasks_inv_def seqs_inv_def keys_inv_def sql_inv_def
      steps_inv_def budget_inv_def plans_wf_def attempts_used_def)

subsection \<open>Operations and steps\<close>

datatype store_op =
    OpCreate conversation_submission string
  | OpChild conversation_submission string instant string
  | OpSubmitSql sql_query_submit_command instant string string
  | OpLoadSql task_attempt_grant string string instant
  | OpTransition transition_command instant
  | OpAcquire string string int instant instant
  | OpRenew string string int int instant instant
  | OpApproval approval_request
  | OpAudit trace_event
  | OpBegin task_attempt_command instant string
  | OpRetry retry_command instant
  | OpBeginStep step_attempt_command instant instant
  | OpCommit step_commit_command instant instant
  | OpSavePlan string stored_plan
  | OpEvidence string evidence_envelope
  | OpClarify task_attempt_grant clarification_record_candidate instant instant

fun run_op :: "py_env \<Rightarrow> int \<Rightarrow> store_state \<Rightarrow> store_op \<Rightarrow> store_state" where
  "run_op E limit s (OpCreate sub u) = fst (create_task E s sub u)"
| "run_op E limit s (OpChild sub owner now u) = fst (create_clarification_child E s sub owner now u)"
| "run_op E limit s (OpSubmitSql c now ref u) = fst (submit_sql_query E s c now ref u)"
| "run_op E limit s (OpLoadSql g ref h now) = fst (load_sql_for_execution s g ref h now)"
| "run_op E limit s (OpTransition c now) = fst (transition s c now)"
| "run_op E limit s (OpAcquire k owner ttl now now') = fst (acquire_lease s k owner ttl now now')"
| "run_op E limit s (OpRenew k owner tok ttl now now') = fst (renew_lease s k owner tok ttl now now')"
| "run_op E limit s (OpApproval a) = fst (record_approval s a)"
| "run_op E limit s (OpAudit e) = fst (record_audit_event s e)"
| "run_op E limit s (OpBegin c now u) = fst (begin_task_attempt E limit s c now u)"
| "run_op E limit s (OpRetry c now) = fst (schedule_retry E s c now)"
| "run_op E limit s (OpBeginStep c now now') = fst (begin_step_attempt s c now now')"
| "run_op E limit s (OpCommit c now now') = fst (commit_step_result E s c now now')"
| "run_op E limit s (OpSavePlan k p) = fst (save_plan s k p)"
| "run_op E limit s (OpEvidence k e) = fst (append_evidence s k e)"
| "run_op E limit s (OpClarify g c now now') = fst (save_clarification s g c now now')"

text \<open>A fresh UUID or SQL reference is one the store has not seen.\<close>

fun op_ok :: "store_state \<Rightarrow> store_op \<Rightarrow> bool" where
  "op_ok s (OpCreate sub u) = (dget (st_tasks s) u = None)"
| "op_ok s (OpChild sub owner now u) = (dget (st_tasks s) u = None)"
| "op_ok s (OpSubmitSql c now ref u) =
     (dget (st_tasks s) u = None \<and> dget (st_sql_artifacts s) ref = None)"
| "op_ok s (OpSavePlan k p) = execution_plan_ok (sp_plan p)"
| "op_ok s (OpEvidence k e) = evidence_envelope_ok e"
| "op_ok s c = True"

inductive store_step :: "py_env \<Rightarrow> int \<Rightarrow> store_state \<Rightarrow> store_state \<Rightarrow> bool"
  for E :: py_env and limit :: int where
  store_stepI: "op_ok s c \<Longrightarrow> store_step E limit s (run_op E limit s c)"

inductive_cases store_stepE: "store_step E limit s s'"

text \<open>
  What a step does to the task facts: nothing, an update of one task along one of the paths of
  the code, or one new task.
\<close>

definition status_kept :: "task_record \<Rightarrow> task_record \<Rightarrow> bool" where
  "status_kept r r' \<longleftrightarrow> tr_status r' = tr_status r \<and> tr_version r' = tr_version r
     \<and> tr_terminal_reason r' = tr_terminal_reason r"

definition token_path :: "store_state \<Rightarrow> task_record \<Rightarrow> task_record \<Rightarrow> bool" where
  "token_path s r r' \<longleftrightarrow> tr_fencing_token r' = tr_fencing_token r
     \<or> tr_fencing_token r' = Some (st_next_fencing_token s)"

definition status_path :: "task_record \<Rightarrow> task_record \<Rightarrow> bool" where
  "status_path r r' \<longleftrightarrow> status_kept r r'
     \<or> (tr_status r \<notin> TERMINAL_STATUSES \<and> tr_version r' = tr_version r + 1
          \<and> (tr_status r' \<in> ALLOWED_TRANSITIONS (tr_status r)
             \<or> tr_status r' = tr_status r \<and> tr_terminal_reason r' = tr_terminal_reason r))"

text \<open>A clarification child enters only while no task continues its parent.\<close>

definition parent_free :: "store_state \<Rightarrow> task_submission \<Rightarrow> bool" where
  "parent_free s sub \<longleftrightarrow> (\<forall>p. is_child_of p sub \<longrightarrow> \<not> clarification_parent_is_consumed s p)"

definition store_effect :: "py_env \<Rightarrow> store_state \<Rightarrow> store_state \<Rightarrow> bool" where
  "store_effect E s s' \<longleftrightarrow> quiet s s'
     \<or> (\<exists>k r r'. task_update s s' k r r' \<and> status_path r r' \<and> token_path s r r')
     \<or> (\<exists>s1 r sub. quiet s s1 \<and> parent_free s sub \<and> task_inserted E s1 s' r sub)"

lemma effect_same [simp]: "store_effect E s s"
  by (simp add: store_effect_def)

lemma effect_quiet: "quiet s s' \<Longrightarrow> store_effect E s s'"
  by (simp add: store_effect_def)

lemma effect_update:
  "task_update s s' k r r' \<Longrightarrow> status_path r r' \<Longrightarrow> token_path s r r' \<Longrightarrow> store_effect E s s'"
  unfolding store_effect_def by blast

lemma effect_insert: "quiet s s1 \<Longrightarrow> parent_free s sub \<Longrightarrow> task_inserted E s1 s' r sub \<Longrightarrow> store_effect E s s'"
  unfolding store_effect_def by blast

text \<open>
  A journal row stays, and a committed one is final; a stored plan is only ever replaced by an equal
  one; an SQL artifact changes only in its expiry. \<open>step_good\<close>: the step keeps the invariant, is one
  of the effects, and keeps the final facts.
\<close>

definition journal_kept :: "store_state \<Rightarrow> store_state \<Rightarrow> bool" where
  "journal_kept s s' \<longleftrightarrow> (\<forall>k x. dget (st_step_executions s) k = Some x \<longrightarrow>
     (\<exists>y. dget (st_step_executions s') k = Some y \<and> (se_result_status x \<noteq> None \<longrightarrow> y = x)))"

definition plans_kept :: "store_state \<Rightarrow> store_state \<Rightarrow> bool" where
  "plans_kept s s' \<longleftrightarrow> (\<forall>k p. dget (st_plans s) k = Some p \<longrightarrow>
     (\<exists>q. dget (st_plans s') k = Some q \<and> (q = p \<or> stored_plan_eq q p)))"

lemma plans_kept_same: "st_plans s' = st_plans s \<Longrightarrow> plans_kept s s'"
  by (simp add: plans_kept_def)

lemma stored_plan_eq_trans:
  "execution_plan_ok (sp_plan a) \<Longrightarrow> execution_plan_ok (sp_plan b) \<Longrightarrow> execution_plan_ok (sp_plan c) \<Longrightarrow>
     stored_plan_eq a b \<Longrightarrow> stored_plan_eq b c \<Longrightarrow> stored_plan_eq a c"
  unfolding stored_plan_eq_def using execution_plan_eq_trans by metis

lemma stored_plan_eq_sym:
  "execution_plan_ok (sp_plan a) \<Longrightarrow> execution_plan_ok (sp_plan b) \<Longrightarrow> stored_plan_eq a b \<Longrightarrow> stored_plan_eq b a"
  unfolding stored_plan_eq_def using execution_plan_eq_sym by metis

lemma plans_kept_trans:
  assumes "plans_kept a b" "plans_kept b c" "plans_wf a" "plans_wf b" "plans_wf c"
  shows "plans_kept a c"
  unfolding plans_kept_def
proof (intro allI impI)
  fix k p assume p: "dget (st_plans a) k = Some p"
  then obtain q where q: "dget (st_plans b) k = Some q" "q = p \<or> stored_plan_eq q p"
    using assms(1) unfolding plans_kept_def by blast
  then obtain r where r: "dget (st_plans c) k = Some r" "r = q \<or> stored_plan_eq r q"
    using assms(2) unfolding plans_kept_def by blast
  have "execution_plan_ok (sp_plan p)" "execution_plan_ok (sp_plan q)" "execution_plan_ok (sp_plan r)"
    using assms(3-5) p q(1) r(1) unfolding plans_wf_def by blast+
  then show "\<exists>q. dget (st_plans c) k = Some q \<and> (q = p \<or> stored_plan_eq q p)"
    using q(2) r stored_plan_eq_trans by blast
qed

lemma sql_extended_trans: "sql_extended a b \<Longrightarrow> sql_extended b c \<Longrightarrow> sql_extended a c"
  unfolding sql_extended_def
proof (intro allI impI)
  fix k row
  assume s: "\<forall>k row. dget (st_sql_artifacts a) k = Some row \<longrightarrow> (\<exists>row'. dget (st_sql_artifacts b) k = Some row'
        \<and> row' = row\<lparr>sa_expires_at := sa_expires_at row'\<rparr> \<and> sa_expires_at row \<le> sa_expires_at row')"
    "\<forall>k row. dget (st_sql_artifacts b) k = Some row \<longrightarrow> (\<exists>row'. dget (st_sql_artifacts c) k = Some row'
        \<and> row' = row\<lparr>sa_expires_at := sa_expires_at row'\<rparr> \<and> sa_expires_at row \<le> sa_expires_at row')"
    "dget (st_sql_artifacts a) k = Some row"
  then obtain r1 where r1: "dget (st_sql_artifacts b) k = Some r1" "r1 = row\<lparr>sa_expires_at := sa_expires_at r1\<rparr>"
    "sa_expires_at row \<le> sa_expires_at r1" by blast
  then obtain r2 where r2: "dget (st_sql_artifacts c) k = Some r2" "r2 = r1\<lparr>sa_expires_at := sa_expires_at r2\<rparr>"
    "sa_expires_at r1 \<le> sa_expires_at r2" using s(2) by blast
  have "r2 = row\<lparr>sa_expires_at := sa_expires_at r2\<rparr>"
    by (subst r2(2), subst r1(2)) simp
  then show "\<exists>row'. dget (st_sql_artifacts c) k = Some row' \<and> row' = row\<lparr>sa_expires_at := sa_expires_at row'\<rparr>
      \<and> sa_expires_at row \<le> sa_expires_at row'"
    using r1(3) r2(1,3) by force
qed

lemma sql_extended_put:
  "dget (st_sql_artifacts s) k = Some row \<Longrightarrow> sa_expires_at row \<le> e \<Longrightarrow>
     st_sql_artifacts s' = dset k (row\<lparr>sa_expires_at := e\<rparr>) (st_sql_artifacts s) \<Longrightarrow> sql_extended s s'"
  by (auto simp: sql_extended_def)

lemma extend_selected_sql_extended:
  assumes "extend_selected_sql s r now = (s', out)"
  shows "sql_extended s s'"
  using assms
  by (auto simp: extend_selected_sql_def raise_for_sql_artifact_read_def Let_def sql_extended_def
      extended_sql_expiry_def split: option.splits prod.splits sum.splits if_splits)

definition step_good :: "py_env \<Rightarrow> store_state \<Rightarrow> store_state \<Rightarrow> bool" where
  "step_good E s s' \<longleftrightarrow> store_inv E s' \<and> store_effect E s s' \<and> journal_kept s s' \<and> plans_kept s s'
     \<and> sql_extended s s'"

lemma journal_kept_trans: "journal_kept a b \<Longrightarrow> journal_kept b c \<Longrightarrow> journal_kept a c"
  unfolding journal_kept_def by metis

lemma journal_kept_same: "st_step_executions s' = st_step_executions s \<Longrightarrow> journal_kept s s'"
  by (simp add: journal_kept_def)

lemma rest_kept: "frame_rest s s' \<Longrightarrow> journal_kept s s'" "frame_rest s s' \<Longrightarrow> plans_kept s s'"
  by (simp_all add: frame_rest_def journal_kept_same plans_kept_same)

lemma good_update:
  "store_inv E s \<Longrightarrow> task_update s s' k r r' \<Longrightarrow> status_path r r' \<Longrightarrow> token_path s r r' \<Longrightarrow> step_good E s s'"
  unfolding step_good_def
  using store_inv_update effect_update rest_kept task_update_frame_rest
    sql_extended_refl [of s' s] by (auto simp: task_update_def)

lemma good_same: "store_inv E s \<Longrightarrow> step_good E s s"
  by (simp add: step_good_def journal_kept_def plans_kept_same sql_extended_refl)

lemma good_quiet:
  "store_inv E s \<Longrightarrow> quiet s s' \<Longrightarrow> frame_rest s s' \<Longrightarrow> sql_inv E s' \<Longrightarrow> sql_extended s s' \<Longrightarrow> step_good E s s'"
  unfolding step_good_def using store_inv_quiet effect_quiet rest_kept by blast

lemma good_insert:
  "store_inv E s \<Longrightarrow> parent_free s sub \<Longrightarrow> task_inserted E s s' r sub \<Longrightarrow> frame_rest s s' \<Longrightarrow>
     st_sql_artifacts s' = st_sql_artifacts s \<Longrightarrow> step_good E s s'"
  unfolding step_good_def
  using store_inv_insert effect_insert [OF quiet_refl] rest_kept sql_extended_refl by blast

lemma good_quiet_insert:
  assumes "store_inv E s" "quiet s s1" "frame_rest s s1" "sql_inv E s1" "task_inserted E s1 s' r sub"
    "frame_rest s1 s'" "st_sql_artifacts s' = st_sql_artifacts s1" "parent_free s sub" "sql_extended s s1"
  shows "step_good E s s'"
  unfolding step_good_def
  using store_inv_insert [OF store_inv_quiet [OF assms(1-4)] assms(5-7)] effect_insert [OF assms(2,8,5)]
    assms(3,6,7,9) by (simp add: journal_kept_def plans_kept_def sql_extended_def frame_rest_def)

subsection \<open>Every operation is a good step\<close>

lemma sql_inv_same: "st_sql_artifacts s' = st_sql_artifacts s \<Longrightarrow> sql_inv E s' = sql_inv E s"
  by (simp add: sql_inv_def)

lemma FAILED_allowed: "st \<notin> TERMINAL_STATUSES \<Longrightarrow> FAILED \<in> ALLOWED_TRANSITIONS st"
  by (cases st) (auto simp: TERMINAL_STATUSES_def)

lemma good_create:
  assumes "py_env_ok E" "store_inv E s" "dget (st_tasks s) u = None"
  shows "step_good E s (fst (create_task E s sub u))"
proof -
  obtain s' out where c: "create_task E s sub u = (s', out)" by fastforce
  show ?thesis
    using create_task_effect [OF assms(1) c assms(3)] good_same [OF assms(2)] good_insert [OF assms(2), of "ConversationSubmission sub"] c
    by (auto simp: parent_free_def)
qed

lemma good_child:
  assumes "py_env_ok E" "store_inv E s" "dget (st_tasks s) u = None"
  shows "step_good E s (fst (create_clarification_child E s sub owner now u))"
proof -
  obtain s' out where c: "create_clarification_child E s sub owner now u = (s', out)" by fastforce
  consider "s' = s" | s1 parent o1 where "extend_selected_sql s parent now = (s1, Inr o1)"
      "s' = s1 \<or> (\<exists>r. parent_free s (ConversationSubmission sub) \<and> task_inserted E s1 s' r (ConversationSubmission sub) \<and> frame_rest s1 s'
         \<and> st_sql_artifacts s' = st_sql_artifacts s1)"
    using create_clarification_child_effect [OF assms(1) c assms(3)]
    unfolding parent_free_def is_child_of.simps by (metis option.inject)
  then show ?thesis
  proof cases
    case 1
    then show ?thesis using c good_same [OF assms(2)] by simp
  next
    case 2
    have q: "quiet s s1" "frame_rest s s1" "sql_inv E s1"
      using extend_selected_sql_effect [OF 2(1)] extend_selected_sql_inv [OF 2(1)] assms(2)
      by (auto simp: store_inv_def)
    note x = extend_selected_sql_extended [OF 2(1)]
    show ?thesis
      using 2(2) c x good_quiet [OF assms(2) q] good_quiet_insert [OF assms(2) q] by auto
  qed
qed

lemma good_submit:
  assumes "py_env_ok E" "store_inv E s" "dget (st_tasks s) u = None" "dget (st_sql_artifacts s) ref = None"
  shows "step_good E s (fst (submit_sql_query E s c now ref u))"
proof -
  obtain s' out where c: "submit_sql_query E s c now ref u = (s', out)" by fastforce
  consider "s' = s" | s1 row where "s1 = s\<lparr>st_sql_artifacts := dset ref row (st_sql_artifacts s)\<rparr>"
      "sa_sql_bytes row = Some (sq_sql_bytes c)" "sa_sql_hash row = env_sha256 E (sq_sql_bytes c)"
      "s' = s1 \<or> (\<exists>r a. task_inserted E s1 s' r (ArtifactSubmission a) \<and> frame_rest s1 s'
         \<and> st_sql_artifacts s' = st_sql_artifacts s1)"
    using submit_sql_query_effect [OF assms(1) c assms(3)] by blast
  then show ?thesis
  proof cases
    case 1
    then show ?thesis using c good_same [OF assms(2)] by simp
  next
    case 2
    have q: "quiet s s1" "frame_rest s s1" "sql_inv E s1"
      using 2(1-3) assms(2) by (auto simp: quiet_def frame_rest_def sql_inv_def store_inv_def)
    have x: "sql_extended s s1" using assms(4) 2(1) by (auto simp: sql_extended_def)
    show ?thesis
      using 2(4) c x good_quiet [OF assms(2) q] good_quiet_insert [OF assms(2) q]
      by (auto simp: parent_free_def)
  qed
qed

lemma good_load:
  assumes "store_inv E s"
  shows "step_good E s (fst (load_sql_for_execution s g ref h now))"
proof -
  obtain s' out where c: "load_sql_for_execution s g ref h now = (s', out)" by fastforce
  have "s' = s \<or> (quiet s s' \<and> frame_rest s s' \<and> sql_inv E s' \<and> sql_extended s s')"
    using load_sql_effect [OF c] assms extended_sql_expiry_mono [where now = now]
    by (auto simp: quiet_def frame_rest_def sql_inv_def store_inv_def sql_extended_def split: if_splits)
  then show ?thesis using c good_same [OF assms] good_quiet [OF assms] by auto
qed

lemma good_transition:
  assumes "store_inv E s"
  shows "step_good E s (fst (transition s c now))"
proof -
  obtain s' out where c: "transition s c now = (s', out)" by fastforce
  have "tasks_inv E s" using assms by (simp add: store_inv_def)
  from transition_effect [OF c this]
  consider "s' = s" | r r' where "task_update s s' (tc_task_id c) r r'"
      "classify_transition r c now = None" "apply_transition r c = Inr r'"
    by blast
  then show ?thesis
  proof cases
    case 2
    then have "status_path r r'" "token_path s r r'"
      by (auto simp: status_path_def token_path_def apply_transition_def revalidate_Inr decision_facts)
    then show ?thesis using good_update [OF assms 2(1)] c by simp
  qed (use c good_same [OF assms] in simp)
qed

lemma good_acquire:
  assumes "store_inv E s"
  shows "step_good E s (fst (acquire_lease s k owner ttl now now'))"
proof -
  obtain s' out where c: "acquire_lease s k owner ttl now now' = (s', out)" by fastforce
  have "tasks_inv E s" using assms by (simp add: store_inv_def)
  from acquire_lease_effect [OF c this]
  consider "s' = s" | r r' where "task_update s s' k r r'"
      "r' = r\<lparr>tr_lease_owner := Some owner, tr_lease_expires_at := Some (now' + seconds ttl),
          tr_fencing_token := Some (st_next_fencing_token s)\<rparr>"
    by blast
  then show ?thesis
  proof cases
    case 2
    then have "status_path r r'" "token_path s r r'"
      by (simp_all add: status_path_def status_kept_def token_path_def)
    then show ?thesis using good_update [OF assms 2(1)] c by simp
  qed (use c good_same [OF assms] in simp)
qed

lemma good_renew:
  assumes "store_inv E s"
  shows "step_good E s (fst (renew_lease s k owner tok ttl now now'))"
proof -
  obtain s' out where c: "renew_lease s k owner tok ttl now now' = (s', out)" by fastforce
  have "tasks_inv E s" using assms by (simp add: store_inv_def)
  from renew_lease_effect [OF c this]
  consider "s' = s" | r r' where "task_update s s' k r r'"
      "r' = r\<lparr>tr_lease_expires_at := Some (now' + seconds ttl)\<rparr>"
    by blast
  then show ?thesis
  proof cases
    case 2
    then have "status_path r r'" "token_path s r r'"
      by (simp_all add: status_path_def status_kept_def token_path_def)
    then show ?thesis using good_update [OF assms 2(1)] c by simp
  qed (use c good_same [OF assms] in simp)
qed

lemma good_begin:
  assumes "store_inv E s"
  shows "step_good E s (fst (begin_task_attempt E limit s c now u))"
proof -
  obtain s' out where c: "begin_task_attempt E limit s c now u = (s', out)" by fastforce
  have "tasks_inv E s" using assms by (simp add: store_inv_def)
  from begin_task_attempt_effect [OF c this]
  consider "s' = s" | r r' where "task_update s s' (ta_task_id c) r r'"
      "tr_status r \<notin> TERMINAL_STATUSES" "attempt_granted s s' c r r' now \<or> attempt_failed r r'"
    by blast
  then show ?thesis
  proof cases
    case 2
    then have "status_path r r'" "token_path s r r'"
      using FAILED_allowed by (auto simp: status_path_def status_kept_def token_path_def
          attempt_granted_def attempt_failed_def)
    then show ?thesis using good_update [OF assms 2(1)] c by simp
  qed (use c good_same [OF assms] in simp)
qed

lemma good_retry:
  assumes "store_inv E s"
  shows "step_good E s (fst (schedule_retry E s c now))"
proof -
  obtain s' out where c: "schedule_retry E s c now = (s', out)" by fastforce
  have "tasks_inv E s" using assms by (simp add: store_inv_def)
  from schedule_retry_effect [OF c this]
  consider "s' = s" | r r' where "task_update s s' (tg_task_id (rt_grant c)) r r'"
      "grant_is_current r (rt_grant c) now {CREATED, PLANNING, RUNNING} = None"
      "retry_scheduled E s s' c r r'"
    by blast
  then show ?thesis
  proof cases
    case 2
    then have "status_path r r'" "token_path s r r'"
      by (auto simp: status_path_def token_path_def retry_scheduled_def decision_facts)
    then show ?thesis using good_update [OF assms 2(1)] c by simp
  qed (use c good_same [OF assms] in simp)
qed

lemma current_token_below:
  assumes "store_inv E s" "dget (st_tasks s) k = Some r" "grant_is_current r g now sts = None"
  shows "tg_fencing_token g < st_next_fencing_token s"
proof -
  have "task_filed E s k r" using assms(1,2) by (simp add: store_inv_def tasks_inv_def)
  then show ?thesis using assms(3) by (simp add: task_filed_def decision_facts)
qed

lemma good_begin_step:
  assumes "store_inv E s"
  shows "step_good E s (fst (begin_step_attempt s c now now'))"
proof -
  obtain s' out where c: "begin_step_attempt s c now now' = (s', out)" by fastforce
  have "steps_inv s" using assms by (simp add: store_inv_def)
  from begin_step_attempt_effect [OF c this]
  consider "s' = s" | r x where "dget (st_tasks s) (tg_task_id (sac_grant c)) = Some r"
      "grant_is_current r (sac_grant c) now {RUNNING} = None" "step_reserved s s' c r x"
    by blast
  then show ?thesis
  proof cases
    case 2
    have q: "quiet s s'" "sql_inv E s' = sql_inv E s" "plans_wf s' = plans_wf s"
      using 2(3) by (simp_all add: step_reserved_def quiet_def sql_inv_def plans_wf_def)
    have "steps_inv s'" "budget_inv s'"
      using step_reserved_steps_inv [OF 2(3)] step_reserved_budget_inv [OF 2(3)]
        current_token_below [OF assms 2(1,2)] assms by (simp_all add: store_inv_def)
    then have "store_inv E s'"
      using q assms by (simp add: store_inv_def quiet_tasks_inv quiet_seqs_inv quiet_keys_inv)
    moreover have "journal_kept s s'" "plans_kept s s'" "sql_extended s s'"
      using 2(3) by (auto simp: journal_kept_def plans_kept_same sql_extended_refl step_reserved_def
          split: if_splits)
    ultimately show ?thesis using c effect_quiet [OF q(1)] by (simp add: step_good_def)
  qed (use c good_same [OF assms] in simp)
qed

lemma good_commit:
  assumes "store_inv E s"
  shows "step_good E s (fst (commit_step_result E s c now now'))"
proof -
  obtain s' out where c: "commit_step_result E s c now now' = (s', out)" by fastforce
  have fr: "quiet s s'" "st_plans s' = st_plans s" "st_sql_artifacts s' = st_sql_artifacts s"
    using commit_step_result_effect [OF c] by (simp_all add: frame_commit_def)
  have tok: "st_next_fencing_token s' = st_next_fencing_token s"
    using fr(1) by (simp add: quiet_def)
  have "steps_inv s' \<and> budget_inv s' \<and> journal_kept s s'"
  proof (cases "st_step_executions s' = st_step_executions s")
    case True
    then show ?thesis
      using frame_steps_inv [OF True] frame_budget_inv [OF True fr(2)] tok assms
      by (simp add: store_inv_def journal_kept_same)
  next
    case False
    then obtain r y x where x: "step_committed E s s' c r y x"
      using commit_step_result_effect [OF c] by blast
    have "steps_inv s" "budget_inv s" using assms by (simp_all add: store_inv_def)
    moreover have "journal_kept s s'"
      using x by (auto simp: journal_kept_def step_committed_def)
    ultimately show ?thesis
      using step_committed_steps_inv [OF x _ tok] step_committed_used [OF x] fr(2)
      by (simp add: budget_inv_def)
  qed
  moreover from this have "store_inv E s'"
    using fr assms unfolding store_inv_def
    by (simp add: quiet_tasks_inv quiet_seqs_inv quiet_keys_inv sql_inv_def plans_wf_def)
  ultimately show ?thesis using c effect_quiet [OF fr(1)] plans_kept_same [OF fr(2)] sql_extended_refl [OF fr(3)]
    by (simp add: step_good_def)
qed

lemma good_save_plan:
  assumes "store_inv E s" "execution_plan_ok (sp_plan p)"
  shows "step_good E s (fst (save_plan s k p))"
proof -
  obtain s' out where c: "save_plan s k p = (s', out)" by fastforce
  have q: "quiet s s'" "sql_inv E s' = sql_inv E s"
      "st_step_executions s' = st_step_executions s"
    using save_plan_cases [OF c] by (auto simp: quiet_def sql_inv_def)
  have wf: "plans_wf s" using assms(1) by (simp add: store_inv_def)
  have k: "plans_kept s s'"
    unfolding plans_kept_def
  proof (intro allI impI)
    fix t q assume "dget (st_plans s) t = Some q"
    then show "\<exists>x. dget (st_plans s') t = Some x \<and> (x = q \<or> stored_plan_eq x q)"
      using save_plan_cases [OF c] wf assms(2) stored_plan_eq_sym
      by (cases "t = k") (auto simp: plans_wf_def)
  qed
  have x: "sql_extended s s'" using save_plan_cases [OF c] by (auto simp: sql_extended_refl)
  have w: "plans_wf s'" using plan_store.wf_save [of s "(k, p)"] assms c by (simp add: store_inv_def)
  have b: "budget_inv s'"
    unfolding budget_inv_def
  proof
    fix t
    have used: "attempts_used s' t = attempts_used s t" using q(3) by (simp add: attempts_used_def)
    have "dget (st_plans s) t = Some x \<Longrightarrow> \<exists>x'. dget (st_plans s') t = Some x'
        \<and> ep_budget (sp_plan x') = ep_budget (sp_plan x)" for x
      using save_plan_cases [OF c]
      by (cases "t = k") (auto simp: stored_plan_eq_def execution_plan_eq_def
          dest!: arg_cong [where f = ep_budget])
    then show "attempts_used s' t = 0 \<or> (\<exists>p. dget (st_plans s') t = Some p
        \<and> attempts_used s' t \<le> pb_max_tool_calls (ep_budget (sp_plan p)))"
      using assms(1) used unfolding store_inv_def budget_inv_def by metis
  qed
  have "store_inv E s'"
    using assms(1) q w b frame_steps_inv [OF q(3)]
    by (simp add: store_inv_def quiet_tasks_inv quiet_seqs_inv quiet_keys_inv) (simp add: quiet_def)
  then show ?thesis
    using c k x effect_quiet [OF q(1)] journal_kept_same [OF q(3)] by (simp add: step_good_def)
qed

lemma good_rest:
  assumes "store_inv E s"
  shows "step_good E s (fst (record_approval s a))" "step_good E s (fst (record_audit_event s e))"
    "step_good E s (fst (append_evidence s k v))" "step_good E s (fst (save_clarification s g cl now now'))"
proof -
  have sql: "sql_inv E s" using assms by (simp add: store_inv_def)
  note G = good_quiet [OF assms]
  show "step_good E s (fst (record_approval s a))"
    by (rule G) (use sql in \<open>auto simp: record_approval_def quiet_def frame_rest_def sql_inv_def
        sql_extended_refl
        split: prod.splits\<close>)
  show "step_good E s (fst (record_audit_event s e))"
    by (rule G) (use sql in \<open>auto simp: record_audit_event_def quiet_def frame_rest_def sql_inv_def
        sql_extended_refl
        split: prod.splits option.splits\<close>)
  show "step_good E s (fst (append_evidence s k v))"
    by (rule G) (use sql in \<open>auto simp: append_evidence_def Let_def put_evidence_def quiet_def
        frame_rest_def sql_inv_def sql_extended_refl split: option.splits\<close>)
  show "step_good E s (fst (save_clarification s g cl now now'))"
    by (rule G) (use sql in \<open>auto simp: save_clarification_def quiet_def frame_rest_def sql_inv_def
        sql_extended_refl
        split: option.splits sum.splits\<close>)
qed

lemmas good_ops = good_create good_child good_submit good_load good_transition good_acquire good_renew
  good_begin good_retry good_begin_step good_commit good_save_plan good_rest

lemma run_op_good:
  assumes "py_env_ok E" "store_inv E s" "op_ok s c"
  shows "step_good E s (run_op E limit s c)"
  using assms by (cases c) (auto intro!: good_ops)

lemma store_step_good:
  "store_step E limit s s' \<Longrightarrow> py_env_ok E \<Longrightarrow> store_inv E s \<Longrightarrow> step_good E s s'"
  by (erule store_stepE) (simp add: run_op_good)

subsection \<open>The life cycle of a task\<close>

text \<open>
  The abstract machine of one task: its status, version and terminal reason. A transition
  follows \<open>ALLOWED_TRANSITIONS\<close>, a scheduled retry only advances the version.
\<close>

type_synonym life = "task_status \<times> int \<times> string option"

inductive life_step :: "life \<Rightarrow> life \<Rightarrow> bool" where
  life_advance: "st' \<in> ALLOWED_TRANSITIONS st \<Longrightarrow> life_step (st, v, rs) (st', v + 1, rs')"
| life_retry: "st \<notin> TERMINAL_STATUSES \<Longrightarrow> life_step (st, v, rs) (st, v + 1, rs)"

inductive_simps life_step_simps: "life_step (st, v, rs) (st', v', rs')"
inductive_cases life_stepE: "life_step a b"

definition life_of :: "store_state \<Rightarrow> string \<Rightarrow> life option" where
  "life_of s k = map_option (\<lambda>r. (tr_status r, tr_version r, tr_terminal_reason r)) (dget (st_tasks s) k)"

lemma terminal_no_life_step: "fst a \<in> TERMINAL_STATUSES \<Longrightarrow> \<not> life_step a b"
  by (auto elim!: life_stepE dest: terminal_no_successor)

lemma status_path_life:
  "status_path r r' \<Longrightarrow> status_kept r r' \<or> life_step (tr_status r, tr_version r, tr_terminal_reason r)
     (tr_status r', tr_version r', tr_terminal_reason r')"
  by (auto simp: status_path_def life_step_simps)

lemma effect_life:
  assumes "store_effect E s s'"
  shows "life_of s' k = life_of s k
     \<or> (\<exists>rs. life_of s k = None \<and> life_of s' k = Some (CREATED, 0, rs))
     \<or> (\<exists>a b. life_of s k = Some a \<and> life_of s' k = Some b \<and> life_step a b)"
proof -
  consider "quiet s s'" | j r r' where "task_update s s' j r r'" "status_path r r'"
    | s1 r sub where "quiet s s1" "task_inserted E s1 s' r sub"
    using assms unfolding store_effect_def by blast
  then show ?thesis
  proof cases
    case 1
    then show ?thesis by (simp add: life_of_def quiet_def)
  next
    case 2
    then show ?thesis
      using status_path_life [OF 2(2)]
      by (cases "k = j") (auto simp: task_update_def life_of_def status_kept_def)
  next
    case 3
    then show ?thesis by (cases "k = tr_task_id r") (auto simp: task_inserted_def life_of_def quiet_def)
  qed
qed

definition life_leq :: "life option \<Rightarrow> life option \<Rightarrow> bool" where
  "life_leq x y \<longleftrightarrow> (case x of None \<Rightarrow> True | Some a \<Rightarrow> (\<exists>b. y = Some b \<and> life_step\<^sup>*\<^sup>* a b))"

lemma effect_life_leq: "store_effect E s s' \<Longrightarrow> life_leq (life_of s k) (life_of s' k)"
  using effect_life [of E s s' k] by (auto simp: life_leq_def split: option.splits)

lemma life_version_mono: "life_step\<^sup>*\<^sup>* a b \<Longrightarrow> fst (snd a) \<le> fst (snd b)"
  by (induction rule: rtranclp_induct) (auto elim: life_stepE)

lemma terminal_life_final: "life_step\<^sup>*\<^sup>* a b \<Longrightarrow> fst a \<in> TERMINAL_STATUSES \<Longrightarrow> b = a"
  by (erule converse_rtranclpE) (auto dest: terminal_no_life_step)

lemma life_leq_trans: "life_leq x y \<Longrightarrow> life_leq y z \<Longrightarrow> life_leq x z"
  by (auto simp: life_leq_def split: option.splits intro: rtranclp_trans)

lemma life_leq_refl: "life_leq x x"
  by (simp add: life_leq_def split: option.splits)

subsection \<open>Runs\<close>

definition run_inv :: "py_env \<Rightarrow> store_state \<Rightarrow> bool" where
  "run_inv E s \<longleftrightarrow> py_env_ok E \<and> store_inv E s"

lemma step_inv: "run_inv E s \<Longrightarrow> store_step E limit s s' \<Longrightarrow> run_inv E s'"
  using store_step_good by (auto simp: run_inv_def step_good_def)

lemma step_effect: "run_inv E s \<Longrightarrow> store_step E limit s s' \<Longrightarrow> store_effect E s s'"
  using store_step_good by (auto simp: run_inv_def step_good_def)

definition task_token :: "store_state \<Rightarrow> string \<Rightarrow> int option" where
  "task_token s k = Option.bind (dget (st_tasks s) k) tr_fencing_token"

definition task_version :: "store_state \<Rightarrow> string \<Rightarrow> int option" where
  "task_version s k = map_option tr_version (dget (st_tasks s) k)"

text \<open>The compare-and-set view of \<open>transition\<close>: the new state and whether it was applied.\<close>

definition transition_cas ::
  "store_state \<Rightarrow> transition_command \<times> instant \<Rightarrow> store_state \<times> bool" where
  "transition_cas s c = (fst (transition s (fst c) (snd c)),
     (case snd (transition s (fst c) (snd c)) of Inl e \<Rightarrow> False | Inr res \<Rightarrow> trr_applied res))"

lemma effect_counter_mono: "store_effect E s s' \<Longrightarrow> st_next_fencing_token s \<le> st_next_fencing_token s'"
  by (auto simp: store_effect_def task_update_def task_inserted_def quiet_def)

lemma effect_token:
  assumes "store_effect E s s'" "task_token s k = Some t"
  shows "\<exists>t'. task_token s' k = Some t' \<and> (t' = t \<or> st_next_fencing_token s \<le> t')"
  using assms
  by (auto simp: store_effect_def task_update_def task_inserted_def quiet_def task_token_def token_path_def
      bind_eq_Some_conv)

lemma effect_token_fresh:
  assumes "store_effect E s s'" "task_token s' k = Some t"
  shows "task_token s k = Some t \<or> st_next_fencing_token s \<le> t"
  using assms
  by (auto simp: store_effect_def task_update_def task_inserted_def quiet_def task_token_def
      token_path_def bind_eq_Some_conv split: if_splits)

lemma token_filed: "tasks_inv E s \<Longrightarrow> task_token s k = Some t \<Longrightarrow> t < st_next_fencing_token s"
  by (auto simp: task_token_def bind_eq_Some_conv dest!: tasks_inv_filed)
    (simp add: task_filed_def)

lemma version_life: "task_version s k = map_option (\<lambda>a. fst (snd a)) (life_of s k)"
  by (simp add: task_version_def life_of_def option.map_comp comp_def)

interpretation task_fence: leased_store "store_step E limit" "run_inv E" task_token st_next_fencing_token
  for E limit
proof
  fix s s' k t assume i: "run_inv E s" and st: "store_step E limit s s'"
  note eff = step_effect [OF i st]
  show "run_inv E s'" using i st by (rule step_inv)
  show "st_next_fencing_token s \<le> st_next_fencing_token s'" using eff by (rule effect_counter_mono)
  show "task_token s' k = Some t \<Longrightarrow> task_token s k = Some t \<or> st_next_fencing_token s \<le> t"
    using eff by (rule effect_token_fresh)
  show "task_token s k \<noteq> None \<Longrightarrow> task_token s' k \<noteq> None"
    using effect_token [OF eff] by fastforce
next
  fix s k t assume "run_inv E s" "task_token s k = Some t"
  then show "t < st_next_fencing_token s" by (auto simp: run_inv_def store_inv_def dest: token_filed)
qed

lemma transition_applied:
  assumes "tasks_inv E s" "transition s c now = (s', Inr res)" "trr_applied res"
  shows "\<exists>r r'. task_update s s' (tc_task_id c) r r' \<and> classify_transition r c now = None
     \<and> apply_transition r c = Inr r' \<and> trr_winner res = r'"
  using transition_effect [OF assms(2,1)] assms(3) by auto

interpretation task_cas: versioned_store "store_step E limit" "run_inv E" task_version transition_cas
  "\<lambda>c. tc_task_id (fst c)" "\<lambda>c. tc_expected_version (fst c)" for E limit
proof
  fix s s' k v assume i: "run_inv E s" and st: "store_step E limit s s'"
  show "run_inv E s'" using i st by (rule step_inv)
  show "task_version s k = Some v \<Longrightarrow> \<exists>v'. task_version s' k = Some v' \<and> v \<le> v'"
    using effect_life_leq [OF step_effect [OF i st], of k] life_version_mono
    by (fastforce simp: version_life life_leq_def)
next
  fix s s' and c :: "transition_command \<times> instant"
  assume i: "run_inv E s" and c: "transition_cas s c = (s', True)"
  obtain t1 out where t: "transition s (fst c) (snd c) = (t1, out)" by fastforce
  with c obtain res where out: "s' = t1" "out = Inr res" "trr_applied res"
    by (auto simp: transition_cas_def split: sum.splits)
  have "tasks_inv E s" using i by (simp add: run_inv_def store_inv_def)
  from transition_applied [OF this t [unfolded out(2)] out(3)]
  obtain r r' where u: "task_update s s' (tc_task_id (fst c)) r r'"
      "classify_transition r (fst c) (snd c) = None" "apply_transition r (fst c) = Inr r'"
    using out(1) by blast
  moreover have "run_inv E s'"
    using i store_inv_update [OF _ u(1)] by (simp add: run_inv_def)
  ultimately show "task_version s (tc_task_id (fst c)) = Some (tc_expected_version (fst c))
      \<and> task_version s' (tc_task_id (fst c)) = Some (tc_expected_version (fst c) + 1) \<and> run_inv E s'"
    by (auto simp: task_version_def task_update_def apply_transition_def revalidate_Inr decision_facts)
qed

lemma run_life_leq:
  assumes "(store_step E limit)\<^sup>*\<^sup>* s s'" "run_inv E s"
  shows "life_leq (life_of s k) (life_of s' k)"
  using assms
proof (induction rule: rtranclp_induct)
  case (step s1 s2)
  then have "run_inv E s1" using task_fence.inv_steps by blast
  with step show ?case using effect_life_leq step_effect life_leq_trans by blast
qed (simp add: life_leq_refl)

lemma run_journal_kept:
  assumes "(store_step E limit)\<^sup>*\<^sup>* s s'" "run_inv E s"
  shows "journal_kept s s'"
  using assms
proof (induction rule: rtranclp_induct)
  case (step s1 s2)
  then have "run_inv E s1" using task_fence.inv_steps by blast
  then have "journal_kept s1 s2"
    using store_step_good [OF step(2)] by (simp add: run_inv_def step_good_def)
  with step journal_kept_trans show ?case by blast
qed (simp add: journal_kept_def)

lemma run_kept:
  assumes "(store_step E limit)\<^sup>*\<^sup>* s s'" "run_inv E s"
  shows "plans_kept s s' \<and> sql_extended s s'"
  using assms
proof (induction rule: rtranclp_induct)
  case (step s1 s2)
  then have i: "run_inv E s" "run_inv E s1" "run_inv E s2"
    using task_fence.inv_steps [of E limit s s1] step_inv by blast+
  then have "plans_kept s1 s2" "sql_extended s1 s2"
    using store_step_good [OF step(2)] by (simp_all add: run_inv_def step_good_def)
  then show ?case
    using step plans_kept_trans [of s s1 s2] sql_extended_trans [of s s1 s2] i
    by (simp add: run_inv_def store_inv_def)
qed (simp add: plans_kept_same sql_extended_refl)

lemma reachable_inv:
  "(store_step E limit)\<^sup>*\<^sup>* empty_store s \<Longrightarrow> py_env_ok E \<Longrightarrow> run_inv E s"
  using task_fence.inv_steps [of E limit empty_store s] by (simp add: run_inv_def empty_store_inv)

text \<open>
  What identifies a task never changes and never disappears: its record's identity fields, its
  submission and the entry of the idempotency index that leads to it.
\<close>

definition identity_kept :: "store_state \<Rightarrow> store_state \<Rightarrow> bool" where
  "identity_kept s s' \<longleftrightarrow>
     (\<forall>k r. dget (st_tasks s) k = Some r \<longrightarrow>
        (\<exists>r'. dget (st_tasks s') k = Some r' \<and> same_identity r r'
           \<and> dget (st_submissions s') k = dget (st_submissions s) k
           \<and> dget (st_submission_digests s') k = dget (st_submission_digests s) k))
     \<and> (\<forall>sc k. dget (st_task_ids_by_key s) sc = Some k \<longrightarrow> dget (st_task_ids_by_key s') sc = Some k)"

lemma identity_kept_refl: "identity_kept s s"
  by (simp add: identity_kept_def)

lemma identity_kept_trans:
  assumes "identity_kept a b" "identity_kept b c"
  shows "identity_kept a c"
  unfolding identity_kept_def
proof (intro conjI allI impI)
  fix k r assume r: "dget (st_tasks a) k = Some r"
  obtain q where q: "dget (st_tasks b) k = Some q" "same_identity r q"
      "dget (st_submissions b) k = dget (st_submissions a) k"
      "dget (st_submission_digests b) k = dget (st_submission_digests a) k"
    using assms(1) r unfolding identity_kept_def by blast
  obtain r' where "dget (st_tasks c) k = Some r'" "same_identity q r'"
      "dget (st_submissions c) k = dget (st_submissions b) k"
      "dget (st_submission_digests c) k = dget (st_submission_digests b) k"
    using assms(2) q(1) unfolding identity_kept_def by blast
  with q show "\<exists>r'. dget (st_tasks c) k = Some r' \<and> same_identity r r'
      \<and> dget (st_submissions c) k = dget (st_submissions a) k
      \<and> dget (st_submission_digests c) k = dget (st_submission_digests a) k"
    using same_identity_trans by auto
qed (use assms in \<open>simp add: identity_kept_def\<close>)

lemma effect_identity_kept:
  assumes "store_effect E s s'"
  shows "identity_kept s s'"
proof -
  consider "quiet s s'" | j r r' where "task_update s s' j r r'"
    | s1 r sub where "quiet s s1" "task_inserted E s1 s' r sub"
    using assms unfolding store_effect_def by blast
  then show ?thesis
  proof cases
    case 1
    then show ?thesis by (simp add: identity_kept_def quiet_def)
  next
    case 2
    then show ?thesis by (simp add: identity_kept_def task_update_def)
  next
    case 3
    then have "dget (st_tasks s) (tr_task_id r) = None" "dget (st_task_ids_by_key s) (task_scope r sub) = None"
      "st_tasks s' = dset (tr_task_id r) r (st_tasks s)"
      "st_task_ids_by_key s' = dset (task_scope r sub) (tr_task_id r) (st_task_ids_by_key s)"
      "\<exists>d. st_submission_digests s' = dset (tr_task_id r) d (st_submission_digests s)"
      "st_submissions s' = dset (tr_task_id r) sub (st_submissions s)"
      by (auto simp: task_inserted_def quiet_def)
    then show ?thesis by (auto simp: identity_kept_def)
  qed
qed

text \<open>A task that asked for clarification is continued by at most one child.\<close>

definition one_child :: "store_state \<Rightarrow> bool" where
  "one_child s \<longleftrightarrow> (\<forall>k k' a b p. dget (st_submissions s) k = Some a \<longrightarrow>
     dget (st_submissions s) k' = Some b \<longrightarrow> is_child_of p a \<longrightarrow> is_child_of p b \<longrightarrow> k = k')"

lemma consumedI: "dget (st_submissions s) k = Some a \<Longrightarrow> is_child_of p a \<Longrightarrow>
    clarification_parent_is_consumed s p"
  by (force simp: clarification_parent_is_consumed_def list_ex_iff dvals_def dest: dget_mem)

lemma effect_one_child:
  assumes "store_effect E s s'" "one_child s"
  shows "one_child s'"
proof -
  consider "quiet s s'" | j r r' where "task_update s s' j r r'"
    | s1 r sub where "quiet s s1" "parent_free s sub" "task_inserted E s1 s' r sub"
    using assms(1) unfolding store_effect_def by blast
  then show ?thesis
  proof cases
    case 3
    have sub: "st_submissions s' = dset (tr_task_id r) sub (st_submissions s)"
      using 3(1,3) by (simp add: quiet_def task_inserted_def)
    have "\<not> is_child_of p b" if "dget (st_submissions s) k = Some b" "is_child_of p sub" for k b p
      using 3(2) that consumedI unfolding parent_free_def by blast
    with sub assms(2) show ?thesis unfolding one_child_def by (auto split: if_splits)
  qed (use assms(2) in \<open>simp_all add: one_child_def quiet_def task_update_def\<close>)
qed

lemma run_one_child:
  assumes "(store_step E limit)\<^sup>*\<^sup>* s s'" "run_inv E s" "one_child s"
  shows "one_child s'"
  using assms
proof (induction rule: rtranclp_induct)
  case (step s1 s2)
  then have "run_inv E s1" using task_fence.inv_steps by blast
  with step show ?case using effect_one_child step_effect by blast
qed simp

lemma run_identity_kept:
  assumes "(store_step E limit)\<^sup>*\<^sup>* s s'" "run_inv E s"
  shows "identity_kept s s'"
  using assms
proof (induction rule: rtranclp_induct)
  case (step s1 s2)
  then have "run_inv E s1" using task_fence.inv_steps by blast
  with step show ?case using effect_identity_kept step_effect identity_kept_trans by blast
qed (simp add: identity_kept_refl)

end
