(* ===== verification/Task_Demo.thy ===== *)
theory Task_Demo
  imports Task_Runs
begin

text \<open>
  A small concrete store, on which the hypotheses of the task properties are seen to hold: one
  conversation task that a worker holds in RUNNING with token 1 and attempt 1, its plan of two
  steps with a budget of two tool calls, and one waiting SQL artifact.
\<close>

definition demo_context :: request_context where
  "demo_context = \<lparr>rc_tenant_id = ''acme'', rc_actor = ''ann'', rc_environment_id = ''prod'',
     rc_trace_id = ''0123456789abcdef0123456789abcdef'', rc_policy_revision = ''r1''\<rparr>"

definition demo_envelope :: request_envelope where
  "demo_envelope = \<lparr>re_request_id = ''q1'', re_tenant_id = ''acme'', re_actor = ''ann'',
     re_channel = CH_WEB, re_text = ''slow?'', re_idempotency_key = ''key-1'', re_environment_id = None\<rparr>"

definition demo_submission :: conversation_submission where
  "demo_submission = \<lparr>cs_envelope = demo_envelope, cs_context = demo_context, cs_as_of = 0,
     cs_clarification_parent_task_id = None\<rparr>"

definition demo_request_digest :: string where
  "demo_request_digest = projr (request_dedup_digest demo_env demo_envelope demo_context None)"

definition demo_submission_digest :: string where
  "demo_submission_digest = projr (submission_digest demo_env (ConversationSubmission demo_submission))"

lemma demo_digests:
  "request_dedup_digest demo_env demo_envelope demo_context None = Inr demo_request_digest"
  "sha256_hex demo_request_digest"
  "submission_digest demo_env (ConversationSubmission demo_submission) = Inr demo_submission_digest"
  using request_dedup_digest_total [OF demo_env_ok, of demo_envelope demo_context None]
    submission_digest_total [OF demo_env_ok, of "ConversationSubmission demo_submission"]
  by (auto simp: demo_request_digest_def demo_submission_digest_def)

lemma demo_strings [simp]:
  "strict_str ''acme''" "strict_str ''ann''" "strict_str ''prod''" "strict_str ''r1''"
  "strict_str ''q1''" "strict_str ''key-1''" "strict_str ''worker-a''" "strict_str ''worker-b''"
  "strict_str ''step-1''" "strict_str ''step-2''" "strict_str ''op''" "strict_str ''cap''"
  "strict_str ''v1''" "strict_str ''profile''" "strict_str ''gw''" "strict_str ''event-1''"
  "strict_str ''done''" "strict_str ''src''"
  "strict_str ''t1''" "strict_str ''t2''"
  by (rule strict_strI; code_simp)+

lemma demo_ids [simp]:
  "task_id_ok ''t1''" "task_id_ok ''t2''" "trace_id_ok ''0123456789abcdef0123456789abcdef''"
  by (simp_all add: task_id_ok_def) code_simp+

definition demo_created :: task_record where
  "demo_created = \<lparr>tr_task_id = ''t1'', tr_tenant_id = ''acme'', tr_environment_id = ''prod'',
     tr_actor = ''ann'', tr_idempotency_key = ''key-1'', tr_request_digest = demo_request_digest,
     tr_status = CREATED, tr_version = 0, tr_created_seq = 1, tr_attempt_number = 0,
     tr_task_failure_count = 0, tr_next_attempt_at = None, tr_retry_scheduled_by_attempt = None,
     tr_retry_command_digest = None, tr_lease_owner = None, tr_lease_expires_at = None,
     tr_fencing_token = None, tr_terminal_reason = None\<rparr>"

definition demo_running :: task_record where
  "demo_running = demo_created\<lparr>tr_status := RUNNING, tr_version := 2, tr_attempt_number := 1,
     tr_lease_owner := Some ''worker-a'', tr_lease_expires_at := Some (seconds 60),
     tr_fencing_token := Some 1\<rparr>"

definition demo_condition :: step_condition where
  "demo_condition = \<lparr>cond_kind = ALWAYS, cond_ref_step_id = None, cond_field = None,
     cond_threshold = None, cond_expected_result = None\<rparr>"

definition demo_step :: "string \<Rightarrow> plan_step" where
  "demo_step i = \<lparr>ps_step_id = i, ps_operation = ''op'', ps_typed_arguments = [],
     ps_depends_on = [], ps_side_effect = False, ps_effect_class = READ,
     ps_read_class = Some BOUNDED, ps_condition = demo_condition\<rparr>"

definition demo_plan :: execution_plan where
  "demo_plan = \<lparr>ep_plan_schema_version = 2, ep_capability_id = ''cap'', ep_capability_version = ''v1'',
     ep_steps = [demo_step ''step-1'', demo_step ''step-2''], ep_policy_profile = ''profile'',
     ep_policy_revision = ''r1'',
     ep_budget = \<lparr>pb_max_steps = 2, pb_max_tool_calls = 2, pb_max_model_tokens = 0\<rparr>\<rparr>"

definition demo_target :: resolved_target where
  "demo_target = \<lparr>rt_tenant_id = ''acme'', rt_environment_id = ''prod'', rt_provider = ''src'',
     rt_resource_kind = ''cap'', rt_resource_ids = [''r1''], rt_selector_version = ''v1''\<rparr>"

definition demo_stored_plan :: stored_plan where
  "demo_stored_plan = \<lparr>sp_plan = demo_plan, sp_target = demo_target\<rparr>"

definition demo_sql_row :: sql_artifact_record where
  "demo_sql_row = \<lparr>sa_sql_ref = ''ref'', sa_sql_hash = demo_sha256 ''select 1'',
     sa_sql_bytes = Some ''select 1'', sa_requester = ''ann'', sa_tenant_id = ''acme'',
     sa_environment_id = ''prod'', sa_created_at = 0, sa_expires_at = seconds 10, sa_purged_at = None\<rparr>"

definition demo_store :: store_state where
  "demo_store = empty_store\<lparr>st_tasks := [(''t1'', demo_running)],
     st_task_ids_by_key := [([''acme'', ''prod'', ''key-1''], ''t1'')],
     st_sql_artifacts := [(''ref'', demo_sql_row)],
     st_submissions := [(''t1'', ConversationSubmission demo_submission)],
     st_submission_digests := [(''t1'', demo_submission_digest)],
     st_plans := [(''t1'', demo_stored_plan)],
     st_next_fencing_token := 2, st_next_created_seq := 2\<rparr>"

lemma demo_records_ok: "task_record_ok demo_created" "task_record_ok demo_running"
  by (simp_all add: demo_running_def demo_created_def task_record_ok_def lease_fields_ok_def
      retry_fields_ok_def demo_digests)

lemma demo_submission_matches:
  "submission_matches_record demo_env demo_running (ConversationSubmission demo_submission)
     demo_submission_digest"
proof -
  have "request_dedup_digest demo_env (cs_envelope demo_submission) (cs_context demo_submission)
      (cs_clarification_parent_task_id demo_submission) = Inr demo_request_digest"
    by (simp add: demo_submission_def demo_digests)
  then show ?thesis
    by (simp add: demo_digests context_matches_envelope_def)
      (simp add: demo_running_def demo_created_def demo_submission_def demo_envelope_def demo_context_def)
qed

lemma demo_plan_ok: "execution_plan_ok demo_plan"
  by (simp add: execution_plan_ok_def demo_plan_def demo_step_def plan_step_ok_def frozen_map_ok_def
      step_condition_ok_def demo_condition_def present_operands_def plan_budget_ok_def
      PLAN_SCHEMA_VERSION_def)

lemma demo_store_inv: "store_inv demo_env demo_store"
proof -
  have run: "tr_task_id demo_running = ''t1''" "tr_created_seq demo_running = 1"
    "tr_fencing_token demo_running = Some 1" "tr_tenant_id demo_running = ''acme''"
    "tr_environment_id demo_running = ''prod''" "tr_idempotency_key demo_running = ''key-1''"
    by (simp_all add: demo_running_def demo_created_def)
  have "tasks_inv demo_env demo_store"
    using demo_records_ok demo_submission_matches run
    by (simp add: tasks_inv_def demo_store_def task_filed_def empty_store_def dict_ok_def
        del: submission_matches_record.simps)
  moreover have "seqs_inv demo_store" "keys_inv demo_store" "steps_inv demo_store"
      "budget_inv demo_store"
    using run by (simp_all add: seqs_inv_def keys_inv_def steps_inv_def budget_inv_def demo_store_def
        empty_store_def attempts_used_def task_scope_def)
  moreover have "sql_inv demo_env demo_store" "plans_wf demo_store"
    using demo_plan_ok by (simp_all add: sql_inv_def plans_wf_def demo_store_def empty_store_def
        demo_sql_row_def demo_env_def demo_stored_plan_def)
  ultimately show ?thesis by (simp add: store_inv_def)
qed

lemma demo_run_inv: "run_inv demo_env demo_store"
  by (simp add: run_inv_def demo_env_ok demo_store_inv)

end
