(* ===== verification/Task_Claims.thy ===== *)
theory Task_Claims
  imports Task_Demo
begin

text \<open>
  The properties of the task store and of its journal, each with a witness on the concrete store
  of \<open>Task_Demo\<close>. A run is any interleaving of store operations.
\<close>

lemma empty_reach: "(store_step E limit)\<^sup>*\<^sup>* s s"
  by simp

lemma one_reach: "store_step E limit s s' \<Longrightarrow> (store_step E limit)\<^sup>*\<^sup>* s s'"
  by (rule r_into_rtranclp)

subsection \<open>Invariant and life cycle\<close>

text \<open>
  C1. Every store a process can reach is consistent: records pass their validators and are
  filed under their id, each has the submission whose digests it records, the idempotency index
  is a bijection with the tasks, sequence numbers are unique, fencing tokens are below the
  counter, SQL bytes have their hash, journal rows are valid and no task exceeds its budget.
\<close>

theorem reachable_store_is_consistent:
  assumes "py_env_ok E" "(store_step E limit)\<^sup>*\<^sup>* empty_store s"
  shows "store_inv E s"
  using reachable_inv assms by (simp add: run_inv_def)

lemma demo_audit_step:
  "store_step E limit s (fst (record_audit_event s e))"
  using store_stepI [of s "OpAudit e" E limit] by simp

definition demo_event :: trace_event where
  "demo_event = \<lparr>te_event_id = ''event-1'', te_trace_id = ''0123456789abcdef0123456789abcdef'',
     te_task_id = Some ''t1'', te_stage = STG_LIFECYCLE, te_outcome = OUT_OK, te_occurred_at = 0,
     te_capability_id = None, te_step_id = Some ''step-1'', te_policy_revision = None,
     te_attempt_number = Some 1, te_error = None, te_detail = [], te_model = None\<rparr>"

theorem reachable_store_is_consistent_witness:
  "store_inv demo_env (fst (record_audit_event empty_store demo_event))
     \<and> st_audit_events (fst (record_audit_event empty_store demo_event)) = [(''t1'', [demo_event])]"
proof -
  have "(store_step demo_env 3)\<^sup>*\<^sup>* empty_store (fst (record_audit_event empty_store demo_event))"
    using demo_audit_step by (rule one_reach)
  from reachable_store_is_consistent [OF demo_env_ok this] show ?thesis
    by (simp add: record_audit_event_def demo_event_def append_entry_def empty_store_def)
qed

text \<open>
  C2. The task store refines the life cycle machine: seen through status, version and
  terminal reason, any operation by any worker leaves a task alone, creates it in CREATED with
  version 0, or takes one step of the machine, a move of \<open>ALLOWED_TRANSITIONS\<close> or a counted retry
  of a task that is not terminal.
\<close>

theorem store_refines_life_cycle:
  assumes "run_inv E s" "store_step E limit s s'"
  shows "life_of s' k = life_of s k
     \<or> (\<exists>rs. life_of s k = None \<and> life_of s' k = Some (CREATED, 0, rs))
     \<or> (\<exists>a b. life_of s k = Some a \<and> life_of s' k = Some b \<and> life_step a b)"
  using effect_life [OF step_effect [OF assms]] .

definition demo_finish :: transition_command where
  "demo_finish = \<lparr>tc_task_id = ''t1'', tc_expected_version = 2, tc_to_status = SUCCEEDED,
     tc_fencing_token = Some 1, tc_terminal_reason = Some ''done'', tc_audit_events = []\<rparr>"

lemma demo_running_facts:
  "dget (st_tasks demo_store) ''t1'' = Some demo_running" "tr_status demo_running = RUNNING"
  "tr_version demo_running = 2" "tr_fencing_token demo_running = Some 1"
  "tr_lease_owner demo_running = Some ''worker-a''" "tr_attempt_number demo_running = 1"
  "tr_lease_expires_at demo_running = Some (seconds 60)" "tr_task_id demo_running = ''t1''"
  "tr_next_attempt_at demo_running = None" "tr_terminal_reason demo_running = None"
  "lease_is_live demo_running 0"
  by (simp_all add: demo_store_def empty_store_def demo_running_def demo_created_def lease_is_live_def
      seconds_def)

lemma demo_finish_applies:
  "apply_transition demo_running demo_finish = Inr (demo_running\<lparr>tr_status := SUCCEEDED,
     tr_version := 3, tr_terminal_reason := Some ''done''\<rparr>)"
  "classify_transition demo_running demo_finish 0 = None"
proof -
  have c: "transition_command_ok demo_finish"
    by (simp add: demo_finish_def transition_command_ok_def)
  show "apply_transition demo_running demo_finish = Inr (demo_running\<lparr>tr_status := SUCCEEDED,
     tr_version := 3, tr_terminal_reason := Some ''done''\<rparr>)"
    using apply_transition_ok [OF demo_records_ok(2) c]
    by (simp add: demo_finish_def demo_running_facts)
  show "classify_transition demo_running demo_finish 0 = None"
    by (simp add: decision_facts demo_finish_def demo_running_facts TERMINAL_STATUSES_def)
qed

lemma demo_finish_result:
  "transition demo_store demo_finish 0 =
     (demo_store\<lparr>st_tasks := [(''t1'', demo_running\<lparr>tr_status := SUCCEEDED, tr_version := 3,
        tr_terminal_reason := Some ''done''\<rparr>)]\<rparr>,
      Inr \<lparr>trr_applied = True, trr_winner = demo_running\<lparr>tr_status := SUCCEEDED, tr_version := 3,
        tr_terminal_reason := Some ''done''\<rparr>, trr_rejection = None\<rparr>)"
proof -
  have "transition_result_ok \<lparr>trr_applied = True, trr_winner = demo_running\<lparr>tr_status := SUCCEEDED,
      tr_version := 3, tr_terminal_reason := Some ''done''\<rparr>, trr_rejection = None\<rparr>"
    using demo_finish_applies(1)
    by (auto simp: transition_result_ok_def apply_transition_def revalidate_Inr)
  moreover have "require_task demo_store (tc_task_id demo_finish) = Inr demo_running"
    by (simp add: require_task_def demo_running_facts demo_finish_def)
  moreover have "append_events (st_audit_events demo_store) t [] = st_audit_events demo_store" for t
    by (simp add: append_events_def)
  ultimately show ?thesis
    by (simp add: transition_def demo_finish_applies)
      (simp add: demo_finish_def append_events_def demo_store_def empty_store_def)
qed

theorem store_refines_life_cycle_witness:
  "life_of demo_store ''t1'' = Some (RUNNING, 2, None)
     \<and> life_of (fst (transition demo_store demo_finish 0)) ''t1'' = Some (SUCCEEDED, 3, Some ''done'')
     \<and> life_step (RUNNING, 2, None) (SUCCEEDED, 3, Some ''done'')"
proof -
  have l: "life_of demo_store ''t1'' = Some (RUNNING, 2, None)"
    "life_of (fst (transition demo_store demo_finish 0)) ''t1'' = Some (SUCCEEDED, 3, Some ''done'')"
    by (simp_all add: life_of_def demo_running_facts demo_finish_result)
  have "store_step demo_env 3 demo_store (fst (transition demo_store demo_finish 0))"
    using store_stepI [of demo_store "OpTransition demo_finish 0" demo_env 3] by simp
  from store_refines_life_cycle [OF demo_run_inv this, of "''t1''"] l show ?thesis by auto
qed

text \<open>
  A terminal task is final: whatever the workers do afterwards, its status, version and
  terminal reason stay as they are.
\<close>

theorem terminal_task_is_final:
  assumes "run_inv E s" "(store_step E limit)\<^sup>*\<^sup>* s s'" "dget (st_tasks s) k = Some r"
    "tr_status r \<in> TERMINAL_STATUSES"
  shows "\<exists>r'. dget (st_tasks s') k = Some r' \<and> tr_status r' = tr_status r
     \<and> tr_version r' = tr_version r \<and> tr_terminal_reason r' = tr_terminal_reason r"
  using run_life_leq [OF assms(2,1), of k] assms(3,4) terminal_life_final
  by (fastforce simp: life_leq_def life_of_def)

definition demo_done :: store_state where
  "demo_done = fst (transition demo_store demo_finish 0)"

lemma demo_done_inv: "run_inv demo_env demo_done"
proof -
  have "store_step demo_env 3 demo_store demo_done"
    using store_stepI [of demo_store "OpTransition demo_finish 0" demo_env 3] by (simp add: demo_done_def)
  then show ?thesis by (rule step_inv [OF demo_run_inv])
qed

lemma demo_done_task: "dget (st_tasks demo_done) ''t1'' = Some (demo_running\<lparr>tr_status := SUCCEEDED,
    tr_version := 3, tr_terminal_reason := Some ''done''\<rparr>)"
  by (simp add: demo_done_def demo_finish_result)

theorem terminal_task_is_final_witness:
  "\<exists>r'. dget (st_tasks (fst (renew_lease demo_done ''t1'' ''worker-a'' 1 30 0 0))) ''t1'' = Some r'
     \<and> tr_status r' = SUCCEEDED \<and> tr_version r' = 3 \<and> tr_terminal_reason r' = Some ''done''"
proof -
  let ?r = "demo_running\<lparr>tr_status := SUCCEEDED, tr_version := 3, tr_terminal_reason := Some ''done''\<rparr>"
  have "store_step demo_env 3 demo_done (fst (renew_lease demo_done ''t1'' ''worker-a'' 1 30 0 0))"
    using store_stepI [of demo_done "OpRenew ''t1'' ''worker-a'' 1 30 0 0" demo_env 3] by simp
  moreover note demo_done_task
  ultimately show ?thesis
    using terminal_task_is_final [OF demo_done_inv one_reach, of 3 _ "''t1''" ?r]
    by (simp add: TERMINAL_STATUSES_def)
qed

subsection \<open>Compare-and-set and fencing\<close>

text \<open>
  Of two transitions of a task that expect the same version, at most one is applied, however
  many operations run between them.
\<close>

theorem transition_at_most_once:
  assumes "run_inv E s" "transition s c now = (s1, Inr res)" "trr_applied res"
    "(store_step E limit)\<^sup>*\<^sup>* s1 s2" "tc_task_id d = tc_task_id c"
    "tc_expected_version d = tc_expected_version c" "transition s2 d now' = (s3, Inr res')"
  shows "\<not> trr_applied res'"
  using task_cas.at_most_one [of E s "(c, now)" s1 limit s2 "(d, now')"] assms
  by (simp add: transition_cas_def)

theorem transition_at_most_once_witness:
  "\<not> trr_applied (projr (snd (transition demo_done demo_finish 0)))
     \<and> trr_applied (projr (snd (transition demo_store demo_finish 0)))"
proof -
  let ?r = "demo_running\<lparr>tr_status := SUCCEEDED, tr_version := 3, tr_terminal_reason := Some ''done''\<rparr>"
  have c: "classify_transition ?r demo_finish 0 = Some TR_TERMINAL_PROTECTED"
    by (simp add: classify_transition_def TERMINAL_STATUSES_def)
  have ok: "task_record_ok ?r"
    using demo_finish_applies(1) by (simp add: apply_transition_def revalidate_Inr)
  have d: "dget (st_tasks demo_done) (tc_task_id demo_finish) = Some ?r"
    using demo_done_task by (simp add: demo_finish_def)
  then obtain res' where res': "transition demo_done demo_finish 0 = (demo_done, Inr res')"
    using c ok by (simp add: transition_def require_task_def transition_result_ok_def)
  have "transition demo_store demo_finish 0 =
      (demo_done, Inr \<lparr>trr_applied = True, trr_winner = ?r, trr_rejection = None\<rparr>)"
    by (simp add: demo_done_def demo_finish_result)
  from transition_at_most_once [OF demo_run_inv this _ empty_reach refl refl res']
  show ?thesis using res' by (simp add: demo_finish_result)
qed

lemma begin_step_not_current:
  assumes "steps_inv s" "\<And>r. dget (st_tasks s) (tg_task_id (sac_grant c)) = Some r \<Longrightarrow>
      grant_is_current r (sac_grant c) now {RUNNING} \<noteq> None"
  shows "fst (begin_step_attempt s c now now') = s"
  using begin_step_attempt_effect [of s c now now'] assms
  by (cases "begin_step_attempt s c now now'") fastforce

text \<open>
  What a worker presents is refused when the record's token is not its own: the refusals of the
  operations that have no effect lemma, each from the record the operation reads.
\<close>

lemma stale_renewal_refused:
  assumes "task_token s k \<noteq> Some tok"
  shows "fst (renew_lease s k owner tok ttl now now') = s"
    "snd (renew_lease s k owner tok ttl now now') \<noteq> Inr (Some lease)"
  using assms
  by (auto simp: renew_lease_def require_task_def may_renew_lease_def task_token_def Let_def
      split: option.splits sum.splits)

lemma stale_transition_classified:
  assumes "task_token s (tc_task_id c) \<noteq> Some tok" "tc_fencing_token c = Some tok"
    "dget (st_tasks s) (tc_task_id c) = Some r"
  shows "classify_transition r c now \<noteq> None"
  using assms by (auto simp: task_token_def classify_transition_None decision_facts)

lemma stale_transition_refused:
  assumes "task_token s (tc_task_id c) \<noteq> Some tok" "tc_fencing_token c = Some tok"
  shows "fst (transition s c now) = s"
    "snd (transition s c now) = Inr res \<Longrightarrow> \<not> trr_applied res"
  using stale_transition_classified [OF assms]
  by (auto simp del: not_None_eq simp: transition_def require_task_def revalidate_def
      split: option.splits if_splits)

lemma stale_fact_refused:
  assumes "\<And>r. current = Some r \<Longrightarrow> tr_fencing_token r \<noteq> Some (tg_fencing_token g)"
  shows "\<exists>e. require_fact_grant current g now sts = Inl e"
proof (cases "require_fact_grant current g now sts")
  case (Inr u)
  then show ?thesis using fact_grant_current assms by (fastforce simp: grant_is_current_None)
qed simp


definition demo_grant :: task_attempt_grant where
  "demo_grant = \<lparr>tg_lease = \<lparr>lg_task_id = ''t1'', lg_owner = ''worker-a'', lg_expires_at = seconds 60,
     lg_fencing_token = 1\<rparr>, tg_attempt_number = 1\<rparr>"

definition demo_stolen :: store_state where
  "demo_stolen = fst (acquire_lease demo_store ''t1'' ''worker-b'' 30 (seconds 61) (seconds 61))"

lemma demo_stolen_task: "dget (st_tasks demo_stolen) ''t1'' = Some (demo_running\<lparr>
    tr_lease_owner := Some ''worker-b'', tr_lease_expires_at := Some (seconds 91),
    tr_fencing_token := Some 2\<rparr>)"
proof -
  have "may_acquire_lease demo_running ''worker-b'' (seconds 61)"
    by (simp add: decision_facts demo_running_facts TERMINAL_STATUSES_def lease_is_live_def seconds_def)
  moreover have "task_record_ok (demo_running\<lparr>tr_lease_owner := Some ''worker-b'',
      tr_lease_expires_at := Some (seconds 91), tr_fencing_token := Some 2\<rparr>)"
    using demo_records_ok(2) by (simp add: task_record_ok_def lease_fields_ok_def retry_fields_ok_def)
  moreover have "lease_command_ok \<lparr>lc_task_id = ''t1'', lc_owner = ''worker-b'', lc_ttl_seconds = 30,
      lc_fencing_token = None\<rparr>" "lease_grant_ok \<lparr>lg_task_id = ''t1'', lg_owner = ''worker-b'',
      lg_expires_at = seconds 91, lg_fencing_token = 2\<rparr>"
    by (simp_all add: lease_command_ok_def lease_grant_ok_def)
  moreover have "seconds 61 + seconds 30 = seconds 91" by (simp add: seconds_def)
  moreover have "st_next_fencing_token demo_store = 2" by (simp add: demo_store_def)
  ultimately show ?thesis
    by (simp add: demo_stolen_def acquire_lease_def require_task_def demo_running_facts Let_def)
qed

lemma demo_stolen_step: "store_step demo_env 3 demo_store demo_stolen"
  using store_stepI [of demo_store "OpAcquire ''t1'' ''worker-b'' 30 (seconds 61) (seconds 61)" demo_env 3]
  by (simp add: demo_stolen_def)


end
