(* ===== verification/Task_Claims2.thy ===== *)
theory Task_Claims2
  imports Task_Claims
begin

text \<open>
  The properties of submission, clarification, SQL hydration, retries and the step journal, each
  with a witness on a concrete run.
\<close>

subsection \<open>Submission\<close>

lemma existing_Some:
  "existing_task_for_submission s sub d = Inr (Some r) \<longleftrightarrow>
     (\<exists>k. dget (st_task_ids_by_key s) (conversation_scope sub) = Some k
        \<and> dget (st_tasks s) k = Some r \<and> tr_request_digest r = d)"
  by (auto simp: existing_task_for_submission_def split: option.splits if_splits)

lemma create_task_answer:
  assumes "py_env_ok E" "create_task E s sub u = (s', Inr r)" "dget (st_tasks s) u = None" "tasks_inv E s"
  shows "\<exists>d. request_dedup_digest E (cs_envelope sub) (cs_context sub)
      (cs_clarification_parent_task_id sub) = Inr d
     \<and> dget (st_task_ids_by_key s') (conversation_scope sub) = Some (tr_task_id r)
     \<and> dget (st_tasks s') (tr_task_id r) = Some r \<and> tr_request_digest r = d
     \<and> cs_clarification_parent_task_id sub = None
     \<and> context_matches_envelope (cs_envelope sub) (cs_context sub)"
proof -
  obtain d where d: "context_matches_envelope (cs_envelope sub) (cs_context sub)"
      "cs_clarification_parent_task_id sub = None"
      "request_dedup_digest E (cs_envelope sub) (cs_context sub) None = Inr d"
    using assms(2) by (auto simp: create_task_def split: if_splits sum.splits)
  show ?thesis
  proof (cases "existing_task_for_submission s sub d")
    case (Inl e)
    then show ?thesis using assms(2) d by (simp add: create_task_def)
  next
    case (Inr x)
    show ?thesis
    proof (cases x)
      case None
      have "create_task_locked E s sub d u = (s', Inr r)"
        using assms(2) d Inr None by (simp add: create_task_def)
      from create_locked_effect [OF assms(1) this assms(3)] d Inr None
      show ?thesis
        by (auto simp: task_inserted_def task_scope_def conversation_scope_def)
    next
      case (Some y)
      then have "s' = s" "y = r" using assms(2) d Inr by (simp_all add: create_task_def)
      then show ?thesis
        using d Inr Some tasks_inv_filed [OF assms(4)] by (auto simp: existing_Some task_filed_def)
    qed
  qed
qed

text \<open>
  C10. Submitting is idempotent. After a conversation was accepted, a submission with the same
  tenant, environment and idempotency key never makes another task, whatever ran in between and
  whichever fresh id it drew: the store does not change, an accepted answer names the first task,
  and a resend of the same request is accepted.
\<close>

theorem create_task_idempotent:
  assumes "run_inv E s" "dget (st_tasks s) u = None" "create_task E s sub u = (s1, Inr r)"
    "(store_step E limit)\<^sup>*\<^sup>* s1 s2" "conversation_scope sub' = conversation_scope sub"
  shows "fst (create_task E s2 sub' u') = s2
     \<and> (\<forall>r'. snd (create_task E s2 sub' u') = Inr r' \<longrightarrow> tr_task_id r' = tr_task_id r)
     \<and> (sub' = sub \<longrightarrow> is_ok (snd (create_task E s2 sub' u')))"
proof -
  have i: "py_env_ok E" "tasks_inv E s" "run_inv E s1"
    using assms(1) step_inv [OF assms(1) store_stepI [of s "OpCreate sub u" E limit]] assms(2,3)
    by (simp_all add: run_inv_def store_inv_def)
  obtain d where d: "request_dedup_digest E (cs_envelope sub) (cs_context sub)
      (cs_clarification_parent_task_id sub) = Inr d"
    "dget (st_task_ids_by_key s1) (conversation_scope sub) = Some (tr_task_id r)"
    "dget (st_tasks s1) (tr_task_id r) = Some r" "tr_request_digest r = d"
    "cs_clarification_parent_task_id sub = None"
    "context_matches_envelope (cs_envelope sub) (cs_context sub)"
    using create_task_answer [OF i(1) assms(3,2) i(2)] by blast
  have "identity_kept s1 s2" using run_identity_kept assms(4) i(3) by blast
  then obtain r2 where r2: "dget (st_tasks s2) (tr_task_id r) = Some r2" "same_identity r r2"
      "dget (st_task_ids_by_key s2) (conversation_scope sub) = Some (tr_task_id r)"
    using d(2,3) unfolding identity_kept_def by blast
  have e: "conversation_scope w = conversation_scope sub \<Longrightarrow> existing_task_for_submission s2 w x =
      (if tr_request_digest r \<noteq> x then Inl IdempotencyConflictError else Inr (Some r2))" for w x
    using r2 by (simp add: existing_task_for_submission_def same_identity_def)
  have "tr_task_id r2 = tr_task_id r" using r2(2) by (simp add: same_identity_def)
  then show ?thesis
    using d(1,4-6) by (auto simp: create_task_def e [OF assms(5)] e [OF refl] split: sum.splits)
qed

lemma demo_submission_facts:
  "cs_envelope demo_submission = demo_envelope" "cs_context demo_submission = demo_context"
  "cs_clarification_parent_task_id demo_submission = None"
  "context_matches_envelope demo_envelope demo_context"
  "conversation_scope demo_submission = [''acme'', ''prod'', ''key-1'']"
  by (simp_all add: demo_submission_def context_matches_envelope_def demo_envelope_def demo_context_def
      conversation_scope_def)

definition demo_first :: store_state where
  "demo_first = empty_store\<lparr>st_tasks := [(''t1'', demo_created)],
     st_task_ids_by_key := [([''acme'', ''prod'', ''key-1''], ''t1'')],
     st_submissions := [(''t1'', ConversationSubmission demo_submission)],
     st_submission_digests := [(''t1'', demo_submission_digest)], st_next_created_seq := 2\<rparr>"

lemma demo_create:
  "create_task demo_env empty_store demo_submission ''t1'' = (demo_first, Inr demo_created)"
proof -
  have e: "existing_task_for_submission empty_store demo_submission d = Inr None" for d
    by (simp add: existing_task_for_submission_def empty_store_def)
  have r: "\<lparr>tr_task_id = ''t1'', tr_tenant_id = rc_tenant_id demo_context,
      tr_environment_id = rc_environment_id demo_context, tr_actor = rc_actor demo_context,
      tr_idempotency_key = re_idempotency_key demo_envelope, tr_request_digest = demo_request_digest,
      tr_status = CREATED, tr_version = 0, tr_created_seq = st_next_created_seq empty_store,
      tr_attempt_number = 0, tr_task_failure_count = 0, tr_next_attempt_at = None,
      tr_retry_scheduled_by_attempt = None, tr_retry_command_digest = None, tr_lease_owner = None,
      tr_lease_expires_at = None, tr_fencing_token = None, tr_terminal_reason = None\<rparr> = demo_created"
    by (simp add: demo_created_def demo_context_def demo_envelope_def empty_store_def)
  have t: "tr_task_id demo_created = ''t1''" by (simp add: demo_created_def)
  have k: "create_task_locked demo_env empty_store demo_submission demo_request_digest ''t1'' =
      (demo_first, Inr demo_created)"
    unfolding create_task_locked_def insert_task_locked_def Let_def submission_context.simps
      demo_submission_facts r
    by (simp add: demo_records_ok t demo_digests demo_first_def)
      (simp add: empty_store_def)
  show ?thesis
    by (simp add: create_task_def demo_submission_facts demo_digests e k)
qed

lemma empty_run_inv: "run_inv demo_env empty_store"
  by (simp add: run_inv_def demo_env_ok empty_store_inv)

theorem create_task_idempotent_witness:
  "fst (create_task demo_env (fst (record_audit_event demo_first demo_event)) demo_submission ''t2'')
     = fst (record_audit_event demo_first demo_event)
   \<and> is_ok (snd (create_task demo_env (fst (record_audit_event demo_first demo_event)) demo_submission ''t2''))"
  using create_task_idempotent [OF empty_run_inv _ demo_create one_reach
      [OF demo_audit_step [of demo_env 3 demo_first demo_event]] refl, of "''t2''"]
  by (simp add: empty_store_def)

subsection \<open>Clarification\<close>

text \<open>
  A task that asked for clarification is continued at most once: in every reachable store
  two submissions that name the same parent are the same submission, whichever workers and channels
  raced to answer.
\<close>

theorem clarification_parent_consumed_once:
  assumes "py_env_ok E" "(store_step E limit)\<^sup>*\<^sup>* empty_store s"
    "dget (st_submissions s) k = Some a" "dget (st_submissions s) k' = Some b"
    "is_child_of p a" "is_child_of p b"
  shows "k = k'"
proof -
  have "run_inv E empty_store" using assms(1) by (simp add: run_inv_def empty_store_inv)
  moreover have "one_child empty_store" by (simp add: one_child_def empty_store_def)
  ultimately have "one_child s" using run_one_child assms(2) by blast
  with assms(3-6) show ?thesis unfolding one_child_def by blast
qed

definition demo_ask :: transition_command where
  "demo_ask = \<lparr>tc_task_id = ''t1'', tc_expected_version = 0, tc_to_status = CLARIFICATION_REQUIRED,
     tc_fencing_token = None, tc_terminal_reason = None, tc_audit_events = []\<rparr>"

definition demo_asked :: task_record where
  "demo_asked = demo_created\<lparr>tr_status := CLARIFICATION_REQUIRED, tr_version := 1\<rparr>"

lemma demo_asked_ok: "task_record_ok demo_asked"
  by (simp add: demo_asked_def demo_created_def task_record_ok_def lease_fields_ok_def
      retry_fields_ok_def demo_digests)

lemma demo_asked_transition:
  "transition demo_first demo_ask 0 = (demo_first\<lparr>st_tasks := [(''t1'', demo_asked)]\<rparr>,
     Inr \<lparr>trr_applied = True, trr_winner = demo_asked, trr_rejection = None\<rparr>)"
proof -
  have "classify_transition demo_created demo_ask 0 = None"
    by (simp add: decision_facts demo_ask_def demo_created_def TERMINAL_STATUSES_def)
  moreover have "apply_transition demo_created demo_ask = Inr demo_asked"
    using demo_asked_ok
    by (simp add: apply_transition_def demo_ask_def demo_asked_def demo_created_def revalidate_def)
  moreover have "require_task demo_first (tc_task_id demo_ask) = Inr demo_created"
    by (simp add: require_task_def demo_first_def demo_ask_def)
  ultimately show ?thesis
    using demo_asked_ok
    by (simp add: transition_def transition_result_ok_def)
      (simp add: demo_ask_def append_events_def demo_first_def empty_store_def)
qed

definition demo_answer :: conversation_submission where
  "demo_answer = demo_submission\<lparr>cs_envelope := demo_envelope\<lparr>re_idempotency_key := ''key-2''\<rparr>,
     cs_clarification_parent_task_id := Some ''t1''\<rparr>"

definition demo_second :: store_state where
  "demo_second = fst (create_clarification_child demo_env
     (demo_first\<lparr>st_tasks := [(''t1'', demo_asked)]\<rparr>) demo_answer ''ann'' 0 ''t2'')"

lemma demo_second_reachable: "(store_step demo_env 3)\<^sup>*\<^sup>* empty_store demo_second"
proof -
  have "store_step demo_env 3 empty_store demo_first"
    using store_stepI [of empty_store "OpCreate demo_submission ''t1''" demo_env 3]
    by (simp add: demo_create) (simp add: empty_store_def)
  moreover have "store_step demo_env 3 demo_first (demo_first\<lparr>st_tasks := [(''t1'', demo_asked)]\<rparr>)"
    using store_stepI [of demo_first "OpTransition demo_ask 0" demo_env 3]
    by (simp add: demo_asked_transition)
  moreover have "store_step demo_env 3 (demo_first\<lparr>st_tasks := [(''t1'', demo_asked)]\<rparr>) demo_second"
    using store_stepI [of "demo_first\<lparr>st_tasks := [(''t1'', demo_asked)]\<rparr>"
        "OpChild demo_answer ''ann'' 0 ''t2''" demo_env 3]
    by (simp add: demo_second_def)
  ultimately show ?thesis by (meson converse_rtranclp_into_rtranclp rtranclp.rtrancl_refl)
qed

lemma demo_second_child: "dget (st_submissions demo_second) ''t2'' = Some (ConversationSubmission demo_answer)"
proof -
  let ?s = "demo_first\<lparr>st_tasks := [(''t1'', demo_asked)]\<rparr>"
  have f: "cs_clarification_parent_task_id demo_answer = Some ''t1''"
    "cs_context demo_answer = demo_context" "context_matches_envelope (cs_envelope demo_answer) demo_context"
    "conversation_scope demo_answer = [''acme'', ''prod'', ''key-2'']"
    "re_idempotency_key (cs_envelope demo_answer) = ''key-2''"
    by (simp_all add: demo_answer_def demo_submission_def context_matches_envelope_def demo_envelope_def
        demo_context_def conversation_scope_def)
  obtain d where d: "request_dedup_digest demo_env (cs_envelope demo_answer) demo_context (Some ''t1'') = Inr d"
      "sha256_hex d"
    using request_dedup_digest_total [OF demo_env_ok] by blast
  obtain d' where d': "submission_digest demo_env (ConversationSubmission demo_answer) = Inr d'"
    using submission_digest_total [OF demo_env_ok] by blast
  have e: "existing_task_for_submission ?s demo_answer d = Inr None"
    by (simp add: existing_task_for_submission_def f) (simp add: demo_first_def)
  have u: "dget (st_tasks ?s) ''t1'' = Some demo_asked" "clarification_parent_is_usable demo_asked demo_answer ''ann''"
    "\<not> clarification_parent_is_consumed ?s ''t1''" "extend_selected_sql ?s demo_asked 0 = (?s, Inr ())"
    by (simp_all add: clarification_parent_is_usable_def f demo_asked_def demo_created_def demo_context_def
        clarification_parent_is_consumed_def demo_first_def dvals_def demo_submission_facts
        extend_selected_sql_def target_selection_sql_def empty_store_def)
  let ?r = "\<lparr>tr_task_id = ''t2'', tr_tenant_id = ''acme'', tr_environment_id = ''prod'',
      tr_actor = ''ann'', tr_idempotency_key = ''key-2'', tr_request_digest = d,
      tr_status = CREATED, tr_version = 0, tr_created_seq = 2,
      tr_attempt_number = 0, tr_task_failure_count = 0, tr_next_attempt_at = None,
      tr_retry_scheduled_by_attempt = None, tr_retry_command_digest = None, tr_lease_owner = None,
      tr_lease_expires_at = None, tr_fencing_token = None, tr_terminal_reason = None\<rparr>"
  have "strict_str ''key-2''" by (rule strict_strI) code_simp+
  then have ok: "task_record_ok ?r"
    using d(2) by (simp add: task_record_ok_def lease_fields_ok_def retry_fields_ok_def)
  have c: "rc_tenant_id demo_context = ''acme''" "rc_environment_id demo_context = ''prod''"
    "rc_actor demo_context = ''ann''" "st_next_created_seq ?s = 2"
    by (simp_all add: demo_context_def demo_first_def)
  have "st_submissions (fst (create_task_locked demo_env ?s demo_answer d ''t2'')) =
      dset ''t2'' (ConversationSubmission demo_answer) (st_submissions ?s)"
    unfolding create_task_locked_def insert_task_locked_def Let_def submission_context.simps f c
    by (simp add: ok d')
  then show ?thesis
    by (simp add: demo_second_def create_clarification_child_def f d(1) e u)
qed

theorem clarification_parent_consumed_once_witness:
  "{k. \<exists>b. dget (st_submissions demo_second) k = Some b \<and> is_child_of ''t1'' b} = {''t2''}"
proof -
  have p: "is_child_of ''t1'' (ConversationSubmission demo_answer)" by (simp add: demo_answer_def)
  show ?thesis
    using clarification_parent_consumed_once
      [OF demo_env_ok demo_second_reachable _ demo_second_child _ p] demo_second_child p by blast
qed

end
