(* ===== verification/Journal_Claims.thy ===== *)
theory Journal_Claims
  imports Task_Claims2
begin

text \<open>
  The properties of the step journal (\<open>begin_step_attempt\<close>, \<open>commit_step_result\<close>), of SQL hydration
  and of retries.
\<close>

subsection \<open>The step journal\<close>

text \<open>
  C6. The tool calls a task has reserved never exceed the budget of its stored plan: the attempt
  counts of its journal rows, over all steps and all attempts, stay within \<open>max_tool_calls\<close>.
\<close>

theorem tool_calls_within_budget:
  assumes "py_env_ok E" "(store_step E limit)\<^sup>*\<^sup>* empty_store s" "dget (st_plans s) k = Some p"
  shows "attempts_used s k \<le> pb_max_tool_calls (ep_budget (sp_plan p))"
proof -
  have "store_inv E s" using reachable_inv assms(1,2) by (simp add: run_inv_def)
  then have "execution_plan_ok (sp_plan p)" "attempts_used s k = 0 \<or> (\<exists>p. dget (st_plans s) k = Some p
      \<and> attempts_used s k \<le> pb_max_tool_calls (ep_budget (sp_plan p)))"
    using assms(3) by (auto simp: store_inv_def plans_wf_def budget_inv_def)
  with assms(3) show ?thesis by (auto simp: execution_plan_ok_def plan_budget_ok_def)
qed

theorem tool_calls_within_budget_witness:
  "attempts_used (fst (save_plan empty_store ''t1'' demo_stored_plan)) ''t1'' \<le> 2"
proof -
  have "store_step demo_env 3 empty_store (fst (save_plan empty_store ''t1'' demo_stored_plan))"
    using store_stepI [of empty_store "OpSavePlan ''t1'' demo_stored_plan" demo_env 3] demo_plan_ok
    by (simp add: demo_stored_plan_def)
  from tool_calls_within_budget [OF demo_env_ok one_reach [OF this], of "''t1''" demo_stored_plan]
  show ?thesis by (simp add: save_plan_def empty_store_def demo_stored_plan_def demo_plan_def)
qed

lemma reserved_row:
  "step_reserved s s' c r x \<Longrightarrow> dget (st_step_executions s') (tr_task_id r, sac_step_id c) = Some x"
  by (simp add: step_reserved_def)

text \<open>
  What a positive answer of \<open>commit_step_result\<close> says: the journal holds the row it names, with the
  digest of this command.
\<close>

lemma commit_answer:
  assumes "commit_step_result E s c now now' = (s', Inr res)" "scr_committed res"
  shows "\<exists>r x d. dget (st_tasks s) (tg_task_id (sc_grant c)) = Some r \<and> scr_record res = Some x
     \<and> dget (st_step_executions s') (tr_task_id r, sc_step_id c) = Some x \<and> se_result_status x \<noteq> None
     \<and> step_commit_digest E c = Inr d \<and> se_commit_digest x = Some d"
proof (cases "\<exists>d r y p. commit_ready E s c now d r y p")
  case True
  then obtain d r y p where rd: "commit_ready E s c now d r y p" by blast
  show ?thesis
  proof (cases "st_step_executions s' = st_step_executions s")
    case same: True
    have "\<not> step_committed E s s' c r' y' x'" for r' y' x'
      using same by (auto simp: step_committed_def)
        (metis dget_dset option.inject option.distinct(1))
    then show ?thesis
      using assms rd
      by (auto simp: commit_step_result_def commit_ready_def require_task_def step_commit_answer_def
          checked_Inr Let_def split: if_splits sum.splits dest: commit_step_result_effect)
  next
    case False
    then show ?thesis
      using commit_step_result_effect [OF assms(1)] by (auto simp: step_committed_def)
  qed
next
  case False
  then have "s' = s" using commit_not_ready [OF False, of now'] assms(1) by simp
  with assms False show ?thesis
    by (auto simp: commit_step_result_def commit_ready_def require_task_def step_commit_answer_def
        checked_Inr Let_def split: if_splits sum.splits option.splits)
qed

definition demo_row :: step_execution_record where
  "demo_row = \<lparr>se_task_id = ''t1'', se_step_id = ''step-1'', se_attempt_count = 1,
     se_last_fencing_token = 1, se_result_status = None, se_kind = None, se_evidence_id = None,
     se_commit_digest = None, se_started_at = 0, se_committed_at = None\<rparr>"

definition demo_commit :: step_commit_command where
  "demo_commit = \<lparr>sc_grant = demo_grant, sc_step_id = ''step-1'', sc_kind = KIND_MALFORMED_ADAPTER,
     sc_status = STEP_FAILED, sc_evidence = None, sc_audit_events = [demo_event]\<rparr>"

definition demo_begun :: store_state where
  "demo_begun = fst (begin_step_attempt demo_store \<lparr>sac_grant = demo_grant, sac_step_id = ''step-1''\<rparr> 0 0)"

lemma demo_grant_current: "grant_is_current demo_running demo_grant 0 {RUNNING} = None"
  by (simp add: decision_facts demo_running_facts demo_grant_def TERMINAL_STATUSES_def)

lemma demo_begun_eq: "demo_begun = demo_store\<lparr>st_step_executions := [((''t1'', ''step-1''), demo_row)]\<rparr>"
proof -
  have e: "st_step_executions demo_store = []" "dget (st_plans demo_store) ''t1'' = Some demo_stored_plan"
    "tg_task_id demo_grant = ''t1''" "tg_fencing_token demo_grant = 1" "attempts_used demo_store ''t1'' = 0"
    "sp_plan demo_stored_plan = demo_plan" "pb_max_tool_calls (ep_budget demo_plan) = 2"
    "''step-1'' \<in> ps_step_id ` set (ep_steps demo_plan)"
    by (simp_all add: demo_store_def empty_store_def demo_grant_def attempts_used_def demo_stored_plan_def
        demo_plan_def demo_step_def)
  have ok: "step_execution_record_ok demo_row"
    by (simp add: demo_row_def step_execution_record_ok_def)
  show ?thesis
    using ok [unfolded demo_row_def]
    by (simp add: demo_begun_def begin_step_attempt_def require_task_def demo_running_facts e
        demo_grant_current demo_row_def Let_def)
qed

lemma demo_begun_inv: "run_inv demo_env demo_begun"
proof -
  have "store_step demo_env 3 demo_store demo_begun"
    using store_stepI [of demo_store "OpBeginStep \<lparr>sac_grant = demo_grant, sac_step_id = ''step-1''\<rparr> 0 0"
        demo_env 3] by (simp add: demo_begun_def)
  then show ?thesis by (rule step_inv [OF demo_run_inv])
qed

definition demo_commit_digest :: string where
  "demo_commit_digest = projr (step_commit_digest demo_env demo_commit)"

lemma demo_commit_digest: "step_commit_digest demo_env demo_commit = Inr demo_commit_digest"
  "sha256_hex demo_commit_digest"
proof -
  have "is_ok (normalise (env_nfc demo_env) (dump_event demo_env demo_event))"
    unfolding dump_event_def
    by (rule normalise_obj_ok [OF demo_env_ok]) (simp_all add: demo_event_def opt_str_def opt_value_def obj_def)
  from sha256_of_total [OF demo_env_ok this]
  obtain d where "collect_digests demo_env (sc_audit_events demo_commit) = Inr [d]"
    by (auto simp: demo_commit_def)
  moreover have "\<exists>h. sha256_of demo_env (obj
        [(''status'', PStr (step_result_value (sc_status demo_commit))),
         (''kind'', PStr (step_outcome_kind_value (sc_kind demo_commit))),
         (''evidence'', opt_value (dump_evidence demo_env) (sc_evidence demo_commit)),
         (''audit'', PSeq (map PStr (sort [d])))]) = Inr h \<and> sha256_hex h"
    by (intro sha256_of_total [OF demo_env_ok] normalise_obj_ok [OF demo_env_ok])
      (simp_all add: demo_commit_def opt_value_def)
  ultimately have "\<exists>h. step_commit_digest demo_env demo_commit = Inr h \<and> sha256_hex h"
    by (simp add: step_commit_digest_def)
  then show "step_commit_digest demo_env demo_commit = Inr demo_commit_digest" "sha256_hex demo_commit_digest"
    by (auto simp: demo_commit_digest_def)
qed

definition demo_committed_row :: step_execution_record where
  "demo_committed_row = demo_row\<lparr>se_result_status := Some STEP_FAILED, se_kind := Some KIND_MALFORMED_ADAPTER,
     se_commit_digest := Some demo_commit_digest, se_committed_at := Some 0\<rparr>"

definition demo_committed :: store_state where
  "demo_committed = fst (commit_step_result demo_env demo_begun demo_commit 0 0)"

lemma demo_commit_facts:
  "sc_grant demo_commit = demo_grant" "tg_task_id demo_grant = ''t1''" "tg_fencing_token demo_grant = 1"
    "sc_step_id demo_commit = ''step-1''" "sc_evidence demo_commit = None"
    "sc_status demo_commit = STEP_FAILED" "sc_kind demo_commit = KIND_MALFORMED_ADAPTER"
    "dget (st_step_executions demo_begun) (''t1'', ''step-1'') = Some demo_row"
    "dget (st_tasks demo_begun) ''t1'' = Some demo_running"
    "dget (st_plans demo_begun) ''t1'' = Some demo_stored_plan"
    by (simp_all add: demo_commit_def demo_grant_def demo_begun_eq demo_running_facts)
      (simp add: demo_store_def)

lemma demo_commit_result:
  "commit_step_result demo_env demo_begun demo_commit 0 0 = (demo_committed,
     Inr \<lparr>scr_committed = True, scr_winner = demo_running, scr_record = Some demo_committed_row,
        scr_rejection = None\<rparr>)"
  "dget (st_step_executions demo_committed) (''t1'', ''step-1'') = Some demo_committed_row"
proof -
  have ok: "step_execution_record_ok demo_committed_row"
    by (simp add: demo_committed_row_def demo_row_def step_execution_record_ok_def demo_commit_digest)
  have row: "se_last_fencing_token demo_row = 1" "se_result_status demo_row = None"
    "\<lparr>se_task_id = se_task_id demo_row, se_step_id = se_step_id demo_row,
      se_attempt_count = se_attempt_count demo_row, se_last_fencing_token = 1,
      se_result_status = Some STEP_FAILED, se_kind = Some KIND_MALFORMED_ADAPTER, se_evidence_id = None,
      se_commit_digest = Some demo_commit_digest, se_started_at = se_started_at demo_row,
      se_committed_at = Some 0\<rparr> = demo_committed_row"
    by (simp_all add: demo_row_def demo_committed_row_def)
  show c: "commit_step_result demo_env demo_begun demo_commit 0 0 = (demo_committed,
     Inr \<lparr>scr_committed = True, scr_winner = demo_running, scr_record = Some demo_committed_row,
        scr_rejection = None\<rparr>)"
    by (simp add: demo_committed_def commit_step_result_def demo_commit_digest require_task_def demo_commit_facts
        demo_running_facts demo_grant_current row ok step_commit_answer_def step_commit_result_ok_def)
  show "dget (st_step_executions demo_committed) (''t1'', ''step-1'') = Some demo_committed_row"
    using commit_answer [OF c] by (simp add: demo_commit_facts demo_running_facts)
qed

lemma demo_committed_inv: "run_inv demo_env demo_committed"
proof -
  have "store_step demo_env 3 demo_begun demo_committed"
    using store_stepI [of demo_begun "OpCommit demo_commit 0 0" demo_env 3] by (simp add: demo_committed_def)
  then show ?thesis by (rule step_inv [OF demo_begun_inv])
qed

text \<open>
  A committed step is final: once its journal row carries a result, no operation of any
  worker, under any later grant, changes that row.
\<close>

theorem committed_step_is_final:
  assumes "run_inv E s" "(store_step E limit)\<^sup>*\<^sup>* s s'" "dget (st_step_executions s) k = Some x"
    "se_result_status x \<noteq> None"
  shows "dget (st_step_executions s') k = Some x"
  using run_journal_kept [OF assms(2,1)] assms(3,4) unfolding journal_kept_def by blast

theorem committed_step_is_final_witness:
  "dget (st_step_executions (fst (commit_step_result demo_env demo_committed
     (demo_commit\<lparr>sc_status := STEP_TIMEOUT\<rparr>) 0 0))) (''t1'', ''step-1'') = Some demo_committed_row"
proof (rule committed_step_is_final [OF demo_committed_inv one_reach demo_commit_result(2)])
  show "store_step demo_env 3 demo_committed (fst (commit_step_result demo_env demo_committed
     (demo_commit\<lparr>sc_status := STEP_TIMEOUT\<rparr>) 0 0))"
    using store_stepI [of demo_committed "OpCommit (demo_commit\<lparr>sc_status := STEP_TIMEOUT\<rparr>) 0 0" demo_env 3]
    by simp
qed (simp add: demo_committed_row_def)

text \<open>
  C5. A step is committed once. After a commit was accepted, any further accepted commit of the
  same step, by the same or a later attempt, has the same digest, is answered with the row of the
  first, and changes nothing in the store: no second evidence, no second audit event.
\<close>

theorem step_committed_once:
  assumes inv: "run_inv E s" and c: "commit_step_result E s c now now' = (s1, Inr res)" "scr_committed res"
    and run: "(store_step E limit)\<^sup>*\<^sup>* s1 s2"
    and same: "tg_task_id (sc_grant d) = tg_task_id (sc_grant c)" "sc_step_id d = sc_step_id c"
    and d: "commit_step_result E s2 d t t' = (s3, Inr res')" "scr_committed res'"
  shows "s3 = s2 \<and> scr_record res' = scr_record res \<and> step_commit_digest E d = step_commit_digest E c"
proof -
  have i1: "run_inv E s1"
    using step_inv [OF inv store_stepI [of s "OpCommit c now now'" E limit]] c(1) by simp
  then have i2: "run_inv E s2" using run task_fence.inv_steps by blast
  have tid: "run_inv E z \<Longrightarrow> dget (st_tasks z) k = Some r \<Longrightarrow> tr_task_id r = k" for z k r
    using tasks_inv_filed by (fastforce simp: run_inv_def store_inv_def task_filed_def)
  obtain r x dg where x: "dget (st_tasks s) (tg_task_id (sc_grant c)) = Some r" "scr_record res = Some x"
      "dget (st_step_executions s1) (tr_task_id r, sc_step_id c) = Some x" "se_result_status x \<noteq> None"
      "step_commit_digest E c = Inr dg" "se_commit_digest x = Some dg"
    using commit_answer [OF c] by blast
  let ?k = "(tg_task_id (sc_grant c), sc_step_id c)"
  have x2: "dget (st_step_executions s2) ?k = Some x"
    using run_journal_kept [OF run i1] x(3,4) tid [OF inv x(1)] unfolding journal_kept_def by fastforce
  have "\<nexists>dg r y p. commit_ready E s2 d t dg r y p"
    using x2 x(4) tid [OF i2] same by (auto simp: commit_ready_def)
  then have s3: "s3 = s2" using commit_not_ready [of E s2 d t t'] d(1) by simp
  obtain r' x' dg' where x': "dget (st_tasks s2) (tg_task_id (sc_grant d)) = Some r'"
      "scr_record res' = Some x'" "dget (st_step_executions s3) (tr_task_id r', sc_step_id d) = Some x'"
      "step_commit_digest E d = Inr dg'" "se_commit_digest x' = Some dg'"
    using commit_answer [OF d] by blast
  have "x' = x" using x'(3) x2 tid [OF i2 x'(1)] same s3 by simp
  then show ?thesis using s3 x x' by simp
qed

theorem step_committed_once_witness:
  "fst (commit_step_result demo_env demo_committed demo_commit 0 1) = demo_committed"
proof -
  obtain s3 res' where d: "commit_step_result demo_env demo_committed demo_commit 0 1 = (s3, Inr res')"
      "scr_committed res'"
  proof -
    have "frame_commit demo_begun demo_committed"
      using commit_step_result_effect [OF demo_commit_result(1)] by blast
    then have "dget (st_tasks demo_committed) ''t1'' = Some demo_running"
      by (simp add: frame_commit_def quiet_def demo_begun_eq demo_running_facts)
    then show ?thesis
      using that by (simp add: commit_step_result_def demo_commit_digest require_task_def
          demo_running_facts demo_grant_current demo_commit_result step_commit_answer_def
          step_commit_result_ok_def demo_commit_facts demo_committed_row_def demo_row_def)
  qed
  from step_committed_once [OF demo_begun_inv demo_commit_result(1) _ empty_reach refl refl d]
  show ?thesis using d by simp
qed

end
