(* ===== verification/Attempt_Claims.thy ===== *)
theory Attempt_Claims
  imports Journal_Claims
begin

text \<open>
  The properties of task attempts, of retries and of SQL hydration.
\<close>

subsection \<open>Attempts\<close>

text \<open>A granted attempt carries the store's next token and the record it produced.\<close>

lemma begin_attempt_grant:
  assumes "begin_task_attempt E limit s c now u = (s', Inr res)" "tar_grant res = Some g" "tasks_inv E s"
  shows "tg_task_id g = ta_task_id c \<and> tg_fencing_token g = st_next_fencing_token s
     \<and> st_next_fencing_token s' = st_next_fencing_token s + 1
     \<and> task_token s' (ta_task_id c) = Some (tg_fencing_token g)"
proof -
  obtain r where r: "dget (st_tasks s) (ta_task_id c) = Some r"
    using assms(1) by (auto simp: begin_task_attempt_def require_task_def split: option.splits)
  have t: "tr_task_id r = ta_task_id c"
    using tasks_inv_filed [OF assms(3) r] by (simp add: task_filed_def)
  have cl: "classify_task_attempt r (ta_intent c) now limit = None"
  proof (rule ccontr)
    assume "classify_task_attempt r (ta_intent c) now limit \<noteq> None"
    then show False
      using assms(1,2) r by (auto simp: begin_task_attempt_def require_task_def
          terminalize_attempt_rejection_def checked_Inr split: if_splits sum.splits)
  qed
  obtain sub where sub: "stored_submission_consistent E s r = Some sub"
    using assms(1,2) r cl by (auto simp: begin_task_attempt_def require_task_def
        terminalize_attempt_rejection_def checked_Inr split: option.splits sum.splits)
  show ?thesis
    using assms(1,2) r cl sub
    by (auto simp: begin_task_attempt_def require_task_def Let_def checked_Inr put_task_def
        task_token_def t split: sum.splits)
qed

text \<open>
  C4. Attempts exclude each other. Of two granted attempts the later one has the greater token,
  and once a later attempt of the same task was granted, the earlier grant is never current again,
  at whatever time and status it is presented.
\<close>

theorem attempts_are_exclusive:
  assumes inv: "run_inv E s"
    and a: "begin_task_attempt E limit s c now u = (s1, Inr res)" "tar_grant res = Some g"
    and run: "(store_step E limit)\<^sup>*\<^sup>* s1 s2"
    and b: "begin_task_attempt E limit s2 c' now' u' = (s3, Inr res')" "tar_grant res' = Some g'"
  shows "tg_fencing_token g < tg_fencing_token g'
     \<and> (ta_task_id c' = ta_task_id c \<longrightarrow> (store_step E limit)\<^sup>*\<^sup>* s3 s4 \<longrightarrow>
         dget (st_tasks s4) (tg_task_id g) = Some r \<longrightarrow> grant_is_current r g t sts \<noteq> None)"
proof -
  have st: "store_step E limit s s1" "store_step E limit s2 s3"
    using store_stepI [of s "OpBegin c now u" E limit] store_stepI [of s2 "OpBegin c' now' u'" E limit] a b
    by simp_all
  have i: "run_inv E s1" "run_inv E s2"
    using step_inv [OF inv st(1)] task_fence.inv_steps [OF run] by blast+
  have T: "tasks_inv E s" "tasks_inv E s2" using inv i by (simp_all add: run_inv_def store_inv_def)
  note A = begin_attempt_grant [OF a T(1)] and B = begin_attempt_grant [OF b T(2)]
  obtain x where x: "task_token s2 (tg_task_id g) = Some x" "tg_fencing_token g \<le> x"
    using task_fence.token_mono [OF run i(1)] A by metis
  then have lt: "tg_fencing_token g < tg_fencing_token g'"
    using task_fence.token_below [OF i(2) x(1)] B by simp
  have "grant_is_current r g t sts \<noteq> None"
    if "ta_task_id c' = ta_task_id c" "(store_step E limit)\<^sup>*\<^sup>* s3 s4" "dget (st_tasks s4) (tg_task_id g) = Some r"
  proof -
    have "(store_step E limit)\<^sup>*\<^sup>* s1 s3" using run st(2) by (rule rtranclp.rtrancl_into_rtrancl)
    moreover have "task_token s1 (tg_task_id g) = Some (tg_fencing_token g)" using A by simp
    moreover have "task_token s3 (tg_task_id g) \<noteq> Some (tg_fencing_token g)" using A B that(1) lt by simp
    ultimately have "task_token s4 (tg_task_id g) \<noteq> Some (tg_fencing_token g)"
      using task_fence.superseded_forever [OF _ that(2) i(1)] by blast
    with that(3) show ?thesis by (auto simp: task_token_def decision_facts)
  qed
  with lt show ?thesis by blast
qed

definition demo_take :: "string \<Rightarrow> task_attempt_command" where
  "demo_take owner = \<lparr>ta_task_id = ''t1'', ta_intent = INTENT_DISPATCH, ta_owner = owner,
     ta_ttl_seconds = 60, ta_trace_id = ''0123456789abcdef0123456789abcdef''\<rparr>"

lemma demo_first_inv: "run_inv demo_env demo_first"
proof -
  have "store_step demo_env 3 empty_store demo_first"
    using store_stepI [of empty_store "OpCreate demo_submission ''t1''" demo_env 3]
    by (simp add: demo_create) (simp add: empty_store_def)
  then show ?thesis by (rule step_inv [OF empty_run_inv])
qed

text \<open>The attempt of a consistent, free task is granted.\<close>

lemma begin_attempt_free:
  assumes "dget (st_tasks s) (ta_task_id c) = Some r" "classify_task_attempt r (ta_intent c) now limit = None"
    "tasks_inv E s" "task_attempt_command_ok c" "0 < st_next_fencing_token s"
  shows "\<exists>s' res g. begin_task_attempt E limit s c now u = (s', Inr res) \<and> tar_grant res = Some g
     \<and> dget (st_tasks s') (ta_task_id c) = Some (r\<lparr>tr_attempt_number := tr_attempt_number r + 1,
         tr_next_attempt_at := None, tr_lease_owner := Some (ta_owner c),
         tr_lease_expires_at := Some (now + seconds (ta_ttl_seconds c)),
         tr_fencing_token := Some (st_next_fencing_token s)\<rparr>)
     \<and> st_next_fencing_token s' = st_next_fencing_token s + 1"
proof -
  have f: "task_filed E s (ta_task_id c) r" using tasks_inv_filed assms(1,3) by blast
  then obtain sub where sub: "stored_submission_consistent E s r = Some sub"
      "submission_context_consistent sub" "tr_tenant_id r = rc_tenant_id (submission_context sub)"
      "tr_environment_id r = rc_environment_id (submission_context sub)"
      "tr_actor r = rc_actor (submission_context sub)"
    by (auto simp: task_filed_def stored_submission_consistent_def elim!: submission_matches_record.elims)
  let ?w = "r\<lparr>tr_attempt_number := tr_attempt_number r + 1, tr_next_attempt_at := None,
      tr_lease_owner := Some (ta_owner c), tr_lease_expires_at := Some (now + seconds (ta_ttl_seconds c)),
      tr_fencing_token := Some (st_next_fencing_token s)\<rparr>"
  have "task_record_ok ?w"
    using f assms(4,5) by (auto simp: task_filed_def task_record_ok_def lease_fields_ok_def
        retry_fields_ok_def task_attempt_command_ok_def)
  moreover have "0 \<le> tr_attempt_number r" using f by (simp add: task_filed_def task_record_ok_def)
  ultimately show ?thesis
    using f assms sub
    by (simp add: begin_task_attempt_def require_task_def Let_def put_task_def task_attempt_grant_ok_def
        lease_grant_ok_def task_attempt_command_ok_def task_attempt_result_ok_def task_filed_def)
qed

lemma demo_first_facts: "dget (st_tasks demo_first) ''t1'' = Some demo_created"
  "st_next_fencing_token demo_first = 1" "ta_task_id (demo_take o') = ''t1''"
  "ta_intent (demo_take o') = INTENT_DISPATCH" "ta_owner (demo_take o') = o'"
  "ta_ttl_seconds (demo_take o') = 60" "strict_str o' \<Longrightarrow> task_attempt_command_ok (demo_take o')"
  by (simp_all add: demo_first_def empty_store_def demo_take_def task_attempt_command_ok_def)

theorem attempts_are_exclusive_witness:
  "\<exists>s1 res g s3 res' g'. begin_task_attempt demo_env 3 demo_first (demo_take ''worker-a'') 0 ''e1'' = (s1, Inr res)
     \<and> tar_grant res = Some g
     \<and> begin_task_attempt demo_env 3 s1 (demo_take ''worker-b'') (seconds 61) ''e2'' = (s3, Inr res')
     \<and> tar_grant res' = Some g' \<and> tg_fencing_token g < tg_fencing_token g'"
proof -
  have T: "run_inv E z \<Longrightarrow> tasks_inv E z" for E z by (simp add: run_inv_def store_inv_def)
  have "classify_task_attempt demo_created (ta_intent (demo_take ''worker-a'')) 0 3 = None"
    by (simp add: decision_facts demo_take_def dispatch_statuses_def demo_created_def
        TERMINAL_STATUSES_def lease_is_live_def)
  with begin_attempt_free [OF _ _ T [OF demo_first_inv], of "demo_take ''worker-a''" demo_created 0 3 "''e1''"]
  obtain s1 res g where a: "begin_task_attempt demo_env 3 demo_first (demo_take ''worker-a'') 0 ''e1'' = (s1, Inr res)"
      "tar_grant res = Some g" "st_next_fencing_token s1 = 2"
      "dget (st_tasks s1) ''t1'' = Some (demo_created\<lparr>tr_attempt_number := tr_attempt_number demo_created + 1,
         tr_next_attempt_at := None, tr_lease_owner := Some ''worker-a'',
         tr_lease_expires_at := Some (0 + seconds 60), tr_fencing_token := Some 1\<rparr>)" (is "_ = Some ?r")
    by (auto simp: demo_first_facts)
  have i: "run_inv demo_env s1"
    using step_inv [OF demo_first_inv store_stepI [of demo_first "OpBegin (demo_take ''worker-a'') 0 ''e1''" demo_env 3]]
      a(1) by simp
  have "classify_task_attempt ?r (ta_intent (demo_take ''worker-b'')) (seconds 61) 3 = None"
    by (simp add: decision_facts demo_take_def dispatch_statuses_def demo_created_def
        TERMINAL_STATUSES_def lease_is_live_def seconds_def)
  with begin_attempt_free [OF _ _ T [OF i], of "demo_take ''worker-b''" ?r "seconds 61" 3 "''e2''"] a(3,4)
  obtain s3 res' g' where b: "begin_task_attempt demo_env 3 s1 (demo_take ''worker-b'') (seconds 61) ''e2'' = (s3, Inr res')"
      "tar_grant res' = Some g'"
    by (auto simp: demo_first_facts)
  show ?thesis
    using attempts_are_exclusive [OF demo_first_inv a(1,2) empty_reach b] a b by blast
qed

text \<open>
  C11. A free task can be claimed: when a task is in a status the intent may claim, its retry time
  has come, no lease is live and its failure limit is not reached, \<open>begin_task_attempt\<close> grants the
  attempt to the owner that asks, counts it, and stores the lease until the end of the requested time.
\<close>

theorem free_task_is_granted:
  assumes "run_inv E s" "0 < st_next_fencing_token s" "task_attempt_command_ok c"
    "dget (st_tasks s) (ta_task_id c) = Some r" "tr_status r \<in> attempt_statuses (ta_intent c)"
    "opt_all (\<lambda>t. t \<le> now) (tr_next_attempt_at r)" "\<not> lease_is_live r now"
    "tr_task_failure_count r < limit"
  shows "\<exists>s' res g. begin_task_attempt E limit s c now u = (s', Inr res) \<and> tar_grant res = Some g
     \<and> dget (st_tasks s') (ta_task_id c) = Some (r\<lparr>tr_attempt_number := tr_attempt_number r + 1,
         tr_next_attempt_at := None, tr_lease_owner := Some (ta_owner c),
         tr_lease_expires_at := Some (now + seconds (ta_ttl_seconds c)),
         tr_fencing_token := Some (st_next_fencing_token s)\<rparr>)
     \<and> st_next_fencing_token s' = st_next_fencing_token s + 1"
proof -
  have "tr_status r \<notin> TERMINAL_STATUSES"
    using assms(5) by (cases "ta_intent c") (auto simp: dispatch_statuses_def TERMINAL_STATUSES_def)
  then have "classify_task_attempt r (ta_intent c) now limit = None"
    using assms by (simp add: decision_facts)
  then show ?thesis
    using begin_attempt_free assms by (simp add: run_inv_def store_inv_def)
qed

theorem free_task_is_granted_witness:
  "\<exists>s' res g. begin_task_attempt demo_env 3 demo_first (demo_take ''worker-a'') 0 ''e1'' = (s', Inr res)
     \<and> tar_grant res = Some g"
  using free_task_is_granted [OF demo_first_inv, of "demo_take ''worker-a''" demo_created 0 3 "''e1''"]
  by (auto simp: demo_first_facts demo_created_def dispatch_statuses_def lease_is_live_def)

subsection \<open>Retries\<close>

lemma retry_scheduled_token:
  assumes "schedule_retry E s c now = (s', Inr res)" "rr_decision res = RD_SCHEDULED" "tasks_inv E s"
  shows "\<exists>r r'. task_update s s' (tg_task_id (rt_grant c)) r r' \<and> retry_scheduled E s s' c r r'
     \<and> grant_is_current r (rt_grant c) now {CREATED, PLANNING, RUNNING} = None"
proof (rule ccontr)
  assume n: "\<not> ?thesis"
  with schedule_retry_effect [OF assms(1,3)] have "s' = s" by blast
  have "st_next_fencing_token s' = st_next_fencing_token s + 1"
    using assms(1,2) by (auto simp: schedule_retry_def Let_def checked_Inr split: sum.splits if_splits)
  with \<open>s' = s\<close> show False by simp
qed

lemma retry_winner:
  assumes "schedule_retry E s c now = (s', Inr res)" "rr_decision res = RD_SCHEDULED" "tasks_inv E s"
  shows "dget (st_tasks s') (tg_task_id (rt_grant c)) = Some (rr_winner res)"
proof -
  obtain h r where h: "retry_command_digest E c = Inr h" "dget (st_tasks s) (tg_task_id (rt_grant c)) = Some r"
    using assms(1) by (auto simp: schedule_retry_def require_task_def split: sum.splits option.splits)
  then have t: "tr_task_id r = tg_task_id (rt_grant c)"
    using tasks_inv_filed [OF assms(3)] by (simp add: task_filed_def)
  have "\<exists>w. res = \<lparr>rr_decision = RD_SCHEDULED, rr_winner = w\<rparr> \<and> tr_task_id w = tr_task_id r
      \<and> st_tasks s' = st_tasks (put_task s w)"
    using assms(1,2) h by (auto simp: schedule_retry_def require_task_def Let_def checked_Inr
        split: sum.splits if_splits)
  with t show ?thesis by (auto simp: put_task_def)
qed

text \<open>
  A failed attempt is counted once. When \<open>schedule_retry\<close> was accepted for a grant, the same
  worker repeating it, with the same or another command, changes nothing however much ran in between;
  repeated at once, the same command is answered ALREADY_SCHEDULED and a different one
  COMMAND_MISMATCH.
\<close>

theorem retry_is_counted_once:
  assumes inv: "run_inv E s" and c: "schedule_retry E s c now = (s1, Inr res)" "rr_decision res = RD_SCHEDULED"
    and run: "(store_step E limit)\<^sup>*\<^sup>* s1 s2" and d: "rt_grant d = rt_grant c"
  shows "fst (schedule_retry E s2 d t) = s2
     \<and> snd (schedule_retry E s1 d t) = Inr \<lparr>rr_decision =
         (if retry_command_digest E d = retry_command_digest E c then RD_ALREADY_SCHEDULED
          else RD_COMMAND_MISMATCH), rr_winner = rr_winner res\<rparr>"
proof -
  let ?g = "rt_grant c"
  have T: "run_inv E z \<Longrightarrow> tasks_inv E z" for z by (simp add: run_inv_def store_inv_def)
  obtain r r' where u: "task_update s s1 (tg_task_id ?g) r r'" "retry_scheduled E s s1 c r r'"
      "grant_is_current r ?g now {CREATED, PLANNING, RUNNING} = None"
    using retry_scheduled_token [OF c T [OF inv]] by blast
  have st: "store_step E limit s s1"
    using store_stepI [of s "OpRetry c now" E limit] c by simp
  then have i1: "run_inv E s1" using step_inv inv by blast
  then have i2: "run_inv E s2" using task_fence.inv_steps run by blast
  have tok: "task_token s (tg_task_id ?g) = Some (tg_fencing_token ?g)"
    "task_token s1 (tg_task_id ?g) = Some (st_next_fencing_token s)"
    using u by (auto simp: task_token_def task_update_def decision_facts retry_scheduled_def)
  then have "task_token s1 (tg_task_id ?g) \<noteq> Some (tg_fencing_token ?g)"
    using task_fence.token_below [OF inv tok(1)] by simp
  then have "task_token s2 (tg_task_id ?g) \<noteq> Some (tg_fencing_token ?g)"
    using task_fence.superseded_forever [OF r_into_rtranclp [of "store_step E limit"] run inv tok(1)] st by blast
  then have "\<not> (task_update s2 s' (tg_task_id (rt_grant d)) q q' \<and> grant_is_current q (rt_grant d) t sts = None)"
    for s' q q' sts
    by (auto simp: d task_token_def task_update_def decision_facts)
  then have "fst (schedule_retry E s2 d t) = s2"
    using schedule_retry_effect [OF prod.collapse [symmetric] T [OF i2], of d t] by blast
  moreover obtain h where h: "retry_command_digest E c = Inr h" "tr_retry_command_digest r' = Some h"
      "tr_retry_scheduled_by_attempt r' = Some (tg_attempt_number ?g)"
      "tr_attempt_number r' = tg_attempt_number ?g" "tr_status r' = tr_status r"
    using u(2,3) by (auto simp: retry_scheduled_def decision_facts)
  moreover obtain hd where hd: "retry_command_digest E d = Inr hd"
    using retry_command_digest_total inv unfolding run_inv_def by blast
  moreover have "dget (st_tasks s1) (tg_task_id ?g) = Some r'" "tr_status r \<notin> TERMINAL_STATUSES"
    using u by (simp_all add: task_update_def decision_facts)
  moreover from this have "rr_winner res = r'"
    using retry_winner [OF c T [OF inv]] by simp
  ultimately show ?thesis
    by (simp add: schedule_retry_def require_task_def d)
qed

definition demo_retry :: retry_command where
  "demo_retry = \<lparr>rt_grant = demo_grant, rt_next_attempt_at = seconds 90,
     rt_reason = RR_UNCLASSIFIED_ERROR, rt_audit_events = [demo_event]\<rparr>"

lemma demo_retry_scheduled:
  "\<exists>s1 res. schedule_retry demo_env demo_store demo_retry 0 = (s1, Inr res) \<and> rr_decision res = RD_SCHEDULED"
proof -
  obtain h where h: "retry_command_digest demo_env demo_retry = Inr h" "sha256_hex h"
    using retry_command_digest_total [OF demo_env_ok] by blast
  let ?w = "demo_running\<lparr>tr_version := 3, tr_task_failure_count := 1,
      tr_next_attempt_at := Some (seconds 90), tr_retry_scheduled_by_attempt := Some 1,
      tr_retry_command_digest := Some h, tr_lease_expires_at := Some (seconds 90),
      tr_fencing_token := Some 2\<rparr>"
  have "task_record_ok ?w"
    using demo_records_ok(2) h(2) by (simp add: task_record_ok_def lease_fields_ok_def retry_fields_ok_def
        demo_running_facts)
  moreover have "tr_retry_scheduled_by_attempt demo_running = None" "tr_task_failure_count demo_running = 0"
    by (simp_all add: demo_running_def demo_created_def)
  moreover have "grant_is_current demo_running demo_grant 0 {CREATED, PLANNING, RUNNING} = None"
    by (simp add: decision_facts demo_running_facts demo_grant_def TERMINAL_STATUSES_def)
  moreover have "tg_task_id demo_grant = ''t1''" "tg_attempt_number demo_grant = 1" "rt_grant demo_retry = demo_grant"
    "rt_next_attempt_at demo_retry = seconds 90" "st_next_fencing_token demo_store = 2"
    by (simp_all add: demo_grant_def demo_retry_def demo_store_def)
  ultimately show ?thesis
    by (simp add: schedule_retry_def h(1) require_task_def demo_running_facts TERMINAL_STATUSES_def Let_def)
qed

theorem retry_is_counted_once_witness:
  "\<exists>s1 res. schedule_retry demo_env demo_store demo_retry 0 = (s1, Inr res) \<and> rr_decision res = RD_SCHEDULED
     \<and> schedule_retry demo_env s1 demo_retry 5
         = (s1, Inr \<lparr>rr_decision = RD_ALREADY_SCHEDULED, rr_winner = rr_winner res\<rparr>)"
proof -
  obtain s1 res where c: "schedule_retry demo_env demo_store demo_retry 0 = (s1, Inr res)"
      "rr_decision res = RD_SCHEDULED"
    using demo_retry_scheduled by blast
  from retry_is_counted_once [OF demo_run_inv c empty_reach refl, of 5] show ?thesis
    using c by (simp add: prod_eq_iff)
qed

subsection \<open>SQL hydration\<close>

lemma submitted_artifact:
  assumes E: "py_env_ok E" and u: "dget (st_tasks s) u = None"
    and c: "submit_sql_query E s c now ref u = (s', Inr res)" "sqr_outcome res = SQL_CREATED"
  shows "dget (st_sql_artifacts s') ref = Some \<lparr>sa_sql_ref = ref, sa_sql_hash = env_sha256 E (sq_sql_bytes c),
     sa_sql_bytes = Some (sq_sql_bytes c), sa_requester = rc_actor (sq_context c),
     sa_tenant_id = rc_tenant_id (sq_context c), sa_environment_id = rc_environment_id (sq_context c),
     sa_created_at = now, sa_expires_at = now + SQL_ARTIFACT_TTL, sa_purged_at = None\<rparr>"
proof -
  obtain d where d: "sql_request_dedup_digest E (sq_context c) (sq_sql_hash E c) (sq_idempotency_key c)
      = Inr d"
    using sql_request_dedup_digest_total [OF E] by blast
  show ?thesis
  proof (cases "dget (st_task_ids_by_key s) (sql_scope c)")
    case None
    let ?row = "\<lparr>sa_sql_ref = ref, sa_sql_hash = sq_sql_hash E c, sa_sql_bytes = Some (sq_sql_bytes c),
        sa_requester = rc_actor (sq_context c), sa_tenant_id = rc_tenant_id (sq_context c),
        sa_environment_id = rc_environment_id (sq_context c), sa_created_at = now,
        sa_expires_at = now + SQL_ARTIFACT_TTL, sa_purged_at = None\<rparr>"
    let ?s1 = "s\<lparr>st_sql_artifacts := dset ref ?row (st_sql_artifacts s)\<rparr>"
    let ?a = "\<lparr>as_context = sq_context c, as_as_of = sq_as_of c, as_sql_ref = ref,
        as_sql_hash = sq_sql_hash E c\<rparr>"
    obtain s2 o2 where ins: "insert_task_locked E ?s1 (ArtifactSubmission ?a) d (sq_idempotency_key c)
        (sql_scope c) u = (s2, o2)" by fastforce
    have "st_sql_artifacts s2 = st_sql_artifacts ?s1"
      using insert_task_effect [OF E ins] u None d by (auto simp: sql_scope_def)
    moreover have "s' = s2"
      using c None d ins
      by (auto simp: submit_sql_query_def Let_def classify_sql_submit_def revalidate_def
          split: if_splits sum.splits)
    ultimately show ?thesis by (simp add: sq_sql_hash_def)
  next
    case (Some k)
    then have False
      using c d by (auto simp: submit_sql_query_def Let_def classify_sql_submit_def revalidate_def
          split: option.splits if_splits)
    then show ?thesis ..
  qed
qed

text \<open>
  C12. SQL is hydrated only for its owner's current attempt and is what was submitted. Let
  \<open>submit_sql_query\<close> create a query under a fresh reference, let any operations of any workers follow,
  and let \<open>load_sql_for_execution\<close> answer for that reference. Then the bytes it returns are the bytes of
  that submission, the hash the caller named is their SHA-256, and the artifact still carries the actor,
  tenant and environment of the submission's context, which are those of the task of the grant; that
  grant is the current one of a running task; the artifact had not expired; and the only change of the
  store is that the artifact now lives at least another TTL.
\<close>

theorem hydrated_sql_is_authentic:
  assumes "run_inv E s0" "dget (st_tasks s0) u = None" "dget (st_sql_artifacts s0) ref = None"
    and "submit_sql_query E s0 c t0 ref u = (s1, Inr res)" "sqr_outcome res = SQL_CREATED"
    and "(store_step E limit)\<^sup>*\<^sup>* s1 s" "load_sql_for_execution s g ref h now = (s', Inr row)"
  shows "\<exists>r e. sa_sql_bytes row = Some (sq_sql_bytes c) \<and> h = env_sha256 E (sq_sql_bytes c)
     \<and> sa_sql_hash row = h \<and> sa_requester row = rc_actor (sq_context c)
     \<and> sa_tenant_id row = rc_tenant_id (sq_context c)
     \<and> sa_environment_id row = rc_environment_id (sq_context c) \<and> sa_created_at row = t0
     \<and> dget (st_tasks s) (tg_task_id g) = Some r \<and> grant_is_current r g now {RUNNING} = None
     \<and> sa_requester row = tr_actor r \<and> sa_tenant_id row = tr_tenant_id r
     \<and> sa_environment_id row = tr_environment_id r
     \<and> now < e \<and> e \<le> sa_expires_at row \<and> t0 + SQL_ARTIFACT_TTL \<le> e
     \<and> now + SQL_ARTIFACT_TTL \<le> sa_expires_at row
     \<and> dget (st_sql_artifacts s) ref = Some (row\<lparr>sa_expires_at := e\<rparr>)
     \<and> s' = s\<lparr>st_sql_artifacts := dset ref row (st_sql_artifacts s)\<rparr>"
proof -
  have E: "py_env_ok E" using assms(1) by (simp add: run_inv_def)
  obtain p where p: "dget (st_sql_artifacts s1) ref = Some p" "sa_sql_hash p = env_sha256 E (sq_sql_bytes c)"
      "sa_sql_bytes p = Some (sq_sql_bytes c)" "sa_requester p = rc_actor (sq_context c)"
      "sa_tenant_id p = rc_tenant_id (sq_context c)" "sa_environment_id p = rc_environment_id (sq_context c)"
      "sa_created_at p = t0" "sa_expires_at p = t0 + SQL_ARTIFACT_TTL"
    using submitted_artifact [OF E assms(2,4,5)] by simp
  have "store_step E limit s0 s1"
    using store_stepI [of s0 "OpSubmitSql c t0 ref u" E limit] assms(2-4) by simp
  then have "run_inv E s1" by (rule step_inv [OF assms(1)])
  then have "sql_extended s1 s" using run_kept assms(6) by blast
  then obtain q where q: "dget (st_sql_artifacts s) ref = Some q"
      "q = p\<lparr>sa_expires_at := sa_expires_at q\<rparr>" "sa_expires_at p \<le> sa_expires_at q"
    using p(1) unfolding sql_extended_def by blast
  obtain r where r: "dget (st_tasks s) (tg_task_id g) = Some r" "grant_is_current r g now {RUNNING} = None"
      "sa_sql_hash q = h" "sa_requester q = tr_actor r" "sa_tenant_id q = tr_tenant_id r"
      "sa_environment_id q = tr_environment_id r" "now < sa_expires_at q"
      "row = q\<lparr>sa_expires_at := extended_sql_expiry (sa_expires_at q) now\<rparr>"
      "s' = s\<lparr>st_sql_artifacts := dset ref row (st_sql_artifacts s)\<rparr>"
    using load_sql_effect [OF assms(7)] q(1) by auto
  have same: "sa_sql_hash q = sa_sql_hash p" "sa_sql_bytes q = sa_sql_bytes p"
      "sa_requester q = sa_requester p" "sa_tenant_id q = sa_tenant_id p"
      "sa_environment_id q = sa_environment_id p" "sa_created_at q = sa_created_at p"
    by (subst q(2), simp)+
  have "row\<lparr>sa_expires_at := sa_expires_at q\<rparr> = q" using r(8) by simp
  then show ?thesis
    using r q(1,3) p(2-8) same extended_sql_expiry_mono [where now = now]
    by (intro exI [of _ r] exI [of _ "sa_expires_at q"]) simp
qed

definition demo_query :: sql_query_submit_command where
  "demo_query = \<lparr>sq_context = demo_context, sq_sql_bytes = ''select 1'', sq_idempotency_key = ''key-sql'',
     sq_as_of = 0\<rparr>"

lemma demo_query_strings: "strict_str ''key-sql''" "strict_str ''ref2''"
  by (rule strict_strI; code_simp)+

lemma demo_query_submitted:
  "\<exists>s1 res. submit_sql_query demo_env demo_store demo_query 0 ''ref2'' ''t2'' = (s1, Inr res)
     \<and> sqr_outcome res = SQL_CREATED \<and> dget (st_tasks s1) ''t1'' = Some demo_running"
proof -
  obtain d where d: "sql_request_dedup_digest demo_env demo_context (sq_sql_hash demo_env demo_query) ''key-sql''
      = Inr d" "sha256_hex d"
    using sql_request_dedup_digest_total [OF demo_env_ok] by blast
  let ?a = "\<lparr>as_context = demo_context, as_as_of = 0, as_sql_ref = ''ref2'',
      as_sql_hash = sq_sql_hash demo_env demo_query\<rparr>"
  obtain d2 where d2: "submission_digest demo_env (ArtifactSubmission ?a) = Inr d2"
    using submission_digest_total [OF demo_env_ok] by blast
  have q: "sq_context demo_query = demo_context" "sq_idempotency_key demo_query = ''key-sql''"
    "sq_as_of demo_query = 0"
    by (simp_all add: demo_query_def)
  have x: "rc_tenant_id demo_context = ''acme''" "rc_environment_id demo_context = ''prod''"
    "rc_actor demo_context = ''ann''" "request_context_ok demo_context"
    by (simp_all add: demo_context_def request_context_ok_def)
  have h: "sha256_hex (sq_sql_hash demo_env demo_query)"
    using demo_sha256_ok by (simp add: sq_sql_hash_def demo_env_def)
  have n: "dget (st_task_ids_by_key demo_store) (sql_scope demo_query) = None"
    by (simp add: demo_store_def sql_scope_def q x)
  have a: "artifact_submission_ok ?a"
    using h x(4) demo_query_strings by (simp add: artifact_submission_ok_def)
  let ?t = "\<lparr>tr_task_id = ''t2'', tr_tenant_id = ''acme'', tr_environment_id = ''prod'', tr_actor = ''ann'',
      tr_idempotency_key = ''key-sql'', tr_request_digest = d, tr_status = CREATED, tr_version = 0,
      tr_created_seq = 2, tr_attempt_number = 0, tr_task_failure_count = 0, tr_next_attempt_at = None,
      tr_retry_scheduled_by_attempt = None, tr_retry_command_digest = None, tr_lease_owner = None,
      tr_lease_expires_at = None, tr_fencing_token = None, tr_terminal_reason = None\<rparr>"
  have t: "task_record_ok ?t"
    using d(2) demo_query_strings by (simp add: task_record_ok_def lease_fields_ok_def retry_fields_ok_def)
  have c: "st_next_created_seq demo_store = 2" "dget (st_tasks demo_store) ''t1'' = Some demo_running"
    by (simp_all add: demo_store_def)
  show ?thesis
    by (simp add: submit_sql_query_def Let_def q x n d(1) a classify_sql_submit_def revalidate_def
        sql_query_submit_result_ok_def insert_task_locked_def t d2 c)
qed

theorem hydrated_sql_is_authentic_witness:
  "\<exists>s1 res s' row. submit_sql_query demo_env demo_store demo_query 0 ''ref2'' ''t2'' = (s1, Inr res)
     \<and> load_sql_for_execution (fst (record_audit_event s1 demo_event)) demo_grant ''ref2''
         (demo_sha256 ''select 1'') 0 = (s', Inr row)
     \<and> sa_sql_bytes row = Some ''select 1'' \<and> sa_requester row = ''ann''"
proof -
  obtain s1 res where s1: "submit_sql_query demo_env demo_store demo_query 0 ''ref2'' ''t2'' = (s1, Inr res)"
      "sqr_outcome res = SQL_CREATED" "dget (st_tasks s1) ''t1'' = Some demo_running"
    using demo_query_submitted by blast
  have new: "dget (st_tasks demo_store) ''t2'' = None" "dget (st_sql_artifacts demo_store) ''ref2'' = None"
    by (simp_all add: demo_store_def)
  obtain p where p: "dget (st_sql_artifacts s1) ''ref2'' = Some p" "sa_sql_hash p = demo_sha256 ''select 1''"
      "sa_sql_bytes p = Some ''select 1''" "sa_requester p = ''ann''" "sa_tenant_id p = ''acme''"
      "sa_environment_id p = ''prod''" "sa_expires_at p = SQL_ARTIFACT_TTL" "sa_purged_at p = None"
    using submitted_artifact [OF demo_env_ok new(1) s1(1,2)]
    by (simp add: demo_query_def demo_context_def demo_env_def)
  let ?s = "fst (record_audit_event s1 demo_event)"
  have s: "dget (st_tasks ?s) ''t1'' = Some demo_running" "dget (st_sql_artifacts ?s) ''ref2'' = Some p"
    using s1(3) p(1) by (simp_all add: record_audit_event_def split: option.split prod.split)
  have "classify_sql_artifact_read (Some p) 0 ''ann'' ''acme'' ''prod'' (demo_sha256 ''select 1'') = SR_AVAILABLE"
    using p by (simp add: decision_facts SQL_ARTIFACT_TTL_def seconds_def)
  moreover have "tr_actor demo_running = ''ann''" "tr_tenant_id demo_running = ''acme''"
    "tr_environment_id demo_running = ''prod''" "tg_task_id demo_grant = ''t1''"
    by (simp_all add: demo_running_def demo_created_def demo_grant_def)
  ultimately obtain s' row where l: "load_sql_for_execution ?s demo_grant ''ref2''
      (demo_sha256 ''select 1'') 0 = (s', Inr row)"
    using s by (simp add: load_sql_for_execution_def require_task_def require_current_sql_grant_def
        demo_grant_current raise_for_sql_artifact_read_def Let_def)
  have "(store_step demo_env 3)\<^sup>*\<^sup>* s1 ?s" using demo_audit_step by (rule one_reach)
  from hydrated_sql_is_authentic [OF demo_run_inv new s1(1,2) this l] s1(1) l show ?thesis
    by (auto simp: demo_query_def demo_context_def)
qed

end
