(* ===== verification/Insert_Claims.thy ===== *)
theory Insert_Claims
  imports Task_Claims2
begin

text \<open>The properties of the stores that accept one fact per key.\<close>

text \<open>
  The stored plan of a task is final. Once a plan was saved, loading the task's plan gives
  an equal plan after any number of further saves, of this task or of others, accepted or refused.
\<close>

theorem stored_plan_is_final:
  assumes "plans_wf s" "execution_plan_ok (sp_plan p)" "save_plan s k p = (s1, Inr u)"
    "list_all (\<lambda>c. execution_plan_ok (sp_plan (snd c))) cs"
  shows "\<exists>q. load_plan (foldl (\<lambda>s c. fst (save_plan s (fst c) (snd c))) s1 cs) k = Inr q
     \<and> stored_plan_eq q p"
  using plan_store.accepted_forever [of s "(k, p)" s1 u cs] assms
  by (auto simp: plan_store.run_saves_def load_plan_def)

definition demo_plan_2 :: stored_plan where
  "demo_plan_2 = demo_stored_plan\<lparr>sp_plan := demo_plan\<lparr>ep_policy_revision := ''r2''\<rparr>\<rparr>"

theorem stored_plan_is_final_witness:
  "\<exists>q. load_plan (foldl (\<lambda>s c. fst (save_plan s (fst c) (snd c)))
       (fst (save_plan empty_store ''t1'' demo_stored_plan)) [(''t1'', demo_plan_2), (''t2'', demo_plan_2)])
       ''t1'' = Inr q
     \<and> stored_plan_eq q demo_stored_plan"
proof (rule stored_plan_is_final)
  show "plans_wf empty_store" by (simp add: plans_wf_def empty_store_def)
  show "execution_plan_ok (sp_plan demo_stored_plan)"
    using demo_plan_ok by (simp add: demo_stored_plan_def)
  show "save_plan empty_store ''t1'' demo_stored_plan
      = (fst (save_plan empty_store ''t1'' demo_stored_plan), Inr ())"
    by (simp add: save_plan_def empty_store_def)
  have "strict_str ''r2''" by (rule strict_strI) code_simp+
  then show "list_all (\<lambda>c. execution_plan_ok (sp_plan (snd c))) [(''t1'', demo_plan_2), (''t2'', demo_plan_2)]"
    using demo_plan_ok by (simp add: demo_plan_2_def execution_plan_ok_def)
qed

text \<open>
  The evidence ledger never loses or replaces evidence. Evidence that was appended is
  found under its id, equal to what was appended, after any further appends; an append with the same
  id and other contents is refused.
\<close>

theorem evidence_is_append_only:
  assumes "evidence_wf s" "evidence_envelope_ok e" "append_evidence s k e = (s1, Inr i)"
    "list_all (\<lambda>c. evidence_envelope_ok (snd c)) cs" "evidence_envelope_ok f"
    "ee_evidence_id f = ee_evidence_id e"
  shows "let s2 = foldl (\<lambda>s c. fst (append_evidence s (fst c) (snd c))) s1 cs in
     \<exists>v. get_evidence s2 k (ee_evidence_id e) = Inr v \<and> evidence_eq v e
       \<and> (is_ok (snd (append_evidence s2 k f)) \<longleftrightarrow> evidence_eq v f)"
proof -
  let ?s2 = "foldl (\<lambda>s c. fst (append_evidence s (fst c) (snd c))) s1 cs"
  obtain v where v: "evidence_at ?s2 (k, ee_evidence_id e) = Some v" "evidence_eq v e"
    using evidence_ledger.accepted_forever [of s "(k, e)" s1 i cs] assms(1-4)
    by (auto simp: evidence_ledger.run_saves_def)
  then show ?thesis
    using assms(6) append_evidence_ok [of ?s2 k f] by (auto simp: Let_def get_evidence_def evidence_at_def)
qed

definition demo_evidence :: "string \<Rightarrow> evidence_envelope" where
  "demo_evidence src = \<lparr>ee_evidence_id = ''t1:step-1'', ee_capability_id = ''cap'',
     ee_capability_version = ''v1'', ee_facts = [[(''rows'', SInt 3)]], ee_source = src,
     ee_source_kind = SRC_TOOL, ee_captured_at = 0, ee_readonly = True, ee_sampled = False,
     ee_limitations = [], ee_redaction_ref = None\<rparr>"

lemma demo_evidence_ok: "strict_str src \<Longrightarrow> evidence_envelope_ok (demo_evidence src)"
proof -
  have "strict_str ''t1:step-1''" by (rule strict_strI) code_simp+
  moreover have "strict_str ''rows''" by (rule strict_strI) code_simp+
  then have "frozen_map_ok [(''rows'', SInt 3)]"
    by (simp add: frozen_map_ok_def dict_ok_def)
  ultimately show "strict_str src \<Longrightarrow> ?thesis"
    by (simp add: demo_evidence_def evidence_envelope_ok_def)
qed

theorem evidence_is_append_only_witness:
  "\<exists>v. get_evidence (fst (append_evidence (fst (append_evidence empty_store ''t1'' (demo_evidence ''gw'')))
      ''t1'' (demo_evidence ''cap''))) ''t1'' ''t1:step-1'' = Inr v
    \<and> evidence_eq v (demo_evidence ''gw'')"
proof -
  have "evidence_wf empty_store"
    by (simp add: evidence_wf_def evidence_at_def evidence_bucket_def empty_store_def)
  moreover have "append_evidence empty_store ''t1'' (demo_evidence ''gw'') =
      (fst (append_evidence empty_store ''t1'' (demo_evidence ''gw'')), Inr ''t1:step-1'')"
    by (simp add: append_evidence_def Let_def evidence_bucket_def empty_store_def demo_evidence_def)
  ultimately show ?thesis
    using evidence_is_append_only [of empty_store "demo_evidence ''gw''" "''t1''" _ _
        "[(''t1'', demo_evidence ''cap'')]" "demo_evidence ''cap''"]
      demo_evidence_ok
    by (simp add: demo_evidence_def Let_def) blast
qed

text \<open>
  A task has one clarification record. Two candidates accepted for the same task,
  at any times and under any grants, with any saves in between, are the same question; each was
  accepted only from the holder of the task's current grant.
\<close>

theorem clarification_record_is_unique:
  assumes "save_clarification s g c now1 now1' = (s1, Inr r1)"
    "save_clarification (foldl (\<lambda>s (g, c, n, n'). fst (save_clarification s g c n n')) s1 cs) g' c' now2 now2'
       = (s3, Inr r2)"
    "tg_task_id g' = tg_task_id g"
  shows "c' = c \<and> (\<exists>t. dget (st_tasks s) (tg_task_id g) = Some t
     \<and> grant_is_current t g now1 {CREATED, PLANNING, RUNNING} = None)"
proof -
  have f: "(\<lambda>s (g, c, n, n'). fst (save_clarification s g c n n')) =
      (\<lambda>s c. fst (save_clarification s (fst c) (fst (snd c)) (fst (snd (snd c))) (snd (snd (snd c)))))"
    by (auto simp: fun_eq_iff)
  obtain v where "record_matches_candidate v c" "record_matches_candidate v c'"
    using clarification_store.accepted_agree
      [where s = s and c = "(g, c, now1, now1')" and d = "(g', c', now2, now2')" and ?s1.0 = s1
         and r = r1 and cs = cs and ?s2.0 = s3 and r' = r2] assms
    by (auto simp: clarification_store.run_saves_def f list_all_iff)
  then have "c' = c" by (simp add: record_matches_candidate_def)
  moreover have "\<exists>u. require_fact_grant (dget (st_tasks s) (tg_task_id g)) g now1
      {CREATED, PLANNING, RUNNING} = Inr u"
    using assms(1) by (auto simp: save_clarification_def split: sum.splits)
  ultimately show ?thesis using fact_grant_current by blast
qed

definition demo_question :: "interaction_kind \<Rightarrow> clarification_record_candidate" where
  "demo_question k = \<lparr>crc_subject = RouteSubject k [], crc_reason_code = CRC_INTERACTION_KIND_AMBIGUOUS,
     crc_missing_fields = [], crc_confirmed_slots = []\<rparr>"

lemma demo_question_saved:
  "\<exists>r. save_clarification demo_store demo_grant (demo_question IK_UNKNOWN) 0 1 =
     (demo_store\<lparr>st_clarification_records := [(''t1'', r)]\<rparr>, Inr r)
     \<and> record_matches_candidate r (demo_question IK_UNKNOWN)"
proof -
  have "grant_is_current demo_running demo_grant 0 {CREATED, PLANNING, RUNNING} = None"
    by (simp add: decision_facts demo_running_facts demo_grant_def TERMINAL_STATUSES_def)
  moreover have "tg_task_id demo_grant = ''t1''" "tg_fencing_token demo_grant = 1"
    "st_clarification_records demo_store = []"
    by (simp_all add: demo_grant_def demo_store_def empty_store_def)
  ultimately show ?thesis
    by (simp add: save_clarification_def require_fact_grant_def demo_running_facts revalidate_def
        clarification_record_ok_def demo_question_def slot_snapshot_ok_def
        target_selection_matches_reason_def record_matches_candidate_def)
qed

theorem clarification_record_is_unique_witness:
  "\<not> is_ok (snd (save_clarification (fst (save_clarification demo_store demo_grant
     (demo_question IK_UNKNOWN) 0 1)) demo_grant (demo_question IK_CONVERSATION) 2 3))"
proof
  obtain r where r: "save_clarification demo_store demo_grant (demo_question IK_UNKNOWN) 0 1 =
      (demo_store\<lparr>st_clarification_records := [(''t1'', r)]\<rparr>, Inr r)" (is "_ = (?s, _)")
    using demo_question_saved by blast
  assume "is_ok (snd (save_clarification (fst (save_clarification demo_store demo_grant
     (demo_question IK_UNKNOWN) 0 1)) demo_grant (demo_question IK_CONVERSATION) 2 3))"
  then obtain s3 r2 where "save_clarification ?s demo_grant (demo_question IK_CONVERSATION) 2 3 = (s3, Inr r2)"
    using r by (auto simp: is_ok_conv) (metis prod.collapse)
  then have "demo_question IK_CONVERSATION = demo_question IK_UNKNOWN"
    using clarification_record_is_unique [OF r, where cs = "[]" and g' = demo_grant] by simp
  then show False by (simp add: demo_question_def)
qed

end
