(* ===== verification/Contract_Claims.thy ===== *)
theory Contract_Claims
  imports Task_Claims2
begin

text \<open>
  The properties of canonical JSON and of the fingerprints, and of the stores that accept one fact
  per key.
\<close>

subsection \<open>Canonical JSON and fingerprints\<close>

text \<open>
  C25. Canonical JSON is canonical: two values that normalise have the same byte string exactly
  when their normal forms are the same JSON value up to the order of object keys. No two different
  values share a byte string, so hashing the bytes hashes the value.
\<close>

theorem canonical_json_is_canonical:
  assumes "py_env_ok E" "normalise (env_nfc E) v = Inr j" "normalise (env_nfc E) w = Inr k"
  shows "canonical_json E v = canonical_json E w \<longleftrightarrow> json_equiv j k"
  using canonical_json_eq_iff assms by blast

definition demo_object :: "bool \<Rightarrow> py_value" where
  "demo_object b = (if b then obj [(''b'', PInt 1), (''a'', PSeq [PFloat FNegZero, PNone])]
     else obj [(''a'', PSeq [PFloat (FFin 0), PNone]), (''b'', PInt 1)])"

theorem canonical_json_is_canonical_witness:
  "canonical_json demo_env (demo_object True) = canonical_json demo_env (demo_object False)"
proof -
  have n: "normalise (env_nfc demo_env) (demo_object True) =
      Inr (JObj [(''b'', JInt 1), (''a'', JArr [JFloat 0, JNull])])"
    "normalise (env_nfc demo_env) (demo_object False) =
      Inr (JObj [(''a'', JArr [JFloat 0, JNull]), (''b'', JInt 1)])"
    by (simp_all add: demo_object_def obj_def demo_env_def)
  have "json_equiv (JObj [(''b'', JInt 1), (''a'', JArr [JFloat 0, JNull])])
      (JObj [(''a'', JArr [JFloat 0, JNull]), (''b'', JInt 1)])"
    by simp
  with canonical_json_is_canonical [OF demo_env_ok n] show ?thesis by simp
qed

text \<open>
  C26. Approving a plan hash approves the plan: where SHA-256 does not collide on the two byte
  strings, plans with equal \<open>plan_hash\<close> agree on every field, up to Unicode NFC, the sign of a zero
  float and the order of argument dictionaries. A changed step, argument, condition, budget, policy
  or capability version changes the hash.
\<close>

theorem plan_hash_determines:
  assumes "py_env_ok E" "no_collision E (plan_payload p) (plan_payload q)"
    "compute_plan_hash E p = Inr h" "compute_plan_hash E q = Inr h"
  shows "canon_plan (env_nfc E) p = canon_plan (env_nfc E) q"
  using veq_plan [OF assms(1)] sha256_of_veq [OF assms(1,2)] assms(3,4)
  by (simp add: compute_plan_hash_def)

definition demo_plan_args :: "frozen_map \<Rightarrow> execution_plan" where
  "demo_plan_args m = demo_plan\<lparr>ep_steps := [(demo_step ''step-1'')\<lparr>ps_typed_arguments := m\<rparr>]\<rparr>"

lemma demo_bytes_equal:
  "canonical_json demo_env (plan_payload (demo_plan_args [(''a'', SInt 1), (''b'', SNull)])) =
   canonical_json demo_env (plan_payload (demo_plan_args [(''b'', SNull), (''a'', SInt 1)]))"
  "is_ok (canonical_json demo_env (plan_payload (demo_plan_args [(''b'', SNull), (''a'', SInt 1)])))"
  by code_simp+

theorem plan_hash_determines_witness:
  "canon_plan (env_nfc demo_env) (demo_plan_args [(''a'', SInt 1), (''b'', SNull)])
     = canon_plan (env_nfc demo_env) (demo_plan_args [(''b'', SNull), (''a'', SInt 1)])"
proof -
  obtain h where "compute_plan_hash demo_env (demo_plan_args [(''b'', SNull), (''a'', SInt 1)]) = Inr h"
      "compute_plan_hash demo_env (demo_plan_args [(''a'', SInt 1), (''b'', SNull)]) = Inr h"
    using demo_bytes_equal by (auto simp: compute_plan_hash_def sha256_of_def is_ok_conv)
  moreover have "no_collision demo_env (plan_payload (demo_plan_args [(''a'', SInt 1), (''b'', SNull)]))
      (plan_payload (demo_plan_args [(''b'', SNull), (''a'', SInt 1)]))"
    using demo_bytes_equal by (auto simp: no_collision_def is_ok_conv)
  ultimately show ?thesis using plan_hash_determines [OF demo_env_ok] by blast
qed

text \<open>
  Equal target fingerprints mean the same resolved target: tenant, environment, provider,
  resource kind, selector version and the same resources, in any order (under the same condition on
  SHA-256).
\<close>

theorem target_fingerprint_determines:
  assumes "py_env_ok E" "no_collision E (target_payload p) (target_payload q)"
    "compute_target_fingerprint E p = Inr h" "compute_target_fingerprint E q = Inr h"
  shows "canon_target (env_nfc E) p = canon_target (env_nfc E) q"
  using veq_target [OF assms(1)] sha256_of_veq [OF assms(1,2)] assms(3,4)
  by (simp add: compute_target_fingerprint_def)

lemma demo_target_bytes:
  "canonical_json demo_env (target_payload (demo_target\<lparr>rt_resource_ids := [''r1'', ''r2'']\<rparr>)) =
   canonical_json demo_env (target_payload (demo_target\<lparr>rt_resource_ids := [''r2'', ''r1'']\<rparr>))"
  "is_ok (canonical_json demo_env (target_payload (demo_target\<lparr>rt_resource_ids := [''r1'', ''r2'']\<rparr>)))"
  by code_simp+

theorem target_fingerprint_determines_witness:
  "canon_target (env_nfc demo_env) (demo_target\<lparr>rt_resource_ids := [''r1'', ''r2'']\<rparr>)
     = canon_target (env_nfc demo_env) (demo_target\<lparr>rt_resource_ids := [''r2'', ''r1'']\<rparr>)"
proof -
  obtain h where "compute_target_fingerprint demo_env (demo_target\<lparr>rt_resource_ids := [''r1'', ''r2'']\<rparr>) = Inr h"
      "compute_target_fingerprint demo_env (demo_target\<lparr>rt_resource_ids := [''r2'', ''r1'']\<rparr>) = Inr h"
    using demo_target_bytes by (auto simp: compute_target_fingerprint_def sha256_of_def is_ok_conv)
  moreover have "no_collision demo_env (target_payload (demo_target\<lparr>rt_resource_ids := [''r1'', ''r2'']\<rparr>))
      (target_payload (demo_target\<lparr>rt_resource_ids := [''r2'', ''r1'']\<rparr>))"
    using demo_target_bytes by (auto simp: no_collision_def is_ok_conv)
  ultimately show ?thesis using target_fingerprint_determines [OF demo_env_ok] by blast
qed

text \<open>
  Equal tool-call hashes mean the same call: gateway, operation, step, arguments, timeout and
  idempotency key (under the same condition on SHA-256).
\<close>

theorem tool_call_hash_determines:
  assumes "py_env_ok E" "no_collision E (tool_call_payload p) (tool_call_payload q)"
    "compute_tool_call_hash E p = Inr h" "compute_tool_call_hash E q = Inr h"
  shows "canon_call (env_nfc E) p = canon_call (env_nfc E) q"
  using veq_call [OF assms(1)] sha256_of_veq [OF assms(1,2)] assms(3,4)
  by (simp add: compute_tool_call_hash_def)

definition demo_call :: "py_float \<Rightarrow> tool_call" where
  "demo_call f = \<lparr>tc_gateway = ''gw'', tc_operation = ''op'', tc_step_id = ''step-1'', tc_typed_args = [],
     tc_timeout_seconds = f, tc_idempotency_key = ''key-1''\<rparr>"

lemma demo_call_bytes:
  "canonical_json demo_env (tool_call_payload (demo_call FNegZero)) =
   canonical_json demo_env (tool_call_payload (demo_call (FFin 0)))"
  "is_ok (canonical_json demo_env (tool_call_payload (demo_call (FFin 0))))"
  by code_simp+

theorem tool_call_hash_determines_witness:
  "canon_call (env_nfc demo_env) (demo_call FNegZero) = canon_call (env_nfc demo_env) (demo_call (FFin 0))"
proof -
  obtain h where "compute_tool_call_hash demo_env (demo_call FNegZero) = Inr h"
      "compute_tool_call_hash demo_env (demo_call (FFin 0)) = Inr h"
    using demo_call_bytes by (auto simp: compute_tool_call_hash_def sha256_of_def is_ok_conv)
  moreover have "no_collision demo_env (tool_call_payload (demo_call FNegZero))
      (tool_call_payload (demo_call (FFin 0)))"
    using demo_call_bytes by (auto simp: no_collision_def is_ok_conv)
  ultimately show ?thesis using tool_call_hash_determines [OF demo_env_ok] by blast
qed

end
