(* ===== verification/Governance_Contracts.thy ===== *)
theory Governance_Contracts
  imports Task_Contracts Fingerprints
begin

text \<open>
  Capability declarations (\<open>contracts/capability.py\<close>, \<open>capabilities/effect.py\<close>), policy profiles and
  decisions (\<open>contracts/policy.py\<close>, \<open>governance/policy.py\<close>), approval binding
  (\<open>governance/binding.py\<close>, \<open>governance/approval.py\<close>), and the mapping of product roles
  (\<open>governance/product_roles.py\<close>). Checks of a naive \<open>now\<close> have no counterpart: an instant is aware.
\<close>

subsection \<open>Enumerations\<close>

datatype risk_level = RISK_LOW | RISK_MEDIUM | RISK_HIGH

datatype policy_reason =
    ALLOWED | PROFILE_MISMATCH | OPERATION_NOT_ALLOWED | EFFECT_CLASS_NOT_ALLOWED
  | READ_CLASS_NOT_ALLOWED | ENVIRONMENT_MISMATCH | ENVIRONMENT_NOT_ALLOWED
  | TIMEOUT_EXCEEDS_PROFILE | TENANT_MISMATCH

fun policy_reason_value :: "policy_reason \<Rightarrow> string" where
  "policy_reason_value ALLOWED = ''policy.allowed''"
| "policy_reason_value PROFILE_MISMATCH = ''policy.profile_mismatch''"
| "policy_reason_value OPERATION_NOT_ALLOWED = ''policy.operation_not_allowed''"
| "policy_reason_value EFFECT_CLASS_NOT_ALLOWED = ''policy.effect_class_not_allowed''"
| "policy_reason_value READ_CLASS_NOT_ALLOWED = ''policy.read_class_not_allowed''"
| "policy_reason_value ENVIRONMENT_MISMATCH = ''policy.environment_mismatch''"
| "policy_reason_value ENVIRONMENT_NOT_ALLOWED = ''policy.environment_not_allowed''"
| "policy_reason_value TIMEOUT_EXCEEDS_PROFILE = ''policy.timeout_exceeds_profile''"
| "policy_reason_value TENANT_MISMATCH = ''policy.tenant_mismatch''"

text \<open>The lookup of a member by its value, \<open>PolicyReason(code)\<close>.\<close>

definition policy_reasons :: "policy_reason list" where
  "policy_reasons = [ALLOWED, PROFILE_MISMATCH, OPERATION_NOT_ALLOWED, EFFECT_CLASS_NOT_ALLOWED,
     READ_CLASS_NOT_ALLOWED, ENVIRONMENT_MISMATCH, ENVIRONMENT_NOT_ALLOWED,
     TIMEOUT_EXCEEDS_PROFILE, TENANT_MISMATCH]"

definition policy_reason_of :: "string \<Rightarrow> policy_reason option" where
  "policy_reason_of code = find (\<lambda>r. policy_reason_value r = code) policy_reasons"

datatype query_requirement = QR_NONE | QR_TEMPLATE_LOCKED | QR_CONFIRMED_ARTIFACT

datatype binding_rejection =
    PLAN_DRIFT | TARGET_DRIFT | POLICY_REVISION_DRIFT | APPROVAL_EXPIRED | APPROVAL_NOT_GRANTED

datatype sql_guard_rejection =
    SG_UNKNOWN_TEMPLATE | SG_UNKNOWN_DIALECT | SG_AMBIGUOUS_CHARACTER | SG_UNPARSABLE
  | SG_MULTIPLE_STATEMENTS | SG_NON_SELECT | SG_FORBIDDEN_NODE | SG_TABLE_NOT_ALLOWED
  | SG_COLUMN_NOT_ALLOWED | SG_STAR_NOT_ALLOWED | SG_COMMENT_PRESENT | SG_LIMIT_MISSING
  | SG_LIMIT_EXCEEDED | SG_WINDOW_UNBOUNDED | SG_WINDOW_MISMATCH | SG_WINDOW_TOO_WIDE
  | SG_RECOMPILE_MISMATCH | SG_HASH_MISMATCH | SG_HINT_PRESENT | SG_NOT_READONLY
  | SG_READONLY_STATEMENT_NOT_SUPPORTED | SG_EXTERNAL_CATALOG | SG_BLOCKED_RELATION
  | SG_TABLE_FUNCTION | SG_QUALIFIED_FUNCTION | SG_QUERY_REQUIREMENT_MISMATCH
  | SG_QUERY_BINDING_MISMATCH

datatype promql_guard_rejection =
    PG_UNKNOWN_TEMPLATE | PG_INVALID_ARGUMENTS | PG_RECOMPILE_MISMATCH | PG_INCOMPLETE_ENVELOPE
  | PG_ENVELOPE_CONFLICT | PG_SURFACE_MISSING

subsection \<open>Capability declarations\<close>

record operation_spec =
  os_operation :: string
  os_gateway :: string
  os_effect_class :: effect_class
  os_read_class :: "read_class option"
  os_side_effect :: bool
  os_argument_schema_ref :: string
  os_query_requirement :: query_requirement

definition operation_spec_ok :: "operation_spec \<Rightarrow> bool" where
  "operation_spec_ok s \<longleftrightarrow> strict_str (os_operation s) \<and> strict_str (os_gateway s)
     \<and> strict_str (os_argument_schema_ref s)
     \<and> os_side_effect s = (os_effect_class s \<noteq> READ)
     \<and> (if os_effect_class s = READ then os_read_class s \<noteq> None else os_read_class s = None)"

record capability_spec =
  cap_capability_id :: string
  cap_version :: string
  cap_domain :: string
  cap_input_schema_ref :: string
  cap_operations :: "operation_spec list"
  cap_policy_profile :: string
  cap_evidence_contract :: string
  cap_eval_ref :: string

definition capability_spec_ok :: "capability_spec \<Rightarrow> bool" where
  "capability_spec_ok c \<longleftrightarrow> strict_str (cap_capability_id c) \<and> strict_str (cap_version c)
     \<and> strict_str (cap_domain c) \<and> strict_str (cap_input_schema_ref c)
     \<and> list_all operation_spec_ok (cap_operations c) \<and> strict_str (cap_policy_profile c)
     \<and> strict_str (cap_evidence_contract c) \<and> strict_str (cap_eval_ref c)
     \<and> cap_operations c \<noteq> [] \<and> distinct (map os_operation (cap_operations c))"

record capability_snapshot =
  csn_snapshot_id :: string
  csn_specs :: "capability_spec list"

definition capability_snapshot_ok :: "capability_snapshot \<Rightarrow> bool" where
  "capability_snapshot_ok s \<longleftrightarrow> strict_str (csn_snapshot_id s) \<and> list_all capability_spec_ok (csn_specs s)
     \<and> distinct (map (\<lambda>c. (cap_capability_id c, cap_version c)) (csn_specs s))"

subsection \<open>Errors of the admission path\<close>

record policy_decision =
  pd_allow :: bool
  pd_reason_code :: string
  pd_risk :: risk_level
  pd_policy_revision :: string
  pd_obligations :: "string list"

datatype spec_error =
    OperationNotDeclared | CapabilityVersionMissing | EffectClassMismatch nat | SideEffectMismatch nat
  | ReadClassMismatch nat | CallGatewayMismatch

datatype admission_error =
    BindingError binding_rejection
  | SpecResolutionError spec_error
  | PolicyDeniedError policy_decision policy_reason
  | SqlGuardError sql_guard_rejection
  | PromqlGuardError promql_guard_rejection
  | ApprovalRequiredError string
  | AdmissionCanonError canon_error
  | AdmissionValueError

fun hashed :: "canon_error + string \<Rightarrow> admission_error + string" where
  "hashed (Inl e) = Inl (AdmissionCanonError e)"
| "hashed (Inr h) = Inr h"

lemma hashed_Inr [simp]: "hashed r = Inr h \<longleftrightarrow> r = Inr h"
  by (cases r) auto

subsection \<open>Effect classes are derived, never claimed\<close>

text \<open>The first specification with this id and version decides; its operations are searched once.\<close>

fun derive_from :: "capability_spec list \<Rightarrow> string \<Rightarrow> string \<Rightarrow> string \<Rightarrow> spec_error + operation_spec" where
  "derive_from [] cid ver op = Inl CapabilityVersionMissing"
| "derive_from (c # cs) cid ver op =
     (if cap_capability_id c \<noteq> cid \<or> cap_version c \<noteq> ver then derive_from cs cid ver op
      else case find (\<lambda>s. os_operation s = op) (cap_operations c) of
          Some s \<Rightarrow> Inr s
        | None \<Rightarrow> Inl OperationNotDeclared)"

definition derive_effect ::
  "capability_snapshot \<Rightarrow> string \<Rightarrow> string \<Rightarrow> string \<Rightarrow> spec_error + operation_spec" where
  "derive_effect snapshot capability_id capability_version operation =
     derive_from (csn_specs snapshot) capability_id capability_version operation"

definition always :: step_condition where
  "always = \<lparr>cond_kind = ALWAYS, cond_ref_step_id = None, cond_field = None, cond_threshold = None,
     cond_expected_result = None\<rparr>"

definition build_plan_step ::
  "capability_snapshot \<Rightarrow> string \<Rightarrow> string \<Rightarrow> string \<Rightarrow> string \<Rightarrow> frozen_map \<Rightarrow> string list
     \<Rightarrow> step_condition option \<Rightarrow> admission_error + plan_step" where
  "build_plan_step snapshot capability_id capability_version operation step_id typed_arguments
     depends_on condition =
     (case derive_effect snapshot capability_id capability_version operation of
        Inl e \<Rightarrow> Inl (SpecResolutionError e)
      | Inr declared \<Rightarrow>
          (case revalidate plan_step_ok
              \<lparr>ps_step_id = step_id, ps_operation = operation, ps_typed_arguments = typed_arguments,
               ps_depends_on = depends_on, ps_side_effect = os_side_effect declared,
               ps_effect_class = os_effect_class declared, ps_read_class = os_read_class declared,
               ps_condition = (case condition of None \<Rightarrow> always | Some c \<Rightarrow> c)\<rparr> of
             Inl e \<Rightarrow> Inl AdmissionValueError
           | Inr s \<Rightarrow> Inr s))"

fun verify_steps ::
  "capability_snapshot \<Rightarrow> string \<Rightarrow> string \<Rightarrow> nat \<Rightarrow> plan_step list \<Rightarrow> spec_error + unit" where
  "verify_steps snapshot cid ver index [] = Inr ()"
| "verify_steps snapshot cid ver index (step # steps) =
     (case derive_effect snapshot cid ver (ps_operation step) of
        Inl e \<Rightarrow> Inl e
      | Inr declared \<Rightarrow>
          if ps_effect_class step \<noteq> os_effect_class declared then Inl (EffectClassMismatch index)
          else if ps_side_effect step \<noteq> os_side_effect declared then Inl (SideEffectMismatch index)
          else if ps_read_class step \<noteq> os_read_class declared then Inl (ReadClassMismatch index)
          else verify_steps snapshot cid ver (Suc index) steps)"

definition verify_plan_effects :: "capability_snapshot \<Rightarrow> execution_plan \<Rightarrow> spec_error + unit" where
  "verify_plan_effects snapshot plan =
     verify_steps snapshot (ep_capability_id plan) (ep_capability_version plan) 0 (ep_steps plan)"

subsection \<open>Policy\<close>

record policy_profile =
  pp_profile_id :: string
  pp_allowed_operations :: "string list"
  pp_allowed_effect_classes :: "effect_class list"
  pp_allowed_read_classes :: "read_class list"
  pp_allowed_environment_ids :: "string list"
  pp_risk :: risk_level
  pp_max_timeout_seconds :: py_float

fun positive_float :: "py_float \<Rightarrow> bool" where
  "positive_float (FFin q) = (0 < q)"
| "positive_float f = False"

definition policy_profile_ok :: "policy_profile \<Rightarrow> bool" where
  "policy_profile_ok p \<longleftrightarrow> strict_str (pp_profile_id p)
     \<and> list_all strict_str (pp_allowed_operations p) \<and> list_all strict_str (pp_allowed_environment_ids p)
     \<and> positive_float (pp_max_timeout_seconds p)
     \<and> pp_allowed_operations p \<noteq> [] \<and> distinct (pp_allowed_operations p)
     \<and> pp_allowed_effect_classes p \<noteq> [] \<and> distinct (pp_allowed_effect_classes p)
     \<and> pp_allowed_environment_ids p \<noteq> [] \<and> distinct (pp_allowed_environment_ids p)
     \<and> (if READ \<in> set (pp_allowed_effect_classes p)
        then pp_allowed_read_classes p \<noteq> [] \<and> distinct (pp_allowed_read_classes p)
        else pp_allowed_read_classes p = [])"

record policy_snapshot =
  psn_policy_revision :: string
  psn_profiles :: "string list"

text \<open>Order of Python floats; every comparison with \<open>nan\<close> is false.\<close>

fun float_less :: "py_float \<Rightarrow> py_float \<Rightarrow> bool" where
  "float_less FNan b = False"
| "float_less a FNan = False"
| "float_less FInf b = False"
| "float_less a FNegInf = False"
| "float_less FNegInf b = True"
| "float_less a FInf = True"
| "float_less FNegZero FNegZero = False"
| "float_less FNegZero (FFin q) = (0 < q)"
| "float_less (FFin q) FNegZero = (q < 0)"
| "float_less (FFin p) (FFin q) = (p < q)"

text \<open>
  A decision is built from a validated profile and context, so its own validator cannot refuse it
  (\<open>decide_ok\<close> below).
\<close>

definition policy_decision_ok :: "policy_decision \<Rightarrow> bool" where
  "policy_decision_ok d \<longleftrightarrow> strict_str (pd_reason_code d) \<and> strict_str (pd_policy_revision d)
     \<and> list_all strict_str (pd_obligations d)"

definition decide :: "policy_profile \<Rightarrow> policy_reason \<Rightarrow> string \<Rightarrow> policy_decision" where
  "decide profile reason revision = \<lparr>pd_allow = (reason = ALLOWED),
     pd_reason_code = policy_reason_value reason, pd_risk = pp_risk profile,
     pd_policy_revision = revision, pd_obligations = []\<rparr>"

definition policy_verdict ::
  "policy_profile \<Rightarrow> execution_plan \<Rightarrow> tool_call \<Rightarrow> request_context \<Rightarrow> resolved_target \<Rightarrow> effect_class
     \<Rightarrow> read_class option \<Rightarrow> policy_reason" where
  "policy_verdict profile plan call context target effect_class read_class =
     (if ep_policy_profile plan \<noteq> pp_profile_id profile then PROFILE_MISMATCH
      else if rt_tenant_id target \<noteq> rc_tenant_id context then TENANT_MISMATCH
      else if rt_environment_id target \<noteq> rc_environment_id context then ENVIRONMENT_MISMATCH
      else if tc_operation call \<notin> set (pp_allowed_operations profile) then OPERATION_NOT_ALLOWED
      else if effect_class \<notin> set (pp_allowed_effect_classes profile) then EFFECT_CLASS_NOT_ALLOWED
      else if effect_class = READ \<and> read_class \<notin> Some ` set (pp_allowed_read_classes profile)
        then READ_CLASS_NOT_ALLOWED
      else if effect_class \<noteq> READ \<and> read_class \<noteq> None then READ_CLASS_NOT_ALLOWED
      else if rc_environment_id context \<notin> set (pp_allowed_environment_ids profile)
        then ENVIRONMENT_NOT_ALLOWED
      else if float_less (pp_max_timeout_seconds profile) (tc_timeout_seconds call)
        then TIMEOUT_EXCEEDS_PROFILE
      else ALLOWED)"

definition evaluate_tool_policy ::
  "policy_profile \<Rightarrow> execution_plan \<Rightarrow> tool_call \<Rightarrow> request_context \<Rightarrow> resolved_target \<Rightarrow> effect_class
     \<Rightarrow> read_class option \<Rightarrow> policy_decision" where
  "evaluate_tool_policy profile plan call context target effect_class read_class =
     decide profile (policy_verdict profile plan call context target effect_class read_class)
       (rc_policy_revision context)"

lemma decide_ok: "strict_str revision \<Longrightarrow> policy_decision_ok (decide profile reason revision)"
proof -
  have "strict_str (policy_reason_value reason)"
    by (cases reason) (simp_all, (rule strict_strI; code_simp)+)
  then show "strict_str revision \<Longrightarrow> ?thesis" by (simp add: decide_def policy_decision_ok_def)
qed

lemma policy_reason_of_value [simp]: "policy_reason_of (policy_reason_value r) = Some r"
  by (cases r) (simp_all add: policy_reason_of_def policy_reasons_def)

lemma allowed_verdict:
  "policy_verdict profile plan call context target e r = ALLOWED \<longleftrightarrow>
     ep_policy_profile plan = pp_profile_id profile \<and> rt_tenant_id target = rc_tenant_id context
     \<and> rt_environment_id target = rc_environment_id context
     \<and> tc_operation call \<in> set (pp_allowed_operations profile)
     \<and> e \<in> set (pp_allowed_effect_classes profile)
     \<and> (if e = READ then r \<in> Some ` set (pp_allowed_read_classes profile) else r = None)
     \<and> rc_environment_id context \<in> set (pp_allowed_environment_ids profile)
     \<and> \<not> float_less (pp_max_timeout_seconds profile) (tc_timeout_seconds call)"
  by (simp add: policy_verdict_def)

subsection \<open>Approval binding\<close>

definition verify_policy_revision :: "policy_snapshot \<Rightarrow> execution_plan \<Rightarrow> admission_error + unit" where
  "verify_policy_revision snapshot plan =
     (if ep_policy_revision plan \<noteq> psn_policy_revision snapshot
      then Inl (BindingError POLICY_REVISION_DRIFT)
      else if ep_policy_profile plan \<notin> set (psn_profiles snapshot)
      then Inl (BindingError POLICY_REVISION_DRIFT)
      else Inr ())"

definition verify_approval_binding ::
  "py_env \<Rightarrow> approval_request \<Rightarrow> execution_plan \<Rightarrow> resolved_target \<Rightarrow> instant \<Rightarrow> admission_error + unit" where
  "verify_approval_binding E approval plan target now =
     (if ar_expires_at approval \<le> now then Inl (BindingError APPROVAL_EXPIRED)
      else if ar_state approval \<noteq> AP_GRANTED then Inl (BindingError APPROVAL_NOT_GRANTED)
      else if ar_policy_revision approval \<noteq> ep_policy_revision plan
      then Inl (BindingError POLICY_REVISION_DRIFT)
      else case hashed (compute_plan_hash E plan) of
          Inl e \<Rightarrow> Inl e
        | Inr h \<Rightarrow>
            if ar_plan_hash approval \<noteq> h then Inl (BindingError PLAN_DRIFT)
            else case hashed (compute_target_fingerprint E target) of
                Inl e \<Rightarrow> Inl e
              | Inr t \<Rightarrow>
                  if ar_target_fingerprint approval \<noteq> t then Inl (BindingError TARGET_DRIFT)
                  else Inr ())"

definition approval_ref :: "string \<Rightarrow> string \<Rightarrow> string" where
  "approval_ref task_id step_id = task_id @ '':'' @ step_id"

type_synonym approval_gate =
  "string \<Rightarrow> plan_step \<Rightarrow> execution_plan \<Rightarrow> resolved_target \<Rightarrow> approval_request option \<Rightarrow> instant
     \<Rightarrow> admission_error + string"

text \<open>\<open>NeverGrantingApprovalGate.require\<close>, the only gate of the program.\<close>

definition never_granting_gate :: "py_env \<Rightarrow> approval_gate" where
  "never_granting_gate E task_id step plan target approval now =
     (case approval of
        None \<Rightarrow> Inl (ApprovalRequiredError (ps_step_id step))
      | Some a \<Rightarrow>
          if ar_task_id a \<noteq> task_id \<or> ar_step_id a \<noteq> ps_step_id step
          then Inl (BindingError PLAN_DRIFT)
          else case verify_approval_binding E a plan target now of
              Inl e \<Rightarrow> Inl e
            | Inr _ \<Rightarrow> Inr (approval_ref (ar_task_id a) (ar_step_id a)))"

subsection \<open>Product roles\<close>

datatype product_role = ROLE_ADMIN | ROLE_OPERATOR | ROLE_USER
datatype identity_source = SRC_FEISHU | SRC_LOCAL_ADMIN
datatype channel_permission = VIEW_SAFE_TASK | SUBMIT_READONLY_TASK | ADMIN_ALL_SAFE_TASKS
datatype admin_capability =
    MANAGE_USERS | MANAGE_DUTY_BINDINGS | VIEW_ADMIN_AUDIT | VIEW_PRIVATE_TASK_CONTENT
  | VIEW_INTEGRATION_STATUS | MANAGE_INTEGRATIONS | RUN_CONNECTION_TESTS

fun channel_permissions :: "product_role \<Rightarrow> channel_permission set" where
  "channel_permissions ROLE_ADMIN = {VIEW_SAFE_TASK, SUBMIT_READONLY_TASK, ADMIN_ALL_SAFE_TASKS}"
| "channel_permissions ROLE_OPERATOR = {VIEW_SAFE_TASK, SUBMIT_READONLY_TASK}"
| "channel_permissions ROLE_USER = {VIEW_SAFE_TASK}"

definition all_admin_capabilities :: "admin_capability set" where
  "all_admin_capabilities = {MANAGE_USERS, MANAGE_DUTY_BINDINGS, VIEW_ADMIN_AUDIT,
     VIEW_PRIVATE_TASK_CONTENT, VIEW_INTEGRATION_STATUS, MANAGE_INTEGRATIONS, RUN_CONNECTION_TESTS}"

definition local_admin_only :: "admin_capability set" where
  "local_admin_only = {MANAGE_INTEGRATIONS, RUN_CONNECTION_TESTS}"

definition admin_capabilities :: "product_role \<Rightarrow> identity_source \<Rightarrow> admin_capability set" where
  "admin_capabilities role source =
     (if role \<noteq> ROLE_ADMIN then {}
      else if source = SRC_LOCAL_ADMIN then all_admin_capabilities
      else all_admin_capabilities - local_admin_only)"

end
