(* ===== verification/Step_Admission.thy ===== *)
theory Step_Admission
  imports Governance_Contracts
begin

text \<open>
  The six stages of admission (\<open>governance/step_admission.py\<close>) and the certificate they end in
  (\<open>governance/admission.py\<close>, \<open>contracts/approval.py\<close>). The two query guards proper, \<open>verify_sql\<close> with
  the re-validation of its parameters and \<open>verify_confirmed_readonly\<close>, walk the syntax tree of the
  parser sqlglot, and \<open>verify_promql\<close> compiles a template: they are the argument \<open>guards\<close>, each a
  refusal or none. The approval gate is an argument as well, as it is in the code; its contract is
  the locale \<open>approval_contract\<close>.
\<close>

subsection \<open>Queries\<close>

record sql_surface =
  sf_surface_id :: string
  sf_dialect :: string
  sf_allowed_tables :: "string list"
  sf_allowed_columns :: "string list"
  sf_allowed_output_aliases :: "string list"
  sf_time_column :: string
  sf_max_row_limit :: int
  sf_max_window_minutes :: int

record promql_surface =
  pf_surface_id :: string
  pf_allowed_template_ids :: "string list"
  pf_max_window_minutes :: int
  pf_max_series :: int
  pf_max_points_per_series :: int

record qualified_relation =
  qr_database :: string
  qr_name :: string

record readonly_policy =
  rop_default_database :: string
  rop_blocked_relation_names :: "qualified_relation set"

record readonly_query_budget =
  rqb_preview_max_rows :: int
  rqb_preview_max_bytes :: int
  rqb_query_timeout_seconds :: int

definition readonly_query_budget_ok :: "readonly_query_budget \<Rightarrow> bool" where
  "readonly_query_budget_ok b \<longleftrightarrow> 1 \<le> rqb_preview_max_rows b \<and> rqb_preview_max_rows b \<le> 1000
     \<and> 1048576 \<le> rqb_preview_max_bytes b \<and> rqb_preview_max_bytes b \<le> 20971520
     \<and> 1 \<le> rqb_query_timeout_seconds b \<and> rqb_query_timeout_seconds b \<le> 180"

record hydrated_query =
  hq_sql_ref :: string
  hq_sql_hash :: string
  hq_sql_bytes :: string
  hq_resource_id :: string
  hq_target_fingerprint :: string
  hq_config_revision :: string
  hq_budget :: readonly_query_budget

definition hydrated_query_ok :: "py_env \<Rightarrow> hydrated_query \<Rightarrow> bool" where
  "hydrated_query_ok E q \<longleftrightarrow> hq_sql_ref q \<noteq> [] \<and> hq_resource_id q \<noteq> [] \<and> hq_config_revision q \<noteq> []
     \<and> sha256_hex (hq_sql_hash q) \<and> sha256_hex (hq_target_fingerprint q)
     \<and> env_sha256 E (hq_sql_bytes q) = hq_sql_hash q"

definition confirmed_artifact_arguments ::
  "string \<Rightarrow> string \<Rightarrow> string \<Rightarrow> string \<Rightarrow> string \<Rightarrow> readonly_query_budget \<Rightarrow> frozen_map" where
  "confirmed_artifact_arguments sql_ref sql_hash resource_id target_fingerprint config_revision budget =
     [(''sql_ref'', SStr sql_ref), (''sql_hash'', SStr sql_hash), (''resource_id'', SStr resource_id),
      (''target_fingerprint'', SStr target_fingerprint), (''config_revision'', SStr config_revision),
      (''preview_max_rows'', SInt (rqb_preview_max_rows budget)),
      (''preview_max_bytes'', SInt (rqb_preview_max_bytes budget)),
      (''query_timeout_seconds'', SInt (rqb_query_timeout_seconds budget))]"

definition tool_arguments :: "hydrated_query \<Rightarrow> frozen_map" where
  "tool_arguments q = confirmed_artifact_arguments (hq_sql_ref q) (hq_sql_hash q) (hq_resource_id q)
     (hq_target_fingerprint q) (hq_config_revision q) (hq_budget q)"

text \<open>Mappings compared by type and value (\<open>_strict_scalars\<close>): \<open>1\<close>, \<open>True\<close> and \<open>1.0\<close> differ.\<close>

fun strict_scalar_eq :: "json_scalar \<Rightarrow> json_scalar \<Rightarrow> bool" where
  "strict_scalar_eq (SFloat a) (SFloat b) = scalar_eq (SFloat a) (SFloat b)"
| "strict_scalar_eq a b = (a = b)"

definition strict_scalars_eq :: "frozen_map \<Rightarrow> frozen_map \<Rightarrow> bool" where
  "strict_scalars_eq m n \<longleftrightarrow> length m = length n
     \<and> list_all (\<lambda>p. case dget n (fst p) of None \<Rightarrow> False | Some v \<Rightarrow> strict_scalar_eq (snd p) v) m"

subsection \<open>The query stage\<close>

text \<open>
  The guards: \<open>guard_template arguments sql template_id surface\<close> restores the parameters from the
  step's arguments and verifies the SQL; \<open>guard_readonly bytes hash policy\<close> proves confirmed SQL
  read-only; \<open>guard_promql arguments promql template_id surface\<close>.
\<close>

record query_guards =
  guard_template :: "frozen_map \<Rightarrow> string \<Rightarrow> string \<Rightarrow> sql_surface \<Rightarrow> admission_error option"
  guard_readonly :: "string \<Rightarrow> string \<Rightarrow> readonly_policy \<Rightarrow> admission_error option"
  guard_promql :: "frozen_map \<Rightarrow> string \<Rightarrow> string \<Rightarrow> promql_surface \<Rightarrow> admission_error option"

fun refuse :: "admission_error option \<Rightarrow> admission_error + unit" where
  "refuse (Some e) = Inl e"
| "refuse None = Inr ()"

lemma refuse_Inr [simp]: "refuse r = Inr u \<longleftrightarrow> r = None"
  by (cases r) auto

definition verify_confirmed_artifact ::
  "py_env \<Rightarrow> query_guards \<Rightarrow> plan_step \<Rightarrow> tool_call \<Rightarrow> resolved_target \<Rightarrow> hydrated_query \<Rightarrow> readonly_policy
     \<Rightarrow> admission_error + unit" where
  "verify_confirmed_artifact E guards step call target hydrated policy =
     (let expected = tool_arguments hydrated in
      if \<not> strict_scalars_eq (ps_typed_arguments step) expected
      then Inl (SqlGuardError SG_QUERY_BINDING_MISMATCH)
      else if \<not> strict_scalars_eq (tc_typed_args call) expected
      then Inl (SqlGuardError SG_QUERY_BINDING_MISMATCH)
      else if rt_resource_ids target \<noteq> [hq_resource_id hydrated]
      then Inl (SqlGuardError SG_QUERY_BINDING_MISMATCH)
      else case hashed (compute_target_fingerprint E target) of
          Inl e \<Rightarrow> Inl e
        | Inr fingerprint \<Rightarrow>
            if fingerprint \<noteq> hq_target_fingerprint hydrated
            then Inl (SqlGuardError SG_QUERY_BINDING_MISMATCH)
            else refuse (guard_readonly guards (hq_sql_bytes hydrated) (hq_sql_hash hydrated) policy))"

definition has_arg :: "plan_step \<Rightarrow> string \<Rightarrow> bool" where
  "has_arg step key \<longleftrightarrow> dget (ps_typed_arguments step) key \<noteq> None"

fun str_arg :: "json_scalar option \<Rightarrow> string option" where
  "str_arg (Some (SStr s)) = Some s"
| "str_arg _ = None"

definition verify_sql_envelope ::
  "query_guards \<Rightarrow> plan_step \<Rightarrow> sql_surface option \<Rightarrow> admission_error + unit" where
  "verify_sql_envelope guards step sql_surface =
     (case (str_arg (dget (ps_typed_arguments step) ''sql''),
            str_arg (dget (ps_typed_arguments step) ''sql_template_id'')) of
        (Some sql, Some template_id) \<Rightarrow>
          (case sql_surface of
             None \<Rightarrow> Inl (SqlGuardError SG_UNKNOWN_TEMPLATE)
           | Some surface \<Rightarrow> refuse (guard_template guards (ps_typed_arguments step) sql template_id surface))
      | _ \<Rightarrow> Inl (SqlGuardError SG_UNKNOWN_TEMPLATE))"

definition verify_promql_envelope ::
  "query_guards \<Rightarrow> plan_step \<Rightarrow> promql_surface option \<Rightarrow> admission_error + unit" where
  "verify_promql_envelope guards step promql_surface =
     (case (str_arg (dget (ps_typed_arguments step) ''promql''),
            str_arg (dget (ps_typed_arguments step) ''promql_template_id'')) of
        (Some promql, Some template_id) \<Rightarrow>
          (case promql_surface of
             None \<Rightarrow> Inl (PromqlGuardError PG_SURFACE_MISSING)
           | Some surface \<Rightarrow> refuse (guard_promql guards (ps_typed_arguments step) promql template_id surface))
      | _ \<Rightarrow> Inl (PromqlGuardError PG_INVALID_ARGUMENTS))"

definition verify_step_query ::
  "py_env \<Rightarrow> query_guards \<Rightarrow> plan_step \<Rightarrow> tool_call \<Rightarrow> resolved_target \<Rightarrow> query_requirement
     \<Rightarrow> sql_surface option \<Rightarrow> promql_surface option \<Rightarrow> hydrated_query option \<Rightarrow> readonly_policy option
     \<Rightarrow> admission_error + unit" where
  "verify_step_query E guards step call target requirement sql_surface promql_surface hydrated policy =
     (let sql = has_arg step ''sql''; sql_t = has_arg step ''sql_template_id'';
          prom = has_arg step ''promql''; prom_t = has_arg step ''promql_template_id''
      in if (sql \<or> sql_t) \<and> \<not> (sql \<and> sql_t) then Inl (SqlGuardError SG_UNKNOWN_TEMPLATE)
      else if (prom \<or> prom_t) \<and> \<not> (prom \<and> prom_t) then Inl (PromqlGuardError PG_INCOMPLETE_ENVELOPE)
      else if sql \<and> sql_t \<and> prom \<and> prom_t then Inl (PromqlGuardError PG_ENVELOPE_CONFLICT)
      else if requirement = QR_CONFIRMED_ARTIFACT then
        (case (hydrated, policy) of
           (Some q, Some pol) \<Rightarrow>
             if sql \<or> sql_t \<or> prom \<or> prom_t then Inl (SqlGuardError SG_QUERY_REQUIREMENT_MISMATCH)
             else verify_confirmed_artifact E guards step call target q pol
         | _ \<Rightarrow> Inl (SqlGuardError SG_QUERY_REQUIREMENT_MISMATCH))
      else if hydrated \<noteq> None then Inl (SqlGuardError SG_QUERY_REQUIREMENT_MISMATCH)
      else if requirement = QR_TEMPLATE_LOCKED \<and> \<not> (sql \<or> sql_t)
      then Inl (SqlGuardError SG_QUERY_REQUIREMENT_MISMATCH)
      else if requirement = QR_NONE \<and> (sql \<or> sql_t)
      then Inl (SqlGuardError SG_QUERY_REQUIREMENT_MISMATCH)
      else if \<not> (sql \<or> sql_t) \<and> \<not> (prom \<or> prom_t) then Inr ()
      else if sql \<and> sql_t then verify_sql_envelope guards step sql_surface
      else verify_promql_envelope guards step promql_surface)"

subsection \<open>Certificates\<close>

text \<open>
  An \<open>AdmissionCertificate\<close>. Its construction needs the module's witness object, so the only
  values of the type are those of \<open>issue_admission_certificate\<close>.
\<close>

record admission_certificate =
  ac_step_id :: string
  ac_operation :: string
  ac_effect_class :: effect_class
  ac_policy_decision :: policy_decision
  ac_approval_ref :: "string option"
  ac_plan_hash :: string
  ac_target_fingerprint :: string
  ac_tool_call_hash :: string

definition admission_certificate_ok :: "admission_certificate \<Rightarrow> bool" where
  "admission_certificate_ok c \<longleftrightarrow> strict_str (ac_step_id c) \<and> strict_str (ac_operation c)
     \<and> policy_decision_ok (ac_policy_decision c) \<and> opt_all strict_str (ac_approval_ref c)
     \<and> sha256_hex (ac_plan_hash c) \<and> sha256_hex (ac_target_fingerprint c) \<and> sha256_hex (ac_tool_call_hash c)"

definition issue_admission_certificate ::
  "py_env \<Rightarrow> tool_call \<Rightarrow> request_context \<Rightarrow> policy_decision \<Rightarrow> effect_class \<Rightarrow> string \<Rightarrow> string
     \<Rightarrow> string option \<Rightarrow> admission_error + admission_certificate" where
  "issue_admission_certificate E call context decision effect_class plan_hash target_fingerprint ref =
     (if pd_policy_revision decision \<noteq> rc_policy_revision context
      then Inl (BindingError POLICY_REVISION_DRIFT)
      else case hashed (compute_tool_call_hash E call) of
          Inl e \<Rightarrow> Inl e
        | Inr h \<Rightarrow>
            (case revalidate admission_certificate_ok
                \<lparr>ac_step_id = tc_step_id call, ac_operation = tc_operation call,
                 ac_effect_class = effect_class, ac_policy_decision = decision, ac_approval_ref = ref,
                 ac_plan_hash = plan_hash, ac_target_fingerprint = target_fingerprint,
                 ac_tool_call_hash = h\<rparr> of
               Inl e \<Rightarrow> Inl AdmissionValueError
             | Inr c \<Rightarrow> Inr c))"

subsection \<open>Admission\<close>

text \<open>What one admission is asked about; the fields are the keyword arguments of \<open>admit_step\<close>.\<close>

record admission_request =
  aq_step :: plan_step
  aq_plan :: execution_plan
  aq_call :: tool_call
  aq_context :: request_context
  aq_target :: resolved_target
  aq_snapshot :: capability_snapshot
  aq_policy_snapshot :: policy_snapshot
  aq_profile :: policy_profile
  aq_sql_surface :: "sql_surface option"
  aq_promql_surface :: "promql_surface option"
  aq_for_task :: string
  aq_now :: instant
  aq_approval :: "approval_request option"
  aq_hydrated :: "hydrated_query option"
  aq_readonly_policy :: "readonly_policy option"

definition spec_checked :: "spec_error + 'a \<Rightarrow> admission_error + 'a" where
  "spec_checked r = (case r of Inl e \<Rightarrow> Inl (SpecResolutionError e) | Inr a \<Rightarrow> Inr a)"

definition declared_effect :: "admission_request \<Rightarrow> spec_error + operation_spec" where
  "declared_effect r = derive_effect (aq_snapshot r) (ep_capability_id (aq_plan r))
     (ep_capability_version (aq_plan r)) (ps_operation (aq_step r))"

definition request_decision :: "admission_request \<Rightarrow> operation_spec \<Rightarrow> policy_decision" where
  "request_decision r declared = evaluate_tool_policy (aq_profile r) (aq_plan r) (aq_call r)
     (aq_context r) (aq_target r) (os_effect_class declared) (os_read_class declared)"

definition request_approval ::
  "approval_gate \<Rightarrow> admission_request \<Rightarrow> operation_spec \<Rightarrow> admission_error + string option" where
  "request_approval gate r declared =
     (if os_side_effect declared
      then case gate (aq_for_task r) (aq_step r) (aq_plan r) (aq_target r) (aq_approval r) (aq_now r) of
          Inl e \<Rightarrow> Inl e
        | Inr ref \<Rightarrow> Inr (Some ref)
      else Inr None)"

definition request_certificate ::
  "py_env \<Rightarrow> admission_request \<Rightarrow> operation_spec \<Rightarrow> policy_decision \<Rightarrow> string option
     \<Rightarrow> admission_error + admission_certificate" where
  "request_certificate E r declared decision ref =
     (case hashed (compute_plan_hash E (aq_plan r)) of
        Inl e \<Rightarrow> Inl e
      | Inr plan_hash \<Rightarrow>
          (case hashed (compute_target_fingerprint E (aq_target r)) of
             Inl e \<Rightarrow> Inl e
           | Inr fingerprint \<Rightarrow>
               issue_admission_certificate E (aq_call r) (aq_context r) decision
                 (os_effect_class declared) plan_hash fingerprint ref))"

definition admit_step ::
  "py_env \<Rightarrow> query_guards \<Rightarrow> approval_gate \<Rightarrow> admission_request \<Rightarrow> admission_error + admission_certificate" where
  "admit_step E guards gate r =
     (case verify_policy_revision (aq_policy_snapshot r) (aq_plan r) of
        Inl e \<Rightarrow> Inl e
      | Inr _ \<Rightarrow>
     (case spec_checked (verify_plan_effects (aq_snapshot r) (aq_plan r)) of
        Inl e \<Rightarrow> Inl e
      | Inr _ \<Rightarrow>
     (case spec_checked (declared_effect r) of
        Inl e \<Rightarrow> Inl e
      | Inr declared \<Rightarrow>
     if tc_gateway (aq_call r) \<noteq> os_gateway declared
     then Inl (SpecResolutionError CallGatewayMismatch)
     else let decision = request_decision r declared in
     if \<not> pd_allow decision
     then (case policy_reason_of (pd_reason_code decision) of
         None \<Rightarrow> Inl AdmissionValueError
       | Some reason \<Rightarrow> Inl (PolicyDeniedError decision reason))
     else
     (case verify_step_query E guards (aq_step r) (aq_call r) (aq_target r)
         (os_query_requirement declared) (aq_sql_surface r) (aq_promql_surface r) (aq_hydrated r)
         (aq_readonly_policy r) of
        Inl e \<Rightarrow> Inl e
      | Inr _ \<Rightarrow>
     (case request_approval gate r declared of
        Inl e \<Rightarrow> Inl e
      | Inr ref \<Rightarrow> request_certificate E r declared decision ref)))))"

subsection \<open>What admission establishes\<close>

lemma derive_from_mem:
  assumes "derive_from cs cid ver op = Inr d"
  shows "\<exists>c \<in> set cs. d \<in> set (cap_operations c)"
  using assms
proof (induction cs)
  case (Cons c cs)
  show ?case
  proof (cases "cap_capability_id c \<noteq> cid \<or> cap_version c \<noteq> ver")
    case False
    then have "find (\<lambda>s. os_operation s = op) (cap_operations c) = Some d"
      using Cons.prems by (auto split: option.splits)
    then show ?thesis by (auto simp: find_Some_iff)
  qed (use Cons in auto)
qed simp

lemma verify_steps_ok:
  "verify_steps snapshot cid ver i steps = Inr () \<longleftrightarrow>
     (\<forall>s\<in>set steps. \<exists>d. derive_effect snapshot cid ver (ps_operation s) = Inr d
        \<and> ps_effect_class s = os_effect_class d \<and> ps_side_effect s = os_side_effect d
        \<and> ps_read_class s = os_read_class d)"
  by (induction steps arbitrary: i) (auto split: sum.splits)

lemma spec_checked_Inr [simp]: "spec_checked r = Inr a \<longleftrightarrow> r = Inr a"
  by (auto simp: spec_checked_def split: sum.splits)

lemma verify_policy_revision_Inr:
  "verify_policy_revision s p = Inr u \<longleftrightarrow>
     ep_policy_revision p = psn_policy_revision s \<and> ep_policy_profile p \<in> set (psn_profiles s)"
  by (auto simp: verify_policy_revision_def)

lemma admit_stages:
  assumes "admit_step E guards gate r = Inr c"
  obtains declared decision ref where
    "ep_policy_revision (aq_plan r) = psn_policy_revision (aq_policy_snapshot r)"
    "ep_policy_profile (aq_plan r) \<in> set (psn_profiles (aq_policy_snapshot r))"
    "verify_plan_effects (aq_snapshot r) (aq_plan r) = Inr ()"
    "declared_effect r = Inr declared"
    "tc_gateway (aq_call r) = os_gateway declared"
    "decision = request_decision r declared" "pd_allow decision"
    "verify_step_query E guards (aq_step r) (aq_call r) (aq_target r)
       (os_query_requirement declared) (aq_sql_surface r) (aq_promql_surface r) (aq_hydrated r)
       (aq_readonly_policy r) = Inr ()"
    "request_approval gate r declared = Inr ref"
    "request_certificate E r declared decision ref = Inr c"
proof -
  obtain u where a: "verify_policy_revision (aq_policy_snapshot r) (aq_plan r) = Inr u"
    using assms by (auto simp: admit_step_def split: sum.splits)
  obtain v where b: "verify_plan_effects (aq_snapshot r) (aq_plan r) = Inr v"
    using assms a by (auto simp: admit_step_def spec_checked_def split: sum.splits)
  obtain d where d: "declared_effect r = Inr d"
    using assms a b by (auto simp: admit_step_def spec_checked_def split: sum.splits)
  have g: "tc_gateway (aq_call r) = os_gateway d"
    using assms a b d by (auto simp: admit_step_def spec_checked_def split: if_splits)
  have p: "pd_allow (request_decision r d)"
    using assms a b d g by (auto simp: admit_step_def spec_checked_def Let_def split: if_splits option.splits)
  obtain q where q: "verify_step_query E guards (aq_step r) (aq_call r) (aq_target r)
       (os_query_requirement d) (aq_sql_surface r) (aq_promql_surface r) (aq_hydrated r)
       (aq_readonly_policy r) = Inr q"
    using assms a b d g p by (auto simp: admit_step_def spec_checked_def Let_def split: sum.splits)
  obtain ref where f: "request_approval gate r d = Inr ref"
    using assms a b d g p q by (auto simp: admit_step_def spec_checked_def Let_def split: sum.splits)
  have "request_certificate E r d (request_decision r d) ref = Inr c"
    using assms a b d g p q f by (simp add: admit_step_def spec_checked_def Let_def)
  with that a b d g p q f show thesis by (simp add: verify_policy_revision_Inr)
qed

lemma request_certificate_fields:
  assumes "request_certificate E r declared decision ref = Inr c"
  shows "ac_step_id c = tc_step_id (aq_call r)" "ac_operation c = tc_operation (aq_call r)"
    "ac_effect_class c = os_effect_class declared" "ac_policy_decision c = decision"
    "ac_approval_ref c = ref" "compute_plan_hash E (aq_plan r) = Inr (ac_plan_hash c)"
    "compute_target_fingerprint E (aq_target r) = Inr (ac_target_fingerprint c)"
    "compute_tool_call_hash E (aq_call r) = Inr (ac_tool_call_hash c)"
    "pd_policy_revision decision = rc_policy_revision (aq_context r)" "admission_certificate_ok c"
  using assms
  by (auto simp: request_certificate_def issue_admission_certificate_def revalidate_def
      split: sum.splits if_splits)

end
