(* ===== verification/Tool_Gateway.thy ===== *)
theory Tool_Gateway
  imports Step_Admission
begin

text \<open>
  The only entry to tools (\<open>tools/gateway.py\<close>, \<open>tools/adapter.py\<close>, \<open>contracts/external.py\<close>). An
  adapter is an external program: the argument \<open>execute\<close> gives what a call of it comes to. \<open>invoke\<close>
  returns, beside its result, the adapter it has called, if any. Clock readings are arguments.
\<close>

datatype adapter_status = AD_OK | AD_ERROR | AD_TIMEOUT
datatype tool_call_status = TCS_OK | TCS_ERROR | TCS_TIMEOUT | TCS_INDETERMINATE

record external_content =
  ec_source :: external_source
  ec_content :: string
  ec_digest :: string
  ec_captured_at :: instant

definition external_content_ok :: "py_env \<Rightarrow> external_content \<Rightarrow> bool" where
  "external_content_ok E c \<longleftrightarrow> sha256_hex (ec_digest c) \<and> ec_digest c = env_sha256 E (ec_content c)"

definition capture :: "py_env \<Rightarrow> external_source \<Rightarrow> string \<Rightarrow> instant \<Rightarrow> external_content" where
  "capture E source content captured_at = \<lparr>ec_source = source, ec_content = content,
     ec_digest = env_sha256 E content, ec_captured_at = captured_at\<rparr>"

record adapter_response =
  arp_status :: adapter_status
  arp_payload :: "frozen_map list"
  arp_source :: string
  arp_error :: "external_content option"
  arp_elapsed_ms :: int

definition adapter_response_ok :: "py_env \<Rightarrow> adapter_response \<Rightarrow> bool" where
  "adapter_response_ok E r \<longleftrightarrow> list_all frozen_map_ok (arp_payload r) \<and> strict_str (arp_source r)
     \<and> opt_all (external_content_ok E) (arp_error r) \<and> 0 \<le> arp_elapsed_ms r
     \<and> (if arp_status r = AD_OK then arp_error r = None else arp_payload r = [])"

text \<open>
  What \<open>asyncio.wait_for(adapter.execute(...))\<close> comes to: a value that is a response or is not, the
  time limit, an exception with its safe text, or the cancellation of the caller.
\<close>

datatype adapter_outcome =
    Responded adapter_response | NotAResponse | TimedOut | Raised string | Cancelled

record tool_result =
  tlr_status :: tool_call_status
  tlr_data_view :: "frozen_map list"
  tlr_raw_ref :: "string option"
  tlr_source :: string
  tlr_limitations :: "string list"
  tlr_trace_id :: string
  tlr_error :: "agent_error option"

definition tool_result_ok :: "tool_result \<Rightarrow> bool" where
  "tool_result_ok r \<longleftrightarrow> list_all frozen_map_ok (tlr_data_view r) \<and> opt_all strict_str (tlr_raw_ref r)
     \<and> strict_str (tlr_source r) \<and> list_all (\<lambda>l. l \<noteq> []) (tlr_limitations r)
     \<and> trace_id_ok (tlr_trace_id r) \<and> opt_all agent_error_ok (tlr_error r)"

datatype gateway_denial =
    WrongStep | WrongCall | StaleRevision | PolicyDenied | E1Disabled
  | ContextNotAuthorized | OutsideWindow

datatype gateway_error =
    PermissionError gateway_denial | AdapterNotRegistered | MalformedAdapterResponseError
  | CancelledError | GatewayCanonError canon_error | GatewayValidationError

subsection \<open>Registration\<close>

record 'a target_binding =
  tb_adapter :: 'a
  tb_authorized_tenant_id :: string
  tb_authorized_environment_id :: string
  tb_authorized_actor :: string
  tb_active_from :: instant
  tb_active_until :: instant
  tb_evidence_source_ref :: string
  tb_config_revision :: string
  tb_physical_identity_ref :: string
  tb_driver_version :: string

definition target_binding_ok :: "'a target_binding \<Rightarrow> bool" where
  "target_binding_ok b \<longleftrightarrow> list_all strict_str [tb_authorized_tenant_id b,
       tb_authorized_environment_id b, tb_authorized_actor b, tb_evidence_source_ref b,
       tb_config_revision b, tb_physical_identity_ref b, tb_driver_version b]
     \<and> tb_active_from b < tb_active_until b"

record 'a gateway =
  gw_adapters :: "(string, 'a) dict"
  gw_target_adapters :: "(string \<times> string, 'a target_binding) dict"
  gw_target_gateways :: "string set"

definition new_gateway ::
  "(string, 'a) dict \<Rightarrow> (string \<times> string, 'a target_binding) dict \<Rightarrow> validation_error + 'a gateway" where
  "new_gateway adapters target_bindings =
     (let target_gateways = set (map (fst \<circ> fst) target_bindings) in
      if adapters = [] \<and> target_bindings = [] then Inl ValidationError
      else if set (map fst adapters) \<inter> target_gateways \<noteq> {} then Inl ValidationError
      else Inr \<lparr>gw_adapters = adapters, gw_target_adapters = target_bindings,
        gw_target_gateways = target_gateways\<rparr>)"

subsection \<open>Results\<close>

fun status_map :: "adapter_status \<Rightarrow> tool_call_status" where
  "status_map AD_OK = TCS_OK"
| "status_map AD_ERROR = TCS_ERROR"
| "status_map AD_TIMEOUT = TCS_TIMEOUT"

definition cause_ref :: "external_content option \<Rightarrow> string option" where
  "cause_ref cause = map_option ec_digest cause"

fun map_error :: "adapter_status \<Rightarrow> external_content option \<Rightarrow> agent_error option" where
  "map_error AD_OK cause = None"
| "map_error AD_ERROR cause = Some \<lparr>ae_code = ''tool.upstream_error'', ae_category = EC_UPSTREAM,
     ae_retryable = True, ae_message_key = ''error.tool.upstream_error'', ae_cause_ref = cause_ref cause\<rparr>"
| "map_error AD_TIMEOUT cause = Some \<lparr>ae_code = ''tool.timeout'', ae_category = EC_TIMEOUT,
     ae_retryable = True, ae_message_key = ''error.tool.timeout'', ae_cause_ref = cause_ref cause\<rparr>"

definition target_limitations :: "'a target_binding \<Rightarrow> string \<Rightarrow> bool \<Rightarrow> string list" where
  "target_limitations binding target_fingerprint preflight_verified =
     [''target_fingerprint='' @ target_fingerprint,
      ''config_revision='' @ tb_config_revision binding,
      ''physical_identity_ref='' @ tb_physical_identity_ref binding,
      ''driver_version='' @ tb_driver_version binding,
      ''preflight='' @ (if preflight_verified then ''verified'' else ''unverified'')]"

definition issue_result ::
  "request_context \<Rightarrow> tool_call_status \<Rightarrow> frozen_map list \<Rightarrow> string \<Rightarrow> string list \<Rightarrow> agent_error option
     \<Rightarrow> gateway_error + tool_result" where
  "issue_result context status data_view source limitations error =
     (case revalidate tool_result_ok
         \<lparr>tlr_status = status, tlr_data_view = data_view, tlr_raw_ref = None, tlr_source = source,
          tlr_limitations = limitations, tlr_trace_id = rc_trace_id context, tlr_error = error\<rparr> of
        Inl e \<Rightarrow> Inl GatewayValidationError
      | Inr r \<Rightarrow> Inr r)"

definition authorize_target_binding ::
  "'a target_binding \<Rightarrow> request_context \<Rightarrow> instant \<Rightarrow> gateway_denial option" where
  "authorize_target_binding binding context now =
     (if rc_tenant_id context \<noteq> tb_authorized_tenant_id binding
        \<or> rc_environment_id context \<noteq> tb_authorized_environment_id binding
        \<or> rc_actor context \<noteq> tb_authorized_actor binding
      then Some ContextNotAuthorized
      else if \<not> (tb_active_from binding \<le> now \<and> now < tb_active_until binding) then Some OutsideWindow
      else None)"

subsection \<open>Invocation\<close>

definition E1_EXECUTION_ENABLED :: bool where
  "E1_EXECUTION_ENABLED = False"

text \<open>The checks on the certificate, in their order.\<close>

definition check_certificate ::
  "py_env \<Rightarrow> tool_call \<Rightarrow> request_context \<Rightarrow> admission_certificate \<Rightarrow> gateway_error + unit" where
  "check_certificate E call context admission =
     (if ac_step_id admission \<noteq> tc_step_id call \<or> ac_operation admission \<noteq> tc_operation call
      then Inl (PermissionError WrongStep)
      else case compute_tool_call_hash E call of
          Inl e \<Rightarrow> Inl (GatewayCanonError e)
        | Inr h \<Rightarrow>
            if ac_tool_call_hash admission \<noteq> h then Inl (PermissionError WrongCall)
            else if pd_policy_revision (ac_policy_decision admission) \<noteq> rc_policy_revision context
            then Inl (PermissionError StaleRevision)
            else if \<not> pd_allow (ac_policy_decision admission) then Inl (PermissionError PolicyDenied)
            else if ac_effect_class admission \<noteq> READ \<and> \<not> E1_EXECUTION_ENABLED
            then Inl (PermissionError E1Disabled)
            else Inr ())"

text \<open>The adapter for a call, with its binding when the gateway is bound to targets.\<close>

definition select_adapter ::
  "'a gateway \<Rightarrow> tool_call \<Rightarrow> request_context \<Rightarrow> admission_certificate \<Rightarrow> instant
     \<Rightarrow> gateway_error + 'a \<times> 'a target_binding option" where
  "select_adapter g call context admission now =
     (if tc_gateway call \<in> gw_target_gateways g
      then case dget (gw_target_adapters g) (tc_gateway call, ac_target_fingerprint admission) of
          None \<Rightarrow> Inl AdapterNotRegistered
        | Some binding \<Rightarrow>
            (case authorize_target_binding binding context now of
               Some denial \<Rightarrow> Inl (PermissionError denial)
             | None \<Rightarrow> Inr (tb_adapter binding, Some binding))
      else case dget (gw_adapters g) (tc_gateway call) of
          None \<Rightarrow> Inl AdapterNotRegistered
        | Some adapter \<Rightarrow> Inr (adapter, None))"

definition outcome_result ::
  "py_env \<Rightarrow> tool_call \<Rightarrow> request_context \<Rightarrow> string \<Rightarrow> 'a target_binding option \<Rightarrow> adapter_outcome \<Rightarrow> instant
     \<Rightarrow> gateway_error + tool_result" where
  "outcome_result E call context fingerprint binding outcome captured_at =
     (let source = (case binding of None \<Rightarrow> tc_gateway call | Some b \<Rightarrow> tb_evidence_source_ref b)
      in case outcome of
        TimedOut \<Rightarrow> issue_result context TCS_TIMEOUT [] source
          (case binding of None \<Rightarrow> [''adapter timed out''] | Some b \<Rightarrow> target_limitations b fingerprint False)
          (map_error AD_TIMEOUT None)
      | Raised text \<Rightarrow> issue_result context TCS_ERROR [] source
          (case binding of None \<Rightarrow> [''adapter raised an unexpected exception'']
           | Some b \<Rightarrow> target_limitations b fingerprint False)
          (map_error AD_ERROR (Some (capture E SRC_TOOL text captured_at)))
      | Cancelled \<Rightarrow> Inl CancelledError
      | NotAResponse \<Rightarrow> Inl MalformedAdapterResponseError
      | Responded response \<Rightarrow>
          issue_result context (status_map (arp_status response))
            (if arp_status response = AD_OK then arp_payload response else [])
            (case binding of None \<Rightarrow> arp_source response | Some b \<Rightarrow> tb_evidence_source_ref b)
            (case binding of None \<Rightarrow> []
             | Some b \<Rightarrow> target_limitations b fingerprint (arp_status response = AD_OK))
            (map_error (arp_status response) (arp_error response)))"

definition invoke ::
  "py_env \<Rightarrow> ('a \<Rightarrow> tool_call \<Rightarrow> request_context \<Rightarrow> adapter_outcome) \<Rightarrow> 'a gateway \<Rightarrow> tool_call
     \<Rightarrow> request_context \<Rightarrow> admission_certificate \<Rightarrow> instant \<Rightarrow> instant
     \<Rightarrow> 'a option \<times> (gateway_error + tool_result)" where
  "invoke E execute g call context admission now captured_at =
     (case check_certificate E call context admission of
        Inl e \<Rightarrow> (None, Inl e)
      | Inr _ \<Rightarrow>
          (case select_adapter g call context admission now of
             Inl e \<Rightarrow> (None, Inl e)
           | Inr (adapter, binding) \<Rightarrow>
               (Some adapter, outcome_result E call context (ac_target_fingerprint admission) binding
                  (execute adapter call context) captured_at)))"

subsection \<open>When an adapter is called\<close>

lemma check_certificate_Inr:
  "check_certificate E call ctx c = Inr u \<longleftrightarrow>
     ac_step_id c = tc_step_id call \<and> ac_operation c = tc_operation call
     \<and> compute_tool_call_hash E call = Inr (ac_tool_call_hash c)
     \<and> pd_policy_revision (ac_policy_decision c) = rc_policy_revision ctx
     \<and> pd_allow (ac_policy_decision c) \<and> ac_effect_class c = READ"
  by (auto simp: check_certificate_def E1_EXECUTION_ENABLED_def split: sum.splits)

text \<open>The adapter a call may reach: the gateway's own, or the one bound to the admitted target.\<close>

definition reachable_adapter ::
  "'a gateway \<Rightarrow> tool_call \<Rightarrow> request_context \<Rightarrow> admission_certificate \<Rightarrow> instant \<Rightarrow> 'a \<Rightarrow> bool" where
  "reachable_adapter g call ctx c now a \<longleftrightarrow>
     (if tc_gateway call \<in> gw_target_gateways g
      then \<exists>b. dget (gw_target_adapters g) (tc_gateway call, ac_target_fingerprint c) = Some b
         \<and> tb_adapter b = a \<and> rc_tenant_id ctx = tb_authorized_tenant_id b
         \<and> rc_environment_id ctx = tb_authorized_environment_id b
         \<and> rc_actor ctx = tb_authorized_actor b
         \<and> tb_active_from b \<le> now \<and> now < tb_active_until b
      else dget (gw_adapters g) (tc_gateway call) = Some a)"

lemma authorize_None:
  "authorize_target_binding b ctx now = None \<longleftrightarrow>
     rc_tenant_id ctx = tb_authorized_tenant_id b
     \<and> rc_environment_id ctx = tb_authorized_environment_id b
     \<and> rc_actor ctx = tb_authorized_actor b \<and> tb_active_from b \<le> now \<and> now < tb_active_until b"
  by (auto simp: authorize_target_binding_def)

lemma select_adapter_Inr:
  "(\<exists>binding. select_adapter g call ctx c now = Inr (a, binding)) \<longleftrightarrow>
     reachable_adapter g call ctx c now a"
proof (cases "tc_gateway call \<in> gw_target_gateways g")
  case True
  show ?thesis
  proof (cases "dget (gw_target_adapters g) (tc_gateway call, ac_target_fingerprint c)")
    case (Some b)
    then show ?thesis
      using True authorize_None [of b ctx now]
      by (cases "authorize_target_binding b ctx now")
        (auto simp: select_adapter_def reachable_adapter_def)
  qed (use True in \<open>simp add: select_adapter_def reachable_adapter_def\<close>)
qed (auto simp: select_adapter_def reachable_adapter_def split: option.splits)

lemma invoke_calls:
  "fst (invoke E execute g call ctx c now captured) = Some a \<longleftrightarrow>
     check_certificate E call ctx c = Inr () \<and> reachable_adapter g call ctx c now a"
proof (cases "check_certificate E call ctx c")
  case (Inr u)
  show ?thesis
  proof (cases "select_adapter g call ctx c now")
    case (Inl e)
    then have "\<not> reachable_adapter g call ctx c now a"
      using select_adapter_Inr [of g call ctx c now a] by auto
    then show ?thesis using Inr Inl by (simp add: invoke_def)
  next
    case (Inr p)
    obtain a' b where p: "p = (a', b)" by fastforce
    have "reachable_adapter g call ctx c now a \<longleftrightarrow> a' = a"
      using select_adapter_Inr [of g call ctx c now a] Inr p by auto
    then show ?thesis using \<open>check_certificate E call ctx c = Inr u\<close> Inr p
      by (simp add: invoke_def)
  qed
qed (simp add: invoke_def)

end
