(* ===== verification/Runner_Admission.thy ===== *)
theory Runner_Admission
  imports Tool_Gateway
begin

text \<open>
  How a runner asks for admission of a step (\<open>_admit\<close> and \<open>_build_call\<close> of \<open>runners/deterministic.py\<close>,
  \<open>runners/binding.py\<close>), and the production declarations it runs with (\<open>capabilities/specs.py\<close>,
  \<open>prometheus_alert.py\<close>, \<open>asset_inventory.py\<close>, \<open>readonly_query.py\<close>, \<open>registry.py\<close>,
  \<open>governance/profiles.py\<close>).
\<close>

subsection \<open>The call of a step\<close>

definition DEFAULT_TIMEOUT_SECONDS :: py_float where
  "DEFAULT_TIMEOUT_SECONDS = FFin 30"

text \<open>What a capability binding gives the runner for a plan.\<close>

record execution_binding =
  eb_policy_profile :: policy_profile
  eb_sql_surface :: "sql_surface option"
  eb_promql_surface :: "promql_surface option"

definition build_call ::
  "capability_snapshot \<Rightarrow> execution_plan \<Rightarrow> plan_step \<Rightarrow> string \<Rightarrow> admission_error + tool_call" where
  "build_call snapshot plan step idempotency_key =
     (case spec_checked (derive_effect snapshot (ep_capability_id plan) (ep_capability_version plan)
         (ps_operation step)) of
        Inl e \<Rightarrow> Inl e
      | Inr declared \<Rightarrow>
          (case revalidate tool_call_ok
              \<lparr>tc_gateway = os_gateway declared, tc_operation = ps_operation step,
               tc_step_id = ps_step_id step, tc_typed_args = ps_typed_arguments step,
               tc_timeout_seconds = DEFAULT_TIMEOUT_SECONDS, tc_idempotency_key = idempotency_key\<rparr> of
             Inl e \<Rightarrow> Inl AdmissionValueError
           | Inr call \<Rightarrow> Inr call))"

definition runner_admit ::
  "py_env \<Rightarrow> query_guards \<Rightarrow> approval_gate \<Rightarrow> (execution_plan \<Rightarrow> execution_binding) \<Rightarrow> capability_snapshot
     \<Rightarrow> policy_snapshot \<Rightarrow> string \<Rightarrow> plan_step \<Rightarrow> execution_plan \<Rightarrow> resolved_target \<Rightarrow> request_context
     \<Rightarrow> approval_request option \<Rightarrow> instant \<Rightarrow> admission_error + admission_certificate \<times> tool_call" where
  "runner_admit E guards gate execution_for snapshot policies task_id step plan target ctx approval now =
     (case hashed (compute_plan_hash E plan) of
        Inl e \<Rightarrow> Inl e
      | Inr plan_hash \<Rightarrow>
          (case build_call snapshot plan step (take 16 plan_hash @ '':'' @ ps_step_id step) of
             Inl e \<Rightarrow> Inl e
           | Inr call \<Rightarrow>
               let execution = execution_for plan in
               (case admit_step E guards gate
                   \<lparr>aq_step = step, aq_plan = plan, aq_call = call, aq_context = ctx, aq_target = target,
                    aq_snapshot = snapshot, aq_policy_snapshot = policies,
                    aq_profile = eb_policy_profile execution,
                    aq_sql_surface = eb_sql_surface execution,
                    aq_promql_surface = eb_promql_surface execution, aq_for_task = task_id,
                    aq_now = now, aq_approval = approval, aq_hydrated = None,
                    aq_readonly_policy = None\<rparr> of
                  Inl e \<Rightarrow> Inl e
                | Inr certificate \<Rightarrow> Inr (certificate, call))))"

lemma build_call_Inr:
  assumes "build_call snapshot plan step key = Inr call"
  obtains declared where
    "derive_effect snapshot (ep_capability_id plan) (ep_capability_version plan) (ps_operation step)
       = Inr declared"
    "call = \<lparr>tc_gateway = os_gateway declared, tc_operation = ps_operation step,
       tc_step_id = ps_step_id step, tc_typed_args = ps_typed_arguments step,
       tc_timeout_seconds = DEFAULT_TIMEOUT_SECONDS, tc_idempotency_key = key\<rparr>"
  using assms by (auto simp: build_call_def spec_checked_def revalidate_def split: sum.splits if_splits)

lemma runner_admit_Inr:
  assumes "runner_admit E guards gate execution_for snapshot policies task_id step plan target ctx
      approval now = Inr (c, call)"
  obtains h where "compute_plan_hash E plan = Inr h"
    "build_call snapshot plan step (take 16 h @ '':'' @ ps_step_id step) = Inr call"
    "admit_step E guards gate
       \<lparr>aq_step = step, aq_plan = plan, aq_call = call, aq_context = ctx, aq_target = target,
        aq_snapshot = snapshot, aq_policy_snapshot = policies,
        aq_profile = eb_policy_profile (execution_for plan),
        aq_sql_surface = eb_sql_surface (execution_for plan),
        aq_promql_surface = eb_promql_surface (execution_for plan), aq_for_task = task_id,
        aq_now = now, aq_approval = approval, aq_hydrated = None, aq_readonly_policy = None\<rparr> = Inr c"
proof -
  from assms obtain h where h: "compute_plan_hash E plan = Inr h"
    by (auto simp: runner_admit_def split: sum.splits)
  with assms obtain call' where b:
      "build_call snapshot plan step (take 16 h @ '':'' @ ps_step_id step) = Inr call'"
    by (auto simp: runner_admit_def split: sum.splits)
  with assms h have "call' = call" by (auto simp: runner_admit_def Let_def split: sum.splits)
  with b assms h show thesis
    by (intro that [of h]) (auto simp: runner_admit_def Let_def split: sum.splits)
qed

subsection \<open>Production declarations\<close>

definition read_operation :: "string \<Rightarrow> string \<Rightarrow> read_class \<Rightarrow> string \<Rightarrow> query_requirement \<Rightarrow> operation_spec" where
  "read_operation operation gateway rc schema requirement = \<lparr>os_operation = operation,
     os_gateway = gateway, os_effect_class = READ, os_read_class = Some rc, os_side_effect = False,
     os_argument_schema_ref = schema, os_query_requirement = requirement\<rparr>"

definition SLOW_QUERY_SPEC :: capability_spec where
  "SLOW_QUERY_SPEC = \<lparr>cap_capability_id = ''starrocks.slow_query.diagnose'', cap_version = ''1.0.0'',
     cap_domain = ''starrocks'', cap_input_schema_ref = ''input.starrocks.slow_query.v1'',
     cap_operations =
       [read_operation ''list_slow_queries'' ''starrocks'' BOUNDED ''schema.starrocks.slow_query.list.v1''
          QR_TEMPLATE_LOCKED,
        read_operation ''count_queries_in_window'' ''starrocks'' BOUNDED
          ''schema.starrocks.slow_query.count.v1'' QR_TEMPLATE_LOCKED],
     cap_policy_profile = ''readonly.starrocks.slow_query.v1'',
     cap_evidence_contract = ''evidence.starrocks.slow_query.v1'',
     cap_eval_ref = ''evals.starrocks.slow_query.v1''\<rparr>"

definition PROMETHEUS_ALERT_SPEC :: capability_spec where
  "PROMETHEUS_ALERT_SPEC = \<lparr>cap_capability_id = ''prometheus.alert.evidence'', cap_version = ''1.0.0'',
     cap_domain = ''prometheus'', cap_input_schema_ref = ''input.prometheus.alert.v1'',
     cap_operations =
       [read_operation ''get_active_alerts'' ''alertmanager'' BOUNDED
          ''schema.alertmanager.active_alerts.v1'' QR_NONE,
        read_operation ''query_metric_range'' ''prometheus'' BOUNDED
          ''schema.prometheus.metric_range.v1'' QR_NONE],
     cap_policy_profile = ''readonly.prometheus.alert.evidence.v1'',
     cap_evidence_contract = ''evidence.prometheus.alert.v1'',
     cap_eval_ref = ''evals.prometheus.alert.v1''\<rparr>"

definition ASSET_INVENTORY_SPEC :: capability_spec where
  "ASSET_INVENTORY_SPEC = \<lparr>cap_capability_id = ''asset.inventory.lookup'', cap_version = ''1.0.0'',
     cap_domain = ''asset'', cap_input_schema_ref = ''input.asset.lookup.v1'',
     cap_operations =
       [read_operation ''lookup_asset'' ''asset_inventory'' BOUNDED ''schema.asset.inventory.lookup.v1''
          QR_NONE],
     cap_policy_profile = ''readonly.asset.inventory.lookup.v1'',
     cap_evidence_contract = ''evidence.asset.inventory.v1'',
     cap_eval_ref = ''evals.asset.inventory.v1''\<rparr>"

definition READONLY_QUERY_SPEC :: capability_spec where
  "READONLY_QUERY_SPEC = \<lparr>cap_capability_id = ''starrocks.readonly_query'', cap_version = ''1.0.0'',
     cap_domain = ''starrocks'', cap_input_schema_ref = ''input.starrocks.readonly_query.v1'',
     cap_operations =
       [read_operation ''execute_readonly_query'' ''starrocks'' RESTRICTED
          ''schema.starrocks.readonly_query.execute.v1'' QR_CONFIRMED_ARTIFACT],
     cap_policy_profile = ''readonly.starrocks.readonly_query.v1'',
     cap_evidence_contract = ''evidence.starrocks.readonly_query.v1'',
     cap_eval_ref = ''evals.starrocks.readonly_query.v1''\<rparr>"

definition CAPABILITY_SNAPSHOT :: capability_snapshot where
  "CAPABILITY_SNAPSHOT = \<lparr>
     csn_snapshot_id = ''snapshot.f1.starrocks-prometheus-asset-readonly-query.v1'',
     csn_specs = [SLOW_QUERY_SPEC, PROMETHEUS_ALERT_SPEC, ASSET_INVENTORY_SPEC, READONLY_QUERY_SPEC]\<rparr>"

definition readonly_profile :: "string \<Rightarrow> string list \<Rightarrow> read_class \<Rightarrow> risk_level \<Rightarrow> rat \<Rightarrow> policy_profile" where
  "readonly_profile profile_id operations rc risk timeout = \<lparr>pp_profile_id = profile_id,
     pp_allowed_operations = operations, pp_allowed_effect_classes = [READ],
     pp_allowed_read_classes = [rc], pp_allowed_environment_ids = [''dev'', ''test''],
     pp_risk = risk, pp_max_timeout_seconds = FFin timeout\<rparr>"

definition SLOW_QUERY_READONLY_PROFILE :: policy_profile where
  "SLOW_QUERY_READONLY_PROFILE = readonly_profile ''readonly.starrocks.slow_query.v1''
     [''list_slow_queries'', ''count_queries_in_window''] BOUNDED RISK_LOW 30"

definition PROMETHEUS_ALERT_READONLY_PROFILE :: policy_profile where
  "PROMETHEUS_ALERT_READONLY_PROFILE = readonly_profile ''readonly.prometheus.alert.evidence.v1''
     [''get_active_alerts'', ''query_metric_range''] BOUNDED RISK_LOW 30"

definition ASSET_INVENTORY_READONLY_PROFILE :: policy_profile where
  "ASSET_INVENTORY_READONLY_PROFILE = readonly_profile ''readonly.asset.inventory.lookup.v1''
     [''lookup_asset''] BOUNDED RISK_LOW 30"

definition READONLY_QUERY_PROFILE :: policy_profile where
  "READONLY_QUERY_PROFILE = readonly_profile ''readonly.starrocks.readonly_query.v1''
     [''execute_readonly_query''] RESTRICTED RISK_MEDIUM 300"

definition production_profiles :: "policy_profile list" where
  "production_profiles = [SLOW_QUERY_READONLY_PROFILE, PROMETHEUS_ALERT_READONLY_PROFILE,
     ASSET_INVENTORY_READONLY_PROFILE, READONLY_QUERY_PROFILE]"

definition ACTIVE_POLICY_SNAPSHOT :: policy_snapshot where
  "ACTIVE_POLICY_SNAPSHOT = \<lparr>psn_policy_revision = ''policy-2026-09-28.1'',
     psn_profiles = [''readonly.starrocks.slow_query.v1'', ''readonly.prometheus.alert.evidence.v1'',
       ''readonly.asset.inventory.lookup.v1'', ''readonly.starrocks.readonly_query.v1'']\<rparr>"

text \<open>The declarations are well formed, and the profile of each capability allows exactly its operations.\<close>

lemma read_operation_ok:
  "strict_str operation \<Longrightarrow> strict_str gateway \<Longrightarrow> strict_str schema \<Longrightarrow>
     operation_spec_ok (read_operation operation gateway rc schema requirement)"
  by (simp add: operation_spec_ok_def read_operation_def)

lemma production_operations:
  assumes "derive_effect CAPABILITY_SNAPSHOT cid ver op = Inr d"
  shows "os_effect_class d = READ" "\<not> os_side_effect d" "os_read_class d \<noteq> None"
proof -
  have "list_all (\<lambda>c. list_all (\<lambda>x. os_effect_class x = READ \<and> \<not> os_side_effect x \<and> os_read_class x \<noteq> None)
      (cap_operations c)) (csn_specs CAPABILITY_SNAPSHOT)"
    by (simp add: CAPABILITY_SNAPSHOT_def SLOW_QUERY_SPEC_def PROMETHEUS_ALERT_SPEC_def
        ASSET_INVENTORY_SPEC_def READONLY_QUERY_SPEC_def read_operation_def)
  moreover obtain c where "c \<in> set (csn_specs CAPABILITY_SNAPSHOT)" "d \<in> set (cap_operations c)"
    using assms derive_from_mem unfolding derive_effect_def by blast
  ultimately show "os_effect_class d = READ" "\<not> os_side_effect d" "os_read_class d \<noteq> None"
    by (auto simp: list_all_iff)
qed

lemma production_profile_limits:
  assumes "p \<in> set production_profiles"
  shows "pp_allowed_effect_classes p = [READ]" "pp_allowed_environment_ids p = [''dev'', ''test'']"
  using assms
  by (auto simp: production_profiles_def SLOW_QUERY_READONLY_PROFILE_def
      PROMETHEUS_ALERT_READONLY_PROFILE_def ASSET_INVENTORY_READONLY_PROFILE_def
      READONLY_QUERY_PROFILE_def readonly_profile_def)

end
