(* ===== verification/Governance_Claims.thy ===== *)
theory Governance_Claims
  imports Runner_Admission Task_Demo
begin

text \<open>
  The contract of approval gates and the properties of admission and of the gateway, with witnesses
  on a demonstration capability that either reads or writes.
\<close>

subsection \<open>The contract of an approval gate\<close>

locale approval_contract =
  fixes gate :: approval_gate
    and binds :: "approval_request \<Rightarrow> string \<Rightarrow> plan_step \<Rightarrow> execution_plan \<Rightarrow> resolved_target \<Rightarrow> instant \<Rightarrow> bool"
  assumes granted_binds: "gate task_id step plan target approval now = Inr ref \<Longrightarrow>
      \<exists>a. approval = Some a \<and> binds a task_id step plan target now"
begin

lemma request_approval_binds:
  assumes "request_approval gate r declared = Inr ref" "os_side_effect declared"
  shows "\<exists>a. aq_approval r = Some a
     \<and> binds a (aq_for_task r) (aq_step r) (aq_plan r) (aq_target r) (aq_now r) \<and> ref \<noteq> None"
  using assms granted_binds by (fastforce simp: request_approval_def split: sum.splits)

lemma admitted_is_approved:
  assumes "admit_step E guards gate r = Inr c" "declared_effect r = Inr declared" "os_side_effect declared"
  shows "\<exists>a. aq_approval r = Some a
     \<and> binds a (aq_for_task r) (aq_step r) (aq_plan r) (aq_target r) (aq_now r)"
proof -
  from assms(1) obtain d ref where "declared_effect r = Inr d" "request_approval gate r d = Inr ref"
    by (rule admit_stages)
  then show ?thesis using assms(2,3) request_approval_binds by fastforce
qed

end

definition approval_binds ::
  "py_env \<Rightarrow> approval_request \<Rightarrow> string \<Rightarrow> plan_step \<Rightarrow> execution_plan \<Rightarrow> resolved_target \<Rightarrow> instant \<Rightarrow> bool" where
  "approval_binds E a task_id step plan target now \<longleftrightarrow> ar_task_id a = task_id
     \<and> ar_step_id a = ps_step_id step \<and> now < ar_expires_at a \<and> ar_state a = AP_GRANTED
     \<and> ar_policy_revision a = ep_policy_revision plan
     \<and> compute_plan_hash E plan = Inr (ar_plan_hash a)
     \<and> compute_target_fingerprint E target = Inr (ar_target_fingerprint a)"

lemma verify_approval_binding_Inr:
  "verify_approval_binding E a plan target now = Inr u \<longleftrightarrow>
     now < ar_expires_at a \<and> ar_state a = AP_GRANTED
     \<and> ar_policy_revision a = ep_policy_revision plan
     \<and> compute_plan_hash E plan = Inr (ar_plan_hash a)
     \<and> compute_target_fingerprint E target = Inr (ar_target_fingerprint a)"
  by (cases "compute_plan_hash E plan"; cases "compute_target_fingerprint E target")
    (auto simp: verify_approval_binding_def)

interpretation never_granting: approval_contract "never_granting_gate E" "approval_binds E"
proof
  fix task_id step plan target approval now ref
  assume "never_granting_gate E task_id step plan target approval now = Inr ref"
  then show "\<exists>a. approval = Some a \<and> approval_binds E a task_id step plan target now"
    using verify_approval_binding_Inr
    by (auto simp: never_granting_gate_def approval_binds_def split: option.splits if_splits sum.splits)
qed

subsection \<open>Admission\<close>

text \<open>
  C32. Nothing is admitted unless all six stages hold, whatever the query guards say: the
  plan is of the active policy revision and a registered profile; every step of the plan carries the
  effect classes its capability declares; the call goes to the declared gateway; the profile allows
  operation, effect, environment and timeout, and target and context are of one tenant and
  environment; a side effect has an unexpired granted approval of this task, step, plan and target.
  The certificate is bound to the call, the plan, the target and the revision.
\<close>

theorem admission_is_sound:
  assumes "admit_step E guards (never_granting_gate E) r = Inr c"
  shows "\<exists>declared. declared_effect r = Inr declared
     \<and> ep_policy_revision (aq_plan r) = psn_policy_revision (aq_policy_snapshot r)
     \<and> ep_policy_profile (aq_plan r) \<in> set (psn_profiles (aq_policy_snapshot r))
     \<and> verify_plan_effects (aq_snapshot r) (aq_plan r) = Inr ()
     \<and> tc_gateway (aq_call r) = os_gateway declared
     \<and> policy_verdict (aq_profile r) (aq_plan r) (aq_call r) (aq_context r) (aq_target r)
         (os_effect_class declared) (os_read_class declared) = ALLOWED
     \<and> (os_side_effect declared \<longrightarrow> (\<exists>a. aq_approval r = Some a
          \<and> approval_binds E a (aq_for_task r) (aq_step r) (aq_plan r) (aq_target r) (aq_now r)))
     \<and> ac_effect_class c = os_effect_class declared \<and> pd_allow (ac_policy_decision c)
     \<and> pd_policy_revision (ac_policy_decision c) = rc_policy_revision (aq_context r)
     \<and> compute_tool_call_hash E (aq_call r) = Inr (ac_tool_call_hash c)
     \<and> compute_plan_hash E (aq_plan r) = Inr (ac_plan_hash c)
     \<and> compute_target_fingerprint E (aq_target r) = Inr (ac_target_fingerprint c)"
proof -
  from assms obtain declared decision ref where s:
      "ep_policy_revision (aq_plan r) = psn_policy_revision (aq_policy_snapshot r)"
      "ep_policy_profile (aq_plan r) \<in> set (psn_profiles (aq_policy_snapshot r))"
      "verify_plan_effects (aq_snapshot r) (aq_plan r) = Inr ()" "declared_effect r = Inr declared"
      "tc_gateway (aq_call r) = os_gateway declared" "decision = request_decision r declared"
      "pd_allow decision" "request_certificate E r declared decision ref = Inr c"
    by (rule admit_stages)
  note f = request_certificate_fields [OF s(8)]
  have "policy_verdict (aq_profile r) (aq_plan r) (aq_call r) (aq_context r) (aq_target r)
      (os_effect_class declared) (os_read_class declared) = ALLOWED"
    using s(6,7) by (simp add: request_decision_def evaluate_tool_policy_def decide_def)
  with s f never_granting.admitted_is_approved [OF assms s(4)] show ?thesis by auto
qed

subsection \<open>A demonstration capability\<close>

definition demo_spec :: "bool \<Rightarrow> operation_spec" where
  "demo_spec w = \<lparr>os_operation = ''op'', os_gateway = ''gw'',
     os_effect_class = (if w then MUTATE_TARGET else READ),
     os_read_class = (if w then None else Some BOUNDED), os_side_effect = w,
     os_argument_schema_ref = ''v1'', os_query_requirement = QR_NONE\<rparr>"

definition demo_snapshot :: "bool \<Rightarrow> capability_snapshot" where
  "demo_snapshot w = \<lparr>csn_snapshot_id = ''src'', csn_specs = [\<lparr>cap_capability_id = ''cap'',
     cap_version = ''v1'', cap_domain = ''src'', cap_input_schema_ref = ''v1'',
     cap_operations = [demo_spec w], cap_policy_profile = ''profile'', cap_evidence_contract = ''v1'',
     cap_eval_ref = ''v1''\<rparr>]\<rparr>"

definition demo_profile :: policy_profile where
  "demo_profile = \<lparr>pp_profile_id = ''profile'', pp_allowed_operations = [''op''],
     pp_allowed_effect_classes = [READ, MUTATE_TARGET], pp_allowed_read_classes = [BOUNDED],
     pp_allowed_environment_ids = [''prod''], pp_risk = RISK_LOW, pp_max_timeout_seconds = FFin 30\<rparr>"

definition demo_policies :: policy_snapshot where
  "demo_policies = \<lparr>psn_policy_revision = ''r1'', psn_profiles = [''profile'']\<rparr>"

text \<open>Guards that refuse nothing.\<close>

definition demo_guards :: query_guards where
  "demo_guards = \<lparr>guard_template = (\<lambda>a s t f. None), guard_readonly = (\<lambda>b h p. None),
     guard_promql = (\<lambda>a s t f. None)\<rparr>"

definition demo_op_step :: "bool \<Rightarrow> plan_step" where
  "demo_op_step w = (demo_step ''step-1'')\<lparr>ps_side_effect := w,
     ps_effect_class := (if w then MUTATE_TARGET else READ),
     ps_read_class := (if w then None else Some BOUNDED)\<rparr>"

definition demo_op_plan :: "bool \<Rightarrow> execution_plan" where
  "demo_op_plan w = demo_plan\<lparr>ep_steps := [demo_op_step w]\<rparr>"

definition demo_op_plan_hash :: "bool \<Rightarrow> string" where
  "demo_op_plan_hash w = projr (compute_plan_hash demo_env (demo_op_plan w))"

definition demo_target_hash :: string where
  "demo_target_hash = projr (compute_target_fingerprint demo_env demo_target)"

lemma demo_op_hashes:
  "compute_plan_hash demo_env (demo_op_plan w) = Inr (demo_op_plan_hash w)" "sha256_hex (demo_op_plan_hash w)"
  "compute_target_fingerprint demo_env demo_target = Inr demo_target_hash" "sha256_hex demo_target_hash"
proof -
  have "is_ok (normalise (env_nfc demo_env) (plan_payload (demo_op_plan w)))"
    by (cases w) (simp_all add: demo_op_plan_def demo_plan_def demo_op_step_def demo_step_def plan_payload_def
        step_payload_def budget_payload_def condition_payload_def args_payload_def demo_condition_def
        obj_def demo_env_def opt_value_def)
  from sha256_of_total [OF demo_env_ok this]
  show "compute_plan_hash demo_env (demo_op_plan w) = Inr (demo_op_plan_hash w)"
    "sha256_hex (demo_op_plan_hash w)"
    by (auto simp: demo_op_plan_hash_def compute_plan_hash_def)
  have "is_ok (normalise (env_nfc demo_env) (target_payload demo_target))"
    by (simp add: demo_target_def target_payload_def obj_def demo_env_def)
  from sha256_of_total [OF demo_env_ok this]
  show "compute_target_fingerprint demo_env demo_target = Inr demo_target_hash" "sha256_hex demo_target_hash"
    by (auto simp: demo_target_hash_def compute_target_fingerprint_def)
qed

definition demo_approval :: "bool \<Rightarrow> approval_request" where
  "demo_approval w = \<lparr>ar_task_id = ''t1'', ar_step_id = ''step-1'', ar_plan_hash = demo_op_plan_hash w,
     ar_target_fingerprint = demo_target_hash, ar_policy_revision = ''r1'', ar_subject = ''ann'',
     ar_expires_at = 10, ar_state = AP_GRANTED\<rparr>"

definition demo_request :: "bool \<Rightarrow> tool_call \<Rightarrow> admission_request" where
  "demo_request w call = \<lparr>aq_step = demo_op_step w, aq_plan = demo_op_plan w, aq_call = call,
     aq_context = demo_context, aq_target = demo_target, aq_snapshot = demo_snapshot w,
     aq_policy_snapshot = demo_policies, aq_profile = demo_profile, aq_sql_surface = None,
     aq_promql_surface = None, aq_for_task = ''t1'', aq_now = 5, aq_approval = Some (demo_approval w),
     aq_hydrated = None, aq_readonly_policy = None\<rparr>"

definition demo_op_call :: "string \<Rightarrow> tool_call" where
  "demo_op_call key = \<lparr>tc_gateway = ''gw'', tc_operation = ''op'', tc_step_id = ''step-1'',
     tc_typed_args = [], tc_timeout_seconds = FFin 30, tc_idempotency_key = key\<rparr>"

lemma demo_call_hash: "\<exists>h. compute_tool_call_hash demo_env (demo_op_call key) = Inr h \<and> sha256_hex h"
proof -
  have "is_ok (normalise (env_nfc demo_env) (tool_call_payload (demo_op_call key)))"
    by (simp add: demo_op_call_def tool_call_payload_def args_payload_def obj_def demo_env_def)
  from sha256_of_total [OF demo_env_ok this] show ?thesis by (simp add: compute_tool_call_hash_def)
qed

lemma demo_declared: "declared_effect (demo_request w call) = Inr (demo_spec w)"
  by (simp add: declared_effect_def demo_request_def derive_effect_def demo_snapshot_def demo_op_plan_def
      demo_plan_def demo_op_step_def demo_step_def demo_spec_def)

lemma demo_gate: "request_approval (never_granting_gate demo_env) (demo_request w call) (demo_spec w) =
    Inr (if w then Some ''t1:step-1'' else None)"
proof -
  have "ep_policy_revision (demo_op_plan w) = ''r1''" by (simp add: demo_op_plan_def demo_plan_def)
  then have "verify_approval_binding demo_env (demo_approval w) (demo_op_plan w) demo_target 5 = Inr ()"
    using demo_op_hashes(1) [of w] demo_op_hashes(3)
    by (simp add: verify_approval_binding_Inr demo_approval_def)
  moreover have "ar_task_id (demo_approval w) = ''t1''" "ar_step_id (demo_approval w) = ''step-1''"
    "ps_step_id (demo_op_step w) = ''step-1''"
    by (simp_all add: demo_approval_def demo_op_step_def demo_step_def)
  ultimately show ?thesis
    by (cases w) (simp_all add: request_approval_def demo_spec_def demo_request_def
        never_granting_gate_def approval_ref_def)
qed

lemma demo_admitted:
  "\<exists>c. admit_step demo_env demo_guards (never_granting_gate demo_env) (demo_request w (demo_op_call key)) = Inr c"
proof -
  let ?r = "demo_request w (demo_op_call key)"
  obtain h where h: "compute_tool_call_hash demo_env (demo_op_call key) = Inr h" "sha256_hex h"
    using demo_call_hash by blast
  have revision: "verify_policy_revision (aq_policy_snapshot ?r) (aq_plan ?r) = Inr ()"
    by (simp add: verify_policy_revision_def demo_request_def demo_policies_def demo_op_plan_def demo_plan_def)
  have effects: "verify_plan_effects (aq_snapshot ?r) (aq_plan ?r) = Inr ()"
    by (simp add: verify_plan_effects_def demo_request_def demo_op_plan_def demo_plan_def demo_op_step_def
        demo_step_def derive_effect_def demo_snapshot_def demo_spec_def)
  have decision: "request_decision ?r (demo_spec w) = decide demo_profile ALLOWED ''r1''"
    by (simp add: request_decision_def evaluate_tool_policy_def policy_verdict_def demo_request_def
        demo_op_plan_def demo_plan_def demo_profile_def demo_target_def demo_context_def demo_op_call_def
        demo_spec_def)
  have query: "verify_step_query demo_env demo_guards (aq_step ?r) (aq_call ?r) (aq_target ?r)
      (os_query_requirement (demo_spec w)) (aq_sql_surface ?r) (aq_promql_surface ?r) (aq_hydrated ?r)
      (aq_readonly_policy ?r) = Inr ()"
    by (simp add: verify_step_query_def has_arg_def demo_request_def demo_op_step_def demo_step_def
        demo_spec_def)
  have ref: "opt_all strict_str (if w then Some ''t1:step-1'' else None)"
    by (simp, rule impI, rule strict_strI; code_simp)
  have "policy_decision_ok (decide demo_profile ALLOWED ''r1'')" by (rule decide_ok) simp
  then have "is_ok (request_certificate demo_env ?r (demo_spec w) (decide demo_profile ALLOWED ''r1'')
      (if w then Some ''t1:step-1'' else None))"
    using h demo_op_hashes(1,2) [of w] demo_op_hashes(3,4) ref
    by (simp add: request_certificate_def demo_request_def issue_admission_certificate_def
        admission_certificate_ok_def demo_op_call_def demo_context_def decide_def)
  moreover have "tc_gateway (aq_call ?r) = os_gateway (demo_spec w)" "pd_allow (decide demo_profile ALLOWED ''r1'')"
    by (simp_all add: demo_request_def demo_op_call_def demo_spec_def decide_def)
  ultimately show ?thesis
    using revision effects query
    by (simp add: admit_step_def demo_declared decision demo_gate spec_checked_def is_ok_conv)
qed

theorem admission_is_sound_witness:
  "\<exists>c. admit_step demo_env demo_guards (never_granting_gate demo_env) (demo_request True (demo_op_call ''key-1'')) = Inr c
     \<and> ac_effect_class c = MUTATE_TARGET
     \<and> approval_binds demo_env (demo_approval True) ''t1'' (demo_op_step True) (demo_op_plan True) demo_target 5"
proof -
  obtain c where c: "admit_step demo_env demo_guards (never_granting_gate demo_env)
      (demo_request True (demo_op_call ''key-1'')) = Inr c" using demo_admitted by blast
  from admission_is_sound [OF c] c show ?thesis
    by (auto simp: demo_declared) (simp_all add: demo_spec_def demo_request_def)
qed

subsection \<open>Effect classes cannot be claimed\<close>

lemma build_same_step:
  assumes "plan_step_ok s"
  shows "build_plan_step snapshot cid ver (ps_operation s) (ps_step_id s) (ps_typed_arguments s)
      (ps_depends_on s) (Some (ps_condition s)) = Inr s \<longleftrightarrow>
    (\<exists>d. derive_effect snapshot cid ver (ps_operation s) = Inr d \<and> ps_effect_class s = os_effect_class d
       \<and> ps_side_effect s = os_side_effect d \<and> ps_read_class s = os_read_class d)"
proof (cases "derive_effect snapshot cid ver (ps_operation s)")
  case (Inr d)
  let ?t = "\<lparr>ps_step_id = ps_step_id s, ps_operation = ps_operation s,
      ps_typed_arguments = ps_typed_arguments s, ps_depends_on = ps_depends_on s,
      ps_side_effect = os_side_effect d, ps_effect_class = os_effect_class d,
      ps_read_class = os_read_class d, ps_condition = ps_condition s\<rparr>"
  have "build_plan_step snapshot cid ver (ps_operation s) (ps_step_id s) (ps_typed_arguments s)
      (ps_depends_on s) (Some (ps_condition s)) = Inr s \<longleftrightarrow> plan_step_ok ?t \<and> ?t = s"
    using Inr by (simp add: build_plan_step_def revalidate_def split: sum.split)
  also have "\<dots> \<longleftrightarrow> ?t = s" using assms by metis
  also have "\<dots> \<longleftrightarrow> ps_effect_class s = os_effect_class d \<and> ps_side_effect s = os_side_effect d
      \<and> ps_read_class s = os_read_class d" by (cases s) auto
  finally show ?thesis using Inr by simp
qed (simp add: build_plan_step_def)

text \<open>
  C34. The classification of a plan is what its capability declares and nothing else:
  \<open>verify_plan_effects\<close> accepts a valid plan exactly when every step is the one \<open>build_plan_step\<close>
  makes, from the declarations, of the step's operation, id, arguments, dependencies and condition.
  A step that understates (or overstates) its effect is refused.
\<close>

theorem plan_effects_are_derived:
  assumes "execution_plan_ok p"
  shows "verify_plan_effects snapshot p = Inr () \<longleftrightarrow>
     list_all (\<lambda>s. build_plan_step snapshot (ep_capability_id p) (ep_capability_version p)
        (ps_operation s) (ps_step_id s) (ps_typed_arguments s) (ps_depends_on s) (Some (ps_condition s))
        = Inr s) (ep_steps p)"
  using assms build_same_step
  by (simp add: verify_plan_effects_def verify_steps_ok list_all_iff execution_plan_ok_def)

text \<open>A step that writes but calls itself a read is refused, however the plan is otherwise valid.\<close>

theorem plan_effects_are_derived_witness:
  "verify_plan_effects (demo_snapshot True) (demo_op_plan False) \<noteq> Inr ()
     \<and> verify_plan_effects (demo_snapshot True) (demo_op_plan True) = Inr ()"
proof -
  have ok: "execution_plan_ok (demo_op_plan w)" for w
    by (cases w) (simp_all add: execution_plan_ok_def demo_op_plan_def demo_plan_def demo_op_step_def
        demo_step_def plan_step_ok_def frozen_map_ok_def step_condition_ok_def demo_condition_def
        present_operands_def plan_budget_ok_def PLAN_SCHEMA_VERSION_def)
  show ?thesis
    using plan_effects_are_derived [OF ok, of "demo_snapshot True" False]
      plan_effects_are_derived [OF ok, of "demo_snapshot True" True] ok [of True]
    by (simp add: build_plan_step_def demo_op_plan_def demo_plan_def demo_op_step_def demo_step_def
        derive_effect_def demo_snapshot_def demo_spec_def revalidate_def execution_plan_ok_def)
qed

subsection \<open>Production is read-only\<close>

text \<open>
  With the capabilities and profiles the program ships, admission issues certificates
  for reads only: whatever the plan claims and however the query guards and the approval gate
  behave, the certificate is for the read class, needs no approval, and the request is for the
  \<open>dev\<close> or \<open>test\<close> environment under the shipped policy revision.
\<close>

theorem production_admits_reads_only:
  assumes "admit_step E guards gate r = Inr c" "aq_snapshot r = CAPABILITY_SNAPSHOT"
    "aq_profile r \<in> set production_profiles" "aq_policy_snapshot r = ACTIVE_POLICY_SNAPSHOT"
  shows "ac_effect_class c = READ \<and> ac_approval_ref c = None
     \<and> rc_environment_id (aq_context r) \<in> {''dev'', ''test''}
     \<and> ep_policy_revision (aq_plan r) = ''policy-2026-09-28.1''"
proof -
  from assms(1) obtain declared decision ref where s:
      "ep_policy_revision (aq_plan r) = psn_policy_revision (aq_policy_snapshot r)"
      "declared_effect r = Inr declared" "decision = request_decision r declared" "pd_allow decision"
      "request_approval gate r declared = Inr ref" "request_certificate E r declared decision ref = Inr c"
    by (rule admit_stages)
  have d: "os_effect_class declared = READ" "\<not> os_side_effect declared"
    using s(2) assms(2) production_operations [of _ _ _ declared] by (auto simp: declared_effect_def)
  have "rc_environment_id (aq_context r) \<in> set (pp_allowed_environment_ids (aq_profile r))"
    using s(3,4) by (simp add: request_decision_def evaluate_tool_policy_def decide_def allowed_verdict)
  moreover have "ref = None" using s(5) d(2) by (simp add: request_approval_def)
  ultimately show ?thesis
    using request_certificate_fields [OF s(6)] d(1) production_profile_limits(2) [OF assms(3)] s(1) assms(4)
    by (simp add: ACTIVE_POLICY_SNAPSHOT_def)
qed

definition demo_asset_plan :: execution_plan where
  "demo_asset_plan = demo_plan\<lparr>ep_capability_id := ''asset.inventory.lookup'',
     ep_capability_version := ''1.0.0'', ep_policy_profile := ''readonly.asset.inventory.lookup.v1'',
     ep_policy_revision := ''policy-2026-09-28.1'',
     ep_steps := [(demo_step ''step-1'')\<lparr>ps_operation := ''lookup_asset''\<rparr>]\<rparr>"

definition demo_asset_request :: admission_request where
  "demo_asset_request = \<lparr>aq_step = hd (ep_steps demo_asset_plan), aq_plan = demo_asset_plan,
     aq_call = (demo_op_call ''key-1'')\<lparr>tc_gateway := ''asset_inventory'', tc_operation := ''lookup_asset''\<rparr>,
     aq_context = demo_context\<lparr>rc_environment_id := ''dev''\<rparr>,
     aq_target = demo_target\<lparr>rt_environment_id := ''dev''\<rparr>, aq_snapshot = CAPABILITY_SNAPSHOT,
     aq_policy_snapshot = ACTIVE_POLICY_SNAPSHOT, aq_profile = ASSET_INVENTORY_READONLY_PROFILE,
     aq_sql_surface = None, aq_promql_surface = None, aq_for_task = ''t1'', aq_now = 5,
     aq_approval = None, aq_hydrated = None, aq_readonly_policy = None\<rparr>"

lemma demo_asset_hashes:
  "is_ok (compute_plan_hash demo_env demo_asset_plan)"
  "is_ok (compute_target_fingerprint demo_env (aq_target demo_asset_request))"
  "is_ok (compute_tool_call_hash demo_env (aq_call demo_asset_request))"
proof -
  have "is_ok (normalise (env_nfc demo_env) (plan_payload demo_asset_plan))"
    by (simp add: demo_asset_plan_def demo_plan_def demo_step_def plan_payload_def step_payload_def
        budget_payload_def condition_payload_def args_payload_def demo_condition_def obj_def demo_env_def
        opt_value_def)
  from sha256_of_total [OF demo_env_ok this] show "is_ok (compute_plan_hash demo_env demo_asset_plan)"
    by (auto simp: compute_plan_hash_def is_ok_conv)
  have "is_ok (normalise (env_nfc demo_env) (target_payload (aq_target demo_asset_request)))"
    by (simp add: demo_asset_request_def demo_target_def target_payload_def obj_def demo_env_def)
  from sha256_of_total [OF demo_env_ok this]
  show "is_ok (compute_target_fingerprint demo_env (aq_target demo_asset_request))"
    by (auto simp: compute_target_fingerprint_def is_ok_conv)
  have "is_ok (normalise (env_nfc demo_env) (tool_call_payload (aq_call demo_asset_request)))"
    by (simp add: demo_asset_request_def demo_op_call_def tool_call_payload_def args_payload_def obj_def
        demo_env_def)
  from sha256_of_total [OF demo_env_ok this]
  show "is_ok (compute_tool_call_hash demo_env (aq_call demo_asset_request))"
    by (auto simp: compute_tool_call_hash_def is_ok_conv)
qed

lemma demo_asset_admitted:
  "\<exists>c. admit_step demo_env demo_guards (never_granting_gate demo_env) demo_asset_request = Inr c"
proof -
  let ?r = demo_asset_request
  let ?o = "read_operation ''lookup_asset'' ''asset_inventory'' BOUNDED
      ''schema.asset.inventory.lookup.v1'' QR_NONE"
  have plan: "aq_plan ?r = demo_asset_plan" "aq_snapshot ?r = CAPABILITY_SNAPSHOT"
    by (simp_all add: demo_asset_request_def)
  have effect: "derive_effect CAPABILITY_SNAPSHOT ''asset.inventory.lookup'' ''1.0.0'' ''lookup_asset'' = Inr ?o"
    by (simp add: derive_effect_def CAPABILITY_SNAPSHOT_def SLOW_QUERY_SPEC_def PROMETHEUS_ALERT_SPEC_def
        ASSET_INVENTORY_SPEC_def) (simp add: read_operation_def)
  have revision: "verify_policy_revision (aq_policy_snapshot ?r) (aq_plan ?r) = Inr ()"
    by (simp add: verify_policy_revision_def demo_asset_request_def ACTIVE_POLICY_SNAPSHOT_def
        demo_asset_plan_def)
  have effects: "verify_plan_effects (aq_snapshot ?r) (aq_plan ?r) = Inr ()"
    using effect by (simp add: verify_plan_effects_def plan demo_asset_plan_def demo_step_def)
      (simp add: read_operation_def)
  have declared: "declared_effect ?r = Inr ?o"
    using effect by (simp add: declared_effect_def plan demo_asset_plan_def demo_asset_request_def demo_step_def)
  have decision: "request_decision ?r ?o = decide ASSET_INVENTORY_READONLY_PROFILE ALLOWED ''r1''"
    by (simp add: request_decision_def evaluate_tool_policy_def policy_verdict_def demo_asset_request_def
        demo_asset_plan_def demo_target_def demo_context_def demo_op_call_def read_operation_def
        ASSET_INVENTORY_READONLY_PROFILE_def readonly_profile_def)
  have query: "verify_step_query demo_env demo_guards (aq_step ?r) (aq_call ?r) (aq_target ?r)
      (os_query_requirement ?o) (aq_sql_surface ?r) (aq_promql_surface ?r) (aq_hydrated ?r)
      (aq_readonly_policy ?r) = Inr ()"
    by (simp add: verify_step_query_def has_arg_def demo_asset_request_def demo_asset_plan_def demo_step_def
        read_operation_def)
  have hex: "sha256_hex h" if "compute_plan_hash demo_env demo_asset_plan = Inr h
      \<or> compute_target_fingerprint demo_env (aq_target ?r) = Inr h
      \<or> compute_tool_call_hash demo_env (aq_call ?r) = Inr h" for h
    using that sha256_of_hex [OF demo_env_ok]
    by (auto simp: compute_plan_hash_def compute_target_fingerprint_def compute_tool_call_hash_def)
  have "policy_decision_ok (decide ASSET_INVENTORY_READONLY_PROFILE ALLOWED ''r1'')" by (rule decide_ok) simp
  moreover have "strict_str (tc_step_id (aq_call ?r))" "strict_str (tc_operation (aq_call ?r))"
    by (simp_all add: demo_asset_request_def demo_op_call_def) (rule strict_strI; code_simp)
  ultimately have "is_ok (request_certificate demo_env ?r ?o
      (decide ASSET_INVENTORY_READONLY_PROFILE ALLOWED ''r1'') None)"
    using demo_asset_hashes hex
    by (auto simp: request_certificate_def plan issue_admission_certificate_def is_ok_conv
        admission_certificate_ok_def) (simp_all add: decide_def demo_asset_request_def demo_context_def)
  moreover have "tc_gateway (aq_call ?r) = os_gateway ?o" "\<not> os_side_effect ?o"
    "pd_allow (decide ASSET_INVENTORY_READONLY_PROFILE ALLOWED ''r1'')"
    by (simp_all add: demo_asset_request_def read_operation_def decide_def)
  ultimately show ?thesis
    using revision effects query declared
    by (simp add: admit_step_def decision spec_checked_def request_approval_def is_ok_conv)
qed

theorem production_admits_reads_only_witness:
  "\<exists>c. admit_step demo_env demo_guards (never_granting_gate demo_env) demo_asset_request = Inr c
     \<and> ac_effect_class c = READ \<and> ac_approval_ref c = None"
proof -
  obtain c where c: "admit_step demo_env demo_guards (never_granting_gate demo_env) demo_asset_request = Inr c"
    using demo_asset_admitted by blast
  have "aq_snapshot demo_asset_request = CAPABILITY_SNAPSHOT"
    "aq_profile demo_asset_request \<in> set production_profiles"
    "aq_policy_snapshot demo_asset_request = ACTIVE_POLICY_SNAPSHOT"
    by (simp_all add: demo_asset_request_def production_profiles_def)
  from production_admits_reads_only [OF c this] c show ?thesis by blast
qed

subsection \<open>What reaches a tool\<close>

text \<open>
  C33. The gateway calls an adapter exactly when the certificate is of the step and operation
  of the call, carries the hash of this very call, was issued under the revision of the context,
  allows, and is for a read; and the adapter is the registered one, which for a target-bound gateway
  means the one bound to the admitted target, for this tenant, environment and actor, inside its
  activation window. In every other case no adapter is called at all.
\<close>

theorem gateway_calls_exactly_the_admitted:
  "fst (invoke E execute g call ctx c now captured_at) = Some a \<longleftrightarrow>
     ac_step_id c = tc_step_id call \<and> ac_operation c = tc_operation call
     \<and> compute_tool_call_hash E call = Inr (ac_tool_call_hash c)
     \<and> pd_policy_revision (ac_policy_decision c) = rc_policy_revision ctx
     \<and> pd_allow (ac_policy_decision c) \<and> ac_effect_class c = READ
     \<and> reachable_adapter g call ctx c now a"
  by (auto simp: invoke_calls check_certificate_Inr)

text \<open>
  What a tool executes is the step that was admitted: if an adapter is called with a
  certificate the runner obtained for a step, then, where SHA-256 does not collide on the two calls,
  the executed call is the step's own call (operation, step, arguments, the fixed time limit and the
  key derived from the plan hash), up to Unicode NFC, the sign of a zero and the order of arguments;
  the step is declared a read and the profile allowed it for this call.
\<close>

theorem executed_call_was_admitted:
  assumes "py_env_ok E"
    "runner_admit E guards gate execution_for snapshot policies task_id step plan target ctx approval now
       = Inr (c, admitted)"
    "fst (invoke E execute g call ctx' c now' captured_at) = Some a"
    "no_collision E (tool_call_payload call) (tool_call_payload admitted)"
  shows "canon_call (env_nfc E) call = canon_call (env_nfc E) admitted
     \<and> tc_operation admitted = ps_operation step \<and> tc_step_id admitted = ps_step_id step
     \<and> tc_typed_args admitted = ps_typed_arguments step
     \<and> (\<exists>d. derive_effect snapshot (ep_capability_id plan) (ep_capability_version plan)
            (ps_operation step) = Inr d \<and> os_effect_class d = READ \<and> tc_gateway admitted = os_gateway d
          \<and> policy_verdict (eb_policy_profile (execution_for plan)) plan admitted ctx target READ
              (os_read_class d) = ALLOWED)"
proof -
  let ?r = "\<lparr>aq_step = step, aq_plan = plan, aq_call = admitted, aq_context = ctx, aq_target = target,
      aq_snapshot = snapshot, aq_policy_snapshot = policies,
      aq_profile = eb_policy_profile (execution_for plan),
      aq_sql_surface = eb_sql_surface (execution_for plan),
      aq_promql_surface = eb_promql_surface (execution_for plan), aq_for_task = task_id,
      aq_now = now, aq_approval = approval, aq_hydrated = None, aq_readonly_policy = None\<rparr>"
  from assms(2) obtain h where r:
      "build_call snapshot plan step (take 16 h @ '':'' @ ps_step_id step) = Inr admitted"
      "admit_step E guards gate ?r = Inr c"
    by (rule runner_admit_Inr)
  from r(2) obtain d decision ref where s: "declared_effect ?r = Inr d"
      "decision = request_decision ?r d" "pd_allow decision"
      "request_certificate E ?r d decision ref = Inr c"
    by (rule admit_stages)
  note f = request_certificate_fields [OF s(4)]
  have i: "compute_tool_call_hash E call = Inr (ac_tool_call_hash c)" "ac_effect_class c = READ"
    using assms(3) by (simp_all add: invoke_calls check_certificate_Inr)
  have "canon_call (env_nfc E) call = canon_call (env_nfc E) admitted"
    using veq_call [OF assms(1)] sha256_of_veq [OF assms(1,4)] i(1) f(8)
    by (simp add: compute_tool_call_hash_def)
  moreover have "os_effect_class d = READ" using f(3) i(2) by simp
  moreover have "policy_verdict (eb_policy_profile (execution_for plan)) plan admitted ctx target
      (os_effect_class d) (os_read_class d) = ALLOWED"
    using s(2,3) by (simp add: request_decision_def evaluate_tool_policy_def decide_def)
  moreover from r(1) obtain d' where
      "derive_effect snapshot (ep_capability_id plan) (ep_capability_version plan) (ps_operation step) = Inr d'"
      "admitted = \<lparr>tc_gateway = os_gateway d', tc_operation = ps_operation step,
       tc_step_id = ps_step_id step, tc_typed_args = ps_typed_arguments step,
       tc_timeout_seconds = DEFAULT_TIMEOUT_SECONDS,
       tc_idempotency_key = take 16 h @ '':'' @ ps_step_id step\<rparr>"
    by (rule build_call_Inr)
  ultimately show ?thesis using s(1) by (simp add: declared_effect_def)
qed

definition demo_binding_for :: "execution_plan \<Rightarrow> execution_binding" where
  "demo_binding_for plan = \<lparr>eb_policy_profile = demo_profile, eb_sql_surface = None, eb_promql_surface = None\<rparr>"

definition demo_gateway :: "unit gateway" where
  "demo_gateway = \<lparr>gw_adapters = [(''gw'', ())], gw_target_adapters = [], gw_target_gateways = {}\<rparr>"

definition demo_key :: string where
  "demo_key = take 16 (demo_op_plan_hash False) @ '':step-1''"

lemma demo_key_ok: "strict_str demo_key"
proof (rule strict_strI)
  obtain c cs where h: "demo_op_plan_hash False = c # cs" "lower_hex c"
    using demo_op_hashes(2) [of False] by (cases "demo_op_plan_hash False") (auto simp: sha256_hex_def)
  then show "ascii_alnum (hd demo_key)"
    by (auto simp: demo_key_def lower_hex_def ascii_alnum_def less_eq_char_def)
  show "ascii_alnum (last demo_key)" by (simp add: demo_key_def) code_simp
qed (simp add: demo_key_def)

lemma demo_runner_admitted:
  "\<exists>c. runner_admit demo_env demo_guards (never_granting_gate demo_env) demo_binding_for (demo_snapshot False)
     demo_policies ''t1'' (demo_op_step False) (demo_op_plan False) demo_target demo_context
     (Some (demo_approval False)) 5 = Inr (c, demo_op_call demo_key)"
proof -
  have effect: "derive_effect (demo_snapshot False) (ep_capability_id (demo_op_plan False))
      (ep_capability_version (demo_op_plan False)) (ps_operation (demo_op_step False)) = Inr (demo_spec False)"
    using demo_declared [of False "demo_op_call demo_key"]
    by (simp add: declared_effect_def demo_request_def)
  have call: "\<lparr>tc_gateway = os_gateway (demo_spec False), tc_operation = ps_operation (demo_op_step False),
      tc_step_id = ps_step_id (demo_op_step False), tc_typed_args = ps_typed_arguments (demo_op_step False),
      tc_timeout_seconds = DEFAULT_TIMEOUT_SECONDS, tc_idempotency_key = demo_key\<rparr> = demo_op_call demo_key"
    by (simp add: demo_spec_def demo_op_step_def demo_step_def DEFAULT_TIMEOUT_SECONDS_def demo_op_call_def)
  have "strict_str ''gw''" by simp
  then have "tool_call_ok (demo_op_call demo_key)"
    using demo_key_ok by (simp add: tool_call_ok_def demo_op_call_def frozen_map_ok_def)
  then have "build_call (demo_snapshot False) (demo_op_plan False) (demo_op_step False) demo_key
      = Inr (demo_op_call demo_key)"
    by (simp add: build_call_def spec_checked_def effect call)
  moreover have "demo_key = take 16 (demo_op_plan_hash False) @ '':'' @ ps_step_id (demo_op_step False)"
    by (simp add: demo_key_def demo_op_step_def demo_step_def)
  moreover have "\<lparr>aq_step = demo_op_step False, aq_plan = demo_op_plan False, aq_call = demo_op_call demo_key,
      aq_context = demo_context, aq_target = demo_target, aq_snapshot = demo_snapshot False,
      aq_policy_snapshot = demo_policies, aq_profile = eb_policy_profile (demo_binding_for (demo_op_plan False)),
      aq_sql_surface = eb_sql_surface (demo_binding_for (demo_op_plan False)),
      aq_promql_surface = eb_promql_surface (demo_binding_for (demo_op_plan False)), aq_for_task = ''t1'',
      aq_now = 5, aq_approval = Some (demo_approval False), aq_hydrated = None, aq_readonly_policy = None\<rparr>
      = demo_request False (demo_op_call demo_key)"
    by (simp add: demo_request_def demo_binding_for_def)
  ultimately show ?thesis
    using demo_admitted [of False demo_key] demo_op_hashes(1) [of False]
    by (auto simp: runner_admit_def Let_def)
qed

lemma demo_reached:
  "\<exists>c. runner_admit demo_env demo_guards (never_granting_gate demo_env) demo_binding_for (demo_snapshot False)
     demo_policies ''t1'' (demo_op_step False) (demo_op_plan False) demo_target demo_context
     (Some (demo_approval False)) 5 = Inr (c, demo_op_call demo_key)
   \<and> fst (invoke demo_env execute demo_gateway (demo_op_call demo_key) demo_context c 5 5) = Some ()"
proof -
  obtain c where c: "runner_admit demo_env demo_guards (never_granting_gate demo_env) demo_binding_for
      (demo_snapshot False) demo_policies ''t1'' (demo_op_step False) (demo_op_plan False) demo_target
      demo_context (Some (demo_approval False)) 5 = Inr (c, demo_op_call demo_key)"
    using demo_runner_admitted by blast
  from c obtain h where "admit_step demo_env demo_guards (never_granting_gate demo_env)
      \<lparr>aq_step = demo_op_step False, aq_plan = demo_op_plan False, aq_call = demo_op_call demo_key,
       aq_context = demo_context, aq_target = demo_target, aq_snapshot = demo_snapshot False,
       aq_policy_snapshot = demo_policies,
       aq_profile = eb_policy_profile (demo_binding_for (demo_op_plan False)),
       aq_sql_surface = eb_sql_surface (demo_binding_for (demo_op_plan False)),
       aq_promql_surface = eb_promql_surface (demo_binding_for (demo_op_plan False)), aq_for_task = ''t1'',
       aq_now = 5, aq_approval = Some (demo_approval False), aq_hydrated = None, aq_readonly_policy = None\<rparr> = Inr c"
    by (rule runner_admit_Inr)
  then have "admit_step demo_env demo_guards (never_granting_gate demo_env)
      (demo_request False (demo_op_call demo_key)) = Inr c"
    by (simp add: demo_request_def demo_binding_for_def)
  then obtain ref where "request_certificate demo_env (demo_request False (demo_op_call demo_key))
      (demo_spec False) (request_decision (demo_request False (demo_op_call demo_key)) (demo_spec False)) ref = Inr c"
    "pd_allow (request_decision (demo_request False (demo_op_call demo_key)) (demo_spec False))"
    by (rule admit_stages) (auto simp: demo_declared)
  from this(2) request_certificate_fields [OF this(1)]
  have "fst (invoke demo_env execute demo_gateway (demo_op_call demo_key) demo_context c 5 5) = Some ()"
    by (simp add: invoke_calls check_certificate_Inr reachable_adapter_def demo_gateway_def)
      (simp add: demo_request_def demo_op_call_def demo_spec_def)
  with c show ?thesis by blast
qed

theorem executed_call_was_admitted_witness:
  "\<exists>c. fst (invoke demo_env (\<lambda>a call ctx. TimedOut) demo_gateway (demo_op_call demo_key) demo_context c 5 5) = Some ()
     \<and> tc_typed_args (demo_op_call demo_key) = ps_typed_arguments (demo_op_step False)"
proof -
  obtain c where c: "runner_admit demo_env demo_guards (never_granting_gate demo_env) demo_binding_for
      (demo_snapshot False) demo_policies ''t1'' (demo_op_step False) (demo_op_plan False) demo_target
      demo_context (Some (demo_approval False)) 5 = Inr (c, demo_op_call demo_key)"
    and call: "fst (invoke demo_env (\<lambda>a call ctx. TimedOut) demo_gateway (demo_op_call demo_key) demo_context c 5 5)
      = Some ()"
    using demo_reached by blast
  have "no_collision demo_env (tool_call_payload (demo_op_call demo_key)) (tool_call_payload (demo_op_call demo_key))"
    by (auto simp: no_collision_def split: sum.splits)
  from executed_call_was_admitted [OF demo_env_ok c call this] call show ?thesis by blast
qed

end
