(* ===== verification/Sql_Tokens.thy ===== *)
theory Sql_Tokens
  imports Task_Commands
begin

text \<open>
  The scanner of \<open>governance/sql_tokens.py\<close>, which reads a SQL text before any parser does:
  tokens as byte intervals of the text, and the closed set of reasons a text is refused for.
  The bytes of a text are a \<open>string\<close>; the scanner works on its code points, which are numbers.
  A state of \<open>_Scanner\<close> is the byte offset and the code points still to read; what a method
  returns besides is the new state. At the end of the text \<open>_peek\<close> returns the empty string,
  which no comparison of the source equals: here, the empty rest.
\<close>

subsection \<open>UTF-8\<close>

text \<open>\<open>bytes.decode\<close> with the strict handler, and \<open>str.encode\<close> of one character.\<close>

fun decode_utf8 :: "nat list \<Rightarrow> nat list option" where
  "decode_utf8 [] = Some []"
| "decode_utf8 (a # bs) =
     (if a < 128 then map_option (Cons a) (decode_utf8 bs)
      else case bs of
        [] \<Rightarrow> None
      | b # cs \<Rightarrow>
          if 194 \<le> a \<and> a \<le> 223
          then if cont_byte b
               then map_option (Cons ((a - 192) * 64 + (b - 128))) (decode_utf8 cs) else None
          else case cs of
            [] \<Rightarrow> None
          | c # ds \<Rightarrow>
              if 224 \<le> a \<and> a \<le> 239
              then if cont_byte b \<and> (a = 224 \<longrightarrow> 160 \<le> b) \<and> (a = 237 \<longrightarrow> b \<le> 159) \<and> cont_byte c
                   then map_option (Cons ((a - 224) * 4096 + (b - 128) * 64 + (c - 128)))
                     (decode_utf8 ds) else None
              else case ds of
                [] \<Rightarrow> None
              | d # es \<Rightarrow>
                  if 240 \<le> a \<and> a \<le> 244 \<and> cont_byte b \<and> (a = 240 \<longrightarrow> 144 \<le> b)
                    \<and> (a = 244 \<longrightarrow> b \<le> 143) \<and> cont_byte c \<and> cont_byte d
                  then map_option
                    (Cons ((a - 240) * 262144 + (b - 128) * 4096 + (c - 128) * 64 + (d - 128)))
                    (decode_utf8 es) else None)"

definition encode_char :: "nat \<Rightarrow> nat list" where
  "encode_char c =
     (if c < 128 then [c]
      else if c < 2048 then [192 + c div 64, 128 + c mod 64]
      else if c < 65536 then [224 + c div 4096, 128 + c div 64 mod 64, 128 + c mod 64]
      else [240 + c div 262144, 128 + c div 4096 mod 64, 128 + c div 64 mod 64, 128 + c mod 64])"

definition encode_utf8 :: "nat list \<Rightarrow> nat list" where
  "encode_utf8 cs = concat (map encode_char cs)"

definition char_bytes :: "nat \<Rightarrow> nat" where
  "char_bytes c = length (encode_char c)"

definition text_bytes :: "nat list \<Rightarrow> nat" where
  "text_bytes cs = length (encode_utf8 cs)"

subsection \<open>Tokens\<close>

datatype token_kind = TK_WORD | TK_QUOTED_IDENTIFIER | TK_STRING | TK_SYMBOL | TK_COMMENT

datatype token_scan_reason =
    TR_EMPTY | TR_TOO_LONG | TR_INVALID_UTF8 | TR_BOM | TR_CONTROL_CHARACTER
  | TR_AMBIGUOUS_PUNCTUATION | TR_HINT_COMMENT | TR_MULTI_STATEMENT | TR_INTO_OUTFILE
  | TR_UNTERMINATED

record sql_token =
  tk_kind :: token_kind
  tk_start :: nat
  tk_end :: nat

record token_scan =
  ts_raw :: string
  ts_tokens :: "sql_token list"

definition token_text :: "token_scan \<Rightarrow> sql_token \<Rightarrow> string" where
  "token_text sc t = drop (tk_start t) (take (tk_end t) (ts_raw sc))"

definition is_semicolon :: "token_scan \<Rightarrow> sql_token \<Rightarrow> bool" where
  "is_semicolon sc t \<longleftrightarrow> tk_kind t = TK_SYMBOL \<and> ts_raw sc ! tk_start t = CHR '';''"

definition significant_tokens :: "token_scan \<Rightarrow> sql_token list" where
  "significant_tokens sc = filter (\<lambda>t. tk_kind t \<noteq> TK_COMMENT) (ts_tokens sc)"

definition statement_tokens :: "token_scan \<Rightarrow> sql_token list" where
  "statement_tokens sc = (let s = significant_tokens sc in
     if s \<noteq> [] \<and> is_semicolon sc (last s) then butlast s else s)"

subsection \<open>Characters\<close>

definition ws_char :: "nat \<Rightarrow> bool" where
  "ws_char c \<longleftrightarrow> c \<in> {32, 9, 13, 10}"

definition line_end :: "nat \<Rightarrow> bool" where
  "line_end c \<longleftrightarrow> c \<in> {13, 10}"

definition digit_char :: "nat \<Rightarrow> bool" where
  "digit_char c \<longleftrightarrow> 48 \<le> c \<and> c \<le> 57"

definition word_char :: "nat \<Rightarrow> bool" where
  "word_char c \<longleftrightarrow> digit_char c \<or> 65 \<le> c \<and> c \<le> 90 \<or> 97 \<le> c \<and> c \<le> 122 \<or> c = 95 \<or> c = 36"

definition cc_char :: "nat \<Rightarrow> bool" where
  "cc_char c \<longleftrightarrow> c < 32 \<or> 127 \<le> c \<and> c < 160"

text \<open>
  \<open>unicodedata.category\<close> in Cf, Zl or Zp: the table of the interpreter the project requires,
  Python 3.11 with Unicode 14, as intervals.
\<close>

definition format_ranges :: "(nat \<times> nat) list" where
  "format_ranges =
     [(0xAD, 0xAD), (0x600, 0x605), (0x61C, 0x61C), (0x6DD, 0x6DD), (0x70F, 0x70F),
      (0x890, 0x891), (0x8E2, 0x8E2), (0x180E, 0x180E), (0x200B, 0x200F), (0x2028, 0x202E),
      (0x2060, 0x2064), (0x2066, 0x206F), (0xFEFF, 0xFEFF), (0xFFF9, 0xFFFB),
      (0x110BD, 0x110BD), (0x110CD, 0x110CD), (0x13430, 0x13438), (0x1BCA0, 0x1BCA3),
      (0x1D173, 0x1D17A), (0xE0001, 0xE0001), (0xE0020, 0xE007F)]"

definition format_char :: "nat \<Rightarrow> bool" where
  "format_char c \<longleftrightarrow> list_ex (\<lambda>(a, b). a \<le> c \<and> c \<le> b) format_ranges"

definition bom_char :: nat where
  "bom_char = 0xFEFF"

definition check_char :: "nat \<Rightarrow> token_scan_reason option" where
  "check_char c =
     (if c = bom_char then Some TR_BOM
      else if cc_char c \<and> \<not> ws_char c \<or> format_char c then Some TR_CONTROL_CHARACTER
      else None)"

subsection \<open>The scanner\<close>

type_synonym scanner = "nat \<times> nat list"
type_synonym 'a scanned = "token_scan_reason + 'a"

text \<open>\<open>_advance\<close>; it is called only where a character is left.\<close>

fun advance :: "scanner \<Rightarrow> scanner scanned" where
  "advance (b, []) = Inr (b, [])"
| "advance (b, c # cs) =
     (case check_char c of Some r \<Rightarrow> Inl r | None \<Rightarrow> Inr (b + char_bytes c, cs))"

fun line_comment :: "nat \<Rightarrow> nat list \<Rightarrow> scanner scanned" where
  "line_comment b [] = Inr (b, [])"
| "line_comment b (c # cs) =
     (if line_end c then Inr (b, c # cs)
      else case check_char c of
        Some r \<Rightarrow> Inl r
      | None \<Rightarrow> line_comment (b + char_bytes c) cs)"

fun block_body :: "nat \<Rightarrow> nat list \<Rightarrow> scanner scanned" where
  "block_body b [] = Inl TR_UNTERMINATED"
| "block_body b (c # cs) =
     (if c = 42 \<and> cs \<noteq> [] \<and> hd cs = 47
      then case advance (b, c # cs) of Inl r \<Rightarrow> Inl r | Inr s \<Rightarrow> advance s
      else case check_char c of
        Some r \<Rightarrow> Inl r
      | None \<Rightarrow> block_body (b + char_bytes c) cs)"

definition block_comment :: "nat \<Rightarrow> nat list \<Rightarrow> scanner scanned" where
  "block_comment b cs =
     (if 2 < length cs \<and> (cs ! 2 = 43 \<or> cs ! 2 = 33) then Inl TR_HINT_COMMENT
      else case advance (b, cs) of
        Inl r \<Rightarrow> Inl r
      | Inr s \<Rightarrow> (case advance s of Inl r \<Rightarrow> Inl r | Inr (b', cs') \<Rightarrow> block_body b' cs'))"

fun quoted_body :: "nat \<Rightarrow> bool \<Rightarrow> nat \<Rightarrow> nat list \<Rightarrow> scanner scanned" where
  "quoted_body q bs b [] = Inl TR_UNTERMINATED"
| "quoted_body q bs b (c # cs) =
     (case check_char c of
        Some r \<Rightarrow> Inl r
      | None \<Rightarrow>
          if bs \<and> c = 92
          then (case cs of
                  [] \<Rightarrow> Inl TR_UNTERMINATED
                | d # ds \<Rightarrow> (case check_char d of
                    Some r \<Rightarrow> Inl r
                  | None \<Rightarrow> quoted_body q bs (b + char_bytes c + char_bytes d) ds))
          else if c = q
          then (case cs of
                  [] \<Rightarrow> Inr (b + char_bytes c, [])
                | d # ds \<Rightarrow>
                    if d \<noteq> q then Inr (b + char_bytes c, d # ds)
                    else (case check_char d of
                        Some r \<Rightarrow> Inl r
                      | None \<Rightarrow> quoted_body q bs (b + char_bytes c + char_bytes d) ds))
          else quoted_body q bs (b + char_bytes c) cs)"

definition quoted :: "bool \<Rightarrow> nat \<Rightarrow> nat list \<Rightarrow> scanner scanned" where
  "quoted bs b cs = (case advance (b, cs) of
     Inl r \<Rightarrow> Inl r | Inr (b', cs') \<Rightarrow> quoted_body (hd cs) bs b' cs')"

fun word_rest :: "nat \<Rightarrow> nat list \<Rightarrow> scanner scanned" where
  "word_rest b [] = Inr (b, [])"
| "word_rest b (c # cs) =
     (if word_char c
      then case check_char c of Some r \<Rightarrow> Inl r | None \<Rightarrow> word_rest (b + char_bytes c) cs
      else Inr (b, c # cs))"

definition of_kind :: "token_kind \<Rightarrow> scanner scanned \<Rightarrow> (token_kind option \<times> scanner) scanned" where
  "of_kind k s = (case s of Inl r \<Rightarrow> Inl r | Inr s' \<Rightarrow> Inr (Some k, s'))"

text \<open>One turn of the loop of \<open>run\<close>: no token for a white space character.\<close>

definition scan_turn :: "nat \<Rightarrow> nat list \<Rightarrow> (token_kind option \<times> scanner) scanned" where
  "scan_turn b cs = (let c = hd cs; next_is = (\<lambda>d. tl cs \<noteq> [] \<and> hd (tl cs) = d) in
     if ws_char c then (case advance (b, cs) of Inl r \<Rightarrow> Inl r | Inr s \<Rightarrow> Inr (None, s))
     else if c = 45 \<and> next_is 45 \<or> c = 35 then of_kind TK_COMMENT (line_comment b cs)
     else if c = 47 \<and> next_is 42 then of_kind TK_COMMENT (block_comment b cs)
     else if c = 39 \<or> c = 34 then of_kind TK_STRING (quoted True b cs)
     else if c = 96 then of_kind TK_QUOTED_IDENTIFIER (quoted False b cs)
     else if word_char c then of_kind TK_WORD (word_rest b cs)
     else if c < 128 then of_kind TK_SYMBOL (advance (b, cs))
     else (case check_char c of Some r \<Rightarrow> Inl r | None \<Rightarrow> Inl TR_AMBIGUOUS_PUNCTUATION))"

subsection \<open>What a scanner method reads\<close>

lemma text_bytes_simps [simp]:
  "text_bytes [] = 0"
  "text_bytes (c # cs) = char_bytes c + text_bytes cs"
  "text_bytes (cs @ ds) = text_bytes cs + text_bytes ds"
  by (simp_all add: text_bytes_def encode_utf8_def char_bytes_def)

definition safe_char :: "nat \<Rightarrow> bool" where
  "safe_char c \<longleftrightarrow> check_char c = None"

lemma advance_Inr:
  "advance (b, c # cs) = Inr s \<longleftrightarrow> safe_char c \<and> s = (b + char_bytes c, cs)"
  by (auto simp: safe_char_def split: option.splits)

lemma line_comment_Inr:
  "line_comment b cs = Inr (b', rest) \<longleftrightarrow>
     (\<exists>s. cs = s @ rest \<and> list_all safe_char s \<and> list_all (\<lambda>c. \<not> line_end c) s
        \<and> (rest = [] \<or> line_end (hd rest)) \<and> b' = b + text_bytes s)"
proof (induction b cs rule: line_comment.induct)
  case (2 b c cs)
  show ?case
  proof (cases "line_end c")
    case True
    then show ?thesis
      by (auto simp: Cons_eq_append_conv)
  next
    case False
    then show ?thesis
      using 2 by (auto simp: Cons_eq_append_conv safe_char_def split: option.splits)
  qed
qed auto

lemma word_rest_Inr:
  "word_rest b cs = Inr (b', rest) \<longleftrightarrow>
     (\<exists>s. cs = s @ rest \<and> list_all safe_char s \<and> list_all word_char s
        \<and> (rest = [] \<or> \<not> word_char (hd rest)) \<and> b' = b + text_bytes s)"
proof (induction b cs rule: word_rest.induct)
  case (2 b c cs)
  show ?case
  proof (cases "word_char c")
    case True
    then show ?thesis
      using 2 by (auto simp: Cons_eq_append_conv safe_char_def split: option.splits)
  next
    case False
    then show ?thesis
      by (auto simp: Cons_eq_append_conv)
  qed
qed auto

text \<open>The inside of a block comment: the text before its first \<open>*/\<close>.\<close>

fun no_close :: "nat list \<Rightarrow> bool" where
  "no_close [] = True"
| "no_close (c # cs) = (\<not> (c = 42 \<and> cs \<noteq> [] \<and> hd cs = 47) \<and> no_close cs)"

lemma printable_safe: "32 \<le> c \<Longrightarrow> c < 127 \<Longrightarrow> safe_char c"
  by (simp add: safe_char_def check_char_def bom_char_def cc_char_def format_char_def
      format_ranges_def)

lemma safe_ascii [simp]: "safe_char 42" "safe_char 47" "safe_char 39" "safe_char 34" "safe_char 96"
  by (simp_all add: printable_safe)

lemma block_body_Inr:
  "block_body b cs = Inr (b', rest) \<longleftrightarrow>
     (\<exists>u. cs = u @ 42 # 47 # rest \<and> list_all safe_char u \<and> no_close u
        \<and> b' = b + text_bytes (u @ [42, 47]))"
proof (induction b cs rule: block_body.induct)
  case (2 b c cs)
  show ?case
  proof (cases "c = 42 \<and> cs \<noteq> [] \<and> hd cs = 47")
    case True
    then obtain ds where "cs = 47 # ds"
      by (cases cs) auto
    then show ?thesis
      using True safe_ascii by (auto simp: Cons_eq_append_conv safe_char_def split: option.splits)
  next
    case False
    then have "u @ 42 # 47 # rest = cs \<Longrightarrow> no_close (c # u) = no_close u" for u
      by (cases u) auto
    then show ?thesis
      using False 2 by (auto simp: Cons_eq_append_conv safe_char_def split: option.splits)
  qed
qed auto

text \<open>
  The inside of a quoted text: plain characters, doubled quotes and, in a string, characters after
  a backslash.
\<close>

fun quoted_units :: "nat \<Rightarrow> bool \<Rightarrow> nat list \<Rightarrow> bool" where
  "quoted_units q bs [] = True"
| "quoted_units q bs [c] = (\<not> (bs \<and> c = 92) \<and> c \<noteq> q)"
| "quoted_units q bs (c # d # ds) =
     (if bs \<and> c = 92 then quoted_units q bs ds
      else if c = q then d = q \<and> quoted_units q bs ds
      else quoted_units q bs (d # ds))"

lemma quoted_body_Inr:
  assumes "\<not> (bs \<and> q = 92)"
  shows "quoted_body q bs b cs = Inr (b', rest) \<longleftrightarrow>
     (\<exists>u. cs = u @ q # rest \<and> quoted_units q bs u \<and> list_all safe_char (u @ [q])
        \<and> (rest = [] \<or> hd rest \<noteq> q) \<and> b' = b + text_bytes (u @ [q]))"
  using assms
proof (induction q bs b cs rule: quoted_body.induct)
  case (2 q bs b c cs)
  consider (escape) "bs" "c = 92" | (quote) "c = q" | (plain) "\<not> (bs \<and> c = 92)" "c \<noteq> q"
    using "2.prems" by blast
  then show ?case
  proof cases
    case escape
    then show ?thesis
      using 2 by (cases cs)
        (auto simp: Cons_eq_append_conv safe_char_def split: option.splits)
  next
    case quote
    then show ?thesis
      using 2 by (cases cs)
        (auto simp: Cons_eq_append_conv safe_char_def split: option.splits)
  next
    case plain
    have "quoted_units q bs (c # u) = quoted_units q bs u" for u
      using plain by (cases u) auto
    then show ?thesis
      using plain 2 by (auto simp: Cons_eq_append_conv safe_char_def split: option.splits)
  qed
qed auto

subsection \<open>The lexical grammar\<close>

text \<open>
  What a piece of the text may be, given the text that follows it: \<open>None\<close> is white space, the rest
  are the tokens. A text is a sequence of pieces.
\<close>

inductive piece :: "token_kind option \<Rightarrow> nat list \<Rightarrow> nat list \<Rightarrow> bool" where
  space: "ws_char c \<Longrightarrow> piece None [c] rest"
| line: "s = 35 # u \<or> s = 45 # 45 # u \<Longrightarrow> list_all safe_char s \<Longrightarrow> list_all (\<lambda>c. \<not> line_end c) s
    \<Longrightarrow> rest = [] \<or> line_end (hd rest) \<Longrightarrow> piece (Some TK_COMMENT) s rest"
| block: "list_all safe_char u \<Longrightarrow> no_close u \<Longrightarrow> u = [] \<or> hd u \<noteq> 43 \<and> hd u \<noteq> 33
    \<Longrightarrow> piece (Some TK_COMMENT) (47 # 42 # u @ [42, 47]) rest"
| string: "q = 39 \<or> q = 34 \<Longrightarrow> list_all safe_char u \<Longrightarrow> quoted_units q True u
    \<Longrightarrow> rest = [] \<or> hd rest \<noteq> q \<Longrightarrow> piece (Some TK_STRING) (q # u @ [q]) rest"
| quoted_name: "list_all safe_char u \<Longrightarrow> quoted_units 96 False u
    \<Longrightarrow> rest = [] \<or> hd rest \<noteq> 96 \<Longrightarrow> piece (Some TK_QUOTED_IDENTIFIER) (96 # u @ [96]) rest"
| word: "s \<noteq> [] \<Longrightarrow> list_all word_char s \<Longrightarrow> rest = [] \<or> \<not> word_char (hd rest)
    \<Longrightarrow> piece (Some TK_WORD) s rest"
| symbol: "safe_char c \<Longrightarrow> c < 128 \<Longrightarrow> \<not> ws_char c \<Longrightarrow> \<not> word_char c
    \<Longrightarrow> c \<notin> {35, 39, 34, 96}
    \<Longrightarrow> \<not> (c = 45 \<and> rest \<noteq> [] \<and> hd rest = 45) \<Longrightarrow> \<not> (c = 47 \<and> rest \<noteq> [] \<and> hd rest = 42)
    \<Longrightarrow> piece (Some TK_SYMBOL) [c] rest"

inductive_cases piece_spaceE: "piece None s rest"
inductive_cases piece_commentE: "piece (Some TK_COMMENT) s rest"
inductive_cases piece_stringE: "piece (Some TK_STRING) s rest"
inductive_cases piece_quotedE: "piece (Some TK_QUOTED_IDENTIFIER) s rest"
inductive_cases piece_wordE: "piece (Some TK_WORD) s rest"
inductive_cases piece_symbolE: "piece (Some TK_SYMBOL) s rest"

lemmas char_class_defs = ws_char_def line_end_def digit_char_def word_char_def

lemma word_safe: "word_char c \<Longrightarrow> safe_char c"
  by (rule printable_safe) (auto simp: word_char_def digit_char_def)

lemma ws_safe: "ws_char c \<Longrightarrow> safe_char c"
  unfolding ws_char_def
  by (elim insertE emptyE) (simp_all add: safe_char_def check_char_def bom_char_def ws_char_def
      format_char_def format_ranges_def)

lemma list_all_word_safe: "list_all word_char s \<Longrightarrow> list_all safe_char s"
  by (auto simp: list_all_iff word_safe)

lemma piece_nonempty: "piece k s rest \<Longrightarrow> s \<noteq> []"
  by (cases rule: piece.cases) auto

lemma piece_safe: "piece k s rest \<Longrightarrow> list_all safe_char s"
  by (cases rule: piece.cases) (auto simp: ws_safe list_all_word_safe)

lemma block_comment_Inr:
  "block_comment b (47 # 42 # cs) = Inr (b', rest) \<longleftrightarrow>
     (\<exists>u. cs = u @ 42 # 47 # rest \<and> list_all safe_char u \<and> no_close u
        \<and> (u = [] \<or> hd u \<noteq> 43 \<and> hd u \<noteq> 33) \<and> b' = b + text_bytes (47 # 42 # u @ [42, 47]))"
proof -
  have bc: "block_comment b (47 # 42 # cs) =
      (if cs \<noteq> [] \<and> (hd cs = 43 \<or> hd cs = 33) then Inl TR_HINT_COMMENT
       else block_body (b + char_bytes 47 + char_bytes 42) cs)"
    using safe_ascii(1,2) by (cases cs) (auto simp: block_comment_def safe_char_def)
  have first: "(cs \<noteq> [] \<and> (hd cs = 43 \<or> hd cs = 33)) = (\<not> (u = [] \<or> hd u \<noteq> 43 \<and> hd u \<noteq> 33))"
    if "cs = u @ 42 # 47 # rest" for u
    using that by (cases u) auto
  have "block_comment b (47 # 42 # cs) = Inr (b', rest) \<longleftrightarrow>
      \<not> (cs \<noteq> [] \<and> (hd cs = 43 \<or> hd cs = 33))
      \<and> block_body (b + char_bytes 47 + char_bytes 42) cs = Inr (b', rest)"
    by (auto simp add: bc simp del: block_body.simps)
  then show ?thesis
    unfolding block_body_Inr using first by (auto simp: add.assoc)
qed

subsection \<open>The loop of the scanner\<close>

text \<open>One turn reads exactly one piece, and reads every piece the grammar allows.\<close>

lemma of_kind_Inr: "of_kind k s = Inr (k', s') \<longleftrightarrow> k' = Some k \<and> s = Inr s'"
  by (auto simp: of_kind_def split: sum.splits)

lemma quoted_Inr:
  assumes "c = 39 \<or> c = 34 \<or> c = 96" "\<not> (bs \<and> c = 92)"
  shows "quoted bs b (c # cs) = Inr (b', rest) \<longleftrightarrow>
     (\<exists>u. cs = u @ c # rest \<and> list_all safe_char u \<and> quoted_units c bs u
        \<and> (rest = [] \<or> hd rest \<noteq> c) \<and> b' = b + text_bytes (c # u @ [c]))"
proof -
  have "safe_char c"
    using assms(1) by auto
  then have "advance (b, c # cs) = Inr (b + char_bytes c, cs)"
    by (simp add: advance_Inr del: advance.simps)
  then show ?thesis
    using quoted_body_Inr [OF assms(2), of "b + char_bytes c" cs b' rest] \<open>safe_char c\<close>
    by (auto simp: quoted_def simp del: advance.simps quoted_body.simps)
qed

lemma scan_turn_sound:
  assumes "scan_turn b (c # cs) = Inr (k, b', rest)"
  shows "\<exists>s. c # cs = s @ rest \<and> piece k s rest \<and> b' = b + text_bytes s"
proof -
  consider (ws) "ws_char c"
    | (line) "\<not> ws_char c" "c = 45 \<and> cs \<noteq> [] \<and> hd cs = 45 \<or> c = 35"
    | (block) "\<not> ws_char c" "c = 47 \<and> cs \<noteq> [] \<and> hd cs = 42"
    | (string) "c = 39 \<or> c = 34"
    | (name) "c = 96"
    | (other) "\<not> ws_char c" "\<not> (c = 45 \<and> cs \<noteq> [] \<and> hd cs = 45 \<or> c = 35)"
        "\<not> (c = 47 \<and> cs \<noteq> [] \<and> hd cs = 42)" "c \<noteq> 39" "c \<noteq> 34" "c \<noteq> 96"
    by blast
  then show ?thesis
  proof cases
    case ws
    then show ?thesis
      using assms piece.space [of c] ws_safe
      by (intro exI [of _ "[c]"])
        (auto simp: scan_turn_def advance_Inr simp del: advance.simps split: sum.splits)
  next
    case line
    then have "k = Some TK_COMMENT" "line_comment b (c # cs) = Inr (b', rest)"
      using assms by (auto simp: scan_turn_def of_kind_Inr)
    then obtain s where s: "c # cs = s @ rest" "list_all safe_char s"
        "list_all (\<lambda>c. \<not> line_end c) s" "rest = [] \<or> line_end (hd rest)" "b' = b + text_bytes s"
      using line_comment_Inr by blast
    have nl: "\<not> line_end c"
      using line by (auto simp: line_end_def)
    obtain d s' where d: "s = d # s'" "d = c"
      using s(1,4) line nl by (cases s) (auto simp: line_end_def)
    have "s = 35 # s' \<or> (\<exists>u. s = 45 # 45 # u)"
      using d s(1,4) line by (cases s') (auto simp: line_end_def)
    then have "piece k s rest"
      using piece.line [of s] s \<open>k = Some TK_COMMENT\<close> by blast
    then show ?thesis
      using s by blast
  next
    case block
    then obtain ds where ds: "cs = 42 # ds" "c = 47"
      by (cases cs) auto
    then have "k = Some TK_COMMENT" "block_comment b (47 # 42 # ds) = Inr (b', rest)"
      using assms block by (auto simp: scan_turn_def of_kind_Inr)
    then show ?thesis
      using ds piece.block unfolding block_comment_Inr by force
  next
    case string
    then have "k = Some TK_STRING" "quoted True b (c # cs) = Inr (b', rest)"
      using assms by (auto simp: scan_turn_def of_kind_Inr ws_char_def)
    then show ?thesis
      using string piece.string by (fastforce simp: quoted_Inr)
  next
    case name
    then have "k = Some TK_QUOTED_IDENTIFIER" "quoted False b (c # cs) = Inr (b', rest)"
      using assms by (auto simp: scan_turn_def of_kind_Inr ws_char_def)
    then show ?thesis
      using name piece.quoted_name by (fastforce simp: quoted_Inr)
  next
    case other
    show ?thesis
    proof (cases "word_char c")
      case True
      then have "k = Some TK_WORD" "word_rest b (c # cs) = Inr (b', rest)"
        using assms other by (auto simp: scan_turn_def of_kind_Inr)
      then obtain s where s: "c # cs = s @ rest" "list_all word_char s"
          "rest = [] \<or> \<not> word_char (hd rest)" "b' = b + text_bytes s"
        using word_rest_Inr by blast
      then have "s \<noteq> []"
        using True by auto
      then show ?thesis
        using s piece.word \<open>k = Some TK_WORD\<close> by blast
    next
      case False
      then have "c < 128 \<and> k = Some TK_SYMBOL \<and> safe_char c \<and> rest = cs \<and> b' = b + char_bytes c"
        using assms other
        by (auto simp: scan_turn_def of_kind_Inr advance_Inr Let_def simp del: advance.simps
            split: if_splits option.splits)
      then show ?thesis
        using other False piece.symbol [of c rest] by (intro exI [of _ "[c]"]) auto
    qed
  qed
qed

lemma scan_turn_complete:
  assumes "piece k s rest"
  shows "scan_turn b (s @ rest) = Inr (k, b + text_bytes s, rest)"
  using assms
proof (cases rule: piece.cases)
  case (space c)
  then show ?thesis
    using ws_safe [of c] by (simp add: scan_turn_def advance_Inr safe_char_def)
next
  case (line u)
  then have "line_comment b (s @ rest) = Inr (b + text_bytes s, rest)"
    by (auto simp: line_comment_Inr simp del: line_comment.simps)
  moreover have "hd (s @ rest) = 35 \<or> hd (s @ rest) = 45 \<and> tl (s @ rest) \<noteq> [] \<and> hd (tl (s @ rest)) = 45"
    using line by auto
  ultimately show ?thesis
    using line(1) by (auto simp: scan_turn_def of_kind_Inr ws_char_def Let_def
        simp del: line_comment.simps)
next
  case (block u)
  then have "block_comment b (s @ rest) = Inr (b + text_bytes s, rest)"
    using block_comment_Inr [of b "u @ 42 # 47 # rest"] by simp
  then show ?thesis
    using block by (simp add: scan_turn_def of_kind_Inr ws_char_def)
next
  case (string q u)
  then have "quoted True b (s @ rest) = Inr (b + text_bytes s, rest)"
    using quoted_Inr [of q True b "u @ q # rest"] by auto
  then show ?thesis
    using string by (auto simp: scan_turn_def of_kind_Inr ws_char_def)
next
  case (quoted_name u)
  then have "quoted False b (s @ rest) = Inr (b + text_bytes s, rest)"
    using quoted_Inr [of 96 False b "u @ 96 # rest"] by simp
  then show ?thesis
    using quoted_name by (simp add: scan_turn_def of_kind_Inr ws_char_def)
next
  case word
  then obtain c s' where s: "s = c # s'" "word_char c"
    by (cases s) auto
  have "word_rest b (s @ rest) = Inr (b + text_bytes s, rest)"
    using word list_all_word_safe by (auto simp: word_rest_Inr simp del: word_rest.simps)
  then show ?thesis
    using s word(1) by (auto simp: scan_turn_def of_kind_Inr char_class_defs simp del: word_rest.simps)
next
  case (symbol c)
  then show ?thesis
    by (simp add: scan_turn_def of_kind_Inr safe_char_def)
qed

lemma scan_turn_shorter:
  "scan_turn b (c # cs) = Inr (k, b', rest) \<Longrightarrow> length rest < length (c # cs)"
  using scan_turn_sound piece_nonempty
  by (metis length_append length_greater_0_conv less_add_same_cancel2)

function scan_run :: "nat \<Rightarrow> nat list \<Rightarrow> sql_token list scanned" where
  "scan_run b [] = Inr []"
| "scan_run b (c # cs) =
     (case scan_turn b (c # cs) of
        Inl r \<Rightarrow> Inl r
      | Inr (k, b', rest) \<Rightarrow> (case scan_run b' rest of
          Inl r \<Rightarrow> Inl r
        | Inr ts \<Rightarrow> Inr ((case k of
              None \<Rightarrow> []
            | Some k' \<Rightarrow> [\<lparr>tk_kind = k', tk_start = b, tk_end = b'\<rparr>]) @ ts)))"
  by pat_completeness auto
termination
  by (relation "measure (\<lambda>(b, cs). length cs)") (use scan_turn_shorter in force)+

text \<open>The pieces of a text, and the tokens they are.\<close>

inductive lexes :: "nat list \<Rightarrow> (token_kind option \<times> nat list) list \<Rightarrow> bool" where
  lexes_Nil: "lexes [] []"
| lexes_Cons: "piece k s rest \<Longrightarrow> lexes rest ps \<Longrightarrow> lexes (s @ rest) ((k, s) # ps)"

inductive_simps lexes_Nil_right: "lexes cs []"
inductive_simps lexes_Cons_right: "lexes cs ((k, s) # ps)"

fun spans :: "nat \<Rightarrow> (token_kind option \<times> nat list) list \<Rightarrow> sql_token list" where
  "spans b [] = []"
| "spans b ((None, s) # ps) = spans (b + text_bytes s) ps"
| "spans b ((Some k, s) # ps) =
     \<lparr>tk_kind = k, tk_start = b, tk_end = b + text_bytes s\<rparr> # spans (b + text_bytes s) ps"

lemma spans_Cons:
  "spans b ((k, s) # ps) = (case k of None \<Rightarrow> []
     | Some k' \<Rightarrow> [\<lparr>tk_kind = k', tk_start = b, tk_end = b + text_bytes s\<rparr>]) @ spans (b + text_bytes s) ps"
  by (cases k) simp_all

lemma lexes_text: "lexes cs ps \<Longrightarrow> cs = concat (map snd ps)"
  by (induction rule: lexes.induct) auto

lemma scan_run_lexes: "lexes cs ps \<Longrightarrow> scan_run b cs = Inr (spans b ps)"
proof (induction arbitrary: b rule: lexes.induct)
  case (lexes_Cons k s rest ps)
  then obtain c cs where c: "s @ rest = c # cs"
    using piece_nonempty [OF lexes_Cons(1)] by (cases s) auto
  then show ?case
    using scan_turn_complete [OF lexes_Cons(1), of b] lexes_Cons.IH
    by (simp add: spans_Cons)
qed simp

lemma scan_run_sound: "scan_run b cs = Inr ts \<Longrightarrow> \<exists>ps. lexes cs ps \<and> ts = spans b ps"
proof (induction b cs arbitrary: ts rule: scan_run.induct)
  case (1 b)
  then show ?case
    using lexes_Nil by fastforce
next
  case (2 b c cs)
  from "2.prems" obtain k b' rest ts' where t: "scan_turn b (c # cs) = Inr (k, b', rest)"
      "scan_run b' rest = Inr ts'" "ts = (case k of None \<Rightarrow> []
         | Some k' \<Rightarrow> [\<lparr>tk_kind = k', tk_start = b, tk_end = b'\<rparr>]) @ ts'"
    by (auto split: sum.splits prod.splits)
  obtain s where s: "c # cs = s @ rest" "piece k s rest" "b' = b + text_bytes s"
    using scan_turn_sound [OF t(1)] by blast
  obtain ps where ps: "lexes rest ps" "ts' = spans b' ps"
    using 2(1) [OF t(1) refl refl t(2)] by blast
  have "lexes (c # cs) ((k, s) # ps)"
    unfolding s(1) using s(2) ps(1) by (rule lexes_Cons)
  then show ?case
    using t(3) s(3) ps(2) spans_Cons by metis
qed

lemma scan_run_iff: "scan_run b cs = Inr ts \<longleftrightarrow> (\<exists>ps. lexes cs ps \<and> ts = spans b ps)"
  using scan_run_sound scan_run_lexes by fastforce

subsection \<open>Upper case\<close>

text \<open>
  \<open>str.upper\<close>, which maps each character by itself. It is compared with ASCII words only, so the
  characters below are all that matter outside ASCII: no other one becomes ASCII.
\<close>

definition upper_char :: "nat \<Rightarrow> nat list" where
  "upper_char c =
     (if 97 \<le> c \<and> c \<le> 122 then [c - 32]
      else if c < 128 then [c]
      else if c = 0xDF then [83, 83]
      else if c = 0x131 then [73]
      else if c = 0x17F then [83]
      else if c = 0xFB00 then [70, 70]
      else if c = 0xFB01 then [70, 73]
      else if c = 0xFB02 then [70, 76]
      else if c = 0xFB03 then [70, 70, 73]
      else if c = 0xFB04 then [70, 70, 76]
      else if c = 0xFB05 \<or> c = 0xFB06 then [83, 84]
      else [c])"

definition bytes_of :: "string \<Rightarrow> nat list" where
  "bytes_of s = map of_char s"

definition of_bytes :: "nat list \<Rightarrow> string" where
  "of_bytes bs = map char_of bs"

definition str_upper :: "string \<Rightarrow> string" where
  "str_upper s = (case decode_utf8 (bytes_of s) of
     None \<Rightarrow> s | Some cs \<Rightarrow> of_bytes (encode_utf8 (concat (map upper_char cs))))"

subsection \<open>scan_sql\<close>

definition SCAN_MAX_BYTES :: nat where
  "SCAN_MAX_BYTES = 65536"

definition FILE_TARGETS :: "string list" where
  "FILE_TARGETS = [''OUTFILE'', ''DUMPFILE'']"

definition has_many_statements :: "token_scan \<Rightarrow> bool" where
  "has_many_statements sc \<longleftrightarrow> list_ex (is_semicolon sc) (butlast (significant_tokens sc))"

definition scan_words :: "token_scan \<Rightarrow> string list" where
  "scan_words sc = map (\<lambda>t. if tk_kind t = TK_WORD then str_upper (token_text sc t) else [])
     (significant_tokens sc)"

definition writes_file :: "token_scan \<Rightarrow> bool" where
  "writes_file sc \<longleftrightarrow> (let w = scan_words sc in
     list_ex (\<lambda>(a, b). a = ''INTO'' \<and> b \<in> set FILE_TARGETS) (zip w (tl w)))"

definition scan_sql :: "string \<Rightarrow> token_scan scanned" where
  "scan_sql raw =
     (if SCAN_MAX_BYTES < length raw then Inl TR_TOO_LONG
      else case decode_utf8 (bytes_of raw) of
        None \<Rightarrow> Inl TR_INVALID_UTF8
      | Some cs \<Rightarrow>
          if bom_char \<in> set cs then Inl TR_BOM
          else case scan_run 0 cs of
            Inl r \<Rightarrow> Inl r
          | Inr ts \<Rightarrow> (let sc = \<lparr>ts_raw = raw, ts_tokens = ts\<rparr> in
              if has_many_statements sc then Inl TR_MULTI_STATEMENT
              else if writes_file sc then Inl TR_INTO_OUTFILE
              else if statement_tokens sc = [] then Inl TR_EMPTY
              else Inr sc))"

subsection \<open>Decoding and encoding\<close>

lemma decode_utf8_ok: "decode_utf8 bs \<noteq> None \<longleftrightarrow> utf8_ok bs"
  by (induction bs rule: decode_utf8.induct) (auto split: list.splits)

lemma encode_utf8_simps [simp]:
  "encode_utf8 [] = []"
  "encode_utf8 (c # cs) = encode_char c @ encode_utf8 cs"
  "encode_utf8 (cs @ ds) = encode_utf8 cs @ encode_utf8 ds"
  by (simp_all add: encode_utf8_def)

lemma six_bits: "k < 64 \<Longrightarrow> (x * 64 + k) div 64 = x" "k < 64 \<Longrightarrow> (x * 64 + k) mod 64 = (k::nat)"
  by simp_all

lemma div_4096: "x div 4096 = x div 64 div (64::nat)"
  and div_262144: "x div 262144 = x div 64 div 64 div (64::nat)"
  by (simp_all add: div_mult2_eq [symmetric])

lemma cont_byteE: "cont_byte b \<Longrightarrow> b = 128 + (b - 128) \<and> b - 128 < 64"
  by (auto simp: cont_byte_def)

lemma encode_two:
  assumes "194 \<le> a" "a \<le> 223" "cont_byte b"
  shows "encode_char ((a - 192) * 64 + (b - 128)) = [a, b]"
proof -
  define i j where "i = a - 192" and "j = b - 128"
  then have s: "a = 192 + i" "b = 128 + j" "2 \<le> i" "i < 32" "j < 64"
    using assms cont_byteE [of b] by auto
  have "i * 64 + j < 2048" "\<not> i * 64 + j < 128"
    using s(3-5) by linarith+
  then show ?thesis
    using six_bits [of j i] s(5) by (simp add: encode_char_def s(1,2))
qed

lemma encode_three:
  assumes "224 \<le> a" "a \<le> 239" "cont_byte b" "a = 224 \<longrightarrow> 160 \<le> b" "cont_byte c"
  shows "encode_char ((a - 224) * 4096 + (b - 128) * 64 + (c - 128)) = [a, b, c]"
proof -
  define i j k where "i = a - 224" and "j = b - 128" and "k = c - 128"
  then have s: "a = 224 + i" "b = 128 + j" "c = 128 + k" "i < 16" "j < 64" "k < 64"
    and "i \<noteq> 0 \<or> 32 \<le> j"
    using assms cont_byteE [of b] cont_byteE [of c] by auto
  define v where "v = (i * 64 + j) * 64 + k"
  have v: "v div 64 = i * 64 + j" "v mod 64 = k"
    unfolding v_def using six_bits s(6) by blast+
  have "2048 \<le> v" "v < 65536"
    using \<open>i \<noteq> 0 \<or> 32 \<le> j\<close> s(4-6) by (auto simp: v_def)
  then have "encode_char v = [a, b, c]"
    using v six_bits [OF s(5), of i] by (simp add: encode_char_def div_4096 s(1-3))
  moreover have "i * 4096 + j * 64 + k = v"
    by (simp add: v_def)
  ultimately show ?thesis
    by (simp add: s(1-3))
qed

lemma encode_four:
  assumes "240 \<le> a" "a \<le> 244" "cont_byte b" "a = 240 \<longrightarrow> 144 \<le> b" "cont_byte c" "cont_byte d"
  shows "encode_char ((a - 240) * 262144 + (b - 128) * 4096 + (c - 128) * 64 + (d - 128)) = [a, b, c, d]"
proof -
  define i j k l where "i = a - 240" and "j = b - 128" and "k = c - 128" and "l = d - 128"
  then have s: "a = 240 + i" "b = 128 + j" "c = 128 + k" "d = 128 + l"
      "i < 5" "j < 64" "k < 64" "l < 64"
    and "i \<noteq> 0 \<or> 16 \<le> j"
    using assms cont_byteE [of b] cont_byteE [of c] cont_byteE [of d] by auto
  define v where "v = ((i * 64 + j) * 64 + k) * 64 + l"
  have v: "v div 64 = (i * 64 + j) * 64 + k" "v mod 64 = l"
    unfolding v_def using six_bits s(8) by blast+
  have "65536 \<le> v"
    using \<open>i \<noteq> 0 \<or> 16 \<le> j\<close> by (auto simp: v_def)
  then have "encode_char v = [a, b, c, d]"
    using v six_bits [OF s(7), of "i * 64 + j"] six_bits [OF s(6), of i]
    by (simp add: encode_char_def div_4096 div_262144 s(1-4))
  moreover have "i * 262144 + j * 4096 + k * 64 + l = v"
    by (simp add: v_def)
  ultimately show ?thesis
    by (simp add: s(1-4))
qed

lemma encode_ascii: "c < 128 \<Longrightarrow> encode_char c = [c]"
  by (simp add: encode_char_def)

lemma encode_decode: "decode_utf8 bs = Some cs \<Longrightarrow> encode_utf8 cs = bs"
proof (induction bs arbitrary: cs rule: decode_utf8.induct)
  case (2 a bs)
  consider (one) "a < 128"
    | (two) b r where "\<not> a < 128" "194 \<le> a" "a \<le> 223" "bs = b # r"
    | (three) b c r where "\<not> a < 128" "\<not> (194 \<le> a \<and> a \<le> 223)" "224 \<le> a" "a \<le> 239" "bs = b # c # r"
    | (four) b c d r where "\<not> a < 128" "\<not> (194 \<le> a \<and> a \<le> 223)" "\<not> (224 \<le> a \<and> a \<le> 239)"
        "bs = b # c # d # r"
    using "2.prems" by (auto split: list.splits if_splits)
  then show ?case
  proof cases
    case one
    then show ?thesis
      using 2 by (auto simp: encode_ascii)
  next
    case two
    then show ?thesis
      using 2 encode_two [of a b] by (auto split: if_splits)
  next
    case three
    then show ?thesis
      using 2 encode_three [of a b c] by (auto split: if_splits)
  next
    case four
    then show ?thesis
      using 2 encode_four [of a b c d] by (auto split: if_splits)
  qed
qed simp

end
