(* ===== verification/Sql_Scan.thy ===== *)
theory Sql_Scan
  imports Sql_Tokens
begin

text \<open>
  What a scan of \<open>governance/sql_tokens.py\<close> says of its text: the tokens are the pieces the lexical
  grammar cuts the text into, their intervals tile it, and each reason for a refusal is exactly one
  defect of the text.
\<close>

subsection \<open>Bytes\<close>

lemma of_bytes_bytes_of [simp]: "of_bytes (bytes_of s) = s"
  by (simp add: of_bytes_def bytes_of_def comp_def)

lemma of_bytes_append [simp]: "of_bytes (a @ b) = of_bytes a @ of_bytes b"
  by (simp add: of_bytes_def)

lemma of_bytes_Nil [simp]: "of_bytes [] = []"
  by (simp add: of_bytes_def)

lemma length_of_bytes [simp]: "length (of_bytes bs) = length bs"
  by (simp add: of_bytes_def)

lemma decoded_text: "decode_utf8 (bytes_of raw) = Some cs \<Longrightarrow> raw = of_bytes (encode_utf8 cs)"
  using encode_decode [of "bytes_of raw" cs] by simp

subsection \<open>Token texts\<close>

fun token_pieces :: "(token_kind option \<times> nat list) list \<Rightarrow> (token_kind \<times> nat list) list" where
  "token_pieces [] = []"
| "token_pieces ((None, s) # ps) = token_pieces ps"
| "token_pieces ((Some k, s) # ps) = (k, s) # token_pieces ps"

lemma token_pieces_mem: "(k, s) \<in> set (token_pieces ps) \<longleftrightarrow> (Some k, s) \<in> set ps"
  by (induction ps rule: token_pieces.induct) auto

lemma lexes_mem: "lexes cs ps \<Longrightarrow> (k, s) \<in> set ps \<Longrightarrow> \<exists>rest. piece k s rest"
  by (induction rule: lexes.induct) auto

lemma lexes_safe: "lexes cs ps \<Longrightarrow> list_all safe_char cs"
  by (induction rule: lexes.induct) (auto dest: piece_safe)

lemma text_bytes_length: "text_bytes s = length (encode_utf8 s)"
  by (simp add: text_bytes_def)

lemma span_kinds_texts:
  assumes "raw = of_bytes (pre @ encode_utf8 (concat (map snd ps)) @ post)"
  shows "map (\<lambda>t. (tk_kind t, token_text \<lparr>ts_raw = raw, ts_tokens = ts\<rparr> t)) (spans (length pre) ps)
       = map (\<lambda>(k, s). (k, of_bytes (encode_utf8 s))) (token_pieces ps)"
  using assms
proof (induction ps arbitrary: pre rule: token_pieces.induct)
  case (2 s ps)
  show ?case
    using 2(1) [of "pre @ encode_utf8 s"] 2(2) by (simp add: text_bytes_length)
next
  case (3 k s ps)
  show ?case
    using 3(1) [of "pre @ encode_utf8 s"] 3(2) by (simp add: text_bytes_length token_text_def)
qed simp

subsection \<open>Intervals\<close>

lemma encode_nonempty: "encode_char c \<noteq> []"
  by (simp add: encode_char_def)

lemma text_bytes_pos: "s \<noteq> [] \<Longrightarrow> 0 < text_bytes s"
  using encode_nonempty by (cases s) (auto simp: text_bytes_def)

lemma spans_bounds:
  assumes "lexes cs ps" "t \<in> set (spans b ps)"
  shows "b \<le> tk_start t \<and> tk_start t < tk_end t \<and> tk_end t \<le> b + text_bytes cs"
  using assms
proof (induction arbitrary: b rule: lexes.induct)
  case (lexes_Cons k s rest ps)
  then have "0 < text_bytes s"
    using piece_nonempty text_bytes_pos by blast
  then show ?case
    using lexes_Cons.IH [of "b + text_bytes s"] lexes_Cons.prems
    by (cases k) fastforce+
qed simp

lemma spans_ordered: "lexes cs ps \<Longrightarrow> sorted_wrt (\<lambda>t u. tk_end t \<le> tk_start u) (spans b ps)"
proof (induction arbitrary: b rule: lexes.induct)
  case (lexes_Cons k s rest ps)
  then show ?case
    using spans_bounds [OF lexes_Cons(2)] by (cases k) auto
qed simp

text \<open>Texts of the tokens with what lies between them.\<close>

fun weave :: "'a list list \<Rightarrow> 'a list list \<Rightarrow> 'a list" where
  "weave gs [] = concat gs"
| "weave [] (t # ts) = t @ concat ts"
| "weave (g # gs) (t # ts) = g @ t @ weave gs ts"

fun gaps :: "(token_kind option \<times> nat list) list \<Rightarrow> nat list list" where
  "gaps [] = [[]]"
| "gaps ((None, s) # ps) = (s @ hd (gaps ps)) # tl (gaps ps)"
| "gaps ((Some k, s) # ps) = [] # gaps ps"

lemma length_gaps: "length (gaps ps) = Suc (length (token_pieces ps))"
  by (induction ps rule: gaps.induct) auto

lemma weave_prefix: "gs \<noteq> [] \<Longrightarrow> weave ((s @ hd gs) # tl gs) ts = s @ weave gs ts"
  by (cases gs; cases ts) auto

lemma weave_pieces: "weave (gaps ps) (map snd (token_pieces ps)) = concat (map snd ps)"
proof (induction ps rule: gaps.induct)
  case (2 s ps)
  have "gaps ps \<noteq> []"
    using length_gaps [of ps] by auto
  then show ?case
    using 2 by (simp add: weave_prefix)
qed auto

lemma gaps_white:
  assumes "lexes cs ps"
  shows "\<forall>g \<in> set (gaps ps). list_all ws_char g"
  using assms
proof (induction rule: lexes.induct)
  case (lexes_Cons k s rest ps)
  have "gaps ps \<noteq> []"
    using length_gaps [of ps] by auto
  then show ?case
    using lexes_Cons by (cases k; cases "gaps ps") (auto elim: piece_spaceE)
qed simp

lemma of_bytes_weave:
  "of_bytes (weave (map encode_utf8 gs) (map encode_utf8 ts))
     = weave (map (\<lambda>g. of_bytes (encode_utf8 g)) gs) (map (\<lambda>t. of_bytes (encode_utf8 t)) ts)"
  by (induction gs ts rule: weave.induct) (auto simp: of_bytes_def map_concat comp_def)

lemma encode_concat: "encode_utf8 (concat xs) = concat (map encode_utf8 xs)"
  by (induction xs) simp_all

lemma encode_weave: "encode_utf8 (weave gs ts) = weave (map encode_utf8 gs) (map encode_utf8 ts)"
  by (induction gs ts rule: weave.induct) (auto simp: encode_concat)

subsection \<open>ASCII tokens\<close>

lemma encode_ascii_text: "list_all (\<lambda>c. c < 128) s \<Longrightarrow> encode_utf8 s = s"
  by (induction s) (auto simp: encode_ascii)

lemma word_char_ascii: "word_char c \<Longrightarrow> c < 128"
  by (auto simp: word_char_def digit_char_def)

lemma ascii_piece:
  "piece (Some k) s rest \<Longrightarrow> k = TK_WORD \<or> k = TK_SYMBOL \<Longrightarrow> list_all (\<lambda>c. c < 128) s"
  by (cases rule: piece.cases) (auto simp: list_all_iff word_char_ascii)

subsection \<open>Reasons\<close>

definition lexical_reasons :: "token_scan_reason set" where
  "lexical_reasons =
     {TR_BOM, TR_CONTROL_CHARACTER, TR_AMBIGUOUS_PUNCTUATION, TR_HINT_COMMENT, TR_UNTERMINATED}"

lemma check_char_reason: "check_char c = Some r \<Longrightarrow> r \<in> lexical_reasons"
  by (auto simp: check_char_def lexical_reasons_def split: if_splits)

lemma advance_reason: "advance s = Inl r \<Longrightarrow> r \<in> lexical_reasons"
  by (cases s rule: advance.cases) (auto split: option.splits dest: check_char_reason)

lemma line_comment_reason: "line_comment b cs = Inl r \<Longrightarrow> r \<in> lexical_reasons"
  by (induction b cs rule: line_comment.induct)
    (auto split: if_splits option.splits dest: check_char_reason)

lemma word_rest_reason: "word_rest b cs = Inl r \<Longrightarrow> r \<in> lexical_reasons"
  by (induction b cs rule: word_rest.induct)
    (auto split: if_splits option.splits dest: check_char_reason)

lemma unterminated_reason: "TR_UNTERMINATED \<in> lexical_reasons"
  and hint_reason: "TR_HINT_COMMENT \<in> lexical_reasons"
  and bom_reason: "TR_BOM \<in> lexical_reasons"
  by (simp_all add: lexical_reasons_def)

lemma block_body_reason: "block_body b cs = Inl r \<Longrightarrow> r \<in> lexical_reasons"
proof (induction b cs rule: block_body.induct)
  case (2 b c cs)
  then show ?case
    by (auto simp del: advance.simps split: if_splits option.splits sum.splits
        dest: check_char_reason advance_reason)
qed (simp add: unterminated_reason)

lemma quoted_body_reason: "quoted_body q bs b cs = Inl r \<Longrightarrow> r \<in> lexical_reasons"
proof (induction q bs b cs rule: quoted_body.induct)
  case (2 q bs b c cs)
  then show ?case
    by (cases cs)
      (auto simp: unterminated_reason split: if_splits option.splits dest: check_char_reason)
qed (simp add: unterminated_reason)

lemmas reason_rules = advance_reason line_comment_reason word_rest_reason block_body_reason
  quoted_body_reason check_char_reason

lemma block_comment_reason: "block_comment b cs = Inl r \<Longrightarrow> r \<in> lexical_reasons"
  unfolding block_comment_def
  by (auto simp: hint_reason simp del: advance.simps block_body.simps
      split: if_splits sum.splits dest: reason_rules)

lemma quoted_reason: "quoted bs b cs = Inl r \<Longrightarrow> r \<in> lexical_reasons"
  unfolding quoted_def
  by (auto simp del: advance.simps quoted_body.simps split: sum.splits dest: reason_rules)

lemma of_kind_reason: "of_kind k s = Inl r \<longleftrightarrow> s = Inl r"
  by (auto simp: of_kind_def split: sum.splits)

lemma scan_turn_reason: "scan_turn b cs = Inl r \<Longrightarrow> r \<in> lexical_reasons"
  unfolding scan_turn_def Let_def
  by (auto simp: of_kind_reason simp del: advance.simps line_comment.simps word_rest.simps
      split: if_splits sum.splits option.splits
      dest: reason_rules block_comment_reason quoted_reason) (simp add: lexical_reasons_def)

lemma scan_run_reason: "scan_run b cs = Inl r \<Longrightarrow> r \<in> lexical_reasons"
proof (induction b cs rule: scan_run.induct)
  case (2 b c cs)
  then show ?case
    by (auto split: sum.splits prod.splits dest: scan_turn_reason)
qed simp

subsection \<open>The verdict on a sequence of tokens\<close>

text \<open>
  What \<open>scan_sql\<close> refuses after the loop, on the tokens themselves instead of on intervals: a
  semicolon before the last token that is not a comment, \<open>INTO OUTFILE\<close> or \<open>INTO DUMPFILE\<close>, and a
  text without a statement.
\<close>

definition significant_pieces :: "(token_kind \<times> nat list) list \<Rightarrow> (token_kind \<times> nat list) list" where
  "significant_pieces qs = filter (\<lambda>(k, s). k \<noteq> TK_COMMENT) qs"

definition semicolon_piece :: "token_kind \<times> nat list" where
  "semicolon_piece = (TK_SYMBOL, [59])"

fun word_piece :: "string \<Rightarrow> token_kind \<times> nat list \<Rightarrow> bool" where
  "word_piece w (k, s) \<longleftrightarrow> k = TK_WORD \<and> str_upper (of_bytes (encode_utf8 s)) = w"

definition verdict :: "(token_kind \<times> nat list) list \<Rightarrow> token_scan_reason option" where
  "verdict qs = (let ps = significant_pieces qs in
     if semicolon_piece \<in> set (butlast ps) then Some TR_MULTI_STATEMENT
     else if list_ex (\<lambda>(p, q). word_piece ''INTO'' p
         \<and> (word_piece ''OUTFILE'' q \<or> word_piece ''DUMPFILE'' q)) (zip ps (tl ps))
       then Some TR_INTO_OUTFILE
     else if ps = [] \<or> ps = [semicolon_piece] then Some TR_EMPTY
     else None)"

definition scan_of :: "string \<Rightarrow> (token_kind option \<times> nat list) list \<Rightarrow> token_scan" where
  "scan_of raw ps = \<lparr>ts_raw = raw, ts_tokens = spans 0 ps\<rparr>"

text \<open>The fields of a token the verdict depends on, as a function of the piece.\<close>

lemma scan_of_tokens:
  assumes "decode_utf8 (bytes_of raw) = Some cs" "lexes cs ps"
  shows "map (\<lambda>t. (tk_kind t, token_text (scan_of raw ps) t)) (ts_tokens (scan_of raw ps))
       = map (\<lambda>(k, s). (k, of_bytes (encode_utf8 s))) (token_pieces ps)"
  using span_kinds_texts [of raw "[]" ps "[]" "spans 0 ps"] decoded_text [OF assms(1)]
    lexes_text [OF assms(2)]
  by (simp add: scan_of_def)

lemma filter_map_fst: "filter (\<lambda>(k, s). P k) (map f xs) = map f (filter (\<lambda>x. P (fst (f x))) xs)"
  by (induction xs) (auto split: prod.splits)

lemma scan_of_significant:
  assumes "decode_utf8 (bytes_of raw) = Some cs" "lexes cs ps"
  shows "map (\<lambda>t. (tk_kind t, token_text (scan_of raw ps) t)) (significant_tokens (scan_of raw ps))
       = map (\<lambda>(k, s). (k, of_bytes (encode_utf8 s))) (significant_pieces (token_pieces ps))"
proof -
  have "filter (\<lambda>(k, x). k \<noteq> TK_COMMENT)
       (map (\<lambda>t. (tk_kind t, token_text (scan_of raw ps) t)) (ts_tokens (scan_of raw ps)))
     = filter (\<lambda>(k, x). k \<noteq> TK_COMMENT)
       (map (\<lambda>(k, s). (k, of_bytes (encode_utf8 s))) (token_pieces ps))"
    using scan_of_tokens [OF assms] by simp
  then show ?thesis
    unfolding filter_map_fst
    by (simp add: significant_tokens_def significant_pieces_def case_prod_unfold)
qed

text \<open>A token is a semicolon exactly when its piece is.\<close>

lemma nth_start_text:
  "tk_start t < tk_end t \<Longrightarrow> tk_end t \<le> length (ts_raw sc) \<Longrightarrow> ts_raw sc ! tk_start t = hd (token_text sc t)"
  by (simp add: token_text_def hd_drop_conv_nth)

lemma scan_of_bounds:
  assumes "decode_utf8 (bytes_of raw) = Some cs" "lexes cs ps" "t \<in> set (ts_tokens (scan_of raw ps))"
  shows "tk_start t < tk_end t" "tk_end t \<le> length raw"
  using spans_bounds [OF assms(2), of t 0] assms(3) decoded_text [OF assms(1)]
  by (auto simp: scan_of_def text_bytes_length)

lemma symbol_text:
  "piece (Some TK_SYMBOL) s rest \<Longrightarrow> hd (of_bytes (encode_utf8 s)) = CHR '';'' \<longleftrightarrow> s = [59]"
proof (erule piece_symbolE)
  fix c :: nat
  assume c: "s = [c]" "c < 128"
  have "of_char (char_of c :: char) = c"
    using c(2) by (simp add: of_char_mod_256)
  moreover have "of_char CHR '';'' = (59::nat)"
    by simp
  ultimately have "char_of c = CHR '';'' \<longleftrightarrow> c = 59"
    by (metis char_of_char)
  then show ?thesis
    using c by (simp add: encode_ascii of_bytes_def)
qed

lemma map_eq_list_all2: "map f xs = map g ys \<longleftrightarrow> list_all2 (\<lambda>x y. f x = g y) xs ys"
  by (auto simp: list_all2_conv_all_nth list_eq_iff_nth_eq)

lemma scan_of_semicolons:
  assumes "decode_utf8 (bytes_of raw) = Some cs" "lexes cs ps"
  shows "map (is_semicolon (scan_of raw ps)) (significant_tokens (scan_of raw ps))
       = map (\<lambda>p. p = semicolon_piece) (significant_pieces (token_pieces ps))"
proof -
  let ?sc = "scan_of raw ps" and ?qs = "significant_pieces (token_pieces ps)"
  have "list_all2 (\<lambda>t (k, s). tk_kind t = k \<and> token_text ?sc t = of_bytes (encode_utf8 s))
      (significant_tokens ?sc) ?qs"
    using scan_of_significant [OF assms] unfolding map_eq_list_all2
    by (rule list_all2_mono) auto
  then have "list_all2 (\<lambda>t p. is_semicolon ?sc t = (p = semicolon_piece)) (significant_tokens ?sc) ?qs"
    unfolding list_all2_conv_all_nth
  proof (intro conjI allI impI; elim conjE)
    fix i
    assume len: "length (significant_tokens ?sc) = length ?qs" and i: "i < length (significant_tokens ?sc)"
      and all: "\<forall>i<length (significant_tokens ?sc). case ?qs ! i of (k, s) \<Rightarrow>
        tk_kind (significant_tokens ?sc ! i) = k
        \<and> token_text ?sc (significant_tokens ?sc ! i) = of_bytes (encode_utf8 s)"
    obtain k s where q: "?qs ! i = (k, s)"
      by (cases "?qs ! i")
    then have t: "tk_kind (significant_tokens ?sc ! i) = k"
        "token_text ?sc (significant_tokens ?sc ! i) = of_bytes (encode_utf8 s)"
      using all i by auto
    have "(k, s) \<in> set ?qs"
      using q len i by (metis nth_mem)
    then obtain rest where piece: "piece (Some k) s rest"
      using lexes_mem [OF assms(2)] by (auto simp: significant_pieces_def token_pieces_mem)
    have "significant_tokens ?sc ! i \<in> set (ts_tokens ?sc)"
      using i nth_mem [OF i] by (auto simp: significant_tokens_def)
    then have "ts_raw ?sc ! tk_start (significant_tokens ?sc ! i) = hd (of_bytes (encode_utf8 s))"
      using nth_start_text scan_of_bounds [OF assms] t(2) by (metis scan_of_def token_scan.select_convs(1))
    moreover have "(hd (of_bytes (encode_utf8 s)) = CHR '';'') = (s = [59])" if "k = TK_SYMBOL"
      using piece that symbol_text by blast
    ultimately show "is_semicolon ?sc (significant_tokens ?sc ! i) = (?qs ! i = semicolon_piece)"
      using q t(1) by (cases "k = TK_SYMBOL") (simp_all add: is_semicolon_def semicolon_piece_def)
  qed auto
  then show ?thesis
    by (simp add: map_eq_list_all2)
qed

lemma list_ex_map: "list_ex P (map f xs) = list_ex (\<lambda>x. P (f x)) xs"
  by (induction xs) auto

lemma scan_of_many:
  assumes "decode_utf8 (bytes_of raw) = Some cs" "lexes cs ps"
  shows "has_many_statements (scan_of raw ps)
     \<longleftrightarrow> semicolon_piece \<in> set (butlast (significant_pieces (token_pieces ps)))"
proof -
  have "has_many_statements (scan_of raw ps)
      = list_ex id (butlast (map (is_semicolon (scan_of raw ps)) (significant_tokens (scan_of raw ps))))"
    unfolding has_many_statements_def map_butlast [symmetric] list_ex_map by simp
  then show ?thesis
    unfolding scan_of_semicolons [OF assms] by (auto simp: map_butlast [symmetric] list_ex_iff)
qed

lemma scan_of_words:
  assumes "decode_utf8 (bytes_of raw) = Some cs" "lexes cs ps"
  shows "scan_words (scan_of raw ps)
       = map (\<lambda>(k, s). if k = TK_WORD then str_upper (of_bytes (encode_utf8 s)) else [])
           (significant_pieces (token_pieces ps))"
proof -
  have "scan_words (scan_of raw ps) = map (\<lambda>(k, x). if k = TK_WORD then str_upper x else [])
      (map (\<lambda>t. (tk_kind t, token_text (scan_of raw ps) t)) (significant_tokens (scan_of raw ps)))"
    by (simp add: scan_words_def)
  also have "\<dots> = map (\<lambda>(k, x). if k = TK_WORD then str_upper x else [])
      (map (\<lambda>(k, s). (k, of_bytes (encode_utf8 s))) (significant_pieces (token_pieces ps)))"
    unfolding scan_of_significant [OF assms] ..
  finally show ?thesis
    by (simp add: case_prod_unfold comp_def)
qed

lemma scan_of_writes:
  assumes "decode_utf8 (bytes_of raw) = Some cs" "lexes cs ps"
  shows "writes_file (scan_of raw ps)
     \<longleftrightarrow> (let qs = significant_pieces (token_pieces ps) in
           list_ex (\<lambda>(p, q). word_piece ''INTO'' p
             \<and> (word_piece ''OUTFILE'' q \<or> word_piece ''DUMPFILE'' q)) (zip qs (tl qs)))"
  unfolding writes_file_def scan_of_words [OF assms] Let_def map_tl [symmetric] zip_map_map list_ex_map
  by (intro arg_cong2 [of _ _ _ _ list_ex] ext refl)
    (auto simp: FILE_TARGETS_def split: if_splits)

lemma scan_of_empty:
  assumes "decode_utf8 (bytes_of raw) = Some cs" "lexes cs ps"
  shows "statement_tokens (scan_of raw ps) = []
     \<longleftrightarrow> significant_pieces (token_pieces ps) \<in> {[], [semicolon_piece]}"
proof -
  let ?ts = "significant_tokens (scan_of raw ps)" and ?qs = "significant_pieces (token_pieces ps)"
  have len: "length ?ts = length ?qs"
    using arg_cong [OF scan_of_semicolons [OF assms], of length] by simp
  have "is_semicolon (scan_of raw ps) (last ?ts) = (last ?qs = semicolon_piece)" if "?ts \<noteq> []"
  proof -
    have "?qs \<noteq> []"
      using that len by auto
    then show ?thesis
      using that arg_cong [OF scan_of_semicolons [OF assms], of last] by (simp add: last_map)
  qed
  then show ?thesis
    using len by (cases ?ts rule: rev_cases; cases ?qs rule: rev_cases)
      (auto simp: statement_tokens_def Let_def)
qed

subsection \<open>scan_sql as a specification\<close>

lemma lexes_no_bom: "lexes cs ps \<Longrightarrow> bom_char \<notin> set cs"
  using lexes_safe by (fastforce simp: list_all_iff safe_char_def check_char_def)

lemma scan_sql_lexes:
  assumes "\<not> SCAN_MAX_BYTES < length raw" "decode_utf8 (bytes_of raw) = Some cs" "lexes cs ps"
  shows "scan_sql raw = (case verdict (token_pieces ps) of
     None \<Rightarrow> Inr (scan_of raw ps) | Some r \<Rightarrow> Inl r)"
proof -
  have "scan_sql raw =
      (if has_many_statements (scan_of raw ps) then Inl TR_MULTI_STATEMENT
       else if writes_file (scan_of raw ps) then Inl TR_INTO_OUTFILE
       else if statement_tokens (scan_of raw ps) = [] then Inl TR_EMPTY
       else Inr (scan_of raw ps))"
    using assms lexes_no_bom [OF assms(3)] scan_run_lexes [OF assms(3), of 0]
    by (simp add: scan_sql_def scan_of_def Let_def)
  then show ?thesis
    unfolding scan_of_many [OF assms(2,3)] scan_of_writes [OF assms(2,3)] scan_of_empty [OF assms(2,3)]
    by (simp add: verdict_def Let_def)
qed

lemma scan_sql_unlexable:
  assumes "\<not> SCAN_MAX_BYTES < length raw" "decode_utf8 (bytes_of raw) = Some cs" "\<nexists>ps. lexes cs ps"
  shows "\<exists>r \<in> lexical_reasons. scan_sql raw = Inl r"
proof -
  have "\<exists>r. scan_run 0 cs = Inl r"
    using assms(3) scan_run_sound [of 0 cs] by (cases "scan_run 0 cs") auto
  then show ?thesis
    using assms(1,2) scan_run_reason by (auto simp: scan_sql_def bom_reason)
qed

lemma verdict_reason: "verdict qs = Some r \<Longrightarrow> r \<in> {TR_MULTI_STATEMENT, TR_INTO_OUTFILE, TR_EMPTY}"
  by (auto simp: verdict_def Let_def split: if_splits)

end
