(* ===== verification/Readonly_Statements.thy ===== *)
theory Readonly_Statements
  imports Sql_Scan "HOL-Library.While_Combinator"
begin

text \<open>
  The list of read-only statements of \<open>governance/readonly_statements.py\<close>: a small grammar over the
  tokens of a scan, its matcher, the registered statements and what a match says of them. A
  generator of the source is the list of what it yields; the matcher of \<open>Many\<close> is the loop of the
  source over its stack of pending positions (head: top) and its set of seen ones.
\<close>

subsection \<open>Reading tokens\<close>

record stmt_input =
  si_scan :: token_scan
  si_tokens :: "sql_token list"

definition token_at :: "stmt_input \<Rightarrow> nat \<Rightarrow> token_kind \<Rightarrow> string option" where
  "token_at src pos k =
     (if pos < length (si_tokens src) \<and> tk_kind (si_tokens src ! pos) = k
      then Some (token_text (si_scan src) (si_tokens src ! pos)) else None)"

definition input_word :: "stmt_input \<Rightarrow> nat \<Rightarrow> string option" where
  "input_word src pos = map_option str_upper (token_at src pos TK_WORD)"

definition input_symbol :: "stmt_input \<Rightarrow> nat \<Rightarrow> string option" where
  "input_symbol src pos = token_at src pos TK_SYMBOL"

text \<open>\<open>text[1:-1]\<close>, and \<open>replace\<close> of a doubled back quote.\<close>

definition unquoted :: "string \<Rightarrow> string" where
  "unquoted s = butlast (tl s)"

fun single_backticks :: "string \<Rightarrow> string" where
  "single_backticks (c # d # s) =
     (if c = CHR ''`'' \<and> d = CHR ''`'' then CHR ''`'' # single_backticks s
      else c # single_backticks (d # s))"
| "single_backticks s = s"

definition input_identifier :: "stmt_input \<Rightarrow> nat \<Rightarrow> string option" where
  "input_identifier src pos = (case token_at src pos TK_WORD of
     Some s \<Rightarrow> Some s
   | None \<Rightarrow> (case token_at src pos TK_QUOTED_IDENTIFIER of
       None \<Rightarrow> None
     | Some s \<Rightarrow> (let inner = single_backticks (unquoted s) in
         if inner = [] then None else Some inner)))"

subsection \<open>Elements of the grammar\<close>

datatype stmt_capture = Parts "string list" | Inner string | Span nat nat

type_synonym captures = "(string \<times> stmt_capture) list"
type_synonym matches = "(nat \<times> captures) list"

datatype element =
    Kw "string list"
  | Sym string
  | Name string nat nat
  | Str "string option"
  | IntLit
  | Column "string list"
  | Rest string
  | Opt "element list"
  | OneOf "element list list"
  | Many "element list"

definition kw_at :: "stmt_input \<Rightarrow> nat \<Rightarrow> string list \<Rightarrow> bool" where
  "kw_at src pos ws \<longleftrightarrow> list_all (\<lambda>(i, w). input_word src (pos + i) = Some w) (enumerate 0 ws)"

text \<open>The loop of \<open>Name.match\<close>; the number is how many parts may still be added.\<close>

fun name_loop :: "stmt_input \<Rightarrow> string \<Rightarrow> nat \<Rightarrow> captures \<Rightarrow> nat \<Rightarrow> nat \<Rightarrow> string list \<Rightarrow> matches" where
  "name_loop src cap mn caps 0 cursor parts = []"
| "name_loop src cap mn caps (Suc left) cursor parts =
     (if parts \<noteq> [] \<and> input_symbol src cursor \<noteq> Some ''.'' then []
      else let cursor' = (if parts \<noteq> [] then cursor + 1 else cursor) in
        case input_identifier src cursor' of
          None \<Rightarrow> []
        | Some part \<Rightarrow> (let parts' = parts @ [part] in
            (if mn \<le> length parts' then [(cursor' + 1, caps @ [(cap, Parts parts')])] else [])
            @ name_loop src cap mn caps left (cursor' + 1) parts'))"

definition plain_string :: "stmt_input \<Rightarrow> nat \<Rightarrow> string option" where
  "plain_string src pos = (case token_at src pos TK_STRING of
     None \<Rightarrow> None
   | Some s \<Rightarrow> (let inner = unquoted s in
       if inner = [] \<or> CHR 0x5C \<in> set inner \<or> hd s \<in> set inner then None else Some inner))"

definition all_digits :: "string \<Rightarrow> bool" where
  "all_digits s \<longleftrightarrow> s \<noteq> [] \<and> list_all (\<lambda>c. digit_char (of_char c)) s"

definition int_at :: "stmt_input \<Rightarrow> nat \<Rightarrow> bool" where
  "int_at src pos = (case input_word src pos of None \<Rightarrow> False | Some w \<Rightarrow> all_digits w)"

definition column_at :: "stmt_input \<Rightarrow> nat \<Rightarrow> string list \<Rightarrow> bool" where
  "column_at src pos allowed = (case input_identifier src pos of
     None \<Rightarrow> False | Some name \<Rightarrow> str_upper name \<in> set allowed)"

definition rest_span :: "stmt_input \<Rightarrow> nat \<Rightarrow> stmt_capture" where
  "rest_span src pos = Span (tk_start (si_tokens src ! pos)) (tk_end (last (si_tokens src)))"

subsection \<open>Repetition\<close>

type_synonym many_state = "nat list \<times> nat list \<times> nat list"

text \<open>The body of the inner loop of \<open>Many.match\<close> over the positions one repetition leads to.\<close>

fun push_fresh :: "nat \<Rightarrow> nat list \<Rightarrow> nat list \<times> nat list \<Rightarrow> nat list \<times> nat list" where
  "push_fresh cur [] ps = ps"
| "push_fresh cur (n # ns) (pending, seen) =
     push_fresh cur ns (if cur < n \<and> n \<notin> set seen then (n # pending, n # seen) else (pending, seen))"

fun many_step :: "(nat \<Rightarrow> nat list) \<Rightarrow> many_state \<Rightarrow> many_state" where
  "many_step nexts ([], seen, out) = ([], seen, out)"
| "many_step nexts (cur # pending, seen, out) =
     (case push_fresh cur (nexts cur) (pending, seen) of
        (pending', seen') \<Rightarrow> (pending', seen', out @ [cur]))"

definition many_loop :: "(nat \<Rightarrow> nat list) \<Rightarrow> nat \<Rightarrow> many_state option" where
  "many_loop nexts pos =
     while_option (\<lambda>(pending, _). pending \<noteq> []) (many_step nexts) ([pos], [pos], [])"

definition many_positions :: "(nat \<Rightarrow> nat list) \<Rightarrow> nat \<Rightarrow> nat list" where
  "many_positions nexts pos = (case many_loop nexts pos of
     None \<Rightarrow> [] | Some (_, _, out) \<Rightarrow> out)"

subsection \<open>The matcher\<close>

lemma size_list_mem: "xs \<in> set xss \<Longrightarrow> size_list f xs < Suc (size_list (size_list f) xss)"
  by (induction xss) auto

function match_element :: "element \<Rightarrow> stmt_input \<Rightarrow> nat \<Rightarrow> captures \<Rightarrow> matches"
  and match_sequence :: "element list \<Rightarrow> stmt_input \<Rightarrow> nat \<Rightarrow> captures \<Rightarrow> matches" where
  "match_element (Kw ws) src pos caps =
     (if kw_at src pos ws then [(pos + length ws, caps)] else [])"
| "match_element (Sym s) src pos caps =
     (if input_symbol src pos = Some s then [(pos + 1, caps)] else [])"
| "match_element (Name cap mn mx) src pos caps = name_loop src cap mn caps mx pos []"
| "match_element (Str cap) src pos caps = (case plain_string src pos of
     None \<Rightarrow> []
   | Some inner \<Rightarrow> (case cap of
       None \<Rightarrow> [(pos + 1, caps)] | Some c \<Rightarrow> [(pos + 1, caps @ [(c, Inner inner)])]))"
| "match_element IntLit src pos caps = (if int_at src pos then [(pos + 1, caps)] else [])"
| "match_element (Column allowed) src pos caps =
     (if column_at src pos allowed then [(pos + 1, caps)] else [])"
| "match_element (Rest cap) src pos caps =
     (if pos < length (si_tokens src)
      then [(length (si_tokens src), caps @ [(cap, rest_span src pos)])] else [])"
| "match_element (Opt es) src pos caps = (pos, caps) # match_sequence es src pos caps"
| "match_element (OneOf alts) src pos caps =
     concat (map (\<lambda>es. match_sequence es src pos caps) alts)"
| "match_element (Many es) src pos caps =
     map (\<lambda>p. (p, caps))
       (many_positions (\<lambda>cur. map fst (match_sequence es src cur caps)) pos)"
| "match_sequence [] src pos caps = [(pos, caps)]"
| "match_sequence (e # es) src pos caps =
     concat (map (\<lambda>(p, c). match_sequence es src p c) (match_element e src pos caps))"
  by pat_completeness auto
termination
  by (relation "measure (\<lambda>s. case s of Inl (e, _) \<Rightarrow> size e | Inr (es, _) \<Rightarrow> size_list size es)")
    (auto simp: size_list_mem)

subsection \<open>Targets\<close>

datatype target_rule = TGT_NONE | TGT_RELATION | TGT_OPTIONAL_RELATION | TGT_INNER_QUERY

record readonly_statement =
  rs_family :: string
  rs_pattern :: "element list"
  rs_target :: target_rule

record relation_ref =
  rr_catalog :: string
  rr_database :: string
  rr_name :: string

record statement_match =
  sm_family :: string
  sm_relations :: "relation_ref list"
  sm_inner_query :: "(nat \<times> nat) option"

text \<open>The names an element captures, with whether every match captures them.\<close>

function capture_names :: "element \<Rightarrow> (string \<times> bool) list"
  and sequence_names :: "element list \<Rightarrow> (string \<times> bool) list" where
  "capture_names (Kw ws) = []"
| "capture_names (Sym s) = []"
| "capture_names (Name cap mn mx) = [(cap, True)]"
| "capture_names (Str cap) = (case cap of None \<Rightarrow> [] | Some c \<Rightarrow> [(c, True)])"
| "capture_names IntLit = []"
| "capture_names (Column allowed) = []"
| "capture_names (Rest cap) = [(cap, True)]"
| "capture_names (Opt es) = map (\<lambda>(n, _). (n, False)) (sequence_names es)"
| "capture_names (OneOf alts) =
     concat (map (\<lambda>es. map (\<lambda>(n, _). (n, False)) (sequence_names es)) alts)"
| "capture_names (Many es) = []"
| "sequence_names [] = []"
| "sequence_names (e # es) = capture_names e @ sequence_names es"
  by pat_completeness auto
termination
  by (relation "measure (\<lambda>s. case s of Inl e \<Rightarrow> size e | Inr es \<Rightarrow> size_list size es)")
    (auto simp: size_list_mem)

text \<open>\<open>Many.__init__\<close> refuses elements that capture; it runs wherever a \<open>Many\<close> is built.\<close>

function element_built :: "element \<Rightarrow> bool"
  and sequence_built :: "element list \<Rightarrow> bool" where
  "element_built (Kw ws) = True"
| "element_built (Sym s) = True"
| "element_built (Name cap mn mx) = True"
| "element_built (Str cap) = True"
| "element_built IntLit = True"
| "element_built (Column allowed) = True"
| "element_built (Rest cap) = True"
| "element_built (Opt es) = sequence_built es"
| "element_built (OneOf alts) = list_all sequence_built alts"
| "element_built (Many es) = (sequence_names es = [] \<and> sequence_built es)"
| "sequence_built [] = True"
| "sequence_built (e # es) = (element_built e \<and> sequence_built es)"
  by pat_completeness auto
termination
  by (relation "measure (\<lambda>s. case s of Inl e \<Rightarrow> size e | Inr es \<Rightarrow> size_list size es)")
    (auto simp: size_list_mem)

fun merge_names :: "(string \<times> bool) list \<Rightarrow> (string, bool) dict \<Rightarrow> (string, bool) dict" where
  "merge_names [] names = names"
| "merge_names ((n, required) # ns) names =
     merge_names ns (dset n (dget names n = Some True \<or> required) names)"

definition relation_captures :: "(string, bool) dict \<Rightarrow> (string, bool) dict" where
  "relation_captures names = filter (\<lambda>(n, _). n = ''relation'' \<or> n = ''relation_name'') names"

definition check_target_rule :: "readonly_statement \<Rightarrow> bool" where
  "check_target_rule st = (let
     names = merge_names (sequence_names (rs_pattern st)) [];
     rel = relation_captures names;
     inner = (dget names ''inner_query'' \<noteq> None) in
     case rs_target st of
       TGT_NONE \<Rightarrow> rel = [] \<and> \<not> inner
     | TGT_RELATION \<Rightarrow> rel = [(''relation'', True)] \<and> \<not> inner
     | TGT_OPTIONAL_RELATION \<Rightarrow> rel \<noteq> [] \<and> list_all (\<lambda>(_, r). \<not> r) rel \<and> \<not> inner
     | TGT_INNER_QUERY \<Rightarrow> names = [(''inner_query'', True)])"

subsection \<open>What a match says\<close>

definition get_capture :: "captures \<Rightarrow> string \<Rightarrow> stmt_capture option" where
  "get_capture caps n = map_of (rev caps) n"

definition relation_ref_of :: "string list \<Rightarrow> relation_ref" where
  "relation_ref_of parts = (let padded = [[], []] @ parts; p = drop (length padded - 3) padded in
     \<lparr>rr_catalog = p ! 0, rr_database = p ! 1, rr_name = p ! 2\<rparr>)"

definition to_match :: "readonly_statement \<Rightarrow> captures \<Rightarrow> statement_match" where
  "to_match st caps = \<lparr>
     sm_family = rs_family st,
     sm_relations =
       (case get_capture caps ''relation'' of Some (Parts ps) \<Rightarrow> [relation_ref_of ps] | _ \<Rightarrow> [])
       @ (case get_capture caps ''relation_name'' of
            Some (Inner name) \<Rightarrow> [\<lparr>rr_catalog = [],
              rr_database = (case get_capture caps ''database'' of
                 Some (Parts ps) \<Rightarrow> ps ! 0 | _ \<Rightarrow> []),
              rr_name = name\<rparr>]
          | _ \<Rightarrow> []),
     sm_inner_query = (case get_capture caps ''inner_query'' of
       Some (Span a b) \<Rightarrow> Some (a, b) | _ \<Rightarrow> None)\<rparr>"

definition stmt_input_of :: "token_scan \<Rightarrow> stmt_input" where
  "stmt_input_of sc = \<lparr>si_scan = sc, si_tokens = statement_tokens sc\<rparr>"

definition statement_readings :: "readonly_statement list \<Rightarrow> token_scan \<Rightarrow> statement_match list" where
  "statement_readings sts sc = (let src = stmt_input_of sc in
     concat (map (\<lambda>st. map (\<lambda>(_, caps). to_match st caps)
       (filter (\<lambda>(end_pos, _). end_pos = length (si_tokens src))
         (match_sequence (rs_pattern st) src 0 []))) sts))"

text \<open>The set of the source, as a list without repetitions.\<close>

definition match_in :: "readonly_statement list \<Rightarrow> token_scan \<Rightarrow> statement_match option" where
  "match_in sts sc = (case remdups (statement_readings sts sc) of [m] \<Rightarrow> Some m | _ \<Rightarrow> None)"

subsection \<open>The registered statements\<close>

definition FROM_OR_IN :: element where
  "FROM_OR_IN = OneOf [[Kw [''FROM'']], [Kw [''IN'']]]"

definition OPT_DB :: element where
  "OPT_DB = Opt [FROM_OR_IN, Name ''database'' 1 1]"

definition OPT_FROM_DB :: element where
  "OPT_FROM_DB = Opt [Kw [''FROM''], Name ''database'' 1 1]"

definition RELATION :: element where
  "RELATION = Name ''relation'' 1 3"

definition where_registered :: "string list \<Rightarrow> element" where
  "where_registered columns = (let
     predicate = [Column columns, Sym ''='', OneOf [[Str None], [IntLit]]] in
     Opt ([Kw [''WHERE'']] @ predicate @ [Many ([Kw [''AND'']] @ predicate)]))"

definition show_kw :: "string list \<Rightarrow> element" where
  "show_kw ws = Kw (''SHOW'' # ws)"

definition stmt :: "string \<Rightarrow> element list \<Rightarrow> target_rule \<Rightarrow> readonly_statement" where
  "stmt family pattern target = \<lparr>rs_family = family, rs_pattern = pattern, rs_target = target\<rparr>"

definition READONLY_STATEMENTS :: "readonly_statement list" where
  "READONLY_STATEMENTS = [
     stmt ''show.create_materialized_view''
       [show_kw [''CREATE'', ''MATERIALIZED'', ''VIEW''], RELATION] TGT_RELATION,
     stmt ''show.materialized_views''
       [show_kw [''MATERIALIZED'', ''VIEWS''], OPT_DB,
        Opt [OneOf [[Kw [''LIKE''], Str None],
                    [Kw [''WHERE'', ''NAME''], Sym ''='', Str (Some ''relation_name'')],
                    [Kw [''WHERE'', ''NAME'', ''LIKE''], Str None]]]] TGT_OPTIONAL_RELATION,
     stmt ''show.partitions''
       [Kw [''SHOW''], Opt [Kw [''TEMPORARY'']], Kw [''PARTITIONS'', ''FROM''], RELATION] TGT_RELATION,
     stmt ''show.tablet'' [show_kw [''TABLET'', ''FROM''], RELATION] TGT_RELATION,
     stmt ''show.tablet_id'' [show_kw [''TABLET''], IntLit] TGT_NONE,
     stmt ''show.data''
       [show_kw [''DATA''],
        Opt [Kw [''FROM''], OneOf [[Name ''database'' 1 1], [Name ''relation'' 2 2]]]]
       TGT_OPTIONAL_RELATION,
     stmt ''show.load'' [show_kw [''LOAD''], OPT_FROM_DB] TGT_NONE,
     stmt ''show.routine_load'' [show_kw [''ROUTINE'', ''LOAD''], OPT_FROM_DB] TGT_NONE,
     stmt ''show.functions''
       [Kw [''SHOW''], Opt [Kw [''FULL'']], Kw [''FUNCTIONS''], OPT_DB, Opt [Kw [''LIKE''], Str None]]
       TGT_NONE,
     stmt ''show.catalogs'' [show_kw [''CATALOGS'']] TGT_NONE,
     stmt ''show.frontends'' [show_kw [''FRONTENDS'']] TGT_NONE,
     stmt ''show.backends'' [show_kw [''BACKENDS'']] TGT_NONE,
     stmt ''show.resource_groups'' [show_kw [''RESOURCE'', ''GROUPS'']] TGT_NONE,
     stmt ''show.proc'' [show_kw [''PROC''], Str None] TGT_NONE,
     stmt ''show.profilelist'' [show_kw [''PROFILELIST''], Opt [Kw [''LIMIT''], IntLit]] TGT_NONE,
     stmt ''show.alter_table''
       [show_kw [''ALTER'', ''TABLE''],
        OneOf [[Kw [''COLUMN'']], [Kw [''ROLLUP'']], [Kw [''MATERIALIZED'', ''VIEW'']]],
        OPT_DB,
        Opt [Kw [''WHERE'', ''TABLENAME''], Sym ''='', Str (Some ''relation_name'')]]
       TGT_OPTIONAL_RELATION,
     stmt ''admin.show_replica_status''
       [Kw [''ADMIN'', ''SHOW'', ''REPLICA'', ''STATUS'', ''FROM''], RELATION] TGT_RELATION,
     stmt ''admin.show_replica_distribution''
       [Kw [''ADMIN'', ''SHOW'', ''REPLICA'', ''DISTRIBUTION'', ''FROM''], RELATION] TGT_RELATION,
     stmt ''analyze.profile'' [Kw [''ANALYZE'', ''PROFILE'', ''FROM''], Str None] TGT_NONE,
     stmt ''explain.modifier''
       [Kw [''EXPLAIN''], OneOf [[Kw [''LOGICAL'']], [Kw [''VERBOSE'']], [Kw [''COSTS'']]],
        Rest ''inner_query''] TGT_INNER_QUERY,
     stmt ''show.running_queries'' [show_kw [''RUNNING'', ''QUERIES'']] TGT_NONE,
     stmt ''show.analyze_status''
       [show_kw [''ANALYZE'', ''STATUS''],
        where_registered [''ID'', ''DATABASE'', ''TABLE'', ''TYPE'', ''STATUS'']] TGT_NONE,
     stmt ''show.stats_meta''
       [show_kw [''STATS'', ''META''], where_registered [''DATABASE'', ''TABLE'', ''TYPE'']] TGT_NONE,
     stmt ''show.dynamic_partition_tables''
       [show_kw [''DYNAMIC'', ''PARTITION'', ''TABLES''], OPT_DB] TGT_NONE,
     stmt ''show.delete'' [show_kw [''DELETE''], OPT_FROM_DB] TGT_NONE,
     stmt ''show.export'' [show_kw [''EXPORT''], OPT_FROM_DB] TGT_NONE,
     stmt ''show.transaction''
       [show_kw [''TRANSACTION''], OPT_FROM_DB, Kw [''WHERE'', ''ID''], Sym ''='', IntLit] TGT_NONE,
     stmt ''show.compute_nodes'' [show_kw [''COMPUTE'', ''NODES'']] TGT_NONE,
     stmt ''show.roles'' [show_kw [''ROLES'']] TGT_NONE,
     stmt ''show.create_routine_load''
       [show_kw [''CREATE'', ''ROUTINE'', ''LOAD''], Name ''job'' 1 2] TGT_NONE,
     stmt ''describe.all''
       [OneOf [[Kw [''DESC'']], [Kw [''DESCRIBE'']]], RELATION, Kw [''ALL'']] TGT_RELATION]"

definition match_statement :: "token_scan \<Rightarrow> statement_match option" where
  "match_statement sc = match_in READONLY_STATEMENTS sc"

end
