(* ===== verification/Statement_Grammar.thy ===== *)
theory Statement_Grammar
  imports Readonly_Statements
begin

text \<open>
  The meaning of the grammar of \<open>governance/readonly_statements.py\<close> as derivations, and the proof
  that the matcher yields exactly the derivations. The loop of \<open>Many\<close> computes the positions
  reachable by repetitions that make progress, and always ends.
\<close>

subsection \<open>The loop of Many\<close>

definition advances :: "(nat \<Rightarrow> nat list) \<Rightarrow> (nat \<times> nat) set" where
  "advances nexts = {(p, q). q \<in> set (nexts p) \<and> p < q}"

definition fresh_nexts :: "nat \<Rightarrow> nat list \<Rightarrow> nat list \<Rightarrow> nat set" where
  "fresh_nexts cur ns seen = {n \<in> set ns. cur < n \<and> n \<notin> set seen}"

lemma push_fresh_sets:
  "push_fresh cur ns (pending, seen) = (pending', seen') \<Longrightarrow>
     set pending' = set pending \<union> fresh_nexts cur ns seen
     \<and> set seen' = set seen \<union> fresh_nexts cur ns seen
     \<and> length pending' + card (set seen) = length pending + card (set seen')"
proof (induction ns arbitrary: pending seen)
  case (Cons n ns)
  show ?case
  proof (cases "cur < n \<and> n \<notin> set seen")
    case True
    have "fresh_nexts cur (n # ns) seen = insert n (fresh_nexts cur ns (n # seen))"
      using True by (auto simp: fresh_nexts_def)
    then show ?thesis
      using Cons.IH [of "n # pending" "n # seen"] Cons.prems True by auto
  next
    case False
    then have "fresh_nexts cur (n # ns) seen = fresh_nexts cur ns seen"
      by (auto simp: fresh_nexts_def)
    then show ?thesis
      using Cons.IH [of pending seen] Cons.prems False by simp
  qed
qed (simp add: fresh_nexts_def)

text \<open>What the loop keeps: every seen position is reachable and was put out or is pending.\<close>

definition many_inv :: "(nat \<Rightarrow> nat list) \<Rightarrow> nat \<Rightarrow> many_state \<Rightarrow> bool" where
  "many_inv nexts pos s \<longleftrightarrow> (case s of (pending, seen, out) \<Rightarrow>
     pos \<in> set seen \<and> set seen = set out \<union> set pending
     \<and> set seen \<subseteq> (advances nexts)\<^sup>* `` {pos}
     \<and> advances nexts `` set out \<subseteq> set seen)"

lemma many_step_inv:
  assumes "many_inv nexts pos (pending, seen, out)" "pending \<noteq> []"
  shows "many_inv nexts pos (many_step nexts (pending, seen, out))"
proof -
  obtain cur rest where pending: "pending = cur # rest"
    using assms(2) by (cases pending) auto
  obtain pending' seen' where push: "push_fresh cur (nexts cur) (rest, seen) = (pending', seen')"
    by fastforce
  note sets = push_fresh_sets [OF push]
  have cur: "(pos, cur) \<in> (advances nexts)\<^sup>*"
    using assms(1) pending by (auto simp: many_inv_def)
  have "fresh_nexts cur (nexts cur) seen \<subseteq> (advances nexts)\<^sup>* `` {pos}"
  proof
    fix n assume "n \<in> fresh_nexts cur (nexts cur) seen"
    then have "(cur, n) \<in> advances nexts"
      by (auto simp: fresh_nexts_def advances_def)
    then show "n \<in> (advances nexts)\<^sup>* `` {pos}"
      using cur by (auto intro: rtrancl_into_rtrancl)
  qed
  moreover have "advances nexts `` {cur} \<subseteq> set seen \<union> fresh_nexts cur (nexts cur) seen"
    by (auto simp: advances_def fresh_nexts_def)
  ultimately show ?thesis
    using assms(1) sets push unfolding pending many_inv_def
    by auto
qed

definition bounded_nexts :: "nat \<Rightarrow> (nat \<Rightarrow> nat list) \<Rightarrow> bool" where
  "bounded_nexts n nexts \<longleftrightarrow> (\<forall>p. \<forall>q \<in> set (nexts p). q \<le> max p n)"

lemma many_loop_ends:
  assumes "bounded_nexts n nexts"
  shows "\<exists>s. many_loop nexts pos = Some s"
proof -
  let ?top = "max pos n"
  let ?P = "\<lambda>(pending, seen, out). set pending \<subseteq> set seen \<and> set seen \<subseteq> {..?top}"
  let ?f = "\<lambda>(pending, seen, out). length pending + 2 * card ({..?top} - set seen)"
  have step: "?P (many_step nexts s) \<and> ?f (many_step nexts s) < ?f s"
    if inv: "?P s" and pend: "case s of (pending, _) \<Rightarrow> pending \<noteq> []" for s
  proof -
    obtain cur rest seen out where s: "s = (cur # rest, seen, out)"
      using pend by (cases s; cases "fst s") auto
    obtain pending' seen' where push: "push_fresh cur (nexts cur) (rest, seen) = (pending', seen')"
      by fastforce
    note sets = push_fresh_sets [OF push]
    have seen: "set seen \<subseteq> {..?top}" "cur \<le> ?top"
      using inv s by auto
    have "fresh_nexts cur (nexts cur) seen \<subseteq> {..?top}"
      using assms seen(2) by (fastforce simp: fresh_nexts_def bounded_nexts_def)
    then have seen': "set seen' \<subseteq> {..?top}" "set seen \<subseteq> set seen'"
      using sets seen by auto
    have "card ({..?top} - set seen) = card {..?top} - card (set seen)"
      "card ({..?top} - set seen') = card {..?top} - card (set seen')"
      using seen(1) seen'(1) by (simp_all add: card_Diff_subset)
    moreover have "card (set seen) \<le> card (set seen')" "card (set seen') \<le> card {..?top}"
      using seen' by (simp_all only: card_mono finite_atMost finite_set)
    moreover have "length pending' + card (set seen) = length rest + card (set seen')"
      using sets by blast
    ultimately have "length pending' + 2 * card ({..?top} - set seen')
        < Suc (length rest) + 2 * card ({..?top} - set seen)"
      by linarith
    then have "?f (many_step nexts s) < ?f s"
      using push s by simp
    moreover have "?P (many_step nexts s)"
      using sets push s seen' inv by auto
    ultimately show ?thesis
      by blast
  qed
  show ?thesis
    unfolding many_loop_def
    by (rule measure_while_option_Some [where P = ?P and f = ?f]) (use step in auto)
qed

lemma many_loop_result:
  assumes "many_loop nexts pos = Some (pending, seen, out)"
  shows "pending = [] \<and> set out = (advances nexts)\<^sup>* `` {pos}"
proof -
  have inv: "many_inv nexts pos (pending, seen, out)"
    using assms unfolding many_loop_def
    by (rule while_option_rule [where P = "many_inv nexts pos", rotated])
      (use many_step_inv in \<open>auto simp: many_inv_def [of _ _ "([pos], [pos], [])"]\<close>)
  have "pending = []"
    using while_option_stop [OF assms [unfolded many_loop_def]] by simp
  moreover have "(advances nexts)\<^sup>* `` {pos} \<subseteq> set out"
  proof
    fix q assume "q \<in> (advances nexts)\<^sup>* `` {pos}"
    then have "(pos, q) \<in> (advances nexts)\<^sup>*"
      by simp
    then show "q \<in> set out"
      by (induction rule: rtrancl_induct) (use inv \<open>pending = []\<close> in \<open>auto simp: many_inv_def\<close>)
  qed
  ultimately show ?thesis
    using inv by (auto simp: many_inv_def)
qed

lemma many_positions_reachable:
  assumes "bounded_nexts n nexts"
  shows "set (many_positions nexts pos) = (advances nexts)\<^sup>* `` {pos}"
  using many_loop_ends [OF assms, of pos] many_loop_result
  by (fastforce simp: many_positions_def)

subsection \<open>Derivations\<close>

text \<open>
  A name of the given parts from a position on: identifiers, separated by dots.
\<close>

fun name_parts :: "stmt_input \<Rightarrow> nat \<Rightarrow> string list \<Rightarrow> bool" where
  "name_parts src pos [] = True"
| "name_parts src pos [p] = (input_identifier src pos = Some p)"
| "name_parts src pos (p # q # ps) =
     (input_identifier src pos = Some p \<and> input_symbol src (pos + 1) = Some ''.''
      \<and> name_parts src (pos + 2) (q # ps))"

inductive derives :: "stmt_input \<Rightarrow> element \<Rightarrow> nat \<Rightarrow> captures \<Rightarrow> nat \<Rightarrow> captures \<Rightarrow> bool"
  and derives_all :: "stmt_input \<Rightarrow> element list \<Rightarrow> nat \<Rightarrow> captures \<Rightarrow> nat \<Rightarrow> captures \<Rightarrow> bool"
  for src where
  kw: "kw_at src p ws \<Longrightarrow> derives src (Kw ws) p c (p + length ws) c"
| sym: "input_symbol src p = Some s \<Longrightarrow> derives src (Sym s) p c (p + 1) c"
| name: "name_parts src p parts \<Longrightarrow> parts \<noteq> [] \<Longrightarrow> mn \<le> length parts \<Longrightarrow> length parts \<le> mx
    \<Longrightarrow> derives src (Name cap mn mx) p c (p + 2 * length parts - 1) (c @ [(cap, Parts parts)])"
| str: "plain_string src p = Some inner \<Longrightarrow> derives src (Str None) p c (p + 1) c"
| str_cap: "plain_string src p = Some inner
    \<Longrightarrow> derives src (Str (Some cap)) p c (p + 1) (c @ [(cap, Inner inner)])"
| int: "int_at src p \<Longrightarrow> derives src IntLit p c (p + 1) c"
| column: "column_at src p allowed \<Longrightarrow> derives src (Column allowed) p c (p + 1) c"
| rest: "p < length (si_tokens src)
    \<Longrightarrow> derives src (Rest cap) p c (length (si_tokens src)) (c @ [(cap, rest_span src p)])"
| opt_absent: "derives src (Opt es) p c p c"
| opt_present: "derives_all src es p c q d \<Longrightarrow> derives src (Opt es) p c q d"
| one_of: "es \<in> set alts \<Longrightarrow> derives_all src es p c q d \<Longrightarrow> derives src (OneOf alts) p c q d"
| many_stop: "derives src (Many es) p c p c"
| many_more: "derives_all src es p c q d \<Longrightarrow> p < q \<Longrightarrow> derives src (Many es) q c r c
    \<Longrightarrow> derives src (Many es) p c r c"
| nil: "derives_all src [] p c p c"
| cons: "derives src e p c q d \<Longrightarrow> derives_all src es q d r f \<Longrightarrow> derives_all src (e # es) p c r f"

inductive_simps derives_kw: "derives src (Kw ws) p c q d"
inductive_simps derives_sym: "derives src (Sym s) p c q d"
inductive_simps derives_name: "derives src (Name cap mn mx) p c q d"
inductive_simps derives_str: "derives src (Str cap) p c q d"
inductive_simps derives_int: "derives src IntLit p c q d"
inductive_simps derives_column: "derives src (Column allowed) p c q d"
inductive_simps derives_rest: "derives src (Rest cap) p c q d"
inductive_simps derives_opt: "derives src (Opt es) p c q d"
inductive_simps derives_one_of: "derives src (OneOf alts) p c q d"
inductive_simps derives_nil: "derives_all src [] p c q d"
inductive_simps derives_cons: "derives_all src (e # es) p c q d"

lemmas derives_simps = derives_kw derives_sym derives_name derives_str derives_int derives_column
  derives_rest derives_opt derives_one_of derives_nil derives_cons

subsection \<open>Names\<close>

lemma name_parts_snoc:
  "parts \<noteq> [] \<Longrightarrow> name_parts src p (parts @ [x]) \<longleftrightarrow> name_parts src p parts
     \<and> input_symbol src (p + 2 * length parts - 1) = Some ''.''
     \<and> input_identifier src (p + 2 * length parts) = Some x"
proof (induction src p parts rule: name_parts.induct)
  case (2 src p a)
  then show ?case
    by auto
next
  case (3 src p a b ps)
  then show ?case
    by (simp add: algebra_simps)
qed simp

lemma name_parts_prefix: "name_parts src p (ps @ qs) \<Longrightarrow> name_parts src p ps"
proof (induction qs rule: rev_induct)
  case (snoc x qs)
  then show ?case
    by (cases "ps @ qs = []") (auto simp: name_parts_snoc simp flip: append_assoc)
qed simp

definition name_cursor :: "nat \<Rightarrow> string list \<Rightarrow> nat" where
  "name_cursor p parts = (if parts = [] then p else p + 2 * length parts - 1)"

lemma name_cursor_Nil [simp]: "name_cursor p [] = p"
  by (simp add: name_cursor_def)

lemma name_loop_set:
  assumes "name_parts src p parts" "length parts + left = mx"
  shows "(q, d) \<in> set (name_loop src cap mn c left (name_cursor p parts) parts) \<longleftrightarrow>
     (\<exists>more. more \<noteq> [] \<and> name_parts src p (parts @ more) \<and> mn \<le> length (parts @ more)
        \<and> length (parts @ more) \<le> mx \<and> q = name_cursor p (parts @ more)
        \<and> d = c @ [(cap, Parts (parts @ more))])"
  using assms
proof (induction left arbitrary: parts)
  case (Suc left)
  have next_part: "name_parts src p (parts @ [x]) \<longleftrightarrow>
      (parts = [] \<or> input_symbol src (name_cursor p parts) = Some ''.'')
      \<and> input_identifier src (if parts = [] then p else name_cursor p parts + 1) = Some x" for x
    using Suc.prems(1) by (cases "parts = []") (auto simp: name_parts_snoc name_cursor_def)
  have cur: "name_cursor p (parts @ [x]) = Suc (if parts = [] then p else name_cursor p parts + 1)" for x
    by (auto simp: name_cursor_def Suc_le_eq)
  show ?case
  proof (cases "\<exists>x. name_parts src p (parts @ [x])")
    case True
    then obtain x where x: "name_parts src p (parts @ [x])"
      by blast
    then have uniq: "name_parts src p (parts @ y # more) \<Longrightarrow> y = x" for y more
      using next_part name_parts_prefix [of src p "parts @ [y]" more] by auto
    have split_more: "(\<exists>more. more \<noteq> [] \<and> name_parts src p (parts @ more) \<and> Q (parts @ more)) \<longleftrightarrow>
        Q (parts @ [x]) \<or> (\<exists>more. more \<noteq> [] \<and> name_parts src p (parts @ x # more) \<and> Q (parts @ x # more))"
      (is "?l \<longleftrightarrow> ?r") for Q
    proof
      assume ?l
      then obtain y ys where "name_parts src p (parts @ y # ys)" "Q (parts @ y # ys)"
        by (metis list.exhaust)
      then show ?r
        using uniq by (cases "ys = []") auto
    next
      assume ?r
      then show ?l
        using x by blast
    qed
    have IH: "(q, d) \<in> set (name_loop src cap mn c left (name_cursor p (parts @ [x])) (parts @ [x])) \<longleftrightarrow>
       (\<exists>more. more \<noteq> [] \<and> name_parts src p (parts @ x # more) \<and> mn \<le> length (parts @ x # more)
          \<and> length (parts @ x # more) \<le> mx \<and> q = name_cursor p (parts @ x # more)
          \<and> d = c @ [(cap, Parts (parts @ x # more))])"
      using Suc.IH [OF x] Suc.prems(2) by simp
    have "(q, d) \<in> set (name_loop src cap mn c (Suc left) (name_cursor p parts) parts) \<longleftrightarrow>
        mn \<le> length (parts @ [x]) \<and> q = name_cursor p (parts @ [x])
          \<and> d = c @ [(cap, Parts (parts @ [x]))]
        \<or> (q, d) \<in> set (name_loop src cap mn c left (name_cursor p (parts @ [x])) (parts @ [x]))"
      using x next_part [of x] cur [of x] by (auto simp: Let_def)
    then show ?thesis
      unfolding IH split_more [of "\<lambda>ps. mn \<le> length ps \<and> length ps \<le> mx \<and> q = name_cursor p ps
        \<and> d = c @ [(cap, Parts ps)]"]
      using Suc.prems(2) by simp
  next
    case False
    then have "name_loop src cap mn c (Suc left) (name_cursor p parts) parts = []"
      using next_part by (auto simp: Let_def split: option.splits)
    moreover have "\<not> name_parts src p (parts @ more)" if "more \<noteq> []" for more
      using False name_parts_prefix [of src p "parts @ [hd more]" "tl more"] that by auto
    ultimately show ?thesis
      by auto
  qed
qed simp

lemma name_match:
  "(q, d) \<in> set (name_loop src cap mn c mx p []) \<longleftrightarrow> derives src (Name cap mn mx) p c q d"
  using name_loop_set [of src p "[]" mx mx q d cap mn c]
  by (auto simp: name_cursor_def derives_name)

subsection \<open>Positions\<close>

lemma token_at_bound: "token_at src p k = Some s \<Longrightarrow> p < length (si_tokens src)"
  by (auto simp: token_at_def split: if_splits)

lemma identifier_bound: "input_identifier src p = Some s \<Longrightarrow> p < length (si_tokens src)"
  by (auto simp: input_identifier_def Let_def dest: token_at_bound split: option.splits if_splits)

lemma name_parts_bound:
  "name_parts src p parts \<Longrightarrow> parts \<noteq> [] \<Longrightarrow> p + 2 * length parts - 1 \<le> length (si_tokens src)"
proof (induction src p parts rule: name_parts.induct)
  case (2 src p x)
  then show ?case
    using identifier_bound by fastforce
qed simp_all

lemma kw_bound: "kw_at src p ws \<Longrightarrow> p + length ws \<le> max p (length (si_tokens src))"
proof (cases ws rule: rev_cases)
  case (snoc us u)
  assume "kw_at src p ws"
  then have "input_word src (p + length us) = Some u"
    using snoc by (auto simp: kw_at_def enumerate_append_eq)
  then have "p + length us < length (si_tokens src)"
    by (auto simp: input_word_def dest: token_at_bound)
  then show ?thesis
    using snoc by simp
qed simp

lemma derives_bounds:
  "derives src e p c q d \<Longrightarrow> p \<le> q \<and> q \<le> max p (length (si_tokens src))"
  "derives_all src es p c q d \<Longrightarrow> p \<le> q \<and> q \<le> max p (length (si_tokens src))"
proof (induction rule: derives_derives_all.inducts)
  case (kw p ws c)
  then show ?case
    using kw_bound by auto
next
  case (sym p s c)
  then show ?case
    by (auto simp: input_symbol_def dest: token_at_bound)
next
  case (name p parts mn mx cap c)
  then show ?case
    using name_parts_bound [of src p parts] by (cases parts) auto
next
  case (str p inner c)
  then show ?case
    by (auto simp: plain_string_def dest: token_at_bound split: option.splits)
next
  case (str_cap p inner cap c)
  then show ?case
    by (auto simp: plain_string_def dest: token_at_bound split: option.splits)
next
  case (int p c)
  then show ?case
    by (auto simp: int_at_def input_word_def dest: token_at_bound split: option.splits)
next
  case (column p allowed c)
  then show ?case
    by (auto simp: column_at_def dest: identifier_bound split: option.splits)
qed auto

subsection \<open>The matcher yields the derivations\<close>

lemma many_derives:
  assumes nexts: "\<And>p q. q \<in> set (nexts p) \<longleftrightarrow> (\<exists>d. derives_all src es p c q d)"
  shows "derives src (Many es) p c q d \<longleftrightarrow> d = c \<and> (p, q) \<in> (advances nexts)\<^sup>*"
proof
  assume "derives src (Many es) p c q d"
  then show "d = c \<and> (p, q) \<in> (advances nexts)\<^sup>*"
    using nexts
  proof (induction "Many es" p c q d
      rule: derives_derives_all.inducts(1) [where ?P2.0 = "\<lambda>_ _ _ _ _. True"])
    case (many_more p c q d r)
    then have "(p, q) \<in> advances nexts"
      by (auto simp: advances_def)
    then show ?case
      using many_more by (auto intro: converse_rtrancl_into_rtrancl)
  qed auto
next
  assume "d = c \<and> (p, q) \<in> (advances nexts)\<^sup>*"
  then have "(p, q) \<in> (advances nexts)\<^sup>*" "d = c"
    by auto
  then show "derives src (Many es) p c q d"
  proof (induction rule: converse_rtrancl_induct)
    case base
    then show ?case
      by (simp add: many_stop)
  next
    case (step p r)
    then show ?case
      using nexts many_more by (auto simp: advances_def)
  qed
qed

theorem match_derives:
  "(q, d) \<in> set (match_element e src p c) \<longleftrightarrow> derives src e p c q d"
  "(q, d) \<in> set (match_sequence es src p c) \<longleftrightarrow> derives_all src es p c q d"
proof (induction e src p c and es src p c arbitrary: q d and q d
    rule: match_element_match_sequence.induct)
  case (3 cap mn mx src pos caps)
  then show ?case
    by (simp add: name_match)
next
  case (4 cap src pos caps)
  then show ?case
    by (auto simp: derives_str split: option.splits)
next
  case (10 es src pos caps)
  let ?nexts = "\<lambda>cur. map fst (match_sequence es src cur caps)"
  have nexts: "q \<in> set (?nexts p) \<longleftrightarrow> (\<exists>d. derives_all src es p caps q d)" for p q
    using 10 by force
  have "bounded_nexts (length (si_tokens src)) ?nexts"
    unfolding bounded_nexts_def using nexts derives_bounds(2) by blast
  then have "set (many_positions ?nexts pos) = (advances ?nexts)\<^sup>* `` {pos}"
    by (rule many_positions_reachable)
  then show ?case
    using many_derives [of ?nexts, OF nexts] by auto
next
  case (12 e es src pos caps)
  then show ?case
    by (auto simp: derives_cons) (metis case_prodI)+
qed (auto simp: derives_kw derives_sym derives_int derives_column derives_rest derives_opt
    derives_one_of derives_nil split: if_splits)

subsection \<open>Captures\<close>

text \<open>The elements without parts of their own, and the kinds of values captures of a name hold.\<close>

function leaves :: "element \<Rightarrow> element list" and leaves_all :: "element list \<Rightarrow> element list" where
  "leaves (Kw ws) = [Kw ws]"
| "leaves (Sym s) = [Sym s]"
| "leaves (Name cap mn mx) = [Name cap mn mx]"
| "leaves (Str cap) = [Str cap]"
| "leaves IntLit = [IntLit]"
| "leaves (Column allowed) = [Column allowed]"
| "leaves (Rest cap) = [Rest cap]"
| "leaves (Opt es) = leaves_all es"
| "leaves (OneOf alts) = concat (map leaves_all alts)"
| "leaves (Many es) = leaves_all es"
| "leaves_all [] = []"
| "leaves_all (e # es) = leaves e @ leaves_all es"
  by pat_completeness auto
termination
  by (relation "measure (\<lambda>s. case s of Inl e \<Rightarrow> size e | Inr es \<Rightarrow> size_list size es)")
    (auto simp: size_list_mem)

fun leaf_typed :: "element \<Rightarrow> bool" where
  "leaf_typed (Name cap mn mx) =
     (cap = ''database'' \<or> cap = ''job'' \<or> cap = ''relation'' \<and> mx \<le> 3)"
| "leaf_typed (Str (Some cap)) = (cap = ''relation_name'')"
| "leaf_typed (Rest cap) = (cap = ''inner_query'')"
| "leaf_typed e = True"

definition typed_capture :: "stmt_input \<Rightarrow> string \<times> stmt_capture \<Rightarrow> bool" where
  "typed_capture src = (\<lambda>(n, v).
     (n = ''relation'' \<longrightarrow> (\<exists>ps. v = Parts ps \<and> ps \<noteq> [] \<and> length ps \<le> 3))
     \<and> (n = ''relation_name'' \<longrightarrow> (\<exists>s. v = Inner s \<and> s \<noteq> []))
     \<and> (n = ''inner_query'' \<longrightarrow> (\<exists>i < length (si_tokens src). v = rest_span src i)))"

lemma plain_string_nonempty: "plain_string src p = Some s \<Longrightarrow> s \<noteq> []"
  by (auto simp: plain_string_def Let_def split: option.splits if_splits)

lemma derives_typed:
  "derives src e p c q d \<Longrightarrow> list_all leaf_typed (leaves e) \<Longrightarrow> list_all (typed_capture src) c
     \<Longrightarrow> list_all (typed_capture src) d"
  "derives_all src es p c q d \<Longrightarrow> list_all leaf_typed (leaves_all es)
     \<Longrightarrow> list_all (typed_capture src) c \<Longrightarrow> list_all (typed_capture src) d"
proof (induction rule: derives_derives_all.inducts)
  case (name p parts mn mx cap c)
  then show ?case
    by (auto simp: typed_capture_def)
next
  case (str_cap p inner cap c)
  then show ?case
    using plain_string_nonempty by (auto simp: typed_capture_def)
next
  case (rest p cap c)
  then show ?case
    by (auto simp: typed_capture_def)
next
  case (one_of es alts p c q d)
  then show ?case
    by (auto simp: list_all_iff)
qed auto

text \<open>A derivation captures only declared names, and each that is declared as certain.\<close>

definition captures_within :: "(string \<times> bool) list \<Rightarrow> captures \<Rightarrow> captures \<Rightarrow> bool" where
  "captures_within names c d \<longleftrightarrow>
     fst ` set c \<subseteq> fst ` set d \<and> fst ` set d \<subseteq> fst ` set c \<union> fst ` set names
     \<and> {n. (n, True) \<in> set names} \<subseteq> fst ` set d"

lemma captures_within_weaken:
  "captures_within names c d \<Longrightarrow> fst ` set names \<subseteq> fst ` set names' \<Longrightarrow> \<forall>(n, r) \<in> set names'. \<not> r
     \<Longrightarrow> captures_within names' c d"
proof -
  assume within: "captures_within names c d" and sub: "fst ` set names \<subseteq> fst ` set names'"
    and "\<forall>(n, r) \<in> set names'. \<not> r"
  then have "{n. (n, True) \<in> set names'} = {}"
    by auto
  moreover have "fst ` set d \<subseteq> fst ` set c \<union> fst ` set names'"
    using within by (auto simp: captures_within_def intro!: subset_trans [OF _ Un_mono [OF order.refl sub]])
  ultimately show "captures_within names' c d"
    using within by (simp add: captures_within_def)
qed

lemma within_trans:
  "C \<subseteq> D \<and> D \<subseteq> C \<union> N \<and> S \<subseteq> D \<Longrightarrow> D \<subseteq> F \<and> F \<subseteq> D \<union> M \<and> T \<subseteq> F
     \<Longrightarrow> C \<subseteq> F \<and> F \<subseteq> C \<union> (N \<union> M) \<and> S \<union> T \<subseteq> F"
  by blast

lemma derives_captures:
  "derives src e p c q d \<Longrightarrow> captures_within (capture_names e) c d"
  "derives_all src es p c q d \<Longrightarrow> captures_within (sequence_names es) c d"
proof (induction rule: derives_derives_all.inducts)
  case (opt_present es p c q d)
  show ?case
    by (rule captures_within_weaken [OF opt_present(2)]) (force simp: image_iff)+
next
  case (one_of es alts p c q d)
  show ?case
    by (rule captures_within_weaken [OF one_of(3)]) (use one_of(1) in \<open>force simp: image_iff\<close>)+
next
  case (cons e p c q d es r f)
  then show ?case
    unfolding captures_within_def sequence_names.simps set_append image_Un Un_iff Collect_disj_eq
    by (elim within_trans)
qed (auto simp: captures_within_def)

lemma get_capture_Some: "get_capture c n \<noteq> None \<longleftrightarrow> n \<in> fst ` set c"
  using map_of_eq_None_iff [of "rev c" n] by (simp add: get_capture_def)

lemma get_capture_mem: "get_capture c n = Some v \<Longrightarrow> (n, v) \<in> set c"
  by (auto simp: get_capture_def dest: map_of_SomeD)

subsection \<open>The merged names of a pattern\<close>

lemma merge_names_keys: "dget (merge_names ns d) n \<noteq> None \<longleftrightarrow> n \<in> fst ` set ns \<or> dget d n \<noteq> None"
  by (induction ns d rule: merge_names.induct) auto

lemma merge_names_True:
  "dget (merge_names ns d) n = Some True \<longleftrightarrow> (n, True) \<in> set ns \<or> dget d n = Some True"
  by (induction ns d rule: merge_names.induct) auto

lemma merge_names_dict: "dict_ok d \<Longrightarrow> dict_ok (merge_names ns d)"
  by (induction ns d rule: merge_names.induct) auto

subsection \<open>What the target rule of a statement promises\<close>

definition typed_pattern :: "element list \<Rightarrow> bool" where
  "typed_pattern es \<longleftrightarrow> list_all leaf_typed (leaves_all es)
     \<and> \<not> (''relation'' \<in> fst ` set (sequence_names es)
          \<and> ''relation_name'' \<in> fst ` set (sequence_names es))"

fun rule_kept :: "target_rule \<Rightarrow> statement_match \<Rightarrow> bool" where
  "rule_kept TGT_NONE m = (sm_relations m = [] \<and> sm_inner_query m = None)"
| "rule_kept TGT_RELATION m = (length (sm_relations m) = 1 \<and> sm_inner_query m = None)"
| "rule_kept TGT_OPTIONAL_RELATION m = (length (sm_relations m) \<le> 1 \<and> sm_inner_query m = None)"
| "rule_kept TGT_INNER_QUERY m = (sm_relations m = [] \<and> sm_inner_query m \<noteq> None)"

definition pattern_names :: "element list \<Rightarrow> (string, bool) dict" where
  "pattern_names es = merge_names (sequence_names es) []"

lemma pattern_names_key: "dget (pattern_names es) n \<noteq> None \<longleftrightarrow> n \<in> fst ` set (sequence_names es)"
  and pattern_names_sure: "dget (pattern_names es) n = Some True \<longleftrightarrow> (n, True) \<in> set (sequence_names es)"
  and pattern_names_dict: "dict_ok (pattern_names es)"
  using merge_names_keys [of "sequence_names es" "[]" n] merge_names_True [of "sequence_names es" "[]" n]
  by (simp_all add: pattern_names_def merge_names_dict)

lemma relation_captures_get:
  "dget (relation_captures names) n
     = (if n = ''relation'' \<or> n = ''relation_name'' then dget names n else None)"
  unfolding relation_captures_def by (induction names) auto

text \<open>The three names a match reads, for a derivation of a whole pattern.\<close>

lemma derivation_captures:
  assumes "derives_all src es 0 [] n c"
  shows "get_capture c k \<noteq> None \<Longrightarrow> dget (pattern_names es) k \<noteq> None"
    and "dget (pattern_names es) k = Some True \<Longrightarrow> get_capture c k \<noteq> None"
  using derives_captures(2) [OF assms]
  unfolding captures_within_def get_capture_Some pattern_names_key pattern_names_sure by auto

lemma derivation_typed:
  assumes "derives_all src es 0 [] n c" "typed_pattern es" "get_capture c k = Some v"
  shows "typed_capture src (k, v)"
  using derives_typed(2) [OF assms(1)] assms(2) get_capture_mem [OF assms(3)]
  by (auto simp: typed_pattern_def list_all_iff)

lemma to_match_relations:
  assumes "derives_all src es 0 [] n c" "typed_pattern es"
  shows "length (sm_relations (to_match st c)) =
      (if get_capture c ''relation'' \<noteq> None then 1 else 0)
      + (if get_capture c ''relation_name'' \<noteq> None then 1 else 0)"
  using derivation_typed [OF assms, of "''relation''"] derivation_typed [OF assms, of "''relation_name''"]
  by (auto simp: to_match_def typed_capture_def split: option.splits stmt_capture.splits)

lemma to_match_inner:
  assumes "derives_all src es 0 [] n c" "typed_pattern es"
  shows "sm_inner_query (to_match st c) \<noteq> None \<longleftrightarrow> get_capture c ''inner_query'' \<noteq> None"
  using derivation_typed [OF assms, of "''inner_query''"]
  by (auto simp: to_match_def typed_capture_def rest_span_def split: option.splits stmt_capture.splits)

lemma one_relation_name:
  assumes "derives_all src es 0 [] n c" "typed_pattern es"
  shows "\<not> (get_capture c ''relation'' \<noteq> None \<and> get_capture c ''relation_name'' \<noteq> None)"
  using assms(2) derivation_captures(1) [OF assms(1)] unfolding typed_pattern_def pattern_names_key by blast

lemma target_rule_kept:
  assumes "check_target_rule st" "typed_pattern (rs_pattern st)"
    "derives_all src (rs_pattern st) 0 [] n c"
  shows "rule_kept (rs_target st) (to_match st c)"
proof -
  let ?names = "pattern_names (rs_pattern st)"
  note cap = derivation_captures [OF assms(3)]
  note rel = to_match_relations [OF assms(3,2), of st]
  have inn: "sm_inner_query (to_match st c) = None \<longleftrightarrow> get_capture c ''inner_query'' = None"
    using to_match_inner [OF assms(3,2), of st] by blast
  note one = one_relation_name [OF assms(3,2)]
  have get: "dget ?names k = dget (relation_captures ?names) k"
    if "k = ''relation'' \<or> k = ''relation_name''" for k
    using that by (simp add: relation_captures_get)
  have absent: "get_capture c k = None" if "dget ?names k = None" for k
    using cap(1) [of k] that by (cases "get_capture c k") auto
  show ?thesis
  proof (cases "rs_target st")
    case TGT_NONE
    then have "relation_captures ?names = []" "dget ?names ''inner_query'' = None"
      using assms(1) by (auto simp: check_target_rule_def Let_def pattern_names_def)
    then have "get_capture c ''relation'' = None" "get_capture c ''relation_name'' = None"
        "get_capture c ''inner_query'' = None"
      using absent get by simp_all
    then show ?thesis
      using TGT_NONE rel inn by simp
  next
    case TGT_RELATION
    then have r: "relation_captures ?names = [(''relation'', True)]" "dget ?names ''inner_query'' = None"
      using assms(1) by (auto simp: check_target_rule_def Let_def pattern_names_def)
    then have "get_capture c ''relation'' \<noteq> None" "get_capture c ''inner_query'' = None"
      using cap(2) [of "''relation''"] get absent by simp_all
    then show ?thesis
      using TGT_RELATION rel inn one by simp
  next
    case TGT_OPTIONAL_RELATION
    then have "dget ?names ''inner_query'' = None"
      using assms(1) by (auto simp: check_target_rule_def Let_def pattern_names_def)
    then show ?thesis
      using TGT_OPTIONAL_RELATION rel inn absent one by auto
  next
    case TGT_INNER_QUERY
    then have "?names = [(''inner_query'', True)]"
      using assms(1) by (auto simp: check_target_rule_def Let_def pattern_names_def)
    then have "get_capture c ''inner_query'' \<noteq> None" "get_capture c ''relation'' = None"
        "get_capture c ''relation_name'' = None"
      using cap(2) [of "''inner_query''"] absent by simp_all
    then show ?thesis
      using TGT_INNER_QUERY rel inn by simp
  qed
qed

end
