(* ===== verification/Sql_Defects.thy ===== *)
theory Sql_Defects
  imports Sql_Scan
begin

text \<open>
  What is wrong with a text the scanner of \<open>governance/sql_tokens.py\<close> cannot cut into pieces: a grammar
  of the defects, one per reason, at the first place where no piece fits, and the proof that the
  scanner reports exactly them.
\<close>

subsection \<open>Defects\<close>

text \<open>A character no text may have: a control character that is no white space, or a format character.\<close>

definition forbidden :: "nat \<Rightarrow> bool" where
  "forbidden c \<longleftrightarrow> cc_char c \<and> \<not> ws_char c \<or> format_char c"

text \<open>
  The inside of a quoted text that has not ended: a quote in it is doubled, and in a string the
  character after a backslash, if there is one, is not looked at.
\<close>

fun inside :: "nat \<Rightarrow> bool \<Rightarrow> nat list \<Rightarrow> bool" where
  "inside q bs [] = True"
| "inside q bs [c] = (c \<noteq> q)"
| "inside q bs (c # d # ds) =
     (if bs \<and> c = 92 then inside q bs ds
      else if c = q then d = q \<and> inside q bs ds
      else inside q bs (d # ds))"

text \<open>
  A beginning of a piece that needs more text to be one: a block comment, a string or a quoted name
  without its end. A line comment may stop anywhere.
\<close>

definition needs_end :: "nat list \<Rightarrow> bool" where
  "needs_end s \<longleftrightarrow> (\<exists>u. s = 47 # 42 # u \<and> no_close u) \<or> (\<exists>q u. (q = 39 \<or> q = 34) \<and> s = q # u \<and> inside q True u)
     \<or> (\<exists>u. s = 96 # u \<and> inside 96 False u)"

definition in_line_comment :: "nat list \<Rightarrow> bool" where
  "in_line_comment s \<longleftrightarrow> (\<exists>u. s = 35 # u \<or> s = 45 # 45 # u) \<and> list_all (\<lambda>c. \<not> line_end c) s"

definition hint_comment :: "nat list \<Rightarrow> bool" where
  "hint_comment s \<longleftrightarrow> (\<exists>c u. s = 47 # 42 # c # u \<and> (c = 43 \<or> c = 33))"

text \<open>
  The defect a text begins with, for each reason. A forbidden character is met at the beginning, or
  inside a piece that is not finished; a character outside ASCII is met where a piece would begin.
\<close>

inductive begins_with_defect :: "token_scan_reason \<Rightarrow> nat list \<Rightarrow> bool" where
  hint: "hint_comment s \<Longrightarrow> begins_with_defect TR_HINT_COMMENT s"
| unterminated: "needs_end s \<Longrightarrow> \<not> hint_comment s \<Longrightarrow> list_all (\<lambda>c. \<not> forbidden c) s \<Longrightarrow>
    begins_with_defect TR_UNTERMINATED s"
| control: "forbidden c \<Longrightarrow> list_all (\<lambda>c. \<not> forbidden c) u \<Longrightarrow> u = [] \<or> needs_end u \<or> in_line_comment u \<Longrightarrow>
    \<not> hint_comment (u @ c # rest) \<Longrightarrow> begins_with_defect TR_CONTROL_CHARACTER (u @ c # rest)"
| punctuation: "128 \<le> c \<Longrightarrow> \<not> forbidden c \<Longrightarrow> begins_with_defect TR_AMBIGUOUS_PUNCTUATION (c # rest)"

inductive_cases hintE: "begins_with_defect TR_HINT_COMMENT s"
inductive_cases unterminatedE: "begins_with_defect TR_UNTERMINATED s"
inductive_cases controlE: "begins_with_defect TR_CONTROL_CHARACTER s"
inductive_cases punctuationE: "begins_with_defect TR_AMBIGUOUS_PUNCTUATION s"

text \<open>What is left of a text after some of its pieces.\<close>

inductive cut_to :: "nat list \<Rightarrow> nat list \<Rightarrow> bool" where
  cut_none: "cut_to cs cs"
| cut_piece: "piece k s rest \<Longrightarrow> cut_to rest left \<Longrightarrow> cut_to (s @ rest) left"

definition lexical_defect :: "token_scan_reason \<Rightarrow> nat list \<Rightarrow> bool" where
  "lexical_defect r cs \<longleftrightarrow> (if r = TR_BOM then bom_char \<in> set cs
     else bom_char \<notin> set cs \<and> (\<exists>left. cut_to cs left \<and> begins_with_defect r left))"

subsection \<open>The loops of the scanner\<close>

lemma safe_forbidden: "safe_char c \<longleftrightarrow> \<not> forbidden c"
  by (auto simp: safe_char_def check_char_def forbidden_def bom_char_def format_char_def format_ranges_def)

lemma check_forbidden: "c \<noteq> bom_char \<Longrightarrow> check_char c = (if forbidden c then Some TR_CONTROL_CHARACTER else None)"
  by (simp add: check_char_def forbidden_def)

lemma allowed_ascii [simp]:
  "\<not> forbidden 42" "\<not> forbidden 47" "\<not> forbidden 39" "\<not> forbidden 34" "\<not> forbidden 96" "\<not> forbidden 92"
  "\<not> forbidden 35" "\<not> forbidden 45"
  using printable_safe by (simp_all add: safe_forbidden [symmetric])

lemma allowed_word: "word_char c \<Longrightarrow> \<not> forbidden c"
  using word_safe safe_forbidden by blast

lemma allowed_ws: "ws_char c \<Longrightarrow> \<not> forbidden c"
  using ws_safe safe_forbidden by blast

lemma allowed_line_end: "line_end c \<Longrightarrow> \<not> forbidden c"
  by (rule allowed_ws) (auto simp: line_end_def ws_char_def)

text \<open>The first forbidden character, after a text with a property.\<close>

definition met :: "(nat list \<Rightarrow> bool) \<Rightarrow> nat list \<Rightarrow> bool" where
  "met P cs \<longleftrightarrow> (\<exists>u c w. cs = u @ c # w \<and> forbidden c \<and> list_all (\<lambda>c. \<not> forbidden c) u \<and> P u)"

lemma met_Nil [simp]: "\<not> met P []"
  by (simp add: met_def)

lemma met_Cons: "met P (c # cs) \<longleftrightarrow> (if forbidden c then P [] else met (\<lambda>u. P (c # u)) cs)"
proof (cases "forbidden c")
  case True
  have "met P (c # cs)" if "P []"
    unfolding met_def using True that by (intro exI [of _ "[]"]) simp
  moreover have "P []" if "met P (c # cs)"
    using that True by (auto simp: met_def Cons_eq_append_conv)
  ultimately show ?thesis using True by simp blast
next
  case False
  have "met (\<lambda>u. P (c # u)) cs" if "met P (c # cs)"
  proof -
    obtain u d w where u: "c # cs = u @ d # w" "forbidden d" "list_all (\<lambda>c. \<not> forbidden c) u" "P u"
      using \<open>met P (c # cs)\<close> unfolding met_def by blast
    then obtain v where "u = c # v" using False by (cases u) auto
    then show ?thesis unfolding met_def using u by (intro exI [of _ v] exI [of _ d] exI [of _ w]) simp
  qed
  moreover have "met P (c # cs)" if "met (\<lambda>u. P (c # u)) cs"
  proof -
    obtain u d w where u: "cs = u @ d # w" "forbidden d" "list_all (\<lambda>c. \<not> forbidden c) u" "P (c # u)"
      using \<open>met (\<lambda>u. P (c # u)) cs\<close> unfolding met_def by blast
    then show ?thesis unfolding met_def using False by (intro exI [of _ "c # u"] exI [of _ d] exI [of _ w]) simp
  qed
  ultimately show ?thesis using False by auto
qed

lemma met_cong: "(\<And>u c w. cs = u @ c # w \<Longrightarrow> forbidden c \<Longrightarrow> P u \<longleftrightarrow> Q u) \<Longrightarrow> met P cs \<longleftrightarrow> met Q cs"
  unfolding met_def by blast

lemma met_False [simp]: "\<not> met (\<lambda>u. False) cs"
  by (simp add: met_def)

lemma line_comment_Inl:
  "bom_char \<notin> set cs \<Longrightarrow> line_comment b cs = Inl r \<longleftrightarrow>
     r = TR_CONTROL_CHARACTER \<and> met (list_all (\<lambda>c. \<not> line_end c)) cs"
proof (induction b cs rule: line_comment.induct)
  case (2 b c cs)
  show ?case
  proof (cases "line_end c")
    case True
    then show ?thesis using allowed_line_end by (simp add: met_Cons)
  next
    case False
    then show ?thesis using 2 by (auto simp: met_Cons check_forbidden)
  qed
qed simp

lemma block_body_Inl:
  "bom_char \<notin> set cs \<Longrightarrow> block_body b cs = Inl r \<longleftrightarrow>
     r = TR_UNTERMINATED \<and> no_close cs \<and> list_all (\<lambda>c. \<not> forbidden c) cs
     \<or> r = TR_CONTROL_CHARACTER \<and> met no_close cs"
proof (induction b cs rule: block_body.induct)
  case (2 b c cs)
  show ?case
  proof (cases "c = 42 \<and> cs \<noteq> [] \<and> hd cs = 47")
    case True
    then obtain ds where cs: "cs = 47 # ds" by (cases cs) auto
    have "block_body b (c # cs) \<noteq> Inl r"
      using True safe_ascii by (simp add: cs safe_char_def)
    moreover have "\<not> met no_close (c # cs)"
      using True by (simp add: cs met_Cons)
    ultimately show ?thesis using True by simp
  next
    case False
    have "met no_close (c # cs) \<longleftrightarrow> (if forbidden c then True else met no_close cs)"
    proof (cases "forbidden c")
      case True
      then show ?thesis by (simp add: met_Cons)
    next
      case ok: False
      have "met (\<lambda>u. no_close (c # u)) cs \<longleftrightarrow> met no_close cs"
        by (rule met_cong) (use False in \<open>auto simp: neq_Nil_conv\<close>)
      then show ?thesis using ok by (simp add: met_Cons del: no_close.simps)
    qed
    then show ?thesis using False 2 by (auto simp: check_forbidden simp del: no_close.simps(1))
  qed
qed auto

lemma inside_backslash: "inside q True (92 # d # ds) = inside q True ds"
  by simp

lemma inside_other: "\<not> (bs \<and> c = 92) \<Longrightarrow> c \<noteq> q \<Longrightarrow> inside q bs (c # u) = inside q bs u"
  by (cases u) auto

lemma quoted_body_Inl:
  assumes "\<not> (bs \<and> q = 92)" "\<not> forbidden q" "bom_char \<notin> set cs"
  shows "quoted_body q bs b cs = Inl r \<longleftrightarrow>
     r = TR_UNTERMINATED \<and> inside q bs cs \<and> list_all (\<lambda>c. \<not> forbidden c) cs
     \<or> r = TR_CONTROL_CHARACTER \<and> met (inside q bs) cs"
  using assms
proof (induction q bs b cs rule: quoted_body.induct)
  case (2 q bs b c cs)
  have c: "c \<noteq> bom_char" "bom_char \<notin> set cs" using 2 by auto
  consider (bad) "forbidden c" | (escape) "\<not> forbidden c" "bs" "c = 92"
    | (quote) "\<not> forbidden c" "\<not> (bs \<and> c = 92)" "c = q"
    | (plain) "\<not> forbidden c" "\<not> (bs \<and> c = 92)" "c \<noteq> q"
    by blast
  then show ?case
  proof cases
    case bad
    then show ?thesis using c by (auto simp: check_forbidden met_Cons)
  next
    case escape
    note e = this
    have q: "q \<noteq> 92" using 2 e by auto
    show ?thesis
    proof (cases cs)
      case Nil
      then show ?thesis using c e q by (simp add: check_forbidden met_Cons) blast
    next
      case (Cons d ds)
      then have d: "d \<noteq> bom_char" "bom_char \<notin> set ds" using c by auto
      show ?thesis
      proof (cases "forbidden d")
        case True
        then show ?thesis using c d e q Cons by (auto simp: check_forbidden met_Cons)
      next
        case False
        then show ?thesis
          using c d e Cons 2 by (auto simp: check_forbidden met_Cons)
      qed
    qed
  next
    case quote
    note e = this
    show ?thesis
    proof (cases cs)
      case Nil
      then show ?thesis using c e by (auto simp: check_forbidden met_Cons)
    next
      case (Cons d ds)
      then have d: "d \<noteq> bom_char" "bom_char \<notin> set ds" using c by auto
      show ?thesis
      proof (cases "d = q")
        case True
        then show ?thesis using c d e Cons 2 by (auto simp: check_forbidden met_Cons)
      next
        case False
        then show ?thesis using c d e Cons by (auto simp: check_forbidden met_Cons)
      qed
    qed
  next
    case plain
    then have "met (inside q bs) (c # cs) \<longleftrightarrow> met (inside q bs) cs"
      by (simp add: met_Cons inside_other)
    moreover have "inside q bs (c # cs) = inside q bs cs" using plain by (intro inside_other)
    ultimately show ?thesis using plain c 2 by (auto simp: check_forbidden)
  qed
qed auto

lemma word_rest_goes_on: "bom_char \<notin> set cs \<Longrightarrow> word_rest b cs \<noteq> Inl r"
  by (induction b cs rule: word_rest.induct) (auto simp: check_forbidden allowed_word)

subsection \<open>One turn\<close>

text \<open>What may precede a forbidden character.\<close>

definition unfinished :: "nat list \<Rightarrow> bool" where
  "unfinished u \<longleftrightarrow> u = [] \<or> needs_end u \<or> in_line_comment u"

lemma begins_iff:
  "begins_with_defect r s \<longleftrightarrow>
     r = TR_HINT_COMMENT \<and> hint_comment s
   \<or> r = TR_UNTERMINATED \<and> needs_end s \<and> \<not> hint_comment s \<and> list_all (\<lambda>c. \<not> forbidden c) s
   \<or> r = TR_CONTROL_CHARACTER \<and> \<not> hint_comment s \<and> met unfinished s
   \<or> r = TR_AMBIGUOUS_PUNCTUATION \<and> (\<exists>c rest. s = c # rest \<and> 128 \<le> c \<and> \<not> forbidden c)"
  unfolding begins_with_defect.simps met_def unfinished_def by blast

lemma unfinished_Cons:
  "unfinished (c # u) \<longleftrightarrow> (c = 47 \<and> (\<exists>v. u = 42 # v \<and> no_close v)) \<or> ((c = 39 \<or> c = 34) \<and> inside c True u)
     \<or> (c = 96 \<and> inside 96 False u)
     \<or> ((c = 35 \<or> c = 45 \<and> (\<exists>v. u = 45 # v)) \<and> list_all (\<lambda>c. \<not> line_end c) u)"
  by (auto simp: unfinished_def needs_end_def in_line_comment_def line_end_def)

lemma needs_end_Cons:
  "needs_end (c # u) \<longleftrightarrow> (c = 47 \<and> (\<exists>v. u = 42 # v \<and> no_close v)) \<or> ((c = 39 \<or> c = 34) \<and> inside c True u)
     \<or> (c = 96 \<and> inside 96 False u)"
  by (auto simp: needs_end_def)

lemma not_hint: "c \<noteq> 47 \<or> cs = [] \<or> hd cs \<noteq> 42 \<Longrightarrow> \<not> hint_comment (c # cs)"
  by (auto simp: hint_comment_def)

lemma of_kind_Inl: "of_kind k s = Inl r \<longleftrightarrow> s = Inl r"
  by (auto simp: of_kind_def split: sum.splits)

text \<open>Where no piece opens, nothing but the first character can be wrong.\<close>

lemma plain_turn:
  assumes "\<not> forbidden c" "c < 128" "c \<notin> {35, 39, 34, 96}" "\<not> (c = 45 \<and> cs \<noteq> [] \<and> hd cs = 45)"
    "\<not> (c = 47 \<and> cs \<noteq> [] \<and> hd cs = 42)"
  shows "\<not> begins_with_defect r (c # cs)"
proof -
  have "met (\<lambda>u. unfinished (c # u)) cs \<longleftrightarrow> met (\<lambda>u. False) cs"
    by (rule met_cong) (use assms(3-5) in \<open>auto simp: unfinished_Cons\<close>)
  then have "\<not> met unfinished (c # cs)" using assms(1) by (simp add: met_Cons)
  moreover have "\<not> needs_end (c # cs)" "\<not> hint_comment (c # cs)"
    using assms(3,5) by (auto simp: needs_end_Cons hint_comment_def)
  ultimately show ?thesis using assms(2) by (auto simp: begins_iff)
qed

lemma block_comment_start:
  "block_comment b (47 # 42 # cs) =
     (if cs \<noteq> [] \<and> (hd cs = 43 \<or> hd cs = 33) then Inl TR_HINT_COMMENT
      else block_body (b + char_bytes 47 + char_bytes 42) cs)"
  using safe_ascii(1,2) by (cases cs) (auto simp: block_comment_def safe_char_def)

lemma quoted_start:
  "q \<in> {39, 34, 96} \<Longrightarrow> quoted bs b (q # cs) = quoted_body q bs (b + char_bytes q) cs"
  using safe_ascii(3-5) by (auto simp: quoted_def safe_char_def simp del: quoted_body.simps)

lemma scan_turn_Inl:
  assumes "bom_char \<notin> set (c # cs)"
  shows "scan_turn b (c # cs) = Inl r \<longleftrightarrow> begins_with_defect r (c # cs)"
proof -
  have bom: "c \<noteq> bom_char" "bom_char \<notin> set cs" using assms by auto
  consider (bad) "forbidden c" | (hash) "c = 35" | (dashes) ds where "c = 45" "cs = 45 # ds"
    | (block) ds where "c = 47" "cs = 42 # ds" | (string) "c = 39 \<or> c = 34" | (name) "c = 96"
    | (wide) "128 \<le> c" "\<not> forbidden c"
    | (plain) "\<not> forbidden c" "c < 128" "c \<notin> {35, 39, 34, 96}" "\<not> (c = 45 \<and> cs \<noteq> [] \<and> hd cs = 45)"
        "\<not> (c = 47 \<and> cs \<noteq> [] \<and> hd cs = 42)"
    by (cases cs) fastforce+
  then show ?thesis
  proof cases
    case bad
    then have c: "\<not> ws_char c" "\<not> word_char c" "c \<notin> {35, 39, 34, 45, 47, 96}"
      using allowed_ws allowed_word by auto
    then have "scan_turn b (c # cs) = Inl TR_CONTROL_CHARACTER"
      using bad bom by (simp add: scan_turn_def of_kind_def check_forbidden)
    moreover have "begins_with_defect r (c # cs) \<longleftrightarrow> r = TR_CONTROL_CHARACTER"
      using bad c(3) by (auto simp: begins_iff met_Cons unfinished_def needs_end_Cons hint_comment_def)
    ultimately show ?thesis by auto
  next
    case hash
    have "scan_turn b (c # cs) = of_kind TK_COMMENT (line_comment b (c # cs))"
      using hash by (simp add: scan_turn_def ws_char_def del: line_comment.simps)
    moreover have "met (\<lambda>u. unfinished (c # u)) cs \<longleftrightarrow> met (\<lambda>u. list_all (\<lambda>c. \<not> line_end c) (c # u)) cs"
      by (rule met_cong) (use hash in \<open>auto simp: unfinished_Cons line_end_def\<close>)
    moreover have "\<not> needs_end (c # cs)" "\<not> hint_comment (c # cs)"
      using hash by (auto simp: needs_end_Cons hint_comment_def)
    ultimately show ?thesis
      using hash line_comment_Inl [OF assms, of b r]
      by (auto simp: of_kind_Inl begins_iff met_Cons simp del: line_comment.simps)
  next
    case dashes
    have "scan_turn b (c # cs) = of_kind TK_COMMENT (line_comment b (c # cs))"
      using dashes by (simp add: scan_turn_def ws_char_def del: line_comment.simps)
    moreover have "met (\<lambda>u. unfinished (c # u)) cs \<longleftrightarrow> met (\<lambda>u. list_all (\<lambda>c. \<not> line_end c) (c # u)) cs"
      unfolding dashes(2) met_Cons
      by (simp, rule met_cong) (use dashes(1) in \<open>auto simp: unfinished_Cons line_end_def\<close>)
    moreover have "\<not> needs_end (c # cs)" "\<not> hint_comment (c # cs)"
      using dashes by (auto simp: needs_end_Cons hint_comment_def)
    ultimately show ?thesis
      using dashes(1) line_comment_Inl [OF assms, of b r]
      by (auto simp: of_kind_Inl begins_iff met_Cons simp del: line_comment.simps)
  next
    case block
    have t: "scan_turn b (c # cs) = of_kind TK_COMMENT (block_comment b (47 # 42 # ds))"
      using block by (simp add: scan_turn_def ws_char_def)
    have h: "hint_comment (c # cs) \<longleftrightarrow> ds \<noteq> [] \<and> (hd ds = 43 \<or> hd ds = 33)"
      using block by (cases ds) (auto simp: hint_comment_def)
    have "met (\<lambda>u. unfinished (47 # 42 # u)) ds \<longleftrightarrow> met no_close ds"
      by (rule met_cong) (simp add: unfinished_Cons)
    moreover have "needs_end (c # cs) \<longleftrightarrow> no_close ds" using block by (simp add: needs_end_Cons)
    moreover have "bom_char \<notin> set ds" using bom block by simp
    ultimately show ?thesis
      unfolding t of_kind_Inl block_comment_start begins_iff h
      using block block_body_Inl [of ds "b + char_bytes 47 + char_bytes 42" r]
      by (auto simp: met_Cons simp del: block_body.simps)
  next
    case string
    have t: "scan_turn b (c # cs) = of_kind TK_STRING (quoted_body c True (b + char_bytes c) cs)"
      using string quoted_start [of c True b cs] by (auto simp: scan_turn_def ws_char_def simp del: quoted_body.simps)
    have "met (\<lambda>u. unfinished (c # u)) cs \<longleftrightarrow> met (inside c True) cs"
      by (rule met_cong) (use string in \<open>auto simp: unfinished_Cons\<close>)
    moreover have "needs_end (c # cs) \<longleftrightarrow> inside c True cs" "\<not> hint_comment (c # cs)"
      using string by (auto simp: needs_end_Cons hint_comment_def)
    moreover have "\<not> forbidden c" "\<not> (True \<and> c = 92)" "c < 128" using string by auto
    ultimately show ?thesis
      unfolding t of_kind_Inl begins_iff
      using bom quoted_body_Inl [of True c cs "b + char_bytes c" r]
      by (auto simp: met_Cons simp del: quoted_body.simps)
  next
    case name
    have t: "scan_turn b (c # cs) = of_kind TK_QUOTED_IDENTIFIER (quoted_body c False (b + char_bytes c) cs)"
      using name quoted_start [of c False b cs] by (auto simp: scan_turn_def ws_char_def simp del: quoted_body.simps)
    have "met (\<lambda>u. unfinished (c # u)) cs \<longleftrightarrow> met (inside c False) cs"
      by (rule met_cong) (use name in \<open>auto simp: unfinished_Cons\<close>)
    moreover have "needs_end (c # cs) \<longleftrightarrow> inside c False cs" "\<not> hint_comment (c # cs)"
      using name by (auto simp: needs_end_Cons hint_comment_def)
    moreover have "\<not> forbidden c" "c < 128" using name by auto
    ultimately show ?thesis
      unfolding t of_kind_Inl begins_iff
      using bom quoted_body_Inl [of False c cs "b + char_bytes c" r]
      by (auto simp: met_Cons simp del: quoted_body.simps)
  next
    case wide
    then have c: "\<not> ws_char c" "\<not> word_char c" "c \<notin> {35, 39, 34, 45, 47, 96}"
      by (auto simp: char_class_defs)
    then have "scan_turn b (c # cs) = Inl TR_AMBIGUOUS_PUNCTUATION"
      using wide bom by (simp add: scan_turn_def check_forbidden)
    moreover have "met (\<lambda>u. unfinished (c # u)) cs \<longleftrightarrow> met (\<lambda>u. False) cs"
      by (rule met_cong) (use c(3) in \<open>auto simp: unfinished_Cons\<close>)
    moreover have "\<not> needs_end (c # cs)" "\<not> hint_comment (c # cs)"
      using c(3) by (auto simp: needs_end_Cons hint_comment_def)
    ultimately show ?thesis using wide by (auto simp: begins_iff met_Cons)
  next
    case plain
    have "scan_turn b (c # cs) \<noteq> Inl r"
      using plain bom word_rest_goes_on [OF assms, of b r]
      by (auto simp: scan_turn_def Let_def of_kind_Inl check_forbidden simp del: word_rest.simps)
    then show ?thesis using plain_turn [OF plain] by blast
  qed
qed

subsection \<open>The whole text\<close>

lemma cut_to_suffix: "cut_to cs left \<Longrightarrow> set left \<subseteq> set cs"
  by (induction rule: cut_to.induct) auto

lemma defect_nonempty: "begins_with_defect r s \<Longrightarrow> s \<noteq> []"
  by (auto simp: begins_iff hint_comment_def needs_end_def)

lemma cut_to_fails:
  assumes "cut_to cs left" "begins_with_defect r left" "bom_char \<notin> set cs"
  shows "scan_run b cs = Inl r"
  using assms
proof (induction arbitrary: b rule: cut_to.induct)
  case (cut_none cs)
  then obtain c ds where cs: "cs = c # ds" using defect_nonempty by (cases cs) auto
  then have "scan_turn b (c # ds) = Inl r" using cut_none scan_turn_Inl by blast
  then show ?case by (simp add: cs)
next
  case (cut_piece k s rest left)
  have "scan_run (b + text_bytes s) rest = Inl r" using cut_piece by simp
  moreover obtain c ds where "s @ rest = c # ds" using piece_nonempty [OF cut_piece(1)] by (cases s) auto
  ultimately show ?case using scan_turn_complete [OF cut_piece(1), of b] by simp
qed

lemma fails_cut_to:
  assumes "scan_run b cs = Inl r" "bom_char \<notin> set cs"
  shows "\<exists>left. cut_to cs left \<and> begins_with_defect r left"
  using assms
proof (induction b cs rule: scan_run.induct)
  case (2 b c cs)
  show ?case
  proof (cases "scan_turn b (c # cs)")
    case (Inl q)
    then have "begins_with_defect r (c # cs)" using 2 scan_turn_Inl by simp
    then show ?thesis using cut_none by blast
  next
    case (Inr x)
    then obtain k b' rest where t: "scan_turn b (c # cs) = Inr (k, b', rest)" by (cases x) auto
    then have f: "scan_run b' rest = Inl r" using "2.prems"(1) by (auto split: sum.splits)
    obtain s where s: "c # cs = s @ rest" "piece k s rest" using scan_turn_sound [OF t] by blast
    have "bom_char \<notin> set rest" using "2.prems"(2) unfolding s(1) by simp
    then obtain left where "cut_to rest left" "begins_with_defect r left"
      using "2.IH" [OF t refl refl f] by blast
    then show ?thesis unfolding s(1) using cut_to.cut_piece [OF s(2)] by blast
  qed
qed simp

lemma scan_run_defect:
  "bom_char \<notin> set cs \<Longrightarrow> scan_run b cs = Inl r \<longleftrightarrow> (\<exists>left. cut_to cs left \<and> begins_with_defect r left)"
  using cut_to_fails fails_cut_to by blast

end
