(* ===== verification/Sql_Claims.thy ===== *)
theory Sql_Claims
  imports Statement_Grammar Sql_Defects
begin

text \<open>
  The properties of the SQL scanner of \<open>governance/sql_tokens.py\<close> and of the list of read-only
  statements of \<open>governance/readonly_statements.py\<close>.
\<close>

lemma ws_bytes: "list_all ws_char g \<Longrightarrow> list_all (\<lambda>c. ws_char (of_char c)) (of_bytes (encode_utf8 g))"
  by (induction g) (auto simp: of_bytes_def encode_ascii ws_char_def)

lemma ascii_token:
  assumes "map (\<lambda>t. (tk_kind t, token_text sc t)) ts = map (\<lambda>(k, s). (k, of_bytes (encode_utf8 s))) (token_pieces ps)"
    "lexes cs ps" "t \<in> set ts" "tk_kind t \<in> {TK_WORD, TK_SYMBOL}"
  shows "list_all (\<lambda>c. of_char c < (128::nat)) (token_text sc t)"
proof -
  have "(tk_kind t, token_text sc t) \<in> set (map (\<lambda>(k, s). (k, of_bytes (encode_utf8 s))) (token_pieces ps))"
    using assms(3) unfolding assms(1) [symmetric] by auto
  then obtain s where s: "(Some (tk_kind t), s) \<in> set ps" "token_text sc t = of_bytes (encode_utf8 s)"
    by (auto simp: token_pieces_mem)
  then have "list_all (\<lambda>c. c < 128) s"
    using lexes_mem [OF assms(2) s(1)] assms(4) ascii_piece by blast
  then show ?thesis
    using s(2) by (auto simp: encode_ascii_text of_bytes_def list_all_iff
        intro: le_less_trans [OF mod_less_eq_dividend])
qed

text \<open>
  C35. a text is accepted exactly when it is within the size limit, is UTF-8, is a sequence of pieces
  of the lexical grammar, and its tokens, comments aside, are one statement that is not empty and
  does not write a file; the scan then is these pieces as byte intervals.
\<close>

theorem accepted_text_is_lexed:
  "scan_sql raw = Inr sc \<longleftrightarrow> length raw \<le> SCAN_MAX_BYTES
     \<and> (\<exists>cs ps. decode_utf8 (bytes_of raw) = Some cs \<and> lexes cs ps
          \<and> verdict (token_pieces ps) = None \<and> sc = scan_of raw ps)"
proof
  assume acc: "scan_sql raw = Inr sc"
  then have len: "\<not> SCAN_MAX_BYTES < length raw"
    by (auto simp: scan_sql_def)
  obtain cs where cs: "decode_utf8 (bytes_of raw) = Some cs"
    using acc len by (auto simp: scan_sql_def split: option.splits)
  obtain ps where ps: "lexes cs ps"
    using scan_sql_unlexable [OF len cs] acc by auto
  show "length raw \<le> SCAN_MAX_BYTES \<and> (\<exists>cs ps. decode_utf8 (bytes_of raw) = Some cs \<and> lexes cs ps
      \<and> verdict (token_pieces ps) = None \<and> sc = scan_of raw ps)"
    using acc len cs ps scan_sql_lexes [OF len cs ps] by (auto split: option.splits)
next
  assume "length raw \<le> SCAN_MAX_BYTES \<and> (\<exists>cs ps. decode_utf8 (bytes_of raw) = Some cs \<and> lexes cs ps
      \<and> verdict (token_pieces ps) = None \<and> sc = scan_of raw ps)"
  then show "scan_sql raw = Inr sc"
    using scan_sql_lexes by force
qed

lemma scan_sql_lexed:
  assumes "scan_sql raw = Inr sc"
  obtains cs ps where "decode_utf8 (bytes_of raw) = Some cs" "lexes cs ps"
    "verdict (token_pieces ps) = None" "sc = scan_of raw ps"
proof -
  have len: "\<not> SCAN_MAX_BYTES < length raw"
    using assms by (auto simp: scan_sql_def)
  obtain cs where cs: "decode_utf8 (bytes_of raw) = Some cs"
    using assms len by (auto simp: scan_sql_def split: option.splits)
  obtain ps where ps: "lexes cs ps"
    using scan_sql_unlexable [OF len cs] assms by auto
  show ?thesis
    using that [OF cs ps] assms scan_sql_lexes [OF len cs ps] by (auto split: option.splits)
qed

text \<open>
  C36. the tokens of an accepted text are in order and apart, and their texts put together with white
  space between them give the bytes of the text back; a byte outside ASCII lies in a string, a
  quoted identifier or a comment.
\<close>

theorem tokens_reassemble:
  assumes "scan_sql raw = Inr sc"
  shows "ts_raw sc = raw
    \<and> sorted_wrt (\<lambda>t u. tk_end t \<le> tk_start u) (ts_tokens sc)
    \<and> (\<exists>blanks. length blanks = Suc (length (ts_tokens sc))
         \<and> (\<forall>b \<in> set blanks. list_all (\<lambda>c. ws_char (of_char c)) b)
         \<and> weave blanks (map (token_text sc) (ts_tokens sc)) = raw)
    \<and> (\<forall>t \<in> set (ts_tokens sc). tk_kind t \<in> {TK_WORD, TK_SYMBOL}
         \<longrightarrow> list_all (\<lambda>c. of_char c < (128::nat)) (token_text sc t))"
proof -
  obtain cs ps where lex: "decode_utf8 (bytes_of raw) = Some cs" "lexes cs ps" "sc = scan_of raw ps"
    using scan_sql_lexed [OF assms] .
  note toks = scan_of_tokens [OF lex(1,2), folded lex(3)]
  let ?texts = "map (\<lambda>s. of_bytes (encode_utf8 s)) (map snd (token_pieces ps))"
  have texts: "map (token_text sc) (ts_tokens sc) = ?texts"
    using arg_cong [OF toks, of "map snd"] by (simp add: comp_def case_prod_unfold)
  have "length (ts_tokens sc) = length (token_pieces ps)"
    using arg_cong [OF toks, of length] by simp
  moreover have "\<forall>b \<in> set (map (\<lambda>g. of_bytes (encode_utf8 g)) (gaps ps)). list_all (\<lambda>c. ws_char (of_char c)) b"
    using gaps_white [OF lex(2)] ws_bytes by auto
  moreover have "weave (map (\<lambda>g. of_bytes (encode_utf8 g)) (gaps ps)) ?texts = raw"
    using decoded_text [OF lex(1)] lexes_text [OF lex(2)] weave_pieces [of ps]
    by (simp add: of_bytes_weave [symmetric] encode_weave [symmetric] del: map_map)
  ultimately have "\<exists>blanks. length blanks = Suc (length (ts_tokens sc))
      \<and> (\<forall>b \<in> set blanks. list_all (\<lambda>c. ws_char (of_char c)) b)
      \<and> weave blanks (map (token_text sc) (ts_tokens sc)) = raw"
    unfolding texts by (intro exI [of _ "map (\<lambda>g. of_bytes (encode_utf8 g)) (gaps ps)"])
      (simp add: length_gaps)
  moreover have "list_all (\<lambda>c. of_char c < (128::nat)) (token_text sc t)"
    if "t \<in> set (ts_tokens sc)" "tk_kind t \<in> {TK_WORD, TK_SYMBOL}" for t
    using ascii_token [OF toks lex(2) that] .
  ultimately show ?thesis
    using spans_ordered [OF lex(2), of 0] by (simp add: lex(3) scan_of_def)
qed

text \<open>A text for the witnesses: \<open>EXPLAIN VERBOSE SELECT `x`; --\<close> and its pieces.\<close>

definition demo_sql :: string where
  "demo_sql = ''EXPLAIN VERBOSE SELECT `x`; --''"

definition demo_pieces :: "(token_kind option \<times> nat list) list" where
  "demo_pieces =
     [(Some TK_WORD, [69, 88, 80, 76, 65, 73, 78]), (None, [32]),
      (Some TK_WORD, [86, 69, 82, 66, 79, 83, 69]), (None, [32]),
      (Some TK_WORD, [83, 69, 76, 69, 67, 84]), (None, [32]),
      (Some TK_QUOTED_IDENTIFIER, [96, 120, 96]), (Some TK_SYMBOL, [59]), (None, [32]),
      (Some TK_COMMENT, [45, 45])]"

lemma demo_decoded: "decode_utf8 (bytes_of demo_sql) = Some (concat (map snd demo_pieces))"
  by (simp add: demo_sql_def demo_pieces_def bytes_of_def)

lemma lexes_intro: "piece k s (concat (map snd ps)) \<Longrightarrow> lexes (concat (map snd ps)) ps
    \<Longrightarrow> lexes (concat (map snd ((k, s) # ps))) ((k, s) # ps)"
  by (simp add: lexes_Cons)

lemma demo_word:
  "s \<noteq> [] \<Longrightarrow> list_all word_char s \<Longrightarrow> piece (Some TK_WORD) s (32 # rest)"
  by (rule piece.word) (simp_all add: word_char_def digit_char_def)

lemma demo_lexed: "lexes (concat (map snd demo_pieces)) demo_pieces"
  unfolding demo_pieces_def
proof (intro lexes_intro)
  show "piece (Some TK_QUOTED_IDENTIFIER) [96, 120, 96]
      (concat (map snd [(Some TK_SYMBOL, [59]), (None, [32]), (Some TK_COMMENT, [45, 45])]))"
    using piece.quoted_name [of "[120]"] by (simp add: printable_safe)
  show "piece (Some TK_SYMBOL) [59] (concat (map snd [(None, [32]), (Some TK_COMMENT, [45, 45])]))"
    by (rule piece.symbol) (simp_all add: printable_safe ws_char_def word_char_def digit_char_def)
  show "piece (Some TK_COMMENT) [45, 45] (concat (map snd []))"
    using piece.line [of "[45, 45]" "[]" "[]"] by (simp add: printable_safe line_end_def)
  show "lexes (concat (map snd [])) []"
    by (simp add: lexes_Nil)
qed (simp_all add: demo_word word_char_def digit_char_def piece.space ws_char_def)

lemma demo_scanned: "scan_sql demo_sql = Inr (scan_of demo_sql demo_pieces)"
proof -
  have "verdict (token_pieces demo_pieces) = None"
    by (simp add: demo_pieces_def verdict_def significant_pieces_def semicolon_piece_def
        str_upper_def bytes_of_def of_bytes_def encode_ascii upper_char_def)
  moreover have "\<not> SCAN_MAX_BYTES < length demo_sql"
    by (simp add: demo_sql_def SCAN_MAX_BYTES_def)
  ultimately show ?thesis
    using scan_sql_lexes demo_decoded demo_lexed by simp
qed

theorem tokens_reassemble_witness:
  "\<exists>blanks. weave blanks (map (token_text (scan_of demo_sql demo_pieces))
       (ts_tokens (scan_of demo_sql demo_pieces))) = demo_sql"
  using tokens_reassemble [OF demo_scanned] by blast

lemma scan_cases:
  obtains (long) "SCAN_MAX_BYTES < length raw" "scan_sql raw = Inl TR_TOO_LONG"
  | (bad) "\<not> SCAN_MAX_BYTES < length raw" "decode_utf8 (bytes_of raw) = None"
      "scan_sql raw = Inl TR_INVALID_UTF8"
  | (unlexable) cs r where "\<not> SCAN_MAX_BYTES < length raw" "decode_utf8 (bytes_of raw) = Some cs"
      "\<nexists>ps. lexes cs ps" "r \<in> lexical_reasons" "scan_sql raw = Inl r"
  | (lexed) cs ps where "\<not> SCAN_MAX_BYTES < length raw" "decode_utf8 (bytes_of raw) = Some cs"
      "lexes cs ps"
      "scan_sql raw = (case verdict (token_pieces ps) of None \<Rightarrow> Inr (scan_of raw ps) | Some r \<Rightarrow> Inl r)"
proof (cases "SCAN_MAX_BYTES < length raw")
  case True
  then show ?thesis
    by (intro long) (simp_all add: scan_sql_def)
next
  case False
  show ?thesis
  proof (cases "decode_utf8 (bytes_of raw)")
    case None
    then show ?thesis
      using False by (intro bad) (simp_all add: scan_sql_def)
  next
    case (Some cs)
    then show ?thesis
      using False unlexable scan_sql_unlexable lexed scan_sql_lexes by blast
  qed
qed

lemma reason_kinds:
  "TR_TOO_LONG \<notin> lexical_reasons" "TR_INVALID_UTF8 \<notin> lexical_reasons"
  "verdict qs = Some r \<Longrightarrow> r \<notin> insert TR_TOO_LONG (insert TR_INVALID_UTF8 lexical_reasons)"
  using verdict_reason [of qs r] by (auto simp: lexical_reasons_def)

lemma too_long_iff: "scan_sql raw = Inl TR_TOO_LONG \<longleftrightarrow> SCAN_MAX_BYTES < length raw"
  by (cases raw rule: scan_cases) (auto simp: reason_kinds dest: reason_kinds(3) split: option.splits)

lemma invalid_utf8_iff:
  "scan_sql raw = Inl TR_INVALID_UTF8
     \<longleftrightarrow> \<not> SCAN_MAX_BYTES < length raw \<and> decode_utf8 (bytes_of raw) = None"
  by (cases raw rule: scan_cases) (auto simp: reason_kinds dest: reason_kinds(3) split: option.splits)

lemma defect_reason: "lexical_defect r cs \<Longrightarrow> r \<in> lexical_reasons"
  by (auto simp: lexical_defect_def begins_iff lexical_reasons_def split: if_splits)

lemma lexical_iff:
  "r \<in> lexical_reasons \<and> scan_sql raw = Inl r \<longleftrightarrow> \<not> SCAN_MAX_BYTES < length raw
     \<and> (\<exists>cs. decode_utf8 (bytes_of raw) = Some cs \<and> lexical_defect r cs)"
proof (cases "SCAN_MAX_BYTES < length raw \<or> decode_utf8 (bytes_of raw) = None")
  case True
  then show ?thesis using reason_kinds(1,2) by (auto simp: scan_sql_def)
next
  case False
  then obtain cs where cs: "decode_utf8 (bytes_of raw) = Some cs" "\<not> SCAN_MAX_BYTES < length raw" by auto
  have "r \<in> lexical_reasons \<and> scan_sql raw = Inl r \<longleftrightarrow> lexical_defect r cs"
  proof (cases "bom_char \<in> set cs")
    case True
    then show ?thesis using cs by (auto simp: scan_sql_def lexical_defect_def lexical_reasons_def)
  next
    case bom: False
    show ?thesis
    proof (cases "scan_run 0 cs")
      case (Inl q)
      have found: "(\<exists>left. cut_to cs left \<and> begins_with_defect p left) \<longleftrightarrow> p = q" for p
        using scan_run_defect [OF bom, of 0 p] Inl by auto
      then have "q \<noteq> TR_BOM" using begins_iff by blast
      then have "lexical_defect r cs \<longleftrightarrow> r = q" using bom found [of r] by (simp add: lexical_defect_def)
      moreover have "scan_sql raw = Inl q" using cs bom Inl by (simp add: scan_sql_def)
      ultimately show ?thesis using scan_run_reason [OF Inl] by auto
    next
      case (Inr ts)
      then have "\<not> lexical_defect r cs"
        using bom scan_run_defect [OF bom, of 0] by (auto simp: lexical_defect_def)
      moreover have "r \<notin> lexical_reasons" if "scan_sql raw = Inl r"
        using that cs bom Inr by (auto simp: scan_sql_def Let_def lexical_reasons_def split: if_splits)
      ultimately show ?thesis by blast
    qed
  qed
  then show ?thesis using cs by simp
qed

lemma verdict_iff:
  "r \<notin> lexical_reasons \<and> r \<noteq> TR_TOO_LONG \<and> r \<noteq> TR_INVALID_UTF8 \<and> scan_sql raw = Inl r
     \<longleftrightarrow> \<not> SCAN_MAX_BYTES < length raw
       \<and> (\<exists>cs ps. decode_utf8 (bytes_of raw) = Some cs \<and> lexes cs ps
            \<and> verdict (token_pieces ps) = Some r)"
  (is "?l \<longleftrightarrow> ?r")
proof
  assume ?l
  then show ?r
    by (cases raw rule: scan_cases) (auto split: option.splits)
next
  assume ?r
  then obtain cs ps where "\<not> SCAN_MAX_BYTES < length raw" "decode_utf8 (bytes_of raw) = Some cs"
      "lexes cs ps" "verdict (token_pieces ps) = Some r"
    by blast
  then show ?l
    using scan_sql_lexes [of raw cs ps] reason_kinds(3) by simp
qed

text \<open>
  C37. each reason for a refusal is exactly one defect of the text: TOO_LONG its size; INVALID_UTF8 its
  encoding; BOM a byte order mark anywhere; HINT_COMMENT, UNTERMINATED, CONTROL_CHARACTER and
  AMBIGUOUS_PUNCTUATION what is wrong at the first place where no piece fits (a block comment that opens
  with a hint mark; a block comment, string or quoted name without its end; a forbidden character, at
  that place or inside an unfinished piece that begins there; a character outside ASCII that may not begin
  a piece); and each other reason the verdict on its tokens, which is a second statement, a write to a
  file, or no statement.
\<close>

theorem refusal_reasons_are_exact:
  "(scan_sql raw = Inl TR_TOO_LONG) = (SCAN_MAX_BYTES < length raw)
   \<and> (scan_sql raw = Inl TR_INVALID_UTF8) =
       (\<not> SCAN_MAX_BYTES < length raw \<and> \<not> utf8_ok (bytes_of raw))
   \<and> (q \<in> lexical_reasons \<and> scan_sql raw = Inl q) =
       (\<not> SCAN_MAX_BYTES < length raw
        \<and> (\<exists>cs. decode_utf8 (bytes_of raw) = Some cs \<and> lexical_defect q cs))
   \<and> (r \<notin> lexical_reasons \<and> r \<noteq> TR_TOO_LONG \<and> r \<noteq> TR_INVALID_UTF8 \<and> scan_sql raw = Inl r) =
       (\<not> SCAN_MAX_BYTES < length raw
        \<and> (\<exists>cs ps. decode_utf8 (bytes_of raw) = Some cs \<and> lexes cs ps
             \<and> verdict (token_pieces ps) = Some r))"
proof -
  have "decode_utf8 (bytes_of raw) = None \<longleftrightarrow> \<not> utf8_ok (bytes_of raw)"
    using decode_utf8_ok [of "bytes_of raw"] by blast
  then show ?thesis
    by (intro conjI too_long_iff lexical_iff verdict_iff) (simp add: invalid_utf8_iff)
qed

subsection \<open>Read-only statements\<close>

lemma only_element: "(case remdups xs of [m] \<Rightarrow> Some m | _ \<Rightarrow> None) = Some m \<longleftrightarrow> set xs = {m}"
proof
  assume "(case remdups xs of [m] \<Rightarrow> Some m | _ \<Rightarrow> None) = Some m"
  then have "remdups xs = [m]"
    by (auto split: list.splits)
  then show "set xs = {m}"
    by (metis list.set(1) list.simps(15) set_remdups)
next
  assume "set xs = {m}"
  then have "set (remdups xs) = {m}" "distinct (remdups xs)"
    by simp_all
  then have "remdups xs = [m]"
    by (metis distinct_card card_insert_if card.empty length_0_conv length_Suc_conv list.set_intros(1)
        finite.emptyI empty_iff singletonD One_nat_def)
  then show "(case remdups xs of [m] \<Rightarrow> Some m | _ \<Rightarrow> None) = Some m"
    by simp
qed

lemma nexts_bounded:
  "bounded_nexts (length (si_tokens src)) (\<lambda>cur. map fst (match_sequence es src cur caps))"
  unfolding bounded_nexts_def using match_derives(2) derives_bounds(2)
  by (metis (no_types, lifting) fst_conv imageE list.set_map surj_pair)

text \<open>
  C38. the loop of a repetition always ends, with nothing pending, whatever it repeats; it has then
  put out exactly the positions reachable by repetitions that make progress.
\<close>

theorem repetition_ends:
  "\<exists>seen out. many_loop (\<lambda>cur. map fst (match_sequence es src cur caps)) pos = Some ([], seen, out)
     \<and> set out = {q. derives src (Many es) pos caps q caps}"
proof -
  let ?nexts = "\<lambda>cur. map fst (match_sequence es src cur caps)"
  obtain pending seen out where loop: "many_loop ?nexts pos = Some (pending, seen, out)"
    using many_loop_ends [OF nexts_bounded] by (metis prod.collapse)
  have nexts: "q \<in> set (?nexts p) \<longleftrightarrow> (\<exists>d. derives_all src es p caps q d)" for p q
    using match_derives(2) by force
  have "derives src (Many es) pos caps q caps \<longleftrightarrow> (pos, q) \<in> (advances ?nexts)\<^sup>*" for q
    using many_derives [where nexts = ?nexts, OF nexts] by simp
  then show ?thesis
    using loop many_loop_result [OF loop] by auto
qed

text \<open>
  C39. a statement is matched exactly when all derivations of all registered statements that cover
  the whole text say the same of it, and then the match is what they say; an ambiguous text and a
  text without a derivation have no match.
\<close>

theorem match_is_the_only_reading:
  "match_statement sc = Some m \<longleftrightarrow>
     {to_match st c |st c. st \<in> set READONLY_STATEMENTS
        \<and> derives_all (stmt_input_of sc) (rs_pattern st) 0 [] (length (statement_tokens sc)) c} = {m}"
proof -
  have "set (statement_readings READONLY_STATEMENTS sc) =
      {to_match st c |st c. st \<in> set READONLY_STATEMENTS
         \<and> derives_all (stmt_input_of sc) (rs_pattern st) 0 [] (length (statement_tokens sc)) c}"
    unfolding match_derives(2) [symmetric]
    by (force simp: statement_readings_def Let_def stmt_input_of_def)
  moreover have "match_statement sc = Some m \<longleftrightarrow> set (statement_readings READONLY_STATEMENTS sc) = {m}"
    unfolding match_statement_def match_in_def by (rule only_element)
  ultimately show ?thesis
    by simp
qed

text \<open>What the module checks of its list when it is imported, and that it is well typed.\<close>

lemma registry_rules: "list_all check_target_rule READONLY_STATEMENTS"
  by code_simp

lemma registry_families: "distinct (map rs_family READONLY_STATEMENTS)"
  by code_simp

lemma registry_built: "list_all (\<lambda>st. sequence_built (rs_pattern st)) READONLY_STATEMENTS"
  by code_simp

lemma registry_typed: "list_all (\<lambda>st. typed_pattern (rs_pattern st)) READONLY_STATEMENTS"
  by code_simp

text \<open>The keywords a pattern may begin with, if it begins with keywords.\<close>

fun first_words :: "element list \<Rightarrow> string list option" where
  "first_words (Kw (w # ws) # es) = Some [w]"
| "first_words (OneOf [[Kw (v # vs)], [Kw (w # ws)]] # es) = Some [v, w]"
| "first_words es = None"

definition READ_KEYWORDS :: "string list" where
  "READ_KEYWORDS = [''SHOW'', ''ADMIN'', ''ANALYZE'', ''EXPLAIN'', ''DESC'', ''DESCRIBE'']"

lemma registry_keywords:
  "list_all (\<lambda>st. case first_words (rs_pattern st) of None \<Rightarrow> False
     | Some ws \<Rightarrow> list_all (\<lambda>w. w \<in> set READ_KEYWORDS) ws) READONLY_STATEMENTS"
  by code_simp

lemma kw_first: "kw_at src p (w # ws) \<Longrightarrow> input_word src p = Some w"
  by (simp add: kw_at_def enumerate_simps)

lemma first_words_read:
  assumes "first_words es = Some ws" "derives_all src es 0 [] n c"
  shows "\<exists>w \<in> set ws. input_word src 0 = Some w"
  using assms
  by (cases es rule: first_words.cases)
    (auto simp: derives_simps dest: kw_first)

lemma statement_tokens_sub:
  "set (statement_tokens sc) \<subseteq> set (ts_tokens sc)"
  by (auto simp: statement_tokens_def significant_tokens_def Let_def dest: in_set_butlastD)

lemma statement_tokens_ordered:
  assumes "sorted_wrt R (ts_tokens sc)"
  shows "sorted_wrt R (statement_tokens sc)"
proof -
  have "sorted_wrt R (significant_tokens sc)"
    using assms by (simp add: significant_tokens_def sorted_wrt_filter)
  then show ?thesis
    by (auto simp: statement_tokens_def Let_def butlast_conv_take intro: sorted_wrt_take)
qed

text \<open>The captured interval of an inner query lies within the text and is not empty.\<close>

lemma rest_span_within:
  assumes "decode_utf8 (bytes_of raw) = Some cs" "lexes cs ps"
    "i < length (statement_tokens (scan_of raw ps))"
    "rest_span (stmt_input_of (scan_of raw ps)) i = Span a b"
  shows "a < b \<and> b \<le> length raw"
proof -
  let ?ts = "statement_tokens (scan_of raw ps)"
  have ne: "?ts \<noteq> []"
    using assms(3) by auto
  have mem: "?ts ! i \<in> set (ts_tokens (scan_of raw ps))" "last ?ts \<in> set (ts_tokens (scan_of raw ps))"
    using statement_tokens_sub nth_mem [OF assms(3)] last_in_set [OF ne] by blast+
  have last: "last ?ts = ?ts ! (length ?ts - 1)"
    using ne by (simp add: last_conv_nth)
  have "sorted_wrt (\<lambda>t u. tk_end t \<le> tk_start u) ?ts"
    by (rule statement_tokens_ordered) (simp add: scan_of_def spans_ordered [OF assms(2)])
  then have "tk_end (?ts ! i) \<le> tk_start (last ?ts)" if "i < length ?ts - 1"
    unfolding last by (rule sorted_wrt_nth_less) (use that in auto)
  moreover have "i < length ?ts - 1 \<or> ?ts ! i = last ?ts"
    using assms(3) last by (cases "i = length ?ts - 1") auto
  ultimately have "tk_start (?ts ! i) < tk_end (last ?ts)"
    using scan_of_bounds(1) [OF assms(1,2) mem(1)] scan_of_bounds(1) [OF assms(1,2) mem(2)]
    by auto
  then show ?thesis
    using scan_of_bounds(2) [OF assms(1,2) mem(2)] assms(4)
    by (simp add: rest_span_def stmt_input_of_def)
qed

lemma inner_query_span:
  assumes "derives_all src es 0 [] n c" "typed_pattern es"
    "sm_inner_query (to_match st c) = Some (a, b)"
  shows "\<exists>i < length (si_tokens src). rest_span src i = Span a b"
  using assms(3) derivation_typed [OF assms(1,2), of "''inner_query''"]
  by (auto simp: to_match_def typed_capture_def split: option.splits stmt_capture.splits)

text \<open>
  C40. a match of a scanned text is of a registered statement, keeps what the target rule of the
  statement promises about relations and inner query, begins with one of the reading keywords, and
  the interval of an inner query is not empty and within the text.
\<close>

theorem match_keeps_its_target_rule:
  assumes "scan_sql raw = Inr sc" "match_statement sc = Some m"
  shows "\<exists>st \<in> set READONLY_STATEMENTS. sm_family m = rs_family st \<and> rule_kept (rs_target st) m
    \<and> (\<exists>w \<in> set READ_KEYWORDS. input_word (stmt_input_of sc) 0 = Some w)
    \<and> (case sm_inner_query m of None \<Rightarrow> True | Some (a, b) \<Rightarrow> a < b \<and> b \<le> length raw)"
proof -
  obtain cs ps where lex: "decode_utf8 (bytes_of raw) = Some cs" "lexes cs ps" "sc = scan_of raw ps"
    using scan_sql_lexed [OF assms(1)] .
  have "m \<in> set (statement_readings READONLY_STATEMENTS sc)"
    using assms(2) only_element unfolding match_statement_def match_in_def by fastforce
  then obtain st c where st: "st \<in> set READONLY_STATEMENTS" "m = to_match st c"
    and der: "derives_all (stmt_input_of sc) (rs_pattern st) 0 [] (length (statement_tokens sc)) c"
    by (auto simp: statement_readings_def Let_def match_derives stmt_input_of_def)
  have reg: "check_target_rule st" "typed_pattern (rs_pattern st)"
    "case first_words (rs_pattern st) of None \<Rightarrow> False | Some ws \<Rightarrow> list_all (\<lambda>w. w \<in> set READ_KEYWORDS) ws"
    using registry_rules registry_typed registry_keywords st(1) unfolding list_all_iff by auto
  have "\<exists>w \<in> set READ_KEYWORDS. input_word (stmt_input_of sc) 0 = Some w"
    using reg(3) first_words_read [OF _ der] by (fastforce simp: list_all_iff split: option.splits)
  moreover have "case sm_inner_query m of None \<Rightarrow> True | Some (a, b) \<Rightarrow> a < b \<and> b \<le> length raw"
    using inner_query_span [OF der reg(2), of st] rest_span_within [OF lex(1,2)] lex(3) st(2)
    by (fastforce simp: stmt_input_of_def split: option.splits)
  moreover have "sm_family m = rs_family st"
    by (simp add: st(2) to_match_def)
  ultimately show ?thesis
    using st target_rule_kept [OF reg(1,2) der] by blast
qed

lemma demo_tokens:
  "statement_tokens (scan_of demo_sql demo_pieces) =
     [\<lparr>tk_kind = TK_WORD, tk_start = 0, tk_end = 7\<rparr>, \<lparr>tk_kind = TK_WORD, tk_start = 8, tk_end = 15\<rparr>,
      \<lparr>tk_kind = TK_WORD, tk_start = 16, tk_end = 22\<rparr>,
      \<lparr>tk_kind = TK_QUOTED_IDENTIFIER, tk_start = 23, tk_end = 26\<rparr>]"
  by (simp add: statement_tokens_def significant_tokens_def scan_of_def demo_pieces_def demo_sql_def
      is_semicolon_def char_bytes_def encode_ascii)

lemma token_text_scan_of: "token_text (scan_of raw ps) t = drop (tk_start t) (take (tk_end t) raw)"
  by (simp add: token_text_def scan_of_def)

lemmas demo_reading = token_text_scan_of input_word_def input_symbol_def token_at_def stmt_input_of_def
  demo_tokens demo_sql_def str_upper_def bytes_of_def encode_ascii
  upper_char_def

lemma demo_bytes:
  "of_bytes [69, 88, 80, 76, 65, 73, 78] = ''EXPLAIN''"
  "of_bytes [86, 69, 82, 66, 79, 83, 69] = ''VERBOSE''"
  by code_simp+

lemma demo_words:
  "input_word (stmt_input_of (scan_of demo_sql demo_pieces)) 0 = Some ''EXPLAIN''"
  "input_word (stmt_input_of (scan_of demo_sql demo_pieces)) (Suc 0) = Some ''VERBOSE''"
  unfolding input_word_def token_at_def stmt_input_of_def stmt_input.select_convs demo_tokens
  by (simp_all add: demo_reading demo_bytes)

lemma demo_input:
  "si_tokens (stmt_input_of (scan_of demo_sql demo_pieces)) = statement_tokens (scan_of demo_sql demo_pieces)"
  by (simp add: stmt_input_of_def)

lemma demo_readings:
  "statement_readings READONLY_STATEMENTS (scan_of demo_sql demo_pieces) =
     [\<lparr>sm_family = ''explain.modifier'', sm_relations = [], sm_inner_query = Some (16, 26)\<rparr>]"
  by (simp add: statement_readings_def READONLY_STATEMENTS_def stmt_def show_kw_def kw_at_def
      enumerate_simps demo_words demo_input demo_tokens to_match_def get_capture_def rest_span_def Let_def)

theorem match_keeps_its_target_rule_witness:
  "\<exists>st \<in> set READONLY_STATEMENTS. ''explain.modifier'' = rs_family st
     \<and> rule_kept (rs_target st)
         \<lparr>sm_family = ''explain.modifier'', sm_relations = [], sm_inner_query = Some (16, 26)\<rparr>"
proof -
  have "match_statement (scan_of demo_sql demo_pieces) =
      Some \<lparr>sm_family = ''explain.modifier'', sm_relations = [], sm_inner_query = Some (16, 26)\<rparr>"
    by (simp add: match_statement_def match_in_def demo_readings)
  from match_keeps_its_target_rule [OF demo_scanned this] show ?thesis
    by auto
qed

end
