(* ===== verification/Effects.thy ===== *)
theory Effects
  imports Prelude
begin

text \<open>
  Operations that read and change a state and may raise: functions from the state to the state and
  a result, an exception being an \<open>Inl\<close> beside the state it leaves. The combinators are sequencing,
  raising, catching and lifting of pure results.
\<close>

type_synonym ('s, 'e, 'b) operation = "'s \<Rightarrow> 's \<times> ('e + 'b)"

definition ret :: "'b \<Rightarrow> ('s, 'e, 'b) operation" where
  "ret b w = (w, Inr b)"

definition raise :: "'e \<Rightarrow> ('s, 'e, 'b) operation" where
  "raise e w = (w, Inl e)"

definition andthen ::
  "('s, 'e, 'b) operation \<Rightarrow> ('b \<Rightarrow> ('s, 'e, 'c) operation) \<Rightarrow> ('s, 'e, 'c) operation" where
  "andthen m f w = (case m w of (w', Inl e) \<Rightarrow> (w', Inl e) | (w', Inr b) \<Rightarrow> f b w')"

text \<open>The result of an operation, raised or returned, for \<open>try\<close>.\<close>

definition attempt :: "('s, 'e, 'b) operation \<Rightarrow> ('s, 'e, 'e + 'b) operation" where
  "attempt m w = (case m w of (w', r) \<Rightarrow> (w', Inr r))"

definition lift :: "('d \<Rightarrow> 'e) \<Rightarrow> 'd + 'b \<Rightarrow> ('s, 'e, 'b) operation" where
  "lift f r w = (case r of Inl e \<Rightarrow> (w, Inl (f e)) | Inr b \<Rightarrow> (w, Inr b))"

definition reads :: "('s \<Rightarrow> 'b) \<Rightarrow> ('s, 'e, 'b) operation" where
  "reads f w = (w, Inr (f w))"

definition writes :: "('s \<Rightarrow> 's) \<Rightarrow> ('s, 'e, unit) operation" where
  "writes f w = (f w, Inr ())"

definition require :: "bool \<Rightarrow> 'e \<Rightarrow> ('s, 'e, unit) operation" where
  "require b e w = (w, if b then Inr () else Inl e)"

lemma andthen_Inr: "m w = (w1, Inr b) \<Longrightarrow> andthen m f w = f b w1"
  by (simp add: andthen_def)

lemma andthen_cases:
  assumes "andthen m f w = (w', r)"
  obtains (raised) e where "m w = (w', Inl e)" "r = Inl e"
  | (went) w1 b where "m w = (w1, Inr b)" "f b w1 = (w', r)"
proof -
  obtain w1 x where m: "m w = (w1, x)" by fastforce
  show thesis
  proof (cases x)
    case (Inl e)
    then show thesis using assms m raised by (simp add: andthen_def)
  next
    case (Inr b)
    then show thesis using assms m went by (simp add: andthen_def)
  qed
qed

lemma andthen_ok: "andthen m f w = (w', Inr c) \<longleftrightarrow> (\<exists>w1 b. m w = (w1, Inr b) \<and> f b w1 = (w', Inr c))"
  by (auto elim: andthen_cases simp: andthen_Inr)

text \<open>Sequences associate, so a prefix can be taken as one operation.\<close>

lemma andthen_assoc: "andthen (andthen m f) g = andthen m (\<lambda>b. andthen (f b) g)"
  by (rule ext) (simp add: andthen_def split: prod.split sum.split)

lemma fst_lift [simp]: "fst (lift f r w) = w"
  by (simp add: lift_def split: sum.splits)

lemma lift_ok: "lift f r w = (w', Inr b) \<longleftrightarrow> w' = w \<and> r = Inr b"
  by (auto simp: lift_def split: sum.splits)

lemma require_ok: "require b e w = (w', Inr u) \<longleftrightarrow> b \<and> w' = w"
  by (auto simp: require_def)

lemma reads_ok: "reads f w = (w', Inr b) \<longleftrightarrow> w' = w \<and> b = f w"
  by (auto simp: reads_def)

lemma writes_ok: "writes f w = (w', Inr u) \<longleftrightarrow> w' = f w"
  by (auto simp: writes_def)

lemma ret_ok: "ret b w = (w', Inr c) \<longleftrightarrow> w' = w \<and> c = b"
  by (auto simp: ret_def)

lemma raise_ok [simp]: "raise e w \<noteq> (w', Inr c)"
  by (simp add: raise_def)

text \<open>The body of a \<open>for\<close> loop, once for each element, until one raises.\<close>

fun for_each :: "('x \<Rightarrow> ('s, 'e, unit) operation) \<Rightarrow> 'x list \<Rightarrow> ('s, 'e, unit) operation" where
  "for_each f [] = ret ()"
| "for_each f (x # xs) = andthen (f x) (\<lambda>_. for_each f xs)"

text \<open>An operation keeps a relation between the states before and after it, whether it raises or not.\<close>

definition keeps :: "('s \<Rightarrow> bool) \<Rightarrow> ('s, 'e, 'b) operation \<Rightarrow> bool" where
  "keeps I m \<longleftrightarrow> (\<forall>w. I w \<longrightarrow> I (fst (m w)))"

named_theorems keeps_intros \<open>what keeps an invariant\<close>

lemma keeps_run: "keeps I m \<Longrightarrow> m w = (w', r) \<Longrightarrow> I w \<Longrightarrow> I w'"
  by (metis fst_conv keeps_def)

lemma keeps_ret [keeps_intros]: "keeps I (ret b)"
  by (simp add: keeps_def ret_def)

lemma keeps_raise [keeps_intros]: "keeps I (raise e)"
  by (simp add: keeps_def raise_def)

lemma keeps_reads [keeps_intros]: "keeps I (reads f)"
  by (simp add: keeps_def reads_def)

lemma keeps_require [keeps_intros]: "keeps I (require b e)"
  by (simp add: keeps_def require_def)

lemma keeps_lift [keeps_intros]: "keeps I (lift g r)"
  by (simp add: keeps_def)

lemma keeps_andthen [keeps_intros]:
  assumes "keeps I m" "\<And>b. keeps I (f b)"
  shows "keeps I (andthen m f)"
  unfolding keeps_def
proof (intro allI impI)
  fix w assume w: "I w"
  obtain w' r where "andthen m f w = (w', r)" by fastforce
  then have "I w'"
    using w assms by (elim andthen_cases) (metis keeps_run)+
  then show "I (fst (andthen m f w))" using \<open>andthen m f w = (w', r)\<close> by simp
qed

lemma keeps_writes: "(\<And>w. I w \<Longrightarrow> I (g w)) \<Longrightarrow> keeps I (writes g)"
  by (simp add: keeps_def writes_def)

lemma keeps_for_each: "(\<And>x. x \<in> set xs \<Longrightarrow> keeps I (f x)) \<Longrightarrow> keeps I (for_each f xs)"
  by (induction xs) (auto intro: keeps_intros)

lemmas op_ok_simps = andthen_ok lift_ok require_ok reads_ok writes_ok ret_ok

end
