(* ===== verification/Step_Runner.thy ===== *)
theory Step_Runner
  imports Effects Runner_Admission Task_Runs
begin

text \<open>
  The step runner of \<open>runners/deterministic.py\<close> over the task store, with the durable trace sink of
  \<open>observability/durable_sink.py\<close>. The runner is asynchronous: at each \<open>await\<close> on a store other
  workers may run. A world is what the runner shares with them and what it has shown so far; an
  environment says, for the n-th tick, what the others do to the store before the runner's
  operation takes its turn, and gives the readings of the clock, the fresh event ids and the
  outcomes of the adapters. A coroutine is a function from the world to the world and its result;
  an exception is an \<open>Inl\<close>, beside the world it leaves.
\<close>

subsection \<open>Worlds and coroutines\<close>

datatype delivery =
    LOG_ONLY | LOG_AND_DURABLE | COMMAND_COMMITTED | COMMAND_ROLLED_BACK | COMMAND_NOT_CONFIRMED

text \<open>What the runner does that others can see: log records and executions of adapters.\<close>

datatype 'a effect =
    Logged trace_event delivery
  | Executed 'a tool_call admission_certificate

record 'a world =
  wd_tick :: nat
  wd_store :: store_state
  wd_effects :: "'a effect list"

record 'a environment =
  en_moves :: "nat \<Rightarrow> store_state \<Rightarrow> store_state"
  en_clock :: "nat \<Rightarrow> instant"
  en_uuid :: "nat \<Rightarrow> string"
  en_execute :: "nat \<Rightarrow> 'a \<Rightarrow> tool_call \<Rightarrow> request_context \<Rightarrow> adapter_outcome"

datatype lifecycle_cause =
    TransitionRejected "transition_rejection option"
  | NotResumable
  | AttemptRejected step_attempt_decision
  | CommittedWithoutRow
  | CommitLostOwnership "step_commit_rejection option"

datatype drift_cause =
    DecisionWithoutApproval | ApprovalRefMismatch | PlanHashDrift | TargetFingerprintDrift
  | PolicyRevisionDrift

datatype runner_error =
    LeaseLostError
  | LifecycleError lifecycle_cause
  | DriftError drift_cause
  | StepJournalInvariantError
  | WorkflowPaused string string string
  | AdmissionRefused admission_error
  | GatewayRaised gateway_error
  | StoreRaised store_error
  | PlanStoreRaised plan_error
  | CanonicalRaised canon_error
  | ContractInvalid
  | DisclosureRaised
  | EvidenceRaised

type_synonym ('a, 'b) coroutine = "('a world, runner_error, 'b) operation"

text \<open>A model constructor: the value, or the validation error.\<close>

definition build :: "('b \<Rightarrow> bool) \<Rightarrow> 'b \<Rightarrow> ('a, 'b) coroutine" where
  "build ok b = lift (\<lambda>_. ContractInvalid) (revalidate ok b)"

text \<open>An awaited operation of a store; it may read the clock twice.\<close>

definition await ::
  "'a environment \<Rightarrow> ('e \<Rightarrow> runner_error)
     \<Rightarrow> (store_state \<Rightarrow> instant \<Rightarrow> instant \<Rightarrow> store_state \<times> ('e + 'b)) \<Rightarrow> ('a, 'b) coroutine" where
  "await N f op w = (let n = wd_tick w in
     case op (en_moves N n (wd_store w)) (en_clock N n) (en_clock N (Suc n)) of
       (s, r) \<Rightarrow> lift f r (w\<lparr>wd_tick := Suc (Suc n), wd_store := s\<rparr>))"

text \<open>An awaited read, which changes nothing itself.\<close>

definition await_read :: "'a environment \<Rightarrow> (store_state \<Rightarrow> 'b) \<Rightarrow> ('a, 'b) coroutine" where
  "await_read N f = await N (\<lambda>e. e) (\<lambda>s now now'. (s, Inr (f s)))"

definition read_clock :: "'a environment \<Rightarrow> ('a, instant) coroutine" where
  "read_clock N w = (w\<lparr>wd_tick := Suc (wd_tick w)\<rparr>, Inr (en_clock N (wd_tick w)))"

definition fresh_uuid :: "'a environment \<Rightarrow> ('a, string) coroutine" where
  "fresh_uuid N w = (w\<lparr>wd_tick := Suc (wd_tick w)\<rparr>, Inr (en_uuid N (wd_tick w)))"

definition show_effect :: "'a effect \<Rightarrow> ('a, unit) coroutine" where
  "show_effect x w = (w\<lparr>wd_effects := wd_effects w @ [x]\<rparr>, Inr ())"

subsection \<open>Trace events\<close>

text \<open>
  \<open>DurableTraceSink.emit\<close>. Errors of the in-memory store carry no write outcome, so
  \<open>delivery_for_write_exception\<close> is \<open>COMMAND_NOT_CONFIRMED\<close> for all of them.
\<close>

definition emit :: "'a environment \<Rightarrow> trace_event \<Rightarrow> delivery \<Rightarrow> ('a, unit) coroutine" where
  "emit N event delivery =
     (if delivery \<noteq> LOG_ONLY \<and> te_task_id event = None then raise ContractInvalid
      else if delivery \<noteq> LOG_AND_DURABLE then show_effect (Logged event delivery)
      else andthen (attempt (await N StoreRaised (\<lambda>s now now'. record_audit_event s event)))
        (\<lambda>r. case r of
           Inl e \<Rightarrow> andthen (show_effect (Logged event COMMAND_NOT_CONFIRMED)) (\<lambda>_. raise e)
         | Inr _ \<Rightarrow> show_effect (Logged event COMMAND_COMMITTED)))"

fun emit_all :: "'a environment \<Rightarrow> trace_event list \<Rightarrow> delivery \<Rightarrow> ('a, unit) coroutine" where
  "emit_all N [] delivery = ret ()"
| "emit_all N (e # es) delivery = andthen (emit N e delivery) (\<lambda>_. emit_all N es delivery)"

definition make_event ::
  "'a environment \<Rightarrow> pipeline_stage \<Rightarrow> stage_outcome \<Rightarrow> request_context \<Rightarrow> string \<Rightarrow> execution_plan
     \<Rightarrow> string option \<Rightarrow> int \<Rightarrow> agent_error option \<Rightarrow> ('a, trace_event) coroutine" where
  "make_event N stage outcome ctx task_id plan step_id attempt_number error =
     andthen (fresh_uuid N) (\<lambda>event_id. andthen (read_clock N) (\<lambda>now.
       build trace_event_ok
         \<lparr>te_event_id = event_id, te_trace_id = rc_trace_id ctx, te_task_id = Some task_id,
          te_stage = stage, te_outcome = outcome, te_occurred_at = now,
          te_capability_id = Some (ep_capability_id plan), te_step_id = step_id,
          te_policy_revision = Some (rc_policy_revision ctx),
          te_attempt_number = Some attempt_number, te_error = error, te_detail = [],
          te_model = None\<rparr>))"

definition emit_stage ::
  "'a environment \<Rightarrow> pipeline_stage \<Rightarrow> stage_outcome \<Rightarrow> request_context \<Rightarrow> string \<Rightarrow> execution_plan
     \<Rightarrow> string option \<Rightarrow> int \<Rightarrow> ('a, unit) coroutine" where
  "emit_stage N stage outcome ctx task_id plan step_id attempt_number =
     andthen (make_event N stage outcome ctx task_id plan step_id attempt_number None)
       (\<lambda>event. emit N event LOG_AND_DURABLE)"

subsection \<open>The runner\<close>

text \<open>
  What the runner is constructed with. The disclosure and the evidence builders of the capability
  bindings are arguments: whether a disclosure can be projected, and the envelope a builder makes
  of a result, \<open>EvidenceBuildError\<close>, or another exception.
\<close>

datatype build_outcome = Built evidence_envelope | EvidenceBuildError | BuilderRaised

record 'a runner =
  rn_py :: py_env
  rn_guards :: query_guards
  rn_gate :: approval_gate
  rn_execution_for :: "execution_plan \<Rightarrow> execution_binding"
  rn_disclosable :: "execution_plan \<Rightarrow> resolved_target \<Rightarrow> confirmed_slot list \<Rightarrow> bool"
  rn_build_evidence ::
    "string \<Rightarrow> plan_step \<Rightarrow> execution_plan \<Rightarrow> resolved_target \<Rightarrow> tool_result \<Rightarrow> instant \<Rightarrow> build_outcome"
  rn_snapshot :: capability_snapshot
  rn_policies :: policy_snapshot
  rn_gateway :: "'a gateway"
  rn_lease_ttl :: int

definition BUDGET_EXHAUSTED_REASON :: string where
  "BUDGET_EXHAUSTED_REASON = ''budget.tool_calls_exhausted''"

definition RECOVERY_DRIFT_REASON :: string where
  "RECOVERY_DRIFT_REASON = ''recovery_drift''"

definition APPROVAL_TTL_SECONDS :: int where
  "APPROVAL_TTL_SECONDS = 3600"

fun step_status_of :: "tool_call_status \<Rightarrow> step_result_status" where
  "step_status_of TCS_OK = STEP_OK"
| "step_status_of TCS_ERROR = STEP_FAILED"
| "step_status_of TCS_TIMEOUT = STEP_TIMEOUT"
| "step_status_of TCS_INDETERMINATE = STEP_FAILED"

subsection \<open>Life cycle\<close>

definition advance_task ::
  "'a environment \<Rightarrow> task_record \<Rightarrow> task_status \<Rightarrow> task_attempt_grant \<Rightarrow> request_context \<Rightarrow> execution_plan
     \<Rightarrow> ('a, task_record) coroutine" where
  "advance_task N record status grant ctx plan =
     andthen (make_event N STG_LIFECYCLE OUT_OK ctx (tg_task_id grant) plan None
         (tg_attempt_number grant) None) (\<lambda>event.
     andthen (attempt (andthen
         (build transition_command_ok \<lparr>tc_task_id = tg_task_id grant,
            tc_expected_version = tr_version record, tc_to_status = status,
            tc_fencing_token = Some (tg_fencing_token grant), tc_terminal_reason = None,
            tc_audit_events = [event]\<rparr>)
         (\<lambda>command. await N StoreRaised (\<lambda>s now now'. transition s command now)))) (\<lambda>r.
     case r of
       Inl e \<Rightarrow> andthen (emit N event COMMAND_NOT_CONFIRMED) (\<lambda>_. raise e)
     | Inr result \<Rightarrow>
         andthen (emit N event (if trr_applied result then COMMAND_COMMITTED else COMMAND_ROLLED_BACK)) (\<lambda>_.
           if trr_applied result then ret (trr_winner result)
           else raise (LifecycleError (TransitionRejected (trr_rejection result))))))"

definition require_current_grant ::
  "'a runner \<Rightarrow> 'a environment \<Rightarrow> task_attempt_grant \<Rightarrow> ('a, unit) coroutine" where
  "require_current_grant R N grant =
     andthen (await N StoreRaised (\<lambda>s now now'. renew_lease s (tg_task_id grant)
         (lg_owner (tg_lease grant)) (tg_fencing_token grant) (rn_lease_ttl R) now now'))
       (\<lambda>renewed. case renewed of None \<Rightarrow> raise LeaseLostError | Some _ \<Rightarrow> ret ())"

definition lookup_task :: "'a environment \<Rightarrow> string \<Rightarrow> request_context \<Rightarrow> ('a, task_record) coroutine" where
  "lookup_task N task_id ctx = await N StoreRaised (\<lambda>s now now'. (s, get_task s
     \<lparr>tl_task_id = task_id, tl_tenant_id = rc_tenant_id ctx, tl_environment_id = rc_environment_id ctx\<rparr>))"

definition make_outcome ::
  "'a environment \<Rightarrow> string \<Rightarrow> task_status \<Rightarrow> string option \<Rightarrow> ('a, task_outcome) coroutine" where
  "make_outcome N task_id status reason =
     andthen (await_read N (\<lambda>s. load_evidence s task_id)) (\<lambda>ledger.
       build task_outcome_ok \<lparr>to_task_id = task_id, to_status = status, to_terminal_reason = reason,
         to_evidence_refs = map ee_evidence_id ledger, to_render_ref = None\<rparr>)"

definition pause ::
  "'a runner \<Rightarrow> 'a environment \<Rightarrow> task_attempt_grant \<Rightarrow> execution_plan \<Rightarrow> resolved_target
     \<Rightarrow> request_context \<Rightarrow> string \<Rightarrow> ('a, 'b) coroutine" where
  "pause R N grant plan target ctx step_id =
     andthen (read_clock N) (\<lambda>now.
     andthen (lift CanonicalRaised (compute_plan_hash (rn_py R) plan)) (\<lambda>plan_hash.
     andthen (lift CanonicalRaised (compute_target_fingerprint (rn_py R) target)) (\<lambda>fingerprint.
     andthen (build approval_request_ok
         \<lparr>ar_task_id = tg_task_id grant, ar_step_id = step_id, ar_plan_hash = plan_hash,
          ar_target_fingerprint = fingerprint, ar_policy_revision = ep_policy_revision plan,
          ar_subject = lg_owner (tg_lease grant), ar_expires_at = now + seconds APPROVAL_TTL_SECONDS,
          ar_state = AP_PENDING\<rparr>) (\<lambda>request.
     andthen (await N StoreRaised (\<lambda>s now now'. record_approval s request)) (\<lambda>_.
     andthen (lookup_task N (tg_task_id grant) ctx) (\<lambda>current.
     andthen (advance_task N current AWAITING_APPROVAL grant ctx plan) (\<lambda>_.
     raise (WorkflowPaused (tg_task_id grant) step_id (approval_ref (tg_task_id grant) step_id)))))))))"

subsection \<open>Conditions\<close>

type_synonym step_results = "(string, step_result_status) dict"

definition evidence_of_step :: "string \<Rightarrow> evidence_envelope \<Rightarrow> bool" where
  "evidence_of_step step_id envelope \<longleftrightarrow> ends_with ('':'' @ step_id) (ee_evidence_id envelope)"

definition rows_recorded_for :: "store_state \<Rightarrow> string \<Rightarrow> string \<Rightarrow> int" where
  "rows_recorded_for s task_id step_id =
     (case find (evidence_of_step step_id) (load_evidence s task_id) of
        None \<Rightarrow> 0 | Some envelope \<Rightarrow> int (length (ee_facts envelope)))"

definition condition_holds ::
  "'a environment \<Rightarrow> string \<Rightarrow> step_condition \<Rightarrow> step_results \<Rightarrow> ('a, bool) coroutine" where
  "condition_holds N task_id condition results =
     (case cond_kind condition of
        ALWAYS \<Rightarrow> ret True
      | EVIDENCE_ROW_COUNT_BELOW \<Rightarrow>
          (case (cond_threshold condition, cond_ref_step_id condition) of
             (Some threshold, Some ref) \<Rightarrow>
               if dget results ref \<noteq> Some STEP_OK then ret False
               else andthen (await_read N (\<lambda>s. rows_recorded_for s task_id ref))
                 (\<lambda>rows. ret (rows < threshold))
           | _ \<Rightarrow> ret False)
      | PRIOR_STEP_RESULT_IS \<Rightarrow>
          (case (cond_ref_step_id condition, cond_expected_result condition) of
             (Some ref, Some expected) \<Rightarrow> ret (dget results ref = Some expected)
           | _ \<Rightarrow> ret False)
      | EVIDENCE_FIELD_ABSENT \<Rightarrow> ret False)"

subsection \<open>One step\<close>

text \<open>The mutable state of the loop: the results known so far, and whether one of them failed.\<close>

type_synonym loop_state = "step_results \<times> bool"

datatype loop_result = Proceed loop_state | Finished task_outcome

definition failed_status :: "step_result_status \<Rightarrow> bool" where
  "failed_status st \<longleftrightarrow> st \<in> {STEP_FAILED, STEP_TIMEOUT}"

definition adopt_step_record ::
  "step_execution_record \<Rightarrow> loop_state \<Rightarrow> ('a, loop_state) coroutine" where
  "adopt_step_record record st = (case st of (results, degraded) \<Rightarrow>
     (case se_result_status record of
        None \<Rightarrow> raise StepJournalInvariantError
      | Some status \<Rightarrow> ret (dset (se_step_id record) status results, failed_status status \<or> degraded)))"

definition require_committed_step :: "step_commit_result \<Rightarrow> ('a, step_execution_record) coroutine" where
  "require_committed_step result =
     (case (scr_committed result, scr_record result) of
        (True, Some record) \<Rightarrow> ret record
      | _ \<Rightarrow>
          if scr_rejection result \<in> {Some SC_STALE_FENCING, Some SC_NOT_RUNNABLE}
          then raise (LifecycleError (CommitLostOwnership (scr_rejection result)))
          else raise StepJournalInvariantError)"

definition commit_step ::
  "'a runner \<Rightarrow> 'a environment \<Rightarrow> step_commit_command \<Rightarrow> ('a, step_execution_record) coroutine" where
  "commit_step R N command =
     andthen (build step_commit_command_ok command) (\<lambda>command.
     andthen (attempt (await N StoreRaised (\<lambda>s now now'. commit_step_result (rn_py R) s command now now')))
       (\<lambda>r. case r of
          Inl e \<Rightarrow> andthen (emit_all N (sc_audit_events command) COMMAND_NOT_CONFIRMED) (\<lambda>_. raise e)
        | Inr result \<Rightarrow>
            andthen (emit_all N (sc_audit_events command)
                (if scr_committed result then COMMAND_COMMITTED else COMMAND_ROLLED_BACK))
              (\<lambda>_. require_committed_step result)))"

text \<open>A call of the gateway; the adapter it reaches, if any, is executed.\<close>

definition call_gateway ::
  "'a runner \<Rightarrow> 'a environment \<Rightarrow> tool_call \<Rightarrow> request_context \<Rightarrow> admission_certificate
     \<Rightarrow> ('a, tool_result) coroutine" where
  "call_gateway R N call ctx certificate w = (let n = wd_tick w in
     case invoke (rn_py R) (en_execute N n) (rn_gateway R) call ctx certificate (en_clock N n)
         (en_clock N (Suc n)) of
       (reached, r) \<Rightarrow> lift GatewayRaised r
         (w\<lparr>wd_tick := Suc (Suc n), wd_effects := wd_effects w
              @ (case reached of None \<Rightarrow> [] | Some a \<Rightarrow> [Executed a call certificate])\<rparr>))"

definition admit ::
  "'a runner \<Rightarrow> 'a environment \<Rightarrow> string \<Rightarrow> plan_step \<Rightarrow> execution_plan \<Rightarrow> resolved_target
     \<Rightarrow> request_context \<Rightarrow> approval_request option
     \<Rightarrow> ('a, admission_certificate \<times> tool_call) coroutine" where
  "admit R N task_id step plan target ctx approval =
     andthen (read_clock N) (\<lambda>now. lift AdmissionRefused
       (runner_admit (rn_py R) (rn_guards R) (rn_gate R) (rn_execution_for R) (rn_snapshot R)
          (rn_policies R) task_id step plan target ctx approval now))"

text \<open>What is done with the outcome of a reserved step: a commit of the result, of a malformed one,
  or of one no evidence can be built from.\<close>

definition record_result ::
  "'a runner \<Rightarrow> 'a environment \<Rightarrow> task_attempt_grant \<Rightarrow> execution_plan \<Rightarrow> resolved_target
     \<Rightarrow> request_context \<Rightarrow> plan_step \<Rightarrow> runner_error + tool_result
     \<Rightarrow> ('a, step_execution_record) coroutine" where
  "record_result R N grant plan target ctx step outcome =
     (let event = (\<lambda>stage out error. make_event N stage out ctx (tg_task_id grant) plan
            (Some (ps_step_id step)) (tg_attempt_number grant) error);
          command = (\<lambda>kind status evidence events. \<lparr>sc_grant = grant, sc_step_id = ps_step_id step,
            sc_kind = kind, sc_status = status, sc_evidence = evidence, sc_audit_events = events\<rparr>)
      in case outcome of
        Inl e \<Rightarrow>
          if e \<noteq> GatewayRaised MalformedAdapterResponseError then raise e
          else andthen (event STG_GATEWAY OUT_FAILED None) (\<lambda>gateway_event.
            commit_step R N (command KIND_MALFORMED_ADAPTER STEP_FAILED None [gateway_event]))
      | Inr result \<Rightarrow>
          andthen (event STG_GATEWAY (if tlr_status result = TCS_OK then OUT_OK else OUT_FAILED)
              (tlr_error result)) (\<lambda>gateway_event.
          andthen (read_clock N) (\<lambda>captured_at.
          case rn_build_evidence R (tg_task_id grant) step plan target result captured_at of
            BuilderRaised \<Rightarrow> raise EvidenceRaised
          | EvidenceBuildError \<Rightarrow>
              andthen (event STG_EVIDENCE OUT_FAILED None) (\<lambda>evidence_event.
                commit_step R N (command KIND_MALFORMED_ADAPTER STEP_FAILED None
                  [gateway_event, evidence_event]))
          | Built evidence \<Rightarrow>
              andthen (event STG_EVIDENCE OUT_OK None) (\<lambda>evidence_event.
                commit_step R N (command KIND_TOOL_RESULT (step_status_of (tlr_status result))
                  (Some evidence) [gateway_event, evidence_event])))))"

text \<open>From the reservation of an admitted step on.\<close>

definition execute_step ::
  "'a runner \<Rightarrow> 'a environment \<Rightarrow> task_attempt_grant \<Rightarrow> execution_plan \<Rightarrow> resolved_target
     \<Rightarrow> request_context \<Rightarrow> plan_step \<Rightarrow> admission_certificate \<times> tool_call \<Rightarrow> loop_state
     \<Rightarrow> ('a, loop_result) coroutine" where
  "execute_step R N grant plan target ctx step admitted st = (case admitted of (certificate, call) \<Rightarrow>
     andthen (build step_attempt_command_ok \<lparr>sac_grant = grant, sac_step_id = ps_step_id step\<rparr>) (\<lambda>command.
     andthen (await N StoreRaised (\<lambda>s now now'. begin_step_attempt s command now now')) (\<lambda>reserved.
     case sar_decision reserved of
       SA_ALREADY_COMMITTED \<Rightarrow>
         (case sar_record reserved of
            None \<Rightarrow> raise (LifecycleError CommittedWithoutRow)
          | Some record \<Rightarrow> andthen (adopt_step_record record st) (\<lambda>st'. ret (Proceed st')))
     | SA_BUDGET_EXHAUSTED \<Rightarrow>
         andthen (make_outcome N (tg_task_id grant) FAILED (Some BUDGET_EXHAUSTED_REASON))
           (\<lambda>out. ret (Finished out))
     | SA_UNKNOWN_STEP \<Rightarrow>
         andthen (make_outcome N (tg_task_id grant) FAILED (Some RECOVERY_DRIFT_REASON))
           (\<lambda>out. ret (Finished out))
     | SA_PROCEED \<Rightarrow>
         andthen (attempt (call_gateway R N call ctx certificate)) (\<lambda>outcome.
         andthen (record_result R N grant plan target ctx step outcome) (\<lambda>record.
         andthen (adopt_step_record record st) (\<lambda>st'. ret (Proceed st'))))
     | decision \<Rightarrow> raise (LifecycleError (AttemptRejected decision)))))"

definition admit_step_of ::
  "'a runner \<Rightarrow> 'a environment \<Rightarrow> task_attempt_grant \<Rightarrow> execution_plan \<Rightarrow> resolved_target
     \<Rightarrow> request_context \<Rightarrow> approval_request option \<Rightarrow> plan_step
     \<Rightarrow> ('a, admission_certificate \<times> tool_call) coroutine" where
  "admit_step_of R N grant plan target ctx approval step =
     (let show_admission = (\<lambda>out. emit_stage N STG_ADMISSION out ctx (tg_task_id grant) plan
            (Some (ps_step_id step)) (tg_attempt_number grant))
      in andthen (attempt (admit R N (tg_task_id grant) step plan target ctx approval)) (\<lambda>r. case r of
          Inl (AdmissionRefused (ApprovalRequiredError step_id)) \<Rightarrow>
            andthen (show_admission OUT_REJECTED) (\<lambda>_. pause R N grant plan target ctx step_id)
        | Inl e \<Rightarrow> andthen (show_admission OUT_REJECTED) (\<lambda>_. raise e)
        | Inr admitted \<Rightarrow> andthen (show_admission OUT_OK) (\<lambda>_. ret admitted)))"

definition run_step ::
  "'a runner \<Rightarrow> 'a environment \<Rightarrow> task_attempt_grant \<Rightarrow> execution_plan \<Rightarrow> resolved_target
     \<Rightarrow> request_context \<Rightarrow> approval_request option \<Rightarrow> plan_step \<Rightarrow> loop_state
     \<Rightarrow> ('a, loop_result) coroutine" where
  "run_step R N grant plan target ctx approval step st =
     andthen (condition_holds N (tg_task_id grant) (ps_condition step) (fst st)) (\<lambda>holds.
     if \<not> holds then ret (Proceed st)
     else andthen (admit_step_of R N grant plan target ctx approval step) (\<lambda>admitted.
       execute_step R N grant plan target ctx step admitted st))"

subsection \<open>The loop\<close>

fun run_loop ::
  "'a runner \<Rightarrow> 'a environment \<Rightarrow> task_attempt_grant \<Rightarrow> execution_plan \<Rightarrow> resolved_target
     \<Rightarrow> request_context \<Rightarrow> approval_request option \<Rightarrow> plan_step list \<Rightarrow> loop_state
     \<Rightarrow> ('a, task_outcome) coroutine" where
  "run_loop R N grant plan target ctx approval [] st =
     make_outcome N (tg_task_id grant) (if snd st then INDETERMINATE else SUCCEEDED) None"
| "run_loop R N grant plan target ctx approval (step # steps) st =
     andthen (run_step R N grant plan target ctx approval step st) (\<lambda>r. case r of
       Proceed st' \<Rightarrow> run_loop R N grant plan target ctx approval steps st'
     | Finished out \<Rightarrow> ret out)"

definition recorded_results :: "step_execution_record list \<Rightarrow> step_results" where
  "recorded_results recorded = fold (\<lambda>x results. case se_result_status x of
     None \<Rightarrow> results | Some status \<Rightarrow> dset (se_step_id x) status results) recorded []"

definition any_failed :: "step_execution_record list \<Rightarrow> bool" where
  "any_failed recorded = list_ex (\<lambda>x. se_result_status x \<in> {Some STEP_FAILED, Some STEP_TIMEOUT}) recorded"

definition disclose ::
  "'a runner \<Rightarrow> 'a environment \<Rightarrow> task_attempt_grant \<Rightarrow> execution_plan \<Rightarrow> resolved_target
     \<Rightarrow> request_context \<Rightarrow> confirmed_slot list option \<Rightarrow> ('a, unit) coroutine" where
  "disclose R N grant plan target ctx slots =
     (let show_disclosure = (\<lambda>out. emit_stage N STG_DISCLOSURE out ctx (tg_task_id grant) plan None
            (tg_attempt_number grant))
      in if rn_disclosable R plan target (case slots of None \<Rightarrow> [] | Some xs \<Rightarrow> xs)
         then show_disclosure OUT_OK
         else andthen (show_disclosure OUT_FAILED) (\<lambda>_. raise DisclosureRaised))"

definition run_steps ::
  "'a runner \<Rightarrow> 'a environment \<Rightarrow> task_attempt_grant \<Rightarrow> execution_plan \<Rightarrow> resolved_target
     \<Rightarrow> request_context \<Rightarrow> approval_request option \<Rightarrow> confirmed_slot list option
     \<Rightarrow> ('a, task_outcome) coroutine" where
  "run_steps R N grant plan target ctx approval slots =
     andthen (disclose R N grant plan target ctx slots) (\<lambda>_.
     andthen (await_read N (\<lambda>s. load_step_executions s (tg_task_id grant))) (\<lambda>recorded.
     run_loop R N grant plan target ctx approval (ep_steps plan)
       (recorded_results recorded, any_failed recorded)))"

subsection \<open>start and resume\<close>

definition start ::
  "'a runner \<Rightarrow> 'a environment \<Rightarrow> task_attempt_grant \<Rightarrow> execution_plan \<Rightarrow> resolved_target
     \<Rightarrow> request_context \<Rightarrow> confirmed_slot list option \<Rightarrow> ('a, task_outcome) coroutine" where
  "start R N grant plan target ctx slots =
     andthen (require_current_grant R N grant) (\<lambda>_.
     andthen (await_read N (\<lambda>s. load_step_executions s (tg_task_id grant))) (\<lambda>journal.
     if journal \<noteq> [] then raise StepJournalInvariantError
     else
     andthen (await N PlanStoreRaised (\<lambda>s now now'.
         save_plan s (tg_task_id grant) \<lparr>sp_plan = plan, sp_target = target\<rparr>)) (\<lambda>_.
     andthen (await N PlanStoreRaised (\<lambda>s now now'. (s, load_plan s (tg_task_id grant)))) (\<lambda>stored.
     andthen (lookup_task N (tg_task_id grant) ctx) (\<lambda>record.
     andthen (advance_task N record PLANNING grant ctx (sp_plan stored)) (\<lambda>record.
     andthen (advance_task N record RUNNING grant ctx (sp_plan stored)) (\<lambda>_.
     run_steps R N grant (sp_plan stored) (sp_target stored) ctx None slots)))))))"

datatype external_input = ApprovalDecision string | UserSupplement

definition verify_external_input ::
  "external_input option \<Rightarrow> approval_request option \<Rightarrow> ('a, unit) coroutine" where
  "verify_external_input input approval = (case input of
     Some (ApprovalDecision ref) \<Rightarrow>
       (case approval of
          None \<Rightarrow> raise (DriftError DecisionWithoutApproval)
        | Some a \<Rightarrow>
            if ref \<noteq> approval_ref (ar_task_id a) (ar_step_id a)
            then raise (DriftError ApprovalRefMismatch) else ret ())
   | _ \<Rightarrow> ret ())"

definition verify_no_drift ::
  "'a runner \<Rightarrow> stored_plan \<Rightarrow> execution_plan \<Rightarrow> resolved_target \<Rightarrow> request_context
     \<Rightarrow> ('a, unit) coroutine" where
  "verify_no_drift R stored plan target ctx =
     andthen (lift CanonicalRaised (compute_plan_hash (rn_py R) (sp_plan stored))) (\<lambda>stored_hash.
     andthen (lift CanonicalRaised (compute_plan_hash (rn_py R) plan)) (\<lambda>plan_hash.
     if stored_hash \<noteq> plan_hash then raise (DriftError PlanHashDrift)
     else
     andthen (lift CanonicalRaised (compute_target_fingerprint (rn_py R) (sp_target stored))) (\<lambda>stored_fp.
     andthen (lift CanonicalRaised (compute_target_fingerprint (rn_py R) target)) (\<lambda>fp.
     if stored_fp \<noteq> fp then raise (DriftError TargetFingerprintDrift)
     else if ep_policy_revision plan \<noteq> rc_policy_revision ctx
     then raise (DriftError PolicyRevisionDrift) else ret ()))))"

definition resume ::
  "'a runner \<Rightarrow> 'a environment \<Rightarrow> task_attempt_grant \<Rightarrow> external_input option \<Rightarrow> execution_plan
     \<Rightarrow> request_context \<Rightarrow> resolved_target \<Rightarrow> approval_request option \<Rightarrow> confirmed_slot list option
     \<Rightarrow> ('a, task_outcome) coroutine" where
  "resume R N grant input plan ctx target approval slots =
     andthen (require_current_grant R N grant) (\<lambda>_.
     andthen (verify_external_input input approval) (\<lambda>_.
     andthen (await N PlanStoreRaised (\<lambda>s now now'. (s, load_plan s (tg_task_id grant)))) (\<lambda>stored.
     andthen (verify_no_drift R stored plan target ctx) (\<lambda>_.
     andthen (lookup_task N (tg_task_id grant) ctx) (\<lambda>record.
     andthen (if tr_status record \<in> {PLANNING, AWAITING_APPROVAL}
              then andthen (advance_task N record RUNNING grant ctx (sp_plan stored)) (\<lambda>_. ret ())
              else if tr_status record \<noteq> RUNNING then raise (LifecycleError NotResumable)
              else ret ()) (\<lambda>_.
     run_steps R N grant (sp_plan stored) (sp_target stored) ctx approval slots))))))"

end
