(* ===== verification/Runner_Runs.thy ===== *)
theory Runner_Runs
  imports Step_Runner Journal_Claims
begin

text \<open>
  What the step runner does to the world it shares with other workers. The environment is lawful
  when whatever it does between two operations of the runner is itself a run of the store. Most
  coroutines are \<open>idle\<close>: they move the store along a run and execute no adapter; only
  \<open>call_gateway\<close> executes. \<open>run_step_effect\<close> says what one step may do, \<open>run_loop_effect\<close> what the
  loop may do.
\<close>

named_theorems idle_intros \<open>coroutines that execute no adapter\<close>

subsection \<open>Lawful environments and idle coroutines\<close>

definition lawful :: "py_env \<Rightarrow> int \<Rightarrow> 'a environment \<Rightarrow> bool" where
  "lawful E limit N \<longleftrightarrow> (\<forall>n s. (store_step E limit)\<^sup>*\<^sup>* s (en_moves N n s))"

fun execution_of :: "'a effect \<Rightarrow> ('a \<times> tool_call \<times> admission_certificate) list" where
  "execution_of (Logged event delivery) = []"
| "execution_of (Executed a call certificate) = [(a, call, certificate)]"

definition executions :: "'a effect list \<Rightarrow> ('a \<times> tool_call \<times> admission_certificate) list" where
  "executions effects = concat (map execution_of effects)"

lemma executions_append [simp]: "executions (xs @ ys) = executions xs @ executions ys"
  by (simp add: executions_def)

lemma executions_simps [simp]:
  "executions [] = []" "executions [Logged event delivery] = []"
  "executions [Executed a call certificate] = [(a, call, certificate)]"
  by (simp_all add: executions_def)

definition moved :: "py_env \<Rightarrow> int \<Rightarrow> 'a world \<Rightarrow> 'a world \<Rightarrow> bool" where
  "moved E limit w w' \<longleftrightarrow> (store_step E limit)\<^sup>*\<^sup>* (wd_store w) (wd_store w')"

definition idle :: "py_env \<Rightarrow> int \<Rightarrow> ('a, 'b) coroutine \<Rightarrow> bool" where
  "idle E limit m \<longleftrightarrow> (\<forall>w. moved E limit w (fst (m w))
     \<and> executions (wd_effects (fst (m w))) = executions (wd_effects w))"

lemma moved_refl [simp]: "moved E limit w w"
  by (simp add: moved_def)

lemma moved_trans [trans]: "moved E limit a b \<Longrightarrow> moved E limit b c \<Longrightarrow> moved E limit a c"
  unfolding moved_def by (rule rtranclp_trans)

lemma idleD:
  assumes "idle E limit m" "m w = (w', r)"
  shows "moved E limit w w'" "executions (wd_effects w') = executions (wd_effects w)"
  using assms(1) [unfolded idle_def, rule_format, of w] assms(2) by simp_all

lemma idle_ret [idle_intros]: "idle E limit (ret b)"
  by (simp add: idle_def ret_def)

lemma idle_raise [idle_intros]: "idle E limit (raise e)"
  by (simp add: idle_def raise_def)

lemma idle_andthen [idle_intros]:
  assumes "idle E limit m" "\<And>b. idle E limit (f b)"
  shows "idle E limit (andthen m f)"
  unfolding idle_def
proof
  fix w
  obtain w' r where a: "andthen m f w = (w', r)" by fastforce
  then show "moved E limit w (fst (andthen m f w))
      \<and> executions (wd_effects (fst (andthen m f w))) = executions (wd_effects w)"
  proof (cases rule: andthen_cases)
    case (raised e)
    then show ?thesis using idleD [OF assms(1) raised(1)] a by simp
  next
    case (went w1 b)
    then show ?thesis
      using idleD [OF assms(1) went(1)] idleD [OF assms(2) went(2)] moved_trans a by (metis fst_conv)
  qed
qed

lemma idle_attempt [idle_intros]: "idle E limit m \<Longrightarrow> idle E limit (attempt m)"
  by (simp add: idle_def attempt_def split_beta)

lemma idle_lift [idle_intros]: "idle E limit (lift f r)"
  by (simp add: idle_def lift_def split: sum.splits)

lemma idle_build [idle_intros]: "idle E limit (build ok b)"
  unfolding build_def by (rule idle_lift)

lemma idle_clock [idle_intros]: "idle E limit (read_clock N)" "idle E limit (fresh_uuid N)"
  by (simp_all add: idle_def read_clock_def fresh_uuid_def moved_def)

lemma idle_show [idle_intros]: "idle E limit (show_effect (Logged event delivery))"
  by (simp add: idle_def show_effect_def moved_def)

text \<open>What an awaited operation answers: the others moved first, then it took its turn.\<close>

lemma await_cases:
  assumes "await N f op w = (w', r)"
  obtains s s' x where "s = en_moves N (wd_tick w) (wd_store w)"
    "op s (en_clock N (wd_tick w)) (en_clock N (Suc (wd_tick w))) = (s', x)"
    "w' = w\<lparr>wd_tick := Suc (Suc (wd_tick w)), wd_store := s'\<rparr>"
    "r = (case x of Inl e \<Rightarrow> Inl (f e) | Inr b \<Rightarrow> Inr b)"
  using assms by (auto simp: await_def Let_def lift_def split: prod.splits sum.splits)

lemma idle_await [idle_intros]:
  fixes N :: "'a environment"
  assumes "lawful E limit N" "\<And>s now now'. (store_step E limit)\<^sup>*\<^sup>* s (fst (op s now now'))"
  shows "idle E limit (await N f op)"
  unfolding idle_def
proof
  fix w :: "'a world"
  let ?s = "en_moves N (wd_tick w) (wd_store w)"
  have "(store_step E limit)\<^sup>*\<^sup>* (wd_store w) ?s" using assms(1) by (simp add: lawful_def)
  then show "moved E limit w (fst (await N f op w))
      \<and> executions (wd_effects (fst (await N f op w))) = executions (wd_effects w)"
    using assms(2) [of ?s "en_clock N (wd_tick w)" "en_clock N (Suc (wd_tick w))"]
    by (simp add: await_def Let_def moved_def split_beta)
qed

lemma idle_await_read [idle_intros]: "lawful E limit N \<Longrightarrow> idle E limit (await_read N f)"
  unfolding await_read_def by (intro idle_intros) simp_all

text \<open>The store's operations are steps of it.\<close>

lemma op_runs: "op_ok s c \<Longrightarrow> (store_step E limit)\<^sup>*\<^sup>* s (run_op E limit s c)"
  using store_stepI by blast

lemma ops_run [idle_intros]:
  "(store_step E limit)\<^sup>*\<^sup>* s (fst (transition s c now))"
  "(store_step E limit)\<^sup>*\<^sup>* s (fst (renew_lease s k owner tok ttl now now'))"
  "(store_step E limit)\<^sup>*\<^sup>* s (fst (record_approval s a))"
  "(store_step E limit)\<^sup>*\<^sup>* s (fst (record_audit_event s event))"
  "(store_step E limit)\<^sup>*\<^sup>* s (fst (begin_step_attempt s b now now'))"
  "(store_step E limit)\<^sup>*\<^sup>* s (fst (commit_step_result E s d now now'))"
  "execution_plan_ok (sp_plan p) \<Longrightarrow> (store_step E limit)\<^sup>*\<^sup>* s (fst (save_plan s k p))"
  using op_runs [of s "OpTransition c now" E limit] op_runs [of s "OpRenew k owner tok ttl now now'" E limit]
    op_runs [of s "OpApproval a" E limit] op_runs [of s "OpAudit event" E limit]
    op_runs [of s "OpBeginStep b now now'" E limit] op_runs [of s "OpCommit d now now'" E limit]
    op_runs [of s "OpSavePlan k p" E limit]
  by simp_all

lemma read_runs [idle_intros]: "(store_step E limit)\<^sup>*\<^sup>* s (fst (s, x))"
  by simp

subsection \<open>The runner's idle coroutines\<close>

lemma idle_emit [idle_intros]: "lawful E limit N \<Longrightarrow> idle E limit (emit N event delivery)"
  unfolding emit_def by (auto intro!: idle_intros split: sum.splits)

lemma idle_emit_all [idle_intros]: "lawful E limit N \<Longrightarrow> idle E limit (emit_all N events delivery)"
  by (induction events) (auto intro!: idle_intros)

lemma idle_make_event [idle_intros]: "idle E limit (make_event N stage outcome ctx t plan i n error)"
  unfolding make_event_def by (intro idle_intros)

lemma idle_emit_stage [idle_intros]:
  "lawful E limit N \<Longrightarrow> idle E limit (emit_stage N stage outcome ctx t plan i n)"
  unfolding emit_stage_def by (intro idle_intros)

lemma idle_advance [idle_intros]: "lawful E limit N \<Longrightarrow> idle E limit (advance_task N r status g ctx plan)"
  unfolding advance_task_def by (auto intro!: idle_intros split: sum.splits)

lemma idle_require_grant [idle_intros]: "lawful E limit N \<Longrightarrow> idle E limit (require_current_grant R N g)"
  unfolding require_current_grant_def by (auto intro!: idle_intros split: option.splits)

lemma idle_lookup [idle_intros]: "lawful E limit N \<Longrightarrow> idle E limit (lookup_task N t ctx)"
  unfolding lookup_task_def by (intro idle_intros)

lemma idle_outcome [idle_intros]: "lawful E limit N \<Longrightarrow> idle E limit (make_outcome N t status reason)"
  unfolding make_outcome_def by (intro idle_intros)

lemma idle_pause [idle_intros]: "lawful E limit N \<Longrightarrow> idle E limit (pause R N g plan target ctx i)"
  unfolding pause_def by (intro idle_intros)

lemma idle_condition [idle_intros]: "lawful E limit N \<Longrightarrow> idle E limit (condition_holds N t c results)"
  unfolding condition_holds_def
  by (auto intro!: idle_intros split: step_condition_kind.splits option.splits)

lemma idle_adopt [idle_intros]: "idle E limit (adopt_step_record x st)"
  unfolding adopt_step_record_def by (auto intro!: idle_intros split: option.splits prod.splits)

lemma idle_require_committed [idle_intros]: "idle E limit (require_committed_step res)"
  unfolding require_committed_step_def by (auto intro!: idle_intros split: option.splits bool.splits)

lemma idle_commit [idle_intros]: "lawful (rn_py R) limit N \<Longrightarrow> idle (rn_py R) limit (commit_step R N c)"
  unfolding commit_step_def by (auto intro!: idle_intros split: sum.splits)

lemma idle_admit [idle_intros]: "idle E limit (admit R N t step plan target ctx approval)"
  unfolding admit_def by (intro idle_intros)

lemma idle_record_result [idle_intros]:
  "lawful (rn_py R) limit N \<Longrightarrow> idle (rn_py R) limit (record_result R N g plan target ctx step outcome)"
  unfolding record_result_def Let_def
  by (auto intro!: idle_intros split: sum.splits build_outcome.splits)

lemma idle_admit_step [idle_intros]:
  "lawful E limit N \<Longrightarrow> idle E limit (admit_step_of R N g plan target ctx approval step)"
  unfolding admit_step_of_def Let_def
  by (auto intro!: idle_intros split: sum.splits runner_error.splits admission_error.splits)

lemma idle_disclose [idle_intros]: "lawful E limit N \<Longrightarrow> idle E limit (disclose R N g plan target ctx slots)"
  unfolding disclose_def Let_def by (auto intro!: idle_intros)

lemma idle_verify [idle_intros]:
  "idle E limit (verify_external_input input approval)"
  "idle E limit (verify_no_drift R stored plan target ctx)"
  unfolding verify_external_input_def verify_no_drift_def
  by (auto intro!: idle_intros split: option.splits external_input.splits)

subsection \<open>Journal facts\<close>

definition committed_with :: "store_state \<Rightarrow> string \<Rightarrow> string \<Rightarrow> step_result_status \<Rightarrow> bool" where
  "committed_with s t i st \<longleftrightarrow>
     (case dget (st_step_executions s) (t, i) of None \<Rightarrow> False | Some x \<Rightarrow> se_result_status x = Some st)"

definition journaled :: "store_state \<Rightarrow> string \<Rightarrow> string \<Rightarrow> bool" where
  "journaled s t i \<longleftrightarrow> dget (st_step_executions s) (t, i) \<noteq> None"

definition results_backed :: "store_state \<Rightarrow> string \<Rightarrow> step_results \<Rightarrow> bool" where
  "results_backed s t results \<longleftrightarrow> (\<forall>i st. dget results i = Some st \<longrightarrow> committed_with s t i st)"

text \<open>
  The rows of a step, read off the ledger: the first envelope that concerns the step counts its facts,
  and a step without one has none.
\<close>

definition rows_below :: "store_state \<Rightarrow> string \<Rightarrow> string \<Rightarrow> int \<Rightarrow> bool" where
  "rows_below s t i n \<longleftrightarrow>
     (let concerning = [e \<leftarrow> load_evidence s t. \<exists>pre. ee_evidence_id e = pre @ '':'' @ i] in
      if concerning = [] then 0 < n else int (length (ee_facts (hd concerning))) < n)"

text \<open>
  What the journal and the ledger must hold for a condition: the referenced step ended as required,
  and has fewer rows than the threshold where the condition names one.
\<close>

definition condition_met :: "store_state \<Rightarrow> string \<Rightarrow> step_condition \<Rightarrow> bool" where
  "condition_met s t c = (case (cond_kind c, cond_ref_step_id c) of
      (ALWAYS, _) \<Rightarrow> True
    | (PRIOR_STEP_RESULT_IS, Some i) \<Rightarrow>
        (case cond_expected_result c of None \<Rightarrow> False | Some st \<Rightarrow> committed_with s t i st)
    | (EVIDENCE_ROW_COUNT_BELOW, Some i) \<Rightarrow> committed_with s t i STEP_OK
        \<and> (case cond_threshold c of None \<Rightarrow> False | Some n \<Rightarrow> rows_below s t i n)
    | _ \<Rightarrow> False)"

lemma committed_with_iff:
  "committed_with s t i st \<longleftrightarrow>
     (\<exists>x. dget (st_step_executions s) (t, i) = Some x \<and> se_result_status x = Some st)"
  by (auto simp: committed_with_def split: option.splits)

lemma moved_inv: "moved E limit w w' \<Longrightarrow> run_inv E (wd_store w) \<Longrightarrow> run_inv E (wd_store w')"
  unfolding moved_def using task_fence.inv_steps by blast

lemma moved_committed:
  assumes "moved E limit w w'" "run_inv E (wd_store w)" "committed_with (wd_store w) t i st"
  shows "committed_with (wd_store w') t i st"
  using run_journal_kept [OF assms(1) [unfolded moved_def] assms(2)] assms(3)
  unfolding journal_kept_def committed_with_iff by fastforce

lemma moved_journaled:
  assumes "moved E limit w w'" "run_inv E (wd_store w)" "journaled (wd_store w) t i"
  shows "journaled (wd_store w') t i"
  using run_journal_kept [OF assms(1) [unfolded moved_def] assms(2)] assms(3)
  unfolding journal_kept_def journaled_def by fastforce

lemma moved_results:
  "moved E limit w w' \<Longrightarrow> run_inv E (wd_store w) \<Longrightarrow> results_backed (wd_store w) t results \<Longrightarrow>
     results_backed (wd_store w') t results"
  unfolding results_backed_def using moved_committed by blast

lemma inv_row:
  assumes "run_inv E s" "dget (st_step_executions s) (t, i) = Some x"
  shows "se_task_id x = t" "se_step_id x = i" "se_result_status x \<noteq> Some STEP_SKIPPED"
    "0 < se_attempt_count x"
proof -
  have "(t, i) = (se_task_id x, se_step_id x) \<and> step_execution_record_ok x"
    using assms unfolding run_inv_def store_inv_def steps_inv_def by blast
  then show "se_task_id x = t" "se_step_id x = i" "se_result_status x \<noteq> Some STEP_SKIPPED"
    "0 < se_attempt_count x"
    by (simp_all add: step_execution_record_ok_def)
qed

lemma inv_task_id: "run_inv E s \<Longrightarrow> dget (st_tasks s) k = Some r \<Longrightarrow> tr_task_id r = k"
  using tasks_inv_filed by (fastforce simp: run_inv_def store_inv_def task_filed_def)

lemma find_filter: "find P xs = (case filter P xs of [] \<Rightarrow> None | x # _ \<Rightarrow> Some x)"
  by (induction xs) auto

lemma ends_with_iff: "ends_with w s \<longleftrightarrow> (\<exists>pre. s = pre @ w)"
  by (auto simp: ends_with_def) (metis append_take_drop_id)

lemma rows_recorded_below: "rows_recorded_for s t i < n \<longleftrightarrow> rows_below s t i n"
proof -
  have "evidence_of_step i = (\<lambda>e. \<exists>pre. ee_evidence_id e = pre @ '':'' @ i)"
    by (auto simp: evidence_of_step_def ends_with_iff fun_eq_iff)
  then show ?thesis
    by (simp add: rows_recorded_for_def rows_below_def find_filter Let_def split: list.split)
qed

text \<open>
  A condition that the runner found to hold was met at a moment of its own: ledger and journal are
  those of the read, and the journal only grows afterwards.
\<close>

lemma condition_holds_met:
  assumes "lawful E limit N" "run_inv E (wd_store w)"
    and "condition_holds N t c results w = (w', Inr True)" "results_backed (wd_store w) t results"
  shows "condition_met (wd_store w') t c"
proof -
  note kept = moved_results [OF idleD(1) [OF idle_condition [OF assms(1)] assms(3)] assms(2,4)]
  show ?thesis
  proof (cases "cond_kind c = EVIDENCE_ROW_COUNT_BELOW")
    case True
    then obtain n i where c: "cond_threshold c = Some n" "cond_ref_step_id c = Some i"
        "dget results i = Some STEP_OK"
        "andthen (await_read N (\<lambda>s. rows_recorded_for s t i)) (\<lambda>rows. ret (rows < n)) w = (w', Inr True)"
      using assms(3) by (auto simp: condition_holds_def ret_def split: option.splits if_splits)
    from c(4) obtain rows where "await_read N (\<lambda>s. rows_recorded_for s t i) w = (w', Inr rows)" "rows < n"
      by (cases rule: andthen_cases) (auto simp: ret_def)
    then have "rows_recorded_for (wd_store w') t i < n"
      by (auto simp: await_read_def elim!: await_cases)
    then show ?thesis
      using True c(1-3) kept by (simp add: condition_met_def results_backed_def rows_recorded_below)
  next
    case False
    then show ?thesis
      using assms(3) kept
      by (auto simp: condition_holds_def condition_met_def results_backed_def ret_def
          split: step_condition_kind.splits option.splits if_splits)
  qed
qed

subsection \<open>The answers of the journal\<close>

lemma begun_answer:
  assumes "run_inv E s" "begin_step_attempt s c now now' = (s', Inr res)"
  shows "sar_decision res = SA_PROCEED \<Longrightarrow> journaled s' (tg_task_id (sac_grant c)) (sac_step_id c)
      \<and> \<not> committed_with s (tg_task_id (sac_grant c)) (sac_step_id c) st"
    and "sar_decision res = SA_ALREADY_COMMITTED \<Longrightarrow> sar_record res = Some x \<Longrightarrow>
      dget (st_step_executions s') (tg_task_id (sac_grant c), sac_step_id c) = Some x"
proof -
  obtain r where r: "dget (st_tasks s) (tg_task_id (sac_grant c)) = Some r"
    using assms(2) by (auto simp: begin_step_attempt_def require_task_def split: option.splits)
  note tid = inv_task_id [OF assms(1) r]
  show "sar_decision res = SA_PROCEED \<Longrightarrow> journaled s' (tg_task_id (sac_grant c)) (sac_step_id c)
      \<and> \<not> committed_with s (tg_task_id (sac_grant c)) (sac_step_id c) st"
    using assms(2) r tid
    by (auto simp: begin_step_attempt_def require_task_def step_attempt_answer_def checked_Inr Let_def
        journaled_def committed_with_iff split: option.splits if_splits sum.splits)
  show "sar_decision res = SA_ALREADY_COMMITTED \<Longrightarrow> sar_record res = Some x \<Longrightarrow>
      dget (st_step_executions s') (tg_task_id (sac_grant c), sac_step_id c) = Some x"
    using assms(2) r tid
    by (auto simp: begin_step_attempt_def require_task_def step_attempt_answer_def checked_Inr Let_def
        split: option.splits if_splits sum.splits)
qed

definition row_adopted :: "store_state \<Rightarrow> string \<Rightarrow> string \<Rightarrow> step_execution_record \<Rightarrow> bool" where
  "row_adopted s t i x \<longleftrightarrow> dget (st_step_executions s) (t, i) = Some x \<and> se_step_id x = i"

lemma commit_step_answer:
  assumes env: "lawful (rn_py R) limit N" "run_inv (rn_py R) (wd_store w)"
    and c: "commit_step R N c w = (w', Inr x)"
  shows "row_adopted (wd_store w') (tg_task_id (sc_grant c)) (sc_step_id c) x"
proof -
  let ?E = "rn_py R"
  let ?op = "\<lambda>s now now'. commit_step_result ?E s c now now'"
  from c obtain w1 res where a: "await N StoreRaised ?op w = (w1, Inr res)"
      and rest: "andthen (emit_all N (sc_audit_events c)
        (if scr_committed res then COMMAND_COMMITTED else COMMAND_ROLLED_BACK))
        (\<lambda>_. require_committed_step res) w1 = (w', Inr x)"
    by (auto simp: commit_step_def build_def lift_def revalidate_def attempt_def andthen_def raise_def
        split: if_splits prod.splits sum.splits)
  from rest obtain w2 u where e: "emit_all N (sc_audit_events c)
        (if scr_committed res then COMMAND_COMMITTED else COMMAND_ROLLED_BACK) w1 = (w2, Inr u)"
      "require_committed_step res w2 = (w', Inr x)"
    by (auto elim: andthen_cases)
  have x: "scr_committed res" "scr_record res = Some x" "w2 = w'"
    using e(2) by (auto simp: require_committed_step_def ret_def raise_def
        split: bool.splits option.splits if_splits)
  obtain s s' y where s: "s = en_moves N (wd_tick w) (wd_store w)"
      "?op s (en_clock N (wd_tick w)) (en_clock N (Suc (wd_tick w))) = (s', y)"
      "w1 = w\<lparr>wd_tick := Suc (Suc (wd_tick w)), wd_store := s'\<rparr>"
      "Inr res = (case y of Inl e \<Rightarrow> Inl (StoreRaised e) | Inr b \<Rightarrow> Inr b)"
    using await_cases [OF a] by metis
  have y: "y = Inr res" using s(4) by (auto split: sum.splits)
  have "(store_step ?E limit)\<^sup>*\<^sup>* (wd_store w) s" using env(1) s(1) by (simp add: lawful_def)
  then have i: "run_inv ?E s" using env(2) task_fence.inv_steps by blast
  obtain r where "dget (st_tasks s) (tg_task_id (sc_grant c)) = Some r"
      "dget (st_step_executions s') (tr_task_id r, sc_step_id c) = Some x" "se_result_status x \<noteq> None"
    using commit_answer [OF s(2) [unfolded y] x(1)] x(2) by auto
  then have row: "dget (st_step_executions (wd_store w1)) (tg_task_id (sc_grant c), sc_step_id c) = Some x"
      "se_result_status x \<noteq> None"
    using inv_task_id [OF i] s(3) by auto
  have m1: "moved ?E limit w w1" and m2: "moved ?E limit w1 w2"
    using idleD(1) [OF idle_await [OF env(1)] a] idleD(1) [OF idle_emit_all [OF env(1)] e(1)] ops_run(6)
    by blast+
  have i1: "run_inv ?E (wd_store w1)" using moved_inv [OF m1 env(2)] .
  have "dget (st_step_executions (wd_store w')) (tg_task_id (sc_grant c), sc_step_id c) = Some x"
    using run_journal_kept [OF m2 [unfolded moved_def] i1] row x(3)
    unfolding journal_kept_def by fastforce
  then show ?thesis
    using inv_row [OF moved_inv [OF m2 i1]] x(3) by (simp add: row_adopted_def)
qed

text \<open>
  A coroutine answers \<open>Q\<close> when every value it returns is a \<open>Q\<close> of the store it returns in. A sequence
  answers what its last part answers.
\<close>

definition answers :: "py_env \<Rightarrow> ('a, 'b) coroutine \<Rightarrow> (store_state \<Rightarrow> 'b \<Rightarrow> bool) \<Rightarrow> bool" where
  "answers E m Q \<longleftrightarrow> (\<forall>w w' b. run_inv E (wd_store w) \<longrightarrow> m w = (w', Inr b) \<longrightarrow> Q (wd_store w') b)"

lemma answersD: "answers E m Q \<Longrightarrow> run_inv E (wd_store w) \<Longrightarrow> m w = (w', Inr b) \<Longrightarrow> Q (wd_store w') b"
  by (simp add: answers_def)

lemma answers_raise: "answers E (raise e) Q"
  by (simp add: answers_def raise_def)

lemma answers_andthen:
  assumes "idle E limit m" "\<And>b. answers E (f b) Q"
  shows "answers E (andthen m f) Q"
  unfolding answers_def
proof (intro allI impI)
  fix w w' b assume i: "run_inv E (wd_store w)" and a: "andthen m f w = (w', Inr b)"
  from a show "Q (wd_store w') b"
  proof (cases rule: andthen_cases)
    case (went w1 c)
    then show ?thesis
      using answersD [OF assms(2) _ went(2)] moved_inv [OF idleD(1) [OF assms(1) went(1)] i] by blast
  qed simp
qed

lemma record_result_answers:
  assumes env: "lawful (rn_py R) limit N"
  shows "answers (rn_py R) (record_result R N g plan target ctx step outcome)
     (\<lambda>s x. row_adopted s (tg_task_id g) (ps_step_id step) x)"
proof -
  have commit: "answers (rn_py R) (commit_step R N \<lparr>sc_grant = g, sc_step_id = ps_step_id step,
      sc_kind = k, sc_status = st, sc_evidence = ev, sc_audit_events = es\<rparr>)
      (\<lambda>s x. row_adopted s (tg_task_id g) (ps_step_id step) x)" for k st ev es
    unfolding answers_def using commit_step_answer [OF env] by fastforce
  show ?thesis
    unfolding record_result_def Let_def
    by (auto intro!: answers_raise answers_andthen [OF idle_make_event [of _ limit]]
        answers_andthen [OF idle_clock(1) [of _ limit]] commit split: sum.splits build_outcome.splits)
qed

subsection \<open>The effect of a step\<close>

definition admitted_by ::
  "'a runner \<Rightarrow> string \<Rightarrow> execution_plan \<Rightarrow> resolved_target \<Rightarrow> request_context \<Rightarrow> approval_request option
     \<Rightarrow> plan_step \<Rightarrow> admission_certificate \<Rightarrow> tool_call \<Rightarrow> bool" where
  "admitted_by R t plan target ctx approval step certificate call \<longleftrightarrow>
     (\<exists>now. runner_admit (rn_py R) (rn_guards R) (rn_gate R) (rn_execution_for R) (rn_snapshot R)
        (rn_policies R) t step plan target ctx approval now = Inr (certificate, call))"

definition adopted :: "store_state \<Rightarrow> string \<Rightarrow> string \<Rightarrow> loop_state \<Rightarrow> loop_state \<Rightarrow> bool" where
  "adopted s t i st st' \<longleftrightarrow> (\<exists>status. committed_with s t i status
     \<and> st' = (dset i status (fst st), failed_status status \<or> snd st))"

lemma adopt_adopted:
  "adopt_step_record x st w = (w', Inr st') \<Longrightarrow> row_adopted (wd_store w) t i x \<Longrightarrow>
     w' = w \<and> adopted (wd_store w) t i st st'"
  by (auto simp: adopt_step_record_def row_adopted_def adopted_def committed_with_iff ret_def raise_def
      split: prod.splits option.splits)

lemma outcome_status: "make_outcome N t status reason w = (w', Inr out) \<Longrightarrow> to_status out = status"
  by (auto simp: make_outcome_def build_def lift_def revalidate_def split: if_splits elim!: andthen_cases)

lemma pause_raises [simp]: "pause R N g plan target ctx i w = (w', Inr b) \<longleftrightarrow> False"
  by (auto simp: pause_def raise_def elim!: andthen_cases)

lemma admit_step_admits:
  assumes "admit_step_of R N g plan target ctx approval step w = (w', Inr (certificate, call))"
  shows "admitted_by R (tg_task_id g) plan target ctx approval step certificate call"
  using assms
  by (auto simp: admit_step_of_def Let_def attempt_def admit_def lift_def ret_def raise_def
      admitted_by_def split: sum.splits runner_error.splits admission_error.splits prod.splits
      elim!: andthen_cases) (rule exI)

lemma admitted_step_id:
  "admitted_by R t plan target ctx approval step certificate call \<Longrightarrow> tc_step_id call = ps_step_id step"
  by (auto simp: admitted_by_def elim!: runner_admit_Inr build_call_Inr)

lemma call_gateway_cases:
  assumes "attempt (call_gateway R N call ctx certificate) w = (w', r)"
  obtains outcome xs where "r = Inr outcome" "wd_store w' = wd_store w"
    "executions (wd_effects w') = executions (wd_effects w) @ xs"
    "xs = [] \<or> (\<exists>a. xs = [(a, call, certificate)])"
  using assms by (auto simp: attempt_def call_gateway_def Let_def lift_def split: prod.splits sum.splits
      option.splits)

definition step_executions ::
  "'a world \<Rightarrow> 'a world \<Rightarrow> string \<Rightarrow> string \<Rightarrow> tool_call \<Rightarrow> admission_certificate \<Rightarrow> bool" where
  "step_executions w w' t i call certificate \<longleftrightarrow>
     executions (wd_effects w') = executions (wd_effects w)
   \<or> (\<exists>a. executions (wd_effects w') = executions (wd_effects w) @ [(a, call, certificate)]
        \<and> journaled (wd_store w') t i \<and> (\<forall>status. \<not> committed_with (wd_store w) t i status))"

definition step_answer :: "'a world \<Rightarrow> string \<Rightarrow> string \<Rightarrow> loop_state \<Rightarrow> runner_error + loop_result \<Rightarrow> bool" where
  "step_answer w t i st r = (case r of
      Inl e \<Rightarrow> True
    | Inr (Proceed st') \<Rightarrow> adopted (wd_store w) t i st st'
    | Inr (Finished out) \<Rightarrow> to_status out = FAILED)"

lemma adopt_answer:
  assumes "andthen (adopt_step_record x st) (\<lambda>st'. ret (Proceed st')) w = (w', r)"
    "row_adopted (wd_store w) t i x"
  shows "w' = w \<and> step_answer w' t i st r"
proof -
  have "fst (adopt_step_record x st w) = w"
    by (simp add: adopt_step_record_def ret_def raise_def split: prod.splits option.splits)
  with assms show ?thesis
    using adopt_adopted [of x st w w _ t i]
    by (auto simp: step_answer_def ret_def elim!: andthen_cases)
qed

lemma finish_step:
  assumes env: "lawful (rn_py R) limit N" "run_inv (rn_py R) (wd_store w)"
    and x: "andthen (attempt (call_gateway R N call ctx certificate)) (\<lambda>outcome.
       andthen (record_result R N g plan target ctx step outcome) (\<lambda>record.
       andthen (adopt_step_record record st) (\<lambda>st'. ret (Proceed st')))) w = (w', r)"
  shows "moved (rn_py R) limit w w' \<and> step_answer w' (tg_task_id g) (ps_step_id step) st r
     \<and> (executions (wd_effects w') = executions (wd_effects w)
        \<or> (\<exists>a. executions (wd_effects w') = executions (wd_effects w) @ [(a, call, certificate)]))"
proof -
  obtain w2 y where a: "attempt (call_gateway R N call ctx certificate) w = (w2, y)" by fastforce
  then obtain outcome xs where y: "y = Inr outcome" "wd_store w2 = wd_store w"
      "executions (wd_effects w2) = executions (wd_effects w) @ xs"
      "xs = [] \<or> (\<exists>a. xs = [(a, call, certificate)])"
    by (rule call_gateway_cases)
  from x a y(1) have "andthen (record_result R N g plan target ctx step outcome) (\<lambda>record.
       andthen (adopt_step_record record st) (\<lambda>st'. ret (Proceed st'))) w2 = (w', r)"
    by (simp add: andthen_Inr)
  then show ?thesis
  proof (cases rule: andthen_cases)
    case (raised e)
    from idleD [OF idle_record_result [OF env(1)] raised(1)] y raised(2) show ?thesis
      by (auto simp: step_answer_def moved_def)
  next
    case (went w3 x)
    have i2: "run_inv (rn_py R) (wd_store w2)" using env(2) y(2) by simp
    note m = idleD [OF idle_record_result [OF env(1)] went(1)]
    have "row_adopted (wd_store w3) (tg_task_id g) (ps_step_id step) x"
      using answersD [OF record_result_answers [OF env(1)] i2 went(1)] .
    from adopt_answer [OF went(2) this] m y show ?thesis by (auto simp: moved_def)
  qed
qed

lemma finish_early:
  assumes env: "lawful E limit N"
    and x: "andthen (make_outcome N t FAILED reason) (\<lambda>out. ret (Finished out)) w = (w', r)"
  shows "moved E limit w w' \<and> executions (wd_effects w') = executions (wd_effects w)
     \<and> step_answer w' t i st r"
  using x
proof (cases rule: andthen_cases)
  case (raised e)
  then show ?thesis using idleD [OF idle_outcome [OF env] raised(1)] by (simp add: step_answer_def)
next
  case (went w1 out)
  then show ?thesis using idleD [OF idle_outcome [OF env] went(1)] outcome_status [OF went(1)]
    by (auto simp: step_answer_def ret_def)
qed

lemma execute_step_effect:
  assumes env: "lawful (rn_py R) limit N" "run_inv (rn_py R) (wd_store w)"
    and x: "execute_step R N g plan target ctx step (certificate, call) st w = (w', r)"
  shows "moved (rn_py R) limit w w'
     \<and> step_executions w w' (tg_task_id g) (ps_step_id step) call certificate
     \<and> step_answer w' (tg_task_id g) (ps_step_id step) st r"
proof -
  let ?E = "rn_py R" and ?c = "\<lparr>sac_grant = g, sac_step_id = ps_step_id step\<rparr>"
  let ?t = "tg_task_id g" and ?i = "ps_step_id step"
  let ?op = "\<lambda>s now now'. begin_step_attempt s ?c now now'"
  note whole = x [unfolded execute_step_def prod.case]
  show ?thesis
  proof (cases "await N StoreRaised ?op w")
    case (Pair w1 a)
    note aw = this
    have m1: "moved ?E limit w w1" "executions (wd_effects w1) = executions (wd_effects w)"
      using idleD [OF idle_await [OF env(1)] aw] ops_run(5) by blast+
    have i1: "run_inv ?E (wd_store w1)" using moved_inv [OF m1(1) env(2)] .
    show ?thesis
    proof (cases "step_attempt_command_ok ?c")
      case False
      with whole have "w' = w \<and> r = Inl ContractInvalid"
        by (simp add: andthen_def build_def lift_def revalidate_def)
      then show ?thesis by (simp add: step_executions_def step_answer_def)
    next
      case ok: True
      show ?thesis
      proof (cases a)
        case (Inl e)
        with whole ok aw have "w' = w1 \<and> r = Inl e"
          by (simp add: andthen_def build_def lift_def revalidate_def)
        then show ?thesis using m1 by (simp add: step_executions_def step_answer_def)
      next
        case (Inr res)
        obtain s where s: "moved ?E limit w (w\<lparr>wd_store := s\<rparr>)"
            "\<exists>now now'. ?op s now now' = (wd_store w1, Inr res)"
          using aw Inr env(1)
          by (auto simp: lawful_def moved_def split: sum.splits elim!: await_cases) blast
        have i2: "run_inv ?E s" using moved_inv [OF s(1) env(2)] by simp
        have proceed: "journaled (wd_store w1) ?t ?i \<and> (\<forall>status. \<not> committed_with (wd_store w) ?t ?i status)"
          if "sar_decision res = SA_PROCEED"
          using begun_answer(1) [OF i2 _ that] s moved_committed [OF s(1) env(2)] by fastforce
        have already: "row_adopted (wd_store w1) ?t ?i y"
          if "sar_decision res = SA_ALREADY_COMMITTED" "sar_record res = Some y" for y
          using begun_answer(2) [OF i2 _ that] s(2) inv_row(2) [OF i1] by (fastforce simp: row_adopted_def)
        have rest: "(case sar_decision res of
            SA_ALREADY_COMMITTED \<Rightarrow>
              (case sar_record res of
                 None \<Rightarrow> raise (LifecycleError CommittedWithoutRow)
               | Some record \<Rightarrow> andthen (adopt_step_record record st) (\<lambda>st'. ret (Proceed st')))
          | SA_BUDGET_EXHAUSTED \<Rightarrow> andthen (make_outcome N ?t FAILED (Some BUDGET_EXHAUSTED_REASON))
              (\<lambda>out. ret (Finished out))
          | SA_UNKNOWN_STEP \<Rightarrow> andthen (make_outcome N ?t FAILED (Some RECOVERY_DRIFT_REASON))
              (\<lambda>out. ret (Finished out))
          | SA_PROCEED \<Rightarrow> andthen (attempt (call_gateway R N call ctx certificate)) (\<lambda>outcome.
              andthen (record_result R N g plan target ctx step outcome) (\<lambda>record.
              andthen (adopt_step_record record st) (\<lambda>st'. ret (Proceed st'))))
          | decision \<Rightarrow> raise (LifecycleError (AttemptRejected decision))) w1 = (w', r)"
          using whole ok aw Inr by (simp add: andthen_def build_def lift_def revalidate_def)
        show ?thesis
        proof (cases "sar_decision res")
          case SA_PROCEED
          with rest have f: "moved ?E limit w1 w' \<and> step_answer w' ?t ?i st r
              \<and> (executions (wd_effects w') = executions (wd_effects w1)
                 \<or> (\<exists>a. executions (wd_effects w') = executions (wd_effects w1) @ [(a, call, certificate)]))"
            using finish_step [OF env(1) i1] by simp
          then have "journaled (wd_store w') ?t ?i"
            using proceed [OF SA_PROCEED] moved_journaled [OF _ i1] by blast
          with f m1 moved_trans [OF m1(1)] proceed [OF SA_PROCEED] show ?thesis
            by (auto simp: step_executions_def)
        next
          case SA_ALREADY_COMMITTED
          show ?thesis
          proof (cases "sar_record res")
            case None
            with rest SA_ALREADY_COMMITTED m1 show ?thesis
              by (auto simp: raise_def step_executions_def step_answer_def)
          next
            case (Some y)
            with rest SA_ALREADY_COMMITTED m1 adopt_answer [OF _ already [OF SA_ALREADY_COMMITTED Some]]
            show ?thesis by (fastforce simp: step_executions_def)
          qed
        next
          case SA_BUDGET_EXHAUSTED
          with rest m1 finish_early [OF env(1), of ?t "Some BUDGET_EXHAUSTED_REASON" w1 w' r ?i st] moved_trans [OF m1(1)]
          show ?thesis by (simp add: step_executions_def)
        next
          case SA_UNKNOWN_STEP
          with rest m1 finish_early [OF env(1), of ?t "Some RECOVERY_DRIFT_REASON" w1 w' r ?i st] moved_trans [OF m1(1)]
          show ?thesis by (simp add: step_executions_def)
        qed (use rest m1 in \<open>auto simp: raise_def step_executions_def step_answer_def\<close>)
      qed
    qed
  qed
qed

text \<open>
  A sound execution between two stores: of a step of the plan, admitted, with its condition met at a
  moment in between, reserved in the journal, and not committed before.
\<close>

definition sound_execution ::
  "'a runner \<Rightarrow> int \<Rightarrow> string \<Rightarrow> execution_plan \<Rightarrow> resolved_target \<Rightarrow> request_context
     \<Rightarrow> approval_request option \<Rightarrow> store_state \<Rightarrow> store_state \<Rightarrow> plan_step list \<Rightarrow> 'a \<times> tool_call \<times> admission_certificate \<Rightarrow> bool" where
  "sound_execution R limit t plan target ctx approval s s' steps x \<longleftrightarrow> (case x of (a, call, certificate) \<Rightarrow>
     \<exists>step \<in> set steps. admitted_by R t plan target ctx approval step certificate call
       \<and> (\<exists>m. (store_step (rn_py R) limit)\<^sup>*\<^sup>* s m \<and> (store_step (rn_py R) limit)\<^sup>*\<^sup>* m s'
            \<and> condition_met m t (ps_condition step))
       \<and> journaled s' t (ps_step_id step)
       \<and> (\<forall>status. \<not> committed_with s t (ps_step_id step) status))"

definition called_step :: "'a \<times> tool_call \<times> admission_certificate \<Rightarrow> string" where
  "called_step x = tc_step_id (fst (snd x))"

lemma sound_execution_step:
  assumes "sound_execution R limit t plan target ctx approval s s' steps x"
  shows "called_step x \<in> ps_step_id ` set steps" "journaled s' t (called_step x)"
    "\<not> committed_with s t (called_step x) status"
proof -
  obtain a call certificate where x: "x = (a, call, certificate)" by (cases x)
  with assms obtain step where st: "step \<in> set steps"
      "admitted_by R t plan target ctx approval step certificate call"
      "journaled s' t (ps_step_id step)" "\<forall>status. \<not> committed_with s t (ps_step_id step) status"
    by (auto simp: sound_execution_def)
  then show "called_step x \<in> ps_step_id ` set steps" "journaled s' t (called_step x)"
    "\<not> committed_with s t (called_step x) status"
    using admitted_step_id [OF st(2)] x by (auto simp: called_step_def)
qed

lemma sound_execution_mono:
  assumes "sound_execution R limit t plan target ctx approval (wd_store w1) (wd_store w2) steps x"
    "moved (rn_py R) limit w w1" "moved (rn_py R) limit w2 w'" "run_inv (rn_py R) (wd_store w)"
    "run_inv (rn_py R) (wd_store w2)" "set steps \<subseteq> set steps'"
  shows "sound_execution R limit t plan target ctx approval (wd_store w) (wd_store w') steps' x"
proof -
  obtain a call certificate where x: "x = (a, call, certificate)" by (cases x)
  obtain step m where s: "step \<in> set steps" "admitted_by R t plan target ctx approval step certificate call"
      "(store_step (rn_py R) limit)\<^sup>*\<^sup>* (wd_store w1) m" "(store_step (rn_py R) limit)\<^sup>*\<^sup>* m (wd_store w2)"
      "condition_met m t (ps_condition step)" "journaled (wd_store w2) t (ps_step_id step)"
      "\<And>status. \<not> committed_with (wd_store w1) t (ps_step_id step) status"
    using assms(1) unfolding x sound_execution_def by auto
  have "(store_step (rn_py R) limit)\<^sup>*\<^sup>* (wd_store w) m" "(store_step (rn_py R) limit)\<^sup>*\<^sup>* m (wd_store w')"
    using s(3,4) assms(2,3) unfolding moved_def by (meson rtranclp_trans)+
  then show ?thesis
    using s assms(6) moved_committed [OF assms(2,4)] moved_journaled [OF assms(3,5)]
    unfolding x sound_execution_def by (simp, blast)
qed

lemma run_step_effect:
  assumes env: "lawful (rn_py R) limit N" "run_inv (rn_py R) (wd_store w)"
    and known: "results_backed (wd_store w) (tg_task_id g) (fst st)"
    and x: "run_step R N g plan target ctx approval step st w = (w', r)"
  shows "moved (rn_py R) limit w w'
     \<and> (executions (wd_effects w') = executions (wd_effects w)
        \<or> (\<exists>y. executions (wd_effects w') = executions (wd_effects w) @ [y]
             \<and> sound_execution R limit (tg_task_id g) plan target ctx approval (wd_store w) (wd_store w') [step] y))
     \<and> (step_answer w' (tg_task_id g) (ps_step_id step) st r
        \<or> r = Inr (Proceed st) \<and> cond_kind (ps_condition step) \<noteq> ALWAYS)"
  using x [unfolded run_step_def]
proof (cases rule: andthen_cases)
  case (raised e)
  from idleD [OF idle_condition [OF env(1)] raised(1)] raised(2) show ?thesis
    by (simp add: step_answer_def)
next
  case (went w1 holds)
  note m1 = idleD [OF idle_condition [OF env(1)] went(1)]
  have i1: "run_inv (rn_py R) (wd_store w1)" using moved_inv [OF m1(1) env(2)] .
  show ?thesis
  proof (cases holds)
    case False
    then have "cond_kind (ps_condition step) \<noteq> ALWAYS"
      using went(1) by (auto simp: condition_holds_def ret_def)
    with False went(2) m1 show ?thesis by (simp add: ret_def)
  next
    case True
    then have True_holds: "holds = True" by simp
    have met: "condition_met (wd_store w1) (tg_task_id g) (ps_condition step)"
      using condition_holds_met [OF env went(1) [unfolded True_holds] known] .
    from went(2) True_holds have "andthen (admit_step_of R N g plan target ctx approval step) (\<lambda>admitted.
       execute_step R N g plan target ctx step admitted st) w1 = (w', r)" by simp
    then show ?thesis
    proof (cases rule: andthen_cases)
      case (raised e)
      from idleD [OF idle_admit_step [OF env(1)] raised(1)] raised(2) m1 show ?thesis
        using moved_trans by (fastforce simp: step_answer_def)
    next
      case (went w2 ad)
      obtain certificate call where ad: "ad = (certificate, call)" by fastforce
      note m2 = idleD [OF idle_admit_step [OF env(1)] went(1)]
      have i2: "run_inv (rn_py R) (wd_store w2)" using moved_inv [OF m2(1) i1] .
      note adm = admit_step_admits [OF went(1) [unfolded ad]]
      note ex = execute_step_effect [OF env(1) i2 went(2) [unfolded ad]]
      have m: "moved (rn_py R) limit w w2" using moved_trans [OF m1(1) m2(1)] .
      have m3: "moved (rn_py R) limit w1 w'" using moved_trans [OF m2(1)] ex by blast
      have "sound_execution R limit (tg_task_id g) plan target ctx approval (wd_store w) (wd_store w')
          [step] (a, call, certificate)"
        if "journaled (wd_store w') (tg_task_id g) (ps_step_id step)"
          "\<forall>status. \<not> committed_with (wd_store w2) (tg_task_id g) (ps_step_id step) status" for a
        using that adm met m1(1) m3 moved_committed [OF m env(2)]
        by (auto simp: sound_execution_def moved_def)
      then show ?thesis
        using ex m1(2) m2(2) moved_trans [OF m] by (auto simp: step_executions_def)
    qed
  qed
qed

lemma results_adopted:
  "results_backed s t (fst st) \<Longrightarrow> adopted s t i st st' \<Longrightarrow> results_backed s t (fst st')"
  by (auto simp: results_backed_def adopted_def split: if_splits)

text \<open>
  The loop: the executions it adds are sound and of different steps; when it returns SUCCEEDED,
  nothing had failed and every unconditional step is committed as done.
\<close>

definition loop_executions ::
  "'a runner \<Rightarrow> int \<Rightarrow> string \<Rightarrow> execution_plan \<Rightarrow> resolved_target \<Rightarrow> request_context
     \<Rightarrow> approval_request option \<Rightarrow> 'a world \<Rightarrow> 'a world \<Rightarrow> plan_step list \<Rightarrow> bool" where
  "loop_executions R limit t plan target ctx approval w w' steps \<longleftrightarrow>
     (\<exists>xs. executions (wd_effects w') = executions (wd_effects w) @ xs \<and> distinct (map called_step xs)
        \<and> (\<forall>x \<in> set xs. sound_execution R limit t plan target ctx approval (wd_store w) (wd_store w') steps x))"

lemma loop_executions_none:
  "executions (wd_effects w') = executions (wd_effects w) \<Longrightarrow>
     loop_executions R limit t plan target ctx approval w w' steps"
  by (simp add: loop_executions_def)

lemma loop_executions_step:
  assumes m: "moved (rn_py R) limit w w1" "moved (rn_py R) limit w1 w'" "run_inv (rn_py R) (wd_store w)"
    and one: "executions (wd_effects w1) = executions (wd_effects w)
        \<or> (\<exists>y. executions (wd_effects w1) = executions (wd_effects w) @ [y]
             \<and> sound_execution R limit t plan target ctx approval (wd_store w) (wd_store w1) [step] y)"
    and rest: "loop_executions R limit t plan target ctx approval w1 w' steps"
    and new: "ps_step_id step \<notin> ps_step_id ` set steps"
  shows "loop_executions R limit t plan target ctx approval w w' (step # steps)"
proof -
  obtain xs where xs: "executions (wd_effects w') = executions (wd_effects w1) @ xs"
      "distinct (map called_step xs)"
      "\<And>x. x \<in> set xs \<Longrightarrow> sound_execution R limit t plan target ctx approval (wd_store w1) (wd_store w') steps x"
    using rest unfolding loop_executions_def by blast
  have i1: "run_inv (rn_py R) (wd_store w1)" and i2: "run_inv (rn_py R) (wd_store w')"
    using moved_inv m by blast+
  have up: "sound_execution R limit t plan target ctx approval (wd_store w) (wd_store w') (step # steps) x"
    if "x \<in> set xs" for x
    using sound_execution_mono [OF xs(3) [OF that] m(1) moved_refl m(3) i2, of "step # steps"]
    by (simp add: subset_insertI)
  from one show ?thesis
  proof
    assume "executions (wd_effects w1) = executions (wd_effects w)"
    then show ?thesis using xs(1,2) up unfolding loop_executions_def by auto
  next
    assume "\<exists>y. executions (wd_effects w1) = executions (wd_effects w) @ [y]
        \<and> sound_execution R limit t plan target ctx approval (wd_store w) (wd_store w1) [step] y"
    then obtain y where y: "executions (wd_effects w1) = executions (wd_effects w) @ [y]"
        "sound_execution R limit t plan target ctx approval (wd_store w) (wd_store w1) [step] y" by blast
    have "sound_execution R limit t plan target ctx approval (wd_store w) (wd_store w') (step # steps) y"
      using sound_execution_mono [OF y(2) moved_refl m(2,3) i1, of "step # steps"] by simp
    moreover have "called_step y \<notin> called_step ` set xs"
      using sound_execution_step(1) [OF y(2)] sound_execution_step(1) [OF xs(3)] new by auto
    ultimately show ?thesis using y(1) xs(1,2) up
      unfolding loop_executions_def by (intro exI [of _ "y # xs"]) auto
  qed
qed

lemma run_loop_effect:
  assumes "lawful (rn_py R) limit N" "run_inv (rn_py R) (wd_store w)"
    "results_backed (wd_store w) (tg_task_id g) (fst st)"
    "run_loop R N g plan target ctx approval steps st w = (w', r)" "distinct (map ps_step_id steps)"
  shows "moved (rn_py R) limit w w' \<and> loop_executions R limit (tg_task_id g) plan target ctx approval w w' steps"
  using assms(2-)
proof (induction steps arbitrary: st w)
  case Nil
  then have "make_outcome N (tg_task_id g) (if snd st then INDETERMINATE else SUCCEEDED) None w = (w', r)"
    by simp
  from idleD [OF idle_outcome [OF assms(1)] this] show ?case by (simp add: loop_executions_none)
next
  case (Cons step steps)
  obtain w1 a where s: "run_step R N g plan target ctx approval step st w = (w1, a)" by fastforce
  note e = run_step_effect [OF assms(1) Cons.prems(1,2) s]
  have i1: "run_inv (rn_py R) (wd_store w1)" using e moved_inv Cons.prems(1) by blast
  have new: "ps_step_id step \<notin> ps_step_id ` set steps" using Cons.prems(4) by simp
  show ?case
  proof (cases "\<exists>st'. a = Inr (Proceed st')")
    case True
    then obtain st' where a: "a = Inr (Proceed st')" by blast
    have "results_backed (wd_store w1) (tg_task_id g) (fst st)"
      using moved_results [OF _ Cons.prems(1,2)] e by blast
    then have known: "results_backed (wd_store w1) (tg_task_id g) (fst st')"
      using e a results_adopted by (fastforce simp: step_answer_def)
    have l: "run_loop R N g plan target ctx approval steps st' w1 = (w', r)"
      using Cons.prems(3) s a by (simp add: andthen_Inr)
    have "distinct (map ps_step_id steps)" using Cons.prems(4) by simp
    from Cons.IH [OF i1 known l this]
    have m2: "moved (rn_py R) limit w1 w'"
        "loop_executions R limit (tg_task_id g) plan target ctx approval w1 w' steps" by blast+
    have m1: "moved (rn_py R) limit w w1" using e by blast
    show ?thesis
      using moved_trans [OF m1 m2(1)] loop_executions_step [OF m1 m2(1) Cons.prems(1) _ m2(2) new] e
      by blast
  next
    case False
    then have "w' = w1"
      using Cons.prems(3) s by (auto simp: andthen_def ret_def split: sum.splits loop_result.splits)
    then show ?thesis
      using e loop_executions_step [OF _ moved_refl Cons.prems(1) _ loop_executions_none new] by blast
  qed
qed

lemma ok_status:
  "run_inv E s \<Longrightarrow> committed_with s t i status \<Longrightarrow> \<not> failed_status status \<Longrightarrow> status = STEP_OK"
  using inv_row(3) by (cases status) (fastforce simp: committed_with_iff failed_status_def)+

lemma run_loop_succeeds:
  assumes "lawful (rn_py R) limit N" "run_inv (rn_py R) (wd_store w)"
    "results_backed (wd_store w) (tg_task_id g) (fst st)"
    "run_loop R N g plan target ctx approval steps st w = (w', Inr out)" "to_status out = SUCCEEDED"
    "distinct (map ps_step_id steps)"
  shows "\<not> snd st \<and> (\<forall>step \<in> set steps. cond_kind (ps_condition step) = ALWAYS \<longrightarrow>
     committed_with (wd_store w') (tg_task_id g) (ps_step_id step) STEP_OK)"
  using assms(2-)
proof (induction steps arbitrary: st w)
  case Nil
  then have "make_outcome N (tg_task_id g) (if snd st then INDETERMINATE else SUCCEEDED) None w
      = (w', Inr out)" by simp
  from outcome_status [OF this] Nil.prems(4) show ?case by (auto split: if_splits)
next
  case (Cons step steps)
  obtain w1 a where s: "run_step R N g plan target ctx approval step st w = (w1, a)" by fastforce
  note e = run_step_effect [OF assms(1) Cons.prems(1,2) s]
  have i1: "run_inv (rn_py R) (wd_store w1)" using e moved_inv Cons.prems(1) by blast
  obtain st' where a: "a = Inr (Proceed st')"
    using Cons.prems(3,4) s e
    by (auto simp: andthen_def ret_def step_answer_def split: sum.splits loop_result.splits)
  have l: "run_loop R N g plan target ctx approval steps st' w1 = (w', Inr out)"
    using Cons.prems(3) s a by (simp add: andthen_Inr)
  have m: "moved (rn_py R) limit w w1" using e by blast
  note known = moved_results [OF m Cons.prems(1,2)]
  show ?case
  proof (cases "adopted (wd_store w1) (tg_task_id g) (ps_step_id step) st st'")
    case True
    then obtain status where st: "committed_with (wd_store w1) (tg_task_id g) (ps_step_id step) status"
        "st' = (dset (ps_step_id step) status (fst st), failed_status status \<or> snd st)"
      unfolding adopted_def by blast
    have d: "distinct (map ps_step_id steps)" using Cons.prems(5) by simp
    note rest = Cons.IH [OF i1 results_adopted [OF known True] l Cons.prems(4) d]
    have "\<not> failed_status status \<and> \<not> snd st" using rest st(2) by simp
    moreover from this have "committed_with (wd_store w1) (tg_task_id g) (ps_step_id step) STEP_OK"
      using ok_status [OF i1 st(1)] st(1) by simp
    moreover have "moved (rn_py R) limit w1 w'"
      using run_loop_effect [OF assms(1) i1 results_adopted [OF known True] l d] by blast
    ultimately show ?thesis using rest moved_committed [OF _ i1] by auto
  next
    case False
    then have "st' = st \<and> cond_kind (ps_condition step) \<noteq> ALWAYS" using e a by (simp add: step_answer_def)
    with Cons.IH [OF i1 _ l Cons.prems(4)] known Cons.prems(5) show ?thesis by auto
  qed
qed

subsection \<open>The journal as the runner reads it\<close>

lemma loaded_row:
  assumes "run_inv E s"
  shows "x \<in> set (load_step_executions s t) \<longleftrightarrow> dget (st_step_executions s) (t, se_step_id x) = Some x"
proof -
  have d: "dict_ok (st_step_executions s)" using assms by (simp add: run_inv_def store_inv_def steps_inv_def)
  have "x \<in> set (load_step_executions s t) \<longleftrightarrow> (\<exists>i. dget (st_step_executions s) (t, i) = Some x)"
    by (auto simp: load_step_executions_def mem_dget [OF d] image_iff)
  then show ?thesis using inv_row(2) [OF assms] by blast
qed

lemma recorded_results_from:
  "dget (fold (\<lambda>x results. case se_result_status x of
     None \<Rightarrow> results | Some status \<Rightarrow> dset (se_step_id x) status results) xs acc) i = Some st \<Longrightarrow>
     dget acc i = Some st \<or> (\<exists>x \<in> set xs. se_step_id x = i \<and> se_result_status x = Some st)"
  by (induction xs arbitrary: acc) (fastforce split: option.splits if_splits)+

lemma recorded_results_backed:
  assumes "run_inv E s"
  shows "results_backed s t (recorded_results (load_step_executions s t))"
  unfolding results_backed_def
proof (intro allI impI)
  fix i st assume "dget (recorded_results (load_step_executions s t)) i = Some st"
  then obtain x where "x \<in> set (load_step_executions s t)" "se_step_id x = i" "se_result_status x = Some st"
    using recorded_results_from [of _ "[]"] unfolding recorded_results_def by fastforce
  then show "committed_with s t i st" using loaded_row [OF assms] by (auto simp: committed_with_iff)
qed

lemma recorded_failure:
  assumes "run_inv E s" "committed_with s t i status" "failed_status status"
  shows "any_failed (load_step_executions s t)"
proof -
  obtain x where x: "dget (st_step_executions s) (t, i) = Some x" "se_result_status x = Some status"
    using assms(2) by (auto simp: committed_with_iff)
  then have "x \<in> set (load_step_executions s t)" using loaded_row [OF assms(1)] inv_row(2) [OF assms(1)] by simp
  then show ?thesis using x(2) assms(3) by (force simp: any_failed_def list_ex_iff failed_status_def)
qed

lemma attempts_cover_rows:
  assumes "run_inv E s" "distinct is" "\<And>i. i \<in> set is \<Longrightarrow> journaled s t i"
  shows "int (length is) \<le> attempts_used s t"
proof -
  let ?rows = "filter (\<lambda>p. fst (fst p) = t) (st_step_executions s)"
  have d: "dict_ok (st_step_executions s)" using assms(1) by (simp add: run_inv_def store_inv_def steps_inv_def)
  have "i \<in> (\<lambda>p. snd (fst p)) ` set ?rows" if i: "i \<in> set is" for i
  proof -
    obtain x where "dget (st_step_executions s) (t, i) = Some x" using assms(3) [OF i] by (auto simp: journaled_def)
    then have "((t, i), x) \<in> set ?rows" using dget_mem by fastforce
    then show ?thesis by force
  qed
  then have "card (set is) \<le> card ((\<lambda>p. snd (fst p)) ` set ?rows)" by (intro card_mono) auto
  also have "\<dots> \<le> length ?rows" using card_image_le [of "set ?rows"] card_length [of ?rows] le_trans by blast
  finally have "int (length is) \<le> int (length ?rows)" using distinct_card [OF assms(2)] by simp
  moreover have "p \<in> set ?rows \<Longrightarrow> 1 \<le> se_attempt_count (snd p)" for p
    using inv_row(4) [OF assms(1)] mem_dget [OF d] by (cases p) fastforce
  then have "int (length ?rows) \<le> sum_list (map (\<lambda>p. se_attempt_count (snd p)) ?rows)"
    using sum_list_mono [of ?rows "\<lambda>_. 1 :: int"] by (simp add: sum_list_triv)
  ultimately show ?thesis by (simp add: attempts_used_def)
qed

lemma rows_within_budget:
  assumes "run_inv E s" "distinct is" "\<And>i. i \<in> set is \<Longrightarrow> journaled s t i" "is \<noteq> []"
  shows "\<exists>p. dget (st_plans s) t = Some p \<and> int (length is) \<le> pb_max_tool_calls (ep_budget (sp_plan p))"
proof -
  have "0 < attempts_used s t" using attempts_cover_rows [OF assms(1-3)] assms(4) by (cases "is") auto
  then obtain p where "dget (st_plans s) t = Some p" "attempts_used s t \<le> pb_max_tool_calls (ep_budget (sp_plan p))"
    using assms(1) unfolding run_inv_def store_inv_def budget_inv_def by (metis less_irrefl)
  with attempts_cover_rows [OF assms(1-3)] show ?thesis by fastforce
qed

subsection \<open>Whole runs\<close>

lemma read_cases:
  assumes "lawful E limit N" "await_read N f w = (w', r)"
  obtains "moved E limit w w'" "executions (wd_effects w') = executions (wd_effects w)" "r = Inr (f (wd_store w'))"
  using assms idleD [OF idle_await_read [OF assms(1)] assms(2)]
  by (auto simp: await_read_def elim!: await_cases)

lemma run_steps_cases:
  assumes "lawful E limit N" "run_steps R N g plan target ctx approval slots w = (w', r)"
  obtains (raised) e where "moved E limit w w'" "executions (wd_effects w') = executions (wd_effects w)" "r = Inl e"
  | (looped) w1 where "moved E limit w w1" "executions (wd_effects w1) = executions (wd_effects w)"
      "run_loop R N g plan target ctx approval (ep_steps plan)
         (recorded_results (load_step_executions (wd_store w1) (tg_task_id g)),
          any_failed (load_step_executions (wd_store w1) (tg_task_id g))) w1 = (w', r)"
  using assms(2) [unfolded run_steps_def]
proof (cases rule: andthen_cases)
  case (raised e)
  then show thesis using idleD [OF idle_disclose [OF assms(1)] raised(1)] that(1) by blast
next
  case (went w1 u)
  note d = idleD [OF idle_disclose [OF assms(1)] went(1)]
  from went(2) show thesis
  proof (cases rule: andthen_cases)
    case (raised e)
    then show thesis using read_cases [OF assms(1) raised(1)] by blast
  next
    case (went w2 recorded)
    then show thesis
      using read_cases [OF assms(1) went(1)] d that(2) moved_trans [OF d(1)] by (metis Inr_inject)
  qed
qed

lemma well_formed_distinct:
  "steps_well_formed seen steps \<Longrightarrow> distinct (map ps_step_id steps) \<and> seen \<inter> ps_step_id ` set steps = {}"
proof (induction steps arbitrary: seen)
  case (Cons a steps)
  then have a: "ps_step_id a \<notin> seen" and rest: "steps_well_formed (insert (ps_step_id a) seen) steps"
    by (simp_all split: if_splits)
  from Cons.IH [OF rest] a show ?case by auto
qed simp

lemma plan_steps_distinct: "execution_plan_ok plan \<Longrightarrow> distinct (map ps_step_id (ep_steps plan))"
  using well_formed_distinct unfolding execution_plan_ok_def by blast

lemma run_steps_effect:
  assumes "lawful (rn_py R) limit N" "run_inv (rn_py R) (wd_store w)" "execution_plan_ok plan"
    "run_steps R N g plan target ctx approval slots w = (w', r)"
  shows "moved (rn_py R) limit w w'
     \<and> loop_executions R limit (tg_task_id g) plan target ctx approval w w' (ep_steps plan)"
  using assms(1,4)
proof (cases rule: run_steps_cases)
  case (looped w1)
  have i1: "run_inv (rn_py R) (wd_store w1)" using moved_inv [OF looped(1) assms(2)] .
  from run_loop_effect [OF assms(1) i1 _ looped(3) plan_steps_distinct [OF assms(3)]]
  have m: "moved (rn_py R) limit w1 w'"
      "loop_executions R limit (tg_task_id g) plan target ctx approval w1 w' (ep_steps plan)"
    using recorded_results_backed [OF i1] by simp_all
  then have "loop_executions R limit (tg_task_id g) plan target ctx approval w w' (ep_steps plan)"
    using looped(2) sound_execution_mono [OF _ looped(1) moved_refl assms(2) moved_inv [OF m(1) i1]]
    unfolding loop_executions_def by (metis order_refl)
  then show ?thesis using moved_trans [OF looped(1) m(1)] by blast
qed (simp_all add: loop_executions_none)

lemma run_steps_succeeds:
  assumes "lawful (rn_py R) limit N" "run_inv (rn_py R) (wd_store w)" "execution_plan_ok plan"
    "run_steps R N g plan target ctx approval slots w = (w', Inr out)" "to_status out = SUCCEEDED"
  shows "(\<forall>step \<in> set (ep_steps plan). cond_kind (ps_condition step) = ALWAYS \<longrightarrow>
       committed_with (wd_store w') (tg_task_id g) (ps_step_id step) STEP_OK)
     \<and> (\<forall>i status. committed_with (wd_store w) (tg_task_id g) i status \<longrightarrow> \<not> failed_status status)"
  using assms(1,4)
proof (cases rule: run_steps_cases)
  case (looped w1)
  have i1: "run_inv (rn_py R) (wd_store w1)" using moved_inv [OF looped(1) assms(2)] .
  from run_loop_succeeds [OF assms(1) i1 _ looped(3) assms(5) plan_steps_distinct [OF assms(3)]]
  have "\<not> any_failed (load_step_executions (wd_store w1) (tg_task_id g))"
      "\<forall>step \<in> set (ep_steps plan). cond_kind (ps_condition step) = ALWAYS \<longrightarrow>
         committed_with (wd_store w') (tg_task_id g) (ps_step_id step) STEP_OK"
    using recorded_results_backed [OF i1] by simp_all
  then show ?thesis
    using recorded_failure [OF i1] moved_committed [OF looped(1) assms(2)] by blast
qed simp

end
