(* ===== verification/Runner_Demo.thy ===== *)
theory Runner_Demo
  imports Runner_Runs Governance_Claims
begin

text \<open>
  A demonstration run of the step runner: a task in RUNNING with a stored plan of one read, a runner
  over the demonstration capability and gateway, and an environment in which nobody else moves.
\<close>

definition demo_plan_store :: "step_execution_record list \<Rightarrow> store_state" where
  "demo_plan_store rows = demo_store\<lparr>st_plans := [(''t1'', \<lparr>sp_plan = demo_op_plan False, sp_target = demo_target\<rparr>)],
     st_step_executions := map (\<lambda>x. ((''t1'', ''step-1''), x)) rows\<rparr>"

definition demo_runner :: "unit runner" where
  "demo_runner = \<lparr>rn_py = demo_env, rn_guards = demo_guards, rn_gate = never_granting_gate demo_env,
     rn_execution_for = demo_binding_for, rn_disclosable = (\<lambda>plan target slots. True),
     rn_build_evidence = (\<lambda>t step plan target result now. BuilderRaised), rn_snapshot = demo_snapshot False,
     rn_policies = demo_policies, rn_gateway = demo_gateway, rn_lease_ttl = 60\<rparr>"

definition demo_still :: "unit environment" where
  "demo_still = \<lparr>en_moves = (\<lambda>n s. s), en_clock = (\<lambda>n. 5), en_uuid = (\<lambda>n. ''event-1''),
     en_execute = (\<lambda>n a call ctx. TimedOut)\<rparr>"

definition demo_world :: "step_execution_record list \<Rightarrow> unit world" where
  "demo_world rows = \<lparr>wd_tick = 0, wd_store = demo_plan_store rows, wd_effects = []\<rparr>"

lemma demo_lawful: "lawful E limit demo_still"
  by (simp add: lawful_def demo_still_def)

lemma demo_op_plan_ok: "execution_plan_ok (demo_op_plan False)"
  by (simp add: execution_plan_ok_def demo_op_plan_def demo_plan_def demo_op_step_def
        demo_step_def plan_step_ok_def frozen_map_ok_def step_condition_ok_def demo_condition_def
        present_operands_def plan_budget_ok_def PLAN_SCHEMA_VERSION_def)

text \<open>A row of the journal of the demonstration task.\<close>

definition demo_row_ok :: "step_execution_record \<Rightarrow> bool" where
  "demo_row_ok x \<longleftrightarrow> step_execution_record_ok x \<and> se_task_id x = ''t1'' \<and> se_step_id x = ''step-1''
     \<and> se_last_fencing_token x = 1 \<and> se_attempt_count x = 1"

lemma demo_plan_store_inv:
  assumes "length rows \<le> 1" "list_all demo_row_ok rows"
  shows "run_inv demo_env (demo_plan_store rows)"
proof -
  have s: "store_inv demo_env demo_store" using demo_run_inv by (simp add: run_inv_def)
  have q: "quiet demo_store (demo_plan_store rows)" by (simp add: quiet_def demo_plan_store_def)
  have b: "pb_max_tool_calls (ep_budget (demo_op_plan False)) = 2" by (simp add: demo_op_plan_def demo_plan_def)
  have n: "st_next_fencing_token demo_store = 2" by (simp add: demo_store_def)
  have rows: "rows = [] \<or> (\<exists>x. rows = [x])" using assms(1) by (cases rows) auto
  have "steps_inv (demo_plan_store rows)" "budget_inv (demo_plan_store rows)"
    using assms b n rows
    by (auto simp: steps_inv_def budget_inv_def demo_plan_store_def demo_row_ok_def attempts_used_def
        dict_ok_def split: if_splits)
  moreover have "plans_wf (demo_plan_store rows)"
    using demo_op_plan_ok by (simp add: plans_wf_def demo_plan_store_def)
  moreover have "sql_inv demo_env (demo_plan_store rows)"
    using s by (simp add: store_inv_def sql_inv_def demo_plan_store_def)
  ultimately show ?thesis
    using s q demo_env_ok
    by (simp add: run_inv_def store_inv_def quiet_tasks_inv quiet_seqs_inv quiet_keys_inv)
qed

subsection \<open>The prefix of the run\<close>

text \<open>
  \<open>demo_at rows w\<close>: the world somewhere in the run, before the step: the grant is current, the plan
  and the journal are the first ones, nothing has been executed.
\<close>

definition demo_at :: "step_execution_record list \<Rightarrow> unit world \<Rightarrow> bool" where
  "demo_at rows w \<longleftrightarrow> (\<exists>until. 5 < until \<and> dget (st_tasks (wd_store w)) ''t1''
        = Some (demo_running\<lparr>tr_lease_expires_at := Some until\<rparr>))
     \<and> st_plans (wd_store w) = st_plans (demo_plan_store rows)
     \<and> st_step_executions (wd_store w) = st_step_executions (demo_plan_store rows)
     \<and> st_evidence (wd_store w) = [] \<and> executions (wd_effects w) = []"

lemma demo_at_start: "demo_at rows (demo_world rows)"
proof -
  have "demo_running = demo_running\<lparr>tr_lease_expires_at := Some (seconds 60)\<rparr>"
    by (simp add: demo_running_def demo_created_def)
  moreover have "dget (st_tasks (demo_plan_store rows)) ''t1'' = Some demo_running"
    "st_evidence (demo_plan_store rows) = []"
    by (simp_all add: demo_plan_store_def demo_store_def empty_store_def)
  ultimately show ?thesis
    unfolding demo_at_def demo_world_def by (auto intro!: exI [of _ "seconds 60"] simp: seconds_def)
qed

lemma demo_running_lease_ok: "task_record_ok (demo_running\<lparr>tr_lease_expires_at := Some until\<rparr>)"
  using demo_records_ok(2) by (simp add: task_record_ok_def demo_running_def lease_fields_ok_def retry_fields_ok_def demo_created_def)

lemma demo_renews:
  assumes "demo_at rows w"
  shows "\<exists>w'. require_current_grant demo_runner demo_still demo_grant w = (w', Inr ()) \<and> demo_at rows w'"
proof -
  obtain until where u: "5 < until"
      "dget (st_tasks (wd_store w)) ''t1'' = Some (demo_running\<lparr>tr_lease_expires_at := Some until\<rparr>)"
    using assms by (auto simp: demo_at_def)
  have "lease_command_ok \<lparr>lc_task_id = ''t1'', lc_owner = ''worker-a'', lc_ttl_seconds = 60, lc_fencing_token = Some 1\<rparr>"
    "lease_grant_ok \<lparr>lg_task_id = ''t1'', lg_owner = ''worker-a'', lg_expires_at = 5 + seconds 60, lg_fencing_token = 1\<rparr>"
    by (simp_all add: lease_command_ok_def lease_grant_ok_def)
  then show ?thesis
    using assms u demo_running_lease_ok
    by (simp add: require_current_grant_def andthen_def await_def Let_def lift_def renew_lease_def
        require_task_def demo_grant_def demo_runner_def demo_still_def may_renew_lease_def lease_is_live_def
        revalidate_def ret_def demo_at_def seconds_def)
      (simp add: demo_running_def demo_created_def TERMINAL_STATUSES_def)
qed

lemma demo_keeps:
  "demo_at rows w \<Longrightarrow> demo_at rows (w\<lparr>wd_tick := n\<rparr>)"
  "demo_at rows w \<Longrightarrow> demo_at rows (w\<lparr>wd_effects := wd_effects w @ [Logged event delivery]\<rparr>)"
  "demo_at rows w \<Longrightarrow> demo_at rows (w\<lparr>wd_store := (wd_store w)\<lparr>st_audit_events := ledger\<rparr>\<rparr>)"
  by (simp_all add: demo_at_def)

lemma demo_emits:
  assumes "demo_at rows w" "stage \<noteq> STG_MODEL" "opt_all strict_str i"
  shows "\<exists>w'. emit_stage demo_still stage outcome demo_context ''t1'' (demo_op_plan False) i 1 w = (w', Inr ())
     \<and> demo_at rows w'"
proof -
  let ?e = "\<lparr>te_event_id = ''event-1'', te_trace_id = rc_trace_id demo_context, te_task_id = Some ''t1'',
      te_stage = stage, te_outcome = outcome, te_occurred_at = 5,
      te_capability_id = Some (ep_capability_id (demo_op_plan False)), te_step_id = i,
      te_policy_revision = Some (rc_policy_revision demo_context), te_attempt_number = Some 1,
      te_error = None, te_detail = [], te_model = None\<rparr>"
  have "trace_event_ok ?e"
    using assms(2,3) by (simp add: trace_event_ok_def trace_detail_ok_def demo_context_def demo_op_plan_def demo_plan_def)
  then have make: "make_event demo_still stage outcome demo_context ''t1'' (demo_op_plan False) i 1 None w
      = (w\<lparr>wd_tick := Suc (Suc (wd_tick w))\<rparr>, Inr ?e)"
    by (simp add: make_event_def andthen_def fresh_uuid_def read_clock_def build_def lift_def revalidate_def
        demo_still_def)
  have "\<exists>w'. emit demo_still ?e LOG_AND_DURABLE v = (w', Inr ()) \<and> demo_at rows w'" if "demo_at rows v" for v
    using that by (auto simp: emit_def andthen_def attempt_def await_def lift_def Let_def record_audit_event_def
        show_effect_def demo_still_def demo_at_def split: prod.splits)
  from this [OF demo_keeps(1) [OF assms(1)]] make show ?thesis
    by (simp add: emit_stage_def andthen_Inr)
qed

lemma demo_reads:
  assumes "demo_at rows w"
  shows "\<exists>w' r. lookup_task demo_still ''t1'' demo_context w = (w', Inr r) \<and> demo_at rows w'
     \<and> tr_status r = RUNNING"
  using assms
  by (auto simp: lookup_task_def await_def Let_def lift_def get_task_def require_task_def demo_still_def
      demo_at_def demo_context_def demo_running_def demo_created_def)

lemma demo_loads:
  assumes "demo_at rows w"
  shows "\<exists>w'. await demo_still PlanStoreRaised (\<lambda>s now now'. (s, load_plan s ''t1'')) w
       = (w', Inr \<lparr>sp_plan = demo_op_plan False, sp_target = demo_target\<rparr>) \<and> demo_at rows w'"
  using assms by (auto simp: await_def Let_def lift_def load_plan_def demo_still_def demo_at_def demo_plan_store_def)

lemma demo_loads_journal:
  assumes "demo_at rows w" "length rows \<le> 1"
  shows "\<exists>w'. await_read demo_still (\<lambda>s. load_step_executions s ''t1'') w = (w', Inr rows) \<and> demo_at rows w'"
proof -
  have "rows = [] \<or> (\<exists>x. rows = [x])" using assms(2) by (cases rows) auto
  then show ?thesis
    using assms(1) by (auto simp: await_read_def await_def Let_def lift_def load_step_executions_def
        demo_still_def demo_at_def demo_plan_store_def)
qed

lemma demo_undrifted:
  "verify_no_drift demo_runner \<lparr>sp_plan = demo_op_plan False, sp_target = demo_target\<rparr> (demo_op_plan False)
     demo_target demo_context w = (w, Inr ())"
proof -
  have "ep_policy_revision (demo_op_plan False) = rc_policy_revision demo_context"
    by (simp add: demo_op_plan_def demo_plan_def demo_context_def)
  then show ?thesis
    using demo_op_hashes(1) [of False] demo_op_hashes(3)
    by (simp add: verify_no_drift_def andthen_def lift_def demo_runner_def ret_def)
qed

lemma demo_admits:
  assumes "demo_at rows w"
  shows "\<exists>c w'. admit_step_of demo_runner demo_still demo_grant (demo_op_plan False) demo_target demo_context
       (Some (demo_approval False)) (demo_op_step False) w = (w', Inr (c, demo_op_call demo_key)) \<and> demo_at rows w'
     \<and> fst (invoke demo_env (\<lambda>a call ctx. TimedOut) demo_gateway (demo_op_call demo_key) demo_context c 5 5) = Some ()"
proof -
  obtain c where c: "runner_admit demo_env demo_guards (never_granting_gate demo_env) demo_binding_for
      (demo_snapshot False) demo_policies ''t1'' (demo_op_step False) (demo_op_plan False) demo_target
      demo_context (Some (demo_approval False)) 5 = Inr (c, demo_op_call demo_key)"
    and i: "fst (invoke demo_env (\<lambda>a call ctx. TimedOut) demo_gateway (demo_op_call demo_key) demo_context c 5 5)
      = Some ()"
    using demo_reached by blast
  let ?w = "w\<lparr>wd_tick := Suc (wd_tick w)\<rparr>"
  have a: "attempt (admit demo_runner demo_still ''t1'' (demo_op_step False) (demo_op_plan False) demo_target
      demo_context (Some (demo_approval False))) w = (?w, Inr (Inr (c, demo_op_call demo_key)))"
    using c by (simp add: attempt_def admit_def andthen_def read_clock_def lift_def demo_runner_def demo_still_def)
  have "opt_all strict_str (Some (ps_step_id (demo_op_step False)))"
    by (simp add: demo_op_step_def demo_step_def)
  then obtain w' where e: "emit_stage demo_still STG_ADMISSION OUT_OK demo_context ''t1'' (demo_op_plan False)
      (Some (ps_step_id (demo_op_step False))) 1 ?w = (w', Inr ())" "demo_at rows w'"
    using demo_emits [OF demo_keeps(1) [OF assms]] by blast
  have "tg_task_id demo_grant = ''t1''" "tg_attempt_number demo_grant = 1" by (simp_all add: demo_grant_def)
  then show ?thesis
    using a e i by (auto simp: admit_step_of_def Let_def andthen_Inr ret_def)
qed

text \<open>The run up to its loop.\<close>

abbreviation demo_resume where
  "demo_resume \<equiv> resume demo_runner demo_still demo_grant None (demo_op_plan False) demo_context demo_target
     (Some (demo_approval False)) None"

lemma demo_grant_fields [simp]:
  "tg_task_id demo_grant = ''t1''" "tg_attempt_number demo_grant = 1" "tg_fencing_token demo_grant = 1"
  by (simp_all add: demo_grant_def)

lemma demo_resumes:
  assumes "length rows \<le> 1"
  shows "\<exists>w. demo_at rows w \<and> demo_resume (demo_world rows) =
     run_loop demo_runner demo_still demo_grant (demo_op_plan False) demo_target demo_context
       (Some (demo_approval False)) [demo_op_step False] (recorded_results rows, any_failed rows) w"
proof -
  obtain w1 where 1: "require_current_grant demo_runner demo_still demo_grant (demo_world rows) = (w1, Inr ())"
      "demo_at rows w1" using demo_renews [OF demo_at_start] by blast
  obtain w2 where 2: "await demo_still PlanStoreRaised (\<lambda>s now now'. (s, load_plan s ''t1'')) w1
       = (w2, Inr \<lparr>sp_plan = demo_op_plan False, sp_target = demo_target\<rparr>)" "demo_at rows w2"
    using demo_loads [OF 1(2)] by blast
  obtain w3 r where 3: "lookup_task demo_still ''t1'' demo_context w2 = (w3, Inr r)" "demo_at rows w3"
      "tr_status r = RUNNING" using demo_reads [OF 2(2)] by blast
  obtain w4 where 4: "emit_stage demo_still STG_DISCLOSURE OUT_OK demo_context ''t1'' (demo_op_plan False) None 1 w3
      = (w4, Inr ())" "demo_at rows w4" using demo_emits [OF 3(2), of STG_DISCLOSURE None OUT_OK] by auto
  obtain w5 where 5: "await_read demo_still (\<lambda>s. load_step_executions s ''t1'') w4 = (w5, Inr rows)"
      "demo_at rows w5" using demo_loads_journal [OF 4(2) assms] by blast
  have "ep_steps (demo_op_plan False) = [demo_op_step False]" by (simp add: demo_op_plan_def)
  moreover have "disclose demo_runner demo_still demo_grant (demo_op_plan False) demo_target demo_context None w3
      = (w4, Inr ())" using 4(1) by (simp add: disclose_def Let_def demo_runner_def)
  ultimately show ?thesis
    using 1 2 3 5 demo_undrifted
    by (auto simp: resume_def run_steps_def andthen_Inr verify_external_input_def ret_def)
qed

lemma demo_condition_holds: "condition_holds demo_still ''t1'' (ps_condition (demo_op_step False)) results w = (w, Inr True)"
  by (simp add: condition_holds_def demo_op_step_def demo_step_def demo_condition_def ret_def)

lemma demo_grant_ok: "step_attempt_command_ok \<lparr>sac_grant = demo_grant, sac_step_id = ''step-1''\<rparr>"
  by (simp add: step_attempt_command_ok_def task_attempt_grant_ok_def lease_grant_ok_def demo_grant_def)

text \<open>The reservation: a new row proceeds, a committed row is adopted.\<close>

lemma demo_current:
  assumes "demo_at rows w"
  shows "\<exists>r. dget (st_tasks (wd_store w)) ''t1'' = Some r \<and> tr_task_id r = ''t1''
     \<and> grant_is_current r demo_grant 5 {RUNNING} = None"
proof -
  obtain until where "5 < until"
      "dget (st_tasks (wd_store w)) ''t1'' = Some (demo_running\<lparr>tr_lease_expires_at := Some until\<rparr>)"
    using assms by (auto simp: demo_at_def)
  then show ?thesis
    by (simp add: grant_is_current_def demo_running_def demo_created_def demo_grant_def lease_is_live_def
        TERMINAL_STATUSES_def)
qed

lemma demo_begins:
  assumes "demo_at [] w"
  shows "\<exists>w' res. await demo_still StoreRaised (\<lambda>s now now'. begin_step_attempt s
       \<lparr>sac_grant = demo_grant, sac_step_id = ''step-1''\<rparr> now now') w = (w', Inr res)
     \<and> sar_decision res = SA_PROCEED \<and> executions (wd_effects w') = []"
proof -
  obtain r where r: "dget (st_tasks (wd_store w)) ''t1'' = Some r" "tr_task_id r = ''t1''"
      "grant_is_current r demo_grant 5 {RUNNING} = None"
    using demo_current [OF assms] by blast
  let ?x = "\<lparr>se_task_id = ''t1'', se_step_id = ''step-1'', se_attempt_count = 1, se_last_fencing_token = 1,
      se_result_status = None, se_kind = None, se_evidence_id = None, se_commit_digest = None,
      se_started_at = 5, se_committed_at = None\<rparr>"
  have "step_execution_record_ok ?x" by (simp add: step_execution_record_ok_def)
  moreover have "st_step_executions (wd_store w) = []"
    "dget (st_plans (wd_store w)) ''t1'' = Some \<lparr>sp_plan = demo_op_plan False, sp_target = demo_target\<rparr>"
    "executions (wd_effects w) = []"
    using assms by (simp_all add: demo_at_def demo_plan_store_def)
  moreover have "map ps_step_id (ep_steps (demo_op_plan False)) = [''step-1'']"
    "pb_max_tool_calls (ep_budget (demo_op_plan False)) = 2"
    by (simp_all add: demo_op_plan_def demo_op_step_def demo_step_def demo_plan_def)
  ultimately show ?thesis
    using r by (simp add: await_def Let_def lift_def demo_still_def begin_step_attempt_def require_task_def
        attempts_used_def revalidate_def step_attempt_answer_def step_attempt_result_ok_def)
qed

text \<open>With an empty journal the read is executed, once, and nothing is executed after it.\<close>

lemma demo_executes:
  "\<exists>w' r c. demo_resume (demo_world []) = (w', r)
     \<and> executions (wd_effects w') = [((), demo_op_call demo_key, c)]"
proof -
  let ?run = "\<lambda>f. f demo_runner demo_still demo_grant (demo_op_plan False) demo_target demo_context"
  obtain w where w: "demo_at [] w" "demo_resume (demo_world []) =
     ?run run_loop (Some (demo_approval False)) [demo_op_step False] ([], False) w"
    using demo_resumes [of "[]"] by (auto simp: recorded_results_def any_failed_def)
  obtain c w1 where a: "?run admit_step_of (Some (demo_approval False)) (demo_op_step False) w
      = (w1, Inr (c, demo_op_call demo_key))" "demo_at [] w1"
     "fst (invoke demo_env (\<lambda>a call ctx. TimedOut) demo_gateway (demo_op_call demo_key) demo_context c 5 5) = Some ()"
    using demo_admits [OF w(1)] by blast
  obtain w2 res where b: "await demo_still StoreRaised (\<lambda>s now now'. begin_step_attempt s
       \<lparr>sac_grant = demo_grant, sac_step_id = ''step-1''\<rparr> now now') w1 = (w2, Inr res)"
     "sar_decision res = SA_PROCEED" "executions (wd_effects w2) = []"
    using demo_begins [OF a(2)] by blast
  obtain y where y: "invoke demo_env (\<lambda>a call ctx. TimedOut) demo_gateway (demo_op_call demo_key) demo_context c 5 5
      = (Some (), y)" using a(3) by (metis prod.collapse)
  define w3 where "w3 = w2\<lparr>wd_tick := Suc (Suc (wd_tick w2)),
      wd_effects := wd_effects w2 @ [Executed () (demo_op_call demo_key) c]\<rparr>"
  define outcome where "outcome = (case y of Inl e \<Rightarrow> Inl (GatewayRaised e) | Inr b \<Rightarrow> Inr b)"
  have g: "attempt (call_gateway demo_runner demo_still (demo_op_call demo_key) demo_context c) w2
      = (w3, Inr outcome)" "executions (wd_effects w3) = [((), demo_op_call demo_key, c)]"
    using y b(3) by (simp_all add: attempt_def call_gateway_def Let_def lift_def demo_runner_def demo_still_def
        w3_def outcome_def split: sum.split)
  have step: "ps_step_id (demo_op_step False) = ''step-1''" by (simp add: demo_op_step_def demo_step_def)
  let ?rest = "andthen (andthen (record_result demo_runner demo_still demo_grant (demo_op_plan False) demo_target
      demo_context (demo_op_step False) outcome) (\<lambda>record. andthen (adopt_step_record record ([], False))
      (\<lambda>st'. ret (Proceed st')))) (\<lambda>r. case r of
        Proceed st' \<Rightarrow> ?run run_loop (Some (demo_approval False)) [] st' | Finished out \<Rightarrow> ret out)"
  have "demo_resume (demo_world []) = ?rest w3"
    using w(2) a(1) b(1,2) g(1) step demo_condition_holds demo_grant_ok
    by (simp add: run_step_def execute_step_def andthen_assoc andthen_Inr build_def lift_def revalidate_def)
  moreover have i: "idle demo_env 3 ?rest"
  proof (intro idle_andthen idle_adopt idle_ret)
    have "rn_py demo_runner = demo_env" by (simp add: demo_runner_def)
    then show "idle demo_env 3 (record_result demo_runner demo_still demo_grant (demo_op_plan False) demo_target
        demo_context (demo_op_step False) outcome)"
      using idle_record_result [of demo_runner 3 demo_still] demo_lawful by metis
  next
    fix b show "idle demo_env 3 (case b of Proceed st' \<Rightarrow> ?run run_loop (Some (demo_approval False)) [] st'
        | Finished out \<Rightarrow> ret out)"
      by (cases b) (simp_all add: idle_outcome [OF demo_lawful] idle_ret)
  qed
  moreover obtain w4 r where r: "?rest w3 = (w4, r)" by (cases "?rest w3")
  moreover have "executions (wd_effects w4) = [((), demo_op_call demo_key, c)]"
    using idleD(2) [OF i r] g(2) by simp
  ultimately have "demo_resume (demo_world []) = (w4, r) \<and> executions (wd_effects w4) = [((), demo_op_call demo_key, c)]"
    by simp
  then show ?thesis by blast
qed

text \<open>With the step already committed as done the run adopts its row, executes nothing and succeeds.\<close>

definition demo_done_row :: step_execution_record where
  "demo_done_row = \<lparr>se_task_id = ''t1'', se_step_id = ''step-1'', se_attempt_count = 1,
     se_last_fencing_token = 1, se_result_status = Some STEP_OK, se_kind = Some KIND_TOOL_RESULT,
     se_evidence_id = Some ''step-1'', se_commit_digest = Some demo_target_hash, se_started_at = 0,
     se_committed_at = Some 1\<rparr>"

lemma demo_done_ok: "demo_row_ok demo_done_row"
  using demo_op_hashes(4) by (simp add: demo_row_ok_def demo_done_row_def step_execution_record_ok_def)

lemma demo_adopts:
  assumes "demo_at [demo_done_row] w"
  shows "\<exists>w' res. await demo_still StoreRaised (\<lambda>s now now'. begin_step_attempt s
       \<lparr>sac_grant = demo_grant, sac_step_id = ''step-1''\<rparr> now now') w = (w', Inr res)
     \<and> sar_decision res = SA_ALREADY_COMMITTED \<and> sar_record res = Some demo_done_row
     \<and> demo_at [demo_done_row] w'"
proof -
  obtain r where r: "dget (st_tasks (wd_store w)) ''t1'' = Some r" "tr_task_id r = ''t1''"
      "grant_is_current r demo_grant 5 {RUNNING} = None"
    using demo_current [OF assms] by blast
  have "st_step_executions (wd_store w) = [((''t1'', ''step-1''), demo_done_row)]"
    "se_result_status demo_done_row = Some STEP_OK" "se_attempt_count demo_done_row = 1"
    using assms by (simp_all add: demo_at_def demo_plan_store_def demo_done_row_def)
  then show ?thesis
    using r assms by (simp add: await_def Let_def lift_def demo_still_def begin_step_attempt_def require_task_def
        attempts_used_def revalidate_def step_attempt_answer_def step_attempt_result_ok_def demo_at_def
        demo_plan_store_def)
qed

lemma demo_succeeds:
  "\<exists>w' out. demo_resume (demo_world [demo_done_row]) = (w', Inr out) \<and> to_status out = SUCCEEDED"
proof -
  let ?run = "\<lambda>f. f demo_runner demo_still demo_grant (demo_op_plan False) demo_target demo_context"
  have f: "se_step_id demo_done_row = ''step-1''" "se_result_status demo_done_row = Some STEP_OK"
    by (simp_all add: demo_done_row_def)
  obtain w where w: "demo_at [demo_done_row] w" "demo_resume (demo_world [demo_done_row]) =
     ?run run_loop (Some (demo_approval False)) [demo_op_step False] ([(''step-1'', STEP_OK)], False) w"
    using demo_resumes [of "[demo_done_row]"] f by (auto simp: recorded_results_def any_failed_def)
  obtain c w1 where a: "?run admit_step_of (Some (demo_approval False)) (demo_op_step False) w
      = (w1, Inr (c, demo_op_call demo_key))" "demo_at [demo_done_row] w1"
    using demo_admits [OF w(1)] by blast
  obtain w2 res where b: "await demo_still StoreRaised (\<lambda>s now now'. begin_step_attempt s
       \<lparr>sac_grant = demo_grant, sac_step_id = ''step-1''\<rparr> now now') w1 = (w2, Inr res)"
     "sar_decision res = SA_ALREADY_COMMITTED" "sar_record res = Some demo_done_row" "demo_at [demo_done_row] w2"
    using demo_adopts [OF a(2)] by blast
  have "adopt_step_record demo_done_row ([(''step-1'', STEP_OK)], False) w2
      = (w2, Inr ([(''step-1'', STEP_OK)], False))"
    using f by (simp add: adopt_step_record_def ret_def failed_status_def)
  moreover have step: "ps_step_id (demo_op_step False) = ''step-1''" by (simp add: demo_op_step_def demo_step_def)
  ultimately have "demo_resume (demo_world [demo_done_row]) = make_outcome demo_still ''t1'' SUCCEEDED None w2"
    using w(2) a(1) b(1-3) demo_condition_holds demo_grant_ok
    by (simp add: run_step_def execute_step_def andthen_assoc andthen_Inr build_def lift_def revalidate_def
        ret_def)
  moreover have "evidence_bucket (wd_store w2) ''t1'' = []"
    using b(4) by (simp add: demo_at_def evidence_bucket_def)
  then have "\<exists>w' out. make_outcome demo_still ''t1'' SUCCEEDED None w2 = (w', Inr out) \<and> to_status out = SUCCEEDED"
    by (simp add: make_outcome_def await_read_def await_def Let_def lift_def andthen_def load_evidence_def dvals_def
        demo_still_def build_def revalidate_def task_outcome_ok_def TERMINAL_STATUSES_def)
  ultimately show ?thesis by simp
qed

end
