(* ===== verification/Runner_Claims.thy ===== *)
theory Runner_Claims
  imports Runner_Demo
begin

text \<open>
  The properties of the step runner, for \<open>start\<close> and \<open>resume\<close> in any lawful environment, with the
  demonstration run in which one admitted read is executed.
\<close>

subsection \<open>Where the loop is reached\<close>

lemma verify_no_drift_Inr:
  assumes "verify_no_drift R stored plan target ctx w = (w', Inr u)"
  obtains h fp where "w' = w" "compute_plan_hash (rn_py R) (sp_plan stored) = Inr h"
    "compute_plan_hash (rn_py R) plan = Inr h"
    "compute_target_fingerprint (rn_py R) (sp_target stored) = Inr fp"
    "compute_target_fingerprint (rn_py R) target = Inr fp"
    "ep_policy_revision plan = rc_policy_revision ctx"
  using assms
  by (auto simp: verify_no_drift_def lift_def raise_def ret_def elim!: andthen_cases
      split: sum.splits if_splits)

lemma loaded_plan:
  assumes "lawful E limit N" "run_inv E (wd_store w)"
    "await N PlanStoreRaised (\<lambda>s now now'. (s, load_plan s t)) w = (w', Inr stored)"
  shows "dget (st_plans (wd_store w')) t = Some stored" "execution_plan_ok (sp_plan stored)"
proof -
  show p: "dget (st_plans (wd_store w')) t = Some stored"
    using assms(3) by (auto simp: load_plan_def elim!: await_cases split: sum.splits option.splits)
  have "run_inv E (wd_store w')"
    using moved_inv [OF idleD(1) [OF idle_await [OF assms(1)] assms(3)] assms(2)] by simp
  then show "execution_plan_ok (sp_plan stored)"
    using p by (simp add: run_inv_def store_inv_def plans_wf_def)
qed

text \<open>
  A run reaches the loop from the store \<open>wd_store w1\<close> with the plan stored there, or it ends before,
  with an exception, having executed nothing.
\<close>

definition reaches_loop ::
  "'a runner \<Rightarrow> int \<Rightarrow> 'a environment \<Rightarrow> task_attempt_grant \<Rightarrow> request_context \<Rightarrow> approval_request option
     \<Rightarrow> confirmed_slot list option \<Rightarrow> 'a world \<Rightarrow> 'a world \<Rightarrow> runner_error + task_outcome
     \<Rightarrow> stored_plan \<Rightarrow> bool" where
  "reaches_loop R limit N g ctx approval slots w w' r stored \<longleftrightarrow>
     (\<exists>w1 w2. moved (rn_py R) limit w w1 \<and> dget (st_plans (wd_store w1)) (tg_task_id g) = Some stored
        \<and> moved (rn_py R) limit w1 w2 \<and> executions (wd_effects w2) = executions (wd_effects w)
        \<and> run_steps R N g (sp_plan stored) (sp_target stored) ctx approval slots w2 = (w', r))"

definition ends_early :: "'a runner \<Rightarrow> int \<Rightarrow> 'a world \<Rightarrow> 'a world \<Rightarrow> runner_error + task_outcome \<Rightarrow> bool" where
  "ends_early R limit w w' r \<longleftrightarrow> moved (rn_py R) limit w w'
     \<and> executions (wd_effects w') = executions (wd_effects w) \<and> \<not> is_ok r"

lemma early_idle:
  "idle (rn_py R) limit m \<Longrightarrow> m w = (w', Inl e) \<Longrightarrow> ends_early R limit w w' (Inl e)"
  using idleD by (fastforce simp: ends_early_def)

lemma early_later:
  "idle (rn_py R) limit m \<Longrightarrow> m w = (w1, Inr b) \<Longrightarrow> ends_early R limit w1 w' r \<Longrightarrow> ends_early R limit w w' r"
  using idleD moved_trans unfolding ends_early_def by metis

lemma reaches_later:
  "idle (rn_py R) limit m \<Longrightarrow> m w = (w1, Inr b) \<Longrightarrow> reaches_loop R limit N g ctx approval slots w1 w' r stored \<Longrightarrow>
     reaches_loop R limit N g ctx approval slots w w' r stored"
  using idleD moved_trans unfolding reaches_loop_def by metis

lemma andthen_raise: "andthen (raise e) f = raise e"
  by (rule ext) (simp add: andthen_def raise_def)

lemma andthen_if: "andthen (if b then m else n) f = (if b then andthen m f else andthen n f)"
  by simp

lemma loop_tail:
  assumes "andthen m (\<lambda>_. run_steps R N g (sp_plan stored) (sp_target stored) ctx approval slots) w = (w', r)"
    "idle (rn_py R) limit m" "dget (st_plans (wd_store w)) (tg_task_id g) = Some stored"
  shows "ends_early R limit w w' r \<or> reaches_loop R limit N g ctx approval slots w w' r stored"
  using assms(1)
proof (cases rule: andthen_cases)
  case (raised e)
  then show ?thesis using early_idle [OF assms(2) raised(1)] by blast
next
  case (went w1 b)
  then have "reaches_loop R limit N g ctx approval slots w w' r stored"
    using assms(3) idleD [OF assms(2) went(1)] moved_refl
    unfolding reaches_loop_def by (intro exI [of _ w] exI [of _ w1]) simp
  then show ?thesis by blast
qed

text \<open>An idle prefix, the stored plan, then checks that only look, then the tail.\<close>

lemma load_tail:
  assumes env: "lawful (rn_py R) limit N" "run_inv (rn_py R) (wd_store w)"
    and x: "andthen m (\<lambda>_. andthen (await N PlanStoreRaised (\<lambda>s now now'. (s, load_plan s (tg_task_id g)))) f) w
      = (w', r)"
    and m: "idle (rn_py R) limit m"
    and P: "\<And>w1 w2 u stored. m w = (w1, Inr u) \<Longrightarrow> moved (rn_py R) limit w1 w2 \<Longrightarrow>
      dget (st_plans (wd_store w2)) (tg_task_id g) = Some stored \<Longrightarrow> P stored"
    and f: "\<And>stored w1. dget (st_plans (wd_store w1)) (tg_task_id g) = Some stored \<Longrightarrow>
      f stored w1 = (w', r) \<Longrightarrow> ends_early R limit w1 w' r
        \<or> reaches_loop R limit N g ctx approval slots w1 w' r stored \<and> Q stored"
  shows "ends_early R limit w w' r \<or> (\<exists>stored. reaches_loop R limit N g ctx approval slots w w' r stored
     \<and> execution_plan_ok (sp_plan stored) \<and> P stored \<and> Q stored)"
  using x
proof (cases rule: andthen_cases)
  case (raised e)
  then show ?thesis using early_idle [OF m raised(1)] by blast
next
  case (went w1 u)
  note front = went(1)
  note later = early_later [OF m went(1)] reaches_later [OF m went(1)]
  have i1: "run_inv (rn_py R) (wd_store w1)" using moved_inv [OF idleD(1) [OF m went(1)] env(2)] .
  have load: "idle (rn_py R) limit (await N PlanStoreRaised (\<lambda>s now now'. (s, load_plan s (tg_task_id g))))"
    by (rule idle_await [OF env(1)]) simp
  from went(2) show ?thesis
  proof (cases rule: andthen_cases)
    case (raised e)
    then show ?thesis using later(1) early_idle [OF load raised(1)] by blast
  next
    case (went w2 stored)
    note p = loaded_plan [OF env(1) i1 went(1)]
    have "P stored" using P [OF front idleD(1) [OF load went(1)] p(1)] .
    with f [OF p(1) went(2)] show ?thesis
      using p(2) later early_later [OF load went(1)] reaches_later [OF load went(1)] by metis
  qed
qed

text \<open>What \<open>resume\<close> has checked before it touches the stored plan.\<close>

definition undrifted ::
  "py_env \<Rightarrow> external_input option \<Rightarrow> approval_request option \<Rightarrow> execution_plan \<Rightarrow> resolved_target
     \<Rightarrow> request_context \<Rightarrow> stored_plan \<Rightarrow> bool" where
  "undrifted E input approval plan target ctx stored \<longleftrightarrow>
     (\<exists>h. compute_plan_hash E (sp_plan stored) = Inr h \<and> compute_plan_hash E plan = Inr h)
     \<and> (\<exists>fp. compute_target_fingerprint E (sp_target stored) = Inr fp
          \<and> compute_target_fingerprint E target = Inr fp)
     \<and> ep_policy_revision plan = rc_policy_revision ctx
     \<and> (case input of
          Some (ApprovalDecision ref) \<Rightarrow>
            (case approval of None \<Rightarrow> False | Some a \<Rightarrow> ref = approval_ref (ar_task_id a) (ar_step_id a))
        | _ \<Rightarrow> True)"

lemma verify_input_Inr:
  "verify_external_input input approval w = (w', Inr u) \<Longrightarrow>
     (case input of
        Some (ApprovalDecision ref) \<Rightarrow>
          (case approval of None \<Rightarrow> False | Some a \<Rightarrow> ref = approval_ref (ar_task_id a) (ar_step_id a))
      | _ \<Rightarrow> True)"
  by (auto simp: verify_external_input_def raise_def split: option.splits external_input.splits if_splits)

lemma resume_reaches:
  fixes R :: "'a runner"
  assumes env: "lawful (rn_py R) limit N" "run_inv (rn_py R) (wd_store w)"
    and x: "resume R N g input plan ctx target approval slots w = (w', r)"
  shows "ends_early R limit w w' r \<or> (\<exists>stored. reaches_loop R limit N g ctx approval slots w w' r stored
     \<and> execution_plan_ok (sp_plan stored) \<and> undrifted (rn_py R) input approval plan target ctx stored)"
  using x unfolding resume_def
proof (cases rule: andthen_cases)
  case (raised e)
  then show ?thesis using early_idle [OF idle_require_grant [OF env(1)] raised(1)] by blast
next
  case (went w0 u0)
  note later = early_later [OF idle_require_grant [OF env(1)] went(1)]
    reaches_later [OF idle_require_grant [OF env(1)] went(1)]
  have i0: "run_inv (rn_py R) (wd_store w0)"
    using moved_inv [OF idleD(1) [OF idle_require_grant [OF env(1)] went(1)] env(2)] .
  let ?input = "case input of
      Some (ApprovalDecision ref) \<Rightarrow>
        (case approval of None \<Rightarrow> False | Some a \<Rightarrow> ref = approval_ref (ar_task_id a) (ar_step_id a))
    | _ \<Rightarrow> True"
  show ?thesis
  proof (cases "?input")
    case False
    then have "ends_early R limit w0 w' r"
      using went(2) by (auto simp: verify_external_input_def andthen_def raise_def ends_early_def
          split: option.splits external_input.splits if_splits)
    then show ?thesis using later(1) by blast
  next
    case True
    have "ends_early R limit w0 w' r \<or> (\<exists>stored. reaches_loop R limit N g ctx approval slots w0 w' r stored
        \<and> execution_plan_ok (sp_plan stored) \<and> True \<and> undrifted (rn_py R) input approval plan target ctx stored)"
    proof (rule load_tail [OF env(1) i0 went(2) idle_verify(1) TrueI])
      fix stored and w1 :: "'a world" assume p: "dget (st_plans (wd_store w1)) (tg_task_id g) = Some stored"
      let ?go = "\<lambda>record. if tr_status record \<in> {PLANNING, AWAITING_APPROVAL}
          then andthen (advance_task N record RUNNING g ctx (sp_plan stored)) (\<lambda>_. ret ())
          else if tr_status record \<noteq> RUNNING then raise (LifecycleError NotResumable) else ret ()"
      let ?run = "run_steps R N g (sp_plan stored) (sp_target stored) ctx approval slots"
      assume "andthen (verify_no_drift R stored plan target ctx) (\<lambda>_.
        andthen (lookup_task N (tg_task_id g) ctx) (\<lambda>record. andthen (?go record) (\<lambda>_. ?run))) w1 = (w', r)"
      then show "ends_early R limit w1 w' r \<or> reaches_loop R limit N g ctx approval slots w1 w' r stored
          \<and> undrifted (rn_py R) input approval plan target ctx stored"
      proof (cases rule: andthen_cases)
        case (raised e)
        then show ?thesis using early_idle [OF idle_verify(2) raised(1)] by blast
      next
        case (went w2 u2)
        have "undrifted (rn_py R) input approval plan target ctx stored \<and> w2 = w1"
          using went(1) True by (auto simp: undrifted_def elim!: verify_no_drift_Inr)
        moreover have "andthen (andthen (lookup_task N (tg_task_id g) ctx) ?go) (\<lambda>_. ?run) w2 = (w', r)"
          using went(2) by (simp add: andthen_assoc)
        moreover have "idle (rn_py R) limit (andthen (lookup_task N (tg_task_id g) ctx) ?go)"
          using env(1) by (auto intro!: idle_intros)
        ultimately show ?thesis using loop_tail p by blast
      qed
    qed
    then show ?thesis using later by blast
  qed
qed

text \<open>The plan that a run stores for its task is the plan it finds there, whatever others did.\<close>

lemma saved_plan_kept:
  assumes "run_inv E (wd_store w)" "moved E limit w w'" "dget (st_plans (wd_store w)) t = Some p"
  shows "\<exists>q. dget (st_plans (wd_store w')) t = Some q \<and> stored_plan_eq q p"
proof -
  have "execution_plan_ok (sp_plan p)"
    using assms(1,3) by (simp add: run_inv_def store_inv_def plans_wf_def)
  then have "stored_plan_eq p p" by (simp add: stored_plan_eq_def execution_plan_eq_refl)
  then show ?thesis
    using run_kept [OF assms(2) [unfolded moved_def] assms(1)] assms(3) unfolding plans_kept_def by blast
qed

lemma saved_plan:
  assumes "await N PlanStoreRaised (\<lambda>s now now'. save_plan s t p) w = (w', Inr u)"
  shows "dget (st_plans (wd_store w')) t = Some p"
  using assms by (auto simp: save_plan_def elim!: await_cases split: option.splits sum.splits if_splits)

lemma start_reaches:
  fixes R :: "'a runner"
  assumes env: "lawful (rn_py R) limit N" "run_inv (rn_py R) (wd_store w)" and ok: "execution_plan_ok plan"
    and x: "start R N g plan target ctx slots w = (w', r)"
  shows "ends_early R limit w w' r \<or> (\<exists>stored. reaches_loop R limit N g ctx None slots w w' r stored
     \<and> execution_plan_ok (sp_plan stored) \<and> stored_plan_eq stored \<lparr>sp_plan = plan, sp_target = target\<rparr>)"
proof -
  let ?save = "await N PlanStoreRaised (\<lambda>s now now'.
      save_plan s (tg_task_id g) \<lparr>sp_plan = plan, sp_target = target\<rparr>)"
  let ?front = "andthen (require_current_grant R N g) (\<lambda>_.
      andthen (await_read N (\<lambda>s. load_step_executions s (tg_task_id g))) (\<lambda>journal.
      if journal \<noteq> [] then raise StepJournalInvariantError else ?save))"
  let ?tail = "\<lambda>stored. andthen (lookup_task N (tg_task_id g) ctx) (\<lambda>record.
      andthen (advance_task N record PLANNING g ctx (sp_plan stored)) (\<lambda>record.
      andthen (advance_task N record RUNNING g ctx (sp_plan stored)) (\<lambda>_.
      run_steps R N g (sp_plan stored) (sp_target stored) ctx None slots)))"
  let ?prefix = "\<lambda>stored. andthen (lookup_task N (tg_task_id g) ctx) (\<lambda>record.
      andthen (advance_task N record PLANNING g ctx (sp_plan stored)) (\<lambda>record.
      advance_task N record RUNNING g ctx (sp_plan stored)))"
  have x': "andthen ?front (\<lambda>_. andthen (await N PlanStoreRaised
      (\<lambda>s now now'. (s, load_plan s (tg_task_id g)))) ?tail) w = (w', r)"
    using x by (simp add: start_def andthen_assoc andthen_if andthen_raise cong: if_cong)
  have front: "idle (rn_py R) limit ?front"
    using env(1) ok by (auto intro!: idle_intros)
  have prefix: "idle (rn_py R) limit (?prefix stored)" for stored
    using env(1) by (auto intro!: idle_intros)
  have tail: "?tail stored = andthen (?prefix stored)
      (\<lambda>_. run_steps R N g (sp_plan stored) (sp_target stored) ctx None slots)" for stored
    by (simp add: andthen_assoc)
  have "ends_early R limit w w' r \<or> (\<exists>stored. reaches_loop R limit N g ctx None slots w w' r stored
     \<and> execution_plan_ok (sp_plan stored)
     \<and> stored_plan_eq stored \<lparr>sp_plan = plan, sp_target = target\<rparr> \<and> True)"
  proof (rule load_tail [OF env x' front])
    fix w1 w2 u and stored assume f: "?front w = (w1, Inr u)" "moved (rn_py R) limit w1 w2"
      "dget (st_plans (wd_store w2)) (tg_task_id g) = Some stored"
    have i1: "run_inv (rn_py R) (wd_store w1)" using moved_inv [OF idleD(1) [OF front f(1)] env(2)] .
    have "dget (st_plans (wd_store w1)) (tg_task_id g) = Some \<lparr>sp_plan = plan, sp_target = target\<rparr>"
      using f(1) by (auto elim!: andthen_cases dest: saved_plan simp: raise_def split: if_splits)
    from saved_plan_kept [OF i1 f(2) this] f(3)
    show "stored_plan_eq stored \<lparr>sp_plan = plan, sp_target = target\<rparr>" by auto
  next
    fix stored and w1 :: "'a world" assume p: "dget (st_plans (wd_store w1)) (tg_task_id g) = Some stored"
      and "?tail stored w1 = (w', r)"
    then show "ends_early R limit w1 w' r \<or> reaches_loop R limit N g ctx None slots w1 w' r stored \<and> True"
      using loop_tail [OF _ prefix p] unfolding tail by blast
  qed
  then show ?thesis by blast
qed

subsection \<open>What is executed\<close>

text \<open>
  A run carried out the plan the store holds for its task: the plan is still there when the run ends,
  and the run's executions are sound ones of that plan, each step once.
\<close>

definition runs_plan ::
  "'a runner \<Rightarrow> int \<Rightarrow> task_attempt_grant \<Rightarrow> request_context \<Rightarrow> approval_request option \<Rightarrow> 'a world
     \<Rightarrow> 'a world \<Rightarrow> stored_plan \<Rightarrow> bool" where
  "runs_plan R limit g ctx approval w w' stored \<longleftrightarrow>
     (\<exists>q. dget (st_plans (wd_store w')) (tg_task_id g) = Some q \<and> stored_plan_eq q stored)
     \<and> loop_executions R limit (tg_task_id g) (sp_plan stored) (sp_target stored) ctx approval w w'
         (ep_steps (sp_plan stored))"

lemma reaches_runs_plan:
  assumes env: "lawful (rn_py R) limit N" "run_inv (rn_py R) (wd_store w)"
    and x: "reaches_loop R limit N g ctx approval slots w w' r stored" "execution_plan_ok (sp_plan stored)"
  shows "moved (rn_py R) limit w w' \<and> runs_plan R limit g ctx approval w w' stored"
proof -
  obtain w1 w2 where s: "moved (rn_py R) limit w w1" "dget (st_plans (wd_store w1)) (tg_task_id g) = Some stored"
      "moved (rn_py R) limit w1 w2" "executions (wd_effects w2) = executions (wd_effects w)"
      "run_steps R N g (sp_plan stored) (sp_target stored) ctx approval slots w2 = (w', r)"
    using x(1) unfolding reaches_loop_def by blast
  have m: "moved (rn_py R) limit w w2" using moved_trans [OF s(1,3)] .
  have i2: "run_inv (rn_py R) (wd_store w2)" using moved_inv [OF m env(2)] .
  note e = run_steps_effect [OF env(1) i2 x(2) s(5)]
  have "loop_executions R limit (tg_task_id g) (sp_plan stored) (sp_target stored) ctx approval w w'
      (ep_steps (sp_plan stored))"
    using e s(4) sound_execution_mono [OF _ m moved_refl env(2)] moved_inv [OF _ i2]
    unfolding loop_executions_def by (metis order_refl)
  moreover have fin: "moved (rn_py R) limit w1 w'" "moved (rn_py R) limit w w'"
    using e moved_trans [OF s(3)] moved_trans [OF m] by blast+
  moreover have "\<exists>q. dget (st_plans (wd_store w')) (tg_task_id g) = Some q \<and> stored_plan_eq q stored"
    using saved_plan_kept [OF moved_inv [OF s(1) env(2)] fin(1) s(2)] .
  ultimately show ?thesis unfolding runs_plan_def by blast
qed

lemma run_budget:
  assumes "run_inv (rn_py R) (wd_store w)" "moved (rn_py R) limit w w'"
    "loop_executions R limit t plan target ctx approval w w' steps"
  shows "\<exists>xs. executions (wd_effects w') = executions (wd_effects w) @ xs \<and> distinct (map called_step xs)
     \<and> (xs = [] \<or> (\<exists>p. dget (st_plans (wd_store w')) t = Some p
          \<and> int (length xs) \<le> pb_max_tool_calls (ep_budget (sp_plan p))))"
proof -
  obtain xs where xs: "executions (wd_effects w') = executions (wd_effects w) @ xs" "distinct (map called_step xs)"
      "\<And>x. x \<in> set xs \<Longrightarrow> sound_execution R limit t plan target ctx approval (wd_store w) (wd_store w') steps x"
    using assms(3) unfolding loop_executions_def by blast
  have "journaled (wd_store w') t i" if "i \<in> set (map called_step xs)" for i
    using that sound_execution_step(2) [OF xs(3)] by auto
  from rows_within_budget [OF moved_inv [OF assms(2,1)] xs(2) this]
  show ?thesis using xs(1,2) by (cases xs) auto
qed

lemma runner_runs_plan:
  assumes "lawful (rn_py R) limit N" "run_inv (rn_py R) (wd_store w)" "execution_plan_ok plan"
    "start R N g plan target ctx slots w = (w', r) \<and> approval = None
      \<or> resume R N g input plan ctx target approval slots w = (w', r)"
  shows "moved (rn_py R) limit w w' \<and> (ends_early R limit w w' r
     \<or> (\<exists>stored. reaches_loop R limit N g ctx approval slots w w' r stored
          \<and> execution_plan_ok (sp_plan stored) \<and> runs_plan R limit g ctx approval w w' stored))"
  using assms(4) start_reaches [OF assms(1-3)] resume_reaches [OF assms(1,2)] reaches_runs_plan [OF assms(1,2)]
  unfolding ends_early_def by metis

text \<open>
  C7. One run of the runner, started or resumed, executes each step at most once and stays within the
  budget: whatever other workers do to the store between its operations, the adapters it executes
  are called for different steps, and no more of them than the tool-call budget of the task's
  stored plan.
\<close>

theorem runner_stays_within_budget:
  assumes "lawful (rn_py R) limit N" "run_inv (rn_py R) (wd_store w)" "execution_plan_ok plan"
    "start R N g plan target ctx slots w = (w', r) \<and> approval = None
      \<or> resume R N g input plan ctx target approval slots w = (w', r)"
  shows "\<exists>xs. executions (wd_effects w') = executions (wd_effects w) @ xs \<and> distinct (map called_step xs)
     \<and> (xs = [] \<or> (\<exists>p. dget (st_plans (wd_store w')) (tg_task_id g) = Some p
          \<and> int (length xs) \<le> pb_max_tool_calls (ep_budget (sp_plan p))))"
  using runner_runs_plan [OF assms] run_budget [OF assms(2)]
  unfolding ends_early_def runs_plan_def by fastforce

theorem runner_stays_within_budget_witness:
  "\<exists>w' r c. demo_resume (demo_world []) = (w', r)
     \<and> executions (wd_effects w') = [((), demo_op_call demo_key, c)]
     \<and> (\<exists>p. dget (st_plans (wd_store w')) ''t1'' = Some p \<and> 1 \<le> pb_max_tool_calls (ep_budget (sp_plan p)))"
proof -
  obtain w' r c where x: "demo_resume (demo_world []) = (w', r)"
      "executions (wd_effects w') = [((), demo_op_call demo_key, c)]" using demo_executes by blast
  have e: "rn_py demo_runner = demo_env" "executions (wd_effects (demo_world [])) = []"
    by (simp_all add: demo_runner_def demo_world_def)
  have "run_inv (rn_py demo_runner) (wd_store (demo_world []))"
    using demo_plan_store_inv [of "[]"] e by (simp add: demo_world_def)
  from runner_stays_within_budget [OF demo_lawful [of _ 3] this demo_op_plan_ok disjI2 [OF x(1)]] x e
  show ?thesis by auto
qed

text \<open>
  C8. A resumed run executes only what was planned and approved. If it executes anything, or returns,
  then the plan hash and the target fingerprint it was given are those of the stored plan, its
  policy revision is the caller's, and a decision it was given names its approval. Each execution is
  of a step of that stored plan, admitted by all stages of admission for it, with its condition
  met by the journal, reserved in the journal, and of a step that was not committed when the run began.
\<close>

theorem resume_executes_only_the_stored_plan:
  assumes "lawful (rn_py R) limit N" "run_inv (rn_py R) (wd_store w)"
    "resume R N g input plan ctx target approval slots w = (w', r)"
  shows "executions (wd_effects w') = executions (wd_effects w) \<and> \<not> is_ok r
     \<or> (\<exists>stored. undrifted (rn_py R) input approval plan target ctx stored
          \<and> runs_plan R limit g ctx approval w w' stored)"
  using resume_reaches [OF assms] reaches_runs_plan [OF assms(1,2)] unfolding ends_early_def by blast

theorem resume_executes_only_the_stored_plan_witness:
  "\<exists>w' r c stored. demo_resume (demo_world []) = (w', r)
     \<and> executions (wd_effects w') = [((), demo_op_call demo_key, c)]
     \<and> undrifted demo_env None (Some (demo_approval False)) (demo_op_plan False) demo_target demo_context stored
     \<and> runs_plan demo_runner 3 demo_grant demo_context (Some (demo_approval False)) (demo_world []) w' stored"
proof -
  obtain w' r c where x: "demo_resume (demo_world []) = (w', r)"
      "executions (wd_effects w') = [((), demo_op_call demo_key, c)]" using demo_executes by blast
  have e: "rn_py demo_runner = demo_env" "executions (wd_effects (demo_world [])) = []"
    by (simp_all add: demo_runner_def demo_world_def)
  have "run_inv (rn_py demo_runner) (wd_store (demo_world []))"
    using demo_plan_store_inv [of "[]"] e by (simp add: demo_world_def)
  from resume_executes_only_the_stored_plan [OF demo_lawful this x(1)] x e show ?thesis by auto
qed

text \<open>
  The plan a run is for: a started run's own, with equal contents; for a resumed run, one with the hash
  and the fingerprint of what it was given.
\<close>

definition plan_of_run ::
  "bool \<Rightarrow> py_env \<Rightarrow> external_input option \<Rightarrow> approval_request option \<Rightarrow> execution_plan \<Rightarrow> resolved_target
     \<Rightarrow> request_context \<Rightarrow> stored_plan \<Rightarrow> bool" where
  "plan_of_run fresh E input approval plan target ctx stored \<longleftrightarrow>
     (if fresh then stored_plan_eq stored \<lparr>sp_plan = plan, sp_target = target\<rparr>
      else undrifted E input approval plan target ctx stored)"

text \<open>
  C9. A run that returns SUCCEEDED has done its work. The plan it was given is the plan the store holds
  for the task when the run ends (a started run's own plan, or for a resumed run a plan with the same
  hash, target fingerprint and policy revision), and every unconditional step of it is committed as done
  in the journal. No step of the task had been committed as failed before the run.
\<close>

theorem success_means_done:
  assumes "lawful (rn_py R) limit N" "run_inv (rn_py R) (wd_store w)" "execution_plan_ok plan"
    "if fresh then start R N g plan target ctx slots w = (w', Inr out) \<and> approval = None
     else resume R N g input plan ctx target approval slots w = (w', Inr out)"
    "to_status out = SUCCEEDED"
  shows "\<exists>stored. plan_of_run fresh (rn_py R) input approval plan target ctx stored
     \<and> runs_plan R limit g ctx approval w w' stored
     \<and> (\<forall>step \<in> set (ep_steps (sp_plan stored)). cond_kind (ps_condition step) = ALWAYS \<longrightarrow>
          committed_with (wd_store w') (tg_task_id g) (ps_step_id step) STEP_OK)
     \<and> (\<forall>i status. committed_with (wd_store w) (tg_task_id g) i status \<longrightarrow> status = STEP_OK)"
proof -
  have "\<exists>stored. reaches_loop R limit N g ctx approval slots w w' (Inr out) stored
      \<and> execution_plan_ok (sp_plan stored) \<and> plan_of_run fresh (rn_py R) input approval plan target ctx stored"
    using assms(4) start_reaches [OF assms(1-3)] resume_reaches [OF assms(1,2)]
    unfolding plan_of_run_def ends_early_def is_ok_conv by (cases fresh) (simp; blast)+
  then obtain stored w1 w2 where
      s: "reaches_loop R limit N g ctx approval slots w w' (Inr out) stored" "execution_plan_ok (sp_plan stored)"
        "plan_of_run fresh (rn_py R) input approval plan target ctx stored"
      and m: "moved (rn_py R) limit w w2"
      and l: "run_steps R N g (sp_plan stored) (sp_target stored) ctx approval slots w2 = (w', Inr out)"
    unfolding reaches_loop_def using moved_trans by blast
  note fin = run_steps_succeeds [OF assms(1) moved_inv [OF m assms(2)] s(2) l assms(5)]
  have "status = STEP_OK" if "committed_with (wd_store w) (tg_task_id g) i status" for i status
    using ok_status [OF assms(2) that] fin moved_committed [OF m assms(2) that] by blast
  with s fin reaches_runs_plan [OF assms(1,2) s(1,2)] show ?thesis by blast
qed

theorem success_means_done_witness:
  "\<exists>w' out. demo_resume (demo_world [demo_done_row]) = (w', Inr out) \<and> to_status out = SUCCEEDED
     \<and> (\<exists>stored. undrifted demo_env None (Some (demo_approval False)) (demo_op_plan False) demo_target
            demo_context stored
          \<and> runs_plan demo_runner 3 demo_grant demo_context (Some (demo_approval False))
              (demo_world [demo_done_row]) w' stored)"
proof -
  obtain w' out where x: "demo_resume (demo_world [demo_done_row]) = (w', Inr out)" "to_status out = SUCCEEDED"
    using demo_succeeds by blast
  have e: "rn_py demo_runner = demo_env" by (simp add: demo_runner_def)
  have i: "run_inv (rn_py demo_runner) (wd_store (demo_world [demo_done_row]))"
    using demo_plan_store_inv [of "[demo_done_row]"] demo_done_ok by (simp add: demo_world_def demo_runner_def)
  have "if False then start demo_runner demo_still demo_grant (demo_op_plan False) demo_target demo_context None
        (demo_world [demo_done_row]) = (w', Inr out) \<and> Some (demo_approval False) = None
      else demo_resume (demo_world [demo_done_row]) = (w', Inr out)" using x(1) by simp
  from success_means_done [OF demo_lawful [of _ 3] i demo_op_plan_ok this x(2)] x e show ?thesis
    by (auto simp: plan_of_run_def)
qed

end
