(* ===== verification/Identity_Contracts.thy ===== *)
theory Identity_Contracts
  imports Task_Contracts Governance_Contracts
begin

text \<open>
  The contracts of the user directory (\<open>contracts/identity.py\<close>), of activation requests
  (\<open>contracts/activation.py\<close>), of return intents (\<open>contracts/web_navigation.py\<close>) and of the commands
  that change them. Every record comes with the validator pydantic runs when it is built or copied.
\<close>

subsection \<open>Enumerations\<close>

datatype user_status = US_ACTIVE | US_DISABLED

datatype activation_source = FROM_WEB_LOGIN | FROM_SAFE_TASK_LINK | FROM_FEISHU_GROUP

datatype activation_status = ACT_PENDING | ACT_APPROVED | ACT_REJECTED | ACT_EXPIRED

datatype return_intent_kind = RI_WORKBENCH | RI_SAFE_TASK_DETAIL | RI_ADMIN_CENTER | RI_ACTIVATION_STATUS

fun identity_source_value :: "identity_source \<Rightarrow> string" where
  "identity_source_value SRC_FEISHU = ''feishu''"
| "identity_source_value SRC_LOCAL_ADMIN = ''local_admin''"

lemma identity_source_value_inj [simp]: "identity_source_value a = identity_source_value b \<longleftrightarrow> a = b"
  by (cases a; cases b) auto

subsection \<open>Bounded strings\<close>

definition bounded_str :: "int \<Rightarrow> string \<Rightarrow> bool" where
  "bounded_str n s \<longleftrightarrow> strict_str s \<and> 1 \<le> char_len s \<and> char_len s \<le> n"

abbreviation bounded_id :: "string \<Rightarrow> bool" where "bounded_id \<equiv> bounded_str 64"
abbreviation bounded_name :: "string \<Rightarrow> bool" where "bounded_name \<equiv> bounded_str 128"
abbreviation bounded_actor :: "string \<Rightarrow> bool" where "bounded_actor \<equiv> bounded_str 256"

text \<open>\<open>CONTROLLED_PII_MAX_LENGTH\<close> is 256 as well.\<close>

abbreviation controlled_pii :: "string \<Rightarrow> bool" where "controlled_pii \<equiv> bounded_str 256"

lemma bounded_mono: "bounded_str m s \<Longrightarrow> m \<le> n \<Longrightarrow> bounded_str n s"
  by (simp add: bounded_str_def)

lemma sha256_hex_strict: "sha256_hex s \<Longrightarrow> strict_str s"
proof (rule strict_strI)
  assume h: "sha256_hex s"
  then show ne: "s \<noteq> []" by (auto simp: sha256_hex_def)
  have alnum: "lower_hex c \<Longrightarrow> ascii_alnum c" for c
    by (auto simp: lower_hex_def ascii_alnum_def)
  show "ascii_alnum (hd s)" "ascii_alnum (last s)"
    using h ne alnum by (simp_all add: sha256_hex_def list_all_iff)
qed

lemma char_len_ascii: "list_all ascii_alnum s \<Longrightarrow> char_len s = int (length s)"
proof -
  have "of_char c div 64 \<noteq> (2 :: nat)" if "ascii_alnum c" for c :: char
    using that by (auto simp: ascii_alnum_def less_eq_char_def)
  then show "list_all ascii_alnum s \<Longrightarrow> ?thesis"
    by (simp add: char_len_def list_all_iff)
qed

lemma lower_hex_alnum: "lower_hex c \<Longrightarrow> ascii_alnum c"
  by (auto simp: lower_hex_def ascii_alnum_def)

lemma char_len_append: "char_len (s @ t) = char_len s + char_len t"
  by (simp add: char_len_def)

lemma sha256_hex_bounded: "sha256_hex s \<Longrightarrow> bounded_id s"
  using sha256_hex_strict char_len_ascii [of s] lower_hex_alnum
  by (auto simp: bounded_str_def sha256_hex_def list_all_iff)

subsection \<open>The local administrator\<close>

definition LOCAL_ADMIN_TENANT_ID :: string where "LOCAL_ADMIN_TENANT_ID = ''dev-local''"
definition LOCAL_ADMIN_ENVIRONMENT_ID :: string where "LOCAL_ADMIN_ENVIRONMENT_ID = ''dev''"
definition LOCAL_ADMIN_ACTOR :: string where "LOCAL_ADMIN_ACTOR = ''admin''"
definition LOCAL_ADMIN_USER_ID :: string where "LOCAL_ADMIN_USER_ID = ''local-admin''"
definition LOCAL_ADMIN_DISPLAY_NAME :: string where "LOCAL_ADMIN_DISPLAY_NAME = ''Local Admin''"

subsection \<open>Directory facts\<close>

record user_account =
  ua_user_id :: string
  ua_actor :: string
  ua_display_name :: string
  ua_status :: user_status
  ua_created_at :: instant
  ua_updated_at :: instant

definition user_account_ok :: "user_account \<Rightarrow> bool" where
  "user_account_ok a \<longleftrightarrow> bounded_id (ua_user_id a) \<and> bounded_actor (ua_actor a)
     \<and> bounded_name (ua_display_name a)"

record role_assignment =
  ra_user_id :: string
  ra_tenant_id :: string
  ra_environment_id :: string
  ra_role :: product_role
  ra_created_by :: string
  ra_created_at :: instant
  ra_updated_at :: instant

definition role_assignment_ok :: "role_assignment \<Rightarrow> bool" where
  "role_assignment_ok r \<longleftrightarrow> bounded_id (ra_user_id r) \<and> bounded_id (ra_tenant_id r)
     \<and> bounded_id (ra_environment_id r) \<and> bounded_id (ra_created_by r)"

record external_identity =
  xi_user_id :: string
  xi_provider :: identity_source
  xi_tenant_id :: string
  xi_environment_id :: string
  xi_subject_ref :: string
  xi_created_at :: instant
  xi_last_seen_at :: instant

definition external_identity_ok :: "external_identity \<Rightarrow> bool" where
  "external_identity_ok x \<longleftrightarrow> bounded_id (xi_user_id x) \<and> xi_provider x = SRC_FEISHU
     \<and> bounded_id (xi_tenant_id x) \<and> bounded_id (xi_environment_id x)
     \<and> controlled_pii (xi_subject_ref x)"

record principal_facts =
  df_account :: user_account
  df_assignment :: role_assignment

record user_list_query =
  ulq_tenant_id :: string
  ulq_environment_id :: string
  ulq_after_actor :: "string option"
  ulq_limit :: int

definition user_list_query_ok :: "user_list_query \<Rightarrow> bool" where
  "user_list_query_ok q \<longleftrightarrow> bounded_id (ulq_tenant_id q) \<and> bounded_id (ulq_environment_id q)
     \<and> opt_all bounded_actor (ulq_after_actor q) \<and> 0 < ulq_limit q \<and> ulq_limit q \<le> 100"

record user_record =
  ur_account :: user_account
  ur_assignment :: role_assignment
  ur_feishu_bound :: bool

definition user_record_ok :: "user_record \<Rightarrow> bool" where
  "user_record_ok r \<longleftrightarrow> ua_user_id (ur_account r) = ra_user_id (ur_assignment r)"

record user_page =
  up_items :: "user_record list"
  up_next_after_actor :: "string option"

definition user_page_ok :: "user_page \<Rightarrow> bool" where
  "user_page_ok p \<longleftrightarrow> length (up_items p) \<le> 100
     \<and> sorted_wrt (<) (map (\<lambda>r. ua_actor (ur_account r)) (up_items p))
     \<and> (case up_next_after_actor p of
           None \<Rightarrow> True
         | Some a \<Rightarrow> up_items p \<noteq> [] \<and> a = ua_actor (ur_account (last (up_items p))))"

subsection \<open>Directory commands\<close>

text \<open>The scope and the account every command on an account names.\<close>

record user_command =
  dc_user_id :: string
  dc_tenant_id :: string
  dc_environment_id :: string

definition user_command_ok :: "'a user_command_scheme \<Rightarrow> bool" where
  "user_command_ok c \<longleftrightarrow> bounded_id (dc_user_id c) \<and> bounded_id (dc_tenant_id c)
     \<and> bounded_id (dc_environment_id c)"

record create_user_command = user_command +
  cu_actor :: string
  cu_display_name :: string
  cu_role :: product_role

record set_status_command = user_command +
  ss_status :: user_status

record managed_status_command = user_command +
  ms_expected_status :: user_status
  ms_expected_role :: product_role
  ms_status :: user_status

definition managed_status_command_ok :: "managed_status_command \<Rightarrow> bool" where
  "managed_status_command_ok c \<longleftrightarrow> user_command_ok c \<and> ms_expected_role c \<in> {ROLE_USER, ROLE_OPERATOR}
     \<and> ms_status c \<noteq> ms_expected_status c"

record assign_role_command = user_command +
  ar_role :: product_role

record managed_role_command = user_command +
  mr_expected_role :: product_role
  mr_role :: product_role

definition managed_role_command_ok :: "managed_role_command \<Rightarrow> bool" where
  "managed_role_command_ok c \<longleftrightarrow> user_command_ok c \<and> mr_expected_role c \<in> {ROLE_USER, ROLE_OPERATOR}
     \<and> mr_role c \<in> {ROLE_USER, ROLE_OPERATOR} \<and> mr_role c \<noteq> mr_expected_role c"

record bind_identity_command = user_command +
  bi_subject_ref :: string

record bootstrap_command = user_command +
  bs_actor :: string
  bs_display_name :: string
  bs_password_hash :: string

record decision_command =
  ad_request_id :: string
  ad_tenant_id :: string
  ad_environment_id :: string

definition decision_command_ok :: "'a decision_command_scheme \<Rightarrow> bool" where
  "decision_command_ok c \<longleftrightarrow> bounded_id (ad_request_id c) \<and> bounded_id (ad_tenant_id c)
     \<and> bounded_id (ad_environment_id c)"

record approve_command = decision_command +
  ap_actor :: string
  ap_display_name :: string
  ap_approved_role :: product_role

definition approve_command_ok :: "approve_command \<Rightarrow> bool" where
  "approve_command_ok c \<longleftrightarrow> decision_command_ok c \<and> bounded_actor (ap_actor c)
     \<and> bounded_name (ap_display_name c) \<and> ap_approved_role c \<in> {ROLE_USER, ROLE_OPERATOR}"

record migration_entry =
  me_user_id :: string
  me_actor :: string
  me_display_name :: string
  me_role :: product_role
  me_subject_ref :: string

definition migration_entry_ok :: "migration_entry \<Rightarrow> bool" where
  "migration_entry_ok e \<longleftrightarrow> bounded_id (me_user_id e) \<and> bounded_actor (me_actor e)
     \<and> bounded_name (me_display_name e) \<and> controlled_pii (me_subject_ref e)"

definition MAX_MIGRATION_ENTRIES :: nat where "MAX_MIGRATION_ENTRIES = 10000"

record migrate_command =
  mg_tenant_id :: string
  mg_environment_id :: string
  mg_entries :: "migration_entry list"

definition migrate_command_ok :: "migrate_command \<Rightarrow> bool" where
  "migrate_command_ok c \<longleftrightarrow> bounded_id (mg_tenant_id c) \<and> bounded_id (mg_environment_id c)
     \<and> list_all migration_entry_ok (mg_entries c) \<and> 1 \<le> length (mg_entries c)
     \<and> length (mg_entries c) \<le> MAX_MIGRATION_ENTRIES"

datatype directory_command =
    CreateUser create_user_command
  | SetUserStatus set_status_command
  | SetManagedUserStatus managed_status_command
  | AssignRole assign_role_command
  | ChangeManagedUserRole managed_role_command
  | RevokeRole user_command
  | BindExternalIdentity bind_identity_command
  | UnbindExternalIdentity user_command
  | ApproveActivation approve_command
  | RejectActivation decision_command
  | BootstrapLocalAdmin bootstrap_command
  | MigrateLegacyIdentities migrate_command

fun directory_command_ok :: "directory_command \<Rightarrow> bool" where
  "directory_command_ok (CreateUser c) \<longleftrightarrow>
     user_command_ok c \<and> bounded_actor (cu_actor c) \<and> bounded_name (cu_display_name c)"
| "directory_command_ok (SetUserStatus c) \<longleftrightarrow> user_command_ok c"
| "directory_command_ok (SetManagedUserStatus c) \<longleftrightarrow> managed_status_command_ok c"
| "directory_command_ok (AssignRole c) \<longleftrightarrow> user_command_ok c"
| "directory_command_ok (ChangeManagedUserRole c) \<longleftrightarrow> managed_role_command_ok c"
| "directory_command_ok (RevokeRole c) \<longleftrightarrow> user_command_ok c"
| "directory_command_ok (BindExternalIdentity c) \<longleftrightarrow> user_command_ok c \<and> controlled_pii (bi_subject_ref c)"
| "directory_command_ok (UnbindExternalIdentity c) \<longleftrightarrow> user_command_ok c"
| "directory_command_ok (ApproveActivation c) \<longleftrightarrow> approve_command_ok c"
| "directory_command_ok (RejectActivation c) \<longleftrightarrow> decision_command_ok c"
| "directory_command_ok (BootstrapLocalAdmin c) \<longleftrightarrow>
     user_command_ok c \<and> bounded_actor (bs_actor c) \<and> bounded_name (bs_display_name c)
     \<and> strict_str (bs_password_hash c)"
| "directory_command_ok (MigrateLegacyIdentities c) \<longleftrightarrow> migrate_command_ok c"

fun command_scope :: "directory_command \<Rightarrow> string \<times> string" where
  "command_scope (CreateUser c) = (dc_tenant_id c, dc_environment_id c)"
| "command_scope (SetUserStatus c) = (dc_tenant_id c, dc_environment_id c)"
| "command_scope (SetManagedUserStatus c) = (dc_tenant_id c, dc_environment_id c)"
| "command_scope (AssignRole c) = (dc_tenant_id c, dc_environment_id c)"
| "command_scope (ChangeManagedUserRole c) = (dc_tenant_id c, dc_environment_id c)"
| "command_scope (RevokeRole c) = (dc_tenant_id c, dc_environment_id c)"
| "command_scope (BindExternalIdentity c) = (dc_tenant_id c, dc_environment_id c)"
| "command_scope (UnbindExternalIdentity c) = (dc_tenant_id c, dc_environment_id c)"
| "command_scope (ApproveActivation c) = (ad_tenant_id c, ad_environment_id c)"
| "command_scope (RejectActivation c) = (ad_tenant_id c, ad_environment_id c)"
| "command_scope (BootstrapLocalAdmin c) = (dc_tenant_id c, dc_environment_id c)"
| "command_scope (MigrateLegacyIdentities c) = (mg_tenant_id c, mg_environment_id c)"

subsection \<open>Return intents\<close>

definition closed_reference :: "string \<Rightarrow> bool" where
  "closed_reference s \<longleftrightarrow> s \<noteq> [] \<and> ascii_alnum (hd s) \<and> length s \<le> 64
     \<and> list_all (\<lambda>c. ascii_alnum c \<or> c \<in> set ''._:-'') (tl s)"

record return_intent =
  ri_kind :: return_intent_kind
  ri_task_id :: "string option"
  ri_request_id :: "string option"

definition return_intent_ok :: "return_intent \<Rightarrow> bool" where
  "return_intent_ok i \<longleftrightarrow> opt_all task_id_ok (ri_task_id i)
     \<and> opt_all (\<lambda>r. bounded_id r \<and> closed_reference r) (ri_request_id i)
     \<and> (ri_task_id i \<noteq> None) = (ri_kind i = RI_SAFE_TASK_DETAIL)
     \<and> (ri_request_id i \<noteq> None) = (ri_kind i = RI_ACTIVATION_STATUS)"

subsection \<open>Activation requests\<close>

fun ACTIVATION_SOURCE_REFERENCE_REQUIREMENTS :: "activation_source \<Rightarrow> bool" where
  "ACTIVATION_SOURCE_REFERENCE_REQUIREMENTS FROM_WEB_LOGIN = False"
| "ACTIVATION_SOURCE_REFERENCE_REQUIREMENTS FROM_SAFE_TASK_LINK = False"
| "ACTIVATION_SOURCE_REFERENCE_REQUIREMENTS FROM_FEISHU_GROUP = True"

fun ACTIVATION_SOURCE_INTENT_KINDS :: "activation_source \<Rightarrow> return_intent_kind set" where
  "ACTIVATION_SOURCE_INTENT_KINDS FROM_WEB_LOGIN = {RI_WORKBENCH, RI_ADMIN_CENTER, RI_ACTIVATION_STATUS}"
| "ACTIVATION_SOURCE_INTENT_KINDS FROM_SAFE_TASK_LINK = {RI_SAFE_TASK_DETAIL}"
| "ACTIVATION_SOURCE_INTENT_KINDS FROM_FEISHU_GROUP = {}"

fun ACTIVATION_STATUS_DECISION_RULES :: "activation_status \<Rightarrow> bool \<times> product_role set" where
  "ACTIVATION_STATUS_DECISION_RULES ACT_PENDING = (False, {})"
| "ACTIVATION_STATUS_DECISION_RULES ACT_EXPIRED = (False, {})"
| "ACTIVATION_STATUS_DECISION_RULES ACT_REJECTED = (True, {})"
| "ACTIVATION_STATUS_DECISION_RULES ACT_APPROVED = (True, {ROLE_USER, ROLE_OPERATOR})"

definition validate_source_shape ::
  "activation_source \<Rightarrow> bool \<Rightarrow> bool \<Rightarrow> return_intent option \<Rightarrow> bool" where
  "validate_source_shape source has_event has_chat intent \<longleftrightarrow>
     (let requires = ACTIVATION_SOURCE_REFERENCE_REQUIREMENTS source;
          allowed = ACTIVATION_SOURCE_INTENT_KINDS source
      in has_event = requires \<and> has_chat = requires
         \<and> (if allowed = {} then intent = None
            else case intent of None \<Rightarrow> False | Some i \<Rightarrow> ri_kind i \<in> allowed))"

record create_activation_command =
  ca_tenant_id :: string
  ca_environment_id :: string
  ca_provider :: identity_source
  ca_subject_ref :: string
  ca_source :: activation_source
  ca_return_intent :: "return_intent option"
  ca_source_event_ref :: "string option"
  ca_source_chat_ref :: "string option"

definition create_activation_command_ok :: "create_activation_command \<Rightarrow> bool" where
  "create_activation_command_ok c \<longleftrightarrow> bounded_id (ca_tenant_id c) \<and> bounded_id (ca_environment_id c)
     \<and> ca_provider c = SRC_FEISHU \<and> controlled_pii (ca_subject_ref c)
     \<and> opt_all return_intent_ok (ca_return_intent c)
     \<and> opt_all controlled_pii (ca_source_event_ref c) \<and> opt_all controlled_pii (ca_source_chat_ref c)
     \<and> validate_source_shape (ca_source c) (ca_source_event_ref c \<noteq> None)
          (ca_source_chat_ref c \<noteq> None) (ca_return_intent c)"

record activation_lookup =
  al_request_id :: string
  al_tenant_id :: string
  al_environment_id :: string

record activation_request =
  aq_request_id :: string
  aq_tenant_id :: string
  aq_environment_id :: string
  aq_provider :: identity_source
  aq_subject_ref :: string
  aq_subject_ref_digest :: string
  aq_source :: activation_source
  aq_return_intent :: "return_intent option"
  aq_source_event_digest :: "string option"
  aq_source_chat_digest :: "string option"
  aq_requested_at :: instant
  aq_expires_at :: instant
  aq_status :: activation_status
  aq_decided_at :: "instant option"
  aq_decided_by :: "string option"
  aq_approved_role :: "product_role option"

definition decision_fields_match :: "activation_request \<Rightarrow> bool" where
  "decision_fields_match r \<longleftrightarrow> (aq_decided_at r = None) = (aq_decided_by r = None)
     \<and> (case ACTIVATION_STATUS_DECISION_RULES (aq_status r) of (required, roles) \<Rightarrow>
          (aq_decided_at r \<noteq> None \<and> aq_decided_by r \<noteq> None) = required
          \<and> (case aq_approved_role r of None \<Rightarrow> roles = {} | Some role \<Rightarrow> role \<in> roles))"

definition activation_request_ok :: "activation_request \<Rightarrow> bool" where
  "activation_request_ok r \<longleftrightarrow> bounded_id (aq_request_id r) \<and> bounded_id (aq_tenant_id r)
     \<and> bounded_id (aq_environment_id r) \<and> aq_provider r = SRC_FEISHU
     \<and> controlled_pii (aq_subject_ref r) \<and> sha256_hex (aq_subject_ref_digest r)
     \<and> opt_all return_intent_ok (aq_return_intent r) \<and> opt_all sha256_hex (aq_source_event_digest r)
     \<and> opt_all sha256_hex (aq_source_chat_digest r) \<and> opt_all bounded_id (aq_decided_by r)
     \<and> aq_requested_at r < aq_expires_at r
     \<and> validate_source_shape (aq_source r) (aq_source_event_digest r \<noteq> None)
          (aq_source_chat_digest r \<noteq> None) (aq_return_intent r)
     \<and> decision_fields_match r"

record pending_list_query =
  plq_tenant_id :: string
  plq_environment_id :: string
  plq_before :: "(instant \<times> string) option"
  plq_limit :: int

definition pending_list_query_ok :: "pending_list_query \<Rightarrow> bool" where
  "pending_list_query_ok q \<longleftrightarrow> bounded_id (plq_tenant_id q) \<and> bounded_id (plq_environment_id q)
     \<and> opt_all (\<lambda>c. bounded_id (snd c)) (plq_before q) \<and> 0 < plq_limit q \<and> plq_limit q \<le> 100"

record 'a keyset_page =
  kp_items :: "'a list"
  kp_next :: "(instant \<times> string) option"

text \<open>
  \<open>PendingActivationPage\<close> and \<open>AdminAuditPage\<close>: at most 100 items, strictly descending by the key,
  and a cursor, both halves of it or none, that is the key of the last item.
\<close>

definition keyset_page_ok :: "('a \<Rightarrow> instant \<times> string) \<Rightarrow> 'a keyset_page \<Rightarrow> bool" where
  "keyset_page_ok key p \<longleftrightarrow> length (kp_items p) \<le> 100
     \<and> sorted_wrt (\<lambda>a b. key b < key a) (kp_items p)
     \<and> (case kp_next p of None \<Rightarrow> True | Some c \<Rightarrow> kp_items p \<noteq> [] \<and> c = key (last (kp_items p)))"

record retention_report =
  rr_pending_expired :: nat
  rr_approved_deleted :: nat
  rr_rejected_deleted :: nat
  rr_expired_deleted :: nat

end
