(* ===== verification/Audit_Contracts.thy ===== *)
theory Audit_Contracts
  imports Identity_Contracts
begin

text \<open>
  Administration audit: the events of \<open>contracts/admin_audit.py\<close> with their validators, the stage
  slots and the sealing of \<open>persistence/admin_audit.py\<close>, and the derivation of an event from a
  directory command in \<open>persistence/identity.py\<close>, which no caller can influence.
\<close>

subsection \<open>Enumerations\<close>

datatype audit_action =
    AA_USER_CREATED | AA_USER_STATUS_CHANGED | AA_ROLE_ASSIGNED | AA_ROLE_REVOKED
  | AA_EXTERNAL_IDENTITY_BOUND | AA_EXTERNAL_IDENTITY_UNBOUND | AA_LOCAL_ADMIN_BOOTSTRAPPED
  | AA_LEGACY_IDENTITY_MIGRATED | AA_ACTIVATION_APPROVED | AA_ACTIVATION_REJECTED
  | AA_CONFIG_SAVED | AA_CONFIG_CLEARED | AA_CONNECTION_TESTED

datatype audit_target_kind = TGT_USER | TGT_ACTIVATION | TGT_DUTY_BINDING | TGT_CONFIG | TGT_TASK_CONTENT

fun audit_target_kind_value :: "audit_target_kind \<Rightarrow> string" where
  "audit_target_kind_value TGT_USER = ''user''"
| "audit_target_kind_value TGT_ACTIVATION = ''activation''"
| "audit_target_kind_value TGT_DUTY_BINDING = ''duty_binding''"
| "audit_target_kind_value TGT_CONFIG = ''config''"
| "audit_target_kind_value TGT_TASK_CONTENT = ''task_content''"

datatype audit_outcome = AO_STARTED | AO_SUCCEEDED | AO_DENIED | AO_FAILED

datatype audit_reason_code =
    RC_ACTOR_NOT_ADMIN | RC_AUTH_SOURCE_NOT_ALLOWED | RC_TARGET_NOT_FOUND | RC_SCOPE_MISMATCH
  | RC_CONFLICT | RC_AUDIT_UNWRITABLE | RC_CONFIG_INVALID | RC_FILE_IO_FAILED | RC_PROBE_FAILED
  | RC_SESSION_INVALID

definition DIRECTORY_ACTIONS :: "audit_action set" where
  "DIRECTORY_ACTIONS = {AA_USER_CREATED, AA_USER_STATUS_CHANGED, AA_ROLE_ASSIGNED, AA_ROLE_REVOKED,
     AA_EXTERNAL_IDENTITY_BOUND, AA_EXTERNAL_IDENTITY_UNBOUND, AA_LOCAL_ADMIN_BOOTSTRAPPED,
     AA_LEGACY_IDENTITY_MIGRATED, AA_ACTIVATION_APPROVED, AA_ACTIVATION_REJECTED}"

definition STARTABLE_ACTIONS :: "audit_action set" where
  "STARTABLE_ACTIONS = {AA_CONFIG_SAVED, AA_CONFIG_CLEARED, AA_CONNECTION_TESTED}"

definition ROLE_EFFECT_ACTIONS :: "audit_action set" where
  "ROLE_EFFECT_ACTIONS = {AA_USER_CREATED, AA_ROLE_ASSIGNED, AA_LOCAL_ADMIN_BOOTSTRAPPED,
     AA_LEGACY_IDENTITY_MIGRATED, AA_ACTIVATION_APPROVED}"

definition STATUS_EFFECT_ACTIONS :: "audit_action set" where
  "STATUS_EFFECT_ACTIONS = {AA_USER_CREATED, AA_USER_STATUS_CHANGED, AA_LOCAL_ADMIN_BOOTSTRAPPED,
     AA_LEGACY_IDENTITY_MIGRATED, AA_ACTIVATION_APPROVED}"

definition NEGATIVE_OUTCOMES :: "audit_outcome set" where
  "NEGATIVE_OUTCOMES = {AO_DENIED, AO_FAILED}"

subsection \<open>Events\<close>

record operation_context =
  oc_operation_id :: string
  oc_actor_user_id :: string
  oc_actor :: string
  oc_auth_source :: identity_source

definition operation_context_ok :: "operation_context \<Rightarrow> bool" where
  "operation_context_ok c \<longleftrightarrow> bounded_str 48 (oc_operation_id c) \<and> bounded_id (oc_actor_user_id c)
     \<and> bounded_actor (oc_actor c)"

record audit_effect =
  ae_role :: "product_role option"
  ae_status :: "user_status option"

definition no_effect :: audit_effect where
  "no_effect = \<lparr>ae_role = None, ae_status = None\<rparr>"

definition is_empty_effect :: "audit_effect \<Rightarrow> bool" where
  "is_empty_effect e \<longleftrightarrow> ae_role e = None \<and> ae_status e = None"

text \<open>What a start, a denial and a whole candidate share.\<close>

record audit_subject =
  ac_operation_id :: string
  ac_tenant_id :: string
  ac_environment_id :: string
  ac_actor_user_id :: string
  ac_actor :: string
  ac_auth_source :: identity_source
  ac_action :: audit_action
  ac_target_kind :: audit_target_kind
  ac_target_ref_digest :: string

definition audit_subject_ok :: "'a audit_subject_scheme \<Rightarrow> bool" where
  "audit_subject_ok c \<longleftrightarrow> bounded_id (ac_operation_id c) \<and> bounded_id (ac_tenant_id c)
     \<and> bounded_id (ac_environment_id c) \<and> bounded_id (ac_actor_user_id c)
     \<and> bounded_actor (ac_actor c) \<and> sha256_hex (ac_target_ref_digest c)"

record audit_candidate = audit_subject +
  ac_outcome :: audit_outcome
  ac_reason_code :: "audit_reason_code option"
  ac_effect :: audit_effect

definition reason_code_matches_outcome :: "'a audit_candidate_scheme \<Rightarrow> bool" where
  "reason_code_matches_outcome c \<longleftrightarrow> (ac_outcome c \<in> NEGATIVE_OUTCOMES) = (ac_reason_code c \<noteq> None)"

definition effect_matches_action_and_outcome :: "'a audit_candidate_scheme \<Rightarrow> bool" where
  "effect_matches_action_and_outcome c \<longleftrightarrow>
     (if ac_outcome c \<noteq> AO_SUCCEEDED then is_empty_effect (ac_effect c)
      else (ac_action c \<in> ROLE_EFFECT_ACTIONS) = (ae_role (ac_effect c) \<noteq> None)
         \<and> (ac_action c \<in> STATUS_EFFECT_ACTIONS) = (ae_status (ac_effect c) \<noteq> None))"

definition directory_actions_are_single_phase :: "'a audit_candidate_scheme \<Rightarrow> bool" where
  "directory_actions_are_single_phase c \<longleftrightarrow>
     \<not> (ac_outcome c = AO_STARTED \<and> ac_action c \<in> DIRECTORY_ACTIONS)"

definition audit_candidate_ok :: "'a audit_candidate_scheme \<Rightarrow> bool" where
  "audit_candidate_ok c \<longleftrightarrow> audit_subject_ok c \<and> reason_code_matches_outcome c
     \<and> effect_matches_action_and_outcome c \<and> directory_actions_are_single_phase c"

record audit_event = audit_candidate +
  av_event_id :: string
  av_created_at :: instant

definition audit_event_ok :: "audit_event \<Rightarrow> bool" where
  "audit_event_ok e \<longleftrightarrow> audit_candidate_ok e \<and> bounded_id (av_event_id e)"

definition audit_start_ok :: "audit_subject \<Rightarrow> bool" where
  "audit_start_ok s \<longleftrightarrow> audit_subject_ok s \<and> ac_action s \<in> STARTABLE_ACTIONS"

record audit_terminal =
  at_operation_id :: string
  at_outcome :: audit_outcome
  at_reason_code :: "audit_reason_code option"
  at_effect :: audit_effect

definition audit_terminal_ok :: "audit_terminal \<Rightarrow> bool" where
  "audit_terminal_ok t \<longleftrightarrow> bounded_id (at_operation_id t) \<and> at_outcome t \<noteq> AO_STARTED
     \<and> at_outcome t \<noteq> AO_DENIED
     \<and> (at_outcome t \<in> NEGATIVE_OUTCOMES) = (at_reason_code t \<noteq> None)
     \<and> (at_outcome t \<in> NEGATIVE_OUTCOMES \<longrightarrow> is_empty_effect (at_effect t))"

record audit_denial = audit_subject +
  an_reason_code :: audit_reason_code

record audit_list_query =
  elq_tenant_id :: string
  elq_environment_id :: string
  elq_before :: "(instant \<times> string) option"
  elq_action :: "audit_action option"
  elq_outcome :: "audit_outcome option"
  elq_target :: "(audit_target_kind \<times> string) option"
  elq_limit :: int

definition audit_list_query_ok :: "audit_list_query \<Rightarrow> bool" where
  "audit_list_query_ok q \<longleftrightarrow> bounded_id (elq_tenant_id q) \<and> bounded_id (elq_environment_id q)
     \<and> opt_all (\<lambda>c. bounded_id (snd c)) (elq_before q) \<and> opt_all (\<lambda>t. sha256_hex (snd t)) (elq_target q)
     \<and> 0 < elq_limit q \<and> elq_limit q \<le> 100"

subsection \<open>Digests\<close>

text \<open>The unit separator between the parts of the hashed material.\<close>

definition US :: string where "US = [byte 31]"

definition admin_audit_target_digest :: "py_env \<Rightarrow> audit_target_kind \<Rightarrow> string \<Rightarrow> string" where
  "admin_audit_target_digest E kind ref = env_sha256 E
     (''xiaowei.admin_audit.target.v1'' @ US @ audit_target_kind_value kind @ US @ ref)"

definition external_subject_digest ::
  "py_env \<Rightarrow> identity_source \<Rightarrow> string \<Rightarrow> string \<Rightarrow> string \<Rightarrow> string" where
  "external_subject_digest E provider tenant_id environment_id subject_ref = env_sha256 E
     (''xiaowei.identity.external_subject.v1'' @ US @ identity_source_value provider @ US @ tenant_id
        @ US @ environment_id @ US @ subject_ref)"

definition activation_user_id :: "py_env \<Rightarrow> string \<Rightarrow> string" where
  "activation_user_id E subject_ref_digest =
     ''feishu-'' @ take 32 (env_sha256 E (''xiaowei.identity.activation_user.v1'' @ US @ subject_ref_digest))"

definition activation_subject_digest :: "py_env \<Rightarrow> create_activation_command \<Rightarrow> string" where
  "activation_subject_digest E c = env_sha256 E
     (''xiaowei.activation.subject.v1'' @ US @ identity_source_value (ca_provider c) @ US
        @ ca_tenant_id c @ US @ ca_environment_id c @ US @ ca_subject_ref c)"

datatype source_ref_kind = EVENT_REF | CHAT_REF

fun activation_source_ref_digest :: "py_env \<Rightarrow> source_ref_kind \<Rightarrow> string \<Rightarrow> string" where
  "activation_source_ref_digest E EVENT_REF ref =
     env_sha256 E (''xiaowei.activation.event.v1'' @ US @ ref)"
| "activation_source_ref_digest E CHAT_REF ref =
     env_sha256 E (''xiaowei.activation.chat.v1'' @ US @ ref)"

subsection \<open>Stages and sealing\<close>

datatype audit_stage = STAGE_STARTED | STAGE_TERMINAL

fun audit_stage_value :: "audit_stage \<Rightarrow> string" where
  "audit_stage_value STAGE_STARTED = ''started''"
| "audit_stage_value STAGE_TERMINAL = ''terminal''"

definition audit_stage_key :: "string \<Rightarrow> audit_outcome \<Rightarrow> string \<times> audit_stage" where
  "audit_stage_key operation_id outcome =
     (operation_id, if outcome = AO_STARTED then STAGE_STARTED else STAGE_TERMINAL)"

definition stage_event_id :: "py_env \<Rightarrow> string \<Rightarrow> audit_stage \<Rightarrow> string" where
  "stage_event_id E operation_id stage = env_sha256 E
     (''xiaowei.admin_audit.event.v1'' @ US @ operation_id @ US @ audit_stage_value stage)"

definition seal ::
  "py_env \<Rightarrow> audit_candidate \<Rightarrow> instant \<Rightarrow> validation_error + audit_event" where
  "seal E c now = (case audit_stage_key (ac_operation_id c) (ac_outcome c) of (operation_id, stage) \<Rightarrow>
     revalidate audit_event_ok \<lparr>ac_operation_id = ac_operation_id c, ac_tenant_id = ac_tenant_id c,
      ac_environment_id = ac_environment_id c, ac_actor_user_id = ac_actor_user_id c,
      ac_actor = ac_actor c, ac_auth_source = ac_auth_source c, ac_action = ac_action c,
      ac_target_kind = ac_target_kind c, ac_target_ref_digest = ac_target_ref_digest c,
      ac_outcome = ac_outcome c, ac_reason_code = ac_reason_code c, ac_effect = ac_effect c,
      av_event_id = stage_event_id E operation_id stage, av_created_at = now\<rparr>)"

subsection \<open>Derivation of the event of a directory command\<close>

fun ACTION_FOR_COMMAND :: "directory_command \<Rightarrow> audit_action" where
  "ACTION_FOR_COMMAND (CreateUser c) = AA_USER_CREATED"
| "ACTION_FOR_COMMAND (SetUserStatus c) = AA_USER_STATUS_CHANGED"
| "ACTION_FOR_COMMAND (SetManagedUserStatus c) = AA_USER_STATUS_CHANGED"
| "ACTION_FOR_COMMAND (AssignRole c) = AA_ROLE_ASSIGNED"
| "ACTION_FOR_COMMAND (ChangeManagedUserRole c) = AA_ROLE_ASSIGNED"
| "ACTION_FOR_COMMAND (RevokeRole c) = AA_ROLE_REVOKED"
| "ACTION_FOR_COMMAND (BindExternalIdentity c) = AA_EXTERNAL_IDENTITY_BOUND"
| "ACTION_FOR_COMMAND (UnbindExternalIdentity c) = AA_EXTERNAL_IDENTITY_UNBOUND"
| "ACTION_FOR_COMMAND (BootstrapLocalAdmin c) = AA_LOCAL_ADMIN_BOOTSTRAPPED"
| "ACTION_FOR_COMMAND (MigrateLegacyIdentities c) = AA_LEGACY_IDENTITY_MIGRATED"
| "ACTION_FOR_COMMAND (ApproveActivation c) = AA_ACTIVATION_APPROVED"
| "ACTION_FOR_COMMAND (RejectActivation c) = AA_ACTIVATION_REJECTED"

text \<open>The effect of a migration belongs to its entry; asking for it without one raises.\<close>

fun EFFECT_FOR_COMMAND ::
  "directory_command \<Rightarrow> migration_entry option \<Rightarrow> validation_error + audit_effect" where
  "EFFECT_FOR_COMMAND (CreateUser c) entry =
     Inr \<lparr>ae_role = Some (cu_role c), ae_status = Some US_ACTIVE\<rparr>"
| "EFFECT_FOR_COMMAND (SetUserStatus c) entry = Inr \<lparr>ae_role = None, ae_status = Some (ss_status c)\<rparr>"
| "EFFECT_FOR_COMMAND (SetManagedUserStatus c) entry =
     Inr \<lparr>ae_role = None, ae_status = Some (ms_status c)\<rparr>"
| "EFFECT_FOR_COMMAND (AssignRole c) entry = Inr \<lparr>ae_role = Some (ar_role c), ae_status = None\<rparr>"
| "EFFECT_FOR_COMMAND (ChangeManagedUserRole c) entry =
     Inr \<lparr>ae_role = Some (mr_role c), ae_status = None\<rparr>"
| "EFFECT_FOR_COMMAND (RevokeRole c) entry = Inr no_effect"
| "EFFECT_FOR_COMMAND (BindExternalIdentity c) entry = Inr no_effect"
| "EFFECT_FOR_COMMAND (UnbindExternalIdentity c) entry = Inr no_effect"
| "EFFECT_FOR_COMMAND (BootstrapLocalAdmin c) entry =
     Inr \<lparr>ae_role = Some ROLE_ADMIN, ae_status = Some US_ACTIVE\<rparr>"
| "EFFECT_FOR_COMMAND (MigrateLegacyIdentities c) entry = (case entry of
      None \<Rightarrow> Inl ValidationError
    | Some e \<Rightarrow> Inr \<lparr>ae_role = Some (me_role e), ae_status = Some US_ACTIVE\<rparr>)"
| "EFFECT_FOR_COMMAND (ApproveActivation c) entry =
     Inr \<lparr>ae_role = Some (ap_approved_role c), ae_status = Some US_ACTIVE\<rparr>"
| "EFFECT_FOR_COMMAND (RejectActivation c) entry = Inr no_effect"

definition batch_operation_id :: "operation_context \<Rightarrow> nat \<Rightarrow> string" where
  "batch_operation_id context index = oc_operation_id context @ '':'' @ dec_nat index"

fun audit_target :: "directory_command \<Rightarrow> string \<Rightarrow> audit_target_kind \<times> string" where
  "audit_target (ApproveActivation c) ref = (TGT_ACTIVATION, ad_request_id c)"
| "audit_target (RejectActivation c) ref = (TGT_ACTIVATION, ad_request_id c)"
| "audit_target c ref = (TGT_USER, ref)"

definition derive_audit ::
  "py_env \<Rightarrow> directory_command \<Rightarrow> operation_context \<Rightarrow> string \<Rightarrow> string option
     \<Rightarrow> migration_entry option \<Rightarrow> validation_error + audit_candidate" where
  "derive_audit E command oc target_ref operation_id entry =
     (case audit_target command target_ref of (kind, derived_ref) \<Rightarrow>
        case EFFECT_FOR_COMMAND command entry of
          Inl e \<Rightarrow> Inl e
        | Inr eff \<Rightarrow> revalidate audit_candidate_ok
            \<lparr>ac_operation_id = (case operation_id of None \<Rightarrow> oc_operation_id oc | Some i \<Rightarrow> i),
             ac_tenant_id = fst (command_scope command),
             ac_environment_id = snd (command_scope command),
             ac_actor_user_id = oc_actor_user_id oc, ac_actor = oc_actor oc,
             ac_auth_source = oc_auth_source oc, ac_action = ACTION_FOR_COMMAND command,
             ac_target_kind = kind, ac_target_ref_digest = admin_audit_target_digest E kind derived_ref,
             ac_outcome = AO_SUCCEEDED, ac_reason_code = None, ac_effect = eff\<rparr>)"

subsection \<open>A derived event never fails its validators\<close>

lemma effect_for_command:
  assumes "EFFECT_FOR_COMMAND command entry = Inr eff"
  shows "(ACTION_FOR_COMMAND command \<in> ROLE_EFFECT_ACTIONS) = (ae_role eff \<noteq> None)"
    and "(ACTION_FOR_COMMAND command \<in> STATUS_EFFECT_ACTIONS) = (ae_status eff \<noteq> None)"
  using assms
  by (cases command; auto simp: ROLE_EFFECT_ACTIONS_def STATUS_EFFECT_ACTIONS_def no_effect_def
      split: option.splits)+

lemma command_action_is_directory: "ACTION_FOR_COMMAND command \<in> DIRECTORY_ACTIONS"
  by (cases command) (auto simp: DIRECTORY_ACTIONS_def)

lemma command_scope_bounded:
  "directory_command_ok command \<Longrightarrow>
     bounded_id (fst (command_scope command)) \<and> bounded_id (snd (command_scope command))"
  by (cases command) (auto simp: user_command_ok_def managed_status_command_ok_def
      managed_role_command_ok_def approve_command_ok_def decision_command_ok_def migrate_command_ok_def)

lemma dec_nat_length: "n < 10 ^ k \<Longrightarrow> 0 < k \<Longrightarrow> length (dec_nat n) \<le> k"
proof (induction n arbitrary: k rule: dec_nat.induct)
  case (1 n)
  show ?case
  proof (cases "n < 10")
    case False
    then have "k \<noteq> 1" using 1(2) by auto
    with 1(3) obtain j where j: "k = Suc j" "0 < j" by (cases k) auto
    have "n < 10 ^ j * 10" using 1(2) j(1) by simp
    then have "n div 10 < 10 ^ j" by (rule less_mult_imp_div_less)
    with False 1(1) j have "length (dec_nat (n div 10)) \<le> j" by blast
    with False j show ?thesis by (subst dec_nat.simps) (simp del: dec_nat.simps)
  qed (use 1 in \<open>simp add: dec_nat.simps\<close>)
qed

text \<open>No whitespace sequence of \<open>str.strip\<close> contains a colon or ends in a digit.\<close>

lemma whitespace_no_colon: "w \<in> set py_whitespace \<Longrightarrow> CHR '':'' \<notin> set w"
proof -
  have "list_all (\<lambda>w. CHR '':'' \<notin> set w) py_whitespace" by code_simp
  then show "w \<in> set py_whitespace \<Longrightarrow> ?thesis" by (simp add: list_all_iff)
qed

lemma strict_str_suffix:
  assumes "strict_str s" "t \<noteq> []" "ascii_alnum (last t)"
  shows "strict_str (s @ '':'' @ t)"
proof -
  have "\<not> starts_with w (s @ '':'' @ t)" if w: "w \<in> set py_whitespace" for w
  proof
    assume sw: "starts_with w (s @ '':'' @ t)"
    show False
    proof (cases "length w \<le> length s")
      case True
      then have "starts_with w s" using sw by (simp add: starts_with_def)
      then show False using assms(1) w by (auto simp: strict_str_def is_padded_def list_ex_iff)
    next
      case False
      then have "CHR '':'' \<in> set (take (length w) (s @ '':'' @ t))"
        by (simp add: take_Cons')
      moreover have "take (length w) (s @ '':'' @ t) = w" using sw by (simp only: starts_with_def)
      ultimately have "CHR '':'' \<in> set w" by (simp only:)
      then show False using whitespace_no_colon [OF w] by (rule notE [rotated])
    qed
  qed
  moreover have "\<not> ends_with w (s @ '':'' @ t)" if w: "w \<in> set py_whitespace" for w
  proof
    assume "ends_with w (s @ '':'' @ t)"
    moreover note whitespace_not_alnum [OF w]
    ultimately have "last w = last (s @ '':'' @ t)"
      unfolding ends_with_def by (metis drop_eq_Nil last_drop not_le)
    then show False using whitespace_not_alnum [OF w] assms(2,3) by simp
  qed
  ultimately show ?thesis by (auto simp: strict_str_def is_padded_def list_ex_iff)
qed

lemma digit_alnum: "digit c \<Longrightarrow> ascii_alnum c"
  by (auto simp: digit_def ascii_alnum_def)

lemma batch_operation_id_bounded:
  assumes "bounded_str 48 (oc_operation_id c)" "i \<le> MAX_MIGRATION_ENTRIES"
  shows "bounded_id (batch_operation_id c i)"
proof -
  have d: "list_all ascii_alnum (dec_nat i)" "dec_nat i \<noteq> []"
    using dec_nat_digits [of i] digit_alnum by (auto simp: list_all_iff)
  have "length (dec_nat i) \<le> 5"
    using assms(2) by (intro dec_nat_length) (simp_all add: MAX_MIGRATION_ENTRIES_def)
  then have "char_len (dec_nat i) \<le> 5" using char_len_ascii [OF d(1)] by simp
  moreover have "char_len '':'' = 1" by (simp add: char_len_def)
  ultimately show ?thesis
    using assms(1) d strict_str_suffix [of "oc_operation_id c" "dec_nat i"]
      char_len_append [of "oc_operation_id c" "'':'' @ dec_nat i"]
      char_len_append [of "'':''" "dec_nat i"] char_len_ascii [OF d(1)]
    by (auto simp: bounded_str_def batch_operation_id_def list_all_iff)
qed

lemma derive_audit_succeeds:
  assumes env: "py_env_ok E" and command: "directory_command_ok command"
    and oc: "operation_context_ok oc"
    and oid: "case operation_id of None \<Rightarrow> True | Some i \<Rightarrow> bounded_id i"
    and entry: "(\<exists>c. command = MigrateLegacyIdentities c) \<Longrightarrow> entry \<noteq> None"
  obtains cand eff where "derive_audit E command oc ref operation_id entry = Inr cand"
    "EFFECT_FOR_COMMAND command entry = Inr eff" "ac_effect cand = eff"
    "ac_operation_id cand = (case operation_id of None \<Rightarrow> oc_operation_id oc | Some i \<Rightarrow> i)"
    "ac_outcome cand = AO_SUCCEEDED" "audit_candidate_ok cand"
proof -
  obtain kind r where t: "audit_target command ref = (kind, r)" by fastforce
  obtain eff where eff: "EFFECT_FOR_COMMAND command entry = Inr eff"
    using entry by (cases command; cases entry) auto
  note d = derive_audit_def [of E command oc ref operation_id entry]
  have "bounded_id (oc_operation_id oc)"
    using oc bounded_mono [of 48] by (auto simp: operation_context_ok_def)
  then show thesis
    using that env oc oid command_scope_bounded [OF command] effect_for_command [OF eff]
      command_action_is_directory [of command]
    unfolding d t eff
    by (auto simp: revalidate_def audit_candidate_ok_def audit_subject_ok_def operation_context_ok_def
        reason_code_matches_outcome_def effect_matches_action_and_outcome_def NEGATIVE_OUTCOMES_def
        directory_actions_are_single_phase_def admin_audit_target_digest_def py_env_ok_def
        split: option.splits)
qed

end
