(* ===== verification/Session_Contracts.thy ===== *)
theory Session_Contracts
  imports Identity_Contracts
begin

text \<open>
  The contracts of the local administrator (\<open>persistence/local_admin.py\<close>) and of browser sessions and
  OAuth states (\<open>persistence/web_session.py\<close>). Only digests of cookies and states are kept.
\<close>

subsection \<open>The local administrator\<close>

record local_admin_record =
  la_password_hash :: string
  la_must_change_password :: bool
  la_user_id :: "string option"

definition local_admin_record_ok :: "local_admin_record \<Rightarrow> bool" where
  "local_admin_record_ok r \<longleftrightarrow> strict_str (la_password_hash r) \<and> opt_all strict_str (la_user_id r)"

record change_password_command =
  cp_password_hash :: string
  cp_new_session_digest :: string
  cp_public_origin_digest :: string
  cp_session_ttl_seconds :: int

definition change_password_command_ok :: "change_password_command \<Rightarrow> bool" where
  "change_password_command_ok c \<longleftrightarrow> strict_str (cp_password_hash c) \<and> sha256_hex (cp_new_session_digest c)
     \<and> sha256_hex (cp_public_origin_digest c) \<and> 0 < cp_session_ttl_seconds c
     \<and> cp_session_ttl_seconds c \<le> 86400"

definition LOCAL_ADMIN_SUBJECT_REF :: string where "LOCAL_ADMIN_SUBJECT_REF = ''local-admin''"

definition bootstrap_local_admin_command :: "string \<Rightarrow> bootstrap_command" where
  "bootstrap_local_admin_command password_hash =
     \<lparr>dc_user_id = LOCAL_ADMIN_USER_ID, dc_tenant_id = LOCAL_ADMIN_TENANT_ID,
      dc_environment_id = LOCAL_ADMIN_ENVIRONMENT_ID, bs_actor = LOCAL_ADMIN_ACTOR,
      bs_display_name = LOCAL_ADMIN_DISPLAY_NAME, bs_password_hash = password_hash\<rparr>"

subsection \<open>OAuth states\<close>

definition DEFAULT_OAUTH_STATE_CAPACITY :: nat where "DEFAULT_OAUTH_STATE_CAPACITY = 1024"

record oauth_state =
  oa_state_digest :: string
  oa_issued_at :: instant
  oa_expires_at :: instant
  oa_consumed_at :: "instant option"

definition oauth_state_ok :: "'a oauth_state_scheme \<Rightarrow> bool" where
  "oauth_state_ok s \<longleftrightarrow> sha256_hex (oa_state_digest s) \<and> oa_issued_at s < oa_expires_at s
     \<and> opt_all (\<lambda>t. oa_issued_at s \<le> t \<and> t < oa_expires_at s) (oa_consumed_at s)"

record oauth_login_state = oauth_state +
  ol_return_intent :: return_intent

definition oauth_login_state_ok :: "oauth_login_state \<Rightarrow> bool" where
  "oauth_login_state_ok s \<longleftrightarrow> oauth_state_ok s \<and> return_intent_ok (ol_return_intent s)"

definition w4_operation_id :: "string \<Rightarrow> bool" where
  "w4_operation_id s \<longleftrightarrow> bounded_id s \<and> starts_with ''w4:'' s"

record oauth_test_state = oauth_state +
  ot_operation_id :: string
  ot_config_generation :: int

definition oauth_test_state_ok :: "oauth_test_state \<Rightarrow> bool" where
  "oauth_test_state_ok s \<longleftrightarrow> oauth_state_ok s \<and> w4_operation_id (ot_operation_id s)
     \<and> 0 < ot_config_generation s"

record issue_state_command =
  is_state_digest :: string
  is_ttl_seconds :: int

definition issue_state_command_ok :: "'a issue_state_command_scheme \<Rightarrow> bool" where
  "issue_state_command_ok c \<longleftrightarrow> sha256_hex (is_state_digest c) \<and> 0 < is_ttl_seconds c
     \<and> is_ttl_seconds c \<le> 600"

record issue_login_command = issue_state_command +
  il_return_intent :: return_intent

definition issue_login_command_ok :: "issue_login_command \<Rightarrow> bool" where
  "issue_login_command_ok c \<longleftrightarrow> issue_state_command_ok c \<and> return_intent_ok (il_return_intent c)"

record issue_test_command = issue_state_command +
  it_operation_id :: string
  it_config_generation :: int

definition issue_test_command_ok :: "issue_test_command \<Rightarrow> bool" where
  "issue_test_command_ok c \<longleftrightarrow> issue_state_command_ok c \<and> w4_operation_id (it_operation_id c)
     \<and> 0 < it_config_generation c"

text \<open>The row that binds a test state to its audit operation (\<open>persistence/memory.py\<close>).\<close>

record oauth_test_context =
  oc_test_operation_id :: string
  oc_test_config_generation :: int

subsection \<open>Browser sessions\<close>

record web_session =
  ws_session_digest :: string
  ws_subject_ref :: string
  ws_issued_at :: instant
  ws_expires_at :: instant
  ws_revoked_at :: "instant option"
  ws_auth_source :: identity_source
  ws_public_origin_digest :: string

definition web_session_ok :: "web_session \<Rightarrow> bool" where
  "web_session_ok w \<longleftrightarrow> sha256_hex (ws_session_digest w) \<and> strict_str (ws_subject_ref w)
     \<and> sha256_hex (ws_public_origin_digest w) \<and> ws_issued_at w < ws_expires_at w
     \<and> opt_all (\<lambda>t. ws_issued_at w \<le> t) (ws_revoked_at w)"

record rotate_session_command =
  rs_session_digest :: string
  rs_subject_ref :: string
  rs_ttl_seconds :: int
  rs_previous_session_digest :: "string option"
  rs_auth_source :: identity_source
  rs_public_origin_digest :: string

definition rotate_session_command_ok :: "rotate_session_command \<Rightarrow> bool" where
  "rotate_session_command_ok c \<longleftrightarrow> sha256_hex (rs_session_digest c) \<and> strict_str (rs_subject_ref c)
     \<and> 0 < rs_ttl_seconds c \<and> rs_ttl_seconds c \<le> 86400
     \<and> opt_all sha256_hex (rs_previous_session_digest c) \<and> sha256_hex (rs_public_origin_digest c)
     \<and> Some (rs_session_digest c) \<noteq> rs_previous_session_digest c"

record session_lookup =
  wl_session_digest :: string
  wl_public_origin_digest :: string

end
