(* ===== verification/Identity_Store.thy ===== *)
theory Identity_Store
  imports Effects Audit_Contracts Session_Contracts
begin

text \<open>
  The user directory, its audit trail and activation requests as \<open>InMemoryUserDirectoryStore\<close>,
  \<open>InMemoryAdminAuditStore\<close>, \<open>InMemoryActivationStore\<close> and \<open>InMemoryActivationRetentionStore\<close> keep
  them (\<open>persistence/fake.py\<close>). The stores share one lock and one state, so each operation is one
  atomic function of the state; its clock reading and fresh identifier are arguments.
\<close>

record identity_state =
  id_oauth_states :: "(string, oauth_state) dict"
  id_login_contexts :: "(string, return_intent) dict"
  id_test_contexts :: "(string, oauth_test_context) dict"
  id_sessions :: "(string, web_session) dict"
  id_local_admin :: "local_admin_record option"
  id_accounts :: "(string, user_account) dict"
  id_roles :: "(string \<times> string \<times> string, role_assignment) dict"
  id_bindings :: "(string \<times> string \<times> string \<times> string, external_identity) dict"
  id_events :: "(string, audit_event) dict"
  id_stages :: "(string \<times> audit_stage, string) dict"
  id_activations :: "(string, activation_request) dict"

definition empty_identity :: identity_state where
  "empty_identity = \<lparr>id_oauth_states = [], id_login_contexts = [], id_test_contexts = [],
     id_sessions = [], id_local_admin = None, id_accounts = [], id_roles = [], id_bindings = [],
     id_events = [], id_stages = [], id_activations = []\<rparr>"

text \<open>\<open>LookupKeyError\<close> stands for a \<open>KeyError\<close> of a subscript; it is shown unreachable.\<close>

datatype identity_error =
    UserDirectoryConflictError string
  | UserDirectoryNotFoundError string
  | UserDirectoryDecisionDeniedError audit_reason_code
  | UserDirectorySubjectUnavailableError
  | AdminAuditUnwritableError
  | AdminAuditConflictError
  | AdminAuditMissingStartError
  | ActivationCapacityError
  | LocalAdminNotFoundError
  | OAuthStateNotFoundError
  | OAuthStateCapacityError
  | OAuthLoginContextNotFoundError
  | OAuthTestContextNotFoundError
  | WebSessionNotFoundError
  | WebSessionConflictError
  | IdentityValidationError
  | LookupKeyError

type_synonym 'b identity_op = "(identity_state, identity_error, 'b) operation"

definition checked_as :: "('b \<Rightarrow> bool) \<Rightarrow> 'b \<Rightarrow> 'b identity_op" where
  "checked_as ok r = lift (\<lambda>_. IdentityValidationError) (revalidate ok r)"

subsection \<open>The audit trail\<close>

definition append_locked ::
  "py_env \<Rightarrow> audit_candidate \<Rightarrow> instant \<Rightarrow> audit_event option identity_op" where
  "append_locked E c now s =
     (let key = audit_stage_key (ac_operation_id c) (ac_outcome c) in
      if dget (id_stages s) key \<noteq> None then (s, Inr None)
      else case seal E c now of
          Inl e \<Rightarrow> (s, Inl IdentityValidationError)
        | Inr event \<Rightarrow>
            if dget (id_events s) (av_event_id event) \<noteq> None then (s, Inr None)
            else (s\<lparr>id_stages := dset key (av_event_id event) (id_stages s),
                    id_events := dset (av_event_id event) event (id_events s)\<rparr>, Inr (Some event)))"

text \<open>The two entries to the trail name a taken slot each in its own way.\<close>

definition append_or ::
  "identity_error \<Rightarrow> py_env \<Rightarrow> audit_candidate \<Rightarrow> instant \<Rightarrow> audit_event identity_op" where
  "append_or taken E c now =
     andthen (append_locked E c now) (\<lambda>event. case event of None \<Rightarrow> raise taken | Some e \<Rightarrow> ret e)"

definition candidate_of ::
  "'a audit_subject_scheme \<Rightarrow> audit_outcome \<Rightarrow> audit_reason_code option \<Rightarrow> audit_effect
     \<Rightarrow> audit_candidate" where
  "candidate_of s outcome code eff =
     \<lparr>ac_operation_id = ac_operation_id s, ac_tenant_id = ac_tenant_id s,
      ac_environment_id = ac_environment_id s, ac_actor_user_id = ac_actor_user_id s,
      ac_actor = ac_actor s, ac_auth_source = ac_auth_source s, ac_action = ac_action s,
      ac_target_kind = ac_target_kind s, ac_target_ref_digest = ac_target_ref_digest s,
      ac_outcome = outcome, ac_reason_code = code, ac_effect = eff\<rparr>"

definition append_started :: "py_env \<Rightarrow> audit_subject \<Rightarrow> instant \<Rightarrow> audit_event identity_op" where
  "append_started E start now =
     andthen (checked_as audit_candidate_ok (candidate_of start AO_STARTED None no_effect))
       (\<lambda>c. append_or AdminAuditConflictError E c now)"

definition append_terminal :: "py_env \<Rightarrow> audit_terminal \<Rightarrow> instant \<Rightarrow> audit_event identity_op" where
  "append_terminal E t now =
     andthen (reads (\<lambda>s. dget (id_stages s) (audit_stage_key (at_operation_id t) AO_STARTED)))
       (\<lambda>started_id. case started_id of
            None \<Rightarrow> raise AdminAuditMissingStartError
          | Some i \<Rightarrow> andthen (reads (\<lambda>s. dget (id_events s) i))
              (\<lambda>found. case found of
                   None \<Rightarrow> raise LookupKeyError
                 | Some started \<Rightarrow>
                     andthen (checked_as audit_candidate_ok
                         (candidate_of started (at_outcome t) (at_reason_code t) (at_effect t)))
                       (\<lambda>c. append_or AdminAuditConflictError E c now)))"

definition append_denied :: "py_env \<Rightarrow> audit_denial \<Rightarrow> instant \<Rightarrow> audit_event identity_op" where
  "append_denied E d now =
     andthen (checked_as audit_candidate_ok
         (candidate_of d AO_DENIED (Some (an_reason_code d)) no_effect))
       (\<lambda>c. append_or AdminAuditConflictError E c now)"

definition load_event :: "identity_state \<Rightarrow> string \<Rightarrow> audit_event option" where
  "load_event s event_id = dget (id_events s) event_id"

text \<open>
  Pages by a composite key, newest first: \<open>list_events\<close> and \<open>list_pending\<close> cut the sorted candidates
  before the cursor and validate the page.
\<close>

definition before_cursor :: "(instant \<times> string) option \<Rightarrow> instant \<times> string \<Rightarrow> bool" where
  "before_cursor cursor key \<longleftrightarrow> (case cursor of None \<Rightarrow> True | Some c \<Rightarrow> key < c)"

definition cut_page ::
  "('a \<Rightarrow> instant \<times> string) \<Rightarrow> 'a list \<Rightarrow> int \<Rightarrow> identity_error + 'a keyset_page" where
  "cut_page key candidates limit =
     (let sorted = sorted_desc key candidates; items = take (nat limit) sorted;
          has_more = length sorted > nat limit
      in case revalidate (keyset_page_ok key)
            \<lparr>kp_items = items, kp_next = (if has_more then Some (key (last items)) else None)\<rparr> of
          Inl e \<Rightarrow> Inl IdentityValidationError
        | Inr p \<Rightarrow> Inr p)"

definition event_key :: "audit_event \<Rightarrow> instant \<times> string" where
  "event_key e = (av_created_at e, av_event_id e)"

definition event_selected :: "audit_list_query \<Rightarrow> audit_event \<Rightarrow> bool" where
  "event_selected q e \<longleftrightarrow> ac_tenant_id e = elq_tenant_id q \<and> ac_environment_id e = elq_environment_id q
     \<and> (case elq_action q of None \<Rightarrow> True | Some a \<Rightarrow> ac_action e = a)
     \<and> (case elq_outcome q of None \<Rightarrow> True | Some a \<Rightarrow> ac_outcome e = a)
     \<and> (case elq_target q of None \<Rightarrow> True
         | Some (kind, digest) \<Rightarrow> ac_target_kind e = kind \<and> ac_target_ref_digest e = digest)
     \<and> before_cursor (elq_before q) (event_key e)"

definition list_events ::
  "identity_state \<Rightarrow> audit_list_query \<Rightarrow> identity_error + audit_event keyset_page" where
  "list_events s q = cut_page event_key (filter (event_selected q) (dvals (id_events s))) (elq_limit q)"

subsection \<open>Activation requests\<close>

definition ACTIVATION_TTL_SECONDS :: int where "ACTIVATION_TTL_SECONDS = 24 * 60 * 60"
definition MAX_PENDING_ACTIVATIONS :: nat where "MAX_PENDING_ACTIVATIONS = 1024"
definition ACTIVATION_TERMINAL_RETENTION_DAYS :: int where "ACTIVATION_TERMINAL_RETENTION_DAYS = 30"

definition put_activation :: "activation_request \<Rightarrow> identity_state \<Rightarrow> identity_state" where
  "put_activation r s = s\<lparr>id_activations := dset (aq_request_id r) r (id_activations s)\<rparr>"

text \<open>
  The loop over a snapshot of the requests that turns every overdue pending one into an expired
  one; the count of those is reported by the retention store.
\<close>

fun expire_each :: "instant \<Rightarrow> (string \<times> activation_request) list \<Rightarrow> nat \<Rightarrow> nat identity_op" where
  "expire_each now [] n = ret n"
| "expire_each now ((request_id, request) # rest) n =
     (if aq_status request = ACT_PENDING \<and> aq_expires_at request \<le> now
      then andthen (checked_as activation_request_ok (request\<lparr>aq_status := ACT_EXPIRED\<rparr>))
             (\<lambda>r. andthen (writes (\<lambda>s. s\<lparr>id_activations := dset request_id r (id_activations s)\<rparr>))
               (\<lambda>_. expire_each now rest (n + 1)))
      else expire_each now rest n)"

definition expire_pending :: "instant \<Rightarrow> nat identity_op" where
  "expire_pending now = andthen (reads id_activations) (\<lambda>requests. expire_each now requests 0)"

definition is_pending :: "activation_request \<Rightarrow> bool" where
  "is_pending r \<longleftrightarrow> aq_status r = ACT_PENDING"

definition pending_count :: "identity_state \<Rightarrow> nat" where
  "pending_count s = length (filter is_pending (dvals (id_activations s)))"

definition matches_subject :: "create_activation_command \<Rightarrow> string \<Rightarrow> activation_request \<Rightarrow> bool" where
  "matches_subject c digest r \<longleftrightarrow> aq_status r = ACT_PENDING \<and> aq_tenant_id r = ca_tenant_id c
     \<and> aq_environment_id r = ca_environment_id c \<and> aq_provider r = ca_provider c
     \<and> aq_subject_ref_digest r = digest"

definition new_activation ::
  "py_env \<Rightarrow> create_activation_command \<Rightarrow> instant \<Rightarrow> string \<Rightarrow> activation_request" where
  "new_activation E c now fresh_id =
     \<lparr>aq_request_id = fresh_id, aq_tenant_id = ca_tenant_id c, aq_environment_id = ca_environment_id c,
      aq_provider = ca_provider c, aq_subject_ref = ca_subject_ref c,
      aq_subject_ref_digest = activation_subject_digest E c, aq_source = ca_source c,
      aq_return_intent = ca_return_intent c,
      aq_source_event_digest = map_option (activation_source_ref_digest E EVENT_REF) (ca_source_event_ref c),
      aq_source_chat_digest = map_option (activation_source_ref_digest E CHAT_REF) (ca_source_chat_ref c),
      aq_requested_at = now, aq_expires_at = now + seconds ACTIVATION_TTL_SECONDS,
      aq_status = ACT_PENDING, aq_decided_at = None, aq_decided_by = None, aq_approved_role = None\<rparr>"

definition create_or_reuse ::
  "py_env \<Rightarrow> create_activation_command \<Rightarrow> instant \<Rightarrow> string \<Rightarrow> activation_request identity_op" where
  "create_or_reuse E c now fresh_id =
     andthen (expire_pending now) (\<lambda>_.
     andthen (reads pending_count) (\<lambda>pending.
     andthen (require (pending < MAX_PENDING_ACTIVATIONS) ActivationCapacityError) (\<lambda>_.
     andthen (reads (\<lambda>s. find (matches_subject c (activation_subject_digest E c)) (dvals (id_activations s))))
       (\<lambda>found. case found of
            Some request \<Rightarrow> ret request
          | None \<Rightarrow>
              andthen (checked_as activation_request_ok (new_activation E c now fresh_id)) (\<lambda>created.
              andthen (writes (put_activation created)) (\<lambda>_. ret created))))))"

definition load_activation :: "identity_state \<Rightarrow> activation_lookup \<Rightarrow> activation_request option" where
  "load_activation s q = (case dget (id_activations s) (al_request_id q) of
      None \<Rightarrow> None
    | Some r \<Rightarrow>
        if aq_tenant_id r \<noteq> al_tenant_id q \<or> aq_environment_id r \<noteq> al_environment_id q then None
        else Some r)"

definition activation_key :: "activation_request \<Rightarrow> instant \<times> string" where
  "activation_key r = (aq_requested_at r, aq_request_id r)"

definition list_pending ::
  "identity_state \<Rightarrow> pending_list_query \<Rightarrow> instant \<Rightarrow> identity_error + activation_request keyset_page" where
  "list_pending s q now = cut_page activation_key
     (filter (\<lambda>r. aq_tenant_id r = plq_tenant_id q \<and> aq_environment_id r = plq_environment_id q
        \<and> aq_status r = ACT_PENDING \<and> now < aq_expires_at r
        \<and> before_cursor (plq_before q) (activation_key r)) (dvals (id_activations s))) (plq_limit q)"

definition activation_terminal_at :: "activation_request \<Rightarrow> instant option" where
  "activation_terminal_at r =
     (if aq_status r \<in> {ACT_APPROVED, ACT_REJECTED} then aq_decided_at r
      else if aq_status r = ACT_EXPIRED then Some (aq_expires_at r) else None)"

definition activation_retention_cutoff :: "instant \<Rightarrow> instant" where
  "activation_retention_cutoff now = now - seconds (ACTIVATION_TERMINAL_RETENTION_DAYS * 24 * 60 * 60)"

fun count_deleted :: "activation_status \<Rightarrow> retention_report \<Rightarrow> retention_report" where
  "count_deleted ACT_APPROVED p = p\<lparr>rr_approved_deleted := rr_approved_deleted p + 1\<rparr>"
| "count_deleted ACT_REJECTED p = p\<lparr>rr_rejected_deleted := rr_rejected_deleted p + 1\<rparr>"
| "count_deleted ACT_EXPIRED p = p\<lparr>rr_expired_deleted := rr_expired_deleted p + 1\<rparr>"
| "count_deleted ACT_PENDING p = p"

definition retention_due :: "instant \<Rightarrow> activation_request \<Rightarrow> bool" where
  "retention_due cutoff r \<longleftrightarrow> (case activation_terminal_at r of None \<Rightarrow> False | Some t \<Rightarrow> t \<le> cutoff)"

fun purge_each ::
  "instant \<Rightarrow> (string \<times> activation_request) list \<Rightarrow> retention_report \<Rightarrow> retention_report identity_op" where
  "purge_each cutoff [] p = ret p"
| "purge_each cutoff ((request_id, request) # rest) p =
     (if retention_due cutoff request
      then andthen (writes (\<lambda>s. s\<lparr>id_activations := ddel request_id (id_activations s)\<rparr>))
             (\<lambda>_. purge_each cutoff rest (count_deleted (aq_status request) p))
      else purge_each cutoff rest p)"

definition purge_expired_terminal :: "instant \<Rightarrow> retention_report identity_op" where
  "purge_expired_terminal now =
     andthen (expire_pending now) (\<lambda>expired.
     andthen (reads id_activations) (\<lambda>requests.
       purge_each (activation_retention_cutoff now) requests
         \<lparr>rr_pending_expired = expired, rr_approved_deleted = 0, rr_rejected_deleted = 0,
          rr_expired_deleted = 0\<rparr>))"

end
