(* ===== verification/Directory_Store.thy ===== *)
theory Directory_Store
  imports Identity_Store
begin

text \<open>
  \<open>InMemoryUserDirectoryStore\<close> (\<open>persistence/fake.py\<close>): what a principal may resolve to, and \<open>apply\<close>,
  the only way to change an authorization. \<open>apply\<close> takes a snapshot of the directory tables, runs one
  of twelve handlers, and puts the snapshot back when the handler raises anything.
\<close>

subsection \<open>Reading\<close>

definition principal_facts_of ::
  "identity_state \<Rightarrow> string \<Rightarrow> string \<Rightarrow> string \<Rightarrow> principal_facts option" where
  "principal_facts_of s user_id tenant_id environment_id =
     (case dget (id_accounts s) user_id of
        None \<Rightarrow> None
      | Some account \<Rightarrow>
          if ua_status account \<noteq> US_ACTIVE then None
          else case dget (id_roles s) (user_id, tenant_id, environment_id) of
              None \<Rightarrow> None
            | Some assignment \<Rightarrow> Some \<lparr>df_account = account, df_assignment = assignment\<rparr>)"

definition load_account ::
  "identity_state \<Rightarrow> string \<Rightarrow> string \<Rightarrow> string \<Rightarrow> principal_facts option" where
  "load_account s user_id tenant_id environment_id =
     principal_facts_of s user_id tenant_id environment_id"

definition subject_key ::
  "py_env \<Rightarrow> identity_source \<Rightarrow> string \<Rightarrow> string \<Rightarrow> string \<Rightarrow> string \<times> string \<times> string \<times> string" where
  "subject_key E provider tenant_id environment_id subject_ref =
     (identity_source_value provider, tenant_id, environment_id,
      external_subject_digest E provider tenant_id environment_id subject_ref)"

definition resolve_by_subject ::
  "py_env \<Rightarrow> identity_state \<Rightarrow> identity_source \<Rightarrow> string \<Rightarrow> string \<Rightarrow> string
     \<Rightarrow> identity_error + principal_facts option" where
  "resolve_by_subject E s provider tenant_id environment_id subject_ref =
     (case dget (id_bindings s) (subject_key E provider tenant_id environment_id subject_ref) of
        None \<Rightarrow> Inr None
      | Some binding \<Rightarrow>
          (case principal_facts_of s (xi_user_id binding) tenant_id environment_id of
             None \<Rightarrow> Inl UserDirectorySubjectUnavailableError
           | Some facts \<Rightarrow> Inr (Some facts)))"

definition feishu_bound :: "identity_state \<Rightarrow> string \<Rightarrow> string \<Rightarrow> string \<Rightarrow> bool" where
  "feishu_bound s user_id tenant_id environment_id \<longleftrightarrow>
     list_ex (\<lambda>b. xi_user_id b = user_id \<and> xi_tenant_id b = tenant_id
        \<and> xi_environment_id b = environment_id \<and> xi_provider b = SRC_FEISHU) (dvals (id_bindings s))"

fun user_candidates ::
  "identity_state \<Rightarrow> user_list_query \<Rightarrow> ((string \<times> string \<times> string) \<times> role_assignment) list
     \<Rightarrow> identity_error + user_record list" where
  "user_candidates s q [] = Inr []"
| "user_candidates s q (((user_id, tenant_id, environment_id), assignment) # rest) =
     (if tenant_id \<noteq> ulq_tenant_id q \<or> environment_id \<noteq> ulq_environment_id q
      then user_candidates s q rest
      else case dget (id_accounts s) user_id of
          None \<Rightarrow> Inl LookupKeyError
        | Some account \<Rightarrow>
            if (case ulq_after_actor q of None \<Rightarrow> False | Some a \<Rightarrow> ua_actor account \<le> a)
            then user_candidates s q rest
            else case revalidate user_record_ok
                \<lparr>ur_account = account, ur_assignment = assignment,
                 ur_feishu_bound = feishu_bound s user_id (ulq_tenant_id q) (ulq_environment_id q)\<rparr> of
              Inl e \<Rightarrow> Inl IdentityValidationError
            | Inr r \<Rightarrow> map_sum id (\<lambda>rs. r # rs) (user_candidates s q rest))"

definition user_actor :: "user_record \<Rightarrow> string" where
  "user_actor r = ua_actor (ur_account r)"

definition list_admin_users :: "identity_state \<Rightarrow> user_list_query \<Rightarrow> identity_error + user_page" where
  "list_admin_users s q = (case user_candidates s q (id_roles s) of
      Inl e \<Rightarrow> Inl e
    | Inr candidates \<Rightarrow>
        (let sorted = sort_key user_actor candidates; items = take (nat (ulq_limit q)) sorted;
             has_more = length sorted > nat (ulq_limit q)
         in case revalidate user_page_ok
               \<lparr>up_items = items,
                up_next_after_actor = (if has_more then Some (user_actor (last items)) else None)\<rparr> of
             Inl e \<Rightarrow> Inl IdentityValidationError
           | Inr p \<Rightarrow> Inr p))"

subsection \<open>Writes shared by the handlers\<close>

definition write_audit ::
  "py_env \<Rightarrow> directory_command \<Rightarrow> operation_context \<Rightarrow> string \<Rightarrow> string option
     \<Rightarrow> migration_entry option \<Rightarrow> instant \<Rightarrow> audit_event identity_op" where
  "write_audit E command oc target_ref operation_id entry now =
     andthen (lift (\<lambda>_. IdentityValidationError)
         (derive_audit E command oc target_ref operation_id entry))
       (\<lambda>candidate. append_or AdminAuditUnwritableError E candidate now)"

text \<open>The end of every handler but the migration: one derived event, returned as a 1-tuple.\<close>

definition one_event ::
  "py_env \<Rightarrow> directory_command \<Rightarrow> operation_context \<Rightarrow> string \<Rightarrow> instant \<Rightarrow> audit_event list identity_op" where
  "one_event E command oc target_ref now =
     andthen (write_audit E command oc target_ref None None now) (\<lambda>e. ret [e])"

definition put_account :: "user_account \<Rightarrow> identity_state \<Rightarrow> identity_state" where
  "put_account a s = s\<lparr>id_accounts := dset (ua_user_id a) a (id_accounts s)\<rparr>"

definition role_key :: "role_assignment \<Rightarrow> string \<times> string \<times> string" where
  "role_key r = (ra_user_id r, ra_tenant_id r, ra_environment_id r)"

definition put_role :: "role_assignment \<Rightarrow> identity_state \<Rightarrow> identity_state" where
  "put_role r s = s\<lparr>id_roles := dset (role_key r) r (id_roles s)\<rparr>"

definition new_account :: "string \<Rightarrow> string \<Rightarrow> string \<Rightarrow> instant \<Rightarrow> user_account" where
  "new_account user_id actor display_name now =
     \<lparr>ua_user_id = user_id, ua_actor = actor, ua_display_name = display_name,
      ua_status = US_ACTIVE, ua_created_at = now, ua_updated_at = now\<rparr>"

definition actor_claimed :: "string \<Rightarrow> identity_state \<Rightarrow> bool" where
  "actor_claimed actor s \<longleftrightarrow> list_ex (\<lambda>a. ua_actor a = actor) (dvals (id_accounts s))"

definition insert_account :: "string \<Rightarrow> string \<Rightarrow> string \<Rightarrow> instant \<Rightarrow> unit identity_op" where
  "insert_account user_id actor display_name now =
     andthen (reads (\<lambda>s. dget (id_accounts s) user_id)) (\<lambda>existing.
     andthen (require (existing = None) (UserDirectoryConflictError ''the account already exists'')) (\<lambda>_.
     andthen (reads (actor_claimed actor)) (\<lambda>claimed.
     andthen (require (\<not> claimed) (UserDirectoryConflictError ''the actor is already claimed'')) (\<lambda>_.
     andthen (checked_as user_account_ok (new_account user_id actor display_name now)) (\<lambda>a.
       writes (put_account a))))))"

definition upsert_role ::
  "string \<Rightarrow> string \<Rightarrow> string \<Rightarrow> product_role \<Rightarrow> string \<Rightarrow> instant \<Rightarrow> unit identity_op" where
  "upsert_role user_id tenant_id environment_id role created_by now =
     andthen (reads (\<lambda>s. dget (id_roles s) (user_id, tenant_id, environment_id))) (\<lambda>existing.
     andthen (checked_as role_assignment_ok
         \<lparr>ra_user_id = user_id, ra_tenant_id = tenant_id, ra_environment_id = environment_id,
          ra_role = role,
          ra_created_by = (case existing of None \<Rightarrow> created_by | Some r \<Rightarrow> ra_created_by r),
          ra_created_at = (case existing of None \<Rightarrow> now | Some r \<Rightarrow> ra_created_at r),
          ra_updated_at = now\<rparr>) (\<lambda>r.
       writes (put_role r)))"

definition binding_key_of ::
  "string \<Rightarrow> string \<Rightarrow> string \<Rightarrow> identity_state \<Rightarrow> (string \<times> string \<times> string \<times> string) option" where
  "binding_key_of user_id tenant_id environment_id s = map_option fst
     (find (\<lambda>((_, t, e, _), b). xi_user_id b = user_id \<and> t = tenant_id \<and> e = environment_id)
        (id_bindings s))"

definition bind_subject ::
  "py_env \<Rightarrow> string \<Rightarrow> string \<Rightarrow> string \<Rightarrow> string \<Rightarrow> instant \<Rightarrow> unit identity_op" where
  "bind_subject E user_id tenant_id environment_id subject_ref now =
     (let key = subject_key E SRC_FEISHU tenant_id environment_id subject_ref in
      andthen (reads (\<lambda>s. dget (id_bindings s) key)) (\<lambda>taken.
      andthen (require (taken = None) (UserDirectoryConflictError ''the subject is already bound'')) (\<lambda>_.
      andthen (reads (binding_key_of user_id tenant_id environment_id)) (\<lambda>own.
      andthen (require (own = None) (UserDirectoryConflictError ''the account is already bound'')) (\<lambda>_.
      andthen (checked_as external_identity_ok
          \<lparr>xi_user_id = user_id, xi_provider = SRC_FEISHU, xi_tenant_id = tenant_id,
           xi_environment_id = environment_id, xi_subject_ref = subject_ref, xi_created_at = now,
           xi_last_seen_at = now\<rparr>) (\<lambda>b.
        writes (\<lambda>s. s\<lparr>id_bindings := dset key b (id_bindings s)\<rparr>)))))))"

definition require_account :: "string \<Rightarrow> user_account identity_op" where
  "require_account user_id =
     andthen (reads (\<lambda>s. dget (id_accounts s) user_id)) (\<lambda>account. case account of
         None \<Rightarrow> raise (UserDirectoryNotFoundError ''no such account'')
       | Some a \<Rightarrow> ret a)"

subsection \<open>Handlers without a decision\<close>

definition create_user ::
  "py_env \<Rightarrow> create_user_command \<Rightarrow> operation_context \<Rightarrow> instant \<Rightarrow> audit_event list identity_op" where
  "create_user E c oc now =
     andthen (insert_account (dc_user_id c) (cu_actor c) (cu_display_name c) now) (\<lambda>_.
     andthen (upsert_role (dc_user_id c) (dc_tenant_id c) (dc_environment_id c) (cu_role c)
         (oc_actor_user_id oc) now) (\<lambda>_.
       one_event E (CreateUser c) oc (dc_user_id c) now))"

definition with_status :: "user_status \<Rightarrow> instant \<Rightarrow> user_account \<Rightarrow> user_account" where
  "with_status status now a = a\<lparr>ua_status := status, ua_updated_at := now\<rparr>"

definition set_status ::
  "py_env \<Rightarrow> set_status_command \<Rightarrow> operation_context \<Rightarrow> instant \<Rightarrow> audit_event list identity_op" where
  "set_status E c oc now =
     andthen (require_account (dc_user_id c)) (\<lambda>account.
     andthen (reads (\<lambda>s. dget (id_roles s) (dc_user_id c, dc_tenant_id c, dc_environment_id c))) (\<lambda>role.
     andthen (require (role \<noteq> None) (UserDirectoryNotFoundError ''no role in this scope'')) (\<lambda>_.
     andthen (checked_as user_account_ok (with_status (ss_status c) now account)) (\<lambda>a.
     andthen (writes (\<lambda>s. s\<lparr>id_accounts := dset (dc_user_id c) a (id_accounts s)\<rparr>)) (\<lambda>_.
       one_event E (SetUserStatus c) oc (dc_user_id c) now)))))"

definition assign_role ::
  "py_env \<Rightarrow> assign_role_command \<Rightarrow> operation_context \<Rightarrow> instant \<Rightarrow> audit_event list identity_op" where
  "assign_role E c oc now =
     andthen (require_account (dc_user_id c)) (\<lambda>_.
     andthen (upsert_role (dc_user_id c) (dc_tenant_id c) (dc_environment_id c) (ar_role c)
         (oc_actor_user_id oc) now) (\<lambda>_.
       one_event E (AssignRole c) oc (dc_user_id c) now))"

definition revoke_role ::
  "py_env \<Rightarrow> user_command \<Rightarrow> operation_context \<Rightarrow> instant \<Rightarrow> audit_event list identity_op" where
  "revoke_role E c oc now =
     (let key = (dc_user_id c, dc_tenant_id c, dc_environment_id c) in
      andthen (require_account (dc_user_id c)) (\<lambda>_.
      andthen (reads (\<lambda>s. dget (id_roles s) key)) (\<lambda>role.
      andthen (require (role \<noteq> None) (UserDirectoryNotFoundError ''no role in this scope'')) (\<lambda>_.
      andthen (writes (\<lambda>s. s\<lparr>id_roles := ddel key (id_roles s)\<rparr>)) (\<lambda>_.
        one_event E (RevokeRole c) oc (dc_user_id c) now)))))"

definition bind_identity ::
  "py_env \<Rightarrow> bind_identity_command \<Rightarrow> operation_context \<Rightarrow> instant \<Rightarrow> audit_event list identity_op" where
  "bind_identity E c oc now =
     andthen (require_account (dc_user_id c)) (\<lambda>_.
     andthen (bind_subject E (dc_user_id c) (dc_tenant_id c) (dc_environment_id c) (bi_subject_ref c) now)
       (\<lambda>_. one_event E (BindExternalIdentity c) oc (dc_user_id c) now))"

definition unbind_identity ::
  "py_env \<Rightarrow> user_command \<Rightarrow> operation_context \<Rightarrow> instant \<Rightarrow> audit_event list identity_op" where
  "unbind_identity E c oc now =
     andthen (require_account (dc_user_id c)) (\<lambda>_.
     andthen (reads (binding_key_of (dc_user_id c) (dc_tenant_id c) (dc_environment_id c))) (\<lambda>key.
       case key of
         None \<Rightarrow> raise (UserDirectoryNotFoundError ''no binding in this scope'')
       | Some k \<Rightarrow>
           andthen (writes (\<lambda>s. s\<lparr>id_bindings := ddel k (id_bindings s)\<rparr>)) (\<lambda>_.
             one_event E (UnbindExternalIdentity c) oc (dc_user_id c) now)))"

text \<open>
  The four states of the bootstrap: linked and whole, linked and broken, a credential without a
  link, nothing at all. A credential that exists keeps its password.
\<close>

definition bootstrap ::
  "py_env \<Rightarrow> bootstrap_command \<Rightarrow> operation_context \<Rightarrow> instant \<Rightarrow> audit_event list identity_op" where
  "bootstrap E c oc now =
     andthen (reads id_local_admin) (\<lambda>existing.
       case Option.bind existing la_user_id of
         Some linked \<Rightarrow>
           andthen (reads (\<lambda>s. (dget (id_accounts s) linked,
               dget (id_roles s) (linked, dc_tenant_id c, dc_environment_id c)))) (\<lambda>(account, role).
           andthen (require (account \<noteq> None \<and> map_option ra_role role = Some ROLE_ADMIN)
               (UserDirectoryConflictError ''the credential link is broken'')) (\<lambda>_. ret []))
       | None \<Rightarrow>
           andthen (insert_account (dc_user_id c) (bs_actor c) (bs_display_name c) now) (\<lambda>_.
           andthen (upsert_role (dc_user_id c) (dc_tenant_id c) (dc_environment_id c) ROLE_ADMIN
               (oc_actor_user_id oc) now) (\<lambda>_.
           andthen (checked_as local_admin_record_ok
               \<lparr>la_password_hash = (case existing of None \<Rightarrow> bs_password_hash c | Some r \<Rightarrow> la_password_hash r),
                la_must_change_password = (case existing of None \<Rightarrow> True | Some r \<Rightarrow> la_must_change_password r),
                la_user_id = Some (dc_user_id c)\<rparr>) (\<lambda>r.
           andthen (writes (\<lambda>s. s\<lparr>id_local_admin := Some r\<rparr>)) (\<lambda>_.
             one_event E (BootstrapLocalAdmin c) oc (dc_user_id c) now)))))"

text \<open>The entries are numbered from 1; the first that fails aborts the batch.\<close>

fun migrate_each ::
  "py_env \<Rightarrow> migrate_command \<Rightarrow> operation_context \<Rightarrow> instant \<Rightarrow> nat \<Rightarrow> migration_entry list
     \<Rightarrow> audit_event list identity_op" where
  "migrate_each E c oc now index [] = ret []"
| "migrate_each E c oc now index (entry # rest) =
     andthen (insert_account (me_user_id entry) (me_actor entry) (me_display_name entry) now) (\<lambda>_.
     andthen (upsert_role (me_user_id entry) (mg_tenant_id c) (mg_environment_id c) (me_role entry)
         (oc_actor_user_id oc) now) (\<lambda>_.
     andthen (bind_subject E (me_user_id entry) (mg_tenant_id c) (mg_environment_id c)
         (me_subject_ref entry) now) (\<lambda>_.
     andthen (write_audit E (MigrateLegacyIdentities c) oc (me_user_id entry)
         (Some (batch_operation_id oc index)) (Some entry) now) (\<lambda>event.
     andthen (migrate_each E c oc now (index + 1) rest) (\<lambda>events. ret (event # events))))))"

definition migrate ::
  "py_env \<Rightarrow> migrate_command \<Rightarrow> operation_context \<Rightarrow> instant \<Rightarrow> audit_event list identity_op" where
  "migrate E c oc now = migrate_each E c oc now 1 (mg_entries c)"

end
