(* ===== verification/Directory_Apply.thy ===== *)
theory Directory_Apply
  imports Directory_Store
begin

text \<open>
  The handlers of \<open>InMemoryUserDirectoryStore\<close> that carry an administrator's decision, \<open>apply\<close> itself
  with its snapshot, and the operations of \<open>InMemoryLocalAdminStore\<close> and \<open>InMemoryWebSessionStore\<close>
  (\<open>persistence/fake.py\<close>).
\<close>

subsection \<open>Who may decide, and on whom\<close>

definition admin_refusal ::
  "identity_state \<Rightarrow> string \<Rightarrow> string \<Rightarrow> operation_context \<Rightarrow> audit_reason_code option" where
  "admin_refusal s tenant_id environment_id oc =
     (let account = dget (id_accounts s) (oc_actor_user_id oc);
          assignment = dget (id_roles s) (oc_actor_user_id oc, tenant_id, environment_id)
      in if (case account of None \<Rightarrow> True
               | Some a \<Rightarrow> ua_status a \<noteq> US_ACTIVE \<or> ua_actor a \<noteq> oc_actor oc)
           \<or> (case assignment of None \<Rightarrow> True | Some r \<Rightarrow> ra_role r \<noteq> ROLE_ADMIN)
         then Some RC_ACTOR_NOT_ADMIN
         else if (case oc_auth_source oc of
               SRC_LOCAL_ADMIN \<Rightarrow> oc_actor_user_id oc = LOCAL_ADMIN_USER_ID
             | SRC_FEISHU \<Rightarrow> binding_key_of (oc_actor_user_id oc) tenant_id environment_id s \<noteq> None)
         then None else Some RC_AUTH_SOURCE_NOT_ALLOWED)"

definition require_admin :: "string \<Rightarrow> string \<Rightarrow> operation_context \<Rightarrow> unit identity_op" where
  "require_admin tenant_id environment_id oc =
     andthen (reads (\<lambda>s. admin_refusal s tenant_id environment_id oc)) (\<lambda>refusal. case refusal of
         None \<Rightarrow> ret ()
       | Some code \<Rightarrow> raise (UserDirectoryDecisionDeniedError code))"

definition assignments_of :: "string \<Rightarrow> identity_state \<Rightarrow> role_assignment list" where
  "assignments_of user_id s = map snd (filter (\<lambda>((u, _, _), _). u = user_id) (id_roles s))"

definition managed_target ::
  "string \<Rightarrow> string \<Rightarrow> string \<Rightarrow> (user_account \<times> role_assignment \<times> role_assignment list) identity_op" where
  "managed_target user_id tenant_id environment_id =
     andthen (reads (\<lambda>s. (dget (id_accounts s) user_id,
         dget (id_roles s) (user_id, tenant_id, environment_id)))) (\<lambda>found.
       case found of
         (Some account, Some assignment) \<Rightarrow>
           andthen (reads (assignments_of user_id)) (\<lambda>assignments.
           andthen (require (\<not> list_ex (\<lambda>r. ra_role r = ROLE_ADMIN) assignments)
               (UserDirectoryConflictError ''an admin account cannot be managed'')) (\<lambda>_.
             ret (account, assignment, assignments)))
       | _ \<Rightarrow> raise (UserDirectoryNotFoundError ''no account in this scope''))"

subsection \<open>Managed users\<close>

definition set_managed_status ::
  "py_env \<Rightarrow> managed_status_command \<Rightarrow> operation_context \<Rightarrow> instant \<Rightarrow> audit_event list identity_op" where
  "set_managed_status E c oc now =
     andthen (require_admin (dc_tenant_id c) (dc_environment_id c) oc) (\<lambda>_.
     andthen (managed_target (dc_user_id c) (dc_tenant_id c) (dc_environment_id c))
       (\<lambda>(account, assignment, assignments).
     andthen (require (length assignments = 1)
         (UserDirectoryConflictError ''a cross-scope account cannot change status'')) (\<lambda>_.
     andthen (require (ua_status account = ms_expected_status c \<and> ra_role assignment = ms_expected_role c)
         (UserDirectoryConflictError ''the managed user changed'')) (\<lambda>_.
     andthen (checked_as user_account_ok (with_status (ms_status c) now account)) (\<lambda>a.
     andthen (writes (\<lambda>s. s\<lparr>id_accounts := dset (dc_user_id c) a (id_accounts s)\<rparr>)) (\<lambda>_.
       one_event E (SetManagedUserStatus c) oc (dc_user_id c) now))))))"

definition change_managed_role ::
  "py_env \<Rightarrow> managed_role_command \<Rightarrow> operation_context \<Rightarrow> instant \<Rightarrow> audit_event list identity_op" where
  "change_managed_role E c oc now =
     andthen (require_admin (dc_tenant_id c) (dc_environment_id c) oc) (\<lambda>_.
     andthen (managed_target (dc_user_id c) (dc_tenant_id c) (dc_environment_id c))
       (\<lambda>(account, assignment, _).
     andthen (require (ua_status account = US_ACTIVE)
         (UserDirectoryConflictError ''a disabled account cannot change role'')) (\<lambda>_.
     andthen (require (ra_role assignment = mr_expected_role c)
         (UserDirectoryConflictError ''the managed role changed'')) (\<lambda>_.
     andthen (checked_as role_assignment_ok (assignment\<lparr>ra_role := mr_role c, ra_updated_at := now\<rparr>)) (\<lambda>r.
     andthen (writes (\<lambda>s. s\<lparr>id_roles :=
         dset (dc_user_id c, dc_tenant_id c, dc_environment_id c) r (id_roles s)\<rparr>)) (\<lambda>_.
       one_event E (ChangeManagedUserRole c) oc (dc_user_id c) now))))))"

subsection \<open>Decisions on activation requests\<close>

definition activation_for_decision ::
  "'a decision_command_scheme \<Rightarrow> activation_request identity_op" where
  "activation_for_decision c =
     andthen (reads (\<lambda>s. dget (id_activations s) (ad_request_id c))) (\<lambda>found. case found of
         None \<Rightarrow> raise (UserDirectoryDecisionDeniedError RC_TARGET_NOT_FOUND)
       | Some r \<Rightarrow>
           andthen (require (aq_tenant_id r = ad_tenant_id c \<and> aq_environment_id r = ad_environment_id c)
               (UserDirectoryDecisionDeniedError RC_SCOPE_MISMATCH)) (\<lambda>_. ret r))"

text \<open>The part both decisions begin with, up to the check that the request is still open.\<close>

definition open_request ::
  "'a decision_command_scheme \<Rightarrow> operation_context \<Rightarrow> instant \<Rightarrow> activation_request identity_op" where
  "open_request c oc now =
     andthen (require_admin (ad_tenant_id c) (ad_environment_id c) oc) (\<lambda>_.
     andthen (activation_for_decision c) (\<lambda>r.
     andthen (require (aq_status r = ACT_PENDING)
         (UserDirectoryConflictError ''the activation request is terminal'')) (\<lambda>_.
     andthen (require (now < aq_expires_at r)
         (UserDirectoryConflictError ''the activation request expired'')) (\<lambda>_. ret r))))"

definition decided ::
  "activation_status \<Rightarrow> product_role option \<Rightarrow> operation_context \<Rightarrow> instant \<Rightarrow> activation_request
     \<Rightarrow> activation_request" where
  "decided status role oc now r =
     r\<lparr>aq_status := status, aq_decided_at := Some now, aq_decided_by := Some (oc_actor_user_id oc),
       aq_approved_role := role\<rparr>"

text \<open>
  The account an approval is for: the one that holds the actor, or the one of the id derived from
  the subject, or a new one.
\<close>

definition account_conflict :: identity_error where
  "account_conflict = UserDirectoryConflictError ''the activation account conflicts''"

definition approved_account ::
  "py_env \<Rightarrow> approve_command \<Rightarrow> activation_request \<Rightarrow> instant \<Rightarrow> string identity_op" where
  "approved_account E c r now =
     andthen (reads (\<lambda>s. find (\<lambda>a. ua_actor a = ap_actor c) (dvals (id_accounts s)))) (\<lambda>found.
     andthen (case found of
         Some a \<Rightarrow>
           andthen (require (ua_status a = US_ACTIVE \<and> ua_display_name a = ap_display_name c)
               account_conflict) (\<lambda>_. ret (ua_user_id a, Some a))
       | None \<Rightarrow>
           (let user_id = activation_user_id E (aq_subject_ref_digest r) in
            andthen (reads (\<lambda>s. dget (id_accounts s) user_id)) (\<lambda>a. ret (user_id, a))))
       (\<lambda>(user_id, account).
     andthen (case account of
         None \<Rightarrow> insert_account user_id (ap_actor c) (ap_display_name c) now
       | Some a \<Rightarrow> require (ua_actor a = ap_actor c \<and> ua_display_name a = ap_display_name c
            \<and> ua_status a = US_ACTIVE) account_conflict) (\<lambda>_.
       ret user_id)))"

definition grant_role ::
  "approve_command \<Rightarrow> string \<Rightarrow> operation_context \<Rightarrow> instant \<Rightarrow> unit identity_op" where
  "grant_role c user_id oc now =
     andthen (reads (\<lambda>s. dget (id_roles s) (user_id, ad_tenant_id c, ad_environment_id c))) (\<lambda>found.
       case found of
         None \<Rightarrow> upsert_role user_id (ad_tenant_id c) (ad_environment_id c) (ap_approved_role c)
             (oc_actor_user_id oc) now
       | Some a \<Rightarrow> require (ra_role a = ap_approved_role c)
             (UserDirectoryConflictError ''the existing role differs''))"

definition bind_requester ::
  "py_env \<Rightarrow> approve_command \<Rightarrow> activation_request \<Rightarrow> string \<Rightarrow> instant \<Rightarrow> unit identity_op" where
  "bind_requester E c r user_id now =
     andthen (reads (\<lambda>s. dget (id_bindings s)
         (subject_key E SRC_FEISHU (ad_tenant_id c) (ad_environment_id c) (aq_subject_ref r)))) (\<lambda>found.
       case found of
         None \<Rightarrow> bind_subject E user_id (ad_tenant_id c) (ad_environment_id c) (aq_subject_ref r) now
       | Some b \<Rightarrow> require (xi_user_id b = user_id)
             (UserDirectoryConflictError ''the activation subject conflicts''))"

definition settle_request :: "activation_request \<Rightarrow> activation_request \<Rightarrow> unit identity_op" where
  "settle_request r r' =
     andthen (checked_as activation_request_ok r') (\<lambda>v.
       writes (\<lambda>s. s\<lparr>id_activations := dset (aq_request_id r) v (id_activations s)\<rparr>))"

definition approve_activation ::
  "py_env \<Rightarrow> approve_command \<Rightarrow> operation_context \<Rightarrow> instant \<Rightarrow> audit_event list identity_op" where
  "approve_activation E c oc now =
     andthen (open_request c oc now) (\<lambda>r.
     andthen (approved_account E c r now) (\<lambda>user_id.
     andthen (grant_role c user_id oc now) (\<lambda>_.
     andthen (bind_requester E c r user_id now) (\<lambda>_.
     andthen (settle_request r (decided ACT_APPROVED (Some (ap_approved_role c)) oc now r)) (\<lambda>_.
       one_event E (ApproveActivation c) oc (aq_request_id r) now)))))"

definition reject_activation ::
  "py_env \<Rightarrow> decision_command \<Rightarrow> operation_context \<Rightarrow> instant \<Rightarrow> audit_event list identity_op" where
  "reject_activation E c oc now =
     andthen (open_request c oc now) (\<lambda>r.
     andthen (settle_request r (decided ACT_REJECTED (aq_approved_role r) oc now r)) (\<lambda>_.
       one_event E (RejectActivation c) oc (aq_request_id r) now))"

subsection \<open>Applying a command\<close>

fun apply_locked ::
  "py_env \<Rightarrow> directory_command \<Rightarrow> operation_context \<Rightarrow> instant \<Rightarrow> audit_event list identity_op" where
  "apply_locked E (CreateUser c) oc now = create_user E c oc now"
| "apply_locked E (SetUserStatus c) oc now = set_status E c oc now"
| "apply_locked E (SetManagedUserStatus c) oc now = set_managed_status E c oc now"
| "apply_locked E (AssignRole c) oc now = assign_role E c oc now"
| "apply_locked E (ChangeManagedUserRole c) oc now = change_managed_role E c oc now"
| "apply_locked E (RevokeRole c) oc now = revoke_role E c oc now"
| "apply_locked E (BindExternalIdentity c) oc now = bind_identity E c oc now"
| "apply_locked E (UnbindExternalIdentity c) oc now = unbind_identity E c oc now"
| "apply_locked E (BootstrapLocalAdmin c) oc now = bootstrap E c oc now"
| "apply_locked E (MigrateLegacyIdentities c) oc now = migrate E c oc now"
| "apply_locked E (ApproveActivation c) oc now = approve_activation E c oc now"
| "apply_locked E (RejectActivation c) oc now = reject_activation E c oc now"

type_synonym directory_snapshot =
  "(string, user_account) dict \<times> (string \<times> string \<times> string, role_assignment) dict
     \<times> (string \<times> string \<times> string \<times> string, external_identity) dict \<times> (string, audit_event) dict
     \<times> (string \<times> audit_stage, string) dict \<times> (string, activation_request) dict
     \<times> local_admin_record option"

definition snapshot :: "identity_state \<Rightarrow> directory_snapshot" where
  "snapshot s = (id_accounts s, id_roles s, id_bindings s, id_events s, id_stages s,
     id_activations s, id_local_admin s)"

fun restore :: "directory_snapshot \<Rightarrow> identity_state \<Rightarrow> identity_state" where
  "restore (accounts, assignments, identities, events, stage_keys, activations, local_admin) s =
     s\<lparr>id_accounts := accounts, id_roles := assignments, id_bindings := identities,
       id_events := events, id_stages := stage_keys, id_activations := activations,
       id_local_admin := local_admin\<rparr>"

definition apply_command ::
  "py_env \<Rightarrow> directory_command \<Rightarrow> operation_context \<Rightarrow> instant \<Rightarrow> audit_event list identity_op" where
  "apply_command E command oc now s =
     (case apply_locked E command oc now s of
        (s', Inl e) \<Rightarrow> (restore (snapshot s) s', Inl e)
      | (s', Inr events) \<Rightarrow> (s', Inr events))"

end
