(* ===== verification/Session_Store.thy ===== *)
theory Session_Store
  imports Directory_Apply
begin

text \<open>
  \<open>InMemoryLocalAdminStore\<close> and \<open>InMemoryWebSessionStore\<close> (\<open>persistence/fake.py\<close>), which share the
  state of the directory: the first password of the local administrator, its change, which revokes
  every session of it, the single-use OAuth states and the browser sessions.
\<close>

subsection \<open>The local administrator\<close>

definition BOOTSTRAP_ACTOR_USER_ID :: string where "BOOTSTRAP_ACTOR_USER_ID = ''system-bootstrap''"
definition BOOTSTRAP_OPERATION_ID :: string where "BOOTSTRAP_OPERATION_ID = ''bootstrap-local-admin''"

definition bootstrap_operation_context :: operation_context where
  "bootstrap_operation_context =
     \<lparr>oc_operation_id = BOOTSTRAP_OPERATION_ID, oc_actor_user_id = BOOTSTRAP_ACTOR_USER_ID,
      oc_actor = BOOTSTRAP_ACTOR_USER_ID, oc_auth_source = SRC_LOCAL_ADMIN\<rparr>"

definition seed_if_absent :: "py_env \<Rightarrow> string \<Rightarrow> instant \<Rightarrow> bool identity_op" where
  "seed_if_absent E password_hash now =
     andthen (checked_as directory_command_ok
         (BootstrapLocalAdmin (bootstrap_local_admin_command password_hash))) (\<lambda>command.
     andthen (apply_command E command bootstrap_operation_context now) (\<lambda>events.
       ret (events \<noteq> [])))"

definition get_local_admin :: "identity_state \<Rightarrow> identity_error + local_admin_record" where
  "get_local_admin s = (case id_local_admin s of
      None \<Rightarrow> Inl LocalAdminNotFoundError
    | Some r \<Rightarrow> Inr r)"

definition revoked :: "instant \<Rightarrow> web_session \<Rightarrow> web_session" where
  "revoked now w = w\<lparr>ws_revoked_at := Some now\<rparr>"

definition put_session :: "string \<Rightarrow> web_session \<Rightarrow> identity_state \<Rightarrow> identity_state" where
  "put_session digest w s = s\<lparr>id_sessions := dset digest w (id_sessions s)\<rparr>"

text \<open>One round of the loop over a snapshot of the sessions.\<close>

fun revoke_local_admin :: "instant \<Rightarrow> string \<times> web_session \<Rightarrow> unit identity_op" where
  "revoke_local_admin now (digest, w) =
     (if ws_auth_source w = SRC_LOCAL_ADMIN \<and> ws_revoked_at w = None
      then andthen (checked_as web_session_ok (revoked now w)) (\<lambda>v. writes (put_session digest v))
      else ret ())"

definition change_password_and_rotate_session ::
  "change_password_command \<Rightarrow> instant \<Rightarrow> local_admin_record identity_op" where
  "change_password_and_rotate_session c now =
     andthen (reads id_local_admin) (\<lambda>previous. case previous of
         None \<Rightarrow> raise LocalAdminNotFoundError
       | Some p \<Rightarrow>
           andthen (checked_as local_admin_record_ok
               \<lparr>la_password_hash = cp_password_hash c, la_must_change_password = False,
                la_user_id = la_user_id p\<rparr>) (\<lambda>record.
           andthen (writes (\<lambda>s. s\<lparr>id_local_admin := Some record\<rparr>)) (\<lambda>_.
           andthen (reads id_sessions) (\<lambda>sessions.
           andthen (for_each (revoke_local_admin now) sessions) (\<lambda>_.
           andthen (checked_as web_session_ok
               \<lparr>ws_session_digest = cp_new_session_digest c, ws_subject_ref = LOCAL_ADMIN_SUBJECT_REF,
                ws_issued_at = now, ws_expires_at = now + seconds (cp_session_ttl_seconds c),
                ws_revoked_at = None, ws_auth_source = SRC_LOCAL_ADMIN,
                ws_public_origin_digest = cp_public_origin_digest c\<rparr>) (\<lambda>w.
           andthen (writes (put_session (cp_new_session_digest c) w)) (\<lambda>_.
             ret record)))))))"

subsection \<open>OAuth states\<close>

definition oauth_stale :: "instant \<Rightarrow> oauth_state \<Rightarrow> bool" where
  "oauth_stale now st \<longleftrightarrow> oa_consumed_at st \<noteq> None \<or> oa_expires_at st \<le> now"

definition forget_oauth_state :: "string \<Rightarrow> identity_state \<Rightarrow> identity_state" where
  "forget_oauth_state digest s =
     s\<lparr>id_oauth_states := ddel digest (id_oauth_states s),
       id_login_contexts := ddel digest (id_login_contexts s),
       id_test_contexts := ddel digest (id_test_contexts s)\<rparr>"

definition cleanup_oauth_states :: "instant \<Rightarrow> unit identity_op" where
  "cleanup_oauth_states now =
     andthen (reads (\<lambda>s. map fst (filter (\<lambda>(_, st). oauth_stale now st) (id_oauth_states s)))) (\<lambda>stale.
       for_each (\<lambda>digest. writes (forget_oauth_state digest)) stale)"

definition issue_oauth_state ::
  "nat \<Rightarrow> 'a issue_state_command_scheme \<Rightarrow> instant \<Rightarrow> oauth_state identity_op" where
  "issue_oauth_state capacity c now =
     andthen (reads (\<lambda>s. dget (id_oauth_states s) (is_state_digest c))) (\<lambda>existing.
     andthen (require (existing = None) WebSessionConflictError) (\<lambda>_.
     andthen (reads (\<lambda>s. length (id_oauth_states s))) (\<lambda>count.
     andthen (require (count < capacity) OAuthStateCapacityError) (\<lambda>_.
     andthen (checked_as oauth_state_ok
         \<lparr>oa_state_digest = is_state_digest c, oa_issued_at = now,
          oa_expires_at = now + seconds (is_ttl_seconds c), oa_consumed_at = None\<rparr>) (\<lambda>st.
     andthen (writes (\<lambda>s. s\<lparr>id_oauth_states := dset (oa_state_digest st) st (id_oauth_states s)\<rparr>)) (\<lambda>_.
       ret st))))))"

definition login_state_of :: "oauth_state \<Rightarrow> return_intent \<Rightarrow> oauth_login_state" where
  "login_state_of st intent =
     \<lparr>oa_state_digest = oa_state_digest st, oa_issued_at = oa_issued_at st, oa_expires_at = oa_expires_at st,
      oa_consumed_at = oa_consumed_at st, ol_return_intent = intent\<rparr>"

definition test_state_of :: "oauth_state \<Rightarrow> string \<Rightarrow> int \<Rightarrow> oauth_test_state" where
  "test_state_of st operation_id generation =
     \<lparr>oa_state_digest = oa_state_digest st, oa_issued_at = oa_issued_at st, oa_expires_at = oa_expires_at st,
      oa_consumed_at = oa_consumed_at st, ot_operation_id = operation_id,
      ot_config_generation = generation\<rparr>"

definition issue_oauth_login_state ::
  "nat \<Rightarrow> issue_login_command \<Rightarrow> instant \<Rightarrow> oauth_login_state identity_op" where
  "issue_oauth_login_state capacity c now =
     andthen (cleanup_oauth_states now) (\<lambda>_.
     andthen (issue_oauth_state capacity c now) (\<lambda>st.
     andthen (writes (\<lambda>s. s\<lparr>id_login_contexts :=
         dset (oa_state_digest st) (il_return_intent c) (id_login_contexts s)\<rparr>)) (\<lambda>_.
       checked_as oauth_login_state_ok (login_state_of st (il_return_intent c)))))"

definition issue_oauth_test_state ::
  "nat \<Rightarrow> issue_test_command \<Rightarrow> instant \<Rightarrow> oauth_test_state identity_op" where
  "issue_oauth_test_state capacity c now =
     andthen (cleanup_oauth_states now) (\<lambda>_.
     andthen (reads (\<lambda>s. list_ex (\<lambda>x. oc_test_operation_id x = it_operation_id c)
         (dvals (id_test_contexts s)))) (\<lambda>bound.
     andthen (require (\<not> bound) WebSessionConflictError) (\<lambda>_.
     andthen (issue_oauth_state capacity c now) (\<lambda>st.
     andthen (writes (\<lambda>s. s\<lparr>id_test_contexts := dset (oa_state_digest st)
         \<lparr>oc_test_operation_id = it_operation_id c, oc_test_config_generation = it_config_generation c\<rparr>
         (id_test_contexts s)\<rparr>)) (\<lambda>_.
       checked_as oauth_test_state_ok (test_state_of st (it_operation_id c) (it_config_generation c)))))))"

text \<open>What both ways to consume a state do first, and how they mark it.\<close>

definition live_oauth_state :: "string \<Rightarrow> instant \<Rightarrow> oauth_state identity_op" where
  "live_oauth_state digest now =
     andthen (reads (\<lambda>s. dget (id_oauth_states s) digest)) (\<lambda>found. case found of
         None \<Rightarrow> raise OAuthStateNotFoundError
       | Some st \<Rightarrow>
           andthen (require (\<not> oauth_stale now st) OAuthStateNotFoundError) (\<lambda>_. ret st))"

definition mark_consumed :: "oauth_state \<Rightarrow> instant \<Rightarrow> oauth_state identity_op" where
  "mark_consumed st now =
     andthen (checked_as oauth_state_ok (st\<lparr>oa_consumed_at := Some now\<rparr>)) (\<lambda>v.
     andthen (writes (\<lambda>s. s\<lparr>id_oauth_states := dset (oa_state_digest st) v (id_oauth_states s)\<rparr>)) (\<lambda>_.
       ret v))"

definition consume_oauth_login_state :: "string \<Rightarrow> instant \<Rightarrow> oauth_login_state identity_op" where
  "consume_oauth_login_state digest now =
     andthen (live_oauth_state digest now) (\<lambda>st.
     andthen (reads (\<lambda>s. dget (id_login_contexts s) digest)) (\<lambda>found. case found of
         None \<Rightarrow> raise OAuthLoginContextNotFoundError
       | Some intent \<Rightarrow>
           andthen (mark_consumed st now) (\<lambda>v.
             checked_as oauth_login_state_ok (login_state_of v intent))))"

definition consume_oauth_test_state :: "string \<Rightarrow> instant \<Rightarrow> oauth_test_state identity_op" where
  "consume_oauth_test_state digest now =
     andthen (live_oauth_state digest now) (\<lambda>st.
     andthen (reads (\<lambda>s. dget (id_test_contexts s) digest)) (\<lambda>found. case found of
         None \<Rightarrow> raise OAuthTestContextNotFoundError
       | Some x \<Rightarrow>
           andthen (mark_consumed st now) (\<lambda>v. checked_as oauth_test_state_ok
             (test_state_of v (oc_test_operation_id x) (oc_test_config_generation x)))))"

subsection \<open>Browser sessions\<close>

definition revoke_previous :: "string option \<Rightarrow> instant \<Rightarrow> unit identity_op" where
  "revoke_previous previous_digest now = (case previous_digest of
      None \<Rightarrow> ret ()
    | Some d \<Rightarrow>
        andthen (reads (\<lambda>s. dget (id_sessions s) d)) (\<lambda>found. case found of
            None \<Rightarrow> ret ()
          | Some w \<Rightarrow>
              if ws_revoked_at w = None
              then andthen (checked_as web_session_ok (revoked now w)) (\<lambda>v. writes (put_session d v))
              else ret ()))"

definition rotate_session :: "rotate_session_command \<Rightarrow> instant \<Rightarrow> web_session identity_op" where
  "rotate_session c now =
     andthen (reads (\<lambda>s. dget (id_sessions s) (rs_session_digest c))) (\<lambda>existing.
     andthen (require (existing = None) WebSessionConflictError) (\<lambda>_.
     andthen (checked_as web_session_ok
         \<lparr>ws_session_digest = rs_session_digest c, ws_subject_ref = rs_subject_ref c, ws_issued_at = now,
          ws_expires_at = now + seconds (rs_ttl_seconds c), ws_revoked_at = None,
          ws_auth_source = rs_auth_source c, ws_public_origin_digest = rs_public_origin_digest c\<rparr>) (\<lambda>w.
     andthen (revoke_previous (rs_previous_session_digest c) now) (\<lambda>_.
     andthen (writes (put_session (ws_session_digest w) w)) (\<lambda>_. ret w)))))"

definition get_session ::
  "identity_state \<Rightarrow> session_lookup \<Rightarrow> instant \<Rightarrow> identity_error + web_session" where
  "get_session s lookup now = (case dget (id_sessions s) (wl_session_digest lookup) of
      None \<Rightarrow> Inl WebSessionNotFoundError
    | Some w \<Rightarrow>
        if ws_revoked_at w \<noteq> None \<or> ws_expires_at w \<le> now
          \<or> ws_public_origin_digest w \<noteq> wl_public_origin_digest lookup
        then Inl WebSessionNotFoundError else Inr w)"

definition revoke_session :: "string \<Rightarrow> instant \<Rightarrow> bool identity_op" where
  "revoke_session digest now =
     andthen (reads (\<lambda>s. dget (id_sessions s) digest)) (\<lambda>found. case found of
         None \<Rightarrow> ret False
       | Some w \<Rightarrow>
           if ws_revoked_at w \<noteq> None then ret False
           else andthen (checked_as web_session_ok (revoked now w)) (\<lambda>v.
             andthen (writes (put_session (ws_session_digest w) v)) (\<lambda>_. ret True)))"

end
