(* ===== verification/Admin_Service.thy ===== *)
theory Admin_Service
  imports Session_Store
begin

text \<open>
  The application services over the identity stores: \<open>IdentityActivationService\<close>
  (\<open>application/identity_activation.py\<close>) and \<open>AdminIdentityService\<close> (\<open>application/admin_identity.py\<close>)
  with the pages it shows (\<open>contracts/admin_identity.py\<close>). A service awaits the store more than once:
  \<open>others\<close> is what other operations do to the state between two of its calls.
\<close>

subsection \<open>Activation requests\<close>

definition web_activation ::
  "string \<Rightarrow> string \<Rightarrow> string \<Rightarrow> return_intent \<Rightarrow> create_activation_command" where
  "web_activation tenant_id environment_id subject_ref intent =
     \<lparr>ca_tenant_id = tenant_id, ca_environment_id = environment_id, ca_provider = SRC_FEISHU,
      ca_subject_ref = subject_ref,
      ca_source = (if ri_kind intent = RI_SAFE_TASK_DETAIL then FROM_SAFE_TASK_LINK else FROM_WEB_LOGIN),
      ca_return_intent = Some intent, ca_source_event_ref = None, ca_source_chat_ref = None\<rparr>"

definition group_activation ::
  "string \<Rightarrow> string \<Rightarrow> string \<Rightarrow> string \<Rightarrow> string \<Rightarrow> create_activation_command" where
  "group_activation tenant_id environment_id subject_ref event_ref chat_ref =
     \<lparr>ca_tenant_id = tenant_id, ca_environment_id = environment_id, ca_provider = SRC_FEISHU,
      ca_subject_ref = subject_ref, ca_source = FROM_FEISHU_GROUP, ca_return_intent = None,
      ca_source_event_ref = Some event_ref, ca_source_chat_ref = Some chat_ref\<rparr>"

definition request_web ::
  "py_env \<Rightarrow> string \<Rightarrow> string \<Rightarrow> string \<Rightarrow> return_intent \<Rightarrow> instant \<Rightarrow> string
     \<Rightarrow> activation_request identity_op" where
  "request_web E tenant_id environment_id subject_ref intent now fresh_id =
     andthen (checked_as create_activation_command_ok
         (web_activation tenant_id environment_id subject_ref intent)) (\<lambda>c.
       create_or_reuse E c now fresh_id)"

definition request_group ::
  "py_env \<Rightarrow> string \<Rightarrow> string \<Rightarrow> string \<Rightarrow> string \<Rightarrow> string \<Rightarrow> instant \<Rightarrow> string
     \<Rightarrow> activation_request identity_op" where
  "request_group E tenant_id environment_id subject_ref event_ref chat_ref now fresh_id =
     andthen (checked_as create_activation_command_ok
         (group_activation tenant_id environment_id subject_ref event_ref chat_ref)) (\<lambda>c.
       create_or_reuse E c now fresh_id)"

text \<open>\<open>None\<close> stands for \<open>ActivationResumeUnavailableError\<close>; every status is a status.\<close>

definition resume_web ::
  "identity_state \<Rightarrow> string \<Rightarrow> string \<Rightarrow> string \<Rightarrow> string \<Rightarrow> activation_request option" where
  "resume_web s tenant_id environment_id request_id subject_ref =
     (case load_activation s \<lparr>al_request_id = request_id, al_tenant_id = tenant_id,
         al_environment_id = environment_id\<rparr> of
        None \<Rightarrow> None
      | Some r \<Rightarrow>
          if aq_provider r \<noteq> SRC_FEISHU \<or> aq_return_intent r = None \<or> aq_subject_ref r \<noteq> subject_ref
          then None else Some r)"

subsection \<open>Denied decisions\<close>

definition denial_of ::
  "py_env \<Rightarrow> operation_context \<Rightarrow> string \<times> string \<Rightarrow> audit_action \<Rightarrow> audit_target_kind \<Rightarrow> string
     \<Rightarrow> audit_reason_code \<Rightarrow> audit_denial" where
  "denial_of E oc scope action kind ref code =
     \<lparr>ac_operation_id = oc_operation_id oc, ac_tenant_id = fst scope, ac_environment_id = snd scope,
      ac_actor_user_id = oc_actor_user_id oc, ac_actor = oc_actor oc, ac_auth_source = oc_auth_source oc,
      ac_action = action, ac_target_kind = kind,
      ac_target_ref_digest = admin_audit_target_digest E kind ref, an_reason_code = code\<rparr>"

text \<open>
  Apply a command; when the store denies the decision, append the denial, then raise the denial again.
  An exception of the append replaces it.
\<close>

definition apply_or_deny ::
  "py_env \<Rightarrow> directory_command \<Rightarrow> operation_context \<Rightarrow> audit_target_kind \<Rightarrow> string
     \<Rightarrow> (identity_state \<Rightarrow> identity_state) \<Rightarrow> instant \<Rightarrow> instant \<Rightarrow> audit_event list identity_op" where
  "apply_or_deny E command oc kind ref others now now' s =
     (case apply_command E command oc now s of
        (s1, Inl (UserDirectoryDecisionDeniedError code)) \<Rightarrow>
          andthen (checked_as audit_subject_ok
              (denial_of E oc (command_scope command) (ACTION_FOR_COMMAND command) kind ref code)) (\<lambda>denial.
          andthen (append_denied E denial now') (\<lambda>_.
            raise (UserDirectoryDecisionDeniedError code))) (others s1)
      | (s1, r) \<Rightarrow> (s1, r))"

fun decided_request :: "directory_command \<Rightarrow> string" where
  "decided_request (ApproveActivation c) = ad_request_id c"
| "decided_request (RejectActivation c) = ad_request_id c"
| "decided_request c = ''''"

definition decide_activation ::
  "py_env \<Rightarrow> directory_command \<Rightarrow> operation_context \<Rightarrow> (identity_state \<Rightarrow> identity_state) \<Rightarrow> instant
     \<Rightarrow> instant \<Rightarrow> audit_event list identity_op" where
  "decide_activation E command oc others now now' =
     apply_or_deny E command oc TGT_ACTIVATION (decided_request command) others now now'"

subsection \<open>The administrator's service\<close>

text \<open>
  \<open>Passed\<close> is an exception that \<open>_raise_closed\<close> raises again as it is. \<open>AdminIdentityUnavailableError\<close>
  answers failures of the database, which the in-memory stores do not have.
\<close>

datatype admin_error =
    AdminIdentityForbiddenError
  | AdminIdentityNotFoundError
  | AdminIdentityConflictError
  | Passed identity_error

type_synonym 'b admin_op = "(identity_state, admin_error, 'b) operation"

record admin_actor =
  aa_user_id :: string
  aa_tenant_id :: string
  aa_environment_id :: string
  aa_actor :: string
  aa_auth_source :: identity_source
  aa_role :: product_role
  aa_capabilities :: "admin_capability set"

fun raise_closed :: "identity_error \<Rightarrow> admin_error" where
  "raise_closed (UserDirectoryDecisionDeniedError code) =
     (if code \<in> {RC_TARGET_NOT_FOUND, RC_SCOPE_MISMATCH} then AdminIdentityNotFoundError
      else AdminIdentityForbiddenError)"
| "raise_closed (UserDirectoryNotFoundError why) = AdminIdentityNotFoundError"
| "raise_closed (UserDirectoryConflictError why) = AdminIdentityConflictError"
| "raise_closed AdminAuditConflictError = AdminIdentityConflictError"
| "raise_closed AdminAuditUnwritableError = AdminIdentityConflictError"
| "raise_closed e = Passed e"

definition closed_call :: "'b identity_op \<Rightarrow> 'b admin_op" where
  "closed_call m s = (case m s of (s', r) \<Rightarrow> (s', map_sum raise_closed id r))"

definition built :: "('b \<Rightarrow> bool) \<Rightarrow> 'b \<Rightarrow> 'b admin_op" where
  "built ok b = lift (\<lambda>_. Passed IdentityValidationError) (revalidate ok b)"

definition require_capability :: "admin_actor \<Rightarrow> admin_capability \<Rightarrow> unit admin_op" where
  "require_capability actor capability =
     require (aa_role actor = ROLE_ADMIN \<and> capability \<in> aa_capabilities actor) AdminIdentityForbiddenError"

definition admin_context :: "admin_actor \<Rightarrow> string \<Rightarrow> operation_context" where
  "admin_context actor trace_id =
     \<lparr>oc_operation_id = ''w3:'' @ trace_id, oc_actor_user_id = aa_user_id actor,
      oc_actor = aa_actor actor, oc_auth_source = aa_auth_source actor\<rparr>"

subsection \<open>Lists\<close>

record user_summary =
  us_user_id :: string
  us_actor :: string
  us_display_name :: string
  us_status :: user_status
  us_role :: product_role
  us_feishu_bound :: bool
  us_updated_at :: instant

definition user_summary_ok :: "user_summary \<Rightarrow> bool" where
  "user_summary_ok u \<longleftrightarrow> bounded_id (us_user_id u) \<and> bounded_actor (us_actor u)
     \<and> bounded_name (us_display_name u)"

definition user_summary_of :: "user_record \<Rightarrow> user_summary" where
  "user_summary_of r =
     \<lparr>us_user_id = ua_user_id (ur_account r), us_actor = ua_actor (ur_account r),
      us_display_name = ua_display_name (ur_account r), us_status = ua_status (ur_account r),
      us_role = ra_role (ur_assignment r), us_feishu_bound = ur_feishu_bound r,
      us_updated_at = max (ua_updated_at (ur_account r)) (ra_updated_at (ur_assignment r))\<rparr>"

text \<open>A page that is shown: at most 100 valid items and a cursor.\<close>

record ('i, 'c) view_page =
  vp_items :: "'i list"
  vp_next :: "'c option"

definition view_page_ok ::
  "('i \<Rightarrow> bool) \<Rightarrow> ('c \<Rightarrow> bool) \<Rightarrow> ('i, 'c) view_page \<Rightarrow> bool" where
  "view_page_ok item_ok cursor_ok p \<longleftrightarrow> list_all item_ok (vp_items p) \<and> length (vp_items p) \<le> 100
     \<and> opt_all cursor_ok (vp_next p)"

definition list_users ::
  "admin_actor \<Rightarrow> string option \<Rightarrow> int \<Rightarrow> (user_summary, string) view_page admin_op" where
  "list_users actor after_actor limit =
     andthen (require_capability actor MANAGE_USERS) (\<lambda>_.
     andthen (built user_list_query_ok
         \<lparr>ulq_tenant_id = aa_tenant_id actor, ulq_environment_id = aa_environment_id actor,
          ulq_after_actor = after_actor, ulq_limit = limit\<rparr>) (\<lambda>q.
     andthen (closed_call (\<lambda>s. (s, list_admin_users s q))) (\<lambda>page.
       built (view_page_ok user_summary_ok bounded_actor)
         \<lparr>vp_items = map user_summary_of (up_items page), vp_next = up_next_after_actor page\<rparr>)))"

text \<open>The two halves of a cursor are given together or not at all.\<close>

fun cursor_of :: "instant option \<Rightarrow> string option \<Rightarrow> validation_error + (instant \<times> string) option" where
  "cursor_of None None = Inr None"
| "cursor_of (Some t) (Some i) = Inr (Some (t, i))"
| "cursor_of a b = Inl ValidationError"

text \<open>The bytes of the words before the hint: two ideographs, a space, a middle dot, a space.\<close>

definition HINT_PREFIX :: string where
  "HINT_PREFIX = map byte [231, 148, 179, 232, 175, 183, 32, 194, 183, 32]"

definition subject_hint :: "py_env \<Rightarrow> string \<Rightarrow> string" where
  "subject_hint E request_id =
     HINT_PREFIX @ take 8 (env_sha256 E (''xiaowei.admin.activation_hint.v1'' @ US @ request_id))"

definition subject_hint_ok :: "string \<Rightarrow> bool" where
  "subject_hint_ok h \<longleftrightarrow> take (length HINT_PREFIX) h = HINT_PREFIX
     \<and> length h = length HINT_PREFIX + 8 \<and> list_all lower_hex (drop (length HINT_PREFIX) h)"

record pending_summary =
  ps_request_id :: string
  ps_subject_hint :: string
  ps_source :: activation_source
  ps_requested_at :: instant
  ps_expires_at :: instant

definition pending_summary_ok :: "pending_summary \<Rightarrow> bool" where
  "pending_summary_ok p \<longleftrightarrow> bounded_id (ps_request_id p) \<and> subject_hint_ok (ps_subject_hint p)"

definition pending_summary_of :: "py_env \<Rightarrow> activation_request \<Rightarrow> pending_summary" where
  "pending_summary_of E r =
     \<lparr>ps_request_id = aq_request_id r, ps_subject_hint = subject_hint E (aq_request_id r),
      ps_source = aq_source r, ps_requested_at = aq_requested_at r, ps_expires_at = aq_expires_at r\<rparr>"

definition bounded_cursor :: "instant \<times> string \<Rightarrow> bool" where
  "bounded_cursor c \<longleftrightarrow> bounded_id (snd c)"

definition list_pending_activations ::
  "py_env \<Rightarrow> admin_actor \<Rightarrow> instant option \<Rightarrow> string option \<Rightarrow> int \<Rightarrow> instant
     \<Rightarrow> (pending_summary, instant \<times> string) view_page admin_op" where
  "list_pending_activations E actor before_requested_at before_request_id limit now =
     andthen (require_capability actor MANAGE_USERS) (\<lambda>_.
     andthen (lift (\<lambda>_. Passed IdentityValidationError) (cursor_of before_requested_at before_request_id)) (\<lambda>cursor.
     andthen (built pending_list_query_ok
         \<lparr>plq_tenant_id = aa_tenant_id actor, plq_environment_id = aa_environment_id actor,
          plq_before = cursor, plq_limit = limit\<rparr>) (\<lambda>q.
     andthen (closed_call (\<lambda>s. (s, list_pending s q now))) (\<lambda>page.
       built (view_page_ok pending_summary_ok bounded_cursor)
         \<lparr>vp_items = map (pending_summary_of E) (kp_items page), vp_next = kp_next page\<rparr>))))"

record audit_summary =
  as_event_id :: string
  as_actor :: string
  as_auth_source :: identity_source
  as_action :: audit_action
  as_target_kind :: audit_target_kind
  as_outcome :: audit_outcome
  as_reason_code :: "audit_reason_code option"
  as_effect :: audit_effect
  as_created_at :: instant

definition audit_summary_ok :: "audit_summary \<Rightarrow> bool" where
  "audit_summary_ok a \<longleftrightarrow> bounded_id (as_event_id a) \<and> bounded_actor (as_actor a)"

definition audit_summary_of :: "audit_event \<Rightarrow> audit_summary" where
  "audit_summary_of e =
     \<lparr>as_event_id = av_event_id e, as_actor = ac_actor e, as_auth_source = ac_auth_source e,
      as_action = ac_action e, as_target_kind = ac_target_kind e, as_outcome = ac_outcome e,
      as_reason_code = ac_reason_code e, as_effect = ac_effect e, as_created_at = av_created_at e\<rparr>"

definition audit_target_of ::
  "py_env \<Rightarrow> string option \<Rightarrow> string option \<Rightarrow> (audit_target_kind \<times> string) option" where
  "audit_target_of E target_user_id target_request_id =
     (case target_user_id of
        Some u \<Rightarrow> Some (TGT_USER, admin_audit_target_digest E TGT_USER u)
      | None \<Rightarrow> map_option (\<lambda>i. (TGT_ACTIVATION, admin_audit_target_digest E TGT_ACTIVATION i)) target_request_id)"

definition list_audit ::
  "py_env \<Rightarrow> admin_actor \<Rightarrow> instant option \<Rightarrow> string option \<Rightarrow> audit_action option \<Rightarrow> audit_outcome option
     \<Rightarrow> string option \<Rightarrow> string option \<Rightarrow> int \<Rightarrow> (audit_summary, instant \<times> string) view_page admin_op" where
  "list_audit E actor before_created_at before_event_id action outcome target_user_id target_request_id limit =
     andthen (require_capability actor VIEW_ADMIN_AUDIT) (\<lambda>_.
     andthen (require (target_user_id = None \<or> target_request_id = None) AdminIdentityConflictError) (\<lambda>_.
     andthen (lift (\<lambda>_. Passed IdentityValidationError) (cursor_of before_created_at before_event_id)) (\<lambda>cursor.
     andthen (built audit_list_query_ok
         \<lparr>elq_tenant_id = aa_tenant_id actor, elq_environment_id = aa_environment_id actor,
          elq_before = cursor, elq_action = action, elq_outcome = outcome,
          elq_target = audit_target_of E target_user_id target_request_id, elq_limit = limit\<rparr>) (\<lambda>q.
     andthen (closed_call (\<lambda>s. (s, list_events s q))) (\<lambda>page.
       built (view_page_ok audit_summary_ok bounded_cursor)
         \<lparr>vp_items = map audit_summary_of (kp_items page), vp_next = kp_next page\<rparr>)))))"

subsection \<open>Managed changes\<close>

fun managed_user :: "directory_command \<Rightarrow> string" where
  "managed_user (SetManagedUserStatus c) = dc_user_id c"
| "managed_user (ChangeManagedUserRole c) = dc_user_id c"
| "managed_user c = ''''"

definition apply_managed ::
  "py_env \<Rightarrow> admin_actor \<Rightarrow> directory_command \<Rightarrow> string \<Rightarrow> (identity_state \<Rightarrow> identity_state) \<Rightarrow> instant
     \<Rightarrow> instant \<Rightarrow> unit admin_op" where
  "apply_managed E actor command trace_id others now now' =
     andthen (require_capability actor MANAGE_USERS) (\<lambda>_.
     andthen (built operation_context_ok (admin_context actor trace_id)) (\<lambda>oc.
     andthen (closed_call (apply_or_deny E command oc TGT_USER (managed_user command) others now now')) (\<lambda>_.
       ret ())))"

definition set_user_status ::
  "py_env \<Rightarrow> admin_actor \<Rightarrow> string \<Rightarrow> user_status \<Rightarrow> product_role \<Rightarrow> user_status \<Rightarrow> string
     \<Rightarrow> (identity_state \<Rightarrow> identity_state) \<Rightarrow> instant \<Rightarrow> instant \<Rightarrow> unit admin_op" where
  "set_user_status E actor user_id expected_status expected_role status trace_id others now now' =
     andthen (built directory_command_ok (SetManagedUserStatus
         \<lparr>dc_user_id = user_id, dc_tenant_id = aa_tenant_id actor, dc_environment_id = aa_environment_id actor,
          ms_expected_status = expected_status, ms_expected_role = expected_role, ms_status = status\<rparr>))
       (\<lambda>command. apply_managed E actor command trace_id others now now')"

definition change_user_role ::
  "py_env \<Rightarrow> admin_actor \<Rightarrow> string \<Rightarrow> product_role \<Rightarrow> product_role \<Rightarrow> string
     \<Rightarrow> (identity_state \<Rightarrow> identity_state) \<Rightarrow> instant \<Rightarrow> instant \<Rightarrow> unit admin_op" where
  "change_user_role E actor user_id expected_role role trace_id others now now' =
     andthen (built directory_command_ok (ChangeManagedUserRole
         \<lparr>dc_user_id = user_id, dc_tenant_id = aa_tenant_id actor, dc_environment_id = aa_environment_id actor,
          mr_expected_role = expected_role, mr_role = role\<rparr>))
       (\<lambda>command. apply_managed E actor command trace_id others now now')"

text \<open>The two decisions build their command and context only after the capability check.\<close>

definition decide_as_admin ::
  "py_env \<Rightarrow> admin_actor \<Rightarrow> directory_command \<Rightarrow> string \<Rightarrow> (identity_state \<Rightarrow> identity_state) \<Rightarrow> instant
     \<Rightarrow> instant \<Rightarrow> unit admin_op" where
  "decide_as_admin E actor command trace_id others now now' =
     andthen (require_capability actor MANAGE_USERS) (\<lambda>_.
     andthen (built directory_command_ok command) (\<lambda>_.
     andthen (built operation_context_ok (admin_context actor trace_id)) (\<lambda>oc.
     andthen (closed_call (decide_activation E command oc others now now')) (\<lambda>_. ret ()))))"

definition admin_approve ::
  "py_env \<Rightarrow> admin_actor \<Rightarrow> string \<Rightarrow> string \<Rightarrow> string \<Rightarrow> product_role \<Rightarrow> string
     \<Rightarrow> (identity_state \<Rightarrow> identity_state) \<Rightarrow> instant \<Rightarrow> instant \<Rightarrow> unit admin_op" where
  "admin_approve E actor request_id account_actor display_name role trace_id =
     decide_as_admin E actor (ApproveActivation
         \<lparr>ad_request_id = request_id, ad_tenant_id = aa_tenant_id actor,
          ad_environment_id = aa_environment_id actor, ap_actor = account_actor,
          ap_display_name = display_name, ap_approved_role = role\<rparr>) trace_id"

definition admin_reject ::
  "py_env \<Rightarrow> admin_actor \<Rightarrow> string \<Rightarrow> string \<Rightarrow> (identity_state \<Rightarrow> identity_state) \<Rightarrow> instant \<Rightarrow> instant
     \<Rightarrow> unit admin_op" where
  "admin_reject E actor request_id trace_id =
     decide_as_admin E actor (RejectActivation
         \<lparr>ad_request_id = request_id, ad_tenant_id = aa_tenant_id actor,
          ad_environment_id = aa_environment_id actor\<rparr>) trace_id"

end
