(* ===== verification/Identity_Effects.thy ===== *)
theory Identity_Effects
  imports Session_Store
begin

text \<open>
  What the helpers and handlers of the user directory do when they succeed, as equations between
  the states before and after.
\<close>

lemma checked_as_ok: "checked_as ok r s = (s', Inr v) \<longleftrightarrow> ok r \<and> v = r \<and> s' = s"
  by (auto simp: checked_as_def lift_ok revalidate_Inr)

lemmas dir_ok_simps = op_ok_simps checked_as_ok

subsection \<open>Appending to the trail\<close>

text \<open>A new event takes a free stage slot and a free identifier, and is the last of the trail.\<close>

definition event_slot :: "'a audit_candidate_scheme \<Rightarrow> string \<times> audit_stage" where
  "event_slot e = audit_stage_key (ac_operation_id e) (ac_outcome e)"

definition event_filed :: "py_env \<Rightarrow> string \<Rightarrow> audit_event \<Rightarrow> bool" where
  "event_filed E k e \<longleftrightarrow> audit_event_ok e \<and> k = av_event_id e
     \<and> k = stage_event_id E (fst (event_slot e)) (snd (event_slot e))"

definition appended :: "py_env \<Rightarrow> identity_state \<Rightarrow> audit_event \<Rightarrow> identity_state \<Rightarrow> bool" where
  "appended E s e s' \<longleftrightarrow> dget (id_stages s) (event_slot e) = None \<and> dget (id_events s) (av_event_id e) = None
     \<and> event_filed E (av_event_id e) e
     \<and> s' = s\<lparr>id_stages := id_stages s @ [(event_slot e, av_event_id e)],
              id_events := id_events s @ [(av_event_id e, e)]\<rparr>"

lemma seal_ok:
  "seal E c now = Inr e \<Longrightarrow> event_filed E (av_event_id e) e \<and> audit_candidate.truncate e = c
     \<and> av_created_at e = now"
  by (auto simp: seal_def revalidate_Inr event_filed_def event_slot_def audit_stage_key_def
      audit_candidate.truncate_def split: prod.splits)

lemma truncate_slot: "audit_candidate.truncate e = c \<Longrightarrow> event_slot e = audit_stage_key (ac_operation_id c) (ac_outcome c)"
  by (auto simp: event_slot_def audit_candidate.truncate_def)

lemma append_locked_cases:
  assumes "append_locked E c now s = (s', r)"
  obtains (failed) "s' = s" "r = Inr None \<or> r = Inl IdentityValidationError"
  | (written) e where "r = Inr (Some e)" "appended E s e s'" "audit_candidate.truncate e = c"
      "av_created_at e = now"
proof (cases "\<exists>e. r = Inr (Some e)")
  case False
  then show thesis
    using failed assms by (auto simp: append_locked_def Let_def split: if_splits sum.splits)
next
  case True
  then obtain e where e: "r = Inr (Some e)" by blast
  then have fresh: "dget (id_stages s) (audit_stage_key (ac_operation_id c) (ac_outcome c)) = None"
    "seal E c now = Inr e" "dget (id_events s) (av_event_id e) = None"
    and s': "s' = s\<lparr>id_stages := dset (audit_stage_key (ac_operation_id c) (ac_outcome c)) (av_event_id e) (id_stages s),
        id_events := dset (av_event_id e) e (id_events s)\<rparr>"
    using assms by (auto simp: append_locked_def Let_def split: if_splits sum.splits)
  note sealed = seal_ok [OF fresh(2)]
  have slot: "event_slot e = audit_stage_key (ac_operation_id c) (ac_outcome c)"
    using sealed truncate_slot by blast
  have "appended E s e s'"
    using fresh(1,3) s' sealed by (simp add: appended_def slot dset_fresh)
  with e sealed show thesis by (intro written) auto
qed

lemma append_or_cases:
  assumes "append_or taken E c now s = (s', r)"
  obtains (failed) e where "s' = s" "r = Inl e"
  | (written) e where "r = Inr e" "appended E s e s'" "audit_candidate.truncate e = c"
      "av_created_at e = now"
  using assms unfolding append_or_def
proof (cases rule: andthen_cases)
  case (raised e)
  from raised(1) show thesis
    by (cases rule: append_locked_cases) (use raised that in auto)
next
  case (went w1 b)
  from went(1) show thesis
  proof (cases rule: append_locked_cases)
    case failed
    with went that(1) show thesis by (auto simp: raise_def)
  next
    case (written e)
    with went that(2) show thesis by (auto simp: ret_def)
  qed
qed

lemma append_or_ok:
  "append_or taken E c now s = (s', Inr e) \<Longrightarrow>
     appended E s e s' \<and> audit_candidate.truncate e = c \<and> av_created_at e = now"
  by (erule append_or_cases) auto

subsection \<open>The event of a directory command\<close>

text \<open>What \<open>derive_audit\<close> records of a command, for a target and an effect.\<close>

definition records ::
  "py_env \<Rightarrow> directory_command \<Rightarrow> operation_context \<Rightarrow> string \<Rightarrow> migration_entry option \<Rightarrow> audit_event \<Rightarrow> bool" where
  "records E command oc ref entry e \<longleftrightarrow>
     (ac_tenant_id e, ac_environment_id e) = command_scope command
     \<and> ac_actor_user_id e = oc_actor_user_id oc \<and> ac_actor e = oc_actor oc
     \<and> ac_auth_source e = oc_auth_source oc \<and> ac_action e = ACTION_FOR_COMMAND command
     \<and> ac_target_kind e = fst (audit_target command ref)
     \<and> ac_target_ref_digest e
         = admin_audit_target_digest E (fst (audit_target command ref)) (snd (audit_target command ref))
     \<and> ac_outcome e = AO_SUCCEEDED \<and> EFFECT_FOR_COMMAND command entry = Inr (ac_effect e)"

lemma write_audit_ok:
  assumes "write_audit E command oc ref oid entry now s = (s', Inr e)"
  shows "appended E s e s' \<and> records E command oc ref entry e \<and> av_created_at e = now"
proof -
  obtain c where c: "derive_audit E command oc ref oid entry = Inr c"
    and a: "append_or AdminAuditUnwritableError E c now s = (s', Inr e)"
    using assms by (auto simp: write_audit_def dir_ok_simps)
  from append_or_ok [OF a] have e: "appended E s e s'" "audit_candidate.truncate e = c" "av_created_at e = now"
    by simp_all
  have "records E command oc ref entry e"
    using c unfolding e(2) [symmetric]
    by (auto simp: derive_audit_def records_def revalidate_Inr audit_candidate.truncate_def
        split: prod.splits sum.splits)
  with e show ?thesis by simp
qed

lemma one_event_ok:
  assumes "one_event E command oc ref now s = (s', Inr evs)"
  obtains e where "evs = [e]" "appended E s e s'" "records E command oc ref None e"
  using assms write_audit_ok by (auto simp: one_event_def dir_ok_simps)

subsection \<open>The writes of the handlers\<close>

lemma insert_account_ok:
  "insert_account u a d now s = (s', Inr x) \<longleftrightarrow>
     dget (id_accounts s) u = None \<and> \<not> actor_claimed a s \<and> user_account_ok (new_account u a d now)
     \<and> s' = put_account (new_account u a d now) s"
  by (auto simp: insert_account_def dir_ok_simps)

definition upserted ::
  "identity_state \<Rightarrow> string \<Rightarrow> string \<Rightarrow> string \<Rightarrow> product_role \<Rightarrow> string \<Rightarrow> instant \<Rightarrow> role_assignment" where
  "upserted s u t e role by_id now =
     \<lparr>ra_user_id = u, ra_tenant_id = t, ra_environment_id = e, ra_role = role,
      ra_created_by = (case dget (id_roles s) (u, t, e) of None \<Rightarrow> by_id | Some r \<Rightarrow> ra_created_by r),
      ra_created_at = (case dget (id_roles s) (u, t, e) of None \<Rightarrow> now | Some r \<Rightarrow> ra_created_at r),
      ra_updated_at = now\<rparr>"

lemma upserted_fields [simp]:
  "role_key (upserted s u t e role by_id now) = (u, t, e)"
  "ra_user_id (upserted s u t e role by_id now) = u"
  "ra_tenant_id (upserted s u t e role by_id now) = t"
  "ra_environment_id (upserted s u t e role by_id now) = e"
  "ra_role (upserted s u t e role by_id now) = role"
  by (simp_all add: upserted_def role_key_def)

lemma upsert_role_ok:
  "upsert_role u t e role by_id now s = (s', Inr x) \<longleftrightarrow>
     role_assignment_ok (upserted s u t e role by_id now)
     \<and> s' = put_role (upserted s u t e role by_id now) s"
  by (auto simp: upsert_role_def dir_ok_simps upserted_def)

definition new_binding :: "string \<Rightarrow> string \<Rightarrow> string \<Rightarrow> string \<Rightarrow> instant \<Rightarrow> external_identity" where
  "new_binding u t e sub now =
     \<lparr>xi_user_id = u, xi_provider = SRC_FEISHU, xi_tenant_id = t, xi_environment_id = e,
      xi_subject_ref = sub, xi_created_at = now, xi_last_seen_at = now\<rparr>"

lemma new_binding_fields [simp]:
  "xi_user_id (new_binding u t e sub now) = u" "xi_provider (new_binding u t e sub now) = SRC_FEISHU"
  "xi_tenant_id (new_binding u t e sub now) = t" "xi_environment_id (new_binding u t e sub now) = e"
  "xi_subject_ref (new_binding u t e sub now) = sub"
  by (simp_all add: new_binding_def)

definition put_binding :: "py_env \<Rightarrow> external_identity \<Rightarrow> identity_state \<Rightarrow> identity_state" where
  "put_binding E b s = s\<lparr>id_bindings := dset (subject_key E SRC_FEISHU (xi_tenant_id b)
     (xi_environment_id b) (xi_subject_ref b)) b (id_bindings s)\<rparr>"

lemma bind_subject_ok:
  "bind_subject E u t e sub now s = (s', Inr x) \<longleftrightarrow>
     dget (id_bindings s) (subject_key E SRC_FEISHU t e sub) = None
     \<and> binding_key_of u t e s = None \<and> external_identity_ok (new_binding u t e sub now)
     \<and> s' = put_binding E (new_binding u t e sub now) s"
  by (auto simp: bind_subject_def Let_def dir_ok_simps new_binding_def put_binding_def)

lemma require_account_ok:
  "require_account u s = (s', Inr a) \<longleftrightarrow> dget (id_accounts s) u = Some a \<and> s' = s"
  by (auto simp: require_account_def dir_ok_simps split: option.splits)

lemma require_admin_ok:
  "require_admin t e oc s = (s', Inr x) \<longleftrightarrow> admin_refusal s t e oc = None \<and> s' = s"
  by (auto simp: require_admin_def dir_ok_simps split: option.splits)

lemma managed_target_ok:
  "managed_target u t e s = (s', Inr (a, r, rs)) \<longleftrightarrow>
     s' = s \<and> dget (id_accounts s) u = Some a \<and> dget (id_roles s) (u, t, e) = Some r
     \<and> rs = assignments_of u s \<and> \<not> list_ex (\<lambda>r. ra_role r = ROLE_ADMIN) rs"
  by (auto simp: managed_target_def dir_ok_simps split: option.splits prod.splits)

definition may_settle :: "'a decision_command_scheme \<Rightarrow> operation_context \<Rightarrow> instant \<Rightarrow> identity_state
    \<Rightarrow> activation_request \<Rightarrow> bool" where
  "may_settle c oc now s r \<longleftrightarrow> admin_refusal s (ad_tenant_id c) (ad_environment_id c) oc = None
     \<and> dget (id_activations s) (ad_request_id c) = Some r
     \<and> aq_tenant_id r = ad_tenant_id c \<and> aq_environment_id r = ad_environment_id c
     \<and> aq_status r = ACT_PENDING \<and> now < aq_expires_at r"

lemma open_request_ok:
  "open_request c oc now s = (s', Inr r) \<longleftrightarrow> s' = s \<and> may_settle c oc now s r"
  by (auto simp: open_request_def activation_for_decision_def dir_ok_simps require_admin_ok
      may_settle_def split: option.splits)

lemma settle_request_ok:
  "settle_request r r' s = (s', Inr x) \<longleftrightarrow> activation_request_ok r'
     \<and> s' = s\<lparr>id_activations := dset (aq_request_id r) r' (id_activations s)\<rparr>"
  by (auto simp: settle_request_def dir_ok_simps)

lemma grant_role_ok:
  "grant_role c u oc now s = (s', Inr x) \<longleftrightarrow>
     (case dget (id_roles s) (u, ad_tenant_id c, ad_environment_id c) of
        None \<Rightarrow> upsert_role u (ad_tenant_id c) (ad_environment_id c) (ap_approved_role c)
          (oc_actor_user_id oc) now s = (s', Inr x)
      | Some a \<Rightarrow> ra_role a = ap_approved_role c \<and> s' = s)"
  by (auto simp: grant_role_def dir_ok_simps split: option.splits)

lemma bind_requester_ok:
  "bind_requester E c r u now s = (s', Inr x) \<longleftrightarrow>
     (case dget (id_bindings s)
        (subject_key E SRC_FEISHU (ad_tenant_id c) (ad_environment_id c) (aq_subject_ref r)) of
        None \<Rightarrow> bind_subject E u (ad_tenant_id c) (ad_environment_id c) (aq_subject_ref r) now s = (s', Inr x)
      | Some b \<Rightarrow> xi_user_id b = u \<and> s' = s)"
  by (auto simp: bind_requester_def dir_ok_simps split: option.splits)

lemma find_actor: "find p (dvals d) = Some a \<Longrightarrow> p a \<and> a \<in> set (dvals d)"
  by (induction "dvals d" arbitrary: d) (auto simp: find_Some_iff)

text \<open>An approval is for an active account that holds the actor, existing or inserted.\<close>

lemma approved_account_ok:
  assumes "approved_account E c r now s = (s', Inr u)"
  obtains (existing) a where "s' = s" "a \<in> set (dvals (id_accounts s))" "ua_actor a = ap_actor c"
      "ua_status a = US_ACTIVE" "u = ua_user_id a"
  | (filed) a where "s' = s" "dget (id_accounts s) u = Some a" "ua_actor a = ap_actor c"
      "ua_status a = US_ACTIVE" "u = activation_user_id E (aq_subject_ref_digest r)"
  | (inserted) "insert_account u (ap_actor c) (ap_display_name c) now s = (s', Inr ())"
proof (cases "find (\<lambda>a. ua_actor a = ap_actor c) (dvals (id_accounts s))")
  case (Some a)
  with assms have "s' = s" "ua_status a = US_ACTIVE" "u = ua_user_id a"
    by (auto simp: approved_account_def dir_ok_simps)
  moreover have "a \<in> set (dvals (id_accounts s))" "ua_actor a = ap_actor c"
    using Some by (auto simp: find_Some_iff)
  ultimately show thesis using existing by blast
next
  case None
  show thesis
  proof (cases "dget (id_accounts s) (activation_user_id E (aq_subject_ref_digest r))")
    case (Some a)
    with assms None filed show thesis by (auto simp: approved_account_def Let_def dir_ok_simps)
  next
    case n: None
    with assms None inserted show thesis by (auto simp: approved_account_def Let_def dir_ok_simps)
  qed
qed

end
