(* ===== verification/Indexed.thy ===== *)
theory Indexed
  imports Prelude
begin

text \<open>
  A table and the index that finds its rows by a key: every row is indexed under its key, and every
  index entry leads to a row with that key. So the key is unique in the table.
\<close>

definition indexed :: "('k, 'v) dict \<Rightarrow> ('d, 'k) dict \<Rightarrow> ('v \<Rightarrow> 'd) \<Rightarrow> bool" where
  "indexed tbl idx key \<longleftrightarrow> (\<forall>k x. dget tbl k = Some x \<longrightarrow> dget idx (key x) = Some k)
     \<and> (\<forall>d k. dget idx d = Some k \<longrightarrow> (\<exists>x. dget tbl k = Some x \<and> key x = d))"

lemma indexed_empty [simp]: "indexed [] [] key"
  by (simp add: indexed_def)

lemma indexed_row: "indexed tbl idx key \<Longrightarrow> dget tbl k = Some x \<Longrightarrow> dget idx (key x) = Some k"
  by (simp add: indexed_def)

lemma indexed_entry:
  assumes "indexed tbl idx key" "dget idx d = Some k"
  obtains x where "dget tbl k = Some x" "key x = d"
  using assms unfolding indexed_def by blast

lemma indexed_unique:
  "indexed tbl idx key \<Longrightarrow> dget tbl k = Some x \<Longrightarrow> dget tbl j = Some y \<Longrightarrow> key x = key y \<Longrightarrow> j = k"
  by (metis indexed_row option.inject)

lemma indexed_insert:
  assumes "indexed tbl idx key" "dget tbl k = None" "dget idx (key x) = None"
  shows "indexed (dset k x tbl) (dset (key x) k idx) key"
  unfolding indexed_def
proof (intro conjI allI impI)
  fix j y assume y: "dget (dset k x tbl) j = Some y"
  show "dget (dset (key x) k idx) (key y) = Some j"
  proof (cases "j = k")
    case False
    with y have "dget idx (key y) = Some j" using indexed_row [OF assms(1)] by simp
    with assms(3) False show ?thesis by auto
  qed (use y in simp)
next
  fix d j assume d: "dget (dset (key x) k idx) d = Some j"
  show "\<exists>y. dget (dset k x tbl) j = Some y \<and> key y = d"
  proof (cases "d = key x")
    case False
    with d obtain y where "dget tbl j = Some y" "key y = d"
      using indexed_entry [OF assms(1), of d j] by auto
    with assms(2) show ?thesis by auto
  qed (use d in simp)
qed

lemma indexed_update:
  assumes "indexed tbl idx key" "dget tbl k = Some p" "key w = key p"
  shows "indexed (dset k w tbl) idx key"
  unfolding indexed_def
proof (intro conjI allI impI)
  fix j y assume "dget (dset k w tbl) j = Some y"
  then show "dget idx (key y) = Some j"
    using indexed_row [OF assms(1)] assms(2,3) by (cases "j = k") auto
next
  fix d j assume d: "dget idx d = Some j"
  obtain y where "dget tbl j = Some y" "key y = d" using indexed_entry [OF assms(1) d] .
  then show "\<exists>y. dget (dset k w tbl) j = Some y \<and> key y = d" using assms(2,3) by (cases "j = k") auto
qed

end
