(* ===== verification/Identity_Invariants.thy ===== *)
theory Identity_Invariants
  imports Identity_Effects Indexed
begin

text \<open>
  The invariant of the directory facts and its preservation by every write of the directory
  handlers: rows are valid and filed under their keys, actors are unique, roles and bindings belong
  to accounts, an account has one binding in a scope, the stage slots index the audit trail, a
  subject has one pending request and there are at most 1024 of them.
\<close>

subsection \<open>Counting rows\<close>

definition dcount :: "('v \<Rightarrow> bool) \<Rightarrow> ('k, 'v) dict \<Rightarrow> nat" where
  "dcount p d = length (filter p (dvals d))"

lemma dcount_dset_not: "\<not> p v \<Longrightarrow> dcount p (dset k v d) \<le> dcount p d"
  by (induction d) (auto simp: dcount_def dvals_def)

lemma dcount_dset: "dcount p (dset k v d) \<le> dcount p d + 1"
  by (induction d) (auto simp: dcount_def dvals_def)

lemma dcount_ddel: "dcount p (ddel k d) \<le> dcount p d"
  by (induction d) (auto simp: dcount_def dvals_def)

lemma pending_count_dcount: "pending_count s = dcount is_pending (id_activations s)"
  by (simp add: pending_count_def dcount_def)

subsection \<open>The invariant\<close>

definition account_filed :: "string \<Rightarrow> user_account \<Rightarrow> bool" where
  "account_filed k a \<longleftrightarrow> ua_user_id a = k \<and> user_account_ok a"

definition accounts_inv :: "identity_state \<Rightarrow> bool" where
  "accounts_inv s \<longleftrightarrow> dict_ok (id_accounts s)
     \<and> (\<forall>k a. dget (id_accounts s) k = Some a \<longrightarrow> account_filed k a)
     \<and> (\<forall>k j a b. dget (id_accounts s) k = Some a \<longrightarrow> dget (id_accounts s) j = Some b \<longrightarrow>
          ua_actor a = ua_actor b \<longrightarrow> k = j)"

definition has_account :: "identity_state \<Rightarrow> string \<Rightarrow> bool" where
  "has_account s u \<longleftrightarrow> dget (id_accounts s) u \<noteq> None"

definition role_filed :: "identity_state \<Rightarrow> string \<times> string \<times> string \<Rightarrow> role_assignment \<Rightarrow> bool" where
  "role_filed s k r \<longleftrightarrow> role_key r = k \<and> role_assignment_ok r \<and> has_account s (ra_user_id r)"

definition roles_inv :: "identity_state \<Rightarrow> bool" where
  "roles_inv s \<longleftrightarrow> dict_ok (id_roles s) \<and> (\<forall>k r. dget (id_roles s) k = Some r \<longrightarrow> role_filed s k r)"

definition binding_filed ::
  "py_env \<Rightarrow> identity_state \<Rightarrow> string \<times> string \<times> string \<times> string \<Rightarrow> external_identity \<Rightarrow> bool" where
  "binding_filed E s k b \<longleftrightarrow> external_identity_ok b \<and> has_account s (xi_user_id b)
     \<and> k = subject_key E SRC_FEISHU (xi_tenant_id b) (xi_environment_id b) (xi_subject_ref b)"

definition binding_owner :: "external_identity \<Rightarrow> string \<times> string \<times> string" where
  "binding_owner b = (xi_user_id b, xi_tenant_id b, xi_environment_id b)"

definition bindings_inv :: "py_env \<Rightarrow> identity_state \<Rightarrow> bool" where
  "bindings_inv E s \<longleftrightarrow> dict_ok (id_bindings s)
     \<and> (\<forall>k b. dget (id_bindings s) k = Some b \<longrightarrow> binding_filed E s k b)
     \<and> (\<forall>k j b c. dget (id_bindings s) k = Some b \<longrightarrow> dget (id_bindings s) j = Some c \<longrightarrow>
          binding_owner b = binding_owner c \<longrightarrow> k = j)"

lemma bindings_invD:
  assumes "bindings_inv E s"
  shows "dict_ok (id_bindings s)"
    and "dget (id_bindings s) k = Some b \<Longrightarrow> binding_filed E s k b"
    and "dget (id_bindings s) k = Some b \<Longrightarrow> dget (id_bindings s) j = Some c \<Longrightarrow>
      binding_owner b = binding_owner c \<Longrightarrow> k = j"
  using assms unfolding bindings_inv_def by blast+

lemma bindings_invI:
  assumes "dict_ok (id_bindings s)"
    and "\<And>k b. dget (id_bindings s) k = Some b \<Longrightarrow> binding_filed E s k b"
    and "\<And>k j b c. dget (id_bindings s) k = Some b \<Longrightarrow> dget (id_bindings s) j = Some c \<Longrightarrow>
      binding_owner b = binding_owner c \<Longrightarrow> k = j"
  shows "bindings_inv E s"
  using assms unfolding bindings_inv_def by blast

definition trail_inv :: "py_env \<Rightarrow> identity_state \<Rightarrow> bool" where
  "trail_inv E s \<longleftrightarrow> dict_ok (id_events s) \<and> dict_ok (id_stages s)
     \<and> (\<forall>k e. dget (id_events s) k = Some e \<longrightarrow> event_filed E k e)
     \<and> indexed (id_events s) (id_stages s) event_slot"

definition request_subject :: "activation_request \<Rightarrow> string \<times> string \<times> string" where
  "request_subject r = (aq_tenant_id r, aq_environment_id r, aq_subject_ref_digest r)"

definition requests_inv :: "identity_state \<Rightarrow> bool" where
  "requests_inv s \<longleftrightarrow> dict_ok (id_activations s)
     \<and> (\<forall>k r. dget (id_activations s) k = Some r \<longrightarrow> aq_request_id r = k \<and> activation_request_ok r)
     \<and> (\<forall>k j r q. dget (id_activations s) k = Some r \<longrightarrow> dget (id_activations s) j = Some q \<longrightarrow>
          is_pending r \<longrightarrow> is_pending q \<longrightarrow> request_subject r = request_subject q \<longrightarrow> k = j)
     \<and> pending_count s \<le> MAX_PENDING_ACTIVATIONS"

definition admin_inv :: "identity_state \<Rightarrow> bool" where
  "admin_inv s \<longleftrightarrow> (case id_local_admin s of None \<Rightarrow> True
     | Some r \<Rightarrow> local_admin_record_ok r \<and> opt_all (has_account s) (la_user_id r))"

definition directory_inv :: "py_env \<Rightarrow> identity_state \<Rightarrow> bool" where
  "directory_inv E s \<longleftrightarrow> accounts_inv s \<and> roles_inv s \<and> bindings_inv E s \<and> trail_inv E s
     \<and> requests_inv s \<and> admin_inv s"

subsection \<open>Frames\<close>

text \<open>Each part of the invariant looks at few fields.\<close>

lemma has_account_frame: "id_accounts s' = id_accounts s \<Longrightarrow> has_account s' = has_account s"
  by (simp add: has_account_def fun_eq_iff)

lemma accounts_inv_frame: "id_accounts s' = id_accounts s \<Longrightarrow> accounts_inv s' = accounts_inv s"
  by (simp add: accounts_inv_def)

lemma roles_inv_frame:
  "id_accounts s' = id_accounts s \<Longrightarrow> id_roles s' = id_roles s \<Longrightarrow> roles_inv s' = roles_inv s"
  by (simp add: roles_inv_def role_filed_def has_account_frame [of s' s])

lemma bindings_inv_frame:
  "id_accounts s' = id_accounts s \<Longrightarrow> id_bindings s' = id_bindings s \<Longrightarrow> bindings_inv E s' = bindings_inv E s"
  by (simp add: bindings_inv_def binding_filed_def has_account_frame [of s' s])

lemma trail_inv_frame:
  "id_events s' = id_events s \<Longrightarrow> id_stages s' = id_stages s \<Longrightarrow> trail_inv E s' = trail_inv E s"
  by (simp add: trail_inv_def)

lemma requests_inv_frame: "id_activations s' = id_activations s \<Longrightarrow> requests_inv s' = requests_inv s"
  by (simp add: requests_inv_def pending_count_def)

lemma admin_inv_frame:
  "id_accounts s' = id_accounts s \<Longrightarrow> id_local_admin s' = id_local_admin s \<Longrightarrow> admin_inv s' = admin_inv s"
  using has_account_frame [of s' s] by (auto simp: admin_inv_def split: option.splits)

lemmas inv_frames = accounts_inv_frame roles_inv_frame bindings_inv_frame trail_inv_frame
  requests_inv_frame admin_inv_frame

text \<open>More accounts keep what refers to accounts.\<close>

lemma account_refs_mono:
  assumes "\<And>u. has_account s u \<Longrightarrow> has_account s' u"
    and "id_roles s' = id_roles s" "id_bindings s' = id_bindings s" "id_local_admin s' = id_local_admin s"
    and "roles_inv s" "bindings_inv E s" "admin_inv s"
  shows "roles_inv s'" "bindings_inv E s'" "admin_inv s'"
proof -
  show "roles_inv s'" using assms by (auto simp: roles_inv_def role_filed_def)
  show "bindings_inv E s'" using assms by (auto simp: bindings_inv_def binding_filed_def)
  have "opt_all (has_account s) u \<Longrightarrow> opt_all (has_account s') u" for u
    using assms(1) by (cases u) auto
  then show "admin_inv s'" using assms by (auto simp: admin_inv_def split: option.splits)
qed

subsection \<open>The writes keep it\<close>

lemma set_account_inv:
  assumes inv: "directory_inv E s" and a: "account_filed u a"
    and actor: "\<And>j b. dget (id_accounts s) j = Some b \<Longrightarrow> ua_actor b = ua_actor a \<Longrightarrow> j = u"
  shows "directory_inv E (s\<lparr>id_accounts := dset u a (id_accounts s)\<rparr>)"
proof -
  let ?s = "s\<lparr>id_accounts := dset u a (id_accounts s)\<rparr>"
  have "accounts_inv ?s"
    using inv a actor unfolding directory_inv_def accounts_inv_def
    by (auto split: if_splits)
  moreover have "has_account ?s v" if "has_account s v" for v
    using that by (simp add: has_account_def)
  then have "roles_inv ?s" "bindings_inv E ?s" "admin_inv ?s"
    using account_refs_mono [of s ?s E] inv by (simp_all add: directory_inv_def)
  ultimately show ?thesis
    using inv by (simp add: directory_inv_def trail_inv_frame [of ?s s] requests_inv_frame [of ?s s])
qed

lemma insert_account_inv:
  assumes "directory_inv E s" "insert_account u a d now s = (s', Inr x)"
  shows "directory_inv E s'" "has_account s' u"
proof -
  have i: "dget (id_accounts s) u = None" "\<not> actor_claimed a s" "user_account_ok (new_account u a d now)"
    and s': "s' = s\<lparr>id_accounts := dset u (new_account u a d now) (id_accounts s)\<rparr>"
    using assms(2) unfolding insert_account_ok put_account_def by (simp_all add: new_account_def)
  have "ua_actor b \<noteq> a" if "dget (id_accounts s) j = Some b" for j b
    using i(2) dget_in_dvals [OF that] by (auto simp: actor_claimed_def list_ex_iff)
  then show "directory_inv E s'"
    unfolding s' using assms(1) i(3)
    by (intro set_account_inv) (auto simp: account_filed_def new_account_def)
  show "has_account s' u" by (simp add: s' has_account_def)
qed

lemma update_account_inv:
  assumes "directory_inv E s" "dget (id_accounts s) u = Some a" "user_account_ok b"
    "ua_user_id b = ua_user_id a" "ua_actor b = ua_actor a"
  shows "directory_inv E (s\<lparr>id_accounts := dset u b (id_accounts s)\<rparr>)"
  using assms(1)
proof (rule set_account_inv)
  have acc: "accounts_inv s" using assms(1) by (simp add: directory_inv_def)
  then show "account_filed u b" using assms(2-4) by (auto simp: accounts_inv_def account_filed_def)
  show "j = u" if "dget (id_accounts s) j = Some c" "ua_actor c = ua_actor b" for j c
    using acc that assms(2,5) unfolding accounts_inv_def by metis
qed

lemma set_role_inv:
  assumes "directory_inv E s" "role_key r = k" "role_assignment_ok r" "has_account s (ra_user_id r)"
  shows "directory_inv E (s\<lparr>id_roles := dset k r (id_roles s)\<rparr>)"
proof -
  let ?s = "s\<lparr>id_roles := dset k r (id_roles s)\<rparr>"
  have "roles_inv ?s"
    using assms by (auto simp: directory_inv_def roles_inv_def role_filed_def has_account_def)
  then show ?thesis using assms(1) by (simp add: directory_inv_def inv_frames [of ?s s])
qed

lemma upsert_role_inv:
  assumes "directory_inv E s" "has_account s u" "upsert_role u t e role by_id now s = (s', Inr x)"
  shows "directory_inv E s'"
  using assms set_role_inv [of E s "upserted s u t e role by_id now"]
  by (simp add: upsert_role_ok put_role_def)

lemma drop_role_inv:
  assumes "directory_inv E s"
  shows "directory_inv E (s\<lparr>id_roles := ddel k (id_roles s)\<rparr>)"
proof -
  let ?s = "s\<lparr>id_roles := ddel k (id_roles s)\<rparr>"
  have "roles_inv ?s"
    using assms by (auto simp: directory_inv_def roles_inv_def role_filed_def has_account_def)
  then show ?thesis using assms by (simp add: directory_inv_def inv_frames [of ?s s])
qed

lemma binding_key_of_None:
  assumes "bindings_inv E s"
  shows "binding_key_of u t e s = None \<longleftrightarrow>
     (\<forall>k b. dget (id_bindings s) k = Some b \<longrightarrow> binding_owner b \<noteq> (u, t, e))"
proof -
  have "(\<forall>kb \<in> set (id_bindings s). \<not> (case kb of ((_, t', e', _), b) \<Rightarrow> xi_user_id b = u \<and> t' = t \<and> e' = e))
      \<longleftrightarrow> (\<forall>k b. dget (id_bindings s) k = Some b \<longrightarrow> binding_owner b \<noteq> (u, t, e))"
    using assms mem_dget [of "id_bindings s"]
    by (fastforce simp: bindings_inv_def binding_filed_def subject_key_def binding_owner_def)
  then show ?thesis by (auto simp: binding_key_of_def find_None_iff)
qed

lemma binding_key_of_Some:
  assumes "bindings_inv E s" "binding_key_of u t e s = Some k"
  obtains b where "dget (id_bindings s) k = Some b" "binding_owner b = (u, t, e)"
proof -
  from assms(2) obtain p q b where m: "((p, t, e, q), b) \<in> set (id_bindings s)"
    "k = (p, t, e, q)" "xi_user_id b = u"
    by (auto simp: binding_key_of_def find_Some_iff) (metis nth_mem)
  have d: "dget (id_bindings s) k = Some b"
    using m mem_dget [OF bindings_invD(1) [OF assms(1)]] by simp
  then have "binding_filed E s k b" by (rule bindings_invD(2) [OF assms(1)])
  with d m that show thesis by (auto simp: binding_filed_def subject_key_def binding_owner_def)
qed

lemma bind_subject_inv:
  assumes "directory_inv E s" "has_account s u" "bind_subject E u t e sub now s = (s', Inr x)"
  shows "directory_inv E s'"
proof -
  let ?b = "new_binding u t e sub now" and ?k = "subject_key E SRC_FEISHU t e sub"
  have b: "dget (id_bindings s) ?k = None" "binding_key_of u t e s = None" "external_identity_ok ?b"
    and s': "s' = s\<lparr>id_bindings := dset ?k ?b (id_bindings s)\<rparr>"
    using assms(3) unfolding bind_subject_ok put_binding_def by simp_all
  have inv: "bindings_inv E s" using assms(1) by (simp add: directory_inv_def)
  have none: "binding_owner c \<noteq> (u, t, e)" if "dget (id_bindings s) j = Some c" for j c
    using b(2) that binding_key_of_None [OF inv] by blast
  have "binding_owner ?b = (u, t, e)" by (simp add: binding_owner_def)
  moreover have "binding_filed E s' ?k ?b"
    using b(3) assms(2) by (simp add: binding_filed_def has_account_def s')
  moreover have "binding_filed E s' j c" if "dget (id_bindings s) j = Some c" for j c
    using bindings_invD(2) [OF inv that] by (simp add: binding_filed_def has_account_def s')
  moreover have "j = i" if "dget (id_bindings s) j = Some c" "dget (id_bindings s) i = Some d"
    "binding_owner c = binding_owner d" for j i c d
    using bindings_invD(3) [OF inv that] .
  ultimately have "bindings_inv E s'"
    using none bindings_invD(1) [OF inv]
    by (intro bindings_invI) (auto simp: s' split: if_splits)
  then show ?thesis
    using assms(1) inv_frames [of s' s] by (simp add: directory_inv_def s')
qed

lemma drop_binding_inv:
  assumes "directory_inv E s"
  shows "directory_inv E (s\<lparr>id_bindings := ddel k (id_bindings s)\<rparr>)"
proof -
  let ?s = "s\<lparr>id_bindings := ddel k (id_bindings s)\<rparr>"
  have "bindings_inv E ?s"
    using assms by (auto simp: directory_inv_def bindings_inv_def binding_filed_def has_account_def)
  then show ?thesis using assms by (simp add: directory_inv_def inv_frames [of ?s s])
qed

lemma appended_trail:
  assumes "trail_inv E s" "appended E s e s'"
  shows "trail_inv E s'"
proof -
  have f: "dget (id_stages s) (event_slot e) = None" "dget (id_events s) (av_event_id e) = None"
    "event_filed E (av_event_id e) e"
    using assms(2) by (simp_all add: appended_def)
  then have s': "id_events s' = dset (av_event_id e) e (id_events s)"
    "id_stages s' = dset (event_slot e) (av_event_id e) (id_stages s)"
    using assms(2) by (simp_all add: appended_def dset_fresh)
  show ?thesis
    using assms(1) f indexed_insert [of "id_events s" "id_stages s" event_slot] unfolding trail_inv_def s'
    by auto
qed

lemma appended_inv:
  assumes "directory_inv E s" "appended E s e s'"
  shows "directory_inv E s'"
proof -
  have "id_accounts s' = id_accounts s" "id_roles s' = id_roles s" "id_bindings s' = id_bindings s"
    "id_activations s' = id_activations s" "id_local_admin s' = id_local_admin s"
    using assms(2) by (simp_all add: appended_def)
  moreover have "trail_inv E s'" using assms by (auto simp: directory_inv_def intro: appended_trail)
  ultimately show ?thesis
    using assms(1) inv_frames(1-3,5-6) [of s' s] by (simp add: directory_inv_def)
qed

lemma set_admin_inv:
  assumes "directory_inv E s" "local_admin_record_ok r" "opt_all (has_account s) (la_user_id r)"
  shows "directory_inv E (s\<lparr>id_local_admin := Some r\<rparr>)"
proof -
  let ?s = "s\<lparr>id_local_admin := Some r\<rparr>"
  have "admin_inv ?s" using assms by (simp add: admin_inv_def has_account_frame [of ?s s])
  then show ?thesis using assms by (simp add: directory_inv_def inv_frames [of ?s s])
qed

text \<open>A request that leaves \<open>PENDING\<close>.\<close>

lemma close_request_inv:
  assumes "directory_inv E s" "dget (id_activations s) k = Some r" "activation_request_ok q"
    "aq_request_id q = aq_request_id r" "\<not> is_pending q"
  shows "directory_inv E (s\<lparr>id_activations := dset k q (id_activations s)\<rparr>)"
proof -
  let ?s = "s\<lparr>id_activations := dset k q (id_activations s)\<rparr>"
  have "requests_inv s" using assms(1) by (simp add: directory_inv_def)
  then have "requests_inv ?s"
    using assms(2-5) dcount_dset_not [of is_pending q k "id_activations s"]
    unfolding requests_inv_def pending_count_dcount by (auto split: if_splits)
  then show ?thesis using assms(1) by (simp add: directory_inv_def inv_frames [of ?s s])
qed

lemma drop_request_inv:
  assumes "directory_inv E s"
  shows "directory_inv E (s\<lparr>id_activations := ddel k (id_activations s)\<rparr>)"
proof -
  let ?s = "s\<lparr>id_activations := ddel k (id_activations s)\<rparr>"
  have "requests_inv s" using assms(1) by (simp add: directory_inv_def)
  then have "requests_inv ?s"
    using dcount_ddel [of is_pending k "id_activations s"]
    unfolding requests_inv_def pending_count_dcount by (auto split: if_splits)
  then show ?thesis using assms(1) by (simp add: directory_inv_def inv_frames [of ?s s])
qed

lemma open_request_inv:
  assumes "directory_inv E s" "dget (id_activations s) (aq_request_id r) = None" "activation_request_ok r"
    and fresh: "\<And>j q. dget (id_activations s) j = Some q \<Longrightarrow> is_pending q \<Longrightarrow> request_subject q \<noteq> request_subject r"
    and room: "pending_count s < MAX_PENDING_ACTIVATIONS"
  shows "directory_inv E (put_activation r s)"
proof -
  let ?s = "put_activation r s"
  have "requests_inv s" using assms(1) by (simp add: directory_inv_def)
  then have "requests_inv ?s"
    using assms(2-5) dcount_dset [of is_pending "aq_request_id r" r "id_activations s"]
    unfolding requests_inv_def pending_count_dcount put_activation_def
    by (auto split: if_splits) metis+
  then show ?thesis
    using assms(1) inv_frames [of ?s s] by (simp add: directory_inv_def put_activation_def)
qed

end
