(* ===== verification/Identity_Handlers.thy ===== *)
theory Identity_Handlers
  imports Identity_Invariants
begin

text \<open>
  What a successful directory command does: it keeps the invariant, appends its events to the trail
  and changes no role, no status and no request without recording it.
\<close>

subsection \<open>Recorded changes\<close>

definition about_user :: "py_env \<Rightarrow> string \<Rightarrow> audit_event \<Rightarrow> bool" where
  "about_user E u e \<longleftrightarrow> ac_target_kind e = TGT_USER
     \<and> ac_target_ref_digest e = admin_audit_target_digest E TGT_USER u"

text \<open>An approved activation names the request as its target, any other event the account.\<close>

definition concerns :: "py_env \<Rightarrow> string \<Rightarrow> audit_event \<Rightarrow> bool" where
  "concerns E u e \<longleftrightarrow> ac_outcome e = AO_SUCCEEDED
     \<and> (about_user E u e \<or> ac_action e = AA_ACTIVATION_APPROVED)"

fun records_role :: "py_env \<Rightarrow> string \<times> string \<times> string \<Rightarrow> product_role \<Rightarrow> audit_event \<Rightarrow> bool" where
  "records_role E (u, t, n) role e \<longleftrightarrow> concerns E u e \<and> ac_tenant_id e = t \<and> ac_environment_id e = n
     \<and> ae_role (ac_effect e) = Some role"

definition records_status :: "py_env \<Rightarrow> string \<Rightarrow> user_status \<Rightarrow> audit_event \<Rightarrow> bool" where
  "records_status E u status e \<longleftrightarrow> concerns E u e \<and> ae_status (ac_effect e) = Some status"

definition role_at :: "identity_state \<Rightarrow> string \<times> string \<times> string \<Rightarrow> product_role option" where
  "role_at s k = map_option ra_role (dget (id_roles s) k)"

definition status_at :: "identity_state \<Rightarrow> string \<Rightarrow> user_status option" where
  "status_at s u = map_option ua_status (dget (id_accounts s) u)"

definition roles_recorded :: "py_env \<Rightarrow> identity_state \<Rightarrow> audit_event list \<Rightarrow> identity_state \<Rightarrow> bool" where
  "roles_recorded E s evs s' \<longleftrightarrow> (\<forall>k role. role_at s' k = Some role \<longrightarrow>
     role_at s k = Some role \<or> (\<exists>e \<in> set evs. records_role E k role e))"

definition statuses_recorded :: "py_env \<Rightarrow> identity_state \<Rightarrow> audit_event list \<Rightarrow> identity_state \<Rightarrow> bool" where
  "statuses_recorded E s evs s' \<longleftrightarrow> (\<forall>u status. status_at s' u = Some status \<longrightarrow>
     status_at s u = Some status \<or> (\<exists>e \<in> set evs. records_status E u status e))"

text \<open>A request is left alone, or leaves \<open>PENDING\<close> with its decision fields.\<close>

definition undecided :: "activation_request \<Rightarrow> activation_request" where
  "undecided r = r\<lparr>aq_status := ACT_PENDING, aq_decided_at := None, aq_decided_by := None,
     aq_approved_role := None\<rparr>"

definition request_step :: "activation_request \<Rightarrow> activation_request \<Rightarrow> bool" where
  "request_step r q \<longleftrightarrow> q = r \<or> (aq_status r = ACT_PENDING \<and> aq_status q \<noteq> ACT_PENDING
     \<and> undecided q = undecided r)"

definition requests_step :: "identity_state \<Rightarrow> identity_state \<Rightarrow> bool" where
  "requests_step s s' \<longleftrightarrow>
     (\<forall>k. (dget (id_activations s) k = None \<longleftrightarrow> dget (id_activations s') k = None)
        \<and> (\<forall>r q. dget (id_activations s) k = Some r \<longrightarrow> dget (id_activations s') k = Some q \<longrightarrow>
             request_step r q))"

definition same_sessions :: "identity_state \<Rightarrow> identity_state \<Rightarrow> bool" where
  "same_sessions s s' \<longleftrightarrow> id_sessions s' = id_sessions s \<and> id_oauth_states s' = id_oauth_states s
     \<and> id_login_contexts s' = id_login_contexts s \<and> id_test_contexts s' = id_test_contexts s"

definition directory_change :: "py_env \<Rightarrow> identity_state \<Rightarrow> audit_event list \<Rightarrow> identity_state \<Rightarrow> bool" where
  "directory_change E s evs s' \<longleftrightarrow> roles_recorded E s evs s' \<and> statuses_recorded E s evs s'
     \<and> requests_step s s' \<and> same_sessions s s' \<and> (\<forall>u. has_account s u \<longrightarrow> has_account s' u)"

definition trail_grows :: "identity_state \<Rightarrow> audit_event list \<Rightarrow> identity_state \<Rightarrow> bool" where
  "trail_grows s evs s' \<longleftrightarrow> id_events s' = id_events s @ map (\<lambda>e. (av_event_id e, e)) evs"

definition directory_effect :: "py_env \<Rightarrow> identity_state \<Rightarrow> audit_event list \<Rightarrow> identity_state \<Rightarrow> bool" where
  "directory_effect E s evs s' \<longleftrightarrow> directory_change E s evs s' \<and> trail_grows s evs s'"

lemma request_step_refl [simp]: "request_step r r"
  by (simp add: request_step_def)

lemma requests_step_refl [simp]: "requests_step s s"
  by (simp add: requests_step_def)

lemma requests_step_frame: "id_activations s' = id_activations s \<Longrightarrow> requests_step s s'"
  by (simp add: requests_step_def)

lemma directory_effect_refl [simp]: "directory_effect E s [] s"
  by (auto simp: directory_effect_def directory_change_def roles_recorded_def statuses_recorded_def
      same_sessions_def trail_grows_def)

text \<open>A change without events, then the event that records it.\<close>

lemma recorded_effect:
  assumes "directory_change E s [e] s1" "id_events s1 = id_events s" "appended E s1 e s'"
  shows "directory_effect E s [e] s'"
proof -
  have "id_roles s' = id_roles s1" "id_accounts s' = id_accounts s1" "id_activations s' = id_activations s1"
    "same_sessions s1 s'" "id_events s' = id_events s1 @ [(av_event_id e, e)]"
    using assms(3) by (simp_all add: appended_def same_sessions_def)
  then show ?thesis
    using assms(1,2)
    by (simp add: directory_effect_def directory_change_def roles_recorded_def statuses_recorded_def
        role_at_def status_at_def requests_step_def same_sessions_def has_account_def trail_grows_def)
qed

lemma request_step_trans: "request_step r q \<Longrightarrow> request_step q p \<Longrightarrow> request_step r p"
  by (auto simp: request_step_def)

lemma requests_step_trans: "requests_step s t \<Longrightarrow> requests_step t u \<Longrightarrow> requests_step s u"
  unfolding requests_step_def
proof (intro allI conjI impI)
  fix k
  assume st: "\<forall>k. (dget (id_activations s) k = None) = (dget (id_activations t) k = None)
      \<and> (\<forall>r q. dget (id_activations s) k = Some r \<longrightarrow> dget (id_activations t) k = Some q \<longrightarrow> request_step r q)"
    and tu: "\<forall>k. (dget (id_activations t) k = None) = (dget (id_activations u) k = None)
      \<and> (\<forall>r q. dget (id_activations t) k = Some r \<longrightarrow> dget (id_activations u) k = Some q \<longrightarrow> request_step r q)"
  show "(dget (id_activations s) k = None) = (dget (id_activations u) k = None)" using st tu by simp
  fix r p assume r: "dget (id_activations s) k = Some r" and p: "dget (id_activations u) k = Some p"
  with st obtain q where "dget (id_activations t) k = Some q" by (metis not_None_eq option.distinct(1))
  with r p st tu show "request_step r p" using request_step_trans by blast
qed

lemma directory_effect_trans:
  assumes "directory_effect E s evs t" "directory_effect E t evs' u"
  shows "directory_effect E s (evs @ evs') u"
proof -
  have "roles_recorded E s (evs @ evs') u" "statuses_recorded E s (evs @ evs') u"
    using assms unfolding directory_effect_def directory_change_def roles_recorded_def
      statuses_recorded_def by (metis UnI1 UnI2 set_append)+
  then show ?thesis
    using assms requests_step_trans [of s t u]
    by (auto simp: directory_effect_def directory_change_def same_sessions_def trail_grows_def)
qed

subsection \<open>The handlers\<close>

lemma records_concerns:
  "records E command oc ref entry e \<Longrightarrow> audit_target command ref = (TGT_USER, ref) \<Longrightarrow> concerns E ref e"
  by (simp add: records_def concerns_def about_user_def)

lemma records_effect:
  assumes "records E command oc ref entry e"
  shows "ac_effect e = projr (EFFECT_FOR_COMMAND command entry)"
    and "ac_tenant_id e = fst (command_scope command)" "ac_environment_id e = snd (command_scope command)"
  using assms by (simp_all add: records_def) (metis fst_conv snd_conv)+

text \<open>What the writes change of the roles, the statuses and the rest.\<close>

lemma put_facts [simp]:
  "role_at (put_account a s) = role_at s" "status_at (put_role r s) = status_at s"
  "role_at (put_binding E b s) = role_at s" "status_at (put_binding E b s) = status_at s"
  "role_at (put_role r s) k = (if k = role_key r then Some (ra_role r) else role_at s k)"
  "status_at (put_account a s) u = (if u = ua_user_id a then Some (ua_status a) else status_at s u)"
  "id_activations (put_account a s) = id_activations s" "id_activations (put_role r s) = id_activations s"
  "id_activations (put_binding E b s) = id_activations s"
  "id_events (put_account a s) = id_events s" "id_events (put_role r s) = id_events s"
  "id_events (put_binding E b s) = id_events s"
  "same_sessions s0 (put_account a s) = same_sessions s0 s" "same_sessions s0 (put_role r s) = same_sessions s0 s"
  "same_sessions s0 (put_binding E b s) = same_sessions s0 s"
  "has_account (put_account a s) u = (u = ua_user_id a \<or> has_account s u)"
  "has_account (put_role r s) = has_account s" "has_account (put_binding E b s) = has_account s"
  by (auto simp: role_at_def status_at_def put_account_def put_role_def put_binding_def
      same_sessions_def has_account_def fun_eq_iff)

lemma admin_frame [simp]:
  "role_at (s\<lparr>id_local_admin := r\<rparr>) = role_at s" "status_at (s\<lparr>id_local_admin := r\<rparr>) = status_at s"
  "has_account (s\<lparr>id_local_admin := r\<rparr>) = has_account s"
  "same_sessions s0 (s\<lparr>id_local_admin := r\<rparr>) = same_sessions s0 s"
  by (simp_all add: role_at_def status_at_def has_account_def same_sessions_def fun_eq_iff)

lemma same_sessions_refl [simp]: "same_sessions s s"
  by (simp add: same_sessions_def)

lemma new_account_fields [simp]:
  "ua_user_id (new_account u a d now) = u" "ua_status (new_account u a d now) = US_ACTIVE"
  "ua_actor (new_account u a d now) = a"
  by (simp_all add: new_account_def)

lemma directory_changeI:
  assumes "\<And>k role. role_at s' k = Some role \<Longrightarrow> role_at s k = Some role \<or> records_role E k role e"
    and "\<And>u status. status_at s' u = Some status \<Longrightarrow> status_at s u = Some status \<or> records_status E u status e"
    and "requests_step s s'" "same_sessions s s'" "\<And>u. has_account s u \<Longrightarrow> has_account s' u"
  shows "directory_change E s [e] s'"
  using assms by (simp add: directory_change_def roles_recorded_def statuses_recorded_def)

definition directory_done :: "py_env \<Rightarrow> identity_state \<Rightarrow> audit_event list \<Rightarrow> identity_state \<Rightarrow> bool" where
  "directory_done E s evs s' \<longleftrightarrow> directory_inv E s' \<and> directory_effect E s evs s'"

lemma directory_doneI:
  assumes "directory_inv E s1" "directory_change E s [e] s1" "id_events s1 = id_events s" "appended E s1 e s'"
  shows "directory_done E s [e] s'"
  using assms appended_inv recorded_effect by (auto simp: directory_done_def)

lemma create_user_done:
  assumes inv: "directory_inv E s" and run: "create_user E c oc now s = (s', Inr evs)"
  shows "directory_done E s evs s'"
proof -
  obtain s1 s2 where a: "insert_account (dc_user_id c) (cu_actor c) (cu_display_name c) now s = (s1, Inr ())"
    and r: "upsert_role (dc_user_id c) (dc_tenant_id c) (dc_environment_id c) (cu_role c)
        (oc_actor_user_id oc) now s1 = (s2, Inr ())"
    and ev: "one_event E (CreateUser c) oc (dc_user_id c) now s2 = (s', Inr evs)"
    using run by (auto simp: create_user_def dir_ok_simps)
  obtain e where e: "evs = [e]" "appended E s2 e s'" "records E (CreateUser c) oc (dc_user_id c) None e"
    using one_event_ok [OF ev] .
  have "directory_inv E s2"
    using upsert_role_inv [OF _ _ r] insert_account_inv [OF inv a] .
  moreover have "directory_change E s [e] s2"
    using a r records_concerns [OF e(3)] records_effect [OF e(3)]
    by (intro directory_changeI)
      (auto simp: insert_account_ok upsert_role_ok records_status_def requests_step_frame split: if_splits)
  moreover have "id_events s2 = id_events s"
    using a r by (simp add: insert_account_ok upsert_role_ok)
  ultimately show ?thesis unfolding e(1) using e(2) by (rule directory_doneI)
qed

text \<open>The common end: the facts after the writes satisfy the invariant, and one event records them.\<close>

lemma one_event_done:
  assumes ev: "one_event E command oc ref now s1 = (s', Inr evs)"
    and target: "audit_target command ref = (TGT_USER, ref)"
    and inv: "directory_inv E s1" and events: "id_events s1 = id_events s"
    and change: "\<And>e. records E command oc ref None e \<Longrightarrow> concerns E ref e \<Longrightarrow> directory_change E s [e] s1"
  shows "directory_done E s evs s'"
proof -
  obtain e where e: "evs = [e]" "appended E s1 e s'" "records E command oc ref None e"
    using one_event_ok [OF ev] .
  show ?thesis
    unfolding e(1) using inv change [OF e(3) records_concerns [OF e(3) target]] events e(2)
    by (rule directory_doneI)
qed

lemma status_write_inv:
  "directory_inv E s \<Longrightarrow> dget (id_accounts s) u = Some a \<Longrightarrow> user_account_ok (with_status status now a) \<Longrightarrow>
     directory_inv E (s\<lparr>id_accounts := dset u (with_status status now a) (id_accounts s)\<rparr>)"
  by (erule update_account_inv) (simp_all add: with_status_def)

lemma status_write_change:
  "records_status E u status e \<Longrightarrow>
     directory_change E s [e] (s\<lparr>id_accounts := dset u (with_status status now a) (id_accounts s)\<rparr>)"
  by (intro directory_changeI) (auto simp: role_at_def status_at_def requests_step_def
      same_sessions_def has_account_def with_status_def split: if_splits)

lemma role_write_change:
  "records_role E k (ra_role r) e \<Longrightarrow> directory_change E s [e] (s\<lparr>id_roles := dset k r (id_roles s)\<rparr>)"
  by (intro directory_changeI) (auto simp: role_at_def status_at_def requests_step_def
      same_sessions_def has_account_def split: if_splits)

lemma drop_role_change: "directory_change E s [e] (s\<lparr>id_roles := ddel k (id_roles s)\<rparr>)"
  by (intro directory_changeI) (auto simp: role_at_def status_at_def requests_step_def
      same_sessions_def has_account_def split: if_splits)

lemma bindings_write_change: "directory_change E s [e] (s\<lparr>id_bindings := d\<rparr>)"
  by (intro directory_changeI) (auto simp: role_at_def status_at_def requests_step_def
      same_sessions_def has_account_def)

lemma requests_write_change:
  assumes "dget (id_activations s) k = Some r" "request_step r q"
  shows "directory_change E s [e] (s\<lparr>id_activations := dset k q (id_activations s)\<rparr>)"
  using assms by (intro directory_changeI) (auto simp: role_at_def status_at_def requests_step_def
      same_sessions_def has_account_def split: if_splits)

lemma set_status_done:
  assumes inv: "directory_inv E s" and run: "set_status E c oc now s = (s', Inr evs)"
  shows "directory_done E s evs s'"
proof -
  obtain a where a: "dget (id_accounts s) (dc_user_id c) = Some a"
    "user_account_ok (with_status (ss_status c) now a)"
    and ev: "one_event E (SetUserStatus c) oc (dc_user_id c) now
        (s\<lparr>id_accounts := dset (dc_user_id c) (with_status (ss_status c) now a) (id_accounts s)\<rparr>)
      = (s', Inr evs)"
    using run by (auto simp: set_status_def dir_ok_simps require_account_ok)
  show ?thesis
    by (rule one_event_done [OF ev _ status_write_inv [OF inv a]])
      (auto intro: status_write_change simp: records_status_def records_effect)
qed

lemma assign_role_done:
  assumes inv: "directory_inv E s" and run: "assign_role E c oc now s = (s', Inr evs)"
  shows "directory_done E s evs s'"
proof -
  obtain a s1 where a: "dget (id_accounts s) (dc_user_id c) = Some a"
    and up: "upsert_role (dc_user_id c) (dc_tenant_id c) (dc_environment_id c) (ar_role c)
        (oc_actor_user_id oc) now s = (s1, Inr ())"
    and ev: "one_event E (AssignRole c) oc (dc_user_id c) now s1 = (s', Inr evs)"
    using run by (auto simp: assign_role_def dir_ok_simps require_account_ok)
  have "directory_inv E s1" using a by (intro upsert_role_inv [OF inv _ up]) (simp add: has_account_def)
  then show ?thesis
    using up by (intro one_event_done [OF ev])
      (auto intro!: role_write_change simp: upsert_role_ok put_role_def records_effect)
qed

lemma revoke_role_done:
  assumes inv: "directory_inv E s" and run: "revoke_role E c oc now s = (s', Inr evs)"
  shows "directory_done E s evs s'"
proof -
  let ?k = "(dc_user_id c, dc_tenant_id c, dc_environment_id c)"
  have ev: "one_event E (RevokeRole c) oc (dc_user_id c) now (s\<lparr>id_roles := ddel ?k (id_roles s)\<rparr>)
      = (s', Inr evs)"
    using run by (auto simp: revoke_role_def Let_def dir_ok_simps require_account_ok)
  show ?thesis
    by (rule one_event_done [OF ev _ drop_role_inv [OF inv]]) (simp_all add: drop_role_change)
qed

lemma bind_identity_done:
  assumes inv: "directory_inv E s" and run: "bind_identity E c oc now s = (s', Inr evs)"
  shows "directory_done E s evs s'"
proof -
  obtain a s1 where a: "dget (id_accounts s) (dc_user_id c) = Some a"
    and b: "bind_subject E (dc_user_id c) (dc_tenant_id c) (dc_environment_id c) (bi_subject_ref c) now s
        = (s1, Inr ())"
    and ev: "one_event E (BindExternalIdentity c) oc (dc_user_id c) now s1 = (s', Inr evs)"
    using run by (auto simp: bind_identity_def dir_ok_simps require_account_ok)
  have "directory_inv E s1" using a by (intro bind_subject_inv [OF inv _ b]) (simp add: has_account_def)
  then show ?thesis
    using b by (intro one_event_done [OF ev])
      (auto intro!: bindings_write_change simp: bind_subject_ok put_binding_def)
qed

lemma unbind_identity_done:
  assumes inv: "directory_inv E s" and run: "unbind_identity E c oc now s = (s', Inr evs)"
  shows "directory_done E s evs s'"
proof -
  obtain k where ev: "one_event E (UnbindExternalIdentity c) oc (dc_user_id c) now
      (s\<lparr>id_bindings := ddel k (id_bindings s)\<rparr>) = (s', Inr evs)"
    using run by (auto simp: unbind_identity_def dir_ok_simps require_account_ok split: option.splits)
  show ?thesis
    by (rule one_event_done [OF ev _ drop_binding_inv [OF inv]]) (simp_all add: bindings_write_change)
qed

lemma set_managed_status_done:
  assumes inv: "directory_inv E s" and run: "set_managed_status E c oc now s = (s', Inr evs)"
  shows "directory_done E s evs s'"
proof -
  obtain a where a: "dget (id_accounts s) (dc_user_id c) = Some a"
    "user_account_ok (with_status (ms_status c) now a)"
    and ev: "one_event E (SetManagedUserStatus c) oc (dc_user_id c) now
        (s\<lparr>id_accounts := dset (dc_user_id c) (with_status (ms_status c) now a) (id_accounts s)\<rparr>)
      = (s', Inr evs)"
    using run by (auto simp: set_managed_status_def dir_ok_simps require_admin_ok managed_target_ok
        split: prod.splits)
  show ?thesis
    by (rule one_event_done [OF ev _ status_write_inv [OF inv a]])
      (auto intro: status_write_change simp: records_status_def records_effect)
qed

lemma change_managed_role_done:
  assumes inv: "directory_inv E s" and run: "change_managed_role E c oc now s = (s', Inr evs)"
  shows "directory_done E s evs s'"
proof -
  let ?k = "(dc_user_id c, dc_tenant_id c, dc_environment_id c)"
  obtain q where q: "dget (id_roles s) ?k = Some q"
    "role_assignment_ok (q\<lparr>ra_role := mr_role c, ra_updated_at := now\<rparr>)"
    and ev: "one_event E (ChangeManagedUserRole c) oc (dc_user_id c) now
        (s\<lparr>id_roles := dset ?k (q\<lparr>ra_role := mr_role c, ra_updated_at := now\<rparr>) (id_roles s)\<rparr>)
      = (s', Inr evs)"
    using run by (auto simp: change_managed_role_def dir_ok_simps require_admin_ok managed_target_ok
        split: prod.splits)
  have "role_filed s ?k q" using inv q(1) unfolding directory_inv_def roles_inv_def by blast
  then have "directory_inv E (s\<lparr>id_roles := dset ?k (q\<lparr>ra_role := mr_role c, ra_updated_at := now\<rparr>) (id_roles s)\<rparr>)"
    using q by (intro set_role_inv [OF inv]) (auto simp: role_filed_def role_key_def)
  then show ?thesis
    by (rule one_event_done [OF ev, rotated]) (auto intro!: role_write_change simp: records_effect)
qed

lemma bootstrap_done:
  assumes inv: "directory_inv E s" and run: "bootstrap E c oc now s = (s', Inr evs)"
  shows "directory_done E s evs s'"
proof (cases "Option.bind (id_local_admin s) la_user_id")
  case (Some u)
  then show ?thesis using run inv by (auto simp: bootstrap_def dir_ok_simps directory_done_def)
next
  case None
  define rec where "rec = \<lparr>la_password_hash = (case id_local_admin s of None \<Rightarrow> bs_password_hash c
      | Some r \<Rightarrow> la_password_hash r),
    la_must_change_password = (case id_local_admin s of None \<Rightarrow> True | Some r \<Rightarrow> la_must_change_password r),
    la_user_id = Some (dc_user_id c)\<rparr>"
  obtain s1 s2 where a: "insert_account (dc_user_id c) (bs_actor c) (bs_display_name c) now s = (s1, Inr ())"
    and r: "upsert_role (dc_user_id c) (dc_tenant_id c) (dc_environment_id c) ROLE_ADMIN
        (oc_actor_user_id oc) now s1 = (s2, Inr ())"
    and rec: "local_admin_record_ok rec"
    and ev: "one_event E (BootstrapLocalAdmin c) oc (dc_user_id c) now (s2\<lparr>id_local_admin := Some rec\<rparr>)
      = (s', Inr evs)"
    using run None by (auto simp: bootstrap_def dir_ok_simps rec_def)
  have i2: "directory_inv E s2" using upsert_role_inv [OF _ _ r] insert_account_inv [OF inv a] .
  have h: "has_account s2 (dc_user_id c)" using a r by (simp add: insert_account_ok upsert_role_ok)
  show ?thesis
  proof (rule one_event_done [OF ev])
    show "directory_inv E (s2\<lparr>id_local_admin := Some rec\<rparr>)"
      using rec h by (intro set_admin_inv [OF i2]) (simp_all add: rec_def)
    show "id_events (s2\<lparr>id_local_admin := Some rec\<rparr>) = id_events s"
      using a r by (simp add: insert_account_ok upsert_role_ok)
    fix e assume e: "records E (BootstrapLocalAdmin c) oc (dc_user_id c) None e" "concerns E (dc_user_id c) e"
    show "directory_change E s [e] (s2\<lparr>id_local_admin := Some rec\<rparr>)"
      using a r e(2) records_effect [OF e(1)]
      by (intro directory_changeI)
        (auto simp: insert_account_ok upsert_role_ok records_status_def requests_step_frame
          split: if_splits)
  qed simp
qed

text \<open>One entry of a migration, then the batch.\<close>

lemma migrate_entry_done:
  assumes inv: "directory_inv E s"
    and a: "insert_account u (me_actor entry) (me_display_name entry) now s = (s1, Inr ())"
    and r: "upsert_role u (mg_tenant_id c) (mg_environment_id c) (me_role entry) by_id now s1 = (s2, Inr ())"
    and b: "bind_subject E u (mg_tenant_id c) (mg_environment_id c) sub now s2 = (s3, Inr ())"
    and w: "write_audit E (MigrateLegacyIdentities c) oc u oid (Some entry) now s3 = (s', Inr e)"
  shows "directory_done E s [e] s'"
proof -
  note e = write_audit_ok [OF w]
  have i1: "directory_inv E s1" "has_account s1 u" using insert_account_inv [OF inv a] .
  have i2: "directory_inv E s2" using upsert_role_inv [OF i1 r] .
  have "has_account s2 u" using i1(2) r by (simp add: upsert_role_ok)
  then have i3: "directory_inv E s3" using bind_subject_inv [OF i2 _ b] by simp
  have c: "concerns E u e" using e by (intro records_concerns) auto
  have "directory_change E s [e] s3"
    using a r b c records_effect [of E "MigrateLegacyIdentities c" oc u "Some entry" e] e
    by (intro directory_changeI)
      (auto simp: insert_account_ok upsert_role_ok bind_subject_ok records_status_def
        requests_step_frame split: if_splits)
  moreover have "id_events s3 = id_events s"
    using a r b by (simp add: insert_account_ok upsert_role_ok bind_subject_ok)
  ultimately show ?thesis using i3 e directory_doneI [of E s3 s e s'] by simp
qed

lemma migrate_each_done:
  "directory_inv E s \<Longrightarrow> migrate_each E c oc now i entries s = (s', Inr evs) \<Longrightarrow> directory_done E s evs s'"
proof (induction entries arbitrary: i s evs)
  case (Cons entry entries)
  obtain s1 s2 s3 s4 e evs1 where steps:
    "insert_account (me_user_id entry) (me_actor entry) (me_display_name entry) now s = (s1, Inr ())"
    "upsert_role (me_user_id entry) (mg_tenant_id c) (mg_environment_id c) (me_role entry)
       (oc_actor_user_id oc) now s1 = (s2, Inr ())"
    "bind_subject E (me_user_id entry) (mg_tenant_id c) (mg_environment_id c) (me_subject_ref entry) now s2
       = (s3, Inr ())"
    "write_audit E (MigrateLegacyIdentities c) oc (me_user_id entry) (Some (batch_operation_id oc i))
       (Some entry) now s3 = (s4, Inr e)"
    and rest: "migrate_each E c oc now (i + 1) entries s4 = (s', Inr evs1)" "evs = e # evs1"
    using Cons.prems(2) by (auto simp: dir_ok_simps)
  have first: "directory_done E s [e] s4" using migrate_entry_done [OF Cons.prems(1) steps] .
  then have "directory_done E s4 evs1 s'" by (intro Cons.IH [OF _ rest(1)]) (simp add: directory_done_def)
  then show ?case
    using first rest(2) directory_effect_trans [of E s "[e]" s4 evs1 s'] by (simp add: directory_done_def)
qed (simp add: dir_ok_simps directory_done_def)

subsection \<open>Decisions on activation requests\<close>

lemma settle_request_done:
  assumes inv: "directory_inv E s" and r: "dget (id_activations s) k = Some r" "aq_status r = ACT_PENDING"
    and st: "status \<noteq> ACT_PENDING"
    and run: "settle_request r (decided status role oc now r) s = (s1, Inr x)"
  shows "directory_inv E s1" "requests_step s s1" "role_at s1 = role_at s" "status_at s1 = status_at s"
    "same_sessions s s1" "has_account s1 = has_account s" "id_events s1 = id_events s"
    "id_bindings s1 = id_bindings s" "id_accounts s1 = id_accounts s"
    "dget (id_activations s1) k = Some (decided status role oc now r)"
proof -
  have k: "aq_request_id r = k"
    using inv r(1) by (auto simp: directory_inv_def requests_inv_def)
  have s1: "s1 = s\<lparr>id_activations := dset k (decided status role oc now r) (id_activations s)\<rparr>"
    and ok: "activation_request_ok (decided status role oc now r)"
    using run by (simp_all add: settle_request_ok k)
  show "directory_inv E s1"
    unfolding s1 using inv r(1) ok st by (intro close_request_inv) (auto simp: decided_def is_pending_def)
  show "requests_step s s1"
    using r st by (auto simp: s1 requests_step_def request_step_def decided_def undecided_def)
  show "role_at s1 = role_at s" "status_at s1 = status_at s" "has_account s1 = has_account s"
    by (simp_all add: s1 fun_eq_iff role_at_def status_at_def has_account_def)
  show "same_sessions s s1" "id_events s1 = id_events s" "id_bindings s1 = id_bindings s"
    "id_accounts s1 = id_accounts s"
    "dget (id_activations s1) k = Some (decided status role oc now r)"
    by (simp_all add: s1 same_sessions_def)
qed

lemma reject_activation_done:
  assumes inv: "directory_inv E s" and run: "reject_activation E c oc now s = (s', Inr evs)"
  shows "directory_done E s evs s'"
proof -
  obtain r s1 where r: "may_settle c oc now s r"
    and st: "settle_request r (decided ACT_REJECTED (aq_approved_role r) oc now r) s = (s1, Inr ())"
    and ev: "one_event E (RejectActivation c) oc (aq_request_id r) now s1 = (s', Inr evs)"
    using run by (auto simp: reject_activation_def dir_ok_simps open_request_ok)
  obtain e where e: "evs = [e]" "appended E s1 e s'" using one_event_ok [OF ev] .
  have p: "dget (id_activations s) (ad_request_id c) = Some r" "aq_status r = ACT_PENDING"
    using r by (simp_all add: may_settle_def)
  note s1 = settle_request_done [OF inv p _ st, simplified]
  have "directory_change E s [e] s1" using s1 by (intro directory_changeI) simp_all
  then show ?thesis unfolding e(1) using s1 e(2) by (intro directory_doneI)
qed

text \<open>The account an approval is for exists and is active; nothing else changes.\<close>

lemma approved_account_done:
  assumes inv: "directory_inv E s" and run: "approved_account E c r now s = (s1, Inr u)"
  shows "directory_inv E s1" "status_at s1 u = Some US_ACTIVE" "role_at s1 = role_at s"
    "id_activations s1 = id_activations s" "id_bindings s1 = id_bindings s" "id_roles s1 = id_roles s"
    "same_sessions s s1" "id_events s1 = id_events s" "\<And>v. v \<noteq> u \<Longrightarrow> status_at s1 v = status_at s v"
    "\<And>v. has_account s v \<Longrightarrow> has_account s1 v" "id_local_admin s1 = id_local_admin s"
    "map_option ua_actor (dget (id_accounts s1) u) = Some (ap_actor c)"
    "\<And>v. v \<noteq> u \<Longrightarrow> dget (id_accounts s1) v = dget (id_accounts s) v"
proof -
  have "directory_inv E s1 \<and> status_at s1 u = Some US_ACTIVE \<and> role_at s1 = role_at s
    \<and> id_activations s1 = id_activations s \<and> id_bindings s1 = id_bindings s \<and> id_roles s1 = id_roles s
    \<and> same_sessions s s1 \<and> id_events s1 = id_events s \<and> (\<forall>v. v \<noteq> u \<longrightarrow> status_at s1 v = status_at s v)
    \<and> (\<forall>v. has_account s v \<longrightarrow> has_account s1 v) \<and> id_local_admin s1 = id_local_admin s
    \<and> map_option ua_actor (dget (id_accounts s1) u) = Some (ap_actor c)
    \<and> (\<forall>v. v \<noteq> u \<longrightarrow> dget (id_accounts s1) v = dget (id_accounts s) v)"
    using run
  proof (cases rule: approved_account_ok)
    case (existing a)
    have acc: "dict_ok (id_accounts s)" "\<And>k b. dget (id_accounts s) k = Some b \<Longrightarrow> ua_user_id b = k"
      using inv by (auto simp: directory_inv_def accounts_inv_def account_filed_def)
    then have "dget (id_accounts s) u = Some a" using existing set_dvals by metis
    with existing inv show ?thesis by (simp add: status_at_def)
  next
    case (filed a)
    with inv show ?thesis by (simp add: status_at_def)
  next
    case inserted
    have "directory_inv E s1" using insert_account_inv [OF inv inserted] by simp
    then show ?thesis
      using inserted by (auto simp: insert_account_ok put_account_def [of _ s, THEN arg_cong [of _ _ id_local_admin]]
          put_account_def [of _ s, THEN arg_cong [of _ _ id_bindings]]
          put_account_def [of _ s, THEN arg_cong [of _ _ id_roles]]
          put_account_def [of _ s, THEN arg_cong [of _ _ id_accounts]])
  qed
  then show "directory_inv E s1" "status_at s1 u = Some US_ACTIVE" "role_at s1 = role_at s"
    "id_activations s1 = id_activations s" "id_bindings s1 = id_bindings s" "id_roles s1 = id_roles s"
    "same_sessions s s1" "id_events s1 = id_events s" "\<And>v. v \<noteq> u \<Longrightarrow> status_at s1 v = status_at s v"
    "\<And>v. has_account s v \<Longrightarrow> has_account s1 v" "id_local_admin s1 = id_local_admin s"
    "map_option ua_actor (dget (id_accounts s1) u) = Some (ap_actor c)"
    "\<And>v. v \<noteq> u \<Longrightarrow> dget (id_accounts s1) v = dget (id_accounts s) v"
    by simp_all
qed

lemma grant_role_done:
  assumes inv: "directory_inv E s" and u: "has_account s u"
    and run: "grant_role c u oc now s = (s1, Inr x)"
  shows "directory_inv E s1" "id_accounts s1 = id_accounts s" "id_activations s1 = id_activations s"
    "id_bindings s1 = id_bindings s" "id_events s1 = id_events s" "same_sessions s s1"
    "role_at s1 (u, ad_tenant_id c, ad_environment_id c) = Some (ap_approved_role c)"
    "\<And>k. k \<noteq> (u, ad_tenant_id c, ad_environment_id c) \<Longrightarrow> role_at s1 k = role_at s k"
proof -
  let ?k = "(u, ad_tenant_id c, ad_environment_id c)"
  have "directory_inv E s1 \<and> id_accounts s1 = id_accounts s \<and> id_activations s1 = id_activations s
    \<and> id_bindings s1 = id_bindings s \<and> id_events s1 = id_events s \<and> same_sessions s s1
    \<and> role_at s1 ?k = Some (ap_approved_role c) \<and> (\<forall>k. k \<noteq> ?k \<longrightarrow> role_at s1 k = role_at s k)"
  proof (cases "dget (id_roles s) ?k")
    case None
    then have up: "upsert_role u (ad_tenant_id c) (ad_environment_id c) (ap_approved_role c)
        (oc_actor_user_id oc) now s = (s1, Inr x)"
      using run by (simp add: grant_role_ok)
    then have s1: "s1 = put_role (upserted s u (ad_tenant_id c) (ad_environment_id c) (ap_approved_role c)
        (oc_actor_user_id oc) now) s"
      by (simp add: upsert_role_ok)
    have "id_accounts s1 = id_accounts s" "id_bindings s1 = id_bindings s"
      unfolding s1 put_role_def by simp_all
    then show ?thesis using upsert_role_inv [OF inv u up] by (auto simp: s1)
  next
    case (Some a)
    then show ?thesis using run inv by (auto simp: grant_role_ok role_at_def)
  qed
  then show "directory_inv E s1" "id_accounts s1 = id_accounts s" "id_activations s1 = id_activations s"
    "id_bindings s1 = id_bindings s" "id_events s1 = id_events s" "same_sessions s s1"
    "role_at s1 ?k = Some (ap_approved_role c)" "\<And>k. k \<noteq> ?k \<Longrightarrow> role_at s1 k = role_at s k"
    by blast+
qed

lemma bind_requester_done:
  assumes inv: "directory_inv E s" and u: "has_account s u"
    and run: "bind_requester E c r u now s = (s1, Inr x)"
  shows "directory_inv E s1" "id_accounts s1 = id_accounts s" "id_activations s1 = id_activations s"
    "id_roles s1 = id_roles s" "id_events s1 = id_events s" "same_sessions s s1"
    "map_option xi_user_id (dget (id_bindings s1)
       (subject_key E SRC_FEISHU (ad_tenant_id c) (ad_environment_id c) (aq_subject_ref r))) = Some u"
proof -
  let ?k = "subject_key E SRC_FEISHU (ad_tenant_id c) (ad_environment_id c) (aq_subject_ref r)"
  have "directory_inv E s1 \<and> id_accounts s1 = id_accounts s \<and> id_activations s1 = id_activations s
    \<and> id_roles s1 = id_roles s \<and> id_events s1 = id_events s \<and> same_sessions s s1
    \<and> map_option xi_user_id (dget (id_bindings s1) ?k) = Some u"
  proof (cases "dget (id_bindings s) ?k")
    case None
    then have b: "bind_subject E u (ad_tenant_id c) (ad_environment_id c) (aq_subject_ref r) now s = (s1, Inr x)"
      using run by (simp add: bind_requester_ok)
    then have s1: "s1 = put_binding E (new_binding u (ad_tenant_id c) (ad_environment_id c) (aq_subject_ref r) now) s"
      by (simp add: bind_subject_ok)
    have "id_accounts s1 = id_accounts s" "id_roles s1 = id_roles s"
      "map_option xi_user_id (dget (id_bindings s1) ?k) = Some u"
      unfolding s1 put_binding_def by simp_all
    then show ?thesis using bind_subject_inv [OF inv u b] by (simp add: s1)
  next
    case (Some a)
    then show ?thesis using run inv by (auto simp: bind_requester_ok)
  qed
  then show "directory_inv E s1" "id_accounts s1 = id_accounts s" "id_activations s1 = id_activations s"
    "id_roles s1 = id_roles s" "id_events s1 = id_events s" "same_sessions s s1"
    "map_option xi_user_id (dget (id_bindings s1) ?k) = Some u"
    by simp_all
qed

text \<open>
  An approval, whole: an active account holds the actor, has the approved role, and the requester's
  subject is bound to it; the request is decided, and one event says so.
\<close>

definition approved ::
  "py_env \<Rightarrow> approve_command \<Rightarrow> operation_context \<Rightarrow> instant \<Rightarrow> identity_state \<Rightarrow> activation_request
     \<Rightarrow> string \<Rightarrow> identity_state \<Rightarrow> bool" where
  "approved E c oc now s r u s' \<longleftrightarrow> may_settle c oc now s r \<and> status_at s' u = Some US_ACTIVE
     \<and> map_option ua_actor (dget (id_accounts s') u) = Some (ap_actor c)
     \<and> (\<forall>v. v \<noteq> u \<longrightarrow> dget (id_accounts s') v = dget (id_accounts s) v)
     \<and> role_at s' (u, ad_tenant_id c, ad_environment_id c) = Some (ap_approved_role c)
     \<and> (\<forall>k. k \<noteq> (u, ad_tenant_id c, ad_environment_id c) \<longrightarrow> role_at s' k = role_at s k)
     \<and> map_option xi_user_id (dget (id_bindings s')
          (subject_key E SRC_FEISHU (ad_tenant_id c) (ad_environment_id c) (aq_subject_ref r))) = Some u
     \<and> dget (id_activations s') (ad_request_id c)
          = Some (decided ACT_APPROVED (Some (ap_approved_role c)) oc now r)"

lemma approve_activation_done:
  assumes inv: "directory_inv E s" and run: "approve_activation E c oc now s = (s', Inr evs)"
  shows "directory_done E s evs s'" "\<exists>r u. approved E c oc now s r u s'"
proof -
  obtain r u s1 s2 s3 s4 where r: "may_settle c oc now s r"
    and a: "approved_account E c r now s = (s1, Inr u)"
    and g: "grant_role c u oc now s1 = (s2, Inr ())"
    and b: "bind_requester E c r u now s2 = (s3, Inr ())"
    and st: "settle_request r (decided ACT_APPROVED (Some (ap_approved_role c)) oc now r) s3 = (s4, Inr ())"
    and ev: "one_event E (ApproveActivation c) oc (aq_request_id r) now s4 = (s', Inr evs)"
    using run by (auto simp: approve_activation_def dir_ok_simps open_request_ok)
  obtain e where e: "evs = [e]" "appended E s4 e s'"
    "records E (ApproveActivation c) oc (aq_request_id r) None e" using one_event_ok [OF ev] .
  note A = approved_account_done [OF inv a]
  have u1: "has_account s1 u" using A(2) by (auto simp: status_at_def has_account_def)
  note G = grant_role_done [OF A(1) u1 g]
  have u2: "has_account s2 u" using u1 G(2) has_account_frame by metis
  note B = bind_requester_done [OF G(1) u2 b]
  have p: "dget (id_activations s3) (ad_request_id c) = Some r" "aq_status r = ACT_PENDING"
    using r A(4) G(3) B(3) by (simp_all add: may_settle_def)
  note S = settle_request_done [OF B(1) p _ st, simplified]
  have roles3: "role_at s3 = role_at s2" using B(4) by (simp add: role_at_def fun_eq_iff)
  have stat3: "status_at s3 = status_at s1" using B(2) G(2) by (simp add: status_at_def fun_eq_iff)
  have c: "concerns E v e" for v using e(3) by (simp add: concerns_def records_def)
  have "requests_step s s4" using S(2) A(4) G(3) B(3) by (simp add: requests_step_def)
  moreover have "role_at s k = Some role \<or> records_role E k role e" if "role_at s4 k = Some role" for k role
    using that S(3) roles3 G(7,8) A(3) c records_effect [OF e(3)]
    by (cases "k = (u, ad_tenant_id c, ad_environment_id c)") auto
  moreover have "status_at s v = Some t \<or> records_status E v t e" if "status_at s4 v = Some t" for v t
    using that S(4) stat3 A(2,9) c records_effect [OF e(3)]
    by (cases "v = u") (auto simp: records_status_def)
  moreover have "same_sessions s s4" using A(7) G(6) B(6) S(5) by (simp add: same_sessions_def)
  moreover have "has_account s4 v" if "has_account s v" for v
    using A(10) [OF that] G(2) B(2) S(6) by (simp add: has_account_def)
  ultimately have "directory_change E s [e] s4" by (intro directory_changeI) auto
  moreover have "id_events s4 = id_events s" using A(8) G(5) B(5) S(7) by simp
  ultimately show "directory_done E s evs s'" unfolding e(1) using S(1) e(2) by (intro directory_doneI)
  have same: "id_accounts s' = id_accounts s4" "id_roles s' = id_roles s4" "id_bindings s' = id_bindings s4"
    "id_activations s' = id_activations s4"
    using e(2) by (simp_all add: appended_def)
  then have "status_at s' = status_at s1" "role_at s' = role_at s2" "id_accounts s' = id_accounts s1"
    "id_bindings s' = id_bindings s3"
    using S(3,4,8,9) roles3 stat3 B(2) G(2) by (simp_all add: status_at_def role_at_def fun_eq_iff)
  then have "approved E c oc now s r u s'"
    using r A(2,3,12,13) G(7,8) B(7) S(10) same(4) by (simp add: approved_def)
  then show "\<exists>r u. approved E c oc now s r u s'" by blast
qed

subsection \<open>Any command\<close>

lemma apply_locked_done:
  assumes "directory_inv E s" "apply_locked E command oc now s = (s', Inr evs)"
  shows "directory_done E s evs s'"
  using assms(2) create_user_done [OF assms(1)] set_status_done [OF assms(1)]
    set_managed_status_done [OF assms(1)] assign_role_done [OF assms(1)]
    change_managed_role_done [OF assms(1)] revoke_role_done [OF assms(1)]
    bind_identity_done [OF assms(1)] unbind_identity_done [OF assms(1)] bootstrap_done [OF assms(1)]
    migrate_each_done [OF assms(1)] approve_activation_done(1) [OF assms(1)]
    reject_activation_done [OF assms(1)]
  by (cases command) (simp_all add: migrate_def)

end
