(* ===== verification/Activation_Runs.thy ===== *)
theory Activation_Runs
  imports Identity_Handlers
begin

text \<open>
  The loops over activation requests as maps and filters of the table, what creating a request and
  the retention run do, and the appends of the audit store.
\<close>

subsection \<open>Expiry and retention\<close>

definition overdue :: "instant \<Rightarrow> activation_request \<Rightarrow> bool" where
  "overdue now r \<longleftrightarrow> aq_status r = ACT_PENDING \<and> aq_expires_at r \<le> now"

definition expire :: "instant \<Rightarrow> activation_request \<Rightarrow> activation_request" where
  "expire now r = (if overdue now r then r\<lparr>aq_status := ACT_EXPIRED\<rparr> else r)"

definition expire_all :: "instant \<Rightarrow> (string, activation_request) dict \<Rightarrow> (string, activation_request) dict" where
  "expire_all now d = map (\<lambda>(k, r). (k, expire now r)) d"

definition with_requests :: "(string, activation_request) dict \<Rightarrow> identity_state \<Rightarrow> identity_state" where
  "with_requests d s = s\<lparr>id_activations := d\<rparr>"

lemma with_requests_simps [simp]:
  "id_activations (with_requests d s) = d" "with_requests d (with_requests d' s) = with_requests d s"
  "with_requests (id_activations s) s = s"
  by (simp_all add: with_requests_def)

lemma dset_middle:
  "k \<notin> fst ` set pre \<Longrightarrow> dset k v (pre @ (k, r) # rest) = pre @ (k, v) # rest"
  by (induction pre) auto

lemma ddel_middle:
  "distinct (map fst (pre @ (k, r) # rest)) \<Longrightarrow> ddel k (pre @ (k, r) # rest) = pre @ rest"
proof -
  assume d: "distinct (map fst (pre @ (k, r) # rest))"
  have "filter (\<lambda>(k', _). k \<noteq> k') xs = xs" if "k \<notin> fst ` set xs" for xs :: "('a \<times> 'b) list"
    using that by (intro filter_True) force
  then show ?thesis using d by (simp add: AList.delete_eq)
qed

lemma expired_ok:
  "activation_request_ok r \<Longrightarrow> aq_status r = ACT_PENDING \<Longrightarrow> activation_request_ok (r\<lparr>aq_status := ACT_EXPIRED\<rparr>)"
  by (auto simp: activation_request_ok_def decision_fields_match_def)

lemma expire_each_run:
  assumes "id_activations s = pre @ xs" "distinct (map fst (pre @ xs))"
    "\<And>k r. (k, r) \<in> set xs \<Longrightarrow> activation_request_ok r"
  shows "expire_each now xs n s
    = (with_requests (pre @ expire_all now xs) s, Inr (n + dcount (overdue now) xs))"
  using assms
proof (induction xs arbitrary: s pre n)
  case Nil
  then show ?case by (simp add: ret_def expire_all_def dcount_def dvals_def with_requests_def)
next
  case (Cons x xs)
  obtain k r where x: "x = (k, r)" by fastforce
  show ?case
  proof (cases "overdue now r")
    case True
    let ?r = "r\<lparr>aq_status := ACT_EXPIRED\<rparr>" and ?s = "with_requests (pre @ (k, r\<lparr>aq_status := ACT_EXPIRED\<rparr>) # xs) s"
    have "activation_request_ok r" by (rule Cons.prems(3) [of k]) (simp add: x)
    then have ok: "activation_request_ok ?r" using True by (intro expired_ok) (simp_all add: overdue_def)
    have "dset k ?r (id_activations s) = pre @ (k, ?r) # xs"
      using Cons.prems(1,2) dset_middle [of k pre] by (simp add: x)
    then have "expire_each now (x # xs) n s = expire_each now xs (n + 1) ?s"
      using True ok by (simp add: x overdue_def checked_as_def revalidate_def lift_def andthen_def
          writes_def with_requests_def)
    also have "\<dots> = (with_requests ((pre @ [(k, ?r)]) @ expire_all now xs) ?s, Inr (n + 1 + dcount (overdue now) xs))"
      using Cons.prems by (intro Cons.IH) (auto simp: x)
    finally show ?thesis
      using True by (simp add: x expire_all_def expire_def dcount_def dvals_def)
  next
    case False
    have "expire_each now xs n s = (with_requests ((pre @ [x]) @ expire_all now xs) s, Inr (n + dcount (overdue now) xs))"
      using Cons.prems by (intro Cons.IH) (auto simp: x)
    moreover have "expire_each now (x # xs) n s = expire_each now xs n s"
      using False by (auto simp: x overdue_def)
    ultimately show ?thesis
      using False by (simp add: x expire_all_def expire_def dcount_def dvals_def)
  qed
qed

lemma requests_rows:
  assumes "requests_inv s"
  shows "distinct (map fst (id_activations s))"
    and "(k, r) \<in> set (id_activations s) \<Longrightarrow> activation_request_ok r \<and> aq_request_id r = k"
  using assms mem_dget [of "id_activations s" k r] by (auto simp: requests_inv_def dict_ok_def)

lemma expire_pending_run:
  assumes "requests_inv s"
  shows "expire_pending now s
    = (with_requests (expire_all now (id_activations s)) s, Inr (dcount (overdue now) (id_activations s)))"
  using expire_each_run [of s "[]" "id_activations s" now 0] requests_rows [OF assms]
  by (simp add: expire_pending_def andthen_def reads_def)

lemma dget_expire_all: "dget (expire_all now d) k = map_option (expire now) (dget d k)"
  by (induction d) (auto simp: expire_all_def)

lemma map_fst_expire_all [simp]: "map fst (expire_all now d) = map fst d"
  by (auto simp: expire_all_def)

lemma expire_fields [simp]:
  "aq_request_id (expire now r) = aq_request_id r" "request_subject (expire now r) = request_subject r"
  "is_pending (expire now r) \<longleftrightarrow> is_pending r \<and> now < aq_expires_at r"
  "aq_status r \<noteq> ACT_PENDING \<Longrightarrow> expire now r = r"
  by (auto simp: expire_def overdue_def request_subject_def is_pending_def)

lemma dcount_expire_all: "dcount is_pending (expire_all now d) \<le> dcount is_pending d"
  by (induction d) (auto simp: expire_all_def dcount_def dvals_def)

lemma expire_ok: "activation_request_ok r \<Longrightarrow> activation_request_ok (expire now r)"
  using expired_ok by (simp add: expire_def overdue_def)

lemma requests_frame_inv:
  assumes "directory_inv E s" "requests_inv (with_requests d s)"
  shows "directory_inv E (with_requests d s)"
  using assms inv_frames [of "with_requests d s" s] by (simp add: directory_inv_def with_requests_def)

lemma expire_all_inv:
  assumes "directory_inv E s"
  shows "directory_inv E (with_requests (expire_all now (id_activations s)) s)"
proof (rule requests_frame_inv [OF assms])
  have i: "requests_inv s" using assms by (simp add: directory_inv_def)
  have c: "dcount is_pending (expire_all now (id_activations s)) \<le> MAX_PENDING_ACTIVATIONS"
    using i dcount_expire_all [of now "id_activations s"]
    unfolding requests_inv_def pending_count_dcount by linarith
  show "requests_inv (with_requests (expire_all now (id_activations s)) s)"
    using i c expire_ok unfolding requests_inv_def pending_count_dcount
    by (auto simp: dget_expire_all dict_ok_def)
qed

lemma expire_all_step: "requests_step s (with_requests (expire_all now (id_activations s)) s)"
  by (auto simp: requests_step_def dget_expire_all request_step_def expire_def overdue_def undecided_def)

definition counted :: "(activation_request \<Rightarrow> bool) \<Rightarrow> activation_status \<Rightarrow> (string, activation_request) dict \<Rightarrow> nat" where
  "counted p st d = dcount (\<lambda>r. p r \<and> aq_status r = st) d"

definition add_deleted ::
  "(activation_request \<Rightarrow> bool) \<Rightarrow> (string, activation_request) dict \<Rightarrow> retention_report \<Rightarrow> retention_report" where
  "add_deleted p d q = q\<lparr>rr_approved_deleted := rr_approved_deleted q + counted p ACT_APPROVED d,
     rr_rejected_deleted := rr_rejected_deleted q + counted p ACT_REJECTED d,
     rr_expired_deleted := rr_expired_deleted q + counted p ACT_EXPIRED d\<rparr>"

lemma purge_each_run:
  assumes "id_activations s = pre @ xs" "distinct (map fst (pre @ xs))"
  shows "purge_each cutoff xs p s
    = (with_requests (pre @ filter (\<lambda>(k, r). \<not> retention_due cutoff r) xs) s,
       Inr (add_deleted (retention_due cutoff) xs p))"
  using assms
proof (induction xs arbitrary: s pre p)
  case Nil
  then show ?case by (simp add: ret_def add_deleted_def counted_def dcount_def dvals_def with_requests_def)
next
  case (Cons x xs)
  obtain k r where x: "x = (k, r)" by fastforce
  show ?case
  proof (cases "retention_due cutoff r")
    case True
    have "ddel k (id_activations s) = pre @ xs"
      using Cons.prems ddel_middle [of pre k r xs] by (simp add: x)
    then have "purge_each cutoff (x # xs) p s
        = purge_each cutoff xs (count_deleted (aq_status r) p) (with_requests (pre @ xs) s)"
      using True by (simp add: x andthen_def writes_def with_requests_def)
    also have "\<dots> = (with_requests (pre @ filter (\<lambda>(k, r). \<not> retention_due cutoff r) xs) (with_requests (pre @ xs) s),
        Inr (add_deleted (retention_due cutoff) xs (count_deleted (aq_status r) p)))"
      using Cons.prems(2) by (intro Cons.IH) (auto simp: x)
    finally show ?thesis
      using True by (cases "aq_status r") (simp_all add: x add_deleted_def counted_def dcount_def dvals_def)
  next
    case False
    have "purge_each cutoff xs p s = (with_requests ((pre @ [x]) @ filter (\<lambda>(k, r). \<not> retention_due cutoff r) xs) s,
        Inr (add_deleted (retention_due cutoff) xs p))"
      using Cons.prems by (intro Cons.IH) auto
    then show ?thesis
      using False by (simp add: x add_deleted_def counted_def dcount_def dvals_def)
  qed
qed

definition retained :: "instant \<Rightarrow> (string, activation_request) dict \<Rightarrow> (string, activation_request) dict" where
  "retained now d = filter (\<lambda>(k, r). \<not> retention_due (activation_retention_cutoff now) r) (expire_all now d)"

lemma purge_run:
  assumes "requests_inv s"
  shows "purge_expired_terminal now s
    = (with_requests (retained now (id_activations s)) s,
       Inr (add_deleted (retention_due (activation_retention_cutoff now)) (expire_all now (id_activations s))
         \<lparr>rr_pending_expired = dcount (overdue now) (id_activations s), rr_approved_deleted = 0,
          rr_rejected_deleted = 0, rr_expired_deleted = 0\<rparr>))"
  using purge_each_run [of "with_requests (expire_all now (id_activations s)) s" "[]"
      "expire_all now (id_activations s)" "activation_retention_cutoff now"] requests_rows(1) [OF assms]
  by (simp add: purge_expired_terminal_def andthen_def reads_def expire_pending_run [OF assms] retained_def)

lemma dget_filter:
  "distinct (map fst d) \<Longrightarrow>
     dget (filter (\<lambda>(k, r). p r) d) k = (case dget d k of None \<Rightarrow> None | Some r \<Rightarrow> if p r then Some r else None)"
  by (induction d) (auto split: option.splits simp: image_iff map_of_eq_None_iff)

lemma dcount_filter: "dcount q (filter (\<lambda>(k, r). p r) d) \<le> dcount q d"
  by (induction d) (auto simp: dcount_def dvals_def)

lemma dget_retained:
  assumes "requests_inv s"
  shows "dget (retained now (id_activations s)) k
    = (case dget (id_activations s) k of None \<Rightarrow> None
       | Some r \<Rightarrow> if retention_due (activation_retention_cutoff now) (expire now r) then None
                 else Some (expire now r))"
  using requests_rows(1) [OF assms]
    dget_filter [of "expire_all now (id_activations s)" "\<lambda>r. \<not> retention_due (activation_retention_cutoff now) r" k]
  by (simp add: retained_def dget_expire_all split: option.splits)

lemma retained_inv:
  assumes "directory_inv E s"
  shows "directory_inv E (with_requests (retained now (id_activations s)) s)"
proof -
  let ?t = "with_requests (expire_all now (id_activations s)) s"
  have t: "directory_inv E ?t" using expire_all_inv [OF assms] .
  then have i: "requests_inv ?t" by (simp add: directory_inv_def)
  have g: "dget (retained now (id_activations s)) k = Some r \<Longrightarrow> dget (expire_all now (id_activations s)) k = Some r" for k r
    using requests_rows(1) [OF i] unfolding retained_def
    by (subst (asm) dget_filter) (auto split: option.splits if_splits)
  have c: "dcount is_pending (retained now (id_activations s)) \<le> MAX_PENDING_ACTIVATIONS"
    using i dcount_filter [of is_pending "\<lambda>r. \<not> retention_due (activation_retention_cutoff now) r" "expire_all now (id_activations s)"]
    unfolding requests_inv_def pending_count_dcount retained_def by (simp add: case_prod_unfold)
  have d: "dict_ok (retained now (id_activations s))"
    using requests_rows(1) [OF i] unfolding retained_def dict_ok_def by (simp add: distinct_map_filter)
  have rows: "aq_request_id r = k \<and> activation_request_ok r"
    if "dget (expire_all now (id_activations s)) k = Some r" for k r
    using i that by (simp add: requests_inv_def)
  have unique: "k = j" if "dget (expire_all now (id_activations s)) k = Some r"
    "dget (expire_all now (id_activations s)) j = Some q" "is_pending r" "is_pending q"
    "request_subject r = request_subject q" for k j r q
    using i that unfolding requests_inv_def with_requests_simps by blast
  have "requests_inv (with_requests (retained now (id_activations s)) ?t)"
    unfolding requests_inv_def pending_count_dcount with_requests_simps
    using c d g rows unique by blast
  then show ?thesis using requests_frame_inv [OF t] by simp
qed

subsection \<open>Creating a request\<close>

lemma create_or_reuse_cases:
  assumes run: "create_or_reuse E c now fresh s = (s', res)" and inv: "requests_inv s"
  defines "t \<equiv> with_requests (expire_all now (id_activations s)) s"
  obtains (full) "s' = t" "res = Inl ActivationCapacityError" "MAX_PENDING_ACTIVATIONS \<le> pending_count t"
  | (reused) r where "s' = t" "res = Inr r" "r \<in> set (dvals (id_activations t))"
      "matches_subject c (activation_subject_digest E c) r"
  | (invalid) "s' = t" "res = Inl IdentityValidationError"
      "\<not> activation_request_ok (new_activation E c now fresh)"
  | (created) "s' = put_activation (new_activation E c now fresh) t" "res = Inr (new_activation E c now fresh)"
      "pending_count t < MAX_PENDING_ACTIVATIONS" "activation_request_ok (new_activation E c now fresh)"
      "\<And>r. r \<in> set (dvals (id_activations t)) \<Longrightarrow> \<not> matches_subject c (activation_subject_digest E c) r"
proof -
  have e: "expire_pending now s = (t, Inr (dcount (overdue now) (id_activations s)))"
    using expire_pending_run [OF inv] by (simp add: t_def)
  let ?found = "find (matches_subject c (activation_subject_digest E c)) (dvals (id_activations t))"
  let ?new = "new_activation E c now fresh"
  have run': "(s', res) = (if pending_count t < MAX_PENDING_ACTIVATIONS
      then (case ?found of Some r \<Rightarrow> (t, Inr r)
         | None \<Rightarrow> if activation_request_ok ?new then (put_activation ?new t, Inr ?new)
             else (t, Inl IdentityValidationError))
      else (t, Inl ActivationCapacityError))"
    using run e by (auto simp: create_or_reuse_def andthen_def reads_def require_def ret_def checked_as_def
        lift_def revalidate_def writes_def split: option.splits)
  show thesis
  proof (cases "pending_count t < MAX_PENDING_ACTIVATIONS")
    case False
    then show thesis using run' full by simp
  next
    case room: True
    show thesis
    proof (cases ?found)
      case (Some r)
      then have "r \<in> set (dvals (id_activations t))" "matches_subject c (activation_subject_digest E c) r"
        by (auto simp: find_Some_iff)
      then show thesis using run' room Some reused by simp
    next
      case None
      then have "\<And>r. r \<in> set (dvals (id_activations t)) \<Longrightarrow> \<not> matches_subject c (activation_subject_digest E c) r"
        by (simp add: find_None_iff)
      then show thesis using run' room None invalid created by (cases "activation_request_ok ?new") simp_all
    qed
  qed
qed

lemma new_activation_facts [simp]:
  "aq_request_id (new_activation E c now fresh) = fresh"
  "request_subject (new_activation E c now fresh)
     = (ca_tenant_id c, ca_environment_id c, activation_subject_digest E c)"
  "is_pending (new_activation E c now fresh)"
  by (simp_all add: new_activation_def request_subject_def is_pending_def)

lemma create_or_reuse_inv:
  assumes run: "create_or_reuse E c now fresh s = (s', res)" and inv: "directory_inv E s"
    and fresh: "dget (id_activations s) fresh = None" and prov: "ca_provider c = SRC_FEISHU"
  shows "directory_inv E s'"
proof -
  have i: "requests_inv s" using inv by (simp add: directory_inv_def)
  let ?t = "with_requests (expire_all now (id_activations s)) s"
  have t: "directory_inv E ?t" using expire_all_inv [OF inv] .
  from run i show ?thesis
  proof (cases rule: create_or_reuse_cases)
    case created
    have "request_subject q \<noteq> request_subject (new_activation E c now fresh)"
      if q: "dget (id_activations ?t) j = Some q" "is_pending q" for j q
    proof -
      have "aq_provider q = SRC_FEISHU"
        using t q(1) by (simp add: directory_inv_def requests_inv_def activation_request_ok_def)
      then show ?thesis
        using created(5) [OF dget_in_dvals [OF q(1)]] q(2) prov
        by (auto simp: matches_subject_def is_pending_def request_subject_def new_activation_def)
    qed
    then show ?thesis
      unfolding created(1) using created(3,4) fresh
      by (intro open_request_inv [OF t]) (auto simp: dget_expire_all)
  qed (use t in simp_all)
qed

subsection \<open>The audit store\<close>

text \<open>The appends of the audit store: one event of the given shape, or nothing.\<close>

definition appended_or_same ::
  "py_env \<Rightarrow> (audit_event \<Rightarrow> bool) \<Rightarrow> identity_state \<Rightarrow> identity_state \<Rightarrow> bool" where
  "appended_or_same E p s s' \<longleftrightarrow> s' = s \<or> (\<exists>e. appended E s e s' \<and> p e)"

lemma checked_append:
  assumes "andthen (checked_as audit_candidate_ok c) (\<lambda>c. append_or taken E c now) s = (s', r)"
    "\<And>e. audit_candidate.truncate e = c \<Longrightarrow> p e"
  shows "appended_or_same E p s s'"
  using assms(1)
proof (cases rule: andthen_cases)
  case (raised e)
  then show ?thesis by (auto simp: checked_as_def lift_def appended_or_same_def split: sum.splits)
next
  case (went w b)
  then have "b = c" "w = s" by (auto simp: checked_as_ok)
  then have "append_or taken E c now s = (s', r)" using went(2) by simp
  then show ?thesis
    by (cases rule: append_or_cases) (use assms(2) in \<open>auto simp: appended_or_same_def\<close>)
qed

lemma append_started_effect:
  "append_started E a now s = (s', r) \<Longrightarrow> appended_or_same E (\<lambda>e. ac_outcome e = AO_STARTED) s s'"
  unfolding append_started_def
  by (erule checked_append) (auto simp: candidate_of_def audit_candidate.truncate_def)

lemma append_denied_effect:
  "append_denied E a now s = (s', r) \<Longrightarrow> appended_or_same E (\<lambda>e. ac_outcome e = AO_DENIED) s s'"
  unfolding append_denied_def
  by (erule checked_append) (auto simp: candidate_of_def audit_candidate.truncate_def)

text \<open>A terminal event repeats the action of a started one, which is never a directory action.\<close>

lemma append_terminal_effect:
  assumes run: "append_terminal E a now s = (s', r)" and inv: "trail_inv E s"
  shows "appended_or_same E (\<lambda>e. ac_action e \<notin> DIRECTORY_ACTIONS) s s'"
proof -
  let ?slot = "audit_stage_key (at_operation_id a) AO_STARTED"
  show ?thesis
  proof (cases "\<exists>i e. dget (id_stages s) ?slot = Some i \<and> dget (id_events s) i = Some e")
    case True
    then obtain i e where i: "dget (id_stages s) ?slot = Some i" "dget (id_events s) i = Some e" by blast
    have "event_slot e = ?slot"
      using indexed_entry [of "id_events s" "id_stages s" event_slot ?slot i] inv i
      by (auto simp: trail_inv_def)
    then have "ac_outcome e = AO_STARTED"
      by (auto simp: event_slot_def audit_stage_key_def split: if_splits)
    moreover have "audit_candidate_ok e"
      using inv i(2) by (auto simp: trail_inv_def event_filed_def audit_event_ok_def)
    ultimately have "ac_action e \<notin> DIRECTORY_ACTIONS"
      by (simp add: audit_candidate_ok_def directory_actions_are_single_phase_def)
    moreover have "andthen (checked_as audit_candidate_ok
        (candidate_of e (at_outcome a) (at_reason_code a) (at_effect a)))
        (\<lambda>c. append_or AdminAuditConflictError E c now) s = (s', r)"
      using run i by (simp add: append_terminal_def andthen_def [of "reads _"] reads_def)
    ultimately show ?thesis
      by (elim checked_append) (auto simp: candidate_of_def audit_candidate.truncate_def)
  next
    case False
    then have "s' = s"
      using run by (auto simp: append_terminal_def andthen_def [of "reads _"] reads_def raise_def split: option.splits)
    then show ?thesis by (simp add: appended_or_same_def)
  qed
qed

end
