(* ===== verification/Session_Invariants.thy ===== *)
theory Session_Invariants
  imports Identity_Invariants
begin

text \<open>
  The invariants of OAuth states and browser sessions, and what each operation on them does: every
  pending state has one context, of login or of a connection test, at most the capacity of them
  exist, a test operation is bound to one state, and sessions are valid and filed by digest.
\<close>

lemmas op_run_simps = andthen_def reads_def require_def lift_def writes_def ret_def raise_def
  checked_as_def revalidate_def

subsection \<open>OAuth states\<close>

definition oauth_inv :: "nat \<Rightarrow> identity_state \<Rightarrow> bool" where
  "oauth_inv capacity s \<longleftrightarrow> dict_ok (id_oauth_states s) \<and> length (id_oauth_states s) \<le> capacity
     \<and> (\<forall>k st. dget (id_oauth_states s) k = Some st \<longrightarrow> oa_state_digest st = k \<and> oauth_state_ok st)
     \<and> (\<forall>k. dget (id_oauth_states s) k = None \<longleftrightarrow>
          dget (id_login_contexts s) k = None \<and> dget (id_test_contexts s) k = None)
     \<and> (\<forall>k. dget (id_login_contexts s) k = None \<or> dget (id_test_contexts s) k = None)
     \<and> (\<forall>k i. dget (id_login_contexts s) k = Some i \<longrightarrow> return_intent_ok i)
     \<and> (\<forall>k x. dget (id_test_contexts s) k = Some x \<longrightarrow>
          w4_operation_id (oc_test_operation_id x) \<and> 0 < oc_test_config_generation x)
     \<and> (\<forall>k j x y. dget (id_test_contexts s) k = Some x \<longrightarrow> dget (id_test_contexts s) j = Some y \<longrightarrow>
          oc_test_operation_id x = oc_test_operation_id y \<longrightarrow> k = j)
     \<and> dict_ok (id_test_contexts s)"

definition same_oauth :: "identity_state \<Rightarrow> identity_state \<Rightarrow> bool" where
  "same_oauth s s' \<longleftrightarrow> id_oauth_states s' = id_oauth_states s
     \<and> id_login_contexts s' = id_login_contexts s \<and> id_test_contexts s' = id_test_contexts s"

definition same_directory :: "identity_state \<Rightarrow> identity_state \<Rightarrow> bool" where
  "same_directory s s' \<longleftrightarrow> snapshot s' = snapshot s"

lemma oauth_inv_frame: "same_oauth s s' \<Longrightarrow> oauth_inv capacity s' = oauth_inv capacity s"
  by (simp add: oauth_inv_def same_oauth_def)

lemma length_ddel: "length (ddel k d) \<le> length d"
  by (induction d) auto

lemma length_dset_fresh: "dget d k = None \<Longrightarrow> length (dset k v d) = length d + 1"
  by (simp add: dset_fresh)

lemma forget_inv: "oauth_inv capacity s \<Longrightarrow> oauth_inv capacity (forget_oauth_state d s)"
  using length_ddel [of d "id_oauth_states s"]
  by (simp add: oauth_inv_def forget_oauth_state_def)

lemma for_each_writes: "for_each (\<lambda>x. writes (g x)) xs s = (fold g xs s, Inr ())"
  by (induction xs arbitrary: s) (simp_all add: op_run_simps)

definition stale_digests :: "instant \<Rightarrow> identity_state \<Rightarrow> string list" where
  "stale_digests now s = map fst (filter (\<lambda>(_, st). oauth_stale now st) (id_oauth_states s))"

definition cleaned :: "instant \<Rightarrow> identity_state \<Rightarrow> identity_state" where
  "cleaned now s = fold forget_oauth_state (stale_digests now s) s"

lemma cleanup_run: "cleanup_oauth_states now s = (cleaned now s, Inr ())"
  by (simp add: cleanup_oauth_states_def for_each_writes cleaned_def stale_digests_def andthen_def
      reads_def)

lemma forget_all:
  "id_sessions (fold forget_oauth_state ds s) = id_sessions s"
  "same_directory s (fold forget_oauth_state ds s)"
  "dget (id_oauth_states (fold forget_oauth_state ds s)) k
     = (if k \<in> set ds then None else dget (id_oauth_states s) k)"
  by (induction ds arbitrary: s)
    (auto simp: forget_oauth_state_def same_directory_def snapshot_def)

lemma cleaned_inv: "oauth_inv capacity s \<Longrightarrow> oauth_inv capacity (cleaned now s)"
proof -
  have "oauth_inv capacity s \<Longrightarrow> oauth_inv capacity (fold forget_oauth_state ds s)" for ds
    by (induction ds arbitrary: s) (simp_all add: forget_inv)
  then show "oauth_inv capacity s \<Longrightarrow> ?thesis" by (simp add: cleaned_def)
qed

lemma cleaned_frame: "id_sessions (cleaned now s) = id_sessions s" "same_directory s (cleaned now s)"
  by (simp_all add: cleaned_def forget_all)

lemma cleaned_get:
  assumes "oauth_inv capacity s"
  shows "dget (id_oauth_states (cleaned now s)) k
     = (case dget (id_oauth_states s) k of None \<Rightarrow> None | Some st \<Rightarrow> if oauth_stale now st then None else Some st)"
proof -
  have "dict_ok (id_oauth_states s)" using assms by (simp add: oauth_inv_def)
  then have "k \<in> set (stale_digests now s) \<longleftrightarrow> (\<exists>st. dget (id_oauth_states s) k = Some st \<and> oauth_stale now st)"
    by (force simp: stale_digests_def mem_dget [symmetric])
  then show ?thesis by (auto simp: cleaned_def forget_all split: option.splits)
qed

text \<open>A state is issued, with its context, or nothing happens but the removal of stale ones.\<close>

definition issued :: "'a issue_state_command_scheme \<Rightarrow> instant \<Rightarrow> oauth_state" where
  "issued c now = \<lparr>oa_state_digest = is_state_digest c, oa_issued_at = now,
     oa_expires_at = now + seconds (is_ttl_seconds c), oa_consumed_at = None\<rparr>"

definition put_oauth :: "oauth_state \<Rightarrow> identity_state \<Rightarrow> identity_state" where
  "put_oauth st s = s\<lparr>id_oauth_states := dset (oa_state_digest st) st (id_oauth_states s)\<rparr>"

lemma issue_oauth_state_cases:
  assumes "issue_oauth_state capacity c now s = (s', r)"
  obtains (refused) e where "s' = s" "r = Inl e"
  | (accepted) "dget (id_oauth_states s) (is_state_digest c) = None" "length (id_oauth_states s) < capacity"
      "oauth_state_ok (issued c now)" "r = Inr (issued c now)" "s' = put_oauth (issued c now) s"
  using assms
  by (auto simp: issue_oauth_state_def op_run_simps issued_def put_oauth_def split: if_splits)

lemma issue_login_cases:
  assumes "issue_oauth_login_state capacity c now s = (s', r)"
  obtains (refused) e where "s' = cleaned now s" "r = Inl e"
  | (accepted) "dget (id_oauth_states (cleaned now s)) (is_state_digest c) = None"
      "length (id_oauth_states (cleaned now s)) < capacity" "oauth_state_ok (issued c now)"
      "s' = put_oauth (issued c now) (cleaned now s)
         \<lparr>id_login_contexts := dset (is_state_digest c) (il_return_intent c)
            (id_login_contexts (cleaned now s))\<rparr>"
proof -
  obtain s1 r1 where i: "issue_oauth_state capacity c now (cleaned now s) = (s1, r1)" by fastforce
  then show thesis
  proof (cases rule: issue_oauth_state_cases)
    case (refused e)
    with assms i that(1) show thesis
      by (auto simp: issue_oauth_login_state_def cleanup_run andthen_def)
  next
    case accepted
    with assms i that(2) show thesis
      by (auto simp: issue_oauth_login_state_def cleanup_run op_run_simps issued_def put_oauth_def
          split: if_splits)
  qed
qed

definition bound_operation :: "string \<Rightarrow> identity_state \<Rightarrow> bool" where
  "bound_operation i s \<longleftrightarrow> list_ex (\<lambda>x. oc_test_operation_id x = i) (dvals (id_test_contexts s))"

lemma issue_test_cases:
  assumes "issue_oauth_test_state capacity c now s = (s', r)"
  obtains (refused) e where "s' = cleaned now s" "r = Inl e"
  | (accepted) "dget (id_oauth_states (cleaned now s)) (is_state_digest c) = None"
      "length (id_oauth_states (cleaned now s)) < capacity" "oauth_state_ok (issued c now)"
      "\<not> bound_operation (it_operation_id c) (cleaned now s)"
      "s' = put_oauth (issued c now) (cleaned now s)
         \<lparr>id_test_contexts := dset (is_state_digest c)
            \<lparr>oc_test_operation_id = it_operation_id c, oc_test_config_generation = it_config_generation c\<rparr>
            (id_test_contexts (cleaned now s))\<rparr>"
proof (cases "bound_operation (it_operation_id c) (cleaned now s)")
  case True
  with assms that(1) show thesis
    by (auto simp: issue_oauth_test_state_def cleanup_run bound_operation_def op_run_simps)
next
  case False
  obtain s1 r1 where i: "issue_oauth_state capacity c now (cleaned now s) = (s1, r1)" by fastforce
  then show thesis
  proof (cases rule: issue_oauth_state_cases)
    case (refused e)
    with assms i that(1) False show thesis
      by (auto simp: issue_oauth_test_state_def cleanup_run bound_operation_def op_run_simps)
  next
    case accepted
    with assms i that(2) False show thesis
      by (auto simp: issue_oauth_test_state_def cleanup_run bound_operation_def op_run_simps issued_def
          put_oauth_def split: if_splits)
  qed
qed

text \<open>A state is marked consumed, or nothing happens.\<close>

definition consumed :: "instant \<Rightarrow> oauth_state \<Rightarrow> oauth_state" where
  "consumed now st = st\<lparr>oa_consumed_at := Some now\<rparr>"

definition oauth_marked :: "identity_state \<Rightarrow> string \<Rightarrow> instant \<Rightarrow> identity_state \<Rightarrow> bool" where
  "oauth_marked s k now s' \<longleftrightarrow> (\<exists>st. dget (id_oauth_states s) k = Some st \<and> \<not> oauth_stale now st
     \<and> oauth_state_ok (consumed now st) \<and> s' = put_oauth (consumed now st) s)"

lemma consume_cases:
  assumes "consume_oauth_login_state k now s = (s', r) \<or> consume_oauth_test_state k now s = (s', r')"
  shows "s' = s \<or> oauth_marked s k now s'"
  using assms unfolding consume_oauth_login_state_def consume_oauth_test_state_def live_oauth_state_def
    mark_consumed_def oauth_marked_def put_oauth_def consumed_def
  by (auto simp: op_run_simps split: option.splits if_splits)

text \<open>A consumption that returns, returns a state that is now marked.\<close>

lemma consume_login_ok:
  assumes "consume_oauth_login_state k now s = (s', Inr v)"
  shows "oauth_marked s k now s'"
  using assms unfolding consume_oauth_login_state_def live_oauth_state_def
    mark_consumed_def oauth_marked_def put_oauth_def consumed_def
  by (auto simp: op_run_simps split: option.splits if_splits)

lemma consume_test_ok:
  assumes "consume_oauth_test_state k now s = (s', Inr v)"
  shows "oauth_marked s k now s'"
  using assms unfolding consume_oauth_test_state_def live_oauth_state_def
    mark_consumed_def oauth_marked_def put_oauth_def consumed_def
  by (auto simp: op_run_simps split: option.splits if_splits)

lemma marked_inv:
  assumes "oauth_inv capacity s" "oauth_marked s k now s'"
  shows "oauth_inv capacity s'"
proof -
  obtain st where st: "dget (id_oauth_states s) k = Some st" "oauth_state_ok (consumed now st)"
    and s': "s' = put_oauth (consumed now st) s"
    using assms(2) by (auto simp: oauth_marked_def)
  have k: "oa_state_digest st = k" using assms(1) st(1) by (simp add: oauth_inv_def)
  then have "s' = s\<lparr>id_oauth_states := dset k (consumed now st) (id_oauth_states s)\<rparr>"
    by (simp add: s' put_oauth_def consumed_def)
  moreover have "length (dset k (consumed now st) (id_oauth_states s)) = length (id_oauth_states s)"
    using map_fst_dset_same [OF st(1)] by (metis length_map)
  moreover have "dget (id_login_contexts s) k \<noteq> None \<or> dget (id_test_contexts s) k \<noteq> None"
    using assms(1) st(1) unfolding oauth_inv_def by (metis option.distinct(1))
  ultimately show ?thesis
    using assms(1) st k unfolding oauth_inv_def by (auto simp: consumed_def split: if_splits)
qed

lemma issue_login_inv:
  assumes "oauth_inv capacity s" "issue_login_command_ok c"
    "issue_oauth_login_state capacity c now s = (s', r)"
  shows "oauth_inv capacity s'"
  using assms(3)
proof (cases rule: issue_login_cases)
  case (refused e)
  then show ?thesis using cleaned_inv [OF assms(1)] by simp
next
  case accepted
  have i: "oauth_inv capacity (cleaned now s)" using cleaned_inv [OF assms(1)] .
  show ?thesis
    using i accepted assms(2) length_dset_fresh [OF accepted(1), of "issued c now"]
    unfolding oauth_inv_def accepted(4) put_oauth_def
    by (auto simp: issued_def issue_login_command_ok_def split: if_splits)
qed

lemma issue_test_inv:
  assumes "oauth_inv capacity s" "issue_test_command_ok c"
    "issue_oauth_test_state capacity c now s = (s', r)"
  shows "oauth_inv capacity s'"
  using assms(3)
proof (cases rule: issue_test_cases)
  case (refused e)
  then show ?thesis using cleaned_inv [OF assms(1)] by simp
next
  case accepted
  have i: "oauth_inv capacity (cleaned now s)" using cleaned_inv [OF assms(1)] .
  have "it_operation_id c \<noteq> oc_test_operation_id x" if "dget (id_test_contexts (cleaned now s)) k = Some x" for k x
    using accepted(4) dget_in_dvals [OF that] by (auto simp: bound_operation_def list_ex_iff)
  then have "\<forall>k x. dget (id_test_contexts (cleaned now s)) k = Some x \<longrightarrow>
      it_operation_id c \<noteq> oc_test_operation_id x \<and> oc_test_operation_id x \<noteq> it_operation_id c"
    by metis
  then show ?thesis
    using i accepted assms(2) length_dset_fresh [OF accepted(1), of "issued c now"]
    unfolding oauth_inv_def accepted(5) put_oauth_def
    by (auto simp: issued_def issue_test_command_ok_def split: if_splits)
qed

subsection \<open>Sessions\<close>

definition session_filed :: "string \<Rightarrow> web_session \<Rightarrow> bool" where
  "session_filed k w \<longleftrightarrow> ws_session_digest w = k \<and> web_session_ok w"

definition sessions_inv :: "identity_state \<Rightarrow> bool" where
  "sessions_inv s \<longleftrightarrow> dict_ok (id_sessions s)
     \<and> (\<forall>k w. dget (id_sessions s) k = Some w \<longrightarrow> session_filed k w)"

text \<open>A session is left alone or revoked.\<close>

definition session_step :: "web_session \<Rightarrow> web_session \<Rightarrow> bool" where
  "session_step w v \<longleftrightarrow> v = w \<or> (ws_revoked_at w = None \<and> (\<exists>t. v = revoked t w))"

definition sessions_step :: "identity_state \<Rightarrow> identity_state \<Rightarrow> bool" where
  "sessions_step s s' \<longleftrightarrow> (\<forall>k w. dget (id_sessions s) k = Some w \<longrightarrow>
     (\<exists>v. dget (id_sessions s') k = Some v \<and> session_step w v))"

lemma session_step_refl [simp]: "session_step w w"
  by (simp add: session_step_def)

lemma sessions_step_refl [simp]: "sessions_step s s"
  by (simp add: sessions_step_def)

lemma sessions_step_frame: "id_sessions s' = id_sessions s \<Longrightarrow> sessions_step s s'"
  by (simp add: sessions_step_def)

lemma session_step_trans: "session_step w v \<Longrightarrow> session_step v u \<Longrightarrow> session_step w u"
  by (auto simp: session_step_def revoked_def)

lemma sessions_step_trans: "sessions_step s t \<Longrightarrow> sessions_step t u \<Longrightarrow> sessions_step s u"
  unfolding sessions_step_def using session_step_trans by blast

lemma session_step_revoked: "session_step w v \<Longrightarrow> ws_revoked_at w \<noteq> None \<Longrightarrow> v = w"
  by (auto simp: session_step_def)

lemma sessions_inv_frame: "id_sessions s' = id_sessions s \<Longrightarrow> sessions_inv s' = sessions_inv s"
  by (simp add: sessions_inv_def)

definition only_sessions :: "identity_state \<Rightarrow> identity_state \<Rightarrow> bool" where
  "only_sessions s s' \<longleftrightarrow> s' = s\<lparr>id_sessions := id_sessions s'\<rparr>"

lemma only_sessions_frames:
  "only_sessions s s' \<Longrightarrow> same_oauth s s' \<and> same_directory s s' \<and> id_local_admin s' = id_local_admin s"
  unfolding only_sessions_def same_oauth_def same_directory_def snapshot_def
  by (erule ssubst) simp

lemma put_session_facts [simp]:
  "id_sessions (put_session k w s) = dset k w (id_sessions s)"
  by (simp add: put_session_def)

lemma put_session_only: "only_sessions s (put_session k w s)"
  by (simp add: only_sessions_def put_session_def)

lemma only_sessions_refl [simp]: "only_sessions s s"
  by (simp add: only_sessions_def)

lemma only_sessions_trans: "only_sessions s t \<Longrightarrow> only_sessions t u \<Longrightarrow> only_sessions s u"
proof -
  assume st: "only_sessions s t" and tu: "only_sessions t u"
  have "u = (s\<lparr>id_sessions := id_sessions t\<rparr>)\<lparr>id_sessions := id_sessions u\<rparr>"
    using st tu unfolding only_sessions_def by metis
  then show ?thesis by (simp add: only_sessions_def)
qed

lemma put_session_inv:
  "sessions_inv s \<Longrightarrow> session_filed k w \<Longrightarrow> sessions_inv (put_session k w s)"
  by (simp add: sessions_inv_def)

lemma revoke_one:
  assumes "sessions_inv s" "dget (id_sessions s) k = Some w" "ws_revoked_at w = None"
    "web_session_ok (revoked now w)"
  shows "sessions_inv (put_session k (revoked now w) s)" "sessions_step s (put_session k (revoked now w) s)"
proof -
  have "session_filed k (revoked now w)"
    using assms by (auto simp: sessions_inv_def session_filed_def revoked_def)
  then show "sessions_inv (put_session k (revoked now w) s)" using assms(1) by (rule put_session_inv [rotated])
  show "sessions_step s (put_session k (revoked now w) s)"
    using assms by (auto simp: sessions_step_def session_step_def)
qed

lemma revoke_local_admin_cases:
  assumes "revoke_local_admin now (k, w) s = (s', r)"
  obtains (kept) "s' = s" "\<not> (ws_auth_source w = SRC_LOCAL_ADMIN \<and> ws_revoked_at w = None)" "r = Inr ()"
  | (failed) e where "s' = s" "r = Inl e"
  | (revoking) "ws_revoked_at w = None" "web_session_ok (revoked now w)" "s' = put_session k (revoked now w) s"
      "r = Inr ()"
  using assms by (auto simp: op_run_simps split: if_splits)

text \<open>The loop over all sessions, started on the sessions it was given.\<close>

lemma revoke_each:
  assumes "for_each (revoke_local_admin now) xs s = (s', r)" "distinct (map fst xs)"
    "\<And>k w. (k, w) \<in> set xs \<Longrightarrow> dget (id_sessions s) k = Some w" "sessions_inv s"
  shows "sessions_inv s' \<and> sessions_step s s' \<and> only_sessions s s'
     \<and> (r = Inr () \<longrightarrow> (\<forall>(k, w) \<in> set xs. ws_auth_source w = SRC_LOCAL_ADMIN \<longrightarrow>
          (\<exists>v. dget (id_sessions s') k = Some v \<and> ws_revoked_at v \<noteq> None)))
     \<and> map fst (id_sessions s') = map fst (id_sessions s)"
  using assms
proof (induction xs arbitrary: s)
  case Nil
  then show ?case by (simp add: ret_def)
next
  case (Cons x xs)
  obtain k w where x: "x = (k, w)" by fastforce
  have w: "dget (id_sessions s) k = Some w" using Cons.prems(3) x by simp
  obtain s1 r1 where one: "revoke_local_admin now (k, w) s = (s1, r1)" by fastforce
  have rest: "for_each (revoke_local_admin now) xs s1 = (s', r)" if "r1 = Inr ()"
    using Cons.prems(1) one that by (simp add: x andthen_def)
  have go: ?case if r1: "r1 = Inr ()" and i1: "sessions_inv s1" and st1: "sessions_step s s1"
    and o1: "only_sessions s s1"
    and other: "\<And>j. j \<noteq> k \<Longrightarrow> dget (id_sessions s1) j = dget (id_sessions s) j"
    and keys: "map fst (id_sessions s1) = map fst (id_sessions s)"
    and src: "ws_auth_source w = SRC_LOCAL_ADMIN \<Longrightarrow>
      \<exists>v. dget (id_sessions s1) k = Some v \<and> ws_revoked_at v \<noteq> None"
  proof -
    have "dget (id_sessions s1) j = Some v" if jv: "(j, v) \<in> set xs" for j v
    proof -
      have "j \<noteq> k" using Cons.prems(2) jv x by force
      then show ?thesis using Cons.prems(3) jv other by simp
    qed
    then have IH: "sessions_inv s' \<and> sessions_step s1 s' \<and> only_sessions s1 s'
     \<and> (r = Inr () \<longrightarrow> (\<forall>(k, w) \<in> set xs. ws_auth_source w = SRC_LOCAL_ADMIN \<longrightarrow>
          (\<exists>v. dget (id_sessions s') k = Some v \<and> ws_revoked_at v \<noteq> None)))
     \<and> map fst (id_sessions s') = map fst (id_sessions s1)"
      using Cons.IH [OF rest [OF r1]] Cons.prems(2) i1 by simp
    have "\<exists>v. dget (id_sessions s') k = Some v \<and> ws_revoked_at v \<noteq> None"
      if a: "ws_auth_source w = SRC_LOCAL_ADMIN"
    proof -
      from src [OF a] obtain v where v: "dget (id_sessions s1) k = Some v" "ws_revoked_at v \<noteq> None"
        by blast
      then obtain u where "dget (id_sessions s') k = Some u" "session_step v u"
        using IH unfolding sessions_step_def by blast
      with session_step_revoked v(2) show ?thesis by metis
    qed
    then show ?thesis
      using IH st1 o1 keys sessions_step_trans only_sessions_trans by (auto simp: x)
  qed
  show ?case
    using one
  proof (cases rule: revoke_local_admin_cases)
    case kept
    then show ?thesis using go w Cons.prems(4) by auto
  next
    case (failed e)
    then have "s' = s" "r = Inl e" using Cons.prems(1) one by (simp_all add: x andthen_def)
    then show ?thesis using Cons.prems(4) by simp
  next
    case revoking
    note R = revoke_one [OF Cons.prems(4) w revoking(1,2)]
    show ?thesis
      using go [OF revoking(4)] R put_session_only map_fst_dset_same [OF w]
      by (auto simp: revoking(3) revoked_def)
  qed
qed

text \<open>A change of the password: what it may do even when it raises on the way, and what it does.\<close>

definition admin_session :: "change_password_command \<Rightarrow> instant \<Rightarrow> web_session" where
  "admin_session c now =
     \<lparr>ws_session_digest = cp_new_session_digest c, ws_subject_ref = LOCAL_ADMIN_SUBJECT_REF,
      ws_issued_at = now, ws_expires_at = now + seconds (cp_session_ttl_seconds c),
      ws_revoked_at = None, ws_auth_source = SRC_LOCAL_ADMIN,
      ws_public_origin_digest = cp_public_origin_digest c\<rparr>"

definition changed_record :: "change_password_command \<Rightarrow> local_admin_record \<Rightarrow> local_admin_record" where
  "changed_record c p = \<lparr>la_password_hash = cp_password_hash c, la_must_change_password = False,
     la_user_id = la_user_id p\<rparr>"

definition with_record :: "local_admin_record \<Rightarrow> identity_state \<Rightarrow> identity_state" where
  "with_record r s = s\<lparr>id_local_admin := Some r\<rparr>"

lemma with_record_facts [simp]:
  "id_sessions (with_record r s) = id_sessions s" "id_local_admin (with_record r s) = Some r"
  "same_oauth s (with_record r s)" "sessions_inv (with_record r s) = sessions_inv s"
  "sessions_step s (with_record r s)"
  by (simp_all add: with_record_def same_oauth_def sessions_inv_def sessions_step_def)

lemma change_password_cases:
  assumes run: "change_password_and_rotate_session c now s = (s', r)" and inv: "sessions_inv s"
  obtains (refused) e where "s' = s" "r = Inl e"
  | (stopped) p e where "id_local_admin s = Some p" "local_admin_record_ok (changed_record c p)"
      "r = Inl e" "sessions_inv s'" "sessions_step s s'" "only_sessions (with_record (changed_record c p) s) s'"
  | (changed) p t where "id_local_admin s = Some p" "local_admin_record_ok (changed_record c p)"
      "r = Inr (changed_record c p)" "sessions_inv t" "sessions_step s t"
      "only_sessions (with_record (changed_record c p) s) t" "web_session_ok (admin_session c now)"
      "s' = put_session (cp_new_session_digest c) (admin_session c now) t"
      "\<And>k w. dget (id_sessions t) k = Some w \<Longrightarrow> ws_auth_source w = SRC_LOCAL_ADMIN \<Longrightarrow> ws_revoked_at w \<noteq> None"
proof (cases "id_local_admin s")
  case None
  then show thesis
    using run that(1) by (auto simp: change_password_and_rotate_session_def op_run_simps)
next
  case (Some p)
  let ?s1 = "with_record (changed_record c p) s"
  show thesis
  proof (cases "local_admin_record_ok (changed_record c p)")
    case False
    then show thesis
      using run Some that(1)
      by (auto simp: change_password_and_rotate_session_def op_run_simps changed_record_def)
  next
    case True
    obtain t q where loop: "for_each (revoke_local_admin now) (id_sessions s) ?s1 = (t, q)" by fastforce
    have dict: "dict_ok (id_sessions s)" using inv by (simp add: sessions_inv_def)
    have d: "distinct (map fst (id_sessions s))" using dict by (simp add: dict_ok_def)
    have m: "dget (id_sessions ?s1) k = Some w" if "(k, w) \<in> set (id_sessions s)" for k w
      using that mem_dget [OF dict] by simp
    have i1: "sessions_inv ?s1" using inv by simp
    have L: "sessions_inv t \<and> sessions_step ?s1 t \<and> only_sessions ?s1 t
       \<and> (q = Inr () \<longrightarrow> (\<forall>(k, w) \<in> set (id_sessions s). ws_auth_source w = SRC_LOCAL_ADMIN \<longrightarrow>
            (\<exists>v. dget (id_sessions t) k = Some v \<and> ws_revoked_at v \<noteq> None)))
       \<and> map fst (id_sessions t) = map fst (id_sessions ?s1)"
      by (rule revoke_each [OF loop d _ i1]) (rule m)
    have st: "sessions_step s t" using L by (simp add: sessions_step_def)
    have run': "change_password_and_rotate_session c now s
        = (case q of Inl e \<Rightarrow> (t, Inl e)
           | Inr _ \<Rightarrow> if web_session_ok (admin_session c now)
               then (put_session (cp_new_session_digest c) (admin_session c now) t, Inr (changed_record c p))
               else (t, Inl IdentityValidationError))"
      using Some True loop
      by (simp add: change_password_and_rotate_session_def op_run_simps changed_record_def
          with_record_def admin_session_def split: sum.split)
    have revoked_all: "ws_revoked_at w \<noteq> None"
      if q: "q = Inr ()" and w: "dget (id_sessions t) k = Some w" "ws_auth_source w = SRC_LOCAL_ADMIN" for k w
    proof -
      have "k \<in> set (map fst (id_sessions t))" using dget_mem [OF w(1)] by force
      moreover have "map fst (id_sessions t) = map fst (id_sessions s)" using L by simp
      ultimately have "k \<in> set (map fst (id_sessions s))" by (simp only:)
      then obtain v where v: "(k, v) \<in> set (id_sessions s)" by auto
      then have "dget (id_sessions s) k = Some v" using mem_dget [OF dict] by simp
      then obtain v' where "dget (id_sessions t) k = Some v'" "session_step v v'"
        using st unfolding sessions_step_def by blast
      then have "session_step v w" using w(1) by simp
      then have "ws_auth_source v = SRC_LOCAL_ADMIN" using w(2) by (auto simp: session_step_def revoked_def)
      then show ?thesis using L q v w(1) by fastforce
    qed
    show thesis
    proof (cases q)
      case (Inl e)
      then have "s' = t" "r = Inl e" using run run' by simp_all
      then show thesis using that(2) [OF Some True] L st by blast
    next
      case (Inr u)
      then have q: "q = Inr ()" by simp
      show thesis
      proof (cases "web_session_ok (admin_session c now)")
        case ok: True
        have s': "s' = put_session (cp_new_session_digest c) (admin_session c now) t"
          and r: "r = Inr (changed_record c p)" using run run' q ok by simp_all
        have Li: "sessions_inv t" "only_sessions ?s1 t" using L by blast+
        show thesis
          by (rule that(3) [OF Some True r Li(1) st Li(2) ok s']) (rule revoked_all [OF q])
      next
        case False
        then have "s' = t" "r = Inl IdentityValidationError" using run run' q by simp_all
        then show thesis using that(2) [OF Some True] L st by blast
      qed
    qed
  qed
qed

lemma admin_session_filed:
  "web_session_ok (admin_session c now) \<Longrightarrow> session_filed (cp_new_session_digest c) (admin_session c now)"
  by (simp add: session_filed_def admin_session_def)

text \<open>The other operations on sessions.\<close>

lemma revoke_previous_cases:
  assumes "revoke_previous d now s = (s', r)" "sessions_inv s"
  shows "sessions_inv s' \<and> sessions_step s s' \<and> only_sessions s s'
     \<and> map fst (id_sessions s') = map fst (id_sessions s) \<and> ((\<exists>e. r = Inl e) \<longrightarrow> s' = s)"
proof (cases "\<exists>k w. d = Some k \<and> dget (id_sessions s) k = Some w \<and> ws_revoked_at w = None
    \<and> web_session_ok (revoked now w)")
  case True
  then obtain k w where w: "d = Some k" "dget (id_sessions s) k = Some w" "ws_revoked_at w = None"
    "web_session_ok (revoked now w)" by blast
  then have "s' = put_session k (revoked now w) s" "r = Inr ()"
    using assms(1) by (simp_all add: revoke_previous_def op_run_simps)
  then show ?thesis
    using revoke_one [OF assms(2) w(2-4)] put_session_only map_fst_dset_same [OF w(2)] by simp
next
  case False
  then have "s' = s"
    using assms(1) by (auto simp: revoke_previous_def op_run_simps split: option.splits if_splits)
  then show ?thesis using assms(2) by simp
qed

lemma rotate_session_cases:
  assumes "rotate_session c now s = (s', r)" "sessions_inv s"
  shows "sessions_inv s' \<and> sessions_step s s' \<and> only_sessions s s'"
proof -
  define w where "w = \<lparr>ws_session_digest = rs_session_digest c, ws_subject_ref = rs_subject_ref c,
    ws_issued_at = now, ws_expires_at = now + seconds (rs_ttl_seconds c), ws_revoked_at = None,
    ws_auth_source = rs_auth_source c, ws_public_origin_digest = rs_public_origin_digest c\<rparr>"
  obtain t q where t: "revoke_previous (rs_previous_session_digest c) now s = (t, q)" by fastforce
  note R = revoke_previous_cases [OF t assms(2)]
  show ?thesis
  proof (cases "dget (id_sessions s) (rs_session_digest c) = None \<and> web_session_ok w \<and> is_ok q")
    case True
    then have s': "s' = put_session (rs_session_digest c) w t"
      using assms(1) t by (auto simp: rotate_session_def op_run_simps w_def is_ok_conv)
    have keys: "set (map fst (id_sessions t)) = set (map fst (id_sessions s))" using R by simp
    have new: "dget (id_sessions t) (rs_session_digest c) = None"
      using True keys by (simp add: map_of_eq_None_iff)
    have "session_filed (rs_session_digest c) w" using True by (simp add: session_filed_def w_def)
    then have "sessions_inv s'" using R s' put_session_inv by simp
    moreover have "sessions_step t s'" using new by (auto simp: s' sessions_step_def)
    ultimately show ?thesis
      using R s' sessions_step_trans only_sessions_trans put_session_only by blast
  next
    case False
    then have "s' = s"
      using assms(1) t R
      by (cases q) (auto simp: rotate_session_def op_run_simps w_def split: if_splits)
    then show ?thesis using assms(2) by simp
  qed
qed

lemma revoke_session_cases:
  assumes "revoke_session k now s = (s', r)" "sessions_inv s"
  shows "sessions_inv s' \<and> sessions_step s s' \<and> only_sessions s s'"
proof (cases "s' = s")
  case False
  then obtain w where w: "dget (id_sessions s) k = Some w" "ws_revoked_at w = None"
    "web_session_ok (revoked now w)" "s' = put_session (ws_session_digest w) (revoked now w) s"
    using assms(1) by (auto simp: revoke_session_def op_run_simps split: option.splits if_splits)
  then have "s' = put_session k (revoked now w) s"
    using assms(2) by (simp add: sessions_inv_def session_filed_def)
  then show ?thesis using revoke_one [OF assms(2) w(1-3)] put_session_only by simp
qed (use assms(2) in simp)

end
