(* ===== verification/Identity_Runs.thy ===== *)
theory Identity_Runs
  imports Activation_Runs Session_Invariants
begin

text \<open>
  Runs of the identity stores: every operation as a labelled step, the invariant all of them keep,
  what a step may do to the audit trail, and the contract of things that, once spent, stay spent
  (locale \<open>spent_for_good\<close>), which consumed OAuth states, revoked sessions and decided requests meet.
\<close>

subsection \<open>Calls and steps\<close>

datatype identity_call =
    IdApply directory_command operation_context instant
  | IdSeed string instant
  | IdStarted audit_subject instant
  | IdTerminal audit_terminal instant
  | IdDenied audit_denial instant
  | IdActivate create_activation_command instant string
  | IdPurge instant
  | IdPassword change_password_command instant
  | IdIssueLogin issue_login_command instant
  | IdIssueTest issue_test_command instant
  | IdConsumeLogin string instant
  | IdConsumeTest string instant
  | IdRotate rotate_session_command instant
  | IdRevoke string instant

fun run_identity :: "py_env \<Rightarrow> nat \<Rightarrow> identity_call \<Rightarrow> identity_state \<Rightarrow> identity_state" where
  "run_identity E n (IdApply c oc now) s = fst (apply_command E c oc now s)"
| "run_identity E n (IdSeed h now) s = fst (seed_if_absent E h now s)"
| "run_identity E n (IdStarted a now) s = fst (append_started E a now s)"
| "run_identity E n (IdTerminal a now) s = fst (append_terminal E a now s)"
| "run_identity E n (IdDenied a now) s = fst (append_denied E a now s)"
| "run_identity E n (IdActivate c now fresh) s = fst (create_or_reuse E c now fresh s)"
| "run_identity E n (IdPurge now) s = fst (purge_expired_terminal now s)"
| "run_identity E n (IdPassword c now) s = fst (change_password_and_rotate_session c now s)"
| "run_identity E n (IdIssueLogin c now) s = fst (issue_oauth_login_state n c now s)"
| "run_identity E n (IdIssueTest c now) s = fst (issue_oauth_test_state n c now s)"
| "run_identity E n (IdConsumeLogin k now) s = fst (consume_oauth_login_state k now s)"
| "run_identity E n (IdConsumeTest k now) s = fst (consume_oauth_test_state k now s)"
| "run_identity E n (IdRotate c now) s = fst (rotate_session c now s)"
| "run_identity E n (IdRevoke k now) s = fst (revoke_session k now s)"

text \<open>Commands have passed their validators, and a fresh request id is fresh.\<close>

fun identity_call_ok :: "identity_state \<Rightarrow> identity_call \<Rightarrow> bool" where
  "identity_call_ok s (IdApply c oc now) \<longleftrightarrow> directory_command_ok c \<and> operation_context_ok oc"
| "identity_call_ok s (IdActivate c now fresh) \<longleftrightarrow>
     create_activation_command_ok c \<and> dget (id_activations s) fresh = None"
| "identity_call_ok s (IdIssueLogin c now) \<longleftrightarrow> issue_login_command_ok c"
| "identity_call_ok s (IdIssueTest c now) \<longleftrightarrow> issue_test_command_ok c"
| "identity_call_ok s c \<longleftrightarrow> True"

inductive identity_step ::
  "py_env \<Rightarrow> nat \<Rightarrow> identity_state \<Rightarrow> identity_call \<Rightarrow> identity_state \<Rightarrow> bool" for E n where
  identity_stepI: "identity_call_ok s c \<Longrightarrow> identity_step E n s c (run_identity E n c s)"

inductive_cases identity_stepE: "identity_step E n s c s'"

text \<open>A run of calls that all satisfy a predicate.\<close>

inductive calls :: "('s \<Rightarrow> 'c \<Rightarrow> 's \<Rightarrow> bool) \<Rightarrow> ('c \<Rightarrow> bool) \<Rightarrow> 's \<Rightarrow> 's \<Rightarrow> bool"
  for step p where
  calls_none: "calls step p s s"
| calls_more: "calls step p s t \<Longrightarrow> p c \<Longrightarrow> step t c u \<Longrightarrow> calls step p s u"

lemma calls_mono: "calls step p s t \<Longrightarrow> (\<And>c. p c \<Longrightarrow> q c) \<Longrightarrow> calls step q s t"
  by (induction rule: calls.induct) (auto intro: calls.intros)

subsection \<open>Things that stay spent\<close>

locale spent_for_good =
  fixes step :: "'s \<Rightarrow> 'c \<Rightarrow> 's \<Rightarrow> bool"
    and inv :: "'s \<Rightarrow> bool"
    and spent :: "'s \<Rightarrow> 'k \<Rightarrow> bool"
    and renews :: "'c \<Rightarrow> 'k \<Rightarrow> bool"
  assumes inv_step: "inv s \<Longrightarrow> step s c s' \<Longrightarrow> inv s'"
    and spent_step: "inv s \<Longrightarrow> step s c s' \<Longrightarrow> \<not> renews c k \<Longrightarrow> spent s k \<Longrightarrow> spent s' k"
begin

lemma inv_calls: "calls step p s s' \<Longrightarrow> inv s \<Longrightarrow> inv s'"
  by (induction rule: calls.induct) (auto intro: inv_step)

lemma stays_spent:
  "calls step (\<lambda>c. \<not> renews c k) s s' \<Longrightarrow> inv s \<Longrightarrow> spent s k \<Longrightarrow> spent s' k"
proof (induction rule: calls.induct)
  case (calls_more s t c u)
  then show ?case using inv_calls spent_step by blast
qed simp

end

subsection \<open>Applying a command\<close>

text \<open>A failed command leaves nothing behind: what the snapshot does not hold, no handler touches.\<close>

lemma keeps_case_option [keeps_intros]:
  "keeps I a \<Longrightarrow> (\<And>x. keeps I (f x)) \<Longrightarrow> keeps I (case opt of None \<Rightarrow> a | Some x \<Rightarrow> f x)"
  by (cases opt) simp_all

lemma keeps_case_prod [keeps_intros]: "(\<And>x y. keeps I (f x y)) \<Longrightarrow> keeps I (case p of (x, y) \<Rightarrow> f x y)"
  by (cases p) simp

lemma keeps_Let [keeps_intros]: "(\<And>x. keeps I (f x)) \<Longrightarrow> keeps I (let x = a in f x)"
  by simp

lemma keeps_checked_as [keeps_intros]: "keeps I (checked_as ok r)"
  unfolding checked_as_def by (rule keeps_lift)

abbreviation sessions_kept :: "identity_state \<Rightarrow> 'b identity_op \<Rightarrow> bool" where
  "sessions_kept s0 m \<equiv> keeps (same_sessions s0) m"

lemma keeps_directory_writes [keeps_intros]:
  "sessions_kept s0 (writes (put_account a))" "sessions_kept s0 (writes (put_role r))"
  "sessions_kept s0 (writes (\<lambda>s. s\<lparr>id_accounts := f s\<rparr>))" "sessions_kept s0 (writes (\<lambda>s. s\<lparr>id_roles := g s\<rparr>))"
  "sessions_kept s0 (writes (\<lambda>s. s\<lparr>id_bindings := h s\<rparr>))"
  "sessions_kept s0 (writes (\<lambda>s. s\<lparr>id_activations := i s\<rparr>))"
  "sessions_kept s0 (writes (\<lambda>s. s\<lparr>id_local_admin := j s\<rparr>))"
  by (auto intro!: keeps_writes simp: same_sessions_def put_account_def put_role_def)

lemma keeps_append_locked [keeps_intros]: "sessions_kept s0 (append_locked E c now)"
  unfolding keeps_def
proof (intro allI impI)
  fix w assume w: "same_sessions s0 w"
  obtain w' r where a: "append_locked E c now w = (w', r)" by fastforce
  then have "same_sessions s0 w'"
    by (cases rule: append_locked_cases) (use w in \<open>auto simp: appended_def same_sessions_def\<close>)
  with a show "same_sessions s0 (fst (append_locked E c now w))" by simp
qed

lemma keeps_helpers [keeps_intros]:
  "sessions_kept s0 (insert_account u a d now)" "sessions_kept s0 (upsert_role u t e role by_id now)"
  "sessions_kept s0 (bind_subject E u t e sub now)" "sessions_kept s0 (require_account u)"
  "sessions_kept s0 (write_audit E command oc ref oid entry now)"
  "sessions_kept s0 (one_event E command oc ref now)"
  unfolding insert_account_def upsert_role_def bind_subject_def require_account_def one_event_def
    write_audit_def append_or_def
  by (intro keeps_intros)+

lemma keeps_decisions [keeps_intros]:
  "sessions_kept s0 (require_admin t e oc)" "sessions_kept s0 (managed_target u t e)"
  "sessions_kept s0 (open_request c oc now)" "sessions_kept s0 (settle_request r q)"
  "sessions_kept s0 (approved_account E ac r now)" "sessions_kept s0 (grant_role ac u oc now)"
  "sessions_kept s0 (bind_requester E ac r u now)"
  unfolding require_admin_def managed_target_def open_request_def activation_for_decision_def
    settle_request_def approved_account_def grant_role_def bind_requester_def
  by (intro keeps_intros)+

lemma keeps_migrate_each [keeps_intros]: "sessions_kept s0 (migrate_each E c oc now i entries)"
  by (induction entries arbitrary: i) (auto intro!: keeps_intros)

lemmas handler_defs = create_user_def set_status_def set_managed_status_def assign_role_def
  change_managed_role_def revoke_role_def bind_identity_def unbind_identity_def bootstrap_def
  approve_activation_def reject_activation_def migrate_def

lemma keeps_apply_locked: "sessions_kept s0 (apply_locked E command oc now)"
  by (cases command; simp only: apply_locked.simps handler_defs; intro keeps_intros)

lemma restore_snapshot: "same_sessions s t \<Longrightarrow> restore (snapshot s) t = s"
  by (cases s; cases t) (simp add: same_sessions_def snapshot_def)

lemma apply_command_cases:
  assumes "apply_command E command oc now s = (s', r)"
  obtains (failed) e where "s' = s" "r = Inl e" "\<exists>t. apply_locked E command oc now s = (t, Inl e)"
  | (applied) evs where "apply_locked E command oc now s = (s', Inr evs)" "r = Inr evs"
proof -
  obtain t q where t: "apply_locked E command oc now s = (t, q)" by fastforce
  have "same_sessions s t" using keeps_run [OF keeps_apply_locked t] by simp
  then have "restore (snapshot s) t = s" by (rule restore_snapshot)
  then show thesis using assms t that by (cases q) (auto simp: apply_command_def)
qed

text \<open>No event, no change.\<close>

lemma one_event_nonempty: "one_event E command oc ref now s \<noteq> (s', Inr [])"
  using one_event_ok by fastforce

lemma apply_locked_silent:
  assumes "apply_locked E command oc now s = (s', Inr [])"
  shows "s' = s"
proof (cases command)
  case (BootstrapLocalAdmin c)
  with assms show ?thesis
    by (cases "Option.bind (id_local_admin s) la_user_id")
      (auto simp: bootstrap_def dir_ok_simps one_event_nonempty)
next
  case (MigrateLegacyIdentities c)
  with assms show ?thesis
    by (cases "mg_entries c") (auto simp: migrate_def dir_ok_simps)
qed (use assms in \<open>auto simp: handler_defs Let_def dir_ok_simps one_event_nonempty split: option.splits prod.splits\<close>)

definition derived :: "py_env \<Rightarrow> directory_command \<Rightarrow> operation_context \<Rightarrow> audit_event \<Rightarrow> bool" where
  "derived E command oc e \<longleftrightarrow> (\<exists>ref entry. records E command oc ref entry e)"

lemma derivedI: "records E command oc ref entry e \<Longrightarrow> derived E command oc e"
  by (auto simp: derived_def)

lemma write_audit_derived:
  "write_audit E command oc ref oid entry now s = (s', Inr e) \<Longrightarrow> derived E command oc e"
  using write_audit_ok derivedI by blast

lemma one_event_derived:
  "one_event E command oc ref now s = (s', Inr evs) \<Longrightarrow> e \<in> set evs \<Longrightarrow> derived E command oc e"
  by (auto elim!: one_event_ok intro: derivedI)

lemma migrate_each_derived:
  "migrate_each E c oc now i entries s = (s', Inr evs) \<Longrightarrow> e \<in> set evs \<Longrightarrow>
     derived E (MigrateLegacyIdentities c) oc e"
  by (induction entries arbitrary: i s evs) (auto simp: dir_ok_simps intro: write_audit_derived)

lemma apply_locked_derived:
  assumes "apply_locked E command oc now s = (s', Inr evs)" "e \<in> set evs"
  shows "derived E command oc e"
proof (cases command)
  case (MigrateLegacyIdentities c)
  with assms show ?thesis by (auto simp: migrate_def intro: migrate_each_derived)
next
  case (BootstrapLocalAdmin c)
  with assms show ?thesis
    by (cases "Option.bind (id_local_admin s) la_user_id")
      (auto simp: bootstrap_def dir_ok_simps intro: one_event_derived)
qed (use assms in \<open>auto simp: handler_defs Let_def dir_ok_simps intro: one_event_derived split: option.splits prod.splits\<close>)

subsection \<open>The invariant of all stores\<close>

definition identity_inv :: "py_env \<Rightarrow> nat \<Rightarrow> identity_state \<Rightarrow> bool" where
  "identity_inv E n s \<longleftrightarrow> directory_inv E s \<and> oauth_inv n s \<and> sessions_inv s"

lemma directory_inv_frame: "same_directory s s' \<Longrightarrow> directory_inv E s' = directory_inv E s"
  using inv_frames [of s' s] by (simp add: same_directory_def snapshot_def directory_inv_def)

lemma same_sessions_frames:
  "same_sessions s s' \<Longrightarrow> same_oauth s s' \<and> id_sessions s' = id_sessions s"
  by (simp add: same_sessions_def same_oauth_def)

lemma sessions_untouched:
  assumes "identity_inv E n s" "same_sessions s s'" "directory_inv E s'"
  shows "identity_inv E n s'"
proof -
  have "oauth_inv n s' = oauth_inv n s" "sessions_inv s' = sessions_inv s"
    using same_sessions_frames [OF assms(2)] oauth_inv_frame sessions_inv_frame by blast+
  then show ?thesis using assms(1,3) by (simp add: identity_inv_def)
qed

lemma apply_command_inv:
  assumes "identity_inv E n s" "apply_command E command oc now s = (s', r)"
  shows "identity_inv E n s'"
  using assms(2)
proof (cases rule: apply_command_cases)
  case (applied evs)
  have "directory_done E s evs s'"
    using applied(1) assms(1) apply_locked_done by (simp add: identity_inv_def)
  then show ?thesis
    using sessions_untouched [OF assms(1)]
    by (simp add: directory_done_def directory_effect_def directory_change_def)
qed (use assms in simp)

lemma seed_run:
  assumes "seed_if_absent E h now s = (s', r)"
  obtains (invalid) "s' = s" "r = Inl IdentityValidationError"
  | (applied) q where "apply_command E (BootstrapLocalAdmin (bootstrap_local_admin_command h))
      bootstrap_operation_context now s = (s', q)" "\<And>e. q = Inl e \<Longrightarrow> r = Inl e"
      "\<And>evs. q = Inr evs \<Longrightarrow> r = Inr (evs \<noteq> [])"
  using assms unfolding seed_if_absent_def
proof (cases rule: andthen_cases)
  case (raised e)
  then show thesis using invalid
    by (auto simp: checked_as_def lift_def revalidate_def split: if_splits)
next
  case (went w command)
  then have w: "w = s" "command = BootstrapLocalAdmin (bootstrap_local_admin_command h)"
    by (simp_all add: checked_as_ok)
  from went(2) show thesis
  proof (cases rule: andthen_cases)
    case (raised e)
    show thesis by (rule applied [of "Inl e"]) (use raised w in simp_all)
  next
    case (went w1 evs)
    show thesis by (rule applied [of "Inr evs"]) (use went w in \<open>simp_all add: ret_def\<close>)
  qed
qed

lemma appended_or_same_inv:
  assumes "identity_inv E n s" "appended_or_same E p s s'"
  shows "identity_inv E n s'"
  using assms(2) unfolding appended_or_same_def
proof (elim disjE exE conjE)
  fix e assume a: "appended E s e s'"
  have "directory_inv E s" using assms(1) by (simp add: identity_inv_def)
  from appended_inv [OF this a] have "directory_inv E s'" .
  moreover have "same_sessions s s'" using a by (simp add: appended_def same_sessions_def)
  ultimately show ?thesis using sessions_untouched [OF assms(1)] by blast
qed (use assms(1) in simp)

lemma oauth_write_inv:
  assumes "identity_inv E n s" "oauth_inv n s'" "same_directory s s'" "id_sessions s' = id_sessions s"
  shows "identity_inv E n s'"
  using assms(1,2) directory_inv_frame [OF assms(3), of E] sessions_inv_frame [OF assms(4)]
  unfolding identity_inv_def by blast

lemma only_sessions_inv:
  assumes "identity_inv E n s" "sessions_inv s'" "only_sessions s s'"
  shows "identity_inv E n s'"
proof -
  have "directory_inv E s' = directory_inv E s" "oauth_inv n s' = oauth_inv n s"
    using only_sessions_frames [OF assms(3)] directory_inv_frame oauth_inv_frame by blast+
  then show ?thesis using assms(1,2) by (simp add: identity_inv_def)
qed

lemma oauth_run_frames:
  assumes "issue_oauth_login_state m c now s = (s', r) \<or> issue_oauth_test_state m d now s = (s', q)
    \<or> oauth_marked s k now s'"
  shows "same_directory s s' \<and> id_sessions s' = id_sessions s"
proof -
  note c = cleaned_frame [where now = now and s = s]
  have put: "same_directory s (put_oauth x t\<lparr>id_login_contexts := l\<rparr>) \<and> id_sessions (put_oauth x t\<lparr>id_login_contexts := l\<rparr>) = id_sessions s"
    "same_directory s (put_oauth x t\<lparr>id_test_contexts := i\<rparr>) \<and> id_sessions (put_oauth x t\<lparr>id_test_contexts := i\<rparr>) = id_sessions s"
    "same_directory s (put_oauth x t) \<and> id_sessions (put_oauth x t) = id_sessions s"
    if "same_directory s t" "id_sessions t = id_sessions s" for x t l i
    using that by (simp_all add: put_oauth_def same_directory_def snapshot_def)
  from assms show ?thesis
  proof (elim disjE)
    assume "issue_oauth_login_state m c now s = (s', r)"
    then show ?thesis by (cases rule: issue_login_cases) (use c put in simp_all)
  next
    assume "issue_oauth_test_state m d now s = (s', q)"
    then show ?thesis by (cases rule: issue_test_cases) (use c put in simp_all)
  next
    assume "oauth_marked s k now s'"
    then show ?thesis using put(3) [of s] by (auto simp: oauth_marked_def same_directory_def)
  qed
qed

lemma marked_run_inv:
  assumes "identity_inv E n s" "oauth_marked s k now s'"
  shows "identity_inv E n s'"
proof -
  have "same_directory s s' \<and> id_sessions s' = id_sessions s"
    using oauth_run_frames assms(2) by blast
  moreover have "oauth_inv n s'" using marked_inv assms by (auto simp: identity_inv_def)
  ultimately show ?thesis using oauth_write_inv [OF assms(1)] by blast
qed

lemma password_inv:
  assumes inv: "identity_inv E n s" and run: "change_password_and_rotate_session c now s = (s', r)"
  shows "identity_inv E n s'"
proof -
  have rec: "identity_inv E n (with_record (changed_record c p) s)"
    if "id_local_admin s = Some p" "local_admin_record_ok (changed_record c p)" for p
  proof -
    have "opt_all (has_account s) (la_user_id p)"
      using inv that(1) by (simp add: identity_inv_def directory_inv_def admin_inv_def)
    then show ?thesis
      using inv that(2) sessions_untouched [OF inv] set_admin_inv [of E s "changed_record c p"]
      by (simp add: identity_inv_def changed_record_def with_record_def same_sessions_def)
  qed
  have "sessions_inv s" using inv by (simp add: identity_inv_def)
  with run show ?thesis
  proof (cases rule: change_password_cases)
    case (stopped p e)
    then show ?thesis using only_sessions_inv [OF rec] by blast
  next
    case (changed p t)
    have "only_sessions (with_record (changed_record c p) s) s'"
      using changed(6,8) only_sessions_trans put_session_only by blast
    moreover have "sessions_inv s'"
      using changed(4,7,8) put_session_inv admin_session_filed by simp
    ultimately show ?thesis using only_sessions_inv [OF rec [OF changed(1,2)]] by blast
  qed (use inv in simp)
qed

lemma run_identity_inv:
  assumes inv: "identity_inv E n s" and ok: "identity_call_ok s c"
  shows "identity_inv E n (run_identity E n c s)"
proof -
  have d: "directory_inv E s" and r: "requests_inv s" and si: "sessions_inv s" and oi: "oauth_inv n s"
    and tr: "trail_inv E s"
    using inv by (simp_all add: identity_inv_def directory_inv_def)
  show ?thesis
  proof (cases c)
    case (IdApply command oc now)
    then show ?thesis using apply_command_inv [OF inv prod.collapse [symmetric]] by simp
  next
    case (IdSeed h now)
    obtain s' q where s': "seed_if_absent E h now s = (s', q)" by fastforce
    then have "identity_inv E n s'"
      by (cases rule: seed_run) (use inv apply_command_inv in auto)
    then show ?thesis by (simp add: IdSeed s')
  next
    case (IdStarted a now)
    then show ?thesis
      using appended_or_same_inv [OF inv append_started_effect [OF prod.collapse [symmetric]]] by simp
  next
    case (IdTerminal a now)
    then show ?thesis
      using appended_or_same_inv [OF inv append_terminal_effect [OF prod.collapse [symmetric] tr]] by simp
  next
    case (IdDenied a now)
    then show ?thesis
      using appended_or_same_inv [OF inv append_denied_effect [OF prod.collapse [symmetric]]] by simp
  next
    case (IdActivate a now fresh)
    obtain s' q where s': "create_or_reuse E a now fresh s = (s', q)" by fastforce
    have "directory_inv E s'"
      using create_or_reuse_inv [OF s' d] ok by (simp add: IdActivate create_activation_command_ok_def)
    moreover have "same_sessions s s'"
      using s' r by (cases rule: create_or_reuse_cases)
        (auto simp: same_sessions_def with_requests_def put_activation_def)
    ultimately show ?thesis using sessions_untouched [OF inv] by (simp add: IdActivate s')
  next
    case (IdPurge now)
    have "same_sessions s (with_requests (retained now (id_activations s)) s)"
      by (simp add: same_sessions_def with_requests_def)
    then show ?thesis
      using sessions_untouched [OF inv _ retained_inv [OF d]] by (simp add: IdPurge purge_run [OF r])
  next
    case (IdPassword a now)
    then show ?thesis using password_inv [OF inv prod.collapse [symmetric]] by simp
  next
    case (IdIssueLogin a now)
    then show ?thesis
      using oauth_write_inv [OF inv issue_login_inv [OF oi _ prod.collapse [symmetric]]]
        oauth_run_frames [OF disjI1, OF prod.collapse [symmetric]] ok by simp
  next
    case (IdIssueTest a now)
    then show ?thesis
      using oauth_write_inv [OF inv issue_test_inv [OF oi _ prod.collapse [symmetric]]]
        oauth_run_frames [OF disjI2, OF disjI1, OF prod.collapse [symmetric]] ok by simp
  next
    case (IdConsumeLogin k now)
    obtain s' q where s': "consume_oauth_login_state k now s = (s', q)" by fastforce
    then have "s' = s \<or> oauth_marked s k now s'" using consume_cases by blast
    then have "identity_inv E n s'" using inv marked_run_inv [OF inv] by blast
    then show ?thesis by (simp add: IdConsumeLogin s')
  next
    case (IdConsumeTest k now)
    obtain s' q where s': "consume_oauth_test_state k now s = (s', q)" by fastforce
    then have "s' = s \<or> oauth_marked s k now s'" using consume_cases by blast
    then have "identity_inv E n s'" using inv marked_run_inv [OF inv] by blast
    then show ?thesis by (simp add: IdConsumeTest s')
  next
    case (IdRotate a now)
    then show ?thesis
      using only_sessions_inv [OF inv] rotate_session_cases [OF prod.collapse [symmetric] si] by simp
  next
    case (IdRevoke k now)
    then show ?thesis
      using only_sessions_inv [OF inv] revoke_session_cases [OF prod.collapse [symmetric] si] by simp
  qed
qed

lemma empty_identity_inv: "identity_inv E n empty_identity"
  by (simp add: identity_inv_def directory_inv_def accounts_inv_def roles_inv_def bindings_inv_def
      trail_inv_def requests_inv_def admin_inv_def oauth_inv_def sessions_inv_def empty_identity_def
      pending_count_def dvals_def)

end
