(* ===== verification/Identity_Trail.thy ===== *)
theory Identity_Trail
  imports Identity_Runs
begin

text \<open>
  What runs of the identity stores leave on record: no step changes who may do what without an audit
  event that says so, only \<open>apply\<close> writes the success of a directory command, and what is consumed,
  revoked or decided stays so (the interpretations of \<open>spent_for_good\<close>).
\<close>

subsection \<open>One step and its events\<close>

text \<open>Who may do what: the accounts, the roles, the bindings and the account of the local administrator.\<close>

definition authority ::
  "identity_state \<Rightarrow> (string, user_account) dict \<times> (string \<times> string \<times> string, role_assignment) dict
     \<times> (string \<times> string \<times> string \<times> string, external_identity) dict \<times> string option" where
  "authority s = (id_accounts s, id_roles s, id_bindings s, Option.bind (id_local_admin s) la_user_id)"

definition recorded_step :: "py_env \<Rightarrow> identity_state \<Rightarrow> audit_event list \<Rightarrow> identity_state \<Rightarrow> bool" where
  "recorded_step E s evs s' \<longleftrightarrow> trail_grows s evs s' \<and> roles_recorded E s evs s'
     \<and> statuses_recorded E s evs s' \<and> (evs = [] \<longrightarrow> authority s' = authority s)"

lemma authority_kept:
  "authority s' = authority s \<Longrightarrow> role_at s' = role_at s \<and> status_at s' = status_at s"
  by (simp add: authority_def role_at_def status_at_def fun_eq_iff)

lemma recorded_quiet:
  assumes "authority s' = authority s" "id_events s' = id_events s"
  shows "recorded_step E s [] s'"
  using authority_kept [OF assms(1)] assms
  by (simp add: recorded_step_def trail_grows_def roles_recorded_def statuses_recorded_def)

lemma recorded_append: "appended E s e s' \<Longrightarrow> recorded_step E s [e] s'"
  by (simp add: appended_def recorded_step_def trail_grows_def roles_recorded_def statuses_recorded_def
      role_at_def status_at_def)

lemma same_directory_quiet: "same_directory s s' \<Longrightarrow> recorded_step E s [] s'"
  by (rule recorded_quiet) (simp_all add: same_directory_def snapshot_def authority_def)

lemma recorded_step_trans:
  assumes "recorded_step E s evs t" "recorded_step E t evs' u"
  shows "recorded_step E s (evs @ evs') u"
proof -
  have "roles_recorded E s (evs @ evs') u" "statuses_recorded E s (evs @ evs') u"
    using assms unfolding recorded_step_def roles_recorded_def statuses_recorded_def
    by (metis UnI1 UnI2 set_append)+
  then show ?thesis using assms by (simp add: recorded_step_def trail_grows_def)
qed

definition directory_success :: "audit_event \<Rightarrow> bool" where
  "directory_success e \<longleftrightarrow> ac_outcome e = AO_SUCCEEDED \<and> ac_action e \<in> DIRECTORY_ACTIONS"

fun derived_by :: "py_env \<Rightarrow> identity_call \<Rightarrow> audit_event \<Rightarrow> bool" where
  "derived_by E (IdApply command oc now) e \<longleftrightarrow> derived E command oc e"
| "derived_by E (IdSeed h now) e \<longleftrightarrow>
     derived E (BootstrapLocalAdmin (bootstrap_local_admin_command h)) bootstrap_operation_context e"
| "derived_by E c e \<longleftrightarrow> False"

definition accounted_step ::
  "py_env \<Rightarrow> identity_state \<Rightarrow> (audit_event \<Rightarrow> bool) \<Rightarrow> identity_state \<Rightarrow> bool" where
  "accounted_step E s p s' \<longleftrightarrow>
     (\<exists>evs. recorded_step E s evs s' \<and> (\<forall>e \<in> set evs. directory_success e \<longrightarrow> p e)
        \<and> (authority s' = authority s \<or> (\<forall>e \<in> set evs. p e)))"

lemma accounted_quiet: "recorded_step E s [] s' \<Longrightarrow> accounted_step E s p s'"
  by (auto simp: accounted_step_def)

lemma accounted_refl [simp]: "accounted_step E s p s"
  by (rule accounted_quiet) (simp add: recorded_quiet)

lemma accounted_append:
  "appended_or_same E q s s' \<Longrightarrow> (\<And>e. q e \<Longrightarrow> \<not> directory_success e) \<Longrightarrow> accounted_step E s p s'"
proof -
  assume a: "appended_or_same E q s s'" and q: "\<And>e. q e \<Longrightarrow> \<not> directory_success e"
  have "accounted_step E s p s'" if "appended E s e s'" "q e" for e
    unfolding accounted_step_def
    by (rule exI [of _ "[e]"]) (use that q recorded_append in \<open>auto simp: appended_def authority_def\<close>)
  then show ?thesis using a unfolding appended_or_same_def by (metis accounted_refl)
qed

lemma accounted_apply:
  assumes "directory_inv E s" "apply_command E command oc now s = (s', r)"
  shows "accounted_step E s (derived E command oc) s'"
  using assms(2)
proof (cases rule: apply_command_cases)
  case (applied evs)
  have "s' = s" if "evs = []"
    using apply_locked_silent [of E command oc now s s'] applied(1) that by simp
  then have "recorded_step E s evs s'"
    using apply_locked_done [OF assms(1) applied(1)]
    by (auto simp: directory_done_def directory_effect_def directory_change_def recorded_step_def)
  then show ?thesis
    using apply_locked_derived [OF applied(1)] by (auto simp: accounted_step_def)
qed simp

lemma password_quiet:
  assumes "change_password_and_rotate_session c now s = (s', r)" "sessions_inv s"
  shows "recorded_step E s [] s'"
proof -
  have rec: "recorded_step E s [] t"
    if "id_local_admin s = Some p" "only_sessions (with_record (changed_record c p) s) t" for p t
    using only_sessions_frames [OF that(2)] that(1)
    by (intro recorded_quiet)
      (simp_all add: same_directory_def snapshot_def authority_def with_record_def changed_record_def)
  from assms show ?thesis
  proof (cases rule: change_password_cases)
    case (changed p t)
    then show ?thesis using rec only_sessions_trans put_session_only by blast
  qed (use rec in \<open>auto intro: recorded_quiet\<close>)
qed

lemma step_accounted:
  assumes step: "identity_step E n s c s'" and inv: "identity_inv E n s"
  shows "accounted_step E s (derived_by E c) s'"
proof -
  have s': "s' = run_identity E n c s" using step by (elim identity_stepE)
  have d: "directory_inv E s" and r: "requests_inv s" and si: "sessions_inv s" and tr: "trail_inv E s"
    using inv by (simp_all add: identity_inv_def directory_inv_def)
  have oauth: "accounted_step E s (derived_by E c) t" if "t = s \<or> oauth_marked s k now t" for k now t
    using that oauth_run_frames same_directory_quiet accounted_quiet accounted_refl by blast
  show ?thesis
  proof (cases c)
    case (IdApply command oc now)
    have "derived_by E c = derived E command oc" by (simp add: IdApply fun_eq_iff)
    then show ?thesis using accounted_apply [OF d prod.collapse [symmetric]] by (simp add: s' IdApply)
  next
    case (IdSeed h now)
    have p: "derived_by E c = derived E (BootstrapLocalAdmin (bootstrap_local_admin_command h))
        bootstrap_operation_context"
      by (simp add: IdSeed fun_eq_iff)
    obtain t q where t: "seed_if_absent E h now s = (t, q)" by fastforce
    then have "accounted_step E s (derived_by E c) t"
      by (cases rule: seed_run) (use d accounted_apply p in auto)
    then show ?thesis by (simp add: s' IdSeed t)
  next
    case (IdStarted a now)
    show ?thesis
      using append_started_effect [OF prod.collapse [symmetric], where E = E and a = a and now = now and s = s]
      by (auto simp: s' IdStarted directory_success_def intro: accounted_append)
  next
    case (IdTerminal a now)
    show ?thesis
      using append_terminal_effect [OF prod.collapse [symmetric] tr, where a = a and now = now]
      by (auto simp: s' IdTerminal directory_success_def intro: accounted_append)
  next
    case (IdDenied a now)
    show ?thesis
      using append_denied_effect [OF prod.collapse [symmetric], where E = E and a = a and now = now and s = s]
      by (auto simp: s' IdDenied directory_success_def intro: accounted_append)
  next
    case (IdActivate a now fresh)
    obtain t q where t: "create_or_reuse E a now fresh s = (t, q)" by fastforce
    then have "recorded_step E s [] t"
      using r by (cases rule: create_or_reuse_cases)
        (auto intro!: recorded_quiet simp: authority_def with_requests_def put_activation_def)
    then show ?thesis by (simp add: s' IdActivate t accounted_quiet)
  next
    case (IdPurge now)
    have "recorded_step E s [] (with_requests (retained now (id_activations s)) s)"
      by (rule recorded_quiet) (simp_all add: authority_def with_requests_def)
    then show ?thesis by (simp add: s' IdPurge purge_run [OF r] accounted_quiet)
  next
    case (IdPassword a now)
    then show ?thesis
      using password_quiet [OF prod.collapse [symmetric] si] by (simp add: s' accounted_quiet)
  next
    case (IdIssueLogin a now)
    then show ?thesis
      using oauth_run_frames [OF disjI1, OF prod.collapse [symmetric]] same_directory_quiet
      by (simp add: s' accounted_quiet)
  next
    case (IdIssueTest a now)
    then show ?thesis
      using oauth_run_frames [OF disjI2, OF disjI1, OF prod.collapse [symmetric]] same_directory_quiet
      by (simp add: s' accounted_quiet)
  next
    case (IdConsumeLogin k now)
    obtain t q where t: "consume_oauth_login_state k now s = (t, q)" by fastforce
    then have "accounted_step E s (derived_by E c) t" using consume_cases oauth by blast
    then show ?thesis by (simp add: s' IdConsumeLogin t)
  next
    case (IdConsumeTest k now)
    obtain t q where t: "consume_oauth_test_state k now s = (t, q)" by fastforce
    then have "accounted_step E s (derived_by E c) t" using consume_cases oauth by blast
    then show ?thesis by (simp add: s' IdConsumeTest t)
  next
    case (IdRotate a now)
    then show ?thesis
      using rotate_session_cases [OF prod.collapse [symmetric] si] only_sessions_frames same_directory_quiet
        accounted_quiet by (metis s' run_identity.simps(13))
  next
    case (IdRevoke k now)
    then show ?thesis
      using revoke_session_cases [OF prod.collapse [symmetric] si] only_sessions_frames same_directory_quiet
        accounted_quiet by (metis s' run_identity.simps(14))
  qed
qed

end
