(* ===== verification/Identity_Spent.thy ===== *)
theory Identity_Spent
  imports Identity_Trail
begin

text \<open>
  The three things of the identity stores that stay spent: a consumed OAuth state, a revoked session
  and a decided activation request. Each is an interpretation of \<open>spent_for_good\<close> on the steps of the
  stores, where only a named call can renew the thing.
\<close>

subsection \<open>Which call touches what\<close>

fun directory_call :: "identity_call \<Rightarrow> bool" where
  "directory_call (IdApply command oc now) = True"
| "directory_call (IdSeed h now) = True"
| "directory_call (IdStarted a now) = True"
| "directory_call (IdTerminal a now) = True"
| "directory_call (IdDenied a now) = True"
| "directory_call (IdActivate a now fresh) = True"
| "directory_call (IdPurge now) = True"
| "directory_call c = False"

fun oauth_call :: "identity_call \<Rightarrow> bool" where
  "oauth_call (IdIssueLogin a now) = True"
| "oauth_call (IdIssueTest a now) = True"
| "oauth_call (IdConsumeLogin k now) = True"
| "oauth_call (IdConsumeTest k now) = True"
| "oauth_call c = False"

lemma apply_command_frame:
  assumes "directory_inv E s" "apply_command E command oc now s = (s', r)"
  shows "same_sessions s s' \<and> requests_step s s'"
  using assms(2)
proof (cases rule: apply_command_cases)
  case (applied evs)
  then show ?thesis
    using apply_locked_done [OF assms(1)]
    by (auto simp: directory_done_def directory_effect_def directory_change_def)
qed simp

lemma seed_frame:
  assumes "directory_inv E s" "seed_if_absent E h now s = (s', r)"
  shows "same_sessions s s' \<and> requests_step s s'"
  using assms(2) by (cases rule: seed_run) (use apply_command_frame [OF assms(1)] in auto)

lemma appended_frame: "appended_or_same E p s s' \<Longrightarrow> same_sessions s s' \<and> requests_step s s'"
  by (auto simp: appended_or_same_def appended_def same_sessions_def intro: requests_step_frame)

lemma directory_call_frame:
  assumes "directory_call c" "identity_inv E n s"
  shows "same_sessions s (run_identity E n c s)"
proof -
  have d: "directory_inv E s" "trail_inv E s" "requests_inv s"
    using assms(2) by (simp_all add: identity_inv_def directory_inv_def)
  show ?thesis
  proof (cases c)
    case (IdActivate a now fresh)
    obtain t q where t: "create_or_reuse E a now fresh s = (t, q)" by fastforce
    then have "same_sessions s t"
      using d(3) by (cases rule: create_or_reuse_cases)
        (auto simp: same_sessions_def with_requests_def put_activation_def)
    then show ?thesis by (simp add: IdActivate t)
  next
    case (IdPurge now)
    then show ?thesis by (simp add: purge_run [OF d(3)] same_sessions_def with_requests_def)
  next
    case (IdApply command oc now)
    then show ?thesis using apply_command_frame [OF d(1) prod.collapse [symmetric]] by simp
  next
    case (IdSeed h now)
    then show ?thesis using seed_frame [OF d(1) prod.collapse [symmetric]] by simp
  next
    case (IdStarted a now)
    then show ?thesis using appended_frame [OF append_started_effect [OF prod.collapse [symmetric]]] by simp
  next
    case (IdTerminal a now)
    then show ?thesis
      using appended_frame [OF append_terminal_effect [OF prod.collapse [symmetric] d(2)]] by simp
  next
    case (IdDenied a now)
    then show ?thesis using appended_frame [OF append_denied_effect [OF prod.collapse [symmetric]]] by simp
  qed (use assms(1) in simp_all)
qed

lemma marked_or_same:
  assumes "t = s \<or> oauth_marked s k now t"
  shows "same_directory s t \<and> id_sessions t = id_sessions s"
proof (cases "t = s")
  case False
  then have "oauth_marked s k now t" using assms by simp
  then show ?thesis using oauth_run_frames by blast
qed (simp add: same_directory_def)

lemma oauth_call_frame:
  assumes "oauth_call c"
  shows "same_directory s (run_identity E n c s) \<and> id_sessions (run_identity E n c s) = id_sessions s"
proof (cases c)
  case (IdConsumeLogin k now)
  obtain t q where t: "consume_oauth_login_state k now s = (t, q)" by fastforce
  then have "same_directory s t \<and> id_sessions t = id_sessions s" using consume_cases marked_or_same by blast
  then show ?thesis by (simp add: IdConsumeLogin t)
next
  case (IdConsumeTest k now)
  obtain t q where t: "consume_oauth_test_state k now s = (t, q)" by fastforce
  then have "same_directory s t \<and> id_sessions t = id_sessions s" using consume_cases marked_or_same by blast
  then show ?thesis by (simp add: IdConsumeTest t)
next
  case (IdIssueLogin a now)
  obtain t q where t: "issue_oauth_login_state n a now s = (t, q)" by fastforce
  then show ?thesis using oauth_run_frames by (simp add: IdIssueLogin) blast
next
  case (IdIssueTest a now)
  obtain t q where t: "issue_oauth_test_state n a now s = (t, q)" by fastforce
  then show ?thesis using oauth_run_frames by (simp add: IdIssueTest) blast
qed (use assms in simp_all)

lemma session_call_frame:
  assumes "\<not> directory_call c" "\<not> oauth_call c" "sessions_inv s"
  shows "same_oauth s (run_identity E n c s) \<and> id_activations (run_identity E n c s) = id_activations s"
proof -
  have o: "same_oauth s t \<and> id_activations t = id_activations s" if "only_sessions s t" for t
    using only_sessions_frames [OF that] by (simp add: same_directory_def snapshot_def)
  show ?thesis
  proof (cases c)
    case (IdPassword a now)
    obtain t q where t: "change_password_and_rotate_session a now s = (t, q)" by fastforce
    have w: "same_oauth s t \<and> id_activations t = id_activations s"
      if "only_sessions (with_record r s) t" for r t
      using only_sessions_frames [OF that]
      by (simp add: same_directory_def snapshot_def same_oauth_def with_record_def)
    from t assms(3) have "same_oauth s t \<and> id_activations t = id_activations s"
    proof (cases rule: change_password_cases)
      case (changed p u)
      then show ?thesis using w only_sessions_trans put_session_only by blast
    qed (use w in \<open>auto simp: same_oauth_def\<close>)
    then show ?thesis by (simp add: IdPassword t)
  next
    case (IdRotate a now)
    obtain t q where t: "rotate_session a now s = (t, q)" by fastforce
    have "only_sessions s t" using rotate_session_cases [OF t assms(3)] by blast
    from o [OF this] show ?thesis by (simp add: IdRotate t)
  next
    case (IdRevoke k now)
    obtain t q where t: "revoke_session k now s = (t, q)" by fastforce
    have "only_sessions s t" using revoke_session_cases [OF t assms(3)] by blast
    from o [OF this] show ?thesis by (simp add: IdRevoke t)
  qed (use assms(1,2) in simp_all)
qed

subsection \<open>Consumed OAuth states\<close>

definition oauth_spent :: "identity_state \<Rightarrow> string \<Rightarrow> bool" where
  "oauth_spent s k \<longleftrightarrow> (case dget (id_oauth_states s) k of
      None \<Rightarrow> True | Some st \<Rightarrow> oa_consumed_at st \<noteq> None)"

fun issues_state :: "identity_call \<Rightarrow> string \<Rightarrow> bool" where
  "issues_state (IdIssueLogin a now) k \<longleftrightarrow> is_state_digest a = k"
| "issues_state (IdIssueTest a now) k \<longleftrightarrow> is_state_digest a = k"
| "issues_state c k \<longleftrightarrow> False"

lemma cleaned_spent: "oauth_inv n s \<Longrightarrow> oauth_spent s k \<Longrightarrow> oauth_spent (cleaned now s) k"
  by (auto simp: oauth_spent_def cleaned_get split: option.splits)

lemma marked_spent:
  assumes "oauth_inv n s" "oauth_marked s j now s'"
  shows "oauth_spent s' j" "oauth_spent s k \<Longrightarrow> oauth_spent s' k"
proof -
  obtain st where "dget (id_oauth_states s) j = Some st" "s' = put_oauth (consumed now st) s"
    using assms(2) by (auto simp: oauth_marked_def)
  moreover from this have "oa_state_digest st = j" using assms(1) by (simp add: oauth_inv_def)
  ultimately show "oauth_spent s' j" "oauth_spent s k \<Longrightarrow> oauth_spent s' k"
    by (auto simp: oauth_spent_def put_oauth_def consumed_def)
qed

lemma oauth_spent_step:
  assumes inv: "identity_inv E n s" and step: "identity_step E n s c s'"
    and other: "\<not> issues_state c k" and spent: "oauth_spent s k"
  shows "oauth_spent s' k"
proof -
  have s': "s' = run_identity E n c s" using step by (elim identity_stepE)
  have i: "oauth_inv n s" "sessions_inv s" using inv by (simp_all add: identity_inv_def)
  note marks = marked_spent(2) [OF i(1) _ spent]
  show ?thesis
  proof (cases "oauth_call c")
    case False
    then have "id_oauth_states s' = id_oauth_states s"
      using directory_call_frame [OF _ inv, of c] session_call_frame [OF _ False i(2), of E n]
      by (cases "directory_call c") (simp_all add: s' same_sessions_def same_oauth_def)
    then show ?thesis using spent by (simp add: oauth_spent_def)
  next
    case True
    then show ?thesis
    proof (cases c)
      case (IdIssueLogin a now)
      obtain t q where t: "issue_oauth_login_state n a now s = (t, q)" by fastforce
      then have "oauth_spent t k"
        using other IdIssueLogin cleaned_spent [OF i(1) spent]
        by (cases rule: issue_login_cases) (auto simp: oauth_spent_def put_oauth_def issued_def)
      then show ?thesis by (simp add: s' IdIssueLogin t)
    next
      case (IdIssueTest a now)
      obtain t q where t: "issue_oauth_test_state n a now s = (t, q)" by fastforce
      then have "oauth_spent t k"
        using other IdIssueTest cleaned_spent [OF i(1) spent]
        by (cases rule: issue_test_cases) (auto simp: oauth_spent_def put_oauth_def issued_def)
      then show ?thesis by (simp add: s' IdIssueTest t)
    next
      case (IdConsumeLogin j now)
      obtain t q where t: "consume_oauth_login_state j now s = (t, q)" by fastforce
      then have "t = s \<or> oauth_marked s j now t" using consume_cases by blast
      then show ?thesis using marks spent by (auto simp: s' IdConsumeLogin t)
    next
      case (IdConsumeTest j now)
      obtain t q where t: "consume_oauth_test_state j now s = (t, q)" by fastforce
      then have "t = s \<or> oauth_marked s j now t" using consume_cases by blast
      then show ?thesis using marks spent by (auto simp: s' IdConsumeTest t)
    qed simp_all
  qed
qed

lemma identity_step_inv: "identity_inv E n s \<Longrightarrow> identity_step E n s c s' \<Longrightarrow> identity_inv E n s'"
  by (elim identity_stepE) (simp add: run_identity_inv)

interpretation oauth: spent_for_good "identity_step E n" "identity_inv E n" oauth_spent issues_state
  for E n
  by unfold_locales (rule identity_step_inv oauth_spent_step; assumption)+

lemma spent_refused:
  assumes "oauth_spent s k"
  shows "consume_oauth_login_state k now s = (s, Inl OAuthStateNotFoundError)"
    and "consume_oauth_test_state k now s = (s, Inl OAuthStateNotFoundError)"
  using assms unfolding consume_oauth_login_state_def consume_oauth_test_state_def live_oauth_state_def
  by (auto simp: oauth_spent_def oauth_stale_def op_run_simps split: option.splits)

subsection \<open>Revoked sessions\<close>

text \<open>A revoked session stays as it is, unless a change of the password takes its digest.\<close>

fun revoked_as :: "identity_state \<Rightarrow> string \<times> web_session \<Rightarrow> bool" where
  "revoked_as s (k, w) \<longleftrightarrow> dget (id_sessions s) k = Some w \<and> ws_revoked_at w \<noteq> None"

fun replaces_session :: "identity_call \<Rightarrow> string \<times> web_session \<Rightarrow> bool" where
  "replaces_session (IdPassword a now) (k, w) \<longleftrightarrow> cp_new_session_digest a = k"
| "replaces_session c p \<longleftrightarrow> False"

lemma sessions_step_revoked: "sessions_step s s' \<Longrightarrow> revoked_as s p \<Longrightarrow> revoked_as s' p"
  unfolding sessions_step_def using session_step_revoked by (cases p) fastforce

lemma revoked_as_step:
  assumes inv: "identity_inv E n s" and step: "identity_step E n s c s'"
    and other: "\<not> replaces_session c p" and spent: "revoked_as s p"
  shows "revoked_as s' p"
proof -
  have s': "s' = run_identity E n c s" using step by (elim identity_stepE)
  have i: "sessions_inv s" using inv by (simp add: identity_inv_def)
  note steps = sessions_step_revoked [OF _ spent]
  show ?thesis
  proof (cases "directory_call c \<or> oauth_call c")
    case True
    then have "id_sessions s' = id_sessions s"
      using directory_call_frame [OF _ inv, of c] oauth_call_frame [of c s E n]
      by (auto simp: s' same_sessions_def)
    then show ?thesis using steps sessions_step_frame by blast
  next
    case False
    then show ?thesis
    proof (cases c)
      case (IdPassword a now)
      obtain t q where t: "change_password_and_rotate_session a now s = (t, q)" by fastforce
      from t i have "revoked_as t p"
      proof (cases rule: change_password_cases)
        case (changed r u)
        have "revoked_as u p" using steps changed(5) by blast
        then show ?thesis using other by (cases p) (simp add: changed(8) IdPassword)
      qed (use steps spent in auto)
      then show ?thesis by (simp add: s' IdPassword t)
    next
      case (IdRotate a now)
      obtain t q where t: "rotate_session a now s = (t, q)" by fastforce
      have "sessions_step s t" using rotate_session_cases [OF t i] by blast
      then show ?thesis using steps by (simp add: s' IdRotate t)
    next
      case (IdRevoke k now)
      obtain t q where t: "revoke_session k now s = (t, q)" by fastforce
      have "sessions_step s t" using revoke_session_cases [OF t i] by blast
      then show ?thesis using steps by (simp add: s' IdRevoke t)
    qed simp_all
  qed
qed

interpretation sessions: spent_for_good "identity_step E n" "identity_inv E n" revoked_as replaces_session
  for E n
  by unfold_locales (rule identity_step_inv revoked_as_step; assumption)+

lemma revoked_refused:
  "revoked_as s (k, w) \<Longrightarrow> wl_session_digest q = k \<Longrightarrow> get_session s q now = Inl WebSessionNotFoundError"
  by (auto simp: get_session_def)

subsection \<open>Decided activation requests\<close>

text \<open>A request that is decided keeps its decision until retention drops it.\<close>

fun decided_as :: "identity_state \<Rightarrow> string \<times> activation_request \<Rightarrow> bool" where
  "decided_as s (k, r) \<longleftrightarrow> \<not> is_pending r
     \<and> (dget (id_activations s) k = None \<or> dget (id_activations s) k = Some r)"

fun reopens :: "identity_call \<Rightarrow> string \<times> activation_request \<Rightarrow> bool" where
  "reopens (IdActivate a now fresh) (k, r) \<longleftrightarrow> fresh = k"
| "reopens c p \<longleftrightarrow> False"

lemma requests_step_decided:
  assumes "requests_step s s'" "decided_as s p"
  shows "decided_as s' p"
proof -
  obtain k r where p: "p = (k, r)" by fastforce
  have "q = r" if "dget (id_activations s) k = Some r" "dget (id_activations s') k = Some q" for q
  proof -
    have "request_step r q" using assms(1) that by (simp add: requests_step_def)
    then show ?thesis using assms(2) p by (auto simp: request_step_def is_pending_def)
  qed
  moreover have "dget (id_activations s) k = None \<longleftrightarrow> dget (id_activations s') k = None"
    using assms(1) by (simp add: requests_step_def)
  ultimately show ?thesis using assms(2) p by (cases "dget (id_activations s') k") auto
qed

lemma decided_as_step:
  assumes inv: "identity_inv E n s" and step: "identity_step E n s c s'"
    and other: "\<not> reopens c p" and spent: "decided_as s p"
  shows "decided_as s' p"
proof -
  have s': "s' = run_identity E n c s" using step by (elim identity_stepE)
  have d: "directory_inv E s" "trail_inv E s" "requests_inv s" and i: "sessions_inv s"
    using inv by (simp_all add: identity_inv_def directory_inv_def)
  note steps = requests_step_decided [OF _ spent]
  show ?thesis
  proof (cases "directory_call c")
    case False
    then have "id_activations s' = id_activations s"
      using oauth_call_frame [of c s E n] session_call_frame [OF False _ i, of E n]
      by (cases "oauth_call c") (simp_all add: s' same_directory_def snapshot_def)
    then show ?thesis using steps requests_step_frame by blast
  next
    case True
    then show ?thesis
    proof (cases c)
      case (IdApply command oc now)
      then show ?thesis using steps apply_command_frame [OF d(1) prod.collapse [symmetric]] by (simp add: s')
    next
      case (IdSeed h now)
      then show ?thesis using steps seed_frame [OF d(1) prod.collapse [symmetric]] by (simp add: s')
    next
      case (IdStarted a now)
      then show ?thesis
        using steps appended_frame [OF append_started_effect [OF prod.collapse [symmetric]]] by (simp add: s')
    next
      case (IdTerminal a now)
      then show ?thesis
        using steps appended_frame [OF append_terminal_effect [OF prod.collapse [symmetric] d(2)]]
        by (simp add: s')
    next
      case (IdDenied a now)
      then show ?thesis
        using steps appended_frame [OF append_denied_effect [OF prod.collapse [symmetric]]] by (simp add: s')
    next
      case (IdActivate a now fresh)
      obtain t q where t: "create_or_reuse E a now fresh s = (t, q)" by fastforce
      note e = steps [OF expire_all_step [of s now]]
      from t d(3) have "decided_as t p"
      proof (cases rule: create_or_reuse_cases)
        case created
        have "fst p \<noteq> fresh" using other IdActivate by (cases p) simp
        then show ?thesis using e by (cases p) (simp add: created(1) put_activation_def)
      qed (use e in simp_all)
      then show ?thesis by (simp add: s' IdActivate t)
    next
      case (IdPurge now)
      have "decided_as (with_requests (retained now (id_activations s)) s) p"
        using steps [OF expire_all_step [of s now]] dget_retained [OF d(3), of now]
        by (cases p) (auto simp: dget_expire_all split: option.splits)
      then show ?thesis by (simp add: s' IdPurge purge_run [OF d(3)])
    qed simp_all
  qed
qed

interpretation requests: spent_for_good "identity_step E n" "identity_inv E n" decided_as reopens
  for E n
  by unfold_locales (rule identity_step_inv decided_as_step; assumption)+

end
