(* ===== verification/Identity_Demo.thy ===== *)
theory Identity_Demo
  imports Identity_Spent
begin

text \<open>
  A small concrete state of the identity stores, on which the hypotheses of the properties are seen to
  hold: the local administrator with a session, an account without a role, one pending activation
  request and one OAuth login state.
\<close>

subsection \<open>Concrete strings\<close>

lemmas local_admin_constants = LOCAL_ADMIN_USER_ID_def LOCAL_ADMIN_ACTOR_def LOCAL_ADMIN_TENANT_ID_def
  LOCAL_ADMIN_ENVIRONMENT_ID_def LOCAL_ADMIN_DISPLAY_NAME_def LOCAL_ADMIN_SUBJECT_REF_def
  BOOTSTRAP_ACTOR_USER_ID_def BOOTSTRAP_OPERATION_ID_def

lemma bounded_ascii:
  assumes "s \<noteq> [] \<and> ascii_alnum (hd s) \<and> ascii_alnum (last s) \<and> list_all (\<lambda>c. of_char c < (128 :: nat)) s"
    and "int (length s) \<le> n"
  shows "bounded_str n s"
proof -
  have "list_all (\<lambda>c. of_char c div 64 \<noteq> (2 :: nat)) s"
    using assms(1) by (auto simp: list_all_iff)
  then have "char_len s = int (length s)" by (simp add: char_len_def list_all_iff)
  moreover have "strict_str s" using assms(1) by (intro strict_strI) simp_all
  ultimately show ?thesis using assms by (cases s) (simp_all add: bounded_str_def)
qed

lemma demo_bounded_strings [simp]:
  "bounded_id ''dev-local''" "bounded_id ''dev''" "bounded_id ''local-admin''" "bounded_id ''user-ann''"
  "bounded_id ''req-1''" "bounded_str 48 ''op-1''" "bounded_id ''op-1''" "bounded_actor ''admin''"
  "bounded_actor ''ann''" "bounded_name ''Local Admin''" "bounded_name ''Ann''" "controlled_pii ''ou-7''"
  "bounded_id ''system-bootstrap''" "bounded_id ''bootstrap-local-admin''"
  "bounded_str 48 ''bootstrap-local-admin''" "bounded_actor ''system-bootstrap''"
  by (rule bounded_ascii; code_simp)+

lemma demo_strict_strings [simp]: "strict_str ''argon''" "strict_str ''local-admin''"
  by (rule strict_strI; code_simp)+

definition demo_digest :: "char \<Rightarrow> string" where
  "demo_digest c = replicate 64 c"

lemma demo_digest_facts [simp]:
  "demo_digest c = demo_digest d \<longleftrightarrow> c = d"
  "sha256_hex (demo_digest CHR ''a'')" "sha256_hex (demo_digest CHR ''b'')"
  "sha256_hex (demo_digest CHR ''c'')" "sha256_hex (demo_digest CHR ''d'')"
  by (auto simp: demo_digest_def sha256_hex_def lower_hex_def list_all_iff)

lemma demo_sha [simp]: "sha256_hex (env_sha256 demo_env m)" "bounded_id (env_sha256 demo_env m)"
  using demo_env_ok sha256_hex_bounded by (simp_all add: py_env_ok_def)

lemma demo_named_digests [simp]:
  "sha256_hex (admin_audit_target_digest demo_env k r)" "sha256_hex (activation_subject_digest demo_env c)"
  "bounded_id (stage_event_id demo_env i t)"
  by (simp_all add: admin_audit_target_digest_def activation_subject_digest_def stage_event_id_def)

subsection \<open>The state\<close>

definition demo_request :: create_activation_command where
  "demo_request = \<lparr>ca_tenant_id = ''dev-local'', ca_environment_id = ''dev'', ca_provider = SRC_FEISHU,
     ca_subject_ref = ''ou-7'', ca_source = FROM_WEB_LOGIN,
     ca_return_intent = Some \<lparr>ri_kind = RI_WORKBENCH, ri_task_id = None, ri_request_id = None\<rparr>,
     ca_source_event_ref = None, ca_source_chat_ref = None\<rparr>"

definition demo_admin_role :: role_assignment where
  "demo_admin_role = \<lparr>ra_user_id = ''local-admin'', ra_tenant_id = ''dev-local'', ra_environment_id = ''dev'',
     ra_role = ROLE_ADMIN, ra_created_by = ''local-admin'', ra_created_at = 0, ra_updated_at = 0\<rparr>"

definition demo_session :: web_session where
  "demo_session = \<lparr>ws_session_digest = demo_digest CHR ''a'', ws_subject_ref = ''local-admin'',
     ws_issued_at = 0, ws_expires_at = seconds 600, ws_revoked_at = None, ws_auth_source = SRC_LOCAL_ADMIN,
     ws_public_origin_digest = demo_digest CHR ''b''\<rparr>"

definition demo_oauth :: oauth_state where
  "demo_oauth = \<lparr>oa_state_digest = demo_digest CHR ''c'', oa_issued_at = 0, oa_expires_at = seconds 60,
     oa_consumed_at = None\<rparr>"

definition demo_pending :: activation_request where
  "demo_pending = new_activation demo_env demo_request 0 ''req-1''"

definition demo_identity :: identity_state where
  "demo_identity = empty_identity\<lparr>
     id_accounts := [(''local-admin'', new_account ''local-admin'' ''admin'' ''Local Admin'' 0),
       (''user-ann'', new_account ''user-ann'' ''ann'' ''Ann'' 0)],
     id_roles := [((''local-admin'', ''dev-local'', ''dev''), demo_admin_role)],
     id_local_admin := Some \<lparr>la_password_hash = ''argon'', la_must_change_password = True,
       la_user_id = Some ''local-admin''\<rparr>,
     id_activations := [(''req-1'', demo_pending)],
     id_sessions := [(demo_digest CHR ''a'', demo_session)],
     id_oauth_states := [(demo_digest CHR ''c'', demo_oauth)],
     id_login_contexts := [(demo_digest CHR ''c'',
       \<lparr>ri_kind = RI_WORKBENCH, ri_task_id = None, ri_request_id = None\<rparr>)]\<rparr>"

definition demo_operation :: operation_context where
  "demo_operation = \<lparr>oc_operation_id = ''op-1'', oc_actor_user_id = ''local-admin'', oc_actor = ''admin'',
     oc_auth_source = SRC_LOCAL_ADMIN\<rparr>"

definition demo_approval :: approve_command where
  "demo_approval = \<lparr>ad_request_id = ''req-1'', ad_tenant_id = ''dev-local'', ad_environment_id = ''dev'',
     ap_actor = ''ann'', ap_display_name = ''Ann'', ap_approved_role = ROLE_USER\<rparr>"

lemma demo_request_ok [simp]: "create_activation_command_ok demo_request"
  by (simp add: create_activation_command_ok_def demo_request_def return_intent_ok_def validate_source_shape_def)

lemma demo_approval_ok [simp]: "directory_command_ok (ApproveActivation demo_approval)"
  by (simp add: demo_approval_def approve_command_ok_def decision_command_ok_def)

lemma demo_pending_ok [simp]: "activation_request_ok demo_pending"
  by (simp add: demo_pending_def new_activation_def activation_request_ok_def demo_request_def
      return_intent_ok_def validate_source_shape_def decision_fields_match_def ACTIVATION_TTL_SECONDS_def seconds_def)

lemma demo_identity_simps [simp]:
  "id_events demo_identity = []" "id_stages demo_identity = []" "id_bindings demo_identity = []"
  "id_test_contexts demo_identity = []"
  by (simp_all add: demo_identity_def empty_identity_def)

lemma demo_accounts: "accounts_inv demo_identity"
  by (auto simp: accounts_inv_def demo_identity_def dict_ok_def account_filed_def new_account_def
      user_account_ok_def split: if_splits)

lemma demo_roles: "roles_inv demo_identity"
  by (auto simp: roles_inv_def demo_identity_def dict_ok_def role_filed_def role_key_def demo_admin_role_def
      role_assignment_ok_def has_account_def split: if_splits)

lemma demo_requests: "requests_inv demo_identity"
proof -
  have "pending_count demo_identity = 1"
    by (simp add: pending_count_def demo_identity_def dvals_def demo_pending_def)
  then show ?thesis
    by (auto simp: requests_inv_def demo_identity_def dict_ok_def MAX_PENDING_ACTIVATIONS_def demo_pending_def [symmetric]
        split: if_splits) (simp add: demo_pending_def)
qed

lemma demo_oauth_inv: "oauth_inv 4 demo_identity"
  by (auto simp: oauth_inv_def demo_identity_def dict_ok_def demo_oauth_def oauth_state_ok_def seconds_def
      return_intent_ok_def empty_identity_def split: if_splits)

lemma demo_sessions_inv: "sessions_inv demo_identity"
  by (auto simp: sessions_inv_def demo_identity_def dict_ok_def session_filed_def demo_session_def
      web_session_ok_def seconds_def split: if_splits)

lemma demo_identity_inv: "identity_inv demo_env 4 demo_identity"
proof -
  have "bindings_inv demo_env demo_identity" "trail_inv demo_env demo_identity"
    by (simp_all add: bindings_inv_def trail_inv_def)
  moreover have "admin_inv demo_identity"
    by (simp add: admin_inv_def demo_identity_def local_admin_record_ok_def has_account_def)
  ultimately show ?thesis
    using demo_accounts demo_roles demo_requests demo_oauth_inv demo_sessions_inv
    by (simp add: identity_inv_def directory_inv_def)
qed

lemma demo_directory_inv: "directory_inv demo_env demo_identity"
  using demo_identity_inv by (simp add: identity_inv_def)

subsection \<open>What runs on it\<close>

text \<open>An approval goes through, and so does the seeding of the empty stores.\<close>

lemma audit_written:
  assumes "directory_command_ok command" "operation_context_ok oc" "\<And>c. command \<noteq> MigrateLegacyIdentities c"
    and "id_events s = []" "id_stages s = []"
  shows "\<exists>s' e. one_event demo_env command oc ref now s = (s', Inr [e]) \<and> id_roles s' = id_roles s"
proof -
  obtain cand where c: "derive_audit demo_env command oc ref None None = Inr cand" "audit_candidate_ok cand"
    "ac_outcome cand = AO_SUCCEEDED"
    by (rule derive_audit_succeeds [OF demo_env_ok assms(1,2), of None None ref]) (use assms(3) in auto)
  obtain e where "seal demo_env cand now = Inr e"
    using c(2,3) by (simp add: seal_def audit_stage_key_def revalidate_def audit_event_ok_def audit_candidate_ok_def
        audit_subject_ok_def reason_code_matches_outcome_def effect_matches_action_and_outcome_def
        directory_actions_are_single_phase_def)
  then show ?thesis
    using c(1) assms(4,5)
    by (simp add: one_event_def write_audit_def append_or_def append_locked_def op_run_simps Let_def)
qed

definition demo_record :: local_admin_record where
  "demo_record = \<lparr>la_password_hash = ''argon'', la_must_change_password = True, la_user_id = Some ''local-admin''\<rparr>"

lemma demo_seed:
  "\<exists>s1. seed_if_absent demo_env ''argon'' 0 empty_identity = (s1, Inr True)
     \<and> role_at s1 (''local-admin'', ''dev-local'', ''dev'') = Some ROLE_ADMIN"
proof -
  let ?c = "bootstrap_local_admin_command ''argon''"
  have ok: "directory_command_ok (BootstrapLocalAdmin ?c)" "operation_context_ok bootstrap_operation_context"
    by (simp_all add: bootstrap_local_admin_command_def user_command_ok_def local_admin_constants
        bootstrap_operation_context_def operation_context_ok_def)
  define s0 where "s0 = empty_identity\<lparr>id_accounts := [(''local-admin'', new_account ''local-admin'' ''admin'' ''Local Admin'' 0)],
    id_roles := [((''local-admin'', ''dev-local'', ''dev''), demo_admin_role\<lparr>ra_created_by := ''system-bootstrap''\<rparr>)],
    id_local_admin := Some demo_record\<rparr>"
  obtain s1 e where e: "one_event demo_env (BootstrapLocalAdmin ?c) bootstrap_operation_context ''local-admin'' 0 s0
      = (s1, Inr [e])" "id_roles s1 = id_roles s0"
    using audit_written [OF ok, of s0 "''local-admin''" 0] by (auto simp: s0_def empty_identity_def)
  have "apply_locked demo_env (BootstrapLocalAdmin ?c) bootstrap_operation_context 0 empty_identity = (s1, Inr [e])"
    using e(1) by (simp add: bootstrap_def insert_account_def upsert_role_def actor_claimed_def op_run_simps
        empty_identity_def bootstrap_local_admin_command_def local_admin_constants s0_def new_account_def
        user_account_ok_def role_assignment_ok_def demo_admin_role_def bootstrap_operation_context_def
        put_account_def put_role_def role_key_def demo_record_def local_admin_record_ok_def dvals_def)
  then have "seed_if_absent demo_env ''argon'' 0 empty_identity = (s1, Inr True)"
    using ok(1) by (simp add: seed_if_absent_def apply_command_def op_run_simps)
  moreover have "role_at s1 (''local-admin'', ''dev-local'', ''dev'') = Some ROLE_ADMIN"
    by (simp add: role_at_def e(2) s0_def demo_admin_role_def)
  ultimately show ?thesis by blast
qed

lemma demo_operation_ok: "operation_context_ok demo_operation"
  by (simp add: operation_context_ok_def demo_operation_def)

lemma demo_approved_by:
  assumes ok: "operation_context_ok oc" and oc: "oc_actor_user_id oc = ''local-admin''" "oc_actor oc = ''admin''"
    "oc_auth_source oc = SRC_LOCAL_ADMIN"
  shows "\<exists>s1 e. apply_command demo_env (ApproveActivation demo_approval) oc 5 demo_identity = (s1, Inr [e])"
proof -
  obtain s0 where s0: "apply_locked demo_env (ApproveActivation demo_approval) oc 5 demo_identity
      = one_event demo_env (ApproveActivation demo_approval) oc ''req-1'' 5 s0"
    "id_events s0 = []" "id_stages s0 = []"
  proof (rule that)
    let ?s0 = "put_role (upserted demo_identity ''user-ann'' ''dev-local'' ''dev'' ROLE_USER ''local-admin'' 5) demo_identity
      \<lparr>id_bindings := dset (subject_key demo_env SRC_FEISHU ''dev-local'' ''dev'' ''ou-7'')
          (new_binding ''user-ann'' ''dev-local'' ''dev'' ''ou-7'' 5) [],
       id_activations := [(''req-1'', decided ACT_APPROVED (Some ROLE_USER) oc 5 demo_pending)]\<rparr>"
    show "apply_locked demo_env (ApproveActivation demo_approval) oc 5 demo_identity
      = one_event demo_env (ApproveActivation demo_approval) oc ''req-1'' 5 ?s0"
      by (simp add: oc approve_activation_def open_request_def require_admin_def admin_refusal_def activation_for_decision_def
        approved_account_def grant_role_def bind_requester_def settle_request_def bind_subject_def upsert_role_def
        op_run_simps local_admin_constants Let_def demo_identity_def demo_approval_def demo_admin_role_def
        demo_pending_def demo_request_def new_activation_def decided_def activation_request_ok_def
        decision_fields_match_def return_intent_ok_def validate_source_shape_def ACTIVATION_TTL_SECONDS_def seconds_def
        dvals_def put_role_def role_key_def role_assignment_ok_def binding_key_of_def external_identity_ok_def
        new_account_def upserted_def new_binding_def empty_identity_def)
    show "id_events ?s0 = []" "id_stages ?s0 = []"
      by (simp_all add: put_role_def)
  qed
  then show ?thesis
    using audit_written [OF demo_approval_ok ok, of s0 "''req-1''" 5] by (auto simp: apply_command_def)
qed

lemma demo_approved:
  "\<exists>s1 e. apply_command demo_env (ApproveActivation demo_approval) demo_operation 5 demo_identity = (s1, Inr [e])"
  using demo_approved_by [OF demo_operation_ok] by (simp add: demo_operation_def)

lemma demo_consumed:
  "\<exists>s1 v. consume_oauth_login_state (demo_digest CHR ''c'') 5 demo_identity = (s1, Inr v)"
  by (simp add: consume_oauth_login_state_def live_oauth_state_def mark_consumed_def op_run_simps
     demo_identity_def demo_oauth_def oauth_stale_def oauth_state_ok_def seconds_def login_state_of_def
     oauth_login_state_ok_def return_intent_ok_def)

definition demo_change :: change_password_command where
  "demo_change = \<lparr>cp_password_hash = ''argon'', cp_new_session_digest = demo_digest CHR ''d'',
     cp_public_origin_digest = demo_digest CHR ''b'', cp_session_ttl_seconds = 60\<rparr>"

lemma demo_changed:
  "\<exists>s1 r. change_password_and_rotate_session demo_change 5 demo_identity = (s1, Inr r)"
  by (simp add: change_password_and_rotate_session_def op_run_simps demo_identity_def demo_change_def
     demo_session_def seconds_def local_admin_record_ok_def web_session_ok_def revoked_def LOCAL_ADMIN_SUBJECT_REF_def)

end
