(* ===== verification/Identity_Claims.thy ===== *)
theory Identity_Claims
  imports Identity_Demo
begin

text \<open>
  The properties of the identity stores: consistency of every reachable state, the audit trail as the
  only way to change who may do what, atomic commands, decisions that need an administrator and are
  final, OAuth states that work once, and sessions that a change of the password ends.
\<close>

subsection \<open>The audit trail\<close>

lemma calls_recorded:
  "calls (identity_step E n) p s s' \<Longrightarrow> identity_inv E n s \<Longrightarrow> \<exists>evs. recorded_step E s evs s'"
proof (induction rule: calls.induct)
  case (calls_none s)
  then show ?case using recorded_quiet by blast
next
  case (calls_more s t c u)
  have "identity_inv E n t" using oauth.inv_calls [OF calls_more.hyps(1) calls_more.prems] .
  then obtain evs' where "recorded_step E t evs' u"
    using step_accounted [OF calls_more.hyps(3)] by (auto simp: accounted_step_def)
  then show ?case using calls_more.IH [OF calls_more.prems] recorded_step_trans by blast
qed

text \<open>
  The approval of an activation names the request. It is an approval of account \<open>u\<close> when that request was
  open before the step, is approved after it with the role the event names, lies in the event's scope,
  and its subject is bound to \<open>u\<close> in that scope after the step.
\<close>

definition approval_of ::
  "py_env \<Rightarrow> identity_state \<Rightarrow> identity_state \<Rightarrow> string \<Rightarrow> audit_event \<Rightarrow> bool" where
  "approval_of E s s' u e \<longleftrightarrow> ac_action e = AA_ACTIVATION_APPROVED \<and> ac_target_kind e = TGT_ACTIVATION
     \<and> (\<exists>i q d. dget (id_activations s) i = Some q \<and> aq_status q = ACT_PENDING
          \<and> ac_target_ref_digest e = admin_audit_target_digest E TGT_ACTIVATION i
          \<and> aq_tenant_id q = ac_tenant_id e \<and> aq_environment_id q = ac_environment_id e
          \<and> dget (id_activations s') i = Some d \<and> aq_status d = ACT_APPROVED
          \<and> aq_approved_role d = ae_role (ac_effect e)
          \<and> map_option xi_user_id (dget (id_bindings s') (subject_key E SRC_FEISHU (aq_tenant_id q)
               (aq_environment_id q) (aq_subject_ref q))) = Some u)"

text \<open>The event of a step that gives account \<open>u\<close> what its effect says.\<close>

definition gives ::
  "py_env \<Rightarrow> identity_state \<Rightarrow> identity_call \<Rightarrow> identity_state \<Rightarrow> string \<Rightarrow> audit_event \<Rightarrow> bool" where
  "gives E s c s' u e \<longleftrightarrow> (av_event_id e, e) \<in> set (id_events s') \<and> ac_outcome e = AO_SUCCEEDED
     \<and> derived_by E c e \<and> (about_user E u e \<or> approval_of E s s' u e)"

text \<open>
  A right is on record in a run from \<open>s0\<close> to \<open>s\<close> when some step of that run added an event that gave it,
  and the event is still there.
\<close>

definition given ::
  "py_env \<Rightarrow> nat \<Rightarrow> identity_state \<Rightarrow> identity_state \<Rightarrow> string \<Rightarrow> (audit_event \<Rightarrow> bool) \<Rightarrow> bool" where
  "given E n s0 s u p \<longleftrightarrow> (\<exists>a c b e. calls (identity_step E n) (\<lambda>_. True) s0 a \<and> identity_step E n a c b
     \<and> calls (identity_step E n) (\<lambda>_. True) b s \<and> gives E a c b u e \<and> p e
     \<and> (av_event_id e, e) \<notin> set (id_events a) \<and> (av_event_id e, e) \<in> set (id_events s))"

definition on_record :: "py_env \<Rightarrow> nat \<Rightarrow> identity_state \<Rightarrow> identity_state \<Rightarrow> bool" where
  "on_record E n s0 s \<longleftrightarrow>
     (\<forall>u t v role. role_at s (u, t, v) = Some role \<longrightarrow> given E n s0 s u
        (\<lambda>e. ac_tenant_id e = t \<and> ac_environment_id e = v \<and> ae_role (ac_effect e) = Some role))
     \<and> (\<forall>u status. status_at s u = Some status \<longrightarrow> given E n s0 s u
        (\<lambda>e. ae_status (ac_effect e) = Some status))"

lemma approves_command:
  assumes "derived_by E c e" "ac_action e = AA_ACTIVATION_APPROVED"
  obtains a oc now where "c = IdApply (ApproveActivation a) oc now" "derived E (ApproveActivation a) oc e"
proof (cases c)
  case (IdApply command oc now)
  moreover from this assms have "\<exists>a. command = ApproveActivation a"
    by (cases command) (auto simp: derived_def records_def)
  ultimately show thesis using that assms(1) by auto
qed (use assms in \<open>auto simp: derived_def records_def\<close>)

lemma approval_event:
  assumes "approved E a oc now s r u s'" "derived E (ApproveActivation a) oc e"
  shows "approval_of E s s' u e"
  unfolding approval_of_def
proof (intro conjI exI)
  have "\<lparr>ae_role = Some (ap_approved_role a), ae_status = Some US_ACTIVE\<rparr> = ac_effect e"
    using assms(2) by (simp add: derived_def records_def)
  then have "ae_role (ac_effect e) = Some (ap_approved_role a)" by (metis audit_effect.select_convs(1))
  then show "aq_approved_role (decided ACT_APPROVED (Some (ap_approved_role a)) oc now r) = ae_role (ac_effect e)"
    by (simp add: decided_def)
  show "dget (id_activations s) (ad_request_id a) = Some r" "aq_status r = ACT_PENDING"
    "dget (id_activations s') (ad_request_id a)
       = Some (decided ACT_APPROVED (Some (ap_approved_role a)) oc now r)"
    using assms(1) by (simp_all add: approved_def may_settle_def)
qed (use assms in \<open>auto simp: approved_def may_settle_def derived_def records_def decided_def\<close>)

lemma step_gives:
  assumes inv: "identity_inv E n s" and step: "identity_step E n s c s'"
  shows "\<exists>evs. trail_grows s evs s' \<and> (evs = [] \<longrightarrow> authority s' = authority s)
     \<and> (\<forall>u t v role. role_at s' (u, t, v) = Some role \<longrightarrow> role_at s (u, t, v) = Some role
          \<or> (\<exists>e \<in> set evs. gives E s c s' u e \<and> ac_tenant_id e = t \<and> ac_environment_id e = v
               \<and> ae_role (ac_effect e) = Some role))
     \<and> (\<forall>u status. status_at s' u = Some status \<longrightarrow> status_at s u = Some status
          \<or> (\<exists>e \<in> set evs. gives E s c s' u e \<and> ae_status (ac_effect e) = Some status))"
proof -
  obtain evs where rec: "recorded_step E s evs s'"
      and from_command: "authority s' = authority s \<or> (\<forall>e \<in> set evs. derived_by E c e)"
    using step_accounted [OF step inv] by (auto simp: accounted_step_def)
  then have g: "trail_grows s evs s'" "evs = [] \<longrightarrow> authority s' = authority s"
      and roles: "roles_recorded E s evs s'" and stats: "statuses_recorded E s evs s'"
    by (simp_all add: recorded_step_def)
  have added: "(av_event_id e, e) \<in> set (id_events s')" if "e \<in> set evs" for e
    using g(1) that by (simp add: trail_grows_def)
  have whose: "gives E s c s' u e"
    if e: "e \<in> set evs" "derived_by E c e" "concerns E u e"
      and changed: "(\<exists>t v. role_at s' (u, t, v) \<noteq> role_at s (u, t, v)) \<or> status_at s' u \<noteq> status_at s u" for u e
  proof (cases "about_user E u e")
    case True
    then show ?thesis using e added by (simp add: gives_def concerns_def)
  next
    case False
    then have a: "ac_action e = AA_ACTIVATION_APPROVED" "ac_outcome e = AO_SUCCEEDED"
      using e(3) by (simp_all add: concerns_def)
    obtain a oc now where c: "c = IdApply (ApproveActivation a) oc now" "derived E (ApproveActivation a) oc e"
      using approves_command [OF e(2) a(1)] .
    obtain res where run: "apply_command E (ApproveActivation a) oc now s = (s', res)"
      using step c(1) by (auto elim!: identity_stepE) (metis prod.collapse)
    from run obtain evs' where "approve_activation E a oc now s = (s', Inr evs')"
      using changed by (cases rule: apply_command_cases) auto
    then obtain r w where ok: "approved E a oc now s r w s'"
      using approve_activation_done(2) inv by (meson identity_inv_def directory_inv_def)
    then have "u = w" using changed by (auto simp: approved_def status_at_def)
    then show ?thesis using approval_event [OF ok c(2)] e added a(2) by (simp add: gives_def)
  qed
  have "\<exists>e \<in> set evs. gives E s c s' u e \<and> ac_tenant_id e = t \<and> ac_environment_id e = v
      \<and> ae_role (ac_effect e) = Some role"
    if r: "role_at s' (u, t, v) = Some role" "role_at s (u, t, v) \<noteq> Some role" for u t v role
  proof -
    have d: "\<forall>e \<in> set evs. derived_by E c e" using from_command authority_kept r by metis
    obtain e where "e \<in> set evs" "records_role E (u, t, v) role e"
      using roles r unfolding roles_recorded_def by blast
    moreover have "\<exists>t v. role_at s' (u, t, v) \<noteq> role_at s (u, t, v)" using r by metis
    ultimately show ?thesis
      using d whose [of e u] by (intro bexI [of _ e]) (simp_all only: records_role.simps simp_thms)
  qed
  moreover have "\<exists>e \<in> set evs. gives E s c s' u e \<and> ae_status (ac_effect e) = Some status"
    if r: "status_at s' u = Some status" "status_at s u \<noteq> Some status" for u status
  proof -
    have d: "\<forall>e \<in> set evs. derived_by E c e" using from_command authority_kept r by metis
    obtain e where "e \<in> set evs" "records_status E u status e"
      using stats r unfolding statuses_recorded_def by blast
    moreover have "status_at s' u \<noteq> status_at s u" using r by simp
    ultimately show ?thesis
      using d whose [of e u] by (intro bexI [of _ e]) (simp_all only: records_status_def simp_thms)
  qed
  ultimately show ?thesis using g by blast
qed

text \<open>
  C14. Whatever operations run on the identity stores, from the empty state the directory stays
  consistent: accounts, roles, bindings, audit events, activation requests, OAuth states and sessions
  pass their validators, are filed under their own keys and refer to accounts that exist; actors are
  claimed once, a subject and an account are bound once per scope, the trail has one event per stage
  of an operation, at most one request is open per subject, and the capacities hold.
\<close>

theorem reachable_identity_is_consistent:
  assumes "calls (identity_step E n) (\<lambda>_. True) empty_identity s"
  shows "identity_inv E n s"
  by (rule oauth.inv_calls [OF assms empty_identity_inv])

lemma one_call: "identity_call_ok s c \<Longrightarrow> p c \<Longrightarrow> calls (identity_step E n) p s (run_identity E n c s)"
  by (rule calls_more [OF calls_none]) (auto intro: identity_stepI)

theorem reachable_identity_is_consistent_witness:
  "\<exists>s. identity_inv demo_env 4 s \<and> role_at s (''local-admin'', ''dev-local'', ''dev'') = Some ROLE_ADMIN"
proof -
  obtain s where s: "seed_if_absent demo_env ''argon'' 0 empty_identity = (s, Inr True)"
    "role_at s (''local-admin'', ''dev-local'', ''dev'') = Some ROLE_ADMIN"
    using demo_seed by blast
  have "calls (identity_step demo_env 4) (\<lambda>_. True) empty_identity s"
    using one_call [of empty_identity "IdSeed ''argon'' 0" "\<lambda>_. True" demo_env 4] s(1) by simp
  then show ?thesis using s(2) reachable_identity_is_consistent by blast
qed

lemma added_events_new:
  assumes "identity_inv E n s'" "trail_grows s evs s'" "e \<in> set evs"
  shows "(av_event_id e, e) \<notin> set (id_events s)"
proof -
  have "dict_ok (id_events s')" using assms(1) by (simp add: identity_inv_def directory_inv_def trail_inv_def)
  then show ?thesis using assms(2,3) by (force simp: trail_grows_def dict_ok_def)
qed

lemma given_later:
  assumes "given E n s0 s u p" "identity_step E n s c s'" "trail_grows s evs s'"
  shows "given E n s0 s' u p"
proof -
  obtain a d b e where g: "calls (identity_step E n) (\<lambda>_. True) s0 a" "identity_step E n a d b"
      "calls (identity_step E n) (\<lambda>_. True) b s" "gives E a d b u e" "p e"
      "(av_event_id e, e) \<notin> set (id_events a)" "(av_event_id e, e) \<in> set (id_events s)"
    using assms(1) unfolding given_def by blast
  have "calls (identity_step E n) (\<lambda>_. True) b s'" using calls_more [OF g(3) TrueI assms(2)] .
  moreover have "(av_event_id e, e) \<in> set (id_events s')" using assms(3) g(7) by (simp add: trail_grows_def)
  ultimately show ?thesis using g(1,2,4-6) unfolding given_def by blast
qed

lemma given_now:
  assumes "calls (identity_step E n) (\<lambda>_. True) s0 s" "identity_step E n s c s'" "identity_inv E n s'"
    "trail_grows s evs s'" "e \<in> set evs" "gives E s c s' u e" "p e"
  shows "given E n s0 s' u p"
proof -
  have "calls (identity_step E n) (\<lambda>_. True) s' s'" by (rule calls_none)
  moreover have "(av_event_id e, e) \<in> set (id_events s')" using assms(6) by (simp add: gives_def)
  ultimately show ?thesis
    using assms(1,2,6,7) added_events_new [OF assms(3-5)] unfolding given_def by blast
qed

lemma run_on_record:
  assumes "calls (identity_step E n) (\<lambda>_. True) empty_identity s"
  shows "on_record E n empty_identity s"
  using assms
proof (induction empty_identity s rule: calls.induct)
  case calls_none
  then show ?case by (simp add: on_record_def role_at_def status_at_def empty_identity_def)
next
  case (calls_more t c s)
  have i: "identity_inv E n t" by (rule oauth.inv_calls [OF calls_more.hyps(1) empty_identity_inv])
  then have i': "identity_inv E n s" using oauth.inv_step calls_more.hyps(4) by blast
  obtain evs where g: "trail_grows t evs s"
    "\<And>u x v role. role_at s (u, x, v) = Some role \<Longrightarrow> role_at t (u, x, v) = Some role
       \<or> (\<exists>e \<in> set evs. gives E t c s u e \<and> ac_tenant_id e = x \<and> ac_environment_id e = v
            \<and> ae_role (ac_effect e) = Some role)"
    "\<And>u status. status_at s u = Some status \<Longrightarrow> status_at t u = Some status
       \<or> (\<exists>e \<in> set evs. gives E t c s u e \<and> ae_status (ac_effect e) = Some status)"
    using step_gives [OF i calls_more.hyps(4)] by blast
  note later = given_later [OF _ calls_more.hyps(4) g(1)]
    and now = given_now [OF calls_more.hyps(1,4) i' g(1)]
  show ?case
    unfolding on_record_def
  proof (intro conjI allI impI)
    fix u x v role assume "role_at s (u, x, v) = Some role"
    from g(2) [OF this] show "given E n empty_identity s u
        (\<lambda>e. ac_tenant_id e = x \<and> ac_environment_id e = v \<and> ae_role (ac_effect e) = Some role)" (is "?G")
    proof
      assume "role_at t (u, x, v) = Some role"
      then have "given E n empty_identity t u
          (\<lambda>e. ac_tenant_id e = x \<and> ac_environment_id e = v \<and> ae_role (ac_effect e) = Some role)"
        using calls_more.hyps(2) unfolding on_record_def by blast
      then show ?G by (rule later)
    next
      assume "\<exists>e \<in> set evs. gives E t c s u e \<and> ac_tenant_id e = x \<and> ac_environment_id e = v
        \<and> ae_role (ac_effect e) = Some role"
      then obtain e where "e \<in> set evs" "gives E t c s u e" "ac_tenant_id e = x \<and> ac_environment_id e = v
        \<and> ae_role (ac_effect e) = Some role" by blast
      then show ?G by (rule now)
    qed
  next
    fix u status assume "status_at s u = Some status"
    from g(3) [OF this] show "given E n empty_identity s u (\<lambda>e. ae_status (ac_effect e) = Some status)"
      (is "?G")
    proof
      assume "status_at t u = Some status"
      then have "given E n empty_identity t u (\<lambda>e. ae_status (ac_effect e) = Some status)"
        using calls_more.hyps(2) unfolding on_record_def by blast
      then show ?G by (rule later)
    next
      assume "\<exists>e \<in> set evs. gives E t c s u e \<and> ae_status (ac_effect e) = Some status"
      then obtain e where "e \<in> set evs" "gives E t c s u e" "ae_status (ac_effect e) = Some status" by blast
      then show ?G by (rule now)
    qed
  qed
qed

text \<open>
  C15. Every right has its audit event. In a reachable directory each role of an account in a scope,
  and each account status, was given by one step of the run, by an event that this step added and
  that is still in the trail. The event was derived from the very command of that step (its
  scope, actor and effect), has that role or status as its effect and, for a role, that scope. It is
  either about that account, or it is the approval of an activation request of its scope that was
  open before the step, that the step approved with that role, and whose subject the step left bound
  to that account. And the trail only grows: between any two states of a run, no account, role,
  binding or administrator link changes unless events are added.
\<close>

theorem every_right_is_on_record:
  assumes "calls (identity_step E n) (\<lambda>_. True) empty_identity s"
    and "calls (identity_step E n) (\<lambda>_. True) s s'"
  shows "on_record E n empty_identity s
     \<and> (\<exists>evs. trail_grows s evs s' \<and> (evs = [] \<longrightarrow> authority s' = authority s))"
proof -
  have i: "identity_inv E n s" by (rule oauth.inv_calls [OF assms(1) empty_identity_inv])
  obtain evs where "recorded_step E s evs s'" using calls_recorded [OF assms(2) i] ..
  then show ?thesis using run_on_record [OF assms(1)] by (auto simp: recorded_step_def)
qed

theorem every_right_is_on_record_witness:
  "\<exists>s evs e. trail_grows empty_identity evs s \<and> e \<in> set (map snd (id_events s)) \<and> evs \<noteq> []
     \<and> role_at s (''local-admin'', ''dev-local'', ''dev'') = Some ROLE_ADMIN
     \<and> ae_role (ac_effect e) = Some ROLE_ADMIN \<and> ac_tenant_id e = ''dev-local''"
proof -
  obtain s where s: "seed_if_absent demo_env ''argon'' 0 empty_identity = (s, Inr True)"
    "role_at s (''local-admin'', ''dev-local'', ''dev'') = Some ROLE_ADMIN"
    using demo_seed by blast
  have run: "calls (identity_step demo_env 4) (\<lambda>_. True) empty_identity s"
    using one_call [of empty_identity "IdSeed ''argon'' 0" "\<lambda>_. True" demo_env 4] s(1) by simp
  have "on_record demo_env 4 empty_identity s"
    using every_right_is_on_record [OF run calls_none] by blast
  then obtain e where e: "e \<in> set (map snd (id_events s))" "ae_role (ac_effect e) = Some ROLE_ADMIN"
      "ac_tenant_id e = ''dev-local''"
  proof -
    have "given demo_env 4 empty_identity s ''local-admin'' (\<lambda>e. ac_tenant_id e = ''dev-local''
        \<and> ac_environment_id e = ''dev'' \<and> ae_role (ac_effect e) = Some ROLE_ADMIN)"
      using s(2) \<open>on_record demo_env 4 empty_identity s\<close> unfolding on_record_def by blast
    then obtain e where "(av_event_id e, e) \<in> set (id_events s)" "ac_tenant_id e = ''dev-local''"
        "ae_role (ac_effect e) = Some ROLE_ADMIN"
      unfolding given_def by blast
    moreover from this(1) have "e \<in> set (map snd (id_events s))" by force
    ultimately show thesis using that by blast
  qed
  moreover obtain evs where r: "trail_grows empty_identity evs s"
    using every_right_is_on_record [OF calls_none run] by blast
  moreover from r e(1) have "evs \<noteq> []" by (auto simp: trail_grows_def empty_identity_def)
  ultimately show ?thesis using s(2) by blast
qed

lemma demo_atomic:
  assumes "apply_command demo_env (ApproveActivation demo_approval) demo_operation 5 demo_identity = (s1, Inr [e])"
  shows "trail_grows demo_identity [e] s1" "derived demo_env (ApproveActivation demo_approval) demo_operation e"
proof -
  have run: "apply_locked demo_env (ApproveActivation demo_approval) demo_operation 5 demo_identity = (s1, Inr [e])"
    using assms by (cases rule: apply_command_cases) simp_all
  show "trail_grows demo_identity [e] s1"
    using apply_locked_done [OF demo_directory_inv run] by (simp add: directory_done_def directory_effect_def)
  show "derived demo_env (ApproveActivation demo_approval) demo_operation e"
    by (rule apply_locked_derived [OF run]) simp
qed

text \<open>
  C16. The success of a directory command cannot be forged. An event that a step adds with a
  directory action and the outcome SUCCEEDED was derived by \<open>apply\<close> from the very command that step
  applied (or by the seeding of the local administrator from its bootstrap command): its action,
  scope, effect, actor and target are those of the command. The three entries of the audit store add
  no such event.
\<close>

theorem directory_success_is_derived:
  assumes "identity_inv E n s" "identity_step E n s c s'"
    and "(i, e) \<in> set (id_events s')" "(i, e) \<notin> set (id_events s)" "directory_success e"
  shows "derived_by E c e"
proof -
  obtain evs where "recorded_step E s evs s'" "\<forall>e \<in> set evs. directory_success e \<longrightarrow> derived_by E c e"
    using step_accounted [OF assms(2,1)] by (auto simp: accounted_step_def)
  then show ?thesis using assms(3-5) by (auto simp: recorded_step_def trail_grows_def)
qed

theorem directory_success_is_derived_witness:
  "\<exists>i e. (i, e) \<in> set (id_events (run_identity demo_env 4
        (IdApply (ApproveActivation demo_approval) demo_operation 5) demo_identity))
     \<and> derived_by demo_env (IdApply (ApproveActivation demo_approval) demo_operation 5) e"
proof -
  let ?c = "IdApply (ApproveActivation demo_approval) demo_operation 5"
  obtain s1 e where run: "apply_command demo_env (ApproveActivation demo_approval) demo_operation 5 demo_identity
      = (s1, Inr [e])" using demo_approved by blast
  have e: "id_events s1 = [(av_event_id e, e)]" "derived demo_env (ApproveActivation demo_approval) demo_operation e"
    using demo_atomic [OF run] by (simp_all add: trail_grows_def)
  have "directory_success e"
    using e(2) by (auto simp: directory_success_def derived_def records_def DIRECTORY_ACTIONS_def)
  moreover have "identity_step demo_env 4 demo_identity ?c s1"
    using identity_stepI [of demo_identity ?c demo_env 4] demo_approval_ok demo_operation_ok run by simp
  ultimately show ?thesis
    using directory_success_is_derived [OF demo_identity_inv] e(1) run by fastforce
qed

subsection \<open>Commands\<close>

text \<open>
  C17. A directory command is atomic. When it raises, whatever its handler had already written, the
  whole state is as before; when it returns, the trail has grown by exactly the events it returns,
  each derived from the command, and when it returns no event nothing has changed.
\<close>

theorem directory_command_is_atomic:
  assumes "directory_inv E s" "apply_command E command oc now s = (s', r)"
  shows "case r of Inl e \<Rightarrow> s' = s
     | Inr evs \<Rightarrow> trail_grows s evs s' \<and> (\<forall>e \<in> set evs. derived E command oc e) \<and> (evs = [] \<longrightarrow> s' = s)"
  using assms(2)
proof (cases rule: apply_command_cases)
  case (applied evs)
  have "trail_grows s evs s'"
    using apply_locked_done [OF assms(1) applied(1)] by (simp add: directory_done_def directory_effect_def)
  moreover have "s' = s" if "evs = []"
    using apply_locked_silent [of E command oc now s s'] applied(1) that by simp
  ultimately show ?thesis using apply_locked_derived [OF applied(1)] applied(2) by simp
qed simp

text \<open>
  C18. An approval does what it says. When \<open>ApproveActivation\<close> returns, the request was pending and not
  expired, and now the requester's subject resolves to an active account with the approved actor and
  the approved role; the request is decided, by this actor, at this time, and nobody else's role
  or account has changed.
\<close>

theorem approved_requester_resolves:
  assumes "directory_inv E s" "apply_command E (ApproveActivation c) oc now s = (s', Inr evs)"
  shows "\<exists>r facts. dget (id_activations s) (ad_request_id c) = Some r
     \<and> aq_status r = ACT_PENDING \<and> now < aq_expires_at r
     \<and> dget (id_activations s') (ad_request_id c)
         = Some (decided ACT_APPROVED (Some (ap_approved_role c)) oc now r)
     \<and> resolve_by_subject E s' SRC_FEISHU (ad_tenant_id c) (ad_environment_id c) (aq_subject_ref r)
         = Inr (Some facts)
     \<and> ua_status (df_account facts) = US_ACTIVE \<and> ua_actor (df_account facts) = ap_actor c
     \<and> ra_role (df_assignment facts) = ap_approved_role c
     \<and> (\<forall>u t e. u \<noteq> ua_user_id (df_account facts) \<longrightarrow>
          role_at s' (u, t, e) = role_at s (u, t, e) \<and> dget (id_accounts s') u = dget (id_accounts s) u)"
proof -
  have run: "approve_activation E c oc now s = (s', Inr evs)"
    using assms(2) by (cases rule: apply_command_cases) simp_all
  obtain r u where a: "approved E c oc now s r u s'" using approve_activation_done(2) [OF assms(1) run] by blast
  have "directory_inv E s'" using approve_activation_done(1) [OF assms(1) run] by (simp add: directory_done_def)
  then have filed: "dget (id_accounts s') v = Some b \<Longrightarrow> ua_user_id b = v" for v b
    by (auto simp: directory_inv_def accounts_inv_def account_filed_def)
  obtain b where b: "dget (id_accounts s') u = Some b" "ua_status b = US_ACTIVE" "ua_actor b = ap_actor c"
    using a by (auto simp: approved_def status_at_def)
  obtain q where q: "dget (id_roles s') (u, ad_tenant_id c, ad_environment_id c) = Some q"
      "ra_role q = ap_approved_role c"
    using a by (auto simp: approved_def role_at_def)
  obtain x where x: "dget (id_bindings s') (subject_key E SRC_FEISHU (ad_tenant_id c) (ad_environment_id c)
      (aq_subject_ref r)) = Some x" "xi_user_id x = u"
    using a by (auto simp: approved_def)
  have "resolve_by_subject E s' SRC_FEISHU (ad_tenant_id c) (ad_environment_id c) (aq_subject_ref r)
      = Inr (Some \<lparr>df_account = b, df_assignment = q\<rparr>)"
    using b q x by (simp add: resolve_by_subject_def principal_facts_of_def)
  then show ?thesis
    using a b q filed [OF b(1)]
    by (intro exI [of _ r] exI [of _ "\<lparr>df_account = b, df_assignment = q\<rparr>"])
      (simp add: approved_def may_settle_def)
qed

theorem approved_requester_resolves_witness:
  "\<exists>s1 e facts. apply_command demo_env (ApproveActivation demo_approval) demo_operation 5 demo_identity = (s1, Inr [e])
     \<and> resolve_by_subject demo_env s1 SRC_FEISHU ''dev-local'' ''dev'' ''ou-7'' = Inr (Some facts)
     \<and> ua_actor (df_account facts) = ''ann'' \<and> ra_role (df_assignment facts) = ROLE_USER"
proof -
  obtain s1 e where run: "apply_command demo_env (ApproveActivation demo_approval) demo_operation 5 demo_identity
      = (s1, Inr [e])" using demo_approved by blast
  obtain r facts where "dget (id_activations demo_identity) ''req-1'' = Some r"
    "resolve_by_subject demo_env s1 SRC_FEISHU ''dev-local'' ''dev'' (aq_subject_ref r) = Inr (Some facts)"
    "ua_actor (df_account facts) = ''ann''" "ra_role (df_assignment facts) = ROLE_USER"
    using approved_requester_resolves [OF demo_directory_inv run] by (auto simp: demo_approval_def)
  moreover have "r = demo_pending" using calculation(1) by (simp add: demo_identity_def)
  ultimately show ?thesis using run by (auto simp: demo_pending_def new_activation_def demo_request_def)
qed

theorem directory_command_is_atomic_witness:
  "\<exists>s1 e. apply_command demo_env (ApproveActivation demo_approval) demo_operation 5 demo_identity = (s1, Inr [e])
     \<and> trail_grows demo_identity [e] s1 \<and> derived demo_env (ApproveActivation demo_approval) demo_operation e"
proof -
  obtain s1 e where "apply_command demo_env (ApproveActivation demo_approval) demo_operation 5 demo_identity
      = (s1, Inr [e])" using demo_approved by blast
  then show ?thesis using directory_command_is_atomic [OF demo_directory_inv] by fastforce
qed

fun needs_admin :: "directory_command \<Rightarrow> bool" where
  "needs_admin (SetManagedUserStatus c) = True"
| "needs_admin (ChangeManagedUserRole c) = True"
| "needs_admin (ApproveActivation c) = True"
| "needs_admin (RejectActivation c) = True"
| "needs_admin c = False"

lemma admin_refusal_none:
  "admin_refusal s t e oc = None \<Longrightarrow>
     \<exists>a r. dget (id_accounts s) (oc_actor_user_id oc) = Some a \<and> ua_status a = US_ACTIVE
       \<and> ua_actor a = oc_actor oc \<and> dget (id_roles s) (oc_actor_user_id oc, t, e) = Some r
       \<and> ra_role r = ROLE_ADMIN"
  by (auto simp: admin_refusal_def Let_def split: option.splits if_splits)

lemma decision_authorised:
  assumes "needs_admin command" "apply_locked E command oc now s = (s', Inr evs)"
  shows "admin_refusal s (fst (command_scope command)) (snd (command_scope command)) oc = None"
  using assms
  by (cases command)
    (auto simp: set_managed_status_def change_managed_role_def approve_activation_def
      reject_activation_def dir_ok_simps require_admin_ok open_request_ok may_settle_def)

lemma decision_effect:
  assumes "needs_admin command" "directory_command_ok command" "EFFECT_FOR_COMMAND command entry = Inr eff"
  shows "ae_role eff \<noteq> Some ROLE_ADMIN"
  using assms
  by (cases command) (auto simp: no_effect_def managed_role_command_ok_def approve_command_ok_def)

text \<open>
  C19. Decisions are an administrator's and make no administrator. When one of the four decisions
  (status or role of a managed user, approval, rejection) returns, the acting account existed, was
  active, is the actor named in the context and held the ADMIN role in the scope of the command; and
  whoever is ADMIN anywhere afterwards was so before.
\<close>

theorem decisions_need_an_admin:
  assumes "directory_inv E s" "needs_admin command" "directory_command_ok command"
    and "apply_command E command oc now s = (s', Inr evs)"
  shows "\<exists>a r. dget (id_accounts s) (oc_actor_user_id oc) = Some a \<and> ua_status a = US_ACTIVE
       \<and> ua_actor a = oc_actor oc
       \<and> dget (id_roles s) (oc_actor_user_id oc, fst (command_scope command), snd (command_scope command)) = Some r
       \<and> ra_role r = ROLE_ADMIN
       \<and> (\<forall>k. role_at s' k = Some ROLE_ADMIN \<longrightarrow> role_at s k = Some ROLE_ADMIN)"
proof -
  have run: "apply_locked E command oc now s = (s', Inr evs)"
    using assms(4) by (cases rule: apply_command_cases) simp_all
  have rec: "roles_recorded E s evs s'"
    using apply_locked_done [OF assms(1) run]
    by (simp add: directory_done_def directory_effect_def directory_change_def)
  have "role_at s k = Some ROLE_ADMIN" if k: "role_at s' k = Some ROLE_ADMIN" for k
  proof (rule ccontr)
    assume "role_at s k \<noteq> Some ROLE_ADMIN"
    then obtain e where e: "e \<in> set evs" "records_role E k ROLE_ADMIN e"
      using rec k unfolding roles_recorded_def by blast
    have "derived E command oc e" using apply_locked_derived [OF run e(1)] .
    then obtain ref entry where "records E command oc ref entry e" by (auto simp: derived_def)
    then have "\<exists>eff. EFFECT_FOR_COMMAND command entry = Inr eff \<and> ae_role eff = Some ROLE_ADMIN"
      using e(2) by (cases k) (auto simp: records_def)
    then show False using decision_effect [OF assms(2,3)] by blast
  qed
  then show ?thesis using admin_refusal_none [OF decision_authorised [OF assms(2) run]] by blast
qed

theorem decisions_need_an_admin_witness:
  "\<exists>s1 e r. apply_command demo_env (ApproveActivation demo_approval) demo_operation 5 demo_identity = (s1, Inr [e])
     \<and> dget (id_roles demo_identity) (''local-admin'', ''dev-local'', ''dev'') = Some r \<and> ra_role r = ROLE_ADMIN
     \<and> role_at s1 (''user-ann'', ''dev-local'', ''dev'') \<noteq> Some ROLE_ADMIN"
proof -
  obtain s1 e where run: "apply_command demo_env (ApproveActivation demo_approval) demo_operation 5 demo_identity
      = (s1, Inr [e])" using demo_approved by blast
  have "role_at demo_identity (''user-ann'', ''dev-local'', ''dev'') = None"
    by (simp add: role_at_def demo_identity_def)
  then show ?thesis
    using decisions_need_an_admin [OF demo_directory_inv _ demo_approval_ok run] run
    by (auto simp: demo_operation_def demo_approval_def)
qed

fun decides :: "directory_command \<Rightarrow> string \<Rightarrow> bool" where
  "decides (ApproveActivation c) k \<longleftrightarrow> ad_request_id c = k"
| "decides (RejectActivation c) k \<longleftrightarrow> ad_request_id c = k"
| "decides command k \<longleftrightarrow> False"

lemma decision_settles:
  assumes inv: "directory_inv E s" and d: "decides command k"
    and run: "apply_locked E command oc now s = (s', Inr evs)"
  shows "\<exists>r q. dget (id_activations s) k = Some r \<and> is_pending r
    \<and> dget (id_activations s') k = Some q \<and> \<not> is_pending q"
proof (cases command)
  case (ApproveActivation c)
  then have "approve_activation E c oc now s = (s', Inr evs)" using run by simp
  then obtain r u where "approved E c oc now s r u s'" using approve_activation_done(2) [OF inv] by blast
  then show ?thesis
    using d by (auto simp: ApproveActivation approved_def may_settle_def decided_def is_pending_def)
next
  case (RejectActivation c)
  obtain r s1 where r: "may_settle c oc now s r"
    and st: "settle_request r (decided ACT_REJECTED (aq_approved_role r) oc now r) s = (s1, Inr ())"
    and ev: "one_event E (RejectActivation c) oc (aq_request_id r) now s1 = (s', Inr evs)"
    using run by (auto simp: RejectActivation reject_activation_def dir_ok_simps open_request_ok)
  obtain e where "appended E s1 e s'" using one_event_ok [OF ev] .
  then have same: "id_activations s' = id_activations s1" by (simp add: appended_def)
  have p: "dget (id_activations s) (ad_request_id c) = Some r" "aq_status r = ACT_PENDING"
    using r by (simp_all add: may_settle_def)
  have "dget (id_activations s1) (ad_request_id c)
      = Some (decided ACT_REJECTED (aq_approved_role r) oc now r)"
    using settle_request_done(10) [OF inv p _ st] by simp
  then show ?thesis using p same d by (auto simp: RejectActivation is_pending_def decided_def)
qed (use d in simp_all)

text \<open>
  C20. A decision is final. Once an activation request was approved or rejected, every later decision
  on it, an approval as well as a rejection, fails and changes nothing, whatever runs in between;
  only a new request that takes the same identifier could be decided.
\<close>

theorem activation_decision_is_final:
  assumes "identity_inv E n s" "decides command k" "apply_command E command oc now s = (s1, Inr evs)"
    and "calls (identity_step E n) (\<lambda>c. \<not> reopens c (k, r)) s1 s2"
    and "decides command' k" "apply_command E command' oc' now' s2 = (s3, res)"
  shows "\<exists>e. res = Inl e \<and> s3 = s2"
proof -
  have run: "apply_locked E command oc now s = (s1, Inr evs)"
    using assms(3) by (cases rule: apply_command_cases) simp_all
  have d: "directory_inv E s" using assms(1) by (simp add: identity_inv_def)
  obtain q where q: "dget (id_activations s1) k = Some q" "\<not> is_pending q"
    using decision_settles [OF d assms(2) run] by blast
  have i1: "identity_inv E n s1" using apply_command_inv [OF assms(1,3)] .
  have "calls (identity_step E n) (\<lambda>c. \<not> reopens c (k, q)) s1 s2"
    using assms(4)
  proof (rule calls_mono)
    show "\<not> reopens c (k, r) \<Longrightarrow> \<not> reopens c (k, q)" for c by (cases c) simp_all
  qed
  then have i2: "identity_inv E n s2" and spent: "decided_as s2 (k, q)"
    using requests.inv_calls i1 requests.stays_spent q by (fastforce)+
  from assms(6) show ?thesis
  proof (cases rule: apply_command_cases)
    case (applied evs')
    have "directory_inv E s2" using i2 by (simp add: identity_inv_def)
    then obtain p where "dget (id_activations s2) k = Some p" "is_pending p"
      using decision_settles assms(5) applied(1) by blast
    then show ?thesis using spent by auto
  qed blast
qed

theorem activation_decision_is_final_witness:
  "\<exists>s1 evs e. apply_command demo_env (ApproveActivation demo_approval) demo_operation 5 demo_identity = (s1, Inr evs)
     \<and> apply_command demo_env (RejectActivation (decision_command.truncate demo_approval)) demo_operation 6 s1 = (s1, Inl e)"
proof -
  obtain s1 e where run: "apply_command demo_env (ApproveActivation demo_approval) demo_operation 5 demo_identity
      = (s1, Inr [e])" using demo_approved by blast
  obtain s3 res where again: "apply_command demo_env (RejectActivation (decision_command.truncate demo_approval))
      demo_operation 6 s1 = (s3, res)" by fastforce
  have "\<exists>e. res = Inl e \<and> s3 = s1"
    by (rule activation_decision_is_final [OF demo_identity_inv _ run calls_none _ again, of "''req-1''"])
      (simp_all add: demo_approval_def decision_command.truncate_def)
  then show ?thesis using run again by auto
qed

subsection \<open>Requests\<close>

lemma create_or_reuse_found:
  assumes "requests_inv s" "t = with_requests (expire_all now (id_activations s)) s"
    "pending_count t < MAX_PENDING_ACTIVATIONS"
    "find (matches_subject c (activation_subject_digest E c)) (dvals (id_activations t)) = Some r"
  shows "create_or_reuse E c now fresh s = (t, Inr r)"
  using assms
  by (simp add: create_or_reuse_def andthen_def expire_pending_run reads_def require_def ret_def)

text \<open>
  Asking twice opens one request. When an activation request was created or reused, asking again
  for the same subject before it expires, and while the number of pending requests is below its
  capacity, returns that same request, whatever fresh identifier is at hand.
\<close>

theorem activation_request_is_reused:
  assumes "directory_inv E s" "create_activation_command_ok c" "dget (id_activations s) fresh = None"
    and "create_or_reuse E c now fresh s = (s1, Inr r)"
    and "now' < aq_expires_at r" "pending_count s1 < MAX_PENDING_ACTIVATIONS"
  shows "\<exists>s2. create_or_reuse E c now' fresh' s1 = (s2, Inr r)"
proof -
  have i: "requests_inv s" using assms(1) by (simp add: directory_inv_def)
  have prov: "ca_provider c = SRC_FEISHU" using assms(2) by (simp add: create_activation_command_ok_def)
  have i1: "directory_inv E s1" using create_or_reuse_inv [OF assms(4,1,3) prov] .
  then have r1: "requests_inv s1" by (simp add: directory_inv_def)
  let ?t = "with_requests (expire_all now' (id_activations s1)) s1"
  have rt: "requests_inv ?t" using expire_all_inv [OF i1] by (simp add: directory_inv_def)
  have found: "r \<in> set (dvals (id_activations s1)) \<and> matches_subject c (activation_subject_digest E c) r"
    using assms(4) i
  proof (cases rule: create_or_reuse_cases)
    case created
    have "r = new_activation E c now fresh" using created(2) by simp
    moreover have "dget (id_activations s1) fresh = Some (new_activation E c now fresh)"
      by (simp add: created(1) put_activation_def)
    ultimately show ?thesis
      using dget_in_dvals by (auto simp: matches_subject_def new_activation_def)
  qed simp_all
  moreover have d1: "dict_ok (id_activations s1)" using r1 by (simp add: requests_inv_def)
  ultimately obtain k where k: "dget (id_activations s1) k = Some r" using set_dvals [OF d1] by auto
  have keep: "expire now' r = r" using assms(5) by (simp add: expire_def overdue_def)
  have kt: "dget (id_activations ?t) k = Some r" by (simp add: dget_expire_all k keep)
  have unique: "q = r" if qt: "q \<in> set (dvals (id_activations ?t))" and qm: "matches_subject c (activation_subject_digest E c) q" for q
  proof -
    have dt: "dict_ok (id_activations ?t)" using rt by (simp add: requests_inv_def)
    obtain j where j: "dget (id_activations ?t) j = Some q" using qt set_dvals [OF dt] by auto
    have "request_subject q = request_subject r" "is_pending q" "is_pending r"
      using qm found by (simp_all add: matches_subject_def request_subject_def is_pending_def)
    then have "j = k" using rt j kt unfolding requests_inv_def by blast
    then show ?thesis using j kt by simp
  qed
  have room: "pending_count ?t < MAX_PENDING_ACTIVATIONS"
    using dcount_expire_all [of now' "id_activations s1"] assms(6) by (simp add: pending_count_dcount)
  have rin: "r \<in> set (dvals (id_activations ?t))" using dget_in_dvals [OF kt] .
  let ?match = "matches_subject c (activation_subject_digest E c)"
  obtain q where q: "find ?match (dvals (id_activations ?t)) = Some q"
    using rin found by (cases "find ?match (dvals (id_activations ?t))") (auto simp: find_None_iff)
  then have "q = r" using unique find_actor [OF q] by blast
  then have "create_or_reuse E c now' fresh' s1 = (?t, Inr r)"
    using q room by (intro create_or_reuse_found [OF r1]) simp_all
  then show ?thesis by blast
qed

theorem activation_request_is_reused_witness:
  "\<exists>s1 s2 r. create_or_reuse demo_env demo_request 5 ''req-2'' demo_identity = (s1, Inr r)
     \<and> create_or_reuse demo_env demo_request 6 ''req-3'' s1 = (s2, Inr r) \<and> aq_request_id r = ''req-1''"
proof -
  let ?t = "with_requests (expire_all 5 (id_activations demo_identity)) demo_identity"
  have t: "id_activations ?t = [(''req-1'', demo_pending)]"
    by (simp add: demo_identity_def expire_all_def expire_def overdue_def demo_pending_def new_activation_def
        ACTIVATION_TTL_SECONDS_def seconds_def)
  have count: "pending_count ?t < MAX_PENDING_ACTIVATIONS"
    using t by (simp add: pending_count_def dvals_def MAX_PENDING_ACTIVATIONS_def)
  have run: "create_or_reuse demo_env demo_request 5 ''req-2'' demo_identity = (?t, Inr demo_pending)"
    using t by (intro create_or_reuse_found [OF demo_requests _ count])
      (simp_all add: dvals_def matches_subject_def demo_pending_def new_activation_def demo_request_def)
  have "6 < aq_expires_at demo_pending"
    by (simp add: demo_pending_def new_activation_def ACTIVATION_TTL_SECONDS_def seconds_def)
  moreover have "dget (id_activations demo_identity) ''req-2'' = None" by (simp add: demo_identity_def)
  ultimately obtain s2 where "create_or_reuse demo_env demo_request 6 ''req-3'' ?t = (s2, Inr demo_pending)"
    using activation_request_is_reused [OF demo_directory_inv demo_request_ok _ run _ count] by blast
  then show ?thesis using run by (auto simp: demo_pending_def)
qed

subsection \<open>OAuth states and sessions\<close>

text \<open>
  C21. An OAuth state works once. After a state was consumed, for a login or for a connection test,
  consuming it again, either way and at any time, is refused as unknown and changes nothing, until a
  state with the same digest is issued anew; whatever else runs, clean-ups included.
\<close>

theorem oauth_state_is_single_use:
  assumes "identity_inv E n s"
    and "(\<exists>v. consume_oauth_login_state k now s = (s1, Inr v)) \<or> (\<exists>v. consume_oauth_test_state k now s = (s1, Inr v))"
    and "calls (identity_step E n) (\<lambda>c. \<not> issues_state c k) s1 s2"
  shows "consume_oauth_login_state k now' s2 = (s2, Inl OAuthStateNotFoundError)
    \<and> consume_oauth_test_state k now' s2 = (s2, Inl OAuthStateNotFoundError)"
proof -
  have m: "oauth_marked s k now s1" using assms(2) consume_login_ok consume_test_ok by blast
  have "oauth_spent s1 k" using marked_spent(1) [OF _ m] assms(1) by (auto simp: identity_inv_def)
  then have "oauth_spent s2 k" using oauth.stays_spent [OF assms(3) marked_run_inv [OF assms(1) m]] by blast
  then show ?thesis using spent_refused by blast
qed

theorem oauth_state_is_single_use_witness:
  "\<exists>s1 v. consume_oauth_login_state (demo_digest CHR ''c'') 5 demo_identity = (s1, Inr v)
     \<and> consume_oauth_login_state (demo_digest CHR ''c'') 6 s1 = (s1, Inl OAuthStateNotFoundError)"
proof -
  obtain s1 v where run: "consume_oauth_login_state (demo_digest CHR ''c'') 5 demo_identity = (s1, Inr v)"
    using demo_consumed by blast
  then show ?thesis
    using oauth_state_is_single_use [OF demo_identity_inv disjI1 calls_none, of "demo_digest CHR ''c''" 5 s1] by blast
qed

lemma replaces_same_digest: "replaces_session c (k, w) = replaces_session c (k, v)"
  by (cases c) simp_all

lemma revoked_for_good:
  assumes "identity_inv E n s" "revoked_as s (k, w)" "wl_session_digest q = k"
    and "calls (identity_step E n) (\<lambda>c. \<not> replaces_session c (k, v)) s s'"
  shows "get_session s' q now = Inl WebSessionNotFoundError"
proof -
  have "calls (identity_step E n) (\<lambda>c. \<not> replaces_session c (k, w)) s s'"
    using assms(4) by (rule calls_mono) (simp add: replaces_same_digest [of _ k w v])
  then have "revoked_as s' (k, w)" using sessions.stays_spent assms(1,2) by blast
  then show ?thesis using revoked_refused assms(3) by blast
qed

text \<open>
  C22. A change of the local administrator's password ends its sessions. After it, no session of the
  local administrator that existed before, other than under the new digest, is ever found again,
  through any origin and at any time, unless a later change of the password reuses that digest; the
  stored credential has the new hash and no longer asks for a change.
\<close>

theorem password_change_ends_admin_sessions:
  assumes "identity_inv E n s" "change_password_and_rotate_session c now s = (s1, Inr record)"
    and "dget (id_sessions s) (wl_session_digest q) = Some w" "ws_auth_source w = SRC_LOCAL_ADMIN"
    and "wl_session_digest q \<noteq> cp_new_session_digest c"
    and "calls (identity_step E n) (\<lambda>d. \<not> replaces_session d (wl_session_digest q, w)) s1 s2"
  shows "get_session s2 q now' = Inl WebSessionNotFoundError
    \<and> la_password_hash record = cp_password_hash c \<and> \<not> la_must_change_password record
    \<and> id_local_admin s1 = Some record"
proof -
  have si: "sessions_inv s" using assms(1) by (simp add: identity_inv_def)
  from assms(2) si obtain p t where p: "record = changed_record c p" "sessions_step s t"
      "only_sessions (with_record (changed_record c p) s) t"
      "s1 = put_session (cp_new_session_digest c) (admin_session c now) t"
    and ended: "\<And>k w. dget (id_sessions t) k = Some w \<Longrightarrow> ws_auth_source w = SRC_LOCAL_ADMIN \<Longrightarrow> ws_revoked_at w \<noteq> None"
    by (cases rule: change_password_cases) auto
  obtain v where v: "dget (id_sessions t) (wl_session_digest q) = Some v" "session_step w v"
    using p(2) assms(3) unfolding sessions_step_def by blast
  then have "ws_auth_source v = SRC_LOCAL_ADMIN" using assms(4) by (auto simp: session_step_def revoked_def)
  then have "revoked_as s1 (wl_session_digest q, v)" using v(1) ended assms(5) by (auto simp: p(4))
  then have "get_session s2 q now' = Inl WebSessionNotFoundError"
    using revoked_for_good [OF password_inv [OF assms(1,2)]] assms(6) by blast
  moreover have "id_local_admin t = Some record" using only_sessions_frames [OF p(3)] by (simp add: p(1))
  ultimately show ?thesis
    by (simp add: p(1,4) changed_record_def put_session_def)
qed

theorem password_change_ends_admin_sessions_witness:
  "\<exists>s1 r. change_password_and_rotate_session demo_change 5 demo_identity = (s1, Inr r)
     \<and> get_session demo_identity \<lparr>wl_session_digest = demo_digest CHR ''a'',
         wl_public_origin_digest = demo_digest CHR ''b''\<rparr> 6 = Inr demo_session
     \<and> get_session s1 \<lparr>wl_session_digest = demo_digest CHR ''a'',
         wl_public_origin_digest = demo_digest CHR ''b''\<rparr> 6 = Inl WebSessionNotFoundError"
proof -
  let ?q = "\<lparr>wl_session_digest = demo_digest CHR ''a'', wl_public_origin_digest = demo_digest CHR ''b''\<rparr>"
  obtain s1 r where run: "change_password_and_rotate_session demo_change 5 demo_identity = (s1, Inr r)"
    using demo_changed by blast
  have "get_session s1 ?q 6 = Inl WebSessionNotFoundError"
    using password_change_ends_admin_sessions [OF demo_identity_inv run _ _ _ calls_none, of ?q demo_session 6]
    by (simp add: demo_identity_def demo_session_def demo_change_def)
  moreover have "get_session demo_identity ?q 6 = Inr demo_session"
    by (simp add: get_session_def demo_identity_def demo_session_def seconds_def)
  ultimately show ?thesis using run by blast
qed

text \<open>
  The password change files its session without looking for the digest: an existing session under it,
  revoked or not, is replaced (\<open>rotate_session\<close> refuses such a digest).
\<close>

lemma password_change_takes_any_digest:
  assumes "change_password_and_rotate_session c now s = (s1, Inr r)" "sessions_inv s"
  shows "dget (id_sessions s1) (cp_new_session_digest c) = Some (admin_session c now)"
  using assms by (cases rule: change_password_cases) simp_all

end
