(* ===== verification/Admin_Claims.thy ===== *)
theory Admin_Claims
  imports Admin_Service Identity_Claims
begin

text \<open>
  The administrator's service over the stores: what its four writes may do, whatever the session
  claims, and that a refusal by the directory is on record.
\<close>

subsection \<open>The four writes\<close>

datatype admin_write =
    SetStatus string user_status product_role user_status
  | ChangeRole string product_role product_role
  | Approve string string string product_role
  | Reject string

fun run_write ::
  "py_env \<Rightarrow> admin_actor \<Rightarrow> admin_write \<Rightarrow> string \<Rightarrow> (identity_state \<Rightarrow> identity_state) \<Rightarrow> instant
     \<Rightarrow> instant \<Rightarrow> unit admin_op" where
  "run_write E actor (SetStatus u e r st) trace_id = set_user_status E actor u e r st trace_id"
| "run_write E actor (ChangeRole u e r) trace_id = change_user_role E actor u e r trace_id"
| "run_write E actor (Approve i a d r) trace_id = admin_approve E actor i a d r trace_id"
| "run_write E actor (Reject i) trace_id = admin_reject E actor i trace_id"

fun write_command :: "admin_actor \<Rightarrow> admin_write \<Rightarrow> directory_command" where
  "write_command actor (SetStatus u e r st) = SetManagedUserStatus
     \<lparr>dc_user_id = u, dc_tenant_id = aa_tenant_id actor, dc_environment_id = aa_environment_id actor,
      ms_expected_status = e, ms_expected_role = r, ms_status = st\<rparr>"
| "write_command actor (ChangeRole u e r) = ChangeManagedUserRole
     \<lparr>dc_user_id = u, dc_tenant_id = aa_tenant_id actor, dc_environment_id = aa_environment_id actor,
      mr_expected_role = e, mr_role = r\<rparr>"
| "write_command actor (Approve i a d r) = ApproveActivation
     \<lparr>ad_request_id = i, ad_tenant_id = aa_tenant_id actor, ad_environment_id = aa_environment_id actor,
      ap_actor = a, ap_display_name = d, ap_approved_role = r\<rparr>"
| "write_command actor (Reject i) = RejectActivation
     \<lparr>ad_request_id = i, ad_tenant_id = aa_tenant_id actor, ad_environment_id = aa_environment_id actor\<rparr>"

lemma write_needs_admin [simp]: "needs_admin (write_command actor w)"
  by (cases w) simp_all

lemma write_scope [simp]:
  "command_scope (write_command actor w) = (aa_tenant_id actor, aa_environment_id actor)"
  by (cases w) simp_all

definition may_manage :: "admin_actor \<Rightarrow> bool" where
  "may_manage actor \<longleftrightarrow> aa_role actor = ROLE_ADMIN \<and> MANAGE_USERS \<in> aa_capabilities actor"

text \<open>What a write does once its checks have passed.\<close>

definition admitted_write ::
  "py_env \<Rightarrow> admin_actor \<Rightarrow> admin_write \<Rightarrow> string \<Rightarrow> (identity_state \<Rightarrow> identity_state) \<Rightarrow> instant
     \<Rightarrow> instant \<Rightarrow> audit_event list admin_op" where
  "admitted_write E actor w trace_id others now now' =
     (case w of
        SetStatus u e r st \<Rightarrow> closed_call (apply_or_deny E (write_command actor w) (admin_context actor trace_id)
          TGT_USER u others now now')
      | ChangeRole u e r \<Rightarrow> closed_call (apply_or_deny E (write_command actor w) (admin_context actor trace_id)
          TGT_USER u others now now')
      | Approve i a d r \<Rightarrow> closed_call (apply_or_deny E (write_command actor w) (admin_context actor trace_id)
          TGT_ACTIVATION i others now now')
      | Reject i \<Rightarrow> closed_call (apply_or_deny E (write_command actor w) (admin_context actor trace_id)
          TGT_ACTIVATION i others now now'))"

lemma andthen_lift: "andthen (lift f r) g = (case r of Inl e \<Rightarrow> raise (f e) | Inr b \<Rightarrow> g b)"
  by (rule ext) (simp add: andthen_def lift_def raise_def split: sum.split)

lemma andthen_require: "andthen (require b e) g = (if b then g () else raise e)"
  by (rule ext) (simp add: andthen_def require_def raise_def)

lemma andthen_built: "andthen (built ok b) g = (if ok b then g b else raise (Passed IdentityValidationError))"
  by (simp add: built_def andthen_lift revalidate_def)

lemma andthen_capability:
  "andthen (require_capability actor MANAGE_USERS) g
     = (if may_manage actor then g () else raise AdminIdentityForbiddenError)"
  by (simp add: require_capability_def andthen_require may_manage_def)

lemmas write_defs = set_user_status_def change_user_role_def admin_approve_def admin_reject_def
  decide_as_admin_def decide_activation_def apply_managed_def admitted_write_def

lemma run_write_admitted:
  assumes "may_manage actor" "directory_command_ok (write_command actor w)"
    "operation_context_ok (admin_context actor trace_id)"
  shows "run_write E actor w trace_id others now now'
     = andthen (admitted_write E actor w trace_id others now now') (\<lambda>_. ret ())"
  using assms
  by (cases w) (simp_all add: write_defs andthen_built andthen_capability del: directory_command_ok.simps)

lemma run_write_refused:
  assumes "\<not> (may_manage actor \<and> directory_command_ok (write_command actor w)
    \<and> operation_context_ok (admin_context actor trace_id))"
  shows "\<exists>e. run_write E actor w trace_id others now now' = raise e
    \<and> \<not> (may_manage actor \<and> e = AdminIdentityForbiddenError)"
  using assms
  by (cases w) (simp_all only: run_write.simps write_command.simps write_defs andthen_built andthen_capability
     split: if_split, blast+)

lemma run_write_cases:
  assumes "run_write E actor w trace_id others now now' s = (s', r)"
  obtains (refused) e where "s' = s" "r = Inl e"
      "\<not> (may_manage actor \<and> e = AdminIdentityForbiddenError)"
  | (admitted) q where "may_manage actor" "directory_command_ok (write_command actor w)"
      "operation_context_ok (admin_context actor trace_id)"
      "admitted_write E actor w trace_id others now now' s = (s', q)" "r = map_sum id (\<lambda>_. ()) q"
proof (cases "may_manage actor \<and> directory_command_ok (write_command actor w)
    \<and> operation_context_ok (admin_context actor trace_id)")
  case True
  obtain t q where q: "admitted_write E actor w trace_id others now now' s = (t, q)" by fastforce
  have "andthen (admitted_write E actor w trace_id others now now') (\<lambda>_. ret ()) s = (s', r)"
    using True run_write_admitted assms by metis
  then have "s' = t \<and> r = map_sum id (\<lambda>_. ()) q"
    using q by (cases q) (auto simp: andthen_def ret_def)
  then show thesis using that(2) [of q] True q by blast
next
  case False
  then obtain e where "run_write E actor w trace_id others now now' = raise e"
      "\<not> (may_manage actor \<and> e = AdminIdentityForbiddenError)"
    using run_write_refused by blast
  then show thesis using assms that(1) by (auto simp: raise_def)
qed

text \<open>An admitted write applies its command, fails with it, or is denied and the denial appended.\<close>

definition denial_event :: "admin_actor \<Rightarrow> string \<Rightarrow> audit_reason_code \<Rightarrow> audit_event \<Rightarrow> bool" where
  "denial_event actor trace_id code e \<longleftrightarrow> ac_outcome e = AO_DENIED \<and> ac_reason_code e = Some code
     \<and> ac_operation_id e = ''w3:'' @ trace_id \<and> ac_actor_user_id e = aa_user_id actor
     \<and> ac_actor e = aa_actor actor \<and> ac_tenant_id e = aa_tenant_id actor
     \<and> ac_environment_id e = aa_environment_id actor"

lemma append_or_refusal:
  "append_or taken E c now s = (s', Inl e) \<Longrightarrow> e = taken \<or> e = IdentityValidationError"
  by (auto simp: append_or_def append_locked_def andthen_def raise_def ret_def Let_def
      split: if_splits sum.splits option.splits)

lemma append_denied_cases:
  assumes "append_denied E d now s = (s', r)"
  obtains (appended) e where "appended E s e s'" "r = Inr e"
      "audit_candidate.truncate e = candidate_of d AO_DENIED (Some (an_reason_code d)) no_effect"
  | (refused) e where "s' = s" "r = Inl e" "\<And>code. e \<noteq> UserDirectoryDecisionDeniedError code"
proof -
  let ?c = "candidate_of d AO_DENIED (Some (an_reason_code d)) no_effect"
  show thesis
  proof (cases "audit_candidate_ok ?c")
    case False
    then show thesis using assms that(2) [of IdentityValidationError]
      by (simp add: append_denied_def andthen_def checked_as_def lift_def revalidate_def)
  next
    case True
    then have "append_or AdminAuditConflictError E ?c now s = (s', r)"
      using assms by (simp add: append_denied_def andthen_def checked_as_def lift_def revalidate_def)
    note run = this
    from run show thesis
    proof (cases rule: append_or_cases)
      case (failed e)
      then show thesis using run append_or_refusal that(2) [of e] by blast
    next
      case (written e)
      then show thesis using that(1) by blast
    qed
  qed
qed

lemma admitted_write_cases:
  assumes "admitted_write E actor w trace_id others now now' s = (s', q)"
  obtains (applied) evs where "apply_command E (write_command actor w) (admin_context actor trace_id) now s
        = (s', Inr evs)" "q = Inr evs"
  | (failed) e where "apply_command E (write_command actor w) (admin_context actor trace_id) now s = (s', Inl e)"
      "q = Inl (raise_closed e)" "\<And>code. e \<noteq> UserDirectoryDecisionDeniedError code"
  | (denied) code e where "fst (apply_command E (write_command actor w) (admin_context actor trace_id) now s) = s"
      "snd (apply_command E (write_command actor w) (admin_context actor trace_id) now s)
        = Inl (UserDirectoryDecisionDeniedError code)"
      "appended E (others s) e s'" "denial_event actor trace_id code e"
      "q = Inl (raise_closed (UserDirectoryDecisionDeniedError code))"
  | (unwritten) code e where "snd (apply_command E (write_command actor w) (admin_context actor trace_id) now s)
        = Inl (UserDirectoryDecisionDeniedError code)"
      "s' = others s" "q = Inl (raise_closed e)" "\<And>code. e \<noteq> UserDirectoryDecisionDeniedError code"
proof -
  let ?oc = "admin_context actor trace_id"
  note unwritten = that(4)
  obtain kind ref where run: "closed_call (apply_or_deny E (write_command actor w) ?oc kind ref others now now') s = (s', q)"
    using assms by (cases w) (auto simp: admitted_write_def)
  obtain s1 x where a: "apply_command E (write_command actor w) ?oc now s = (s1, x)" by fastforce
  show thesis
  proof (cases x)
    case (Inr evs)
    then show thesis using run a that(1) by (simp add: closed_call_def apply_or_deny_def)
  next
    case (Inl e)
    have s1: "s1 = s" using a Inl by (cases rule: apply_command_cases) simp_all
    show thesis
    proof (cases "\<exists>code. e = UserDirectoryDecisionDeniedError code")
      case False
      then show thesis using run a Inl that(2) by (cases e) (auto simp: closed_call_def apply_or_deny_def)
    next
      case True
      then obtain code where e: "e = UserDirectoryDecisionDeniedError code" by blast
      let ?d = "denial_of E ?oc (aa_tenant_id actor, aa_environment_id actor)
        (ACTION_FOR_COMMAND (write_command actor w)) kind ref code"
      obtain t y where t: "append_denied E ?d now' (others s) = (t, y)" by fastforce
      have run': "(s', q) = closed_call (andthen (checked_as audit_subject_ok ?d) (\<lambda>denial.
          andthen (append_denied E denial now') (\<lambda>_. raise e))) (others s)"
        using run a Inl e s1 by (simp add: closed_call_def apply_or_deny_def del: raise_closed.simps)
      have bad: "s' = others s \<and> q = Inl (raise_closed IdentityValidationError)" if "\<not> audit_subject_ok ?d"
        using run' that by (simp add: closed_call_def andthen_def checked_as_def lift_def revalidate_def)
      have good: "s' = t \<and> q = Inl (raise_closed (case y of Inl e' \<Rightarrow> e' | Inr _ \<Rightarrow> e))" if "audit_subject_ok ?d"
        using run' that t by (cases y) (simp_all add: closed_call_def andthen_def checked_as_def lift_def
          revalidate_def raise_def del: raise_closed.simps)
      have not_written: thesis if u: "s' = others s" "q = Inl (raise_closed e')"
        "\<And>code. e' \<noteq> UserDirectoryDecisionDeniedError code" for e'
        by (rule unwritten [of code e']) (use a Inl e u in simp_all)
      show thesis
      proof (cases "audit_subject_ok ?d")
        case False
        then show thesis using bad not_written [of IdentityValidationError] by blast
      next
        case ok: True
        from t show thesis
        proof (cases rule: append_denied_cases)
          case (appended ev)
          have "denial_event actor trace_id code ev"
            using appended(3)
            by (auto simp: denial_event_def audit_candidate.truncate_def candidate_of_def denial_of_def
                admin_context_def)
          then show thesis using that(3) [of code ev] a Inl e s1 good [OF ok] appended(1,2) by simp
        next
          case (refused e')
          then show thesis using good [OF ok] not_written [of e'] by simp
        qed
      qed
    qed
  qed
qed

subsection \<open>The properties\<close>

definition acts_as_admin :: "identity_state \<Rightarrow> admin_actor \<Rightarrow> bool" where
  "acts_as_admin s actor \<longleftrightarrow> (\<exists>a r. dget (id_accounts s) (aa_user_id actor) = Some a
     \<and> ua_status a = US_ACTIVE \<and> ua_actor a = aa_actor actor
     \<and> dget (id_roles s) (aa_user_id actor, aa_tenant_id actor, aa_environment_id actor) = Some r
     \<and> ra_role r = ROLE_ADMIN)"

text \<open>
  C23. An administrator's write is authorised twice. When one of the four writes of the service returns,
  the session claimed the ADMIN role and the capability to manage users, and the directory held an
  active account of that actor with the ADMIN role in the scope; what it did is the directory command
  it stands for, with the audit event of that command. When it raises, nothing changed beyond what
  others did meanwhile, except that one denial under the operation and the actor may have been
  appended to the trail.
\<close>

theorem admin_writes_are_authorised:
  assumes "directory_inv E s" "run_write E actor w trace_id others now now' s = (s', r)"
  shows "case r of
       Inr u \<Rightarrow> may_manage actor \<and> acts_as_admin s actor
         \<and> (\<exists>evs. apply_command E (write_command actor w) (admin_context actor trace_id) now s = (s', Inr evs)
              \<and> trail_grows s evs s')
     | Inl e \<Rightarrow> s' = s \<or> s' = others s
         \<or> (\<exists>code ev. appended E (others s) ev s' \<and> denial_event actor trace_id code ev)"
  using assms(2)
proof (cases rule: run_write_cases)
  case (admitted q)
  from admitted(4) show ?thesis
  proof (cases rule: admitted_write_cases)
    case (applied evs)
    have run: "apply_locked E (write_command actor w) (admin_context actor trace_id) now s = (s', Inr evs)"
      using applied(1) by (cases rule: apply_command_cases) simp_all
    have "acts_as_admin s actor"
      using admin_refusal_none [OF decision_authorised [OF write_needs_admin run]]
      by (simp add: acts_as_admin_def admin_context_def)
    moreover have "trail_grows s evs s'"
      using apply_locked_done [OF assms(1) run] by (simp add: directory_done_def directory_effect_def)
    ultimately show ?thesis using applied admitted by auto
  next
    case (failed e)
    then have "s' = s" by (auto elim: apply_command_cases)
    then show ?thesis using failed admitted by simp
  next
    case (denied code ev)
    then show ?thesis using admitted by auto
  next
    case (unwritten code e)
    then show ?thesis using admitted by auto
  qed
qed simp

definition demo_admin_actor :: admin_actor where
  "demo_admin_actor = \<lparr>aa_user_id = ''local-admin'', aa_tenant_id = ''dev-local'', aa_environment_id = ''dev'',
     aa_actor = ''admin'', aa_auth_source = SRC_LOCAL_ADMIN, aa_role = ROLE_ADMIN,
     aa_capabilities = {MANAGE_USERS}\<rparr>"

definition demo_admin_write :: admin_write where
  "demo_admin_write = Approve ''req-1'' ''ann'' ''Ann'' ROLE_USER"

lemma demo_trace_ok [simp]: "bounded_str 48 ''w3:t''" "bounded_id ''w3:t''"
  by (rule bounded_ascii; code_simp)+

lemma demo_admin_write_command:
  "aa_tenant_id actor = ''dev-local'' \<Longrightarrow> aa_environment_id actor = ''dev'' \<Longrightarrow>
     write_command actor demo_admin_write = ApproveActivation demo_approval"
  by (simp add: demo_admin_write_def demo_approval_def)

lemma demo_admin_write_closed:
  "aa_tenant_id actor = ''dev-local'' \<Longrightarrow> aa_environment_id actor = ''dev'' \<Longrightarrow>
     admitted_write demo_env actor demo_admin_write ''t'' others now now'
       = closed_call (apply_or_deny demo_env (ApproveActivation demo_approval) (admin_context actor ''t'')
           TGT_ACTIVATION ''req-1'' others now now')"
  using demo_admin_write_command [of actor] by (simp add: admitted_write_def demo_admin_write_def fun_eq_iff)

lemma demo_admin_run:
  assumes m: "may_manage actor" and oc: "operation_context_ok (admin_context actor ''t'')"
    and sc: "aa_tenant_id actor = ''dev-local''" "aa_environment_id actor = ''dev''"
    and run: "apply_or_deny demo_env (ApproveActivation demo_approval) (admin_context actor ''t'')
        TGT_ACTIVATION ''req-1'' others now now' s = (s1, q)"
  shows "run_write demo_env actor demo_admin_write ''t'' others now now' s
    = (s1, map_sum raise_closed (\<lambda>_. ()) q)"
proof -
  have ok: "directory_command_ok (write_command actor demo_admin_write)"
    unfolding demo_admin_write_command [OF sc] by (rule demo_approval_ok)
  show ?thesis
    unfolding run_write_admitted [OF m ok oc] demo_admin_write_closed [OF sc]
    using run by (cases q) (simp_all add: andthen_def closed_call_def ret_def)
qed

theorem admin_writes_are_authorised_witness:
  "\<exists>s1 e. run_write demo_env demo_admin_actor demo_admin_write ''t'' (\<lambda>s. s) 5 6 demo_identity = (s1, Inr ())
     \<and> acts_as_admin demo_identity demo_admin_actor \<and> trail_grows demo_identity [e] s1"
proof -
  have oc: "operation_context_ok (admin_context demo_admin_actor ''t'')"
    by (simp add: operation_context_ok_def admin_context_def demo_admin_actor_def)
  obtain s1 e where a: "apply_command demo_env (ApproveActivation demo_approval)
      (admin_context demo_admin_actor ''t'') 5 demo_identity = (s1, Inr [e])"
    using demo_approved_by [OF oc] by (auto simp: admin_context_def demo_admin_actor_def)
  have m: "may_manage demo_admin_actor" by (simp add: may_manage_def demo_admin_actor_def)
  have run: "run_write demo_env demo_admin_actor demo_admin_write ''t'' (\<lambda>s. s) 5 6 demo_identity = (s1, Inr ())"
    using demo_admin_run [OF m oc, of "\<lambda>s. s" 5 6 demo_identity s1 "Inr [e]"] a
    by (simp add: demo_admin_actor_def apply_or_deny_def)
  then show ?thesis
    using admin_writes_are_authorised [OF demo_directory_inv run] run a demo_admin_write_command [of demo_admin_actor]
    by (auto simp: demo_admin_actor_def)
qed

text \<open>
  C24. A forbidden write leaves a trace. When the service of an administrator who claims the capability
  answers \<open>AdminIdentityForbiddenError\<close>, the directory had refused the very command with a reason other
  than a missing or foreign target, and the denial with that reason, the operation and the actor is
  the newest event of the trail.
\<close>

theorem forbidden_write_is_on_record:
  assumes "run_write E actor w trace_id others now now' s = (s', Inl AdminIdentityForbiddenError)"
    and "may_manage actor"
  shows "\<exists>code ev. code \<notin> {RC_TARGET_NOT_FOUND, RC_SCOPE_MISMATCH}
     \<and> snd (apply_command E (write_command actor w) (admin_context actor trace_id) now s)
         = Inl (UserDirectoryDecisionDeniedError code)
     \<and> appended E (others s) ev s' \<and> denial_event actor trace_id code ev"
  using assms(1)
proof (cases rule: run_write_cases)
  case (refused e)
  then show ?thesis using assms(2) by simp
next
  case (admitted q)
  have forbidden: "\<exists>code. e = UserDirectoryDecisionDeniedError code \<and> code \<notin> {RC_TARGET_NOT_FOUND, RC_SCOPE_MISMATCH}"
    if "raise_closed e = AdminIdentityForbiddenError" for e
    using that by (cases e) (auto split: if_splits)
  from admitted(4) show ?thesis
  proof (cases rule: admitted_write_cases)
    case (denied code ev)
    then show ?thesis using admitted(5) forbidden [of "UserDirectoryDecisionDeniedError code"] by auto
  next
    case (applied evs)
    then show ?thesis using admitted(5) by simp
  next
    case (failed e)
    then show ?thesis using admitted(5) forbidden [of e] by auto
  next
    case (unwritten code e)
    then show ?thesis using admitted(5) forbidden [of e] by auto
  qed
qed

lemma append_denied_writes:
  assumes "audit_subject_ok d" "id_events s = []" "id_stages s = []"
  shows "\<exists>s' e. append_denied demo_env d now s = (s', Inr e)"
proof -
  let ?c = "candidate_of d AO_DENIED (Some (an_reason_code d)) no_effect"
  have ok: "audit_candidate_ok ?c"
    using assms(1) by (simp add: audit_candidate_ok_def audit_subject_ok_def candidate_of_def
        reason_code_matches_outcome_def NEGATIVE_OUTCOMES_def effect_matches_action_and_outcome_def
        is_empty_effect_def no_effect_def directory_actions_are_single_phase_def)
  then obtain e where "seal demo_env ?c now = Inr e"
    by (simp add: seal_def audit_stage_key_def revalidate_def audit_event_ok_def audit_candidate_ok_def
        audit_subject_ok_def reason_code_matches_outcome_def effect_matches_action_and_outcome_def
        directory_actions_are_single_phase_def candidate_of_def)
  then show ?thesis
    using ok assms(2,3) by (simp add: append_denied_def append_or_def append_locked_def op_run_simps Let_def)
qed

definition demo_outsider :: admin_actor where
  "demo_outsider = demo_admin_actor\<lparr>aa_user_id := ''user-ann'', aa_actor := ''ann''\<rparr>"

lemma demo_denied:
  "apply_command demo_env (ApproveActivation demo_approval) (admin_context demo_outsider ''t'') 5 demo_identity
     = (demo_identity, Inl (UserDirectoryDecisionDeniedError RC_ACTOR_NOT_ADMIN))"
proof -
  have "apply_locked demo_env (ApproveActivation demo_approval) (admin_context demo_outsider ''t'') 5 demo_identity
      = (demo_identity, Inl (UserDirectoryDecisionDeniedError RC_ACTOR_NOT_ADMIN))"
    by (simp add: approve_activation_def open_request_def require_admin_def admin_refusal_def op_run_simps
       admin_context_def demo_outsider_def demo_admin_actor_def demo_approval_def demo_identity_def
       new_account_def Let_def)
  then show ?thesis by (simp add: apply_command_def restore_snapshot)
qed

theorem forbidden_write_is_on_record_witness:
  "\<exists>s1. run_write demo_env demo_outsider demo_admin_write ''t'' (\<lambda>s. s) 5 6 demo_identity
       = (s1, Inl AdminIdentityForbiddenError)
     \<and> (\<exists>code ev. appended demo_env demo_identity ev s1 \<and> denial_event demo_outsider ''t'' code ev)"
proof -
  let ?oc = "admin_context demo_outsider ''t''"
  let ?d = "denial_of demo_env ?oc (''dev-local'', ''dev'') (ACTION_FOR_COMMAND (ApproveActivation demo_approval))
    TGT_ACTIVATION ''req-1'' RC_ACTOR_NOT_ADMIN"
  have oc: "operation_context_ok ?oc"
    by (simp add: operation_context_ok_def admin_context_def demo_outsider_def demo_admin_actor_def)
  have m: "may_manage demo_outsider" by (simp add: may_manage_def demo_outsider_def demo_admin_actor_def)
  have d: "audit_subject_ok ?d"
    by (simp add: audit_subject_ok_def denial_of_def admin_context_def demo_outsider_def demo_admin_actor_def)
  then obtain s1 ev where w: "append_denied demo_env ?d 6 demo_identity = (s1, Inr ev)"
    using append_denied_writes [of ?d demo_identity 6] by auto
  have scope: "ad_tenant_id demo_approval = ''dev-local''" "ad_environment_id demo_approval = ''dev''"
    by (simp_all add: demo_approval_def)
  have "apply_or_deny demo_env (ApproveActivation demo_approval) ?oc TGT_ACTIVATION ''req-1'' (\<lambda>s. s) 5 6 demo_identity
      = (s1, Inl (UserDirectoryDecisionDeniedError RC_ACTOR_NOT_ADMIN))"
    using w d by (simp add: apply_or_deny_def demo_denied scope op_run_simps)
  then have run: "run_write demo_env demo_outsider demo_admin_write ''t'' (\<lambda>s. s) 5 6 demo_identity
      = (s1, Inl AdminIdentityForbiddenError)"
    using demo_admin_run [OF m oc, of "\<lambda>s. s" 5 6 demo_identity s1]
    by (simp add: demo_outsider_def demo_admin_actor_def)
  show ?thesis using forbidden_write_is_on_record [OF run m] run by auto
qed

end
