(* ===== verification/Channel_Contracts.thy ===== *)
theory Channel_Contracts
  imports Task_Store
begin

text \<open>
  \<open>persistence/channel.py\<close>: the records of channel bindings and of projection subscriptions, and
  the pure rules by which a delivery worker claims, renews, advances and gives up a projection.
\<close>

subsection \<open>Enumerations\<close>

datatype channel_kind = CK_FEISHU_PRIVATE | CK_FEISHU_GROUP | CK_WEB

fun channel_kind_value :: "channel_kind \<Rightarrow> string" where
  "channel_kind_value CK_FEISHU_PRIVATE = ''feishu_private''"
| "channel_kind_value CK_FEISHU_GROUP = ''feishu_group''"
| "channel_kind_value CK_WEB = ''web''"

datatype destination_kind = DK_FEISHU_MESSAGE_CARD | DK_FEISHU_PRIVATE_NOTICE

fun destination_kind_value :: "destination_kind \<Rightarrow> string" where
  "destination_kind_value DK_FEISHU_MESSAGE_CARD = ''feishu_message_card''"
| "destination_kind_value DK_FEISHU_PRIVATE_NOTICE = ''feishu_private_notice''"

datatype projection_state =
    PENDING_INITIAL | WAITING_TERMINAL | DELIVERING_TERMINAL | COMPLETED | DEAD_LETTER

datatype projection_error_code =
    PROVIDER_RATE_LIMITED | PROVIDER_TIMEOUT | PROVIDER_UNAVAILABLE | PROVIDER_UNAUTHORIZED
    | PROVIDER_FORBIDDEN | PROVIDER_INVALID_PAYLOAD | PROVIDER_INTERNAL

datatype source_submission_kind = SSK_CONVERSATION | SSK_SQL_ARTIFACT

text \<open>
  The errors of the channel store: its own exception classes, the \<open>TaskNotFoundError\<close> it shares
  with the task store, and a failed validation.
\<close>

datatype channel_error =
    ChannelBindingNotFoundError | ChannelBindingConflictError | ChannelSourceKindConflictError
  | ProjectionSubscriptionNotFoundError | ProjectionSubscriptionConflictError
  | ProjectionClaimNotFoundError | ChannelTaskNotFoundError string | ChannelValidationError

subsection \<open>Bindings and subscriptions\<close>

record channel_binding =
  cb_binding_id :: string
  cb_task_id :: string
  cb_tenant_id :: string
  cb_environment_id :: string
  cb_channel :: channel_kind
  cb_initiator_subject_ref :: string
  cb_conversation_ref :: "string option"
  cb_source_event_ref :: string
  cb_created_at :: instant

definition channel_binding_ok :: "channel_binding \<Rightarrow> bool" where
  "channel_binding_ok b \<longleftrightarrow> strict_str (cb_binding_id b) \<and> task_id_ok (cb_task_id b)
     \<and> strict_str (cb_tenant_id b) \<and> strict_str (cb_environment_id b)
     \<and> strict_str (cb_initiator_subject_ref b) \<and> opt_all strict_str (cb_conversation_ref b)
     \<and> strict_str (cb_source_event_ref b)
     \<and> \<not> (cb_channel b = CK_FEISHU_GROUP \<and> cb_conversation_ref b = None)"

record projection_subscription =
  pj_subscription_id :: string
  pj_task_id :: string
  pj_destination_kind :: destination_kind
  pj_destination_ref :: string
  pj_source_message_ref :: "string option"
  pj_state :: projection_state
  pj_last_projected_task_version :: "int option"
  pj_attempt_number :: int
  pj_claim_owner :: "string option"
  pj_claim_expires_at :: "instant option"
  pj_fencing_token :: "int option"
  pj_next_attempt_at :: instant
  pj_provider_failure_count :: int
  pj_last_error_code :: "projection_error_code option"
  pj_payload_digest :: "string option"

definition projection_fields_consistent :: "projection_subscription \<Rightarrow> bool" where
  "projection_fields_consistent p \<longleftrightarrow>
     (let claimed = pj_claim_owner p \<noteq> None;
          projected = pj_last_projected_task_version p \<noteq> None;
          failed = 0 < pj_provider_failure_count p
      in claimed = (pj_claim_expires_at p \<noteq> None) \<and> claimed = (pj_fencing_token p \<noteq> None)
       \<and> \<not> (pj_state p \<in> {COMPLETED, DEAD_LETTER} \<and> claimed)
       \<and> projected = (pj_payload_digest p \<noteq> None)
       \<and> failed = (pj_last_error_code p \<noteq> None)
       \<and> \<not> (pj_state p = COMPLETED \<and> (\<not> projected \<or> pj_source_message_ref p = None)))"

definition projection_subscription_ok :: "projection_subscription \<Rightarrow> bool" where
  "projection_subscription_ok p \<longleftrightarrow> strict_str (pj_subscription_id p) \<and> task_id_ok (pj_task_id p)
     \<and> strict_str (pj_destination_ref p) \<and> opt_all strict_str (pj_source_message_ref p)
     \<and> opt_all (\<lambda>n. 0 \<le> n) (pj_last_projected_task_version p) \<and> 0 \<le> pj_attempt_number p
     \<and> opt_all strict_str (pj_claim_owner p) \<and> opt_all (\<lambda>n. 0 < n) (pj_fencing_token p)
     \<and> 0 \<le> pj_provider_failure_count p \<and> opt_all sha256_hex (pj_payload_digest p)
     \<and> projection_fields_consistent p"

record create_projection_command =
  cpc_task_id :: string
  cpc_destination_kind :: destination_kind
  cpc_destination_ref :: string
  cpc_initial_state :: projection_state
  cpc_next_attempt_at :: instant

definition create_projection_command_ok :: "create_projection_command \<Rightarrow> bool" where
  "create_projection_command_ok c \<longleftrightarrow> task_id_ok (cpc_task_id c) \<and> strict_str (cpc_destination_ref c)
     \<and> cpc_initial_state c \<in> {PENDING_INITIAL, WAITING_TERMINAL}"

record bind_task_command =
  btc_task_id :: string
  btc_tenant_id :: string
  btc_environment_id :: string
  btc_channel :: channel_kind
  btc_initiator_subject_ref :: string
  btc_conversation_ref :: "string option"
  btc_source_event_ref :: string
  btc_created_at :: instant
  btc_projection :: "create_projection_command option"

definition bind_task_command_ok :: "bind_task_command \<Rightarrow> bool" where
  "bind_task_command_ok c \<longleftrightarrow> task_id_ok (btc_task_id c) \<and> strict_str (btc_tenant_id c)
     \<and> strict_str (btc_environment_id c) \<and> strict_str (btc_initiator_subject_ref c)
     \<and> opt_all strict_str (btc_conversation_ref c) \<and> strict_str (btc_source_event_ref c)
     \<and> opt_all create_projection_command_ok (btc_projection c)
     \<and> opt_all (\<lambda>p. cpc_task_id p = btc_task_id c) (btc_projection c)
     \<and> \<not> (btc_channel c = CK_FEISHU_GROUP \<and> btc_conversation_ref c = None)"

record claim_source_event_command =
  cse_tenant_id :: string
  cse_environment_id :: string
  cse_source_event_ref :: string
  cse_input_kind :: source_submission_kind

text \<open>
  The three lookups by task and scope (\<open>GroupBindingLookup\<close>, \<open>ChannelBindingLookup\<close>) have the fields
  of \<open>TaskLookup\<close>.
\<close>

record private_chat_lookup =
  pcl_tenant_id :: string
  pcl_environment_id :: string
  pcl_subject_ref :: string

record group_bound_task_ids_query =
  gbq_tenant_id :: string
  gbq_environment_id :: string
  gbq_task_ids :: "string list"

record projection_due_query =
  pdq_tenant_id :: string
  pdq_environment_id :: string
  pdq_limit :: int

record claim_projection_command =
  clp_subscription_id :: string
  clp_claim_owner :: string
  clp_ttl_seconds :: int
  clp_expected_state :: projection_state

definition claim_projection_command_ok :: "claim_projection_command \<Rightarrow> bool" where
  "claim_projection_command_ok c \<longleftrightarrow> strict_str (clp_subscription_id c)
     \<and> strict_str (clp_claim_owner c) \<and> 0 < clp_ttl_seconds c"

text \<open>\<open>ProjectionClaimMutation\<close>: the credentials every later command extends.\<close>

record claim_mutation =
  cm_subscription_id :: string
  cm_claim_owner :: string
  cm_fencing_token :: int
  cm_expected_state :: projection_state

definition claim_mutation_ok :: "'a claim_mutation_scheme \<Rightarrow> bool" where
  "claim_mutation_ok c \<longleftrightarrow> strict_str (cm_subscription_id c) \<and> strict_str (cm_claim_owner c)
     \<and> 0 < cm_fencing_token c"

record renew_claim_command = claim_mutation +
  rnc_ttl_seconds :: int

record claimed_task_lookup =
  ctl_subscription_id :: string
  ctl_claim_owner :: string
  ctl_fencing_token :: int

record record_initial_command = claim_mutation +
  ric_source_message_ref :: string
  ric_task_version :: int
  ric_payload_digest :: string
  ric_task_terminal :: bool
  ric_next_attempt_at :: instant

definition record_initial_command_ok :: "record_initial_command \<Rightarrow> bool" where
  "record_initial_command_ok c \<longleftrightarrow> claim_mutation_ok c \<and> strict_str (ric_source_message_ref c)
     \<and> 0 \<le> ric_task_version c \<and> sha256_hex (ric_payload_digest c)"

record task_recheck_command = claim_mutation +
  trc_next_attempt_at :: instant

record provider_retry_command = claim_mutation +
  prc_next_attempt_at :: instant
  prc_error_code :: projection_error_code

record complete_projection_command = claim_mutation +
  cpl_source_message_ref :: string
  cpl_task_version :: int
  cpl_payload_digest :: string

definition complete_projection_command_ok :: "complete_projection_command \<Rightarrow> bool" where
  "complete_projection_command_ok c \<longleftrightarrow> claim_mutation_ok c \<and> strict_str (cpl_source_message_ref c)
     \<and> 0 \<le> cpl_task_version c \<and> sha256_hex (cpl_payload_digest c)"

record dead_letter_command = claim_mutation +
  dlc_error_code :: projection_error_code

record projection_update_result =
  pur_applied :: bool
  pur_winner :: projection_subscription

subsection \<open>Stable semantics of repeated commands\<close>

definition binding_matches_command :: "channel_binding \<Rightarrow> bind_task_command \<Rightarrow> bool" where
  "binding_matches_command b c \<longleftrightarrow> cb_task_id b = btc_task_id c \<and> cb_tenant_id b = btc_tenant_id c
     \<and> cb_environment_id b = btc_environment_id c \<and> cb_channel b = btc_channel c
     \<and> cb_initiator_subject_ref b = btc_initiator_subject_ref c
     \<and> cb_conversation_ref b = btc_conversation_ref c \<and> cb_source_event_ref b = btc_source_event_ref c"

definition subscription_matches_command ::
  "projection_subscription \<Rightarrow> create_projection_command \<Rightarrow> bool" where
  "subscription_matches_command p c \<longleftrightarrow>
     (let identity_matches = pj_task_id p = cpc_task_id c
            \<and> pj_destination_kind p = cpc_destination_kind c
            \<and> pj_destination_ref p = cpc_destination_ref c;
          untouched = pj_attempt_number p = 0 \<and> pj_last_projected_task_version p = None
            \<and> pj_provider_failure_count p = 0
      in identity_matches \<and> (\<not> untouched \<or> pj_state p = cpc_initial_state c))"

subsection \<open>Claims\<close>

text \<open>
  The result of a rule: \<open>Inl\<close> when the copied subscription fails its validator. \<open>not_applied\<close> and
  \<open>applied\<close> are the two shapes of \<open>ProjectionUpdateResult\<close>.
\<close>

definition not_applied :: "projection_subscription \<Rightarrow> validation_error + projection_update_result" where
  "not_applied current = Inr \<lparr>pur_applied = False, pur_winner = current\<rparr>"

definition applied :: "projection_subscription \<Rightarrow> validation_error + projection_update_result" where
  "applied winner = (case revalidate projection_subscription_ok winner of
      Inl e \<Rightarrow> Inl e
    | Inr w \<Rightarrow> Inr \<lparr>pur_applied = True, pur_winner = w\<rparr>)"

definition claim_expires_after :: "projection_subscription \<Rightarrow> instant \<Rightarrow> bool" where
  "claim_expires_after p now = (case pj_claim_expires_at p of None \<Rightarrow> False | Some t \<Rightarrow> now < t)"

definition claim_projection ::
  "projection_subscription \<Rightarrow> claim_projection_command \<Rightarrow> instant \<Rightarrow> int
     \<Rightarrow> validation_error + projection_update_result" where
  "claim_projection current command now fencing_token =
     (let live_claim = pj_claim_owner current \<noteq> None \<and> claim_expires_after current now;
          terminal = pj_state current \<in> {COMPLETED, DEAD_LETTER}
      in if terminal \<or> pj_state current \<noteq> clp_expected_state command
          \<or> now < pj_next_attempt_at current \<or> live_claim
        then not_applied current
        else applied (current\<lparr>
          pj_state := (if pj_state current = WAITING_TERMINAL then DELIVERING_TERMINAL
            else pj_state current),
          pj_attempt_number := pj_attempt_number current + 1,
          pj_claim_owner := Some (clp_claim_owner command),
          pj_claim_expires_at := Some (now + seconds (clp_ttl_seconds command)),
          pj_fencing_token := Some fencing_token\<rparr>))"

definition claim_matches ::
  "projection_subscription \<Rightarrow> 'a claim_mutation_scheme \<Rightarrow> instant \<Rightarrow> bool" where
  "claim_matches current command now \<longleftrightarrow> pj_state current = cm_expected_state command
     \<and> pj_claim_owner current = Some (cm_claim_owner command)
     \<and> pj_fencing_token current = Some (cm_fencing_token command) \<and> claim_expires_after current now"

definition renew_projection_claim ::
  "projection_subscription \<Rightarrow> renew_claim_command \<Rightarrow> instant
     \<Rightarrow> validation_error + projection_update_result" where
  "renew_projection_claim current command now =
     (case pj_claim_expires_at current of
        None \<Rightarrow> not_applied current
      | Some expires_at \<Rightarrow>
          if \<not> claim_matches current command now then not_applied current
          else applied (current\<lparr>pj_claim_expires_at :=
            Some (max expires_at (now + seconds (rnc_ttl_seconds command)))\<rparr>))"

definition authorize_claimed_task_lookup ::
  "projection_subscription \<Rightarrow> channel_binding option \<Rightarrow> claimed_task_lookup \<Rightarrow> instant
     \<Rightarrow> channel_error + task_lookup" where
  "authorize_claimed_task_lookup p binding lookup now =
     (if pj_subscription_id p \<noteq> ctl_subscription_id lookup
        \<or> pj_claim_owner p \<noteq> Some (ctl_claim_owner lookup)
        \<or> pj_fencing_token p \<noteq> Some (ctl_fencing_token lookup)
        \<or> \<not> claim_expires_after p now
      then Inl ProjectionClaimNotFoundError
      else case binding of
          None \<Rightarrow> Inl ProjectionClaimNotFoundError
        | Some b \<Rightarrow>
            if cb_task_id b \<noteq> pj_task_id p then Inl ProjectionClaimNotFoundError
            else Inr \<lparr>tl_task_id = cb_task_id b, tl_tenant_id = cb_tenant_id b,
                   tl_environment_id = cb_environment_id b\<rparr>)"

text \<open>The claim fields every finishing rule clears.\<close>

definition release_claim :: "projection_subscription \<Rightarrow> projection_subscription" where
  "release_claim p = p\<lparr>pj_claim_owner := None, pj_claim_expires_at := None, pj_fencing_token := None\<rparr>"

definition record_initial_projection ::
  "projection_subscription \<Rightarrow> record_initial_command \<Rightarrow> instant
     \<Rightarrow> validation_error + projection_update_result" where
  "record_initial_projection current command now =
     (if pj_state current \<noteq> PENDING_INITIAL \<or> \<not> claim_matches current command now
      then not_applied current
      else applied (release_claim (current\<lparr>
        pj_state := (if ric_task_terminal command then COMPLETED else WAITING_TERMINAL),
        pj_source_message_ref := Some (ric_source_message_ref command),
        pj_last_projected_task_version := Some (ric_task_version command),
        pj_payload_digest := Some (ric_payload_digest command),
        pj_next_attempt_at := ric_next_attempt_at command\<rparr>)))"

definition schedule_task_recheck ::
  "projection_subscription \<Rightarrow> task_recheck_command \<Rightarrow> instant
     \<Rightarrow> validation_error + projection_update_result" where
  "schedule_task_recheck current command now =
     (if pj_state current \<noteq> DELIVERING_TERMINAL \<or> \<not> claim_matches current command now
      then not_applied current
      else applied (release_claim (current\<lparr>pj_state := WAITING_TERMINAL,
        pj_next_attempt_at := trc_next_attempt_at command\<rparr>)))"

definition schedule_provider_retry ::
  "projection_subscription \<Rightarrow> provider_retry_command \<Rightarrow> instant
     \<Rightarrow> validation_error + projection_update_result" where
  "schedule_provider_retry current command now =
     (if pj_state current \<notin> {PENDING_INITIAL, DELIVERING_TERMINAL} \<or> \<not> claim_matches current command now
      then not_applied current
      else applied (release_claim (current\<lparr>pj_next_attempt_at := prc_next_attempt_at command,
        pj_provider_failure_count := pj_provider_failure_count current + 1,
        pj_last_error_code := Some (prc_error_code command)\<rparr>)))"

definition complete_projection ::
  "projection_subscription \<Rightarrow> complete_projection_command \<Rightarrow> instant
     \<Rightarrow> validation_error + projection_update_result" where
  "complete_projection current command now =
     (if pj_state current \<notin> {PENDING_INITIAL, DELIVERING_TERMINAL} \<or> \<not> claim_matches current command now
      then not_applied current
      else applied (release_claim (current\<lparr>pj_state := COMPLETED,
        pj_source_message_ref := Some (cpl_source_message_ref command),
        pj_last_projected_task_version := Some (cpl_task_version command),
        pj_payload_digest := Some (cpl_payload_digest command)\<rparr>)))"

definition dead_letter_projection ::
  "projection_subscription \<Rightarrow> dead_letter_command \<Rightarrow> instant
     \<Rightarrow> validation_error + projection_update_result" where
  "dead_letter_projection current command now =
     (if pj_state current \<notin> {PENDING_INITIAL, DELIVERING_TERMINAL} \<or> \<not> claim_matches current command now
      then not_applied current
      else applied (release_claim (current\<lparr>pj_state := DEAD_LETTER,
        pj_provider_failure_count := pj_provider_failure_count current + 1,
        pj_last_error_code := Some (dlc_error_code command)\<rparr>)))"

end
