(* ===== verification/Channel_Store.thy ===== *)
theory Channel_Store
  imports Channel_Contracts
begin

text \<open>
  The operations of \<open>InMemoryChannelStore\<close> (\<open>persistence/fake.py\<close>): one atomic function each. The
  channel facts live beside the task facts and only read the tasks, which are an argument.
\<close>

record channel_state =
  ch_bindings :: "(string, channel_binding) dict"
  ch_binding_ids_by_source :: "(string list, string) dict"
  ch_binding_ids_by_task :: "(string, string) dict"
  ch_source_kinds :: "(string list, source_submission_kind) dict"
  ch_subscriptions :: "(string, projection_subscription) dict"
  ch_subscription_ids_by_destination :: "(string list, string) dict"
  ch_next_fencing_token :: int

definition empty_channel :: channel_state where
  "empty_channel = \<lparr>ch_bindings = [], ch_binding_ids_by_source = [], ch_binding_ids_by_task = [],
     ch_source_kinds = [], ch_subscriptions = [], ch_subscription_ids_by_destination = [],
     ch_next_fencing_token = 1\<rparr>"

type_synonym tasks = "(string, task_record) dict"
type_synonym 'a channel_result = "channel_state \<times> (channel_error + 'a)"

subsection \<open>Subscriptions and bindings\<close>

definition ch_require_task :: "tasks \<Rightarrow> string \<Rightarrow> channel_error + task_record" where
  "ch_require_task tasks task_id = (case dget tasks task_id of
      None \<Rightarrow> Inl (ChannelTaskNotFoundError task_id)
    | Some r \<Rightarrow> Inr r)"

definition require_subscription ::
  "channel_state \<Rightarrow> string \<Rightarrow> channel_error + projection_subscription" where
  "require_subscription s subscription_id = (case dget (ch_subscriptions s) subscription_id of
      None \<Rightarrow> Inl ProjectionSubscriptionNotFoundError
    | Some p \<Rightarrow> Inr p)"

fun ch_checked :: "validation_error + 'a \<Rightarrow> channel_error + 'a" where
  "ch_checked (Inl e) = Inl ChannelValidationError"
| "ch_checked (Inr a) = Inr a"

definition destination_key :: "create_projection_command \<Rightarrow> string list" where
  "destination_key c =
     [cpc_task_id c, destination_kind_value (cpc_destination_kind c), cpc_destination_ref c]"

text \<open>
  The index is read with \<open>get\<close> and the subscription with \<open>[]\<close>: an index entry without its
  subscription would be a \<open>KeyError\<close>, shown unreachable below; it is a validation error here.
\<close>

definition create_subscription_locked ::
  "tasks \<Rightarrow> channel_state \<Rightarrow> create_projection_command \<Rightarrow> string
     \<Rightarrow> projection_subscription channel_result" where
  "create_subscription_locked tasks s command fresh_id =
     (case ch_require_task tasks (cpc_task_id command) of
        Inl e \<Rightarrow> (s, Inl e)
      | Inr _ \<Rightarrow>
          (case dget (ch_subscription_ids_by_destination s) (destination_key command) of
             Some existing_id \<Rightarrow>
               (case dget (ch_subscriptions s) existing_id of
                  None \<Rightarrow> (s, Inl ChannelValidationError)
                | Some existing \<Rightarrow>
                    if \<not> subscription_matches_command existing command
                    then (s, Inl ProjectionSubscriptionConflictError)
                    else (s, Inr existing))
           | None \<Rightarrow>
               (case ch_checked (revalidate projection_subscription_ok
                   \<lparr>pj_subscription_id = fresh_id, pj_task_id = cpc_task_id command,
                    pj_destination_kind = cpc_destination_kind command,
                    pj_destination_ref = cpc_destination_ref command, pj_source_message_ref = None,
                    pj_state = cpc_initial_state command, pj_last_projected_task_version = None,
                    pj_attempt_number = 0, pj_claim_owner = None, pj_claim_expires_at = None,
                    pj_fencing_token = None, pj_next_attempt_at = cpc_next_attempt_at command,
                    pj_provider_failure_count = 0, pj_last_error_code = None,
                    pj_payload_digest = None\<rparr>) of
                  Inl e \<Rightarrow> (s, Inl e)
                | Inr p \<Rightarrow>
                    (s\<lparr>ch_subscriptions := dset fresh_id p (ch_subscriptions s),
                       ch_subscription_ids_by_destination :=
                         dset (destination_key command) fresh_id
                           (ch_subscription_ids_by_destination s)\<rparr>, Inr p))))"

definition claim_source_event ::
  "channel_state \<Rightarrow> claim_source_event_command \<Rightarrow> unit channel_result" where
  "claim_source_event s command =
     (let source_key = [cse_tenant_id command, cse_environment_id command, cse_source_event_ref command]
      in case dget (ch_source_kinds s) source_key of
          Some chosen \<Rightarrow>
            if chosen \<noteq> cse_input_kind command then (s, Inl ChannelSourceKindConflictError)
            else (s, Inr ())
        | None \<Rightarrow>
            (s\<lparr>ch_source_kinds := dset source_key (cse_input_kind command) (ch_source_kinds s)\<rparr>,
             Inr ()))"

definition binding_source_key :: "bind_task_command \<Rightarrow> string list" where
  "binding_source_key c = [btc_tenant_id c, btc_environment_id c,
     channel_kind_value (btc_channel c), btc_source_event_ref c]"

definition create_nested ::
  "tasks \<Rightarrow> channel_state \<Rightarrow> create_projection_command option \<Rightarrow> string \<Rightarrow> unit channel_result" where
  "create_nested tasks s projection fresh_id = (case projection of
      None \<Rightarrow> (s, Inr ())
    | Some command \<Rightarrow>
        (case create_subscription_locked tasks s command fresh_id of
           (s', Inl e) \<Rightarrow> (s', Inl e)
         | (s', Inr _) \<Rightarrow> (s', Inr ())))"

definition bind_task ::
  "tasks \<Rightarrow> channel_state \<Rightarrow> bind_task_command \<Rightarrow> string \<Rightarrow> string \<Rightarrow> channel_binding channel_result" where
  "bind_task tasks s command fresh_binding_id fresh_subscription_id =
     (case ch_require_task tasks (btc_task_id command) of
        Inl e \<Rightarrow> (s, Inl e)
      | Inr task \<Rightarrow>
          if tr_tenant_id task \<noteq> btc_tenant_id command
            \<or> tr_environment_id task \<noteq> btc_environment_id command
          then (s, Inl (ChannelTaskNotFoundError (btc_task_id command)))
          else
            let source_id = dget (ch_binding_ids_by_source s) (binding_source_key command);
                task_binding_id = dget (ch_binding_ids_by_task s) (btc_task_id command)
            in case (if source_id \<noteq> None then source_id else task_binding_id) of
              Some existing_id \<Rightarrow>
                (case dget (ch_bindings s) existing_id of
                   None \<Rightarrow> (s, Inl ChannelValidationError)
                 | Some existing \<Rightarrow>
                     if source_id \<noteq> task_binding_id \<or> \<not> binding_matches_command existing command
                     then (s, Inl ChannelBindingConflictError)
                     else (case create_nested tasks s (btc_projection command) fresh_subscription_id of
                         (s', Inl e) \<Rightarrow> (s', Inl e)
                       | (s', Inr _) \<Rightarrow> (s', Inr existing)))
            | None \<Rightarrow>
                (case ch_checked (revalidate channel_binding_ok
                    \<lparr>cb_binding_id = fresh_binding_id, cb_task_id = btc_task_id command,
                     cb_tenant_id = btc_tenant_id command, cb_environment_id = btc_environment_id command,
                     cb_channel = btc_channel command,
                     cb_initiator_subject_ref = btc_initiator_subject_ref command,
                     cb_conversation_ref = btc_conversation_ref command,
                     cb_source_event_ref = btc_source_event_ref command,
                     cb_created_at = btc_created_at command\<rparr>) of
                   Inl e \<Rightarrow> (s, Inl e)
                 | Inr binding \<Rightarrow>
                     (case create_nested tasks s (btc_projection command) fresh_subscription_id of
                        (s', Inl e) \<Rightarrow> (s', Inl e)
                      | (s', Inr _) \<Rightarrow>
                          (s'\<lparr>ch_bindings := dset fresh_binding_id binding (ch_bindings s'),
                              ch_binding_ids_by_source := dset (binding_source_key command)
                                fresh_binding_id (ch_binding_ids_by_source s'),
                              ch_binding_ids_by_task := dset (btc_task_id command)
                                fresh_binding_id (ch_binding_ids_by_task s')\<rparr>, Inr binding))))"

subsection \<open>Reads\<close>

definition binding_of_task :: "channel_state \<Rightarrow> string \<Rightarrow> channel_binding option" where
  "binding_of_task s task_id =
     Option.bind (dget (ch_binding_ids_by_task s) task_id) (dget (ch_bindings s))"

definition get_binding :: "channel_state \<Rightarrow> task_lookup \<Rightarrow> channel_error + channel_binding" where
  "get_binding s lookup = (case binding_of_task s (tl_task_id lookup) of
      None \<Rightarrow> Inl ChannelBindingNotFoundError
    | Some b \<Rightarrow>
        if cb_tenant_id b \<noteq> tl_tenant_id lookup \<or> cb_environment_id b \<noteq> tl_environment_id lookup
        then Inl ChannelBindingNotFoundError else Inr b)"

definition get_group_binding :: "channel_state \<Rightarrow> task_lookup \<Rightarrow> channel_error + channel_binding" where
  "get_group_binding s lookup = (case binding_of_task s (tl_task_id lookup) of
      None \<Rightarrow> Inl ChannelBindingNotFoundError
    | Some b \<Rightarrow>
        if cb_tenant_id b \<noteq> tl_tenant_id lookup \<or> cb_environment_id b \<noteq> tl_environment_id lookup
          \<or> cb_channel b \<noteq> CK_FEISHU_GROUP
        then Inl ChannelBindingNotFoundError else Inr b)"

fun first_card_ref :: "projection_subscription list \<Rightarrow> channel_binding list \<Rightarrow> string option" where
  "first_card_ref ps [] = None"
| "first_card_ref ps (b # bs) =
     (case find (\<lambda>p. pj_task_id p = cb_task_id b
          \<and> pj_destination_kind p = DK_FEISHU_MESSAGE_CARD) ps of
        Some p \<Rightarrow> Some (pj_destination_ref p)
      | None \<Rightarrow> first_card_ref ps bs)"

definition find_private_chat_ref :: "channel_state \<Rightarrow> private_chat_lookup \<Rightarrow> string option" where
  "find_private_chat_ref s lookup = first_card_ref (dvals (ch_subscriptions s))
     (sorted_desc (\<lambda>b. (cb_created_at b, cb_binding_id b))
       (filter (\<lambda>b. cb_tenant_id b = pcl_tenant_id lookup
            \<and> cb_environment_id b = pcl_environment_id lookup
            \<and> cb_channel b = CK_FEISHU_PRIVATE
            \<and> cb_initiator_subject_ref b = pcl_subject_ref lookup) (dvals (ch_bindings s))))"

definition list_group_bound_task_ids :: "channel_state \<Rightarrow> group_bound_task_ids_query \<Rightarrow> string set" where
  "list_group_bound_task_ids s query = set (filter
     (\<lambda>task_id. case binding_of_task s task_id of
         None \<Rightarrow> False
       | Some b \<Rightarrow> cb_tenant_id b = gbq_tenant_id query
           \<and> cb_environment_id b = gbq_environment_id query \<and> cb_channel b = CK_FEISHU_GROUP)
     (gbq_task_ids query))"

definition is_due ::
  "channel_state \<Rightarrow> projection_due_query \<Rightarrow> instant \<Rightarrow> projection_subscription \<Rightarrow> bool" where
  "is_due s query now p \<longleftrightarrow> (case binding_of_task s (pj_task_id p) of
      None \<Rightarrow> False
    | Some b \<Rightarrow> cb_tenant_id b = pdq_tenant_id query
        \<and> cb_environment_id b = pdq_environment_id query
        \<and> pj_state p \<notin> {COMPLETED, DEAD_LETTER} \<and> pj_next_attempt_at p \<le> now
        \<and> \<not> claim_expires_after p now)"

definition list_due_projection_subscriptions ::
  "channel_state \<Rightarrow> projection_due_query \<Rightarrow> instant \<Rightarrow> projection_subscription list" where
  "list_due_projection_subscriptions s query now =
     take (nat (pdq_limit query))
       (sort_key (\<lambda>p. (pj_next_attempt_at p, pj_subscription_id p))
          (filter (is_due s query now) (dvals (ch_subscriptions s))))"

subsection \<open>Claims\<close>

definition save_projection ::
  "channel_state \<Rightarrow> validation_error + projection_update_result
     \<Rightarrow> projection_update_result channel_result" where
  "save_projection s result = (case ch_checked result of
      Inl e \<Rightarrow> (s, Inl e)
    | Inr r \<Rightarrow>
        (if pur_applied r
         then s\<lparr>ch_subscriptions := dset (pj_subscription_id (pur_winner r)) (pur_winner r)
                (ch_subscriptions s)\<rparr>
         else s, Inr r))"

definition claim_projection_subscription ::
  "channel_state \<Rightarrow> claim_projection_command \<Rightarrow> instant \<Rightarrow> projection_update_result channel_result" where
  "claim_projection_subscription s command now =
     (case require_subscription s (clp_subscription_id command) of
        Inl e \<Rightarrow> (s, Inl e)
      | Inr current \<Rightarrow>
          (case claim_projection current command now (ch_next_fencing_token s) of
             Inl e \<Rightarrow> (s, Inl ChannelValidationError)
           | Inr r \<Rightarrow>
               save_projection
                 (if pur_applied r then s\<lparr>ch_next_fencing_token := ch_next_fencing_token s + 1\<rparr> else s)
                 (Inr r)))"

definition resolve_claimed_task_lookup ::
  "channel_state \<Rightarrow> claimed_task_lookup \<Rightarrow> instant \<Rightarrow> channel_error + task_lookup" where
  "resolve_claimed_task_lookup s lookup now =
     (case dget (ch_subscriptions s) (ctl_subscription_id lookup) of
        None \<Rightarrow> Inl ProjectionClaimNotFoundError
      | Some p \<Rightarrow> authorize_claimed_task_lookup p (binding_of_task s (pj_task_id p)) lookup now)"

text \<open>The six updates by the holder of a claim differ only in the rule.\<close>

definition update_claimed ::
  "channel_state \<Rightarrow> string \<Rightarrow> (projection_subscription \<Rightarrow> validation_error + projection_update_result)
     \<Rightarrow> projection_update_result channel_result" where
  "update_claimed s subscription_id rule =
     (case require_subscription s subscription_id of
        Inl e \<Rightarrow> (s, Inl e)
      | Inr current \<Rightarrow> save_projection s (rule current))"

definition store_renew_projection_claim ::
  "channel_state \<Rightarrow> renew_claim_command \<Rightarrow> instant \<Rightarrow> projection_update_result channel_result" where
  "store_renew_projection_claim s c now =
     update_claimed s (cm_subscription_id c) (\<lambda>p. renew_projection_claim p c now)"

definition store_record_initial_projection ::
  "channel_state \<Rightarrow> record_initial_command \<Rightarrow> instant \<Rightarrow> projection_update_result channel_result" where
  "store_record_initial_projection s c now =
     update_claimed s (cm_subscription_id c) (\<lambda>p. record_initial_projection p c now)"

definition store_schedule_task_recheck ::
  "channel_state \<Rightarrow> task_recheck_command \<Rightarrow> instant \<Rightarrow> projection_update_result channel_result" where
  "store_schedule_task_recheck s c now =
     update_claimed s (cm_subscription_id c) (\<lambda>p. schedule_task_recheck p c now)"

definition store_schedule_provider_retry ::
  "channel_state \<Rightarrow> provider_retry_command \<Rightarrow> instant \<Rightarrow> projection_update_result channel_result" where
  "store_schedule_provider_retry s c now =
     update_claimed s (cm_subscription_id c) (\<lambda>p. schedule_provider_retry p c now)"

definition store_complete_projection ::
  "channel_state \<Rightarrow> complete_projection_command \<Rightarrow> instant \<Rightarrow> projection_update_result channel_result" where
  "store_complete_projection s c now =
     update_claimed s (cm_subscription_id c) (\<lambda>p. complete_projection p c now)"

definition store_dead_letter_projection ::
  "channel_state \<Rightarrow> dead_letter_command \<Rightarrow> instant \<Rightarrow> projection_update_result channel_result" where
  "store_dead_letter_projection s c now =
     update_claimed s (cm_subscription_id c) (\<lambda>p. dead_letter_projection p c now)"

end
