(* ===== verification/Task_Access.thy ===== *)
theory Task_Access
  imports Task_Store Channel_Store Governance_Contracts
begin

text \<open>
  \<open>TaskAccessService\<close> (\<open>application/channel_access.py\<close>): who may read which task, and the safe
  summaries a reader gets. The service only reads: its awaits see the stores at different moments, so
  each read takes the state of its own moment. The projection of a record to a view
  (\<open>TaskViewRuntime.project_task\<close>), the redaction of free text (\<open>redaction.scrub_text\<close>) and the query
  for group membership are arguments.
\<close>

subsection \<open>Contracts\<close>

record principal =
  pr_tenant_id :: string
  pr_environment_id :: string
  pr_actor :: string
  pr_source :: identity_source
  pr_subject_ref :: string
  pr_permissions :: "channel_permission set"

record task_access_query =
  taq_principal :: principal
  taq_task_id :: string

record task_list_query =
  tlq_principal :: principal
  tlq_before_created_seq :: "int option"
  tlq_limit :: int

definition task_list_query_ok :: "task_list_query \<Rightarrow> bool" where
  "task_list_query_ok q \<longleftrightarrow> opt_all (\<lambda>n. 0 < n) (tlq_before_created_seq q)
     \<and> 0 < tlq_limit q \<and> tlq_limit q \<le> 100"

text \<open>A view is its status and what else the projection shows.\<close>

record 'v task_view =
  tv_status :: task_status
  tv_body :: 'v

definition TASK_SUMMARY_PREVIEW_LIMIT :: int where
  "TASK_SUMMARY_PREVIEW_LIMIT = 240"

definition TASK_DETAIL_PREVIEW_LIMIT :: int where
  "TASK_DETAIL_PREVIEW_LIMIT = 8192"

record 'v accessible_task =
  at_task_view :: "'v task_view"
  at_request_preview :: string
  at_submitted_at :: instant
  at_task_version :: int
  at_clarification_parent_task_id :: "string option"

definition accessible_task_ok :: "'v accessible_task \<Rightarrow> bool" where
  "accessible_task_ok a \<longleftrightarrow> at_request_preview a \<noteq> []
     \<and> char_len (at_request_preview a) \<le> TASK_DETAIL_PREVIEW_LIMIT \<and> 0 \<le> at_task_version a
     \<and> opt_all task_id_ok (at_clarification_parent_task_id a)"

record task_summary =
  sm_task_id :: string
  sm_status :: task_status
  sm_request_preview :: string
  sm_submitted_at :: instant

definition task_summary_ok :: "task_summary \<Rightarrow> bool" where
  "task_summary_ok t \<longleftrightarrow> task_id_ok (sm_task_id t) \<and> sm_request_preview t \<noteq> []
     \<and> char_len (sm_request_preview t) \<le> TASK_SUMMARY_PREVIEW_LIMIT"

record task_page =
  tp_items :: "task_summary list"
  tp_next_created_seq :: "int option"

definition task_page_ok :: "task_page \<Rightarrow> bool" where
  "task_page_ok p \<longleftrightarrow> list_all task_summary_ok (tp_items p)
     \<and> opt_all (\<lambda>n. 0 < n) (tp_next_created_seq p)"

subsection \<open>Errors\<close>

text \<open>\<open>ProjectionError\<close> is any other exception of the projection, by its name.\<close>

datatype access_error =
    TaskAccessNotFoundError
  | TaskAccessSnapshotUnavailableError
  | AccessValidationError
  | StoreRaised store_error
  | ProjectionError string

text \<open>Within a \<open>try\<close> that answers \<open>TaskNotFoundError\<close>, and outside of one.\<close>

fun hiding :: "store_error + 'a \<Rightarrow> access_error + 'a" where
  "hiding (Inl (TaskNotFoundError i)) = Inl TaskAccessNotFoundError"
| "hiding (Inl e) = Inl (StoreRaised e)"
| "hiding (Inr a) = Inr a"

fun passing :: "store_error + 'a \<Rightarrow> access_error + 'a" where
  "passing (Inl e) = Inl (StoreRaised e)"
| "passing (Inr a) = Inr a"

fun valid_or :: "validation_error + 'a \<Rightarrow> access_error + 'a" where
  "valid_or (Inl e) = Inl AccessValidationError"
| "valid_or (Inr a) = Inr a"

subsection \<open>Previews\<close>

text \<open>The first \<open>n\<close> characters of a text, with all the bytes of each.\<close>

fun char_prefix :: "nat \<Rightarrow> string \<Rightarrow> string" where
  "char_prefix n [] = []"
| "char_prefix n (c # cs) =
     (if of_char c div 64 = (2 :: nat) then c # char_prefix n cs
      else case n of 0 \<Rightarrow> [] | Suc m \<Rightarrow> c # char_prefix m cs)"

text \<open>A fixed text stands for a SQL submission, whose text is not shown.\<close>

definition SQL_SUBMISSION_PREVIEW :: string where
  "SQL_SUBMISSION_PREVIEW = map byte [83, 81, 76, 32, 230, 159, 165, 232, 175, 162, 239, 188, 136,
     229, 142, 159, 230, 150, 135, 228, 184, 141, 229, 156, 168, 228, 187, 187, 229, 138, 161, 230,
     145, 152, 232, 166, 129, 228, 184, 173, 230, 152, 190, 231, 164, 186, 239, 188, 137]"

fun request_preview_text :: "task_submission \<Rightarrow> string" where
  "request_preview_text (ConversationSubmission c) = re_text (cs_envelope c)"
| "request_preview_text (ArtifactSubmission a) = SQL_SUBMISSION_PREVIEW"

definition preview :: "(string \<Rightarrow> string) \<Rightarrow> string \<Rightarrow> int \<Rightarrow> string" where
  "preview scrub text limit = char_prefix (nat limit) (scrub text)"

fun submitted_at :: "task_submission \<Rightarrow> instant" where
  "submitted_at (ConversationSubmission c) = cs_as_of c"
| "submitted_at (ArtifactSubmission a) = as_as_of a"

fun parent_of :: "task_submission \<Rightarrow> string option" where
  "parent_of (ConversationSubmission c) = cs_clarification_parent_task_id c"
| "parent_of (ArtifactSubmission a) = None"

subsection \<open>Access\<close>

definition lookup_of :: "principal \<Rightarrow> string \<Rightarrow> task_lookup" where
  "lookup_of p task_id =
     \<lparr>tl_task_id = task_id, tl_tenant_id = pr_tenant_id p, tl_environment_id = pr_environment_id p\<rparr>"

text \<open>
  The port for live membership: \<open>None\<close> when no adapter is assembled; an answer of \<open>None\<close> is an
  exception of the adapter.
\<close>

type_synonym membership = "(string \<Rightarrow> string \<Rightarrow> string \<Rightarrow> bool option) option"

definition authorized_record ::
  "membership \<Rightarrow> store_state \<Rightarrow> channel_state \<Rightarrow> task_access_query \<Rightarrow> task_record option" where
  "authorized_record membership tasks channel query =
     (let p = taq_principal query; lookup = lookup_of p (taq_task_id query) in
      if VIEW_SAFE_TASK \<notin> pr_permissions p then None
      else case get_task tasks lookup of
          Inl e \<Rightarrow> None
        | Inr record \<Rightarrow>
            if ADMIN_ALL_SAFE_TASKS \<in> pr_permissions p \<or> tr_actor record = pr_actor p then Some record
            else case get_group_binding channel lookup of
                Inl e \<Rightarrow> None
              | Inr binding \<Rightarrow>
                  (case (cb_conversation_ref binding, membership) of
                     (Some conversation, Some is_current_group_member) \<Rightarrow>
                       if is_current_group_member (pr_tenant_id p) conversation (pr_subject_ref p) = Some True
                       then Some record else None
                   | _ \<Rightarrow> None))"

text \<open>
  At most three attempts to see one version before and after the projection; \<open>tasks_at\<close> gives the tasks at
  the moment of each read.
\<close>

fun stable_view ::
  "(nat \<Rightarrow> task_record \<Rightarrow> access_error + 'v task_view) \<Rightarrow> (nat \<Rightarrow> store_state) \<Rightarrow> task_lookup \<Rightarrow> nat
     \<Rightarrow> nat \<Rightarrow> task_record \<Rightarrow> access_error + 'v task_view \<times> task_record" where
  "stable_view project tasks_at lookup 0 i record = Inl TaskAccessSnapshotUnavailableError"
| "stable_view project tasks_at lookup (Suc n) i record =
     (case project i record of
        Inl e \<Rightarrow> Inl e
      | Inr candidate \<Rightarrow>
          (case hiding (get_task (tasks_at i) lookup) of
             Inl e \<Rightarrow> Inl e
           | Inr after \<Rightarrow>
               if tr_version record = tr_version after \<and> tv_status candidate = tr_status after
               then Inr (candidate, after)
               else stable_view project tasks_at lookup n (Suc i) after))"

definition show_task ::
  "(string \<Rightarrow> string) \<Rightarrow> 'v task_view \<Rightarrow> task_record \<Rightarrow> task_submission
     \<Rightarrow> access_error + 'v accessible_task" where
  "show_task scrub view record submission = valid_or (revalidate accessible_task_ok
     \<lparr>at_task_view = view,
      at_request_preview = preview scrub (request_preview_text submission) TASK_DETAIL_PREVIEW_LIMIT,
      at_submitted_at = submitted_at submission, at_task_version = tr_version record,
      at_clarification_parent_task_id = parent_of submission\<rparr>)"

definition access_task ::
  "py_env \<Rightarrow> (string \<Rightarrow> string) \<Rightarrow> membership
     \<Rightarrow> (nat \<Rightarrow> task_record \<Rightarrow> access_error + 'v task_view) \<Rightarrow> store_state \<Rightarrow> channel_state
     \<Rightarrow> (nat \<Rightarrow> store_state) \<Rightarrow> store_state \<Rightarrow> task_access_query \<Rightarrow> access_error + 'v accessible_task" where
  "access_task E scrub membership project tasks channel tasks_at later query =
     (case authorized_record membership tasks channel query of
        None \<Rightarrow> Inl TaskAccessNotFoundError
      | Some record \<Rightarrow>
          (let lookup = lookup_of (taq_principal query) (taq_task_id query) in
           case stable_view project tasks_at lookup 3 0 record of
             Inl e \<Rightarrow> Inl e
           | Inr (view, record) \<Rightarrow>
               (case hiding (get_submission E later lookup) of
                  Inl e \<Rightarrow> Inl e
                | Inr submission \<Rightarrow> show_task scrub view record submission)))"

subsection \<open>Parents\<close>

fun submitted_on_web :: "string \<Rightarrow> task_submission \<Rightarrow> bool" where
  "submitted_on_web parent (ArtifactSubmission a) = True"
| "submitted_on_web parent (ConversationSubmission c) =
     (re_channel (cs_envelope c) = CH_WEB \<and> cs_clarification_parent_task_id c \<noteq> Some parent)"

definition task_lookup_ok :: "task_lookup \<Rightarrow> bool" where
  "task_lookup_ok l \<longleftrightarrow> task_id_ok (tl_task_id l) \<and> strict_str (tl_tenant_id l)
     \<and> strict_str (tl_environment_id l)"

definition require_web_parent_access ::
  "py_env \<Rightarrow> store_state \<Rightarrow> store_state \<Rightarrow> channel_state \<Rightarrow> principal \<Rightarrow> string
     \<Rightarrow> access_error + unit" where
  "require_web_parent_access E tasks tasks' channel p parent =
     (if VIEW_SAFE_TASK \<notin> pr_permissions p then Inl TaskAccessNotFoundError
      else if \<not> task_lookup_ok (lookup_of p parent) then Inl AccessValidationError
      else case hiding (get_task tasks (lookup_of p parent)) of
          Inl e \<Rightarrow> Inl e
        | Inr record \<Rightarrow>
            (case hiding (get_submission E tasks' (lookup_of p parent)) of
               Inl e \<Rightarrow> Inl e
             | Inr submission \<Rightarrow>
                 (case get_binding channel (lookup_of p parent) of
                    Inl e \<Rightarrow> Inl TaskAccessNotFoundError
                  | Inr binding \<Rightarrow>
                      if tr_status record \<noteq> CLARIFICATION_REQUIRED \<or> tr_actor record \<noteq> pr_actor p
                        \<or> \<not> submitted_on_web parent submission \<or> cb_channel binding \<noteq> CK_WEB
                        \<or> cb_initiator_subject_ref binding \<noteq> pr_subject_ref p
                      then Inl TaskAccessNotFoundError else Inr ())))"

subsection \<open>Lists\<close>

definition summary_of :: "(string \<Rightarrow> string) \<Rightarrow> stored_task_read \<Rightarrow> task_summary" where
  "summary_of scrub item =
     \<lparr>sm_task_id = tr_task_id (sr_record item), sm_status = tr_status (sr_record item),
      sm_request_preview =
        preview scrub (request_preview_text (sr_submission item)) TASK_SUMMARY_PREVIEW_LIMIT,
      sm_submitted_at = submitted_at (sr_submission item)\<rparr>"

definition summary :: "(string \<Rightarrow> string) \<Rightarrow> stored_task_read \<Rightarrow> access_error + task_summary" where
  "summary scrub item = valid_or (revalidate task_summary_ok (summary_of scrub item))"

fun summaries :: "(string \<Rightarrow> string) \<Rightarrow> stored_task_read list \<Rightarrow> access_error + task_summary list" where
  "summaries scrub [] = Inr []"
| "summaries scrub (item # items) = (case summary scrub item of
      Inl e \<Rightarrow> Inl e
    | Inr x \<Rightarrow> (case summaries scrub items of Inl e \<Rightarrow> Inl e | Inr xs \<Rightarrow> Inr (x # xs)))"

text \<open>
  The loop over an actor's page: group tasks are passed over, and the loop stops once it has \<open>limit\<close>
  summaries. The result is the summaries, the last task looked at, and whether more tasks follow.
\<close>

fun collect ::
  "(string \<Rightarrow> string) \<Rightarrow> string set \<Rightarrow> int \<Rightarrow> bool \<Rightarrow> task_summary list \<Rightarrow> int option
     \<Rightarrow> stored_task_read list \<Rightarrow> access_error + task_summary list \<times> int option \<times> bool" where
  "collect scrub groups limit has_more found processed [] = Inr (found, processed, has_more)"
| "collect scrub groups limit has_more found processed (item # items) =
     (case (if tr_task_id (sr_record item) \<in> groups then Inr found
            else map_sum id (\<lambda>x. found @ [x]) (summary scrub item)) of
        Inl e \<Rightarrow> Inl e
      | Inr found' \<Rightarrow>
          if int (length found') = limit
          then Inr (found', Some (tr_created_seq (sr_record item)), has_more \<or> items \<noteq> [])
          else collect scrub groups limit has_more found' (Some (tr_created_seq (sr_record item))) items)"

definition list_tasks ::
  "py_env \<Rightarrow> (string \<Rightarrow> string) \<Rightarrow> store_state \<Rightarrow> channel_state \<Rightarrow> task_list_query
     \<Rightarrow> access_error + task_page" where
  "list_tasks E scrub tasks channel query =
     (let p = tlq_principal query in
      if VIEW_SAFE_TASK \<notin> pr_permissions p then Inl TaskAccessNotFoundError
      else if ADMIN_ALL_SAFE_TASKS \<in> pr_permissions p
      then (case passing (list_tasks_for_scope E tasks
              \<lparr>spq_tenant_id = pr_tenant_id p, spq_environment_id = pr_environment_id p,
               spq_before_created_seq = tlq_before_created_seq query, spq_limit = tlq_limit query\<rparr>) of
            Inl e \<Rightarrow> Inl e
          | Inr stored \<Rightarrow>
              (case summaries scrub (pg_items stored) of
                 Inl e \<Rightarrow> Inl e
               | Inr items \<Rightarrow> valid_or (revalidate task_page_ok
                   \<lparr>tp_items = items, tp_next_created_seq = pg_next_created_seq stored\<rparr>)))
      else (case passing (list_tasks_for_actor E tasks
              \<lparr>apq_tenant_id = pr_tenant_id p, apq_environment_id = pr_environment_id p,
               apq_actor = pr_actor p, apq_before_created_seq = tlq_before_created_seq query,
               apq_limit = 100\<rparr>) of
            Inl e \<Rightarrow> Inl e
          | Inr stored \<Rightarrow>
              (let groups = (if pg_items stored = [] then {}
                 else list_group_bound_task_ids channel
                   \<lparr>gbq_tenant_id = pr_tenant_id p, gbq_environment_id = pr_environment_id p,
                    gbq_task_ids = map (\<lambda>i. tr_task_id (sr_record i)) (pg_items stored)\<rparr>) in
               case collect scrub groups (tlq_limit query) (pg_next_created_seq stored \<noteq> None) [] None
                   (pg_items stored) of
                 Inl e \<Rightarrow> Inl e
               | Inr (found, processed, has_more) \<Rightarrow> valid_or (revalidate task_page_ok
                   \<lparr>tp_items = found,
                    tp_next_created_seq = (if has_more then processed else None)\<rparr>))))"

end
