(* ===== verification/Paging_Claims.thy ===== *)
theory Paging_Claims
  imports Task_Claims2
begin

text \<open>
  Pages of tasks (\<open>list_tasks_for_actor\<close>, \<open>list_tasks_for_scope\<close>): following the cursors visits every
  task of the scope exactly once, newest first.
\<close>

abbreviation newer :: "task_record \<Rightarrow> task_record \<Rightarrow> bool" where
  "newer x y \<equiv> tr_created_seq y < tr_created_seq x"

lemma sorted_desc_filter: "sorted_desc f (filter p xs) = filter p (sorted_desc f xs)"
  unfolding sorted_desc_def by (simp only: rev_filter filter_sort [symmetric])

lemma candidates_filter:
  "page_candidates s t e a (Some c) =
     filter (\<lambda>r. tr_created_seq r < c) (page_candidates s t e a None)"
  unfolding page_candidates_def sorted_desc_filter filter_filter
  by (rule filter_cong) auto

lemma candidates_tasks:
  "tasks_inv E s \<Longrightarrow> r \<in> set (page_candidates s t e a b) \<Longrightarrow> \<exists>k. dget (st_tasks s) k = Some r"
  using set_dvals [of "st_tasks s" r] by (simp add: page_candidates_def tasks_inv_def)

lemma task_values_distinct:
  assumes "tasks_inv E s"
  shows "distinct (dvals (st_tasks s))"
proof -
  have d: "distinct (map fst (st_tasks s))" using assms by (simp add: tasks_inv_def dict_ok_def)
  have "inj_on snd (set (st_tasks s))"
  proof (rule inj_onI)
    fix p q assume pq: "p \<in> set (st_tasks s)" "q \<in> set (st_tasks s)" "snd p = snd q"
    then have "dget (st_tasks s) (fst p) = Some (snd p)" "dget (st_tasks s) (fst q) = Some (snd q)"
      using assms mem_dget by (metis prod.collapse tasks_inv_def)+
    with pq(3) have "fst p = fst q"
      using tasks_inv_filed [OF assms] by (metis task_filed_def)
    with pq(3) show "p = q" by (simp add: prod_eq_iff)
  qed
  then show ?thesis using d by (simp add: dvals_def distinct_map)
qed

lemma sorted_wrt_strict:
  "sorted_wrt p xs \<Longrightarrow> distinct xs \<Longrightarrow>
     (\<And>x y. x \<in> set xs \<Longrightarrow> y \<in> set xs \<Longrightarrow> p x y \<Longrightarrow> x \<noteq> y \<Longrightarrow> q x y) \<Longrightarrow> sorted_wrt q xs"
  by (induction xs) auto

lemma candidates_sorted:
  assumes "tasks_inv E s" "seqs_inv s"
  shows "sorted_wrt newer (page_candidates s t e a b)"
proof -
  let ?L = "page_candidates s t e a b"
  have "distinct ?L" using task_values_distinct [OF assms(1)] by (simp add: page_candidates_def)
  moreover have "sorted_wrt (\<lambda>x y. (tr_created_seq y, tr_task_id y) \<le> (tr_created_seq x, tr_task_id x)) ?L"
    unfolding page_candidates_def by (rule sorted_desc_sorted)
  moreover have "x = y" if "x \<in> set ?L" "y \<in> set ?L" "tr_created_seq x = tr_created_seq y" for x y
  proof -
    note xy = that
    obtain k where k: "dget (st_tasks s) k = Some x"
      using candidates_tasks [OF assms(1) xy(1)] by blast
    obtain k' where k': "dget (st_tasks s) k' = Some y"
      using candidates_tasks [OF assms(1) xy(2)] by blast
    have "k = k'" using assms(2) k k' xy(3) unfolding seqs_inv_def by blast
    with k k' show ?thesis by simp
  qed
  ultimately show ?thesis
    by (elim sorted_wrt_strict) (force simp: less_eq_prod_def)+
qed

lemma filter_after:
  assumes "sorted_wrt newer xs" "0 < n" "n < length xs"
  shows "filter (\<lambda>r. tr_created_seq r < tr_created_seq (last (take n xs))) xs = drop n xs"
proof -
  let ?c = "tr_created_seq (last (take n xs))"
  have ne: "take n xs \<noteq> []" using assms by auto
  have "tr_created_seq y < ?c" if "y \<in> set (drop n xs)" for y
    using sorted_wrt_take_drop [OF assms(1) _ that] ne by simp
  then have "filter (\<lambda>r. tr_created_seq r < ?c) (drop n xs) = drop n xs" by simp
  moreover have "\<not> tr_created_seq y < ?c" if "y \<in> set (take n xs)" for y
  proof -
    have "sorted_wrt newer (butlast (take n xs) @ [last (take n xs)])"
      using ne sorted_wrt_take [OF assms(1)] by simp
    then have "\<forall>y \<in> set (butlast (take n xs)). ?c < tr_created_seq y"
      by (simp add: sorted_wrt_append)
    moreover have "y \<in> set (butlast (take n xs)) \<or> y = last (take n xs)"
      using that ne by (metis UnE append_butlast_last_id set_append empty_iff insertE list.set)
    ultimately show ?thesis by auto
  qed
  then have "filter (\<lambda>r. tr_created_seq r < ?c) (take n xs) = []" by (simp add: filter_empty_conv)
  ultimately show ?thesis by (metis append_Nil append_take_drop_id filter_append)
qed

lemma read_all_ok:
  assumes "tasks_inv E s" "\<forall>r \<in> set rs. \<exists>k. dget (st_tasks s) k = Some r"
  shows "\<exists>xs. read_all E s rs = Inr xs \<and> map sr_record xs = rs"
  using assms(2)
proof (induction rs)
  case (Cons r rs)
  then obtain k where "dget (st_tasks s) k = Some r" by auto
  then have "task_filed E s k r" using tasks_inv_filed assms(1) by blast
  then have "\<exists>x. stored_read E s r = Inr x \<and> sr_record x = r"
    by (auto simp: task_filed_def stored_read_def)
  with Cons show ?case by auto
qed simp

lemma strictly_descendingI: "sorted_wrt newer rs \<Longrightarrow> strictly_descending (map tr_created_seq rs)"
  by (induction rs rule: induct_list012) auto

lemma page_complete:
  assumes "tasks_inv E s" "seqs_inv s" "0 < limit"
  shows "\<exists>p. page E s t e a b limit = Inr p \<and> length (pg_items p) \<le> nat limit
     \<and> (pg_next_created_seq p \<noteq> None \<longrightarrow> length (pg_items p) = nat limit
          \<and> nat limit < length (page_candidates s t e a b))
     \<and> map sr_record (pg_items p) @ (case pg_next_created_seq p of None \<Rightarrow> []
         | Some c \<Rightarrow> page_candidates s t e a (Some c)) = page_candidates s t e a b"
proof -
  let ?L = "page_candidates s t e a b" and ?n = "nat limit"
  have srt: "sorted_wrt newer ?L" by (rule candidates_sorted [OF assms(1,2)])
  have n: "0 < ?n" using assms(3) by simp
  have mem: "\<forall>r \<in> set (take ?n ?L). \<exists>k. dget (st_tasks s) k = Some r"
    using candidates_tasks [OF assms(1)] by (meson in_set_takeD)
  obtain xs where xs: "read_all E s (take ?n ?L) = Inr xs" "map sr_record xs = take ?n ?L"
    using read_all_ok [OF assms(1) mem] by blast
  define p where "p = \<lparr>pg_items = xs, pg_next_created_seq =
      (if ?n < length ?L then Some (tr_created_seq (sr_record (last xs))) else None)\<rparr>"
  have tk: "take ?n (take (?n + 1) ?L) = take ?n ?L" "?n < length (take (?n + 1) ?L) \<longleftrightarrow> ?n < length ?L"
    by auto
  have last: "xs \<noteq> [] \<Longrightarrow> sr_record (last xs) = last (take ?n ?L)"
    using xs(2) last_map [of xs sr_record] by simp
  have "map (\<lambda>i. tr_created_seq (sr_record i)) xs = map tr_created_seq (take ?n ?L)"
    by (simp add: xs(2) [symmetric])
  then have desc: "strictly_descending (map (\<lambda>i. tr_created_seq (sr_record i)) xs)"
    using strictly_descendingI [OF sorted_wrt_take [OF srt, of ?n]] by simp
  have e: "xs = [] \<longleftrightarrow> ?L = []" using xs(2) n by (metis list.map_disc_iff take_eq_Nil not_less_zero neq0_conv)
  have pos: "0 < tr_created_seq (sr_record (last xs))" if "xs \<noteq> []"
  proof -
    have "sr_record (last xs) \<in> set (take ?n ?L)" using that xs(2) by (metis last_in_set list.set_map image_eqI)
    with mem obtain k where "dget (st_tasks s) k = Some (sr_record (last xs))" by blast
    then show ?thesis using tasks_inv_filed [OF assms(1)] by (fastforce simp: task_filed_def task_record_ok_def)
  qed
  have "stored_task_page_ok p"
    using desc e pos by (auto simp: stored_task_page_ok_def p_def)
  then have "page E s t e a b limit = Inr p"
    using xs(1) tk by (simp add: page_def Let_def p_def)
  moreover have "length (pg_items p) \<le> ?n"
    "pg_next_created_seq p \<noteq> None \<longrightarrow> length (pg_items p) = ?n \<and> ?n < length ?L"
    using arg_cong [OF xs(2), of length] by (auto simp: p_def)
  moreover have "map sr_record (pg_items p) @ (case pg_next_created_seq p of None \<Rightarrow> []
      | Some c \<Rightarrow> page_candidates s t e a (Some c)) = ?L"
  proof (cases "?n < length ?L")
    case True
    then have "take ?n ?L \<noteq> []" using n by auto
    then have "last (take ?n ?L) \<in> set ?L" by (meson in_set_takeD last_in_set)
    then have lt: "opt_all (\<lambda>b. tr_created_seq (last (take ?n ?L)) < b) b"
      by (simp add: page_candidates_def)
    have L: "?L = filter (\<lambda>r. opt_all (\<lambda>b. tr_created_seq r < b) b) (page_candidates s t e a None)"
      by (cases b) (simp_all add: candidates_filter)
    have "page_candidates s t e a (Some (tr_created_seq (last (take ?n ?L)))) = drop ?n ?L"
    proof -
      have "page_candidates s t e a (Some (tr_created_seq (last (take ?n ?L))))
          = filter (\<lambda>r. tr_created_seq r < tr_created_seq (last (take ?n ?L))) ?L"
        using lt by (subst (3) L, cases b) (auto simp: candidates_filter intro!: filter_cong)
      then show ?thesis using filter_after [OF srt n True] by simp
    qed
    then show ?thesis using True xs(2) last e n by (cases xs) (auto simp: p_def)
  qed (use xs(2) in \<open>simp add: p_def\<close>)
  ultimately show ?thesis by blast
qed

text \<open>
  What a page is to show, stated on the stored records alone: a list has the tasks with a property
  newest first when it holds exactly the records of the store with the property, each one newer than
  all that follow, so that none is missing and none comes twice.
\<close>

definition newest_first :: "store_state \<Rightarrow> (task_record \<Rightarrow> bool) \<Rightarrow> task_record list \<Rightarrow> bool" where
  "newest_first s P rs \<longleftrightarrow> set rs = {r. P r \<and> (\<exists>k. dget (st_tasks s) k = Some r)}
     \<and> sorted_wrt (\<lambda>x y. tr_created_seq y < tr_created_seq x) rs"

definition in_scope :: "string \<Rightarrow> string \<Rightarrow> string option \<Rightarrow> int option \<Rightarrow> task_record \<Rightarrow> bool" where
  "in_scope t e a b r \<longleftrightarrow> tr_tenant_id r = t \<and> tr_environment_id r = e \<and> (a = None \<or> a = Some (tr_actor r))
     \<and> (case b of None \<Rightarrow> True | Some c \<Rightarrow> tr_created_seq r < c)"

lemma candidates_newest_first:
  assumes "tasks_inv E s" "seqs_inv s"
  shows "newest_first s (in_scope t e a b) (page_candidates s t e a b)"
proof -
  have "set (dvals (st_tasks s)) = {r. \<exists>k. dget (st_tasks s) k = Some r}"
    using assms(1) set_dvals [of "st_tasks s"] unfolding tasks_inv_def by blast
  then have "set (page_candidates s t e a b) = {r. in_scope t e a b r \<and> (\<exists>k. dget (st_tasks s) k = Some r)}"
    by (cases a; cases b) (auto simp: page_candidates_def in_scope_def)
  then show ?thesis using candidates_sorted [OF assms] by (simp add: newest_first_def)
qed

text \<open>
  C13. Pages are sound and complete: a page query on a reachable store succeeds, and its items
  followed by the rest are exactly the stored tasks of that tenant and environment, of the actor where
  one is named, and older than the cursor where one is given, strictly newest first. The rest is
  empty without a next cursor; with one, the page is full and the rest is exactly what the query finds
  from that cursor.
\<close>

theorem pages_are_complete:
  assumes "py_env_ok E" "(store_step E n)\<^sup>*\<^sup>* empty_store s" "0 < limit"
  shows "\<exists>p rest. page E s t e a b limit = Inr p \<and> length (pg_items p) \<le> nat limit
     \<and> newest_first s (in_scope t e a b) (map sr_record (pg_items p) @ rest)
     \<and> (case pg_next_created_seq p of
          None \<Rightarrow> rest = []
        | Some c \<Rightarrow> length (pg_items p) = nat limit \<and> rest \<noteq> [] \<and> newest_first s (in_scope t e a (Some c)) rest)"
proof -
  have inv: "tasks_inv E s" "seqs_inv s"
    using reachable_inv [OF assms(2,1)] by (simp_all add: run_inv_def store_inv_def)
  obtain p where p: "page E s t e a b limit = Inr p" "length (pg_items p) \<le> nat limit"
      "pg_next_created_seq p \<noteq> None \<longrightarrow> length (pg_items p) = nat limit
        \<and> nat limit < length (page_candidates s t e a b)"
      "map sr_record (pg_items p) @ (case pg_next_created_seq p of None \<Rightarrow> []
         | Some c \<Rightarrow> page_candidates s t e a (Some c)) = page_candidates s t e a b"
    using page_complete [OF inv assms(3)] by blast
  let ?rest = "case pg_next_created_seq p of None \<Rightarrow> [] | Some c \<Rightarrow> page_candidates s t e a (Some c)"
  have "newest_first s (in_scope t e a b) (map sr_record (pg_items p) @ ?rest)"
    using candidates_newest_first [OF inv] p(4) by metis
  moreover have "page_candidates s t e a (Some c) \<noteq> []" if "pg_next_created_seq p = Some c" for c
    using p(3,4) that by (metis append_Nil2 length_map less_irrefl option.distinct(1) option.simps(5))
  ultimately show ?thesis
    using p(1-3) candidates_newest_first [OF inv]
    by (intro exI [of _ p] exI [of _ ?rest]) (auto split: option.splits)
qed

theorem pages_are_complete_witness:
  "\<exists>p rest. page demo_env demo_second ''acme'' ''prod'' None None 1 = Inr p \<and> length (pg_items p) \<le> 1
     \<and> newest_first demo_second (in_scope ''acme'' ''prod'' None None) (map sr_record (pg_items p) @ rest)"
  using pages_are_complete [OF demo_env_ok demo_second_reachable, of 1 "''acme''" "''prod''" None None]
  by auto

end
