(* ===== verification/Channel_Runs.thy ===== *)
theory Channel_Runs
  imports Channel_Store Insert_Once Fencing Indexed
begin

text \<open>
  Runs of the channel store: what each operation does to the subscriptions and to the bindings, the
  invariant that every operation keeps, the life cycle of a projection, and the interpretations of
  \<open>fenced_store\<close> (claims) and \<open>insert_once\<close> (source events).
\<close>

subsection \<open>Moves of one subscription\<close>

inductive proj_life :: "projection_state \<Rightarrow> projection_state \<Rightarrow> bool" where
  initial_wait: "proj_life PENDING_INITIAL WAITING_TERMINAL"
| deliver: "proj_life WAITING_TERMINAL DELIVERING_TERMINAL"
| recheck: "proj_life DELIVERING_TERMINAL WAITING_TERMINAL"
| finish: "p \<in> {PENDING_INITIAL, DELIVERING_TERMINAL} \<Longrightarrow> q \<in> {COMPLETED, DEAD_LETTER} \<Longrightarrow> proj_life p q"

inductive_simps proj_life_simps [simp]: "proj_life p q"
inductive_cases proj_lifeE: "proj_life p q"

definition proj_path :: "projection_subscription \<Rightarrow> projection_subscription \<Rightarrow> bool" where
  "proj_path p w \<longleftrightarrow> projection_subscription_ok w
     \<and> pj_subscription_id w = pj_subscription_id p \<and> pj_task_id w = pj_task_id p
     \<and> pj_destination_kind w = pj_destination_kind p \<and> pj_destination_ref w = pj_destination_ref p
     \<and> pj_state p \<notin> {COMPLETED, DEAD_LETTER}
     \<and> (pj_state w = pj_state p \<or> proj_life (pj_state p) (pj_state w))
     \<and> pj_attempt_number p \<le> pj_attempt_number w
     \<and> pj_provider_failure_count p \<le> pj_provider_failure_count w"

text \<open>
  A move by the holder keeps the claim, never shortening it, or gives it up.
\<close>

definition same_claim :: "projection_subscription \<Rightarrow> projection_subscription \<Rightarrow> bool" where
  "same_claim p w \<longleftrightarrow> pj_fencing_token w = pj_fencing_token p \<and> pj_claim_owner w = pj_claim_owner p
     \<and> (\<forall>e. pj_claim_expires_at p = Some e \<longrightarrow> (\<exists>e'. pj_claim_expires_at w = Some e' \<and> e \<le> e'))"

definition held_move :: "projection_subscription \<Rightarrow> projection_subscription \<Rightarrow> bool" where
  "held_move p w \<longleftrightarrow> proj_path p w \<and> (same_claim p w \<or> pj_fencing_token w = None)"

lemma same_claim_token: "same_claim p w \<Longrightarrow> pj_fencing_token w = pj_fencing_token p"
  by (simp add: same_claim_def)

lemma applied_Inr: "applied w = Inr r \<longleftrightarrow> projection_subscription_ok w \<and> r = \<lparr>pur_applied = True, pur_winner = w\<rparr>"
  by (auto simp: applied_def revalidate_def)

lemma not_applied_Inr: "not_applied p = Inr r \<longleftrightarrow> r = \<lparr>pur_applied = False, pur_winner = p\<rparr>"
  by (auto simp: not_applied_def)

lemmas rule_results = applied_Inr not_applied_Inr

lemma claimed_not_terminal:
  "projection_subscription_ok p \<Longrightarrow> pj_claim_owner p \<noteq> None \<Longrightarrow> pj_state p \<notin> {COMPLETED, DEAD_LETTER}"
  by (auto simp: projection_subscription_ok_def projection_fields_consistent_def Let_def)

lemma held_rules:
  assumes "projection_subscription_ok p"
  shows "renew_projection_claim p c1 now = Inr r \<Longrightarrow> pur_applied r \<Longrightarrow>
      claim_matches p c1 now \<and> held_move p (pur_winner r)"
    and "record_initial_projection p c2 now = Inr r \<Longrightarrow> pur_applied r \<Longrightarrow>
      claim_matches p c2 now \<and> held_move p (pur_winner r)"
    and "schedule_task_recheck p c3 now = Inr r \<Longrightarrow> pur_applied r \<Longrightarrow>
      claim_matches p c3 now \<and> held_move p (pur_winner r)"
    and "schedule_provider_retry p c4 now = Inr r \<Longrightarrow> pur_applied r \<Longrightarrow>
      claim_matches p c4 now \<and> held_move p (pur_winner r)"
    and "complete_projection p c5 now = Inr r \<Longrightarrow> pur_applied r \<Longrightarrow>
      claim_matches p c5 now \<and> held_move p (pur_winner r)"
    and "dead_letter_projection p c6 now = Inr r \<Longrightarrow> pur_applied r \<Longrightarrow>
      claim_matches p c6 now \<and> held_move p (pur_winner r)"
proof -
  note D = held_move_def same_claim_def proj_path_def rule_results
  show "renew_projection_claim p c1 now = Inr r \<Longrightarrow> pur_applied r \<Longrightarrow>
      claim_matches p c1 now \<and> held_move p (pur_winner r)"
    using claimed_not_terminal [OF assms]
    by (auto simp: renew_projection_claim_def D claim_matches_def split: option.splits if_splits)
  show "record_initial_projection p c2 now = Inr r \<Longrightarrow> pur_applied r \<Longrightarrow>
      claim_matches p c2 now \<and> held_move p (pur_winner r)"
    by (auto simp: record_initial_projection_def release_claim_def D split: if_splits)
  show "schedule_task_recheck p c3 now = Inr r \<Longrightarrow> pur_applied r \<Longrightarrow>
      claim_matches p c3 now \<and> held_move p (pur_winner r)"
    by (auto simp: schedule_task_recheck_def release_claim_def D split: if_splits)
  show "schedule_provider_retry p c4 now = Inr r \<Longrightarrow> pur_applied r \<Longrightarrow>
      claim_matches p c4 now \<and> held_move p (pur_winner r)"
    by (auto simp: schedule_provider_retry_def release_claim_def D split: if_splits)
  show "complete_projection p c5 now = Inr r \<Longrightarrow> pur_applied r \<Longrightarrow>
      claim_matches p c5 now \<and> held_move p (pur_winner r)"
    by (auto simp: complete_projection_def release_claim_def D split: if_splits)
  show "dead_letter_projection p c6 now = Inr r \<Longrightarrow> pur_applied r \<Longrightarrow>
      claim_matches p c6 now \<and> held_move p (pur_winner r)"
    by (auto simp: dead_letter_projection_def release_claim_def D split: if_splits)
qed

lemma claim_rule:
  "claim_projection p c now tok = Inr r \<Longrightarrow> pur_applied r \<Longrightarrow>
     proj_path p (pur_winner r) \<and> pj_fencing_token (pur_winner r) = Some tok
     \<and> pj_claim_owner (pur_winner r) = Some (clp_claim_owner c)
     \<and> pj_state p = clp_expected_state c \<and> pj_next_attempt_at p \<le> now
     \<and> \<not> (pj_claim_owner p \<noteq> None \<and> claim_expires_after p now)"
  by (auto simp: claim_projection_def Let_def rule_results proj_path_def split: if_splits)

subsection \<open>The invariant\<close>

definition subscription_key :: "projection_subscription \<Rightarrow> string list" where
  "subscription_key p = [pj_task_id p, destination_kind_value (pj_destination_kind p), pj_destination_ref p]"

definition binding_key :: "channel_binding \<Rightarrow> string list" where
  "binding_key b = [cb_tenant_id b, cb_environment_id b, channel_kind_value (cb_channel b),
     cb_source_event_ref b]"

definition subscription_filed :: "channel_state \<Rightarrow> string \<Rightarrow> projection_subscription \<Rightarrow> bool" where
  "subscription_filed s k p \<longleftrightarrow> projection_subscription_ok p \<and> pj_subscription_id p = k
     \<and> opt_all (\<lambda>t. t < ch_next_fencing_token s) (pj_fencing_token p)"

definition subscriptions_inv :: "channel_state \<Rightarrow> bool" where
  "subscriptions_inv s \<longleftrightarrow> dict_ok (ch_subscriptions s) \<and> 0 < ch_next_fencing_token s
     \<and> (\<forall>k p. dget (ch_subscriptions s) k = Some p \<longrightarrow> subscription_filed s k p)
     \<and> indexed (ch_subscriptions s) (ch_subscription_ids_by_destination s) subscription_key"

definition bindings_inv :: "channel_state \<Rightarrow> bool" where
  "bindings_inv s \<longleftrightarrow>
     (\<forall>k b. dget (ch_bindings s) k = Some b \<longrightarrow> channel_binding_ok b \<and> cb_binding_id b = k)
     \<and> indexed (ch_bindings s) (ch_binding_ids_by_task s) cb_task_id
     \<and> indexed (ch_bindings s) (ch_binding_ids_by_source s) binding_key"

definition channel_inv :: "channel_state \<Rightarrow> bool" where
  "channel_inv s \<longleftrightarrow> subscriptions_inv s \<and> bindings_inv s"

lemma empty_channel_inv: "channel_inv empty_channel"
  by (simp add: channel_inv_def subscriptions_inv_def bindings_inv_def empty_channel_def)

subsection \<open>Effects\<close>

text \<open>What an operation does to the subscriptions: nothing, one move, or one new subscription.\<close>

definition same_bindings :: "channel_state \<Rightarrow> channel_state \<Rightarrow> bool" where
  "same_bindings s s' \<longleftrightarrow> ch_bindings s' = ch_bindings s
     \<and> ch_binding_ids_by_source s' = ch_binding_ids_by_source s
     \<and> ch_binding_ids_by_task s' = ch_binding_ids_by_task s"

definition same_subscriptions :: "channel_state \<Rightarrow> channel_state \<Rightarrow> bool" where
  "same_subscriptions s s' \<longleftrightarrow> ch_subscriptions s' = ch_subscriptions s
     \<and> ch_subscription_ids_by_destination s' = ch_subscription_ids_by_destination s
     \<and> ch_next_fencing_token s' = ch_next_fencing_token s"

definition subscription_moved :: "channel_state \<Rightarrow> channel_state \<Rightarrow> string \<Rightarrow> bool" where
  "subscription_moved s s' k \<longleftrightarrow> (\<exists>p w. dget (ch_subscriptions s) k = Some p \<and> proj_path p w
     \<and> ch_subscriptions s' = dset k w (ch_subscriptions s)
     \<and> ch_subscription_ids_by_destination s' = ch_subscription_ids_by_destination s
     \<and> ((same_claim p w \<or> pj_fencing_token w = None)
          \<and> ch_next_fencing_token s' = ch_next_fencing_token s
        \<or> pj_fencing_token w = Some (ch_next_fencing_token s)
          \<and> ch_next_fencing_token s' = ch_next_fencing_token s + 1))"

definition subscription_created :: "channel_state \<Rightarrow> channel_state \<Rightarrow> string \<Rightarrow> bool" where
  "subscription_created s s' k \<longleftrightarrow> (\<exists>p. dget (ch_subscriptions s) k = None
     \<and> projection_subscription_ok p \<and> pj_subscription_id p = k \<and> pj_fencing_token p = None
     \<and> pj_state p \<in> {PENDING_INITIAL, WAITING_TERMINAL}
     \<and> dget (ch_subscription_ids_by_destination s) (subscription_key p) = None
     \<and> ch_subscriptions s' = dset k p (ch_subscriptions s)
     \<and> ch_subscription_ids_by_destination s' =
         dset (subscription_key p) k (ch_subscription_ids_by_destination s)
     \<and> ch_next_fencing_token s' = ch_next_fencing_token s)"

definition subscription_effect :: "channel_state \<Rightarrow> channel_state \<Rightarrow> bool" where
  "subscription_effect s s' \<longleftrightarrow> same_subscriptions s s' \<or> (\<exists>k. subscription_moved s s' k)
     \<or> (\<exists>k. subscription_created s s' k)"

definition binding_created :: "channel_state \<Rightarrow> channel_state \<Rightarrow> bool" where
  "binding_created s s' \<longleftrightarrow> (\<exists>k b. dget (ch_bindings s) k = None \<and> channel_binding_ok b
     \<and> cb_binding_id b = k \<and> dget (ch_binding_ids_by_task s) (cb_task_id b) = None
     \<and> dget (ch_binding_ids_by_source s) (binding_key b) = None
     \<and> ch_bindings s' = dset k b (ch_bindings s)
     \<and> ch_binding_ids_by_source s' = dset (binding_key b) k (ch_binding_ids_by_source s)
     \<and> ch_binding_ids_by_task s' = dset (cb_task_id b) k (ch_binding_ids_by_task s))"

definition binding_effect :: "channel_state \<Rightarrow> channel_state \<Rightarrow> bool" where
  "binding_effect s s' \<longleftrightarrow> same_bindings s s' \<or> binding_created s s'"

lemma subscription_key_path: "proj_path p w \<Longrightarrow> subscription_key w = subscription_key p"
  by (simp add: proj_path_def subscription_key_def)

lemma subscription_effect_inv:
  assumes "subscription_effect s s'" "subscriptions_inv s"
  shows "subscriptions_inv s'"
proof -
  consider "same_subscriptions s s'" | k where "subscription_moved s s' k"
    | k where "subscription_created s s' k"
    using assms(1) unfolding subscription_effect_def by blast
  then show ?thesis
  proof cases
    case 1
    then show ?thesis using assms(2) by (simp add: same_subscriptions_def subscriptions_inv_def
        subscription_filed_def)
  next
    case 2
    then obtain p w where m: "dget (ch_subscriptions s) k = Some p" "proj_path p w"
        "ch_subscriptions s' = dset k w (ch_subscriptions s)"
        "ch_subscription_ids_by_destination s' = ch_subscription_ids_by_destination s"
        "ch_next_fencing_token s \<le> ch_next_fencing_token s'"
        "\<forall>t. pj_fencing_token w = Some t \<longrightarrow> pj_fencing_token p = Some t \<or> t < ch_next_fencing_token s'"
      unfolding subscription_moved_def same_claim_def by fastforce
    have key: "subscription_key w = subscription_key p" by (rule subscription_key_path [OF m(2)])
    have ind: "indexed (ch_subscriptions s') (ch_subscription_ids_by_destination s') subscription_key"
      unfolding m(3,4) by (rule indexed_update [OF _ m(1) key]) (use assms(2) in \<open>simp add: subscriptions_inv_def\<close>)
    have old: "subscription_filed s j x \<Longrightarrow> subscription_filed s' j x" for j x
      using m(5) by (cases "pj_fencing_token x") (auto simp: subscription_filed_def)
    have p: "subscription_filed s k p" using assms(2) m(1) by (simp add: subscriptions_inv_def)
    have "subscription_filed s' k w"
    proof (cases "pj_fencing_token w")
      case (Some t)
      then have "t < ch_next_fencing_token s'" using m(5,6) p by (auto simp: subscription_filed_def)
      with Some p m(2) show ?thesis by (simp add: subscription_filed_def proj_path_def)
    qed (use p m(2) in \<open>simp add: subscription_filed_def proj_path_def\<close>)
    with assms(2) ind old m(3,5) show ?thesis by (simp add: subscriptions_inv_def)
  next
    case 3
    then obtain p where c: "dget (ch_subscriptions s) k = None" "projection_subscription_ok p"
        "pj_subscription_id p = k" "pj_fencing_token p = None"
        "dget (ch_subscription_ids_by_destination s) (subscription_key p) = None"
        "ch_subscriptions s' = dset k p (ch_subscriptions s)"
        "ch_subscription_ids_by_destination s' =
           dset (subscription_key p) k (ch_subscription_ids_by_destination s)"
        "ch_next_fencing_token s' = ch_next_fencing_token s"
      unfolding subscription_created_def by blast
    have "indexed (ch_subscriptions s') (ch_subscription_ids_by_destination s') subscription_key"
      unfolding c(6,7) by (rule indexed_insert [where key = subscription_key, OF _ c(1,5)])
        (use assms(2) in \<open>simp add: subscriptions_inv_def\<close>)
    moreover have "subscription_filed s' k p" using c by (simp add: subscription_filed_def)
    moreover have "subscription_filed s j x \<Longrightarrow> subscription_filed s' j x" for j x
      using c(8) by (simp add: subscription_filed_def)
    ultimately show ?thesis using assms(2) c(6,8) by (simp add: subscriptions_inv_def)
  qed
qed

lemma binding_effect_inv:
  assumes "binding_effect s s'" "bindings_inv s"
  shows "bindings_inv s'"
proof (cases "same_bindings s s'")
  case True
  then show ?thesis using assms(2) by (simp add: same_bindings_def bindings_inv_def)
next
  case False
  then obtain k b where c: "dget (ch_bindings s) k = None" "channel_binding_ok b" "cb_binding_id b = k"
      "dget (ch_binding_ids_by_task s) (cb_task_id b) = None"
      "dget (ch_binding_ids_by_source s) (binding_key b) = None"
      "ch_bindings s' = dset k b (ch_bindings s)"
      "ch_binding_ids_by_source s' = dset (binding_key b) k (ch_binding_ids_by_source s)"
      "ch_binding_ids_by_task s' = dset (cb_task_id b) k (ch_binding_ids_by_task s)"
    using assms(1) unfolding binding_effect_def binding_created_def by blast
  have "indexed (ch_bindings s') (ch_binding_ids_by_task s') cb_task_id"
    unfolding c(6,8) by (rule indexed_insert [where key = cb_task_id, OF _ c(1,4)]) (use assms(2) in \<open>simp add: bindings_inv_def\<close>)
  moreover have "indexed (ch_bindings s') (ch_binding_ids_by_source s') binding_key"
    unfolding c(6,7) by (rule indexed_insert [where key = binding_key, OF _ c(1,5)]) (use assms(2) in \<open>simp add: bindings_inv_def\<close>)
  ultimately show ?thesis using assms(2) c(2,3,6) by (simp add: bindings_inv_def)
qed

subsection \<open>The operations have these effects\<close>

lemma same_refl [simp]: "same_bindings s s" "same_subscriptions s s"
  by (simp_all add: same_bindings_def same_subscriptions_def)

lemma effects_refl [simp]: "subscription_effect s s" "binding_effect s s"
  by (simp_all add: subscription_effect_def binding_effect_def)

lemma create_subscription_effect:
  assumes "create_subscription_locked tasks s c u = (s', out)" "dget (ch_subscriptions s) u = None"
    "create_projection_command_ok c"
  shows "subscription_effect s s' \<and> same_bindings s s' \<and> ch_source_kinds s' = ch_source_kinds s"
proof (cases "s' = s")
  case False
  then obtain p where p: "out = Inr p" "s' = s\<lparr>ch_subscriptions := dset u p (ch_subscriptions s),
        ch_subscription_ids_by_destination := dset (destination_key c) u (ch_subscription_ids_by_destination s)\<rparr>"
      "projection_subscription_ok p" "pj_subscription_id p = u" "pj_fencing_token p = None"
      "subscription_key p = destination_key c" "pj_state p = cpc_initial_state c"
      "dget (ch_subscription_ids_by_destination s) (destination_key c) = None"
    using assms(1) by (auto simp: create_subscription_locked_def revalidate_def subscription_key_def
        destination_key_def split: sum.splits option.splits if_splits)
  have "subscription_created s s' u"
    unfolding subscription_created_def by (rule exI [of _ p])
      (use p assms(2,3) in \<open>simp add: create_projection_command_ok_def\<close>)
  then show ?thesis using p(2) by (auto simp: subscription_effect_def same_bindings_def)
qed simp

lemma create_nested_effect:
  assumes "create_nested tasks s c u = (s', out)" "dget (ch_subscriptions s) u = None"
    "opt_all create_projection_command_ok c"
  shows "subscription_effect s s' \<and> same_bindings s s' \<and> ch_source_kinds s' = ch_source_kinds s"
proof (cases c)
  case (Some d)
  obtain s1 o1 where "create_subscription_locked tasks s d u = (s1, o1)" by fastforce
  with create_subscription_effect [OF this assms(2)] assms(1,3) Some show ?thesis
    by (auto simp: create_nested_def split: sum.splits)
qed (use assms in \<open>simp add: create_nested_def\<close>)

lemma bind_task_cases:
  assumes "bind_task tasks s c bid sid = (s', out)"
  obtains (refused) e where "s' = s" "out = Inl e"
  | (kept) s1 o1 k b where "create_nested tasks s (btc_projection c) sid = (s1, o1)" "s' = s1"
      "out = map_sum id (\<lambda>_. b) o1" "dget (ch_bindings s) k = Some b" "binding_matches_command b c"
      "dget (ch_binding_ids_by_source s) (binding_source_key c) = Some k"
      "dget (ch_binding_ids_by_task s) (btc_task_id c) = Some k"
  | (failed) s1 e where "create_nested tasks s (btc_projection c) sid = (s1, Inl e)" "s' = s1" "out = Inl e"
  | (bound) s1 b where "create_nested tasks s (btc_projection c) sid = (s1, Inr ())"
      "channel_binding_ok b" "cb_binding_id b = bid" "binding_matches_command b c" "out = Inr b"
      "dget (ch_binding_ids_by_source s) (binding_source_key c) = None"
      "dget (ch_binding_ids_by_task s) (btc_task_id c) = None"
      "s' = s1\<lparr>ch_bindings := dset bid b (ch_bindings s1),
         ch_binding_ids_by_source := dset (binding_source_key c) bid (ch_binding_ids_by_source s1),
         ch_binding_ids_by_task := dset (btc_task_id c) bid (ch_binding_ids_by_task s1)\<rparr>"
proof -
  obtain s1 o1 where n: "create_nested tasks s (btc_projection c) sid = (s1, o1)" by fastforce
  consider e where "ch_require_task tasks (btc_task_id c) = Inl e"
    | r where "ch_require_task tasks (btc_task_id c) = Inr r"
        "tr_tenant_id r \<noteq> btc_tenant_id c \<or> tr_environment_id r \<noteq> btc_environment_id c"
    | r where "ch_require_task tasks (btc_task_id c) = Inr r" "tr_tenant_id r = btc_tenant_id c"
        "tr_environment_id r = btc_environment_id c"
    by (cases "ch_require_task tasks (btc_task_id c)") auto
  then show ?thesis
  proof cases
    case 3
    show ?thesis
    proof (cases "if dget (ch_binding_ids_by_source s) (binding_source_key c) \<noteq> None
        then dget (ch_binding_ids_by_source s) (binding_source_key c)
        else dget (ch_binding_ids_by_task s) (btc_task_id c)")
      case (Some k)
      note k = Some
      show ?thesis
      proof (cases "dget (ch_bindings s) k")
        case None
        then have "bind_task tasks s c bid sid = (s, Inl ChannelValidationError)"
          using 3 k by (simp add: bind_task_def Let_def)
        with assms that(1) show ?thesis by auto
      next
        case (Some b)
        show ?thesis
        proof (cases "dget (ch_binding_ids_by_source s) (binding_source_key c)
            = dget (ch_binding_ids_by_task s) (btc_task_id c) \<and> binding_matches_command b c")
          case True
          then have ids: "dget (ch_binding_ids_by_source s) (binding_source_key c) = Some k"
            "dget (ch_binding_ids_by_task s) (btc_task_id c) = Some k"
            using k by (auto split: if_splits)
          have m: "binding_matches_command b c" using True by blast
          have "s' = s1 \<and> out = map_sum id (\<lambda>_. b) o1"
            using assms 3 ids Some m n by (cases o1) (simp_all add: bind_task_def)
          then show ?thesis using that(2) [OF n _ _ Some m ids] by blast
        next
          case False
          then have "bind_task tasks s c bid sid = (s, Inl ChannelBindingConflictError)"
            using 3 k Some by (auto simp: bind_task_def Let_def)
          with assms that(1) show ?thesis by auto
        qed
      qed
    next
      case None
      then have ids: "dget (ch_binding_ids_by_source s) (binding_source_key c) = None"
        "dget (ch_binding_ids_by_task s) (btc_task_id c) = None"
        by (auto split: if_splits)
      let ?b = "\<lparr>cb_binding_id = bid, cb_task_id = btc_task_id c, cb_tenant_id = btc_tenant_id c,
          cb_environment_id = btc_environment_id c, cb_channel = btc_channel c,
          cb_initiator_subject_ref = btc_initiator_subject_ref c, cb_conversation_ref = btc_conversation_ref c,
          cb_source_event_ref = btc_source_event_ref c, cb_created_at = btc_created_at c\<rparr>"
      show ?thesis
      proof (cases "channel_binding_ok ?b")
        case True
        have m: "binding_matches_command ?b c" by (simp add: binding_matches_command_def)
        show ?thesis
        proof (cases o1)
          case (Inl e)
          then have "s' = s1" "out = Inl e" using assms 3 ids True n by (simp_all add: bind_task_def Let_def)
          then show ?thesis using that(3) n Inl by blast
        next
          case (Inr u)
          then show ?thesis
            using assms 3 ids True n m by (intro that(4) [of s1 ?b]) (auto simp: bind_task_def Let_def)
        qed
      next
        case False
        then have "bind_task tasks s c bid sid = (s, Inl ChannelValidationError)"
          using 3 ids by (simp add: bind_task_def Let_def revalidate_def)
        with assms that(1) show ?thesis by auto
      qed
    qed
  qed (use assms that(1) in \<open>auto simp: bind_task_def\<close>)
qed

lemma bind_task_effect:
  assumes "bind_task tasks s c bid sid = (s', out)" "dget (ch_bindings s) bid = None"
    "dget (ch_subscriptions s) sid = None" "bind_task_command_ok c"
  shows "subscription_effect s s' \<and> binding_effect s s' \<and> ch_source_kinds s' = ch_source_kinds s"
proof -
  have ok: "opt_all create_projection_command_ok (btc_projection c)"
    using assms(4) by (simp add: bind_task_command_ok_def)
  from assms(1) show ?thesis
proof (cases rule: bind_task_cases)
  case (bound s1 b)
  have n: "subscription_effect s s1" "same_bindings s s1" "ch_source_kinds s1 = ch_source_kinds s"
    using create_nested_effect [OF bound(1) assms(3) ok] by auto
  have "same_subscriptions s1 s'" using bound(8) by (simp add: same_subscriptions_def)
  with n(1) have "subscription_effect s s'"
    by (simp add: subscription_effect_def subscription_moved_def subscription_created_def
        same_subscriptions_def)
  moreover have "binding_key b = binding_source_key c" "cb_task_id b = btc_task_id c"
    using bound(4) by (simp_all add: binding_matches_command_def binding_key_def binding_source_key_def)
  then have "binding_created s s'"
    unfolding binding_created_def
    by (intro exI [of _ bid] exI [of _ b]) (use bound n(2) assms(2) in \<open>simp add: same_bindings_def\<close>)
  ultimately show ?thesis using n(3) bound(8) by (simp add: binding_effect_def)
qed (use create_nested_effect [OF _ assms(3) ok] in \<open>auto simp: binding_effect_def\<close>)
qed

lemma save_projection_effect:
  assumes "save_projection s res = (s', out)" "dget (ch_subscriptions s) k = Some p"
    "\<And>r. res = Inr r \<Longrightarrow> pur_applied r \<Longrightarrow> held_move p (pur_winner r)" "pj_subscription_id p = k"
  shows "s' = s \<or> (\<exists>r. res = Inr r \<and> pur_applied r \<and> out = Inr r
     \<and> s' = s\<lparr>ch_subscriptions := dset k (pur_winner r) (ch_subscriptions s)\<rparr> \<and> subscription_moved s s' k)"
proof (cases res)
  case (Inr r)
  show ?thesis
  proof (cases "pur_applied r")
    case True
    have h: "held_move p (pur_winner r)" using assms(3) Inr True by blast
    then have "pj_subscription_id (pur_winner r) = k" using assms(4) by (simp add: held_move_def proj_path_def)
    then have s': "s' = s\<lparr>ch_subscriptions := dset k (pur_winner r) (ch_subscriptions s)\<rparr>" "out = Inr r"
      using assms(1) Inr True by (auto simp: save_projection_def)
    moreover have "subscription_moved s s' k"
      unfolding subscription_moved_def
      by (intro exI [of _ p] exI [of _ "pur_winner r"]) (use h s'(1) assms(2) in \<open>simp add: held_move_def\<close>)
    ultimately show ?thesis using Inr True by blast
  qed (use assms(1) Inr in \<open>simp add: save_projection_def\<close>)
qed (use assms(1) in \<open>simp add: save_projection_def\<close>)

text \<open>
  An update by a claim holder: nothing, or the rule's winner replaces the subscription, and then the
  rule saw a live claim of this owner with this token.
\<close>

definition claimed_update :: "channel_state \<Rightarrow> channel_state \<Rightarrow> 'a claim_mutation_scheme \<Rightarrow> instant \<Rightarrow> bool" where
  "claimed_update s s' c now \<longleftrightarrow> s' = s \<or> (\<exists>p. dget (ch_subscriptions s) (cm_subscription_id c) = Some p
     \<and> claim_matches p c now \<and> subscription_moved s s' (cm_subscription_id c))
     \<and> same_bindings s s' \<and> ch_source_kinds s' = ch_source_kinds s"

lemma update_claimed_effect:
  assumes "update_claimed s (cm_subscription_id c) rule = (s', out)" "subscriptions_inv s"
    "\<And>p r. projection_subscription_ok p \<Longrightarrow> rule p = Inr r \<Longrightarrow> pur_applied r \<Longrightarrow>
       claim_matches p c now \<and> held_move p (pur_winner r)"
  shows "claimed_update s s' c now"
proof (cases "dget (ch_subscriptions s) (cm_subscription_id c)")
  case None
  then show ?thesis using assms(1) by (simp add: update_claimed_def require_subscription_def claimed_update_def)
next
  case (Some p)
  then have p: "projection_subscription_ok p" "pj_subscription_id p = cm_subscription_id c"
    using assms(2) by (auto simp: subscriptions_inv_def subscription_filed_def)
  have "save_projection s (rule p) = (s', out)"
    using assms(1) Some by (simp add: update_claimed_def require_subscription_def)
  from save_projection_effect [OF this Some _ p(2)] assms(3) [OF p(1)]
  show ?thesis using Some by (auto simp: claimed_update_def same_bindings_def)
qed

lemma claimed_operations:
  assumes "subscriptions_inv s"
  shows "claimed_update s (fst (store_renew_projection_claim s c1 now)) c1 now"
    "claimed_update s (fst (store_record_initial_projection s c2 now)) c2 now"
    "claimed_update s (fst (store_schedule_task_recheck s c3 now)) c3 now"
    "claimed_update s (fst (store_schedule_provider_retry s c4 now)) c4 now"
    "claimed_update s (fst (store_complete_projection s c5 now)) c5 now"
    "claimed_update s (fst (store_dead_letter_projection s c6 now)) c6 now"
proof -
  show "claimed_update s (fst (store_renew_projection_claim s c1 now)) c1 now"
    unfolding store_renew_projection_claim_def
    by (rule update_claimed_effect [OF prod.collapse [symmetric] assms]) (rule held_rules(1))
  show "claimed_update s (fst (store_record_initial_projection s c2 now)) c2 now"
    unfolding store_record_initial_projection_def
    by (rule update_claimed_effect [OF prod.collapse [symmetric] assms]) (rule held_rules(2))
  show "claimed_update s (fst (store_schedule_task_recheck s c3 now)) c3 now"
    unfolding store_schedule_task_recheck_def
    by (rule update_claimed_effect [OF prod.collapse [symmetric] assms]) (rule held_rules(3))
  show "claimed_update s (fst (store_schedule_provider_retry s c4 now)) c4 now"
    unfolding store_schedule_provider_retry_def
    by (rule update_claimed_effect [OF prod.collapse [symmetric] assms]) (rule held_rules(4))
  show "claimed_update s (fst (store_complete_projection s c5 now)) c5 now"
    unfolding store_complete_projection_def
    by (rule update_claimed_effect [OF prod.collapse [symmetric] assms]) (rule held_rules(5))
  show "claimed_update s (fst (store_dead_letter_projection s c6 now)) c6 now"
    unfolding store_dead_letter_projection_def
    by (rule update_claimed_effect [OF prod.collapse [symmetric] assms]) (rule held_rules(6))
qed

lemma claim_effect:
  assumes "claim_projection_subscription s c now = (s', out)" "subscriptions_inv s"
  shows "s' = s \<and> (\<forall>r. out = Inr r \<longrightarrow> \<not> pur_applied r) \<or>
     (\<exists>p w. dget (ch_subscriptions s) (clp_subscription_id c) = Some p \<and> proj_path p w
        \<and> pj_fencing_token w = Some (ch_next_fencing_token s)
        \<and> pj_claim_owner w = Some (clp_claim_owner c)
        \<and> \<not> (pj_claim_owner p \<noteq> None \<and> claim_expires_after p now)
        \<and> out = Inr \<lparr>pur_applied = True, pur_winner = w\<rparr>
        \<and> s' = s\<lparr>ch_next_fencing_token := ch_next_fencing_token s + 1,
            ch_subscriptions := dset (clp_subscription_id c) w (ch_subscriptions s)\<rparr>)"
proof (cases "dget (ch_subscriptions s) (clp_subscription_id c)")
  case None
  then show ?thesis
    using assms(1) by (auto simp: claim_projection_subscription_def require_subscription_def)
next
  case (Some p)
  then have p: "pj_subscription_id p = clp_subscription_id c"
    using assms(2) by (auto simp: subscriptions_inv_def subscription_filed_def)
  show ?thesis
  proof (cases "claim_projection p c now (ch_next_fencing_token s)")
    case (Inr r)
    show ?thesis
    proof (cases "pur_applied r")
      case True
      note C = claim_rule [OF Inr True]
      then have "pj_subscription_id (pur_winner r) = clp_subscription_id c"
        using p by (simp add: proj_path_def)
      then show ?thesis
        using assms(1) Some Inr True C
        by (intro disjI2 exI [of _ p] exI [of _ "pur_winner r"])
          (auto simp: claim_projection_subscription_def require_subscription_def save_projection_def)
    next
      case False
      then show ?thesis using assms(1) Some Inr
        by (auto simp: claim_projection_subscription_def require_subscription_def save_projection_def)
    qed
  qed (use assms(1) Some in \<open>auto simp: claim_projection_subscription_def require_subscription_def\<close>)
qed

lemma claim_applied:
  assumes "claim_projection_subscription s c now = (s', Inr r)" "pur_applied r" "subscriptions_inv s"
  obtains p w where "dget (ch_subscriptions s) (clp_subscription_id c) = Some p"
    "claim_projection p c now (ch_next_fencing_token s) = Inr \<lparr>pur_applied = True, pur_winner = w\<rparr>"
    "dget (ch_subscriptions s') (clp_subscription_id c) = Some w"
    "pj_fencing_token w = Some (ch_next_fencing_token s)"
proof -
  obtain p w where w: "dget (ch_subscriptions s) (clp_subscription_id c) = Some p"
      "pj_fencing_token w = Some (ch_next_fencing_token s)" "r = \<lparr>pur_applied = True, pur_winner = w\<rparr>"
      "dget (ch_subscriptions s') (clp_subscription_id c) = Some w"
    using claim_effect [OF assms(1,3)] assms(2) by auto
  have "claim_projection p c now (ch_next_fencing_token s) = Inr r"
    using assms(1) w(1) by (auto simp: claim_projection_subscription_def require_subscription_def
        save_projection_def split: sum.splits)
  with that w show thesis by blast
qed

subsection \<open>Runs\<close>

text \<open>
  The operations that write; the reads leave the state alone. The tasks each operation sees are
  arbitrary, so a run interleaves with any run of the task store.
\<close>

datatype channel_op =
    ChCreate tasks create_projection_command string
  | ChSource claim_source_event_command
  | ChBind tasks bind_task_command string string
  | ChClaim claim_projection_command instant
  | ChRenew renew_claim_command instant
  | ChInitial record_initial_command instant
  | ChRecheck task_recheck_command instant
  | ChRetry provider_retry_command instant
  | ChComplete complete_projection_command instant
  | ChDeadLetter dead_letter_command instant

fun run_channel :: "channel_state \<Rightarrow> channel_op \<Rightarrow> channel_state" where
  "run_channel s (ChCreate tasks c u) = fst (create_subscription_locked tasks s c u)"
| "run_channel s (ChSource c) = fst (claim_source_event s c)"
| "run_channel s (ChBind tasks c bid sid) = fst (bind_task tasks s c bid sid)"
| "run_channel s (ChClaim c now) = fst (claim_projection_subscription s c now)"
| "run_channel s (ChRenew c now) = fst (store_renew_projection_claim s c now)"
| "run_channel s (ChInitial c now) = fst (store_record_initial_projection s c now)"
| "run_channel s (ChRecheck c now) = fst (store_schedule_task_recheck s c now)"
| "run_channel s (ChRetry c now) = fst (store_schedule_provider_retry s c now)"
| "run_channel s (ChComplete c now) = fst (store_complete_projection s c now)"
| "run_channel s (ChDeadLetter c now) = fst (store_dead_letter_projection s c now)"

text \<open>The error of an operation, and the subscription and token a claim holder acts with.\<close>

fun error_of :: "'s \<times> ('e + 'a) \<Rightarrow> 'e option" where
  "error_of (s, Inl e) = Some e"
| "error_of (s, Inr a) = None"

fun channel_refusal :: "channel_state \<Rightarrow> channel_op \<Rightarrow> channel_error option" where
  "channel_refusal s (ChCreate tasks c u) = error_of (create_subscription_locked tasks s c u)"
| "channel_refusal s (ChSource c) = error_of (claim_source_event s c)"
| "channel_refusal s (ChBind tasks c bid sid) = error_of (bind_task tasks s c bid sid)"
| "channel_refusal s (ChClaim c now) = error_of (claim_projection_subscription s c now)"
| "channel_refusal s (ChRenew c now) = error_of (store_renew_projection_claim s c now)"
| "channel_refusal s (ChInitial c now) = error_of (store_record_initial_projection s c now)"
| "channel_refusal s (ChRecheck c now) = error_of (store_schedule_task_recheck s c now)"
| "channel_refusal s (ChRetry c now) = error_of (store_schedule_provider_retry s c now)"
| "channel_refusal s (ChComplete c now) = error_of (store_complete_projection s c now)"
| "channel_refusal s (ChDeadLetter c now) = error_of (store_dead_letter_projection s c now)"

definition cm_credentials :: "'a claim_mutation_scheme \<Rightarrow> (string \<times> int) option" where
  "cm_credentials c = Some (cm_subscription_id c, cm_fencing_token c)"

fun channel_credentials :: "channel_op \<Rightarrow> (string \<times> int) option" where
  "channel_credentials (ChRenew c now) = cm_credentials c"
| "channel_credentials (ChInitial c now) = cm_credentials c"
| "channel_credentials (ChRecheck c now) = cm_credentials c"
| "channel_credentials (ChRetry c now) = cm_credentials c"
| "channel_credentials (ChComplete c now) = cm_credentials c"
| "channel_credentials (ChDeadLetter c now) = cm_credentials c"
| "channel_credentials c = None"

text \<open>Fresh ids are fresh, and commands have passed their validators.\<close>

fun channel_op_ok :: "channel_state \<Rightarrow> channel_op \<Rightarrow> bool" where
  "channel_op_ok s (ChCreate tasks c u) =
     (dget (ch_subscriptions s) u = None \<and> create_projection_command_ok c)"
| "channel_op_ok s (ChBind tasks c bid sid) =
     (dget (ch_bindings s) bid = None \<and> dget (ch_subscriptions s) sid = None \<and> bind_task_command_ok c)"
| "channel_op_ok s c = True"

inductive channel_step :: "channel_state \<Rightarrow> channel_state \<Rightarrow> bool" where
  channel_stepI: "channel_op_ok s c \<Longrightarrow> channel_step s (run_channel s c)"

inductive_cases channel_stepE: "channel_step s s'"

definition channel_effect :: "channel_state \<Rightarrow> channel_state \<Rightarrow> bool" where
  "channel_effect s s' \<longleftrightarrow> subscription_effect s s' \<and> binding_effect s s'
     \<and> (\<forall>k v. dget (ch_source_kinds s) k = Some v \<longrightarrow> dget (ch_source_kinds s') k = Some v)"

lemma moved_effect:
  "subscription_moved s s' k \<Longrightarrow> same_bindings s s' \<Longrightarrow> ch_source_kinds s' = ch_source_kinds s \<Longrightarrow>
     channel_effect s s'"
  unfolding channel_effect_def subscription_effect_def binding_effect_def by auto

lemma claimed_channel_effect: "claimed_update s s' c now \<Longrightarrow> channel_effect s s'"
  unfolding claimed_update_def using moved_effect by (auto simp: channel_effect_def)

lemma claim_channel_effect:
  assumes "subscriptions_inv s"
  shows "channel_effect s (fst (claim_projection_subscription s c now))"
proof -
  obtain s' out where c: "claim_projection_subscription s c now = (s', out)" by fastforce
  from claim_effect [OF this assms] show ?thesis
  proof (elim disjE exE conjE)
    fix p w assume "dget (ch_subscriptions s) (clp_subscription_id c) = Some p" "proj_path p w"
      "pj_fencing_token w = Some (ch_next_fencing_token s)"
      "s' = s\<lparr>ch_next_fencing_token := ch_next_fencing_token s + 1,
         ch_subscriptions := dset (clp_subscription_id c) w (ch_subscriptions s)\<rparr>"
    then have "subscription_moved s s' (clp_subscription_id c)" "same_bindings s s'"
      "ch_source_kinds s' = ch_source_kinds s"
      by (auto simp: subscription_moved_def same_bindings_def)
    then show ?thesis using moved_effect c by simp
  qed (use c in \<open>simp add: channel_effect_def\<close>)
qed

lemma run_channel_effect:
  assumes "channel_inv s" "channel_op_ok s c"
  shows "channel_effect s (run_channel s c)"
proof -
  have i: "subscriptions_inv s" using assms(1) by (simp add: channel_inv_def)
  show ?thesis
  proof (cases c)
    case (ChCreate tasks d u)
    then show ?thesis
      using create_subscription_effect [where tasks = tasks and s = s and c = d and u = u, OF prod.collapse [symmetric]] assms(2)
      by (simp add: channel_effect_def binding_effect_def)
  next
    case (ChSource d)
    then show ?thesis
      by (auto simp: claim_source_event_def Let_def channel_effect_def subscription_effect_def
          same_subscriptions_def binding_effect_def same_bindings_def split: option.splits)
  next
    case (ChBind tasks d bid sid)
    then show ?thesis
      using bind_task_effect [where tasks = tasks and s = s and c = d and bid = bid and sid = sid,
        OF prod.collapse [symmetric]] assms(2)
      by (simp add: channel_effect_def)
  next
    case (ChClaim d now)
    then show ?thesis using claim_channel_effect [OF i] by simp
  qed (simp_all add: claimed_operations [OF i, THEN claimed_channel_effect])
qed

lemma channel_effect_inv: "channel_effect s s' \<Longrightarrow> channel_inv s \<Longrightarrow> channel_inv s'"
  using subscription_effect_inv binding_effect_inv by (auto simp: channel_effect_def channel_inv_def)

lemma channel_step_effect: "channel_inv s \<Longrightarrow> channel_step s s' \<Longrightarrow> channel_effect s s'"
  by (erule channel_stepE) (simp add: run_channel_effect)

subsection \<open>Contracts\<close>

definition claim_token :: "channel_state \<Rightarrow> string \<Rightarrow> int option" where
  "claim_token s k = Option.bind (dget (ch_subscriptions s) k) pj_fencing_token"

lemma subscription_effect_counter:
  "subscription_effect s s' \<Longrightarrow> ch_next_fencing_token s \<le> ch_next_fencing_token s'"
  by (auto simp: subscription_effect_def same_subscriptions_def subscription_moved_def
      subscription_created_def)

lemma subscription_effect_token:
  assumes "subscription_effect s s'" "claim_token s' k = Some t"
  shows "claim_token s k = Some t \<or> ch_next_fencing_token s \<le> t"
  using assms
  by (auto simp: subscription_effect_def same_subscriptions_def subscription_moved_def
      subscription_created_def same_claim_def claim_token_def bind_eq_Some_conv split: if_splits)

interpretation channel_fence: fenced_store channel_step channel_inv claim_token ch_next_fencing_token
proof
  fix s s' k t assume i: "channel_inv s" and st: "channel_step s s'"
  note eff = channel_step_effect [OF i st]
  show "channel_inv s'" using eff i by (rule channel_effect_inv)
  have e: "subscription_effect s s'" using eff by (simp add: channel_effect_def)
  show "ch_next_fencing_token s \<le> ch_next_fencing_token s'" using e by (rule subscription_effect_counter)
  show "claim_token s' k = Some t \<Longrightarrow> claim_token s k = Some t \<or> ch_next_fencing_token s \<le> t"
    using e by (rule subscription_effect_token)
next
  fix s k t assume "channel_inv s" "claim_token s k = Some t"
  then show "t < ch_next_fencing_token s"
    by (force simp: channel_inv_def subscriptions_inv_def subscription_filed_def claim_token_def
        bind_eq_Some_conv)
qed

text \<open>A lease with the current token is only ever prolonged.\<close>

definition leased_until :: "channel_state \<Rightarrow> string \<Rightarrow> string \<Rightarrow> instant \<Rightarrow> bool" where
  "leased_until s k owner e \<longleftrightarrow> (\<exists>p e'. dget (ch_subscriptions s) k = Some p
     \<and> pj_claim_owner p = Some owner \<and> pj_claim_expires_at p = Some e' \<and> e \<le> e')"

lemma leased_effect:
  assumes "subscription_effect s s'" "leased_until s k owner e" "claim_token s k = Some t"
    "claim_token s' k = Some t" "t < ch_next_fencing_token s"
  shows "leased_until s' k owner e"
proof -
  obtain p e' where p: "dget (ch_subscriptions s) k = Some p" "pj_claim_owner p = Some owner"
      "pj_claim_expires_at p = Some e'" "e \<le> e'" "pj_fencing_token p = Some t"
    using assms(2,3) by (auto simp: leased_until_def claim_token_def)
  consider "same_subscriptions s s'" | j where "subscription_moved s s' j"
    | j where "subscription_created s s' j"
    using assms(1) unfolding subscription_effect_def by blast
  then show ?thesis
  proof cases
    case 2
    then obtain q w where m: "dget (ch_subscriptions s) j = Some q"
        "ch_subscriptions s' = dset j w (ch_subscriptions s)"
        "same_claim q w \<or> pj_fencing_token w = None \<or> pj_fencing_token w = Some (ch_next_fencing_token s)"
      unfolding subscription_moved_def by blast
    show ?thesis
    proof (cases "j = k")
      case True
      then have "same_claim p w" using m p(1) assms(4,5) by (auto simp: claim_token_def)
      then obtain e'' where "pj_claim_owner w = Some owner" "pj_claim_expires_at w = Some e''" "e \<le> e''"
        using p(2-4) unfolding same_claim_def by (metis order_trans)
      then show ?thesis using m(2) True by (simp add: leased_until_def)
    qed (use m(2) assms(2) in \<open>simp add: leased_until_def\<close>)
  next
    case 3
    then obtain q where "dget (ch_subscriptions s) j = None" "ch_subscriptions s' = dset j q (ch_subscriptions s)"
      unfolding subscription_created_def by blast
    then show ?thesis using assms(2) p(1) by (cases "j = k") (simp_all add: leased_until_def)
  qed (use assms(2) in \<open>simp add: same_subscriptions_def leased_until_def\<close>)
qed

lemma leased_run:
  assumes "channel_step\<^sup>*\<^sup>* s s'" "channel_inv s" "leased_until s k owner e" "claim_token s k = Some t"
    "claim_token s' k = Some t"
  shows "leased_until s' k owner e"
  using assms(1,5)
proof (induction rule: rtranclp_induct)
  case (step s1 s2)
  have i: "channel_inv s1" using step(1) assms(2) by (blast intro: channel_fence.inv_steps)
  have b: "t < ch_next_fencing_token s1"
    using channel_fence.counter_steps [OF step(1) assms(2)] channel_fence.token_below [OF assms(2,4)] by simp
  have e: "channel_effect s1 s2" using channel_step_effect [OF i step(2)] .
  have "claim_token s1 k = Some t"
    using channel_fence.token_fresh [OF i step(2) step(4)] b by auto
  with step.IH have "leased_until s1 k owner e" by blast
  with leased_effect [of s1 s2] e \<open>claim_token s1 k = Some t\<close> step(4) b show ?case
    by (auto simp: channel_effect_def)
qed (use assms(3) in simp)

interpretation source_kinds: insert_once
  "\<lambda>s. dget (ch_source_kinds s)" claim_source_event
  "\<lambda>c. [cse_tenant_id c, cse_environment_id c, cse_source_event_ref c]"
  "\<lambda>v c. v = cse_input_kind c" "\<lambda>s. True" "\<lambda>c. True"
  by standard (auto simp: claim_source_event_def Let_def split: option.splits if_splits)

lemma run_channel_inv: "channel_step\<^sup>*\<^sup>* s s' \<Longrightarrow> channel_inv s \<Longrightarrow> channel_inv s'"
  by (rule channel_fence.inv_steps)

text \<open>What a run keeps: bindings for ever, the identity of subscriptions, finished subscriptions.\<close>

definition channel_kept :: "channel_state \<Rightarrow> channel_state \<Rightarrow> bool" where
  "channel_kept s s' \<longleftrightarrow>
     (\<forall>k b. dget (ch_bindings s) k = Some b \<longrightarrow> dget (ch_bindings s') k = Some b)
     \<and> (\<forall>k v. dget (ch_source_kinds s) k = Some v \<longrightarrow> dget (ch_source_kinds s') k = Some v)
     \<and> (\<forall>k p. dget (ch_subscriptions s) k = Some p \<longrightarrow> (\<exists>w. dget (ch_subscriptions s') k = Some w
          \<and> subscription_key w = subscription_key p
          \<and> (pj_state p \<in> {COMPLETED, DEAD_LETTER} \<longrightarrow> w = p)))"

lemma channel_kept_refl: "channel_kept s s"
  by (simp add: channel_kept_def)

lemma channel_kept_trans:
  assumes "channel_kept a b" "channel_kept b c"
  shows "channel_kept a c"
  unfolding channel_kept_def
proof (intro conjI allI impI)
  fix k p assume p: "dget (ch_subscriptions a) k = Some p"
  obtain q where q: "dget (ch_subscriptions b) k = Some q" "subscription_key q = subscription_key p"
      "pj_state p \<in> {COMPLETED, DEAD_LETTER} \<longrightarrow> q = p"
    using assms(1) p unfolding channel_kept_def by blast
  obtain w where "dget (ch_subscriptions c) k = Some w" "subscription_key w = subscription_key q"
      "pj_state q \<in> {COMPLETED, DEAD_LETTER} \<longrightarrow> w = q"
    using assms(2) q(1) unfolding channel_kept_def by blast
  with q show "\<exists>w. dget (ch_subscriptions c) k = Some w \<and> subscription_key w = subscription_key p
      \<and> (pj_state p \<in> {COMPLETED, DEAD_LETTER} \<longrightarrow> w = p)" by auto
qed (use assms in \<open>simp_all add: channel_kept_def\<close>)

lemma effect_channel_kept:
  assumes "channel_effect s s'"
  shows "channel_kept s s'"
proof -
  have b: "\<forall>k b. dget (ch_bindings s) k = Some b \<longrightarrow> dget (ch_bindings s') k = Some b"
    using assms by (auto simp: channel_effect_def binding_effect_def same_bindings_def binding_created_def)
  have "\<exists>w. dget (ch_subscriptions s') k = Some w \<and> subscription_key w = subscription_key p
      \<and> (pj_state p \<in> {COMPLETED, DEAD_LETTER} \<longrightarrow> w = p)"
    if p: "dget (ch_subscriptions s) k = Some p" for k p
  proof -
    consider "same_subscriptions s s'" | j where "subscription_moved s s' j"
      | j where "subscription_created s s' j"
      using assms unfolding channel_effect_def subscription_effect_def by blast
    then show ?thesis
    proof cases
      case 2
      then obtain q w where m: "dget (ch_subscriptions s) j = Some q" "proj_path q w"
          "ch_subscriptions s' = dset j w (ch_subscriptions s)"
        unfolding subscription_moved_def by blast
      have "pj_state q \<notin> {COMPLETED, DEAD_LETTER}" using m(2) by (simp add: proj_path_def)
      then show ?thesis using p m subscription_key_path [OF m(2)] by (cases "k = j") auto
    qed (use p in \<open>auto simp: same_subscriptions_def subscription_created_def\<close>)
  qed
  with b assms show ?thesis by (simp add: channel_kept_def channel_effect_def)
qed

lemma run_channel_kept:
  assumes "channel_step\<^sup>*\<^sup>* s s'" "channel_inv s"
  shows "channel_kept s s'"
  using assms
proof (induction rule: rtranclp_induct)
  case (step s1 s2)
  then have "channel_inv s1" using run_channel_inv by blast
  with step show ?case using effect_channel_kept channel_step_effect channel_kept_trans by blast
qed (simp add: channel_kept_refl)

lemma bind_task_bound:
  assumes "channel_inv s" "channel_op_ok s (ChBind tasks c bid sid)"
    "bind_task tasks s c bid sid = (s', Inr b)"
  shows "\<exists>k. dget (ch_bindings s') k = Some b \<and> binding_matches_command b c"
proof -
  have "opt_all create_projection_command_ok (btc_projection c)" "dget (ch_subscriptions s) sid = None"
    using assms(2) by (auto simp: bind_task_command_ok_def)
  note n = create_nested_effect [OF _ this(2,1)]
  from assms(3) show ?thesis
  proof (cases rule: bind_task_cases)
    case (kept s1 o1 k b')
    then show ?thesis using n [OF kept(1)] by (cases o1) (auto simp: same_bindings_def)
  next
    case (bound s1 b')
    then show ?thesis by auto
  qed auto
qed

subsection \<open>Refusals change nothing\<close>

lemma error_of_eq: "error_of r = Some e \<longleftrightarrow> snd r = Inl e"
  by (cases r; cases "snd r") auto

lemma create_refused: "create_subscription_locked tasks s c u = (s', Inl e) \<Longrightarrow> s' = s"
  by (auto simp: create_subscription_locked_def split: sum.splits option.splits if_splits)

lemma bind_refused:
  assumes "bind_task tasks s c bid sid = (s', Inl e)"
  shows "s' = s"
proof -
  have n: "create_nested tasks s p sid = (s1, Inl e1) \<Longrightarrow> s1 = s" for p s1 e1
    using create_refused by (auto simp: create_nested_def split: option.splits sum.splits prod.splits)
  from assms show ?thesis
  proof (cases rule: bind_task_cases)
    case (kept s1 o1 k b)
    then show ?thesis using n by (cases o1) auto
  qed (use n in auto)
qed

lemma update_refused: "update_claimed s k rule = (s', Inl e) \<Longrightarrow> s' = s"
  by (auto simp: update_claimed_def save_projection_def split: sum.splits)

lemma claim_refused: "claim_projection_subscription s c now = (s', Inl e) \<Longrightarrow> s' = s"
  by (auto simp: claim_projection_subscription_def save_projection_def split: sum.splits)

lemma refused_unchanged:
  assumes "channel_refusal s op = Some e"
  shows "run_channel s op = s"
  using assms
  by (cases op) (auto simp: error_of_eq claim_source_event_def Let_def store_renew_projection_claim_def
      store_record_initial_projection_def store_schedule_task_recheck_def
      store_schedule_provider_retry_def store_complete_projection_def store_dead_letter_projection_def
      prod_eq_iff split: option.splits if_splits
      intro: create_refused bind_refused update_refused claim_refused)

text \<open>Without the current token a claim holder changes nothing.\<close>

lemma stale_unchanged:
  assumes "channel_inv s" "channel_credentials op = Some (k, t)" "claim_token s k \<noteq> Some t"
  shows "run_channel s op = s"
proof -
  have i: "subscriptions_inv s" using assms(1) by (simp add: channel_inv_def)
  have u: "claimed_update s s' c now \<Longrightarrow> cm_credentials c = Some (k, t) \<Longrightarrow> s' = s"
    for s' now and c :: "'a claim_mutation_scheme"
    using assms(3) by (auto simp: claimed_update_def cm_credentials_def claim_matches_def claim_token_def)
  note ops = claimed_operations [OF i, THEN u]
  show ?thesis using assms(2) by (cases op) (simp_all add: ops)
qed

end
