(* ===== verification/Channel_Claims.thy ===== *)
theory Channel_Claims
  imports Channel_Runs Task_Demo
begin

text \<open>
  The properties of the channel store, each with a witness on a small concrete run: a task bound to
  a Feishu message, whose card a delivery worker claims and completes.
\<close>

subsection \<open>A concrete run\<close>

definition demo_tasks :: tasks where
  "demo_tasks = [(''t1'', demo_running)]"

definition demo_create_projection :: create_projection_command where
  "demo_create_projection = \<lparr>cpc_task_id = ''t1'', cpc_destination_kind = DK_FEISHU_MESSAGE_CARD,
     cpc_destination_ref = ''r1'', cpc_initial_state = PENDING_INITIAL, cpc_next_attempt_at = 0\<rparr>"

definition demo_bind :: "string option \<Rightarrow> bind_task_command" where
  "demo_bind conv = \<lparr>btc_task_id = ''t1'', btc_tenant_id = ''acme'', btc_environment_id = ''prod'',
     btc_channel = CK_FEISHU_PRIVATE, btc_initiator_subject_ref = ''ann'',
     btc_conversation_ref = conv, btc_source_event_ref = ''event-1'', btc_created_at = 0,
     btc_projection = Some demo_create_projection\<rparr>"

definition demo_binding :: channel_binding where
  "demo_binding = \<lparr>cb_binding_id = ''b1'', cb_task_id = ''t1'', cb_tenant_id = ''acme'',
     cb_environment_id = ''prod'', cb_channel = CK_FEISHU_PRIVATE, cb_initiator_subject_ref = ''ann'',
     cb_conversation_ref = None, cb_source_event_ref = ''event-1'', cb_created_at = 0\<rparr>"

definition demo_pending :: projection_subscription where
  "demo_pending = \<lparr>pj_subscription_id = ''src'', pj_task_id = ''t1'',
     pj_destination_kind = DK_FEISHU_MESSAGE_CARD, pj_destination_ref = ''r1'',
     pj_source_message_ref = None, pj_state = PENDING_INITIAL, pj_last_projected_task_version = None,
     pj_attempt_number = 0, pj_claim_owner = None, pj_claim_expires_at = None,
     pj_fencing_token = None, pj_next_attempt_at = 0, pj_provider_failure_count = 0,
     pj_last_error_code = None, pj_payload_digest = None\<rparr>"

definition demo_bound :: channel_state where
  "demo_bound = empty_channel\<lparr>ch_bindings := [(''b1'', demo_binding)],
     ch_binding_ids_by_source := [([''acme'', ''prod'', ''feishu_private'', ''event-1''], ''b1'')],
     ch_binding_ids_by_task := [(''t1'', ''b1'')], ch_subscriptions := [(''src'', demo_pending)],
     ch_subscription_ids_by_destination := [([''t1'', ''feishu_message_card'', ''r1''], ''src'')]\<rparr>"

lemma demo_channel_strings [simp]: "strict_str ''b1''" "strict_str ''feishu_private''"
  by (rule strict_strI; code_simp)+

lemma demo_channel_ok: "channel_binding_ok demo_binding" "projection_subscription_ok demo_pending"
  "create_projection_command_ok demo_create_projection"
  "opt_all strict_str conv \<Longrightarrow> bind_task_command_ok (demo_bind conv)"
  by (simp_all add: channel_binding_ok_def demo_binding_def projection_subscription_ok_def
      demo_pending_def projection_fields_consistent_def create_projection_command_ok_def
      demo_create_projection_def bind_task_command_ok_def demo_bind_def)

lemma demo_task_facts: "dget demo_tasks ''t1'' = Some demo_running" "tr_tenant_id demo_running = ''acme''"
  "tr_environment_id demo_running = ''prod''"
  by (simp_all add: demo_tasks_def demo_running_def demo_created_def)

lemma demo_bound_result:
  "bind_task demo_tasks empty_channel (demo_bind None) ''b1'' ''src'' = (demo_bound, Inr demo_binding)"
proof -
  have c: "create_subscription_locked demo_tasks empty_channel demo_create_projection ''src'' =
      (empty_channel\<lparr>ch_subscriptions := [(''src'', demo_pending)],
         ch_subscription_ids_by_destination := [([''t1'', ''feishu_message_card'', ''r1''], ''src'')]\<rparr>,
       Inr demo_pending)"
    using demo_channel_ok(2) [unfolded demo_pending_def]
    by (simp add: create_subscription_locked_def demo_create_projection_def ch_require_task_def
        demo_task_facts empty_channel_def destination_key_def demo_pending_def)
  have n: "create_nested demo_tasks empty_channel (btc_projection (demo_bind None)) ''src'' =
      (empty_channel\<lparr>ch_subscriptions := [(''src'', demo_pending)],
         ch_subscription_ids_by_destination := [([''t1'', ''feishu_message_card'', ''r1''], ''src'')]\<rparr>, Inr ())"
    by (simp add: create_nested_def demo_bind_def c)
  have f: "btc_task_id (demo_bind None) = ''t1''" "btc_tenant_id (demo_bind None) = ''acme''"
    "btc_environment_id (demo_bind None) = ''prod''"
    "binding_source_key (demo_bind None) = [''acme'', ''prod'', ''feishu_private'', ''event-1'']"
    "\<lparr>cb_binding_id = ''b1'', cb_task_id = btc_task_id (demo_bind None),
       cb_tenant_id = btc_tenant_id (demo_bind None), cb_environment_id = btc_environment_id (demo_bind None),
       cb_channel = btc_channel (demo_bind None),
       cb_initiator_subject_ref = btc_initiator_subject_ref (demo_bind None),
       cb_conversation_ref = btc_conversation_ref (demo_bind None),
       cb_source_event_ref = btc_source_event_ref (demo_bind None),
       cb_created_at = btc_created_at (demo_bind None)\<rparr> = demo_binding"
    by (simp_all add: demo_bind_def demo_binding_def binding_source_key_def)
  have e: "ch_binding_ids_by_source empty_channel = []" "ch_binding_ids_by_task empty_channel = []"
    "ch_bindings empty_channel = []" by (simp_all add: empty_channel_def)
  show ?thesis
    unfolding bind_task_def f(5) Let_def
    by (simp add: ch_require_task_def f(1-4) demo_task_facts e n demo_channel_ok)
      (simp add: demo_bound_def)
qed

lemma demo_bound_step: "channel_step empty_channel demo_bound"
  using channel_stepI [of empty_channel "ChBind demo_tasks (demo_bind None) ''b1'' ''src''"]
  by (simp add: demo_bound_result demo_channel_ok) (simp add: empty_channel_def)

lemma demo_bound_inv: "channel_inv demo_bound"
  by (rule channel_fence.inv_step [OF empty_channel_inv demo_bound_step])

lemma one_channel_step: "channel_step s s' \<Longrightarrow> channel_step\<^sup>*\<^sup>* s s'"
  by (rule r_into_rtranclp)

subsection \<open>Consistency\<close>

text \<open>
  C27. The channel store stays consistent: in every reachable state each subscription and
  binding passes its validator and is filed under its id, at most one subscription exists for a task
  and destination and at most one binding for a task and for a source event, every index entry leads
  to its row, and claim tokens are below the counter.
\<close>

theorem reachable_channel_is_consistent:
  assumes "channel_step\<^sup>*\<^sup>* empty_channel s"
  shows "channel_inv s"
  using run_channel_inv assms empty_channel_inv by blast

theorem reachable_channel_is_consistent_witness:
  "channel_inv demo_bound \<and> map fst (ch_subscriptions demo_bound) = [''src'']"
  using reachable_channel_is_consistent [OF one_channel_step [OF demo_bound_step]]
  by (simp add: demo_bound_def)

subsection \<open>A claim\<close>

definition demo_claim :: "string \<Rightarrow> claim_projection_command" where
  "demo_claim owner = \<lparr>clp_subscription_id = ''src'', clp_claim_owner = owner, clp_ttl_seconds = 60,
     clp_expected_state = PENDING_INITIAL\<rparr>"

definition demo_claimed :: channel_state where
  "demo_claimed = fst (claim_projection_subscription demo_bound (demo_claim ''worker-a'') 0)"

definition demo_claimed_row :: projection_subscription where
  "demo_claimed_row = demo_pending\<lparr>pj_attempt_number := 1, pj_claim_owner := Some ''worker-a'',
     pj_claim_expires_at := Some (seconds 60), pj_fencing_token := Some 1\<rparr>"

lemma demo_claimed_row_ok: "projection_subscription_ok demo_claimed_row"
  by (simp add: demo_claimed_row_def demo_pending_def projection_subscription_ok_def
      projection_fields_consistent_def)

lemma demo_claimed_result:
  "claim_projection_subscription demo_bound (demo_claim ''worker-a'') 0 = (demo_claimed,
     Inr \<lparr>pur_applied = True, pur_winner = demo_claimed_row\<rparr>)"
  "demo_claimed = demo_bound\<lparr>ch_next_fencing_token := 2, ch_subscriptions := [(''src'', demo_claimed_row)]\<rparr>"
proof -
  have s: "dget (ch_subscriptions demo_bound) ''src'' = Some demo_pending"
    "ch_next_fencing_token demo_bound = 1" "ch_subscriptions demo_bound = [(''src'', demo_pending)]"
    by (simp_all add: demo_bound_def empty_channel_def)
  have "claim_projection demo_pending (demo_claim ''worker-a'') 0 1 =
      Inr \<lparr>pur_applied = True, pur_winner = demo_claimed_row\<rparr>"
    using demo_claimed_row_ok
    by (simp add: claim_projection_def demo_claim_def demo_pending_def claim_expires_after_def
        applied_def demo_claimed_row_def)
  then have "claim_projection_subscription demo_bound (demo_claim ''worker-a'') 0 =
      (demo_bound\<lparr>ch_next_fencing_token := 2, ch_subscriptions := [(''src'', demo_claimed_row)]\<rparr>,
       Inr \<lparr>pur_applied = True, pur_winner = demo_claimed_row\<rparr>)"
    by (simp add: claim_projection_subscription_def require_subscription_def s save_projection_def)
      (simp add: demo_claim_def require_subscription_def s demo_claimed_row_def demo_pending_def)
  then show "claim_projection_subscription demo_bound (demo_claim ''worker-a'') 0 = (demo_claimed,
     Inr \<lparr>pur_applied = True, pur_winner = demo_claimed_row\<rparr>)"
    "demo_claimed = demo_bound\<lparr>ch_next_fencing_token := 2, ch_subscriptions := [(''src'', demo_claimed_row)]\<rparr>"
    by (simp_all add: demo_claimed_def)
qed

lemma demo_claimed_step: "channel_step demo_bound demo_claimed"
  using channel_stepI [of demo_bound "ChClaim (demo_claim ''worker-a'') 0"]
  by (simp add: demo_claimed_def)

lemma demo_claimed_inv: "channel_inv demo_claimed"
  by (rule channel_fence.inv_step [OF demo_bound_inv demo_claimed_step])

lemma demo_claimed_get: "dget (ch_subscriptions demo_claimed) ''src'' = Some demo_claimed_row"
  by (simp add: demo_claimed_result(2))

subsection \<open>The life cycle of a projection\<close>

text \<open>
  C29. The channel store refines the projection machine: any operation by any delivery
  worker leaves a subscription's state alone, creates it pending or waiting, or takes one edge of
  \<open>proj_life\<close>; a subscription never disappears.
\<close>

theorem projection_follows_life_cycle:
  assumes "channel_inv s" "channel_step s s'"
  shows "dget (ch_subscriptions s') k = dget (ch_subscriptions s) k
     \<or> (\<exists>p. dget (ch_subscriptions s) k = None \<and> dget (ch_subscriptions s') k = Some p
          \<and> pj_state p \<in> {PENDING_INITIAL, WAITING_TERMINAL})
     \<or> (\<exists>p w. dget (ch_subscriptions s) k = Some p \<and> dget (ch_subscriptions s') k = Some w
          \<and> (pj_state w = pj_state p \<or> proj_life (pj_state p) (pj_state w)))"
proof -
  consider "same_subscriptions s s'" | j where "subscription_moved s s' j"
    | j where "subscription_created s s' j"
    using channel_step_effect [OF assms] unfolding channel_effect_def subscription_effect_def by blast
  then show ?thesis
  proof cases
    case 2
    then obtain q w where "dget (ch_subscriptions s) j = Some q" "proj_path q w"
        "ch_subscriptions s' = dset j w (ch_subscriptions s)"
      unfolding subscription_moved_def by blast
    then show ?thesis by (cases "k = j") (simp_all add: proj_path_def)
  next
    case 3
    then obtain p where "dget (ch_subscriptions s) j = None" "pj_state p \<in> {PENDING_INITIAL, WAITING_TERMINAL}"
        "ch_subscriptions s' = dset j p (ch_subscriptions s)"
      unfolding subscription_created_def by blast
    then show ?thesis by (cases "k = j") simp_all
  qed (simp add: same_subscriptions_def)
qed

theorem projection_follows_life_cycle_witness:
  "dget (ch_subscriptions demo_claimed) ''src'' = dget (ch_subscriptions demo_bound) ''src''
     \<or> (\<exists>p. dget (ch_subscriptions demo_bound) ''src'' = None
          \<and> dget (ch_subscriptions demo_claimed) ''src'' = Some p
          \<and> pj_state p \<in> {PENDING_INITIAL, WAITING_TERMINAL})
     \<or> (\<exists>p w. dget (ch_subscriptions demo_bound) ''src'' = Some p
          \<and> dget (ch_subscriptions demo_claimed) ''src'' = Some w
          \<and> (pj_state w = pj_state p \<or> proj_life (pj_state p) (pj_state w)))"
  by (rule projection_follows_life_cycle [OF demo_bound_inv demo_claimed_step])

text \<open>
  Delivery ends once: a completed or dead-lettered projection is the same record
  after any run of channel operations, whatever workers still try.
\<close>

theorem finished_projection_is_final:
  assumes "channel_inv s" "channel_step\<^sup>*\<^sup>* s s'" "dget (ch_subscriptions s) k = Some p"
    "pj_state p \<in> {COMPLETED, DEAD_LETTER}"
  shows "dget (ch_subscriptions s') k = Some p"
  using run_channel_kept [OF assms(2,1)] assms(3,4) unfolding channel_kept_def by blast

text \<open>The worker completes the card; a second completion with the same credentials is ignored.\<close>

definition demo_complete :: "int \<Rightarrow> complete_projection_command" where
  "demo_complete token = \<lparr>cm_subscription_id = ''src'', cm_claim_owner = ''worker-a'',
     cm_fencing_token = token, cm_expected_state = PENDING_INITIAL,
     cpl_source_message_ref = ''r1'', cpl_task_version = 1, cpl_payload_digest = demo_request_digest\<rparr>"

definition demo_sent_row :: projection_subscription where
  "demo_sent_row = demo_pending\<lparr>pj_state := COMPLETED, pj_attempt_number := 1,
     pj_source_message_ref := Some ''r1'', pj_last_projected_task_version := Some 1,
     pj_payload_digest := Some demo_request_digest\<rparr>"

definition demo_sent :: channel_state where
  "demo_sent = demo_claimed\<lparr>ch_subscriptions := [(''src'', demo_sent_row)]\<rparr>"

lemma demo_sent_result:
  "store_complete_projection demo_claimed (demo_complete 1) 5 =
     (demo_sent, Inr \<lparr>pur_applied = True, pur_winner = demo_sent_row\<rparr>)"
proof -
  have ok: "projection_subscription_ok demo_sent_row"
    by (simp add: demo_sent_row_def demo_pending_def projection_subscription_ok_def
        projection_fields_consistent_def demo_digests)
  have "complete_projection demo_claimed_row (demo_complete 1) 5 = applied demo_sent_row"
    by (simp add: complete_projection_def claim_matches_def demo_claimed_row_def demo_pending_def
        demo_complete_def claim_expires_after_def release_claim_def demo_sent_row_def seconds_def)
  then show ?thesis
    using ok by (simp add: store_complete_projection_def update_claimed_def require_subscription_def
        demo_claimed_get demo_complete_def applied_def save_projection_def)
      (simp add: demo_sent_def demo_claimed_result(2) demo_sent_row_def demo_pending_def)
qed

lemma demo_sent_step: "channel_step demo_claimed demo_sent"
  using channel_stepI [of demo_claimed "ChComplete (demo_complete 1) 5"] by (simp add: demo_sent_result)

lemma demo_sent_inv: "channel_inv demo_sent"
  by (rule channel_fence.inv_step [OF demo_claimed_inv demo_sent_step])

lemma demo_sent_get: "dget (ch_subscriptions demo_sent) ''src'' = Some demo_sent_row"
  by (simp add: demo_sent_def)

lemma demo_retake_step:
  "channel_step demo_sent (fst (claim_projection_subscription demo_sent (demo_claim owner) now))"
  using channel_stepI [of demo_sent "ChClaim (demo_claim owner) now"] by simp

theorem finished_projection_is_final_witness:
  "dget (ch_subscriptions (fst (claim_projection_subscription demo_sent (demo_claim ''worker-b'') 100)))
     ''src'' = Some demo_sent_row"
proof -
  have "pj_state demo_sent_row \<in> {COMPLETED, DEAD_LETTER}" by (simp add: demo_sent_row_def)
  then show ?thesis
    using finished_projection_is_final [OF demo_sent_inv one_channel_step [OF demo_retake_step] demo_sent_get]
    by blast
qed

subsection \<open>Claims are exclusive\<close>

text \<open>
  C28. Fencing of deliveries: a claim token that was current once and was then replaced or
  given up never works again; no operation that carries it changes anything, and it no longer
  authorizes the look-up of the task.
\<close>

theorem lost_claim_is_powerless:
  assumes "channel_inv s" "channel_step\<^sup>*\<^sup>* s s'" "channel_step\<^sup>*\<^sup>* s' s''"
    "claim_token s k = Some t" "claim_token s' k \<noteq> Some t" "channel_credentials op = Some (k, t)"
  shows "run_channel s'' op = s''
     \<and> resolve_claimed_task_lookup s'' \<lparr>ctl_subscription_id = k, ctl_claim_owner = owner,
          ctl_fencing_token = t\<rparr> now = Inl ProjectionClaimNotFoundError"
proof -
  have i: "channel_inv s''" using channel_fence.inv_steps assms(1-3) by blast
  have t: "claim_token s'' k \<noteq> Some t"
    by (rule channel_fence.superseded_forever [OF assms(2,3,1,4,5)])
  then show ?thesis
    using stale_unchanged [OF i assms(6)]
    by (auto simp: resolve_claimed_task_lookup_def authorize_claimed_task_lookup_def claim_token_def
        split: option.split)
qed

theorem lost_claim_is_powerless_witness:
  "run_channel demo_sent (ChComplete (demo_complete 1) 6) = demo_sent
     \<and> resolve_claimed_task_lookup demo_sent \<lparr>ctl_subscription_id = ''src'',
          ctl_claim_owner = ''worker-a'', ctl_fencing_token = 1\<rparr> 6 = Inl ProjectionClaimNotFoundError"
proof (rule lost_claim_is_powerless [OF demo_claimed_inv one_channel_step [OF demo_sent_step]
      rtranclp.rtrancl_refl])
  show "claim_token demo_claimed ''src'' = Some 1"
    by (simp add: claim_token_def demo_claimed_get demo_claimed_row_def)
  show "claim_token demo_sent ''src'' \<noteq> Some 1"
    by (simp add: claim_token_def demo_sent_get demo_sent_row_def demo_pending_def)
  show "channel_credentials (ChComplete (demo_complete 1) 6) = Some (''src'', 1)"
    by (simp add: cm_credentials_def demo_complete_def)
qed

text \<open>
  While a claim runs nobody else can take the projection: after a worker's claim
  was accepted and as long as its token is current, whatever operations run in between (renewals
  included), any claim before the granted expiry is refused, leaves the store unchanged and reports
  the worker as the owner.
\<close>

theorem running_claim_excludes_others:
  assumes "channel_inv s" "claim_projection_subscription s c now = (s1, Inr r)" "pur_applied r"
    "channel_step\<^sup>*\<^sup>* s1 s2"
    "claim_token s2 (clp_subscription_id c) = Some (ch_next_fencing_token s)"
    "clp_subscription_id d = clp_subscription_id c" "now' < now + seconds (clp_ttl_seconds c)"
  shows "\<exists>p. claim_projection_subscription s2 d now' = (s2, Inr \<lparr>pur_applied = False, pur_winner = p\<rparr>)
     \<and> pj_claim_owner p = Some (clp_claim_owner c)"
proof -
  have i: "subscriptions_inv s" using assms(1) by (simp add: channel_inv_def)
  obtain p w where w: "dget (ch_subscriptions s) (clp_subscription_id c) = Some p"
      "claim_projection p c now (ch_next_fencing_token s) = Inr \<lparr>pur_applied = True, pur_winner = w\<rparr>"
      "dget (ch_subscriptions s1) (clp_subscription_id c) = Some w"
      "pj_fencing_token w = Some (ch_next_fencing_token s)"
    using claim_applied [OF assms(2,3) i] by blast
  have "pj_claim_owner w = Some (clp_claim_owner c)"
    "pj_claim_expires_at w = Some (now + seconds (clp_ttl_seconds c))"
    using w(2) by (auto simp: claim_projection_def Let_def rule_results split: if_splits)
  then have l: "leased_until s1 (clp_subscription_id c) (clp_claim_owner c) (now + seconds (clp_ttl_seconds c))"
    using w(3) by (simp add: leased_until_def)
  have t: "claim_token s1 (clp_subscription_id c) = Some (ch_next_fencing_token s)"
    using w(3,4) by (simp add: claim_token_def)
  have i1: "channel_inv s1"
    using channel_fence.inv_step [OF assms(1) channel_stepI [of s "ChClaim c now"]] assms(2) by simp
  show ?thesis
    using leased_run [OF assms(4) i1 l t assms(5)] assms(6,7)
    by (auto simp: leased_until_def claim_projection_subscription_def require_subscription_def
        claim_projection_def claim_expires_after_def not_applied_def save_projection_def)
qed

text \<open>A renewal in between: the claim then runs until 90, and its token stays 1.\<close>

definition demo_renew :: renew_claim_command where
  "demo_renew = \<lparr>cm_subscription_id = ''src'', cm_claim_owner = ''worker-a'',
     cm_fencing_token = 1, cm_expected_state = PENDING_INITIAL, rnc_ttl_seconds = 60\<rparr>"

definition demo_renewed :: channel_state where
  "demo_renewed = fst (store_renew_projection_claim demo_claimed demo_renew (seconds 30))"

lemma demo_renewed_eq: "demo_renewed = demo_claimed\<lparr>ch_subscriptions :=
    [(''src'', demo_claimed_row\<lparr>pj_claim_expires_at := Some (seconds 90)\<rparr>)]\<rparr>"
proof -
  have "projection_subscription_ok (demo_claimed_row\<lparr>pj_claim_expires_at := Some (seconds 90)\<rparr>)"
    using demo_claimed_row_ok
    by (simp add: projection_subscription_ok_def projection_fields_consistent_def Let_def)
      (simp add: demo_claimed_row_def)
  moreover have "renew_projection_claim demo_claimed_row demo_renew (seconds 30) =
      applied (demo_claimed_row\<lparr>pj_claim_expires_at := Some (seconds 90)\<rparr>)"
    by (simp add: renew_projection_claim_def claim_matches_def demo_claimed_row_def demo_pending_def
        demo_renew_def claim_expires_after_def seconds_def)
  ultimately show ?thesis
    by (simp add: demo_renewed_def store_renew_projection_claim_def update_claimed_def
        require_subscription_def demo_claimed_get demo_renew_def applied_def save_projection_def)
      (simp add: demo_claimed_result(2) demo_claimed_row_def demo_pending_def)
qed

lemma demo_renewed_step: "channel_step demo_claimed demo_renewed"
  using channel_stepI [of demo_claimed "ChRenew demo_renew (seconds 30)"] by (simp add: demo_renewed_def)

theorem running_claim_excludes_others_witness:
  "\<exists>p. claim_projection_subscription demo_renewed (demo_claim ''worker-b'') (seconds 59) =
       (demo_renewed, Inr \<lparr>pur_applied = False, pur_winner = p\<rparr>) \<and> pj_claim_owner p = Some ''worker-a''"
proof -
  have t: "claim_token demo_renewed (clp_subscription_id (demo_claim ''worker-a'')) =
      Some (ch_next_fencing_token demo_bound)"
    by (simp add: claim_token_def demo_renewed_eq demo_claim_def demo_claimed_row_def demo_bound_def
        empty_channel_def)
  show ?thesis
    using running_claim_excludes_others [OF demo_bound_inv demo_claimed_result(1) _
        one_channel_step [OF demo_renewed_step] t, of "demo_claim ''worker-b''" "seconds 59"]
    by (simp add: demo_claim_def seconds_def)
qed

text \<open>
  Delivery does not stall: every subscription that \<open>list_due\<close> offers a worker can be
  claimed at that moment, in the state it was listed with; the claim is the worker's, carries the next
  token, and lasts for the requested time.
\<close>

theorem due_subscription_is_claimable:
  assumes "channel_inv s" "p \<in> set (list_due_projection_subscriptions s query now)"
    "claim_projection_command_ok c" "clp_subscription_id c = pj_subscription_id p"
    "clp_expected_state c = pj_state p"
  shows "\<exists>s' w. claim_projection_subscription s c now = (s', Inr \<lparr>pur_applied = True, pur_winner = w\<rparr>)
     \<and> dget (ch_subscriptions s') (pj_subscription_id p) = Some w
     \<and> pj_claim_owner w = Some (clp_claim_owner c)
     \<and> pj_fencing_token w = Some (ch_next_fencing_token s)
     \<and> pj_claim_expires_at w = Some (now + seconds (clp_ttl_seconds c))"
proof -
  have due: "is_due s query now p" and "p \<in> set (dvals (ch_subscriptions s))"
    using assms(2) by (auto simp: list_due_projection_subscriptions_def dest!: in_set_takeD)
  then obtain k where d: "dget (ch_subscriptions s) k = Some p"
    using assms(1) by (auto simp: channel_inv_def subscriptions_inv_def set_dvals)
  have p: "subscription_filed s k p" and c: "0 < ch_next_fencing_token s"
    using d assms(1) by (auto simp: channel_inv_def subscriptions_inv_def)
  let ?w = "p\<lparr>pj_state := (if pj_state p = WAITING_TERMINAL then DELIVERING_TERMINAL else pj_state p),
      pj_attempt_number := pj_attempt_number p + 1, pj_claim_owner := Some (clp_claim_owner c),
      pj_claim_expires_at := Some (now + seconds (clp_ttl_seconds c)),
      pj_fencing_token := Some (ch_next_fencing_token s)\<rparr>"
  have st: "pj_state p \<notin> {COMPLETED, DEAD_LETTER}" "pj_next_attempt_at p \<le> now" "\<not> claim_expires_after p now"
    using due by (auto simp: is_due_def split: option.splits)
  have "projection_subscription_ok ?w"
    using p c assms(3) st(1)
    by (auto simp: subscription_filed_def projection_subscription_ok_def
        projection_fields_consistent_def claim_projection_command_ok_def Let_def)
  then have "claim_projection p c now (ch_next_fencing_token s) =
      Inr \<lparr>pur_applied = True, pur_winner = ?w\<rparr>"
    using st assms(5) by (simp add: claim_projection_def applied_def)
  then show ?thesis
    using d p assms(4)
    by (simp add: claim_projection_subscription_def require_subscription_def save_projection_def
        subscription_filed_def)
qed

theorem due_subscription_is_claimable_witness:
  "\<exists>s' w. claim_projection_subscription demo_bound (demo_claim ''worker-b'') 0 =
         (s', Inr \<lparr>pur_applied = True, pur_winner = w\<rparr>)
     \<and> dget (ch_subscriptions s') ''src'' = Some w \<and> pj_claim_owner w = Some ''worker-b''
     \<and> pj_fencing_token w = Some 1 \<and> pj_claim_expires_at w = Some (seconds 60)"
proof -
  have "demo_pending \<in> set (list_due_projection_subscriptions demo_bound
      \<lparr>pdq_tenant_id = ''acme'', pdq_environment_id = ''prod'', pdq_limit = 5\<rparr> 0)"
    by (simp add: list_due_projection_subscriptions_def is_due_def binding_of_task_def dvals_def
        demo_bound_def demo_pending_def demo_binding_def claim_expires_after_def)
  moreover have "claim_projection_command_ok (demo_claim ''worker-b'')"
    by (simp add: claim_projection_command_ok_def demo_claim_def)
  moreover have "clp_subscription_id (demo_claim ''worker-b'') = pj_subscription_id demo_pending"
    "clp_expected_state (demo_claim ''worker-b'') = pj_state demo_pending"
    by (simp_all add: demo_claim_def demo_pending_def)
  ultimately show ?thesis
    using due_subscription_is_claimable [OF demo_bound_inv, of demo_pending _ 0 "demo_claim ''worker-b''"]
    by (simp add: demo_claim_def demo_pending_def demo_bound_def empty_channel_def)
qed

subsection \<open>Bindings and source events\<close>

text \<open>
  A task and a source event are bound once: after an accepted bind, any accepted bind of the
  same source event or of the same task, at any later time and whatever ran in between, returns the
  very same binding, and only if the two commands agree on task, scope, channel, initiator,
  conversation and event.
\<close>

theorem binding_is_unique_forever:
  assumes "channel_inv s" "channel_op_ok s (ChBind tasks c bid sid)"
    "bind_task tasks s c bid sid = (s1, Inr b)" "channel_step\<^sup>*\<^sup>* s1 s2"
    "bind_task tasks' s2 d bid' sid' = (s3, Inr b')"
    "binding_source_key d = binding_source_key c \<or> btc_task_id d = btc_task_id c"
  shows "b' = b \<and> binding_matches_command b c \<and> binding_matches_command b d"
proof -
  obtain k where k: "dget (ch_bindings s1) k = Some b" and c: "binding_matches_command b c"
    using bind_task_bound [OF assms(1-3)] by blast
  have i1: "channel_inv s1"
    using channel_fence.inv_step [OF assms(1) channel_stepI [OF assms(2)]] assms(3) by simp
  have i2: "channel_inv s2" using channel_fence.inv_steps [OF assms(4) i1] .
  have b2: "dget (ch_bindings s2) k = Some b"
    using run_channel_kept [OF assms(4) i1] k unfolding channel_kept_def by blast
  have keys: "binding_key b = binding_source_key c" "cb_task_id b = btc_task_id c"
    using c by (simp_all add: binding_matches_command_def binding_key_def binding_source_key_def)
  have ind: "dget (ch_binding_ids_by_source s2) (binding_source_key c) = Some k"
    "dget (ch_binding_ids_by_task s2) (btc_task_id c) = Some k"
    using i2 b2 indexed_row [of "ch_bindings s2" _ binding_key k b]
      indexed_row [of "ch_bindings s2" _ cb_task_id k b]
    by (simp_all add: channel_inv_def bindings_inv_def keys)
  from assms(5) show ?thesis
  proof (cases rule: bind_task_cases)
    case (kept t1 o1 k' b'')
    then have "k' = k" using ind assms(6) by auto
    then have "b'' = b" using kept(4) b2 by simp
    moreover have "b' = b''" using kept(3) by (cases o1) auto
    ultimately show ?thesis using kept(5) c by simp
  qed (use ind assms(6) in auto)
qed

theorem binding_is_unique_forever_witness:
  "snd (bind_task demo_tasks demo_bound (demo_bind None) ''b2'' ''sub2'') = Inr demo_binding
     \<and> binding_matches_command demo_binding (demo_bind None)"
proof -
  have "channel_op_ok empty_channel (ChBind demo_tasks (demo_bind None) ''b1'' ''src'')"
    by (simp add: demo_channel_ok) (simp add: empty_channel_def)
  note R = binding_is_unique_forever [OF empty_channel_inv this demo_bound_result rtranclp.rtrancl_refl]
  have "create_nested demo_tasks demo_bound (Some demo_create_projection) ''sub2'' = (demo_bound, Inr ())"
    by (simp add: create_nested_def create_subscription_locked_def ch_require_task_def
        demo_create_projection_def demo_task_facts destination_key_def demo_bound_def
        subscription_matches_command_def demo_pending_def)
  moreover have "dget (ch_bindings demo_bound) ''b1'' = Some demo_binding"
    "dget (ch_binding_ids_by_source demo_bound) (binding_source_key (demo_bind None)) = Some ''b1''"
    "dget (ch_binding_ids_by_task demo_bound) ''t1'' = Some ''b1''"
    by (simp_all add: demo_bound_def binding_source_key_def demo_bind_def)
  moreover have "binding_matches_command demo_binding (demo_bind None)" "btc_task_id (demo_bind None) = ''t1''"
    "btc_tenant_id (demo_bind None) = ''acme''" "btc_environment_id (demo_bind None) = ''prod''"
    "btc_projection (demo_bind None) = Some demo_create_projection"
    by (simp_all add: binding_matches_command_def demo_binding_def demo_bind_def)
  ultimately have "bind_task demo_tasks demo_bound (demo_bind None) ''b2'' ''sub2'' = (demo_bound, Inr demo_binding)"
    by (simp add: bind_task_def ch_require_task_def demo_task_facts)
  from R [OF this] this show ?thesis by simp
qed

text \<open>
  The kind of a source event is chosen once: after a kind was accepted for an event, every
  later choice for it leaves the store unchanged; it is accepted when it names the same kind and a
  conflict otherwise, whatever ran in between.
\<close>

theorem source_kind_is_chosen_once:
  assumes "channel_inv s" "claim_source_event s c = (s1, Inr u)" "channel_step\<^sup>*\<^sup>* s1 s2"
    "cse_tenant_id d = cse_tenant_id c" "cse_environment_id d = cse_environment_id c"
    "cse_source_event_ref d = cse_source_event_ref c"
  shows "claim_source_event s2 d = (s2, if cse_input_kind d = cse_input_kind c then Inr ()
     else Inl ChannelSourceKindConflictError)"
proof -
  obtain v where v: "dget (ch_source_kinds s1) [cse_tenant_id c, cse_environment_id c,
      cse_source_event_ref c] = Some v" "v = cse_input_kind c"
    using source_kinds.accepted [OF TrueI TrueI assms(2)] by blast
  have i1: "channel_inv s1"
    using channel_fence.inv_step [OF assms(1) channel_stepI [of s "ChSource c"]] assms(2) by simp
  have "dget (ch_source_kinds s2) [cse_tenant_id c, cse_environment_id c, cse_source_event_ref c]
      = Some (cse_input_kind c)"
    using run_channel_kept [OF assms(3) i1] v unfolding channel_kept_def by blast
  then show ?thesis using assms(4-6) by (auto simp: claim_source_event_def)
qed

definition demo_source :: "source_submission_kind \<Rightarrow> claim_source_event_command" where
  "demo_source kind = \<lparr>cse_tenant_id = ''acme'', cse_environment_id = ''prod'',
     cse_source_event_ref = ''event-1'', cse_input_kind = kind\<rparr>"

theorem source_kind_is_chosen_once_witness:
  "let s = fst (claim_source_event empty_channel (demo_source SSK_CONVERSATION))
   in claim_source_event s (demo_source SSK_SQL_ARTIFACT) = (s, Inl ChannelSourceKindConflictError)"
proof -
  let ?s = "fst (claim_source_event empty_channel (demo_source SSK_CONVERSATION))"
  have c: "claim_source_event empty_channel (demo_source SSK_CONVERSATION) = (?s, Inr ())"
    by (simp add: claim_source_event_def empty_channel_def)
  show ?thesis
    using source_kind_is_chosen_once [OF empty_channel_inv c rtranclp.rtrancl_refl,
        of "demo_source SSK_SQL_ARTIFACT"]
    by (simp add: demo_source_def)
qed

text \<open>
  Operations on the channel store are atomic: when one is refused with an error,
  the store is exactly as before, also when binding a task fails at its nested projection or a copied
  record fails its validator.
\<close>

theorem refused_channel_operation_changes_nothing:
  assumes "channel_refusal s op = Some e"
  shows "run_channel s op = s"
  using refused_unchanged [OF assms] .

theorem refused_channel_operation_changes_nothing_witness:
  "run_channel demo_bound (ChBind demo_tasks (demo_bind (Some ''ann'')) ''b2'' ''sub2'') = demo_bound"
proof (rule refused_channel_operation_changes_nothing)
  show "channel_refusal demo_bound (ChBind demo_tasks (demo_bind (Some ''ann'')) ''b2'' ''sub2'') =
      Some ChannelBindingConflictError"
    by (simp add: bind_task_def ch_require_task_def demo_bind_def demo_task_facts binding_source_key_def
        demo_bound_def binding_matches_command_def demo_binding_def)
qed

end
