(* ===== verification/Task_Access_Claims.thy ===== *)
theory Task_Access_Claims
  imports Task_Access Paging_Claims Channel_Claims
begin

text \<open>
  Reading tasks over the stores: a detail is shown exactly to whom the access rule admits, and the
  pages of a user's own tasks leave out the tasks of groups and nothing else.
\<close>

subsection \<open>The access rule\<close>

definition group_member :: "membership \<Rightarrow> channel_state \<Rightarrow> principal \<Rightarrow> string \<Rightarrow> bool" where
  "group_member membership channel p task_id \<longleftrightarrow> (\<exists>b c m. binding_of_task channel task_id = Some b
     \<and> cb_tenant_id b = pr_tenant_id p \<and> cb_environment_id b = pr_environment_id p
     \<and> cb_channel b = CK_FEISHU_GROUP \<and> cb_conversation_ref b = Some c
     \<and> membership = Some m \<and> m (pr_tenant_id p) c (pr_subject_ref p) = Some True)"

definition may_read :: "membership \<Rightarrow> channel_state \<Rightarrow> principal \<Rightarrow> string \<Rightarrow> task_record \<Rightarrow> bool" where
  "may_read membership channel p task_id r \<longleftrightarrow> VIEW_SAFE_TASK \<in> pr_permissions p
     \<and> tr_tenant_id r = pr_tenant_id p \<and> tr_environment_id r = pr_environment_id p
     \<and> (ADMIN_ALL_SAFE_TASKS \<in> pr_permissions p \<or> tr_actor r = pr_actor p
        \<or> group_member membership channel p task_id)"

definition readable :: "membership \<Rightarrow> store_state \<Rightarrow> channel_state \<Rightarrow> task_access_query \<Rightarrow> bool" where
  "readable membership tasks channel query \<longleftrightarrow>
     (\<exists>r. dget (st_tasks tasks) (taq_task_id query) = Some r
        \<and> may_read membership channel (taq_principal query) (taq_task_id query) r)"

lemma get_task_ok:
  "get_task s l = Inr r \<longleftrightarrow> dget (st_tasks s) (tl_task_id l) = Some r \<and> tr_tenant_id r = tl_tenant_id l
     \<and> tr_environment_id r = tl_environment_id l"
  by (auto simp: get_task_def require_task_def split: option.splits sum.splits)

lemma get_group_binding_ok:
  "get_group_binding s l = Inr b \<longleftrightarrow> binding_of_task s (tl_task_id l) = Some b
     \<and> cb_tenant_id b = tl_tenant_id l \<and> cb_environment_id b = tl_environment_id l
     \<and> cb_channel b = CK_FEISHU_GROUP"
  by (auto simp: get_group_binding_def split: option.splits)

lemma lookup_of_sel [simp]:
  "tl_task_id (lookup_of p i) = i" "tl_tenant_id (lookup_of p i) = pr_tenant_id p"
  "tl_environment_id (lookup_of p i) = pr_environment_id p"
  by (simp_all add: lookup_of_def)

lemma group_arm:
  "(case get_group_binding channel (lookup_of p i) of
      Inl e \<Rightarrow> None
    | Inr binding \<Rightarrow>
        (case (cb_conversation_ref binding, membership) of
           (Some conversation, Some m) \<Rightarrow>
             if m (pr_tenant_id p) conversation (pr_subject_ref p) = Some True then Some r else None
         | _ \<Rightarrow> None))
     = (if group_member membership channel p i then Some r else None)"
proof (cases "get_group_binding channel (lookup_of p i)")
  case (Inl e)
  then have "\<not> group_member membership channel p i"
    by (auto simp: group_member_def get_group_binding_def split: if_splits)
  with Inl show ?thesis by simp
next
  case (Inr b)
  then have "group_member membership channel p i \<longleftrightarrow> (\<exists>c m. cb_conversation_ref b = Some c
      \<and> membership = Some m \<and> m (pr_tenant_id p) c (pr_subject_ref p) = Some True)"
    by (auto simp: group_member_def get_group_binding_ok)
  with Inr show ?thesis
    by (cases membership; cases "cb_conversation_ref b") simp_all
qed

lemma authorized_record_iff:
  "authorized_record membership tasks channel query = Some r \<longleftrightarrow>
     dget (st_tasks tasks) (taq_task_id query) = Some r
     \<and> may_read membership channel (taq_principal query) (taq_task_id query) r"
proof -
  let ?p = "taq_principal query" and ?i = "taq_task_id query"
  show ?thesis
  proof (cases "get_task tasks (lookup_of ?p ?i)")
    case (Inl e)
    then have "\<not> (dget (st_tasks tasks) ?i = Some r \<and> tr_tenant_id r = pr_tenant_id ?p
        \<and> tr_environment_id r = pr_environment_id ?p)"
      using get_task_ok [of tasks "lookup_of ?p ?i" r] by simp
    with Inl show ?thesis by (auto simp: authorized_record_def Let_def may_read_def)
  next
    case (Inr q)
    then have "dget (st_tasks tasks) ?i = Some q" "tr_tenant_id q = pr_tenant_id ?p"
      "tr_environment_id q = pr_environment_id ?p"
      by (simp_all add: get_task_ok)
    with Inr show ?thesis
      by (auto simp: authorized_record_def Let_def may_read_def group_arm split: if_splits)
  qed
qed

lemma authorized_record_None:
  "authorized_record membership tasks channel query = None \<longleftrightarrow> \<not> readable membership tasks channel query"
  by (cases "authorized_record membership tasks channel query")
     (use authorized_record_iff [of membership tasks channel query] in \<open>auto simp: readable_def\<close>)

text \<open>
  A returned view was projected, at some moment, from the record read last before it, and a record of
  the same version and the view's status was read right after.
\<close>

lemma stable_view_ok:
  "stable_view project tasks_at lookup n i r0 = Inr (view, r) \<Longrightarrow>
     \<exists>j before. i \<le> j \<and> j < i + n
       \<and> (if j = i then before = r0 else get_task (tasks_at (j - 1)) lookup = Inr before)
       \<and> get_task (tasks_at j) lookup = Inr r \<and> project j before = Inr view
       \<and> tr_version before = tr_version r \<and> tv_status view = tr_status r"
proof (induction n arbitrary: i r0)
  case (Suc n)
  then show ?case
  proof (cases "project i r0")
    case c: (Inr candidate)
    show ?thesis
    proof (cases "get_task (tasks_at i) lookup")
      case (Inl e)
      then show ?thesis using Suc.prems c by (cases e) auto
    next
      case a: (Inr after)
      show ?thesis
      proof (cases "tr_version r0 = tr_version after \<and> tv_status candidate = tr_status after")
        case True
        then show ?thesis using Suc.prems c a by (intro exI [of _ i] exI [of _ r0]) auto
      next
        case False
        then have "stable_view project tasks_at lookup n (Suc i) after = Inr (view, r)"
          using Suc.prems c a by auto
        from Suc.IH [OF this] obtain j before where j: "Suc i \<le> j" "j < Suc i + n"
            "if j = Suc i then before = after else get_task (tasks_at (j - 1)) lookup = Inr before"
            "get_task (tasks_at j) lookup = Inr r" "project j before = Inr view"
            "tr_version before = tr_version r" "tv_status view = tr_status r"
          by blast
        moreover have "get_task (tasks_at (j - 1)) lookup = Inr before"
          using j(3) a by (auto split: if_splits)
        ultimately show ?thesis by (intro exI [of _ j] exI [of _ before]) auto
      qed
    qed
  qed simp
qed simp

lemma char_prefix_len: "char_len (char_prefix n s) \<le> int n"
  by (induction n s rule: char_prefix.induct) (auto simp: char_len_def split: nat.splits)

lemma char_prefix_some: "s \<noteq> [] \<Longrightarrow> 0 < n \<Longrightarrow> char_prefix n s \<noteq> []"
  by (cases s) (auto split: nat.splits)

lemma show_task_ok:
  "show_task scrub view r submission = Inr a \<Longrightarrow> at_task_view a = view \<and> at_task_version a = tr_version r
     \<and> at_request_preview a = preview scrub (request_preview_text submission) TASK_DETAIL_PREVIEW_LIMIT"
  by (auto simp: show_task_def revalidate_def split: if_splits)

text \<open>
  What makes a detail one snapshot: the view was projected from a record, the detail's version is the
  version of that very record and of the one read right after, and the view's status is that record's.
  The record projected is the authorized one at the first try, and the one the last try read at the
  second and the third.
\<close>

definition snapshot_of ::
  "(nat \<Rightarrow> task_record \<Rightarrow> access_error + 'v task_view) \<Rightarrow> store_state \<Rightarrow> (nat \<Rightarrow> store_state)
     \<Rightarrow> task_access_query \<Rightarrow> 'v accessible_task \<Rightarrow> bool" where
  "snapshot_of project tasks tasks_at query a \<longleftrightarrow> (\<exists>j < 3. \<exists>before r.
     let lookup = lookup_of (taq_principal query) (taq_task_id query) in
     get_task (if j = 0 then tasks else tasks_at (j - 1)) lookup = Inr before
     \<and> project j before = Inr (at_task_view a) \<and> at_task_version a = tr_version before
     \<and> get_task (tasks_at j) lookup = Inr r \<and> at_task_version a = tr_version r
     \<and> tv_status (at_task_view a) = tr_status r)"

text \<open>
  C30. Task details follow the access rule. When \<open>get_task\<close> returns a detail, the task exists in the
  reader's tenant and environment and the reader may see it: as an administrator of all safe tasks, as
  its own actor, or as a member of the Feishu group it was asked in, confirmed by the live membership
  query. The detail is one snapshot: its version is the version of the record its view was projected
  from and of the record read right after the projection, whose status the view has. Everybody else,
  whatever the reason, gets the one answer that the task was not found, as for a task that does not
  exist.
\<close>

theorem task_details_follow_the_access_rule:
  "case access_task E scrub membership project tasks channel tasks_at later query of
     Inr a \<Rightarrow> readable membership tasks channel query \<and> snapshot_of project tasks tasks_at query a
   | Inl e \<Rightarrow> readable membership tasks channel query \<or> e = TaskAccessNotFoundError"
proof (cases "authorized_record membership tasks channel query")
  case None
  then have "\<not> readable membership tasks channel query" using authorized_record_None by blast
  with None show ?thesis by (simp add: access_task_def)
next
  case (Some r)
  then have readable: "readable membership tasks channel query"
    using authorized_record_None [of membership tasks channel query] by simp
  let ?l = "lookup_of (taq_principal query) (taq_task_id query)"
  have r: "get_task tasks ?l = Inr r"
    using Some authorized_record_iff [of membership tasks channel query r]
    by (simp add: get_task_ok may_read_def)
  show ?thesis
  proof (cases "access_task E scrub membership project tasks channel tasks_at later query")
    case (Inr a)
    then obtain view q where v: "stable_view project tasks_at ?l 3 0 r = Inr (view, q)"
      using Some by (auto simp: access_task_def Let_def split: sum.splits)
    obtain submission where "show_task scrub view q submission = Inr a"
      using Inr Some v by (auto simp: access_task_def Let_def split: sum.splits)
    then have a: "at_task_view a = view" "at_task_version a = tr_version q" by (simp_all add: show_task_ok)
    from stable_view_ok [OF v] obtain j before where j: "j < 3"
        "if j = 0 then before = r else get_task (tasks_at (j - 1)) ?l = Inr before"
        "get_task (tasks_at j) ?l = Inr q" "project j before = Inr view"
        "tr_version before = tr_version q" "tv_status view = tr_status q"
      by auto
    then have "snapshot_of project tasks tasks_at query a"
      using a r unfolding snapshot_of_def Let_def
      by (intro exI [of _ j] conjI exI [of _ before] exI [of _ q]) (auto split: if_splits)
    then show ?thesis using readable Inr by simp
  qed (use readable in simp)
qed

subsection \<open>Pages of one's own tasks\<close>

text \<open>The group tasks, as the query over any list of tasks answers.\<close>

definition group_bound :: "channel_state \<Rightarrow> string \<Rightarrow> string \<Rightarrow> string \<Rightarrow> bool" where
  "group_bound channel t e task_id \<longleftrightarrow> (\<exists>b. binding_of_task channel task_id = Some b
     \<and> cb_tenant_id b = t \<and> cb_environment_id b = e \<and> cb_channel b = CK_FEISHU_GROUP)"

lemma group_ids:
  "list_group_bound_task_ids channel \<lparr>gbq_tenant_id = t, gbq_environment_id = e, gbq_task_ids = ids\<rparr>
     = {i \<in> set ids. group_bound channel t e i}"
  by (auto simp: list_group_bound_task_ids_def group_bound_def split: option.splits)

text \<open>The loop stops after some prefix of the page, and knows where.\<close>

lemma collect_prefix:
  assumes "\<And>item. item \<in> set items \<Longrightarrow> task_summary_ok (summary_of scrub item)"
    and "int (length found) < limit"
  shows "\<exists>n. n \<le> length items
     \<and> collect scrub groups limit has found processed items
         = Inr (found @ map (summary_of scrub) (filter (\<lambda>i. tr_task_id (sr_record i) \<notin> groups) (take n items)),
             (if n = 0 then processed else Some (tr_created_seq (sr_record (items ! (n - 1))))),
             has \<or> n < length items)
     \<and> int (length found + length (filter (\<lambda>i. tr_task_id (sr_record i) \<notin> groups) (take n items))) \<le> limit
     \<and> (n = 0 \<longrightarrow> items = [])"
  using assms
proof (induction items arbitrary: found processed)
  case (Cons item items)
  let ?seq = "Some (tr_created_seq (sr_record item))"
  define found' where "found' = (if tr_task_id (sr_record item) \<in> groups then found
    else found @ [summary_of scrub item])"
  have s: "summary scrub item = Inr (summary_of scrub item)"
    using Cons.prems(1) [of item] by (simp add: summary_def revalidate_def)
  have step: "collect scrub groups limit has found processed (item # items)
      = (if int (length found') = limit then Inr (found', ?seq, has \<or> items \<noteq> [])
         else collect scrub groups limit has found' ?seq items)"
    by (simp add: found'_def s)
  show ?case
  proof (cases "int (length found') = limit")
    case True
    then show ?thesis
      by (intro exI [of _ 1]) (use step in \<open>auto simp: found'_def\<close>)
  next
    case False
    then have lt: "int (length found') < limit" using Cons.prems(2) by (auto simp: found'_def split: if_splits)
    obtain n where n: "n \<le> length items"
      "collect scrub groups limit has found' ?seq items
         = Inr (found' @ map (summary_of scrub) (filter (\<lambda>i. tr_task_id (sr_record i) \<notin> groups) (take n items)),
             (if n = 0 then ?seq else Some (tr_created_seq (sr_record (items ! (n - 1))))),
             has \<or> n < length items)"
      "int (length found' + length (filter (\<lambda>i. tr_task_id (sr_record i) \<notin> groups) (take n items))) \<le> limit"
      using Cons.IH [OF _ lt, of ?seq] Cons.prems(1) by auto
    show ?thesis
    proof (intro exI [of _ "Suc n"] conjI)
      show "collect scrub groups limit has found processed (item # items)
         = Inr (found @ map (summary_of scrub) (filter (\<lambda>i. tr_task_id (sr_record i) \<notin> groups) (take (Suc n) (item # items))),
             (if Suc n = 0 then processed else Some (tr_created_seq (sr_record ((item # items) ! (Suc n - 1))))),
             has \<or> Suc n < length (item # items))"
        using step False n(2) by (cases n) (simp_all add: found'_def)
    qed (use n in \<open>auto simp: found'_def split: if_splits\<close>)
  qed
qed simp

text \<open>What a cursor at the \<open>n\<close>-th candidate leaves.\<close>

lemma candidates_after:
  assumes "tasks_inv E s" "seqs_inv s" "0 < n" "n \<le> length (page_candidates s t e a b)"
  shows "page_candidates s t e a (Some (tr_created_seq (page_candidates s t e a b ! (n - 1))))
     = drop n (page_candidates s t e a b)"
proof -
  let ?L = "page_candidates s t e a b"
  define c where "c = tr_created_seq (?L ! (n - 1))"
  have srt: "sorted_wrt newer ?L" by (rule candidates_sorted [OF assms(1,2)])
  have take: "last (take n ?L) = ?L ! (n - 1)" using assms(3,4) by (subst last_conv_nth) auto
  have left: "filter (\<lambda>r. tr_created_seq r < c) ?L = drop n ?L"
  proof (cases "n < length ?L")
    case True
    then show ?thesis using filter_after [OF srt assms(3)] take by (simp add: c_def)
  next
    case False
    then have n: "n = length ?L" using assms(4) by simp
    have "\<not> tr_created_seq r < c" if r: "r \<in> set ?L" for r
    proof -
      obtain i where i: "i < length ?L" "r = ?L ! i" using r unfolding in_set_conv_nth by blast
      have "i \<le> n - 1" using i(1) n by simp
      then consider "i = n - 1" | "i < n - 1" by linarith
      then show ?thesis
      proof cases
        case 2
        then have "newer (?L ! i) (?L ! (n - 1))" using n i(1) by (intro sorted_wrt_nth_less [OF srt]) auto
        then show ?thesis using i(2) by (simp add: c_def)
      qed (simp add: i(2) c_def)
    qed
    then show ?thesis using n by (simp add: filter_empty_conv)
  qed
  have whole: "filter (\<lambda>r. tr_created_seq r < c) ?L
      = filter (\<lambda>r. opt_all (\<lambda>b. tr_created_seq r < b) b \<and> tr_created_seq r < c) (page_candidates s t e a None)"
    by (cases b) (simp_all add: candidates_filter)
  have "opt_all (\<lambda>b. c < b) b"
  proof -
    have "?L ! (n - 1) \<in> set ?L" using assms(3,4) by simp
    then show ?thesis unfolding page_candidates_def c_def by (auto simp del: nth_mem)
  qed
  then have same: "(\<lambda>r. opt_all (\<lambda>b. tr_created_seq r < b) b \<and> tr_created_seq r < c) = (\<lambda>r. tr_created_seq r < c)"
    by (cases b) (auto simp: fun_eq_iff)
  have "filter (\<lambda>r. tr_created_seq r < c) (page_candidates s t e a None) = drop n ?L"
    using left whole unfolding same by (rule subst [rotated])
  then show ?thesis by (simp add: candidates_filter c_def)
qed

lemma item_summary_ok:
  assumes "tasks_inv E s" "\<forall>k sub. dget (st_submissions s) k = Some sub \<longrightarrow> task_submission_ok sub"
    and "\<forall>text. text \<noteq> [] \<longrightarrow> scrub text \<noteq> []"
    and "stored_read E s r = Inr item" "dget (st_tasks s) k = Some r"
  shows "sr_record item = r \<and> task_summary_ok (summary_of scrub item)"
proof -
  have item: "sr_record item = r" "dget (st_submissions s) (tr_task_id r) = Some (sr_submission item)"
    using assms(4) by (auto simp: stored_read_def split: option.splits if_splits)
  have "task_id_ok (tr_task_id r)"
    using tasks_inv_filed [OF assms(1,5)] by (auto simp: task_filed_def task_record_ok_def)
  moreover have "task_submission_ok (sr_submission item)" using assms(2) item(2) by blast
  then have "request_preview_text (sr_submission item) \<noteq> []"
    by (cases "sr_submission item") (auto simp: conversation_submission_ok_def request_envelope_ok_def SQL_SUBMISSION_PREVIEW_def)
  then have "scrub (request_preview_text (sr_submission item)) \<noteq> []" using assms(3) by blast
  ultimately show ?thesis
    using item(1) char_prefix_len [of "nat TASK_SUMMARY_PREVIEW_LIMIT"] char_prefix_some
    by (simp add: task_summary_ok_def summary_of_def preview_def TASK_SUMMARY_PREVIEW_LIMIT_def)
qed

lemma read_all_items:
  "read_all E s rs = Inr xs \<Longrightarrow> item \<in> set xs \<Longrightarrow> \<exists>r \<in> set rs. stored_read E s r = Inr item"
  by (induction E s rs arbitrary: xs rule: read_all.induct) (fastforce split: sum.splits)+

lemma page_items:
  "page E s t e a b limit = Inr p \<Longrightarrow> item \<in> set (pg_items p) \<Longrightarrow>
     \<exists>r \<in> set (page_candidates s t e a b). stored_read E s r = Inr item"
  using read_all_items [of E s _ "pg_items p" item]
  by (auto simp: page_def Let_def revalidate_Inr checked_Inr dest!: in_set_takeD split: sum.splits)

definition own_visible ::
  "store_state \<Rightarrow> channel_state \<Rightarrow> principal \<Rightarrow> int option \<Rightarrow> string list" where
  "own_visible s channel p before = map tr_task_id
     (filter (\<lambda>r. \<not> group_bound channel (pr_tenant_id p) (pr_environment_id p) (tr_task_id r))
        (page_candidates s (pr_tenant_id p) (pr_environment_id p) (Some (pr_actor p)) before))"

text \<open>The reader's own tasks, on the stored records alone, and the list of them.\<close>

definition own_task :: "channel_state \<Rightarrow> principal \<Rightarrow> int option \<Rightarrow> task_record \<Rightarrow> bool" where
  "own_task channel p before r \<longleftrightarrow>
     in_scope (pr_tenant_id p) (pr_environment_id p) (Some (pr_actor p)) before r
     \<and> \<not> group_bound channel (pr_tenant_id p) (pr_environment_id p) (tr_task_id r)"

definition own_records ::
  "store_state \<Rightarrow> channel_state \<Rightarrow> principal \<Rightarrow> int option \<Rightarrow> task_record list" where
  "own_records s channel p before =
     filter (\<lambda>r. \<not> group_bound channel (pr_tenant_id p) (pr_environment_id p) (tr_task_id r))
       (page_candidates s (pr_tenant_id p) (pr_environment_id p) (Some (pr_actor p)) before)"

lemma own_newest_first:
  assumes "tasks_inv E s" "seqs_inv s"
  shows "newest_first s (own_task channel p before) (own_records s channel p before)"
  using candidates_newest_first [OF assms, of "pr_tenant_id p" "pr_environment_id p" "Some (pr_actor p)" before]
  by (auto simp: newest_first_def own_task_def own_records_def intro: sorted_wrt_filter)

lemma own_suffix:
  assumes "tasks_inv E s" "seqs_inv s"
    and m: "xs @ map tr_task_id (case c of None \<Rightarrow> [] | Some b \<Rightarrow> own_records s channel p (Some b))
      = map tr_task_id (own_records s channel p before)"
  shows "\<exists>shown. own_records s channel p before
       = shown @ (case c of None \<Rightarrow> [] | Some b \<Rightarrow> own_records s channel p (Some b))
     \<and> map tr_task_id shown = xs"
proof -
  let ?all = "own_records s channel p before"
    and ?rest = "case c of None \<Rightarrow> [] | Some b \<Rightarrow> own_records s channel p (Some b)"
  have key: "dget (st_tasks s) (tr_task_id r) = Some r" if "r \<in> set ?all \<union> set ?rest" for r
  proof -
    have own: "\<exists>k. dget (st_tasks s) k = Some r" if "r \<in> set (own_records s channel p b)" for b
      using that own_newest_first [OF assms(1,2), of channel p b] unfolding newest_first_def by blast
    have "r \<in> set ?all \<or> (\<exists>b. r \<in> set (own_records s channel p (Some b)))"
      using \<open>r \<in> set ?all \<union> set ?rest\<close> by (cases c) auto
    then obtain k where "dget (st_tasks s) k = Some r" using own by blast
    then show ?thesis using tasks_inv_filed [OF assms(1)] by (metis task_filed_def)
  qed
  have "map tr_task_id (drop (length xs) ?all) = map tr_task_id ?rest"
    using arg_cong [OF m, of "drop (length xs)"] by (simp add: drop_map)
  moreover have "inj_on tr_task_id (set (drop (length xs) ?all) \<union> set ?rest)"
    by (rule inj_onI) (metis UnE UnI1 UnI2 in_set_dropD key option.inject)
  ultimately have "drop (length xs) ?all = ?rest" by (simp add: inj_on_map_eq_map)
  moreover have "map tr_task_id (take (length xs) ?all) = xs"
    using arg_cong [OF m, of "take (length xs)"] by (simp add: take_map)
  ultimately show ?thesis by (metis append_take_drop_id)
qed

text \<open>A list query answers a prefix of what is visible, and its cursor leads to the remainder.\<close>

lemma own_list_prefix:
  assumes "py_env_ok E" "(store_step E n)\<^sup>*\<^sup>* empty_store s" "task_list_query_ok query"
    and "\<forall>k sub. dget (st_submissions s) k = Some sub \<longrightarrow> task_submission_ok sub"
    and "\<forall>text. text \<noteq> [] \<longrightarrow> scrub text \<noteq> []"
    and "VIEW_SAFE_TASK \<in> pr_permissions (tlq_principal query)"
    and "ADMIN_ALL_SAFE_TASKS \<notin> pr_permissions (tlq_principal query)"
  shows "\<exists>p. list_tasks E scrub s channel query = Inr p \<and> int (length (tp_items p)) \<le> tlq_limit query
     \<and> map sm_task_id (tp_items p) @ (case tp_next_created_seq p of None \<Rightarrow> []
         | Some c \<Rightarrow> own_visible s channel (tlq_principal query) (Some c))
       = own_visible s channel (tlq_principal query) (tlq_before_created_seq query)"
proof -
  let ?p = "tlq_principal query" and ?b = "tlq_before_created_seq query"
  let ?t = "pr_tenant_id ?p" and ?e = "pr_environment_id ?p" and ?a = "Some (pr_actor ?p)"
  let ?L = "page_candidates s ?t ?e ?a ?b"
  have inv: "tasks_inv E s" "seqs_inv s"
    using reachable_inv [OF assms(2,1)] by (simp_all add: run_inv_def store_inv_def)
  obtain stored where pg: "page E s ?t ?e ?a ?b 100 = Inr stored"
    and len: "length (pg_items stored) \<le> 100"
    and all: "map sr_record (pg_items stored) @ (case pg_next_created_seq stored of None \<Rightarrow> []
         | Some c \<Rightarrow> page_candidates s ?t ?e ?a (Some c)) = ?L"
    using page_complete [OF inv, of 100 ?t ?e ?a ?b] by auto
  let ?items = "pg_items stored"
  let ?vis = "\<lambda>r. \<not> group_bound channel ?t ?e (tr_task_id r)"
  define groups where "groups = (if ?items = [] then {} else list_group_bound_task_ids channel
    \<lparr>gbq_tenant_id = ?t, gbq_environment_id = ?e, gbq_task_ids = map (\<lambda>i. tr_task_id (sr_record i)) ?items\<rparr>)"
  have hidden: "tr_task_id (sr_record i) \<in> groups \<longleftrightarrow> \<not> ?vis (sr_record i)" if "i \<in> set ?items" for i
    using that by (auto simp: groups_def group_ids)
  have ok: "task_summary_ok (summary_of scrub i) \<and> 0 < tr_created_seq (sr_record i)" if i: "i \<in> set ?items" for i
  proof -
    obtain r where r: "r \<in> set ?L" "stored_read E s r = Inr i" using page_items [OF pg i] by blast
    obtain k where k: "dget (st_tasks s) k = Some r" using candidates_tasks [OF inv(1) r(1)] by blast
    have "0 < tr_created_seq r" using tasks_inv_filed [OF inv(1) k] by (simp add: task_filed_def task_record_ok_def)
    then show ?thesis using item_summary_ok [OF inv(1) assms(4,5) r(2) k] by simp
  qed
  have lim: "0 < tlq_limit query" using assms(3) by (simp add: task_list_query_ok_def)
  obtain n where n: "n \<le> length ?items"
    and run: "collect scrub groups (tlq_limit query) (pg_next_created_seq stored \<noteq> None) [] None ?items
      = Inr (map (summary_of scrub) (filter (\<lambda>i. tr_task_id (sr_record i) \<notin> groups) (take n ?items)),
          if n = 0 then None else Some (tr_created_seq (sr_record (?items ! (n - 1)))),
          pg_next_created_seq stored \<noteq> None \<or> n < length ?items)"
    and short: "int (length (filter (\<lambda>i. tr_task_id (sr_record i) \<notin> groups) (take n ?items))) \<le> tlq_limit query"
    and empty: "n = 0 \<longrightarrow> ?items = []"
    using collect_prefix [of ?items scrub "[]" "tlq_limit query" groups "pg_next_created_seq stored \<noteq> None" None]
      ok lim by auto
  define has where "has \<longleftrightarrow> pg_next_created_seq stored \<noteq> None \<or> n < length ?items"
  define processed where "processed = (if n = 0 then None else Some (tr_created_seq (sr_record (?items ! (n - 1)))))"
  define found where "found = map (summary_of scrub) (filter (\<lambda>i. tr_task_id (sr_record i) \<notin> groups) (take n ?items))"
  define p where "p = \<lparr>tp_items = found, tp_next_created_seq = (if has then processed else None)\<rparr>"
  have sub: "i \<in> set ?items" if "i \<in> set (take n ?items)" for i using that by (rule in_set_takeD)
  have nth: "n \<noteq> 0 \<Longrightarrow> ?items ! (n - 1) \<in> set ?items" using n by simp
  have "task_page_ok p"
    using ok sub nth by (auto simp: task_page_ok_def p_def found_def processed_def list_all_iff)
  moreover have "collect scrub groups (tlq_limit query) (pg_next_created_seq stored \<noteq> None) [] None ?items
      = Inr (found, processed, has)"
    unfolding has_def processed_def found_def by (rule run)
  ultimately have listed: "list_tasks E scrub s channel query = Inr p"
    using assms(6,7) pg
    by (simp add: list_tasks_def Let_def list_tasks_for_actor_def groups_def [symmetric] p_def [symmetric]
        del: not_None_eq)
  have ids: "map sm_task_id found = map tr_task_id (filter ?vis (take n ?L))"
  proof -
    have "map sm_task_id found = map tr_task_id (filter ?vis (map sr_record (take n ?items)))"
      using hidden sub by (simp add: found_def summary_of_def comp_def filter_map cong: filter_cong)
    moreover have "map sr_record (take n ?items) = take n ?L"
      using n arg_cong [OF all, of "take n"] by (simp add: take_map)
    ultimately show ?thesis by simp
  qed
  have rest: "(case tp_next_created_seq p of None \<Rightarrow> [] | Some c \<Rightarrow> page_candidates s ?t ?e ?a (Some c)) = drop n ?L"
  proof (cases "has \<and> n \<noteq> 0")
    case True
    then have lt: "n - 1 < length ?items" using n by auto
    then have le: "n \<le> length ?L" "sr_record (?items ! (n - 1)) = ?L ! (n - 1)"
      using n lt arg_cong [OF all, of length] arg_cong [OF all, of "\<lambda>l. l ! (n - 1)"]
      by (auto simp: nth_append)
    then show ?thesis using True candidates_after [OF inv _ le(1)] by (simp add: p_def processed_def)
  next
    case False
    have "?items = [] \<Longrightarrow> pg_next_created_seq stored = None"
      using pg by (auto simp: page_def Let_def checked_Inr revalidate_Inr stored_task_page_ok_def split: sum.splits)
    then have "pg_next_created_seq stored = None" "n = length ?items" "\<not> has" using False empty n by (auto simp: has_def)
    then show ?thesis using all by (auto simp: p_def dest: arg_cong [of _ _ length])
  qed
  have "own_visible s channel ?p ?b
      = map tr_task_id (filter ?vis (take n ?L)) @ map tr_task_id (filter ?vis (drop n ?L))"
    by (simp add: own_visible_def filter_append [symmetric] map_append [symmetric] del: filter_append map_append)
  moreover have "(case tp_next_created_seq p of None \<Rightarrow> [] | Some c \<Rightarrow> own_visible s channel ?p (Some c))
      = map tr_task_id (filter ?vis (drop n ?L))"
    unfolding rest [symmetric] by (simp add: own_visible_def split: option.split)
  ultimately have "map sm_task_id (tp_items p) @ (case tp_next_created_seq p of None \<Rightarrow> []
         | Some c \<Rightarrow> own_visible s channel ?p (Some c)) = own_visible s channel ?p ?b"
    by (simp add: p_def ids)
  then show ?thesis using listed short by (auto simp: p_def found_def)
qed

text \<open>
  C31. A user's own list is sound and complete. For a reader who may see safe tasks and is no
  administrator of them, a list query on a reachable store succeeds with at most the requested number
  of tasks. The tasks shown followed by the rest are exactly the stored tasks of the reader's tenant,
  environment and actor, older than the cursor where one is given, that are not bound to a group of that
  scope, strictly newest first. The rest is empty without a next cursor, and otherwise is exactly what
  there is to see from that cursor; this also holds when a page is empty because all the tasks looked at
  belong to groups. The redaction must not erase a text altogether.
\<close>

theorem own_list_is_complete:
  assumes "py_env_ok E" "(store_step E n)\<^sup>*\<^sup>* empty_store s" "task_list_query_ok query"
    and "\<forall>k sub. dget (st_submissions s) k = Some sub \<longrightarrow> task_submission_ok sub"
    and "\<forall>text. text \<noteq> [] \<longrightarrow> scrub text \<noteq> []"
    and "VIEW_SAFE_TASK \<in> pr_permissions (tlq_principal query)"
    and "ADMIN_ALL_SAFE_TASKS \<notin> pr_permissions (tlq_principal query)"
  shows "\<exists>p shown rest. list_tasks E scrub s channel query = Inr p
     \<and> int (length (tp_items p)) \<le> tlq_limit query \<and> map sm_task_id (tp_items p) = map tr_task_id shown
     \<and> newest_first s (own_task channel (tlq_principal query) (tlq_before_created_seq query)) (shown @ rest)
     \<and> (case tp_next_created_seq p of
          None \<Rightarrow> rest = []
        | Some c \<Rightarrow> newest_first s (own_task channel (tlq_principal query) (Some c)) rest)"
proof -
  have inv: "tasks_inv E s" "seqs_inv s"
    using reachable_inv [OF assms(2,1)] by (simp_all add: run_inv_def store_inv_def)
  let ?own = "own_records s channel (tlq_principal query)"
  obtain p where p: "list_tasks E scrub s channel query = Inr p" "int (length (tp_items p)) \<le> tlq_limit query"
      "map sm_task_id (tp_items p) @ map tr_task_id (case tp_next_created_seq p of None \<Rightarrow> [] | Some c \<Rightarrow> ?own (Some c))
       = map tr_task_id (?own (tlq_before_created_seq query))"
  proof -
    have v: "own_visible s channel q b = map tr_task_id (own_records s channel q b)" for q b
      by (simp add: own_visible_def own_records_def)
    have m: "(case c of None \<Rightarrow> [] | Some b \<Rightarrow> map tr_task_id (?own (Some b)))
        = map tr_task_id (case c of None \<Rightarrow> [] | Some b \<Rightarrow> ?own (Some b))" for c
      by (simp split: option.split)
    show thesis
      using own_list_prefix [OF assms, of channel, unfolded v m] that by blast
  qed
  let ?rest = "case tp_next_created_seq p of None \<Rightarrow> [] | Some c \<Rightarrow> ?own (Some c)"
  obtain shown where shown: "?own (tlq_before_created_seq query) = shown @ ?rest"
      "map tr_task_id shown = map sm_task_id (tp_items p)"
    using own_suffix [OF inv p(3)] by blast
  note own = own_newest_first [OF inv, of channel "tlq_principal query"]
  have "newest_first s (own_task channel (tlq_principal query) (tlq_before_created_seq query)) (shown @ ?rest)"
    using own [of "tlq_before_created_seq query"] unfolding shown(1) .
  moreover have "case tp_next_created_seq p of None \<Rightarrow> ?rest = []
      | Some c \<Rightarrow> newest_first s (own_task channel (tlq_principal query) (Some c)) ?rest"
    using own by (simp split: option.split)
  ultimately show ?thesis using p(1,2) shown(2) by metis
qed

lemma sorted_wrt_strict_distinct:
  "sorted_wrt (\<lambda>x y. tr_created_seq y < tr_created_seq x) rs \<Longrightarrow> distinct rs"
  by (induction rs) auto

lemma the_only:
  assumes "set xs = {x}" "distinct xs"
  shows "xs = [x]"
proof (cases xs)
  case (Cons y ys)
  then have "y = x" using assms(1) by auto
  moreover have "ys = []" using assms Cons by (cases ys) auto
  ultimately show ?thesis using Cons by simp
qed (use assms in simp)

definition demo_reader :: principal where
  "demo_reader = \<lparr>pr_tenant_id = ''acme'', pr_environment_id = ''prod'', pr_actor = ''ann'', pr_source = SRC_FEISHU,
     pr_subject_ref = ''ou-7'', pr_permissions = {VIEW_SAFE_TASK}\<rparr>"

lemma demo_first_reachable: "(store_step demo_env 3)\<^sup>*\<^sup>* empty_store demo_first"
proof (rule r_into_rtranclp)
  show "store_step demo_env 3 empty_store demo_first"
    using store_stepI [of empty_store "OpCreate demo_submission ''t1''" demo_env 3]
    by (simp add: demo_create) (simp add: empty_store_def)
qed

theorem own_list_is_complete_witness:
  "\<exists>p (rest :: task_record list). list_tasks demo_env (\<lambda>t. t) demo_first empty_channel
       \<lparr>tlq_principal = demo_reader, tlq_before_created_seq = None, tlq_limit = 1\<rparr> = Inr p
     \<and> map sm_task_id (tp_items p) @ map tr_task_id rest = [''t1'']"
proof -
  let ?q = "\<lparr>tlq_principal = demo_reader, tlq_before_created_seq = None, tlq_limit = 1\<rparr>"
  have "task_list_query_ok ?q" by (simp add: task_list_query_ok_def)
  moreover have "\<forall>k sub. dget (st_submissions demo_first) k = Some sub \<longrightarrow> task_submission_ok sub"
    by (auto simp: demo_first_def conversation_submission_ok_def demo_submission_def request_envelope_ok_def
        demo_envelope_def request_context_ok_def demo_context_def char_len_def split: if_splits)
  ultimately obtain p shown rest where p: "list_tasks demo_env (\<lambda>t. t) demo_first empty_channel ?q = Inr p"
      "map sm_task_id (tp_items p) = map tr_task_id shown"
      "newest_first demo_first (own_task empty_channel demo_reader None) (shown @ rest)"
    using own_list_is_complete [OF demo_env_ok demo_first_reachable, of ?q "\<lambda>t. t" empty_channel]
    by (auto simp: demo_reader_def)
  have only: "own_task empty_channel demo_reader None r \<and> (\<exists>k. dget (st_tasks demo_first) k = Some r)
      \<longleftrightarrow> r = demo_created" for r
    by (auto simp: own_task_def in_scope_def demo_first_def demo_created_def demo_reader_def group_bound_def
        binding_of_task_def empty_channel_def)
  have "set (shown @ rest) = {demo_created}"
    using p(3) only unfolding newest_first_def by blast
  moreover have "distinct (shown @ rest)"
    using p(3) sorted_wrt_strict_distinct unfolding newest_first_def by blast
  ultimately have "shown @ rest = [demo_created]" by (rule the_only)
  then have "map tr_task_id (shown @ rest) = [''t1'']" by (simp only: list.map) (simp add: demo_created_def)
  with p(1,2) have "map sm_task_id (tp_items p) @ map tr_task_id rest = [''t1'']" by simp
  show ?thesis by (rule exI [of _ p], rule exI [of _ rest]) (simp only: p(1) \<open>map sm_task_id (tp_items p) @ map tr_task_id rest = [''t1'']\<close> simp_thms)
qed

end
