(* ===== verification/Spec2Isabelle.thy ===== *)
theory Spec2Isabelle
  imports Attempt_Claims Insert_Claims Contract_Claims Governance_Claims Sql_Claims Runner_Claims
    Admin_Claims Task_Access_Claims
begin

text \<open>
  Xiaowei Agent is a policy-governed agent for read-only operations work. Users submit requests
  over the web, Feishu or an API; each becomes a task whose life cycle, plan, approvals, step
  journal, evidence and audit events are facts of a persistent store. Workers claim tasks with
  leases and fencing tokens, compile a plan, run its steps through a tool gateway and commit the
  results. This development models the core the rest relies on: the contracts, the fingerprints,
  and the persistent stores with their concurrency rules. Paths below are under
  \<open>src/src/xiaowei_agent/\<close>.

  Theories, in the order of the code.
  \<^item> \<open>Prelude\<close>: dictionaries as association lists, results as sums, revalidation of copied
    contracts, strict strings and identifiers (\<open>contracts/base.py\<close>, \<open>contracts/ids.py\<close>).
  \<^item> \<open>Canonical_Json\<close>, \<open>Plan_Contracts\<close>, \<open>Fingerprints\<close>: \<open>planning/canonical.py\<close> over
    \<open>contracts/plan.py\<close>, \<open>target.py\<close> and \<open>tool.py\<close>. The serialiser is shown injective, so that the
    fingerprints determine what they fingerprint.
  \<^item> \<open>Task_Contracts\<close>, \<open>Task_Records\<close>: the records and validators of \<open>contracts/\<close>.
  \<^item> \<open>Task_Decisions\<close>, \<open>Task_Digests\<close>, \<open>Task_Commands\<close>: \<open>persistence/decisions.py\<close> and
    \<open>persistence/store.py\<close>; \<open>store_state\<close> is \<open>InMemoryPersistenceState\<close> (\<open>persistence/memory.py\<close>).
  \<^item> \<open>Task_Store\<close>: every operation of \<open>InMemoryTaskStore\<close> (\<open>persistence/fake.py\<close>).
  \<^item> \<open>Insert_Once\<close>: the plan, evidence, clarification and model artifact stores, as instances of
    one contract (locale \<open>insert_once\<close>).
  \<^item> \<open>Task_Invariants\<close>, \<open>Task_Invariants2\<close>: what each operation does to the task facts and that it
    keeps the invariants.
  \<^item> \<open>Fencing\<close>: the contracts \<open>fenced_store\<close>, \<open>leased_store\<close> and \<open>versioned_store\<close>;
    \<open>Task_Runs\<close>: runs of the task store as a step relation, the abstract life cycle, and the
    interpretations of \<open>leased_store\<close> and \<open>versioned_store\<close>.
  \<^item> \<open>Channel_Contracts\<close>, \<open>Channel_Store\<close>: \<open>persistence/channel.py\<close> and \<open>InMemoryChannelStore\<close>;
    \<open>Indexed\<close>: a table with an index on a key; \<open>Channel_Runs\<close>: effects, invariant and runs of the
    channel store, with the interpretations of \<open>fenced_store\<close> (delivery claims) and
    \<open>insert_once\<close> (source events).
  \<^item> \<open>Governance_Contracts\<close>: capability declarations, effect derivation, policy, approval binding
    and product roles (\<open>contracts/capability.py\<close>, \<open>capabilities/effect.py\<close>, \<open>governance/\<close>);
    \<open>Step_Admission\<close>: \<open>governance/admission.py\<close> and the six stages of
    \<open>governance/step_admission.py\<close>; \<open>Tool_Gateway\<close>: \<open>tools/gateway.py\<close>, whose result is paired with
    the adapter call it made, if any; \<open>Runner_Admission\<close>: the call the runner of
    \<open>runners/deterministic.py\<close> builds for a step and its admission, and the shipped capabilities,
    profiles and policy. The query guards and the approval gate are arguments of the admission, the
    laws of the gate are the locale \<open>approval_contract\<close>, and an adapter is an argument of the
    gateway. \<open>admit_step\<close> compares the call with the request, not with the step: that is the work of
    \<open>build_call\<close>, so soundness of an executed call is stated of \<open>runner_admit\<close>.
  \<^item> \<open>Sql_Tokens\<close>, \<open>Sql_Scan\<close>: \<open>governance/sql_tokens.py\<close>, its lexical grammar, and that a scan is
    the cutting of the text the grammar gives; \<open>Readonly_Statements\<close>, \<open>Statement_Grammar\<close>:
    \<open>governance/readonly_statements.py\<close>, the derivations of its patterns, and that the matcher
    yields exactly them; \<open>Sql_Defects\<close>: the lexical defects of a text, stated on its characters, and
    that the scanner reports exactly them. \<open>unicodedata.category\<close> and \<open>str.upper\<close> are written out, for Python 3.11.
  \<^item> \<open>Step_Runner\<close>: the runner of \<open>runners/deterministic.py\<close> with the durable sink of
    \<open>observability/durable_sink.py\<close>, as coroutines over the task store. At every \<open>await\<close> the
    environment moves first: in a lawful one, by any run of the store. \<open>Runner_Runs\<close>: which
    coroutines execute no adapter, what one step and the loop may do; \<open>Runner_Demo\<close>: a run that
    executes a read and a run that adopts a committed step. The evidence builder and the disclosure
    projection of a capability are arguments of the runner.
  \<^item> \<open>Effects\<close>: operations as functions of the state, and what they keep; \<open>Identity_Contracts\<close>,
    \<open>Audit_Contracts\<close>, \<open>Session_Contracts\<close>: \<open>contracts/identity.py\<close>, \<open>activation.py\<close>,
    \<open>admin_audit.py\<close>, \<open>web_navigation.py\<close> and the rules of \<open>persistence/identity.py\<close>,
    \<open>admin_audit.py\<close>, \<open>activation.py\<close>, \<open>local_admin.py\<close>, \<open>web_session.py\<close>; \<open>Identity_Store\<close>,
    \<open>Directory_Store\<close>, \<open>Directory_Apply\<close>, \<open>Session_Store\<close>: the in-memory user directory, audit
    trail, activation requests, local administrator and web sessions of \<open>persistence/fake.py\<close>.
  \<^item> \<open>Identity_Effects\<close>, \<open>Identity_Invariants\<close>, \<open>Identity_Handlers\<close>, \<open>Session_Invariants\<close>,
    \<open>Activation_Runs\<close>: what each of their operations does and that it keeps the invariant;
    \<open>Identity_Runs\<close>, \<open>Identity_Trail\<close>, \<open>Identity_Spent\<close>: runs, their audit trail, and the contract
    \<open>spent_for_good\<close>, interpreted for OAuth states, sessions and activation decisions.
  \<^item> \<open>Admin_Service\<close>: the services over the directory, \<open>application/identity_activation.py\<close> and
    \<open>application/admin_identity.py\<close>, with the pages of \<open>contracts/admin_identity.py\<close>; \<open>Task_Access\<close>:
    \<open>application/channel_access.py\<close>, who may read which task. A service awaits a store more than
    once: what others do in between is an argument, or each read has a state of its own.
  \<^item> \<open>Task_Demo\<close>, \<open>Identity_Demo\<close>: concrete stores for the witnesses.
  \<^item> \<open>Task_Claims\<close>, \<open>Task_Claims2\<close>, \<open>Journal_Claims\<close>, \<open>Attempt_Claims\<close>, \<open>Paging_Claims\<close>,
    \<open>Insert_Claims\<close>, \<open>Contract_Claims\<close>, \<open>Channel_Claims\<close>,
    \<open>Governance_Claims\<close>, \<open>Sql_Claims\<close>, \<open>Runner_Claims\<close>, \<open>Identity_Claims\<close>,
    \<open>Admin_Claims\<close>, \<open>Task_Access_Claims\<close>: the properties.

  What the properties are stated with is defined apart from the operations they are about: the
  life-cycle machines (\<open>Task_Runs\<close>, \<open>Channel_Runs\<close>), the lists a page must show (\<open>newest_first\<close>,
  \<open>in_scope\<close>, \<open>own_task\<close>), the snapshot a task detail must be (\<open>snapshot_of\<close>), what a step may execute and
  when its condition is met (\<open>sound_execution\<close>, \<open>rows_below\<close>), which event gives a right (\<open>on_record\<close>),
  the lexical grammar and the defects of a text (\<open>lexes\<close>, \<open>lexical_defect\<close>). Facts that stay for good
  are carried over runs by one lemma (\<open>run_kept\<close>: plans and SQL artifacts; \<open>journal_kept\<close>: committed
  steps), so a property may name an operation and what a later one sees of it.

  Conventions. A Python string is its UTF-8 byte list. An aware datetime is the number of
  microseconds of its instant; its zone is not kept. A dictionary is an association list in
  insertion order. Readings of the clock, fresh UUIDs and fresh references are arguments, one for
  each time the code takes one (in the runner, fields of its environment). An exception is an
  \<open>Inl\<close> value, beside the state as the code has left it by then. Each store operation runs under the store lock and is one atomic step; a run is
  any sequence of operations with any arguments, so it covers every interleaving of workers.
  SHA-256, Unicode NFC, \<open>repr\<close> of floats and the printed forms of datetimes are the fields of
  \<open>py_env\<close>; \<open>py_env_ok\<close> states what is used of them (NFC is idempotent and fixes ASCII, a digest is
  64 hex digits, the text of a float is injective and is a JSON number), and \<open>demo_env_ok\<close> shows it
  can hold. Loops are structural recursions or have a measure, so no fuel is needed; the worklist of
  a repetition is a \<open>while_option\<close>, which is shown to end.

  Not modelled. Redaction of secrets in confirmed text and in trace details (regular expressions
  over free text; a function of the text in \<open>Task_Access\<close>); the projection of a task to its view,
  an argument of the reads; the Postgres store, whose SQL rests on a database that is not in the
  repository, though it shares the decision rules and digests modelled here; the web, Feishu and
  model provider interfaces, configuration files and process start, which are input and output;
  the SQL and PromQL guards, which walk syntax trees of a third-party parser.
\<close>

end
